(* ===== verification/Prelude.thy ===== *)
theory Prelude
  imports Main "HOL-Library.Sublist"
begin

text \<open>
  The shared layer of the development: Go errors as values, times and durations, the Go string
  functions the panel uses, SQL-style operations on tables (lists of rows), sequences of
  statements that stop at the first error, and the rules by which the component theories show
  that an operation keeps an invariant.  Nothing here is specific to one component.
\<close>

section \<open>Collections of rules\<close>

named_theorems table_simps "equations of the table operations"
named_theorems sat_intros "rules that push a postcondition through an operation"

section \<open>Errors\<close>

text \<open>
  A Go \<open>error\<close> value: the sentinels of \<open>internal/store/store.go\<close>, the
  \<open>pgx.ErrNoRows\<close> of the driver, a constraint violation reported by PostgreSQL,
  \<open>errors.New\<close>, \<open>fmt.Errorf\<close> with one \<open>%w\<close> (text before, wrapped error,
  text after) and the worker's \<open>retryableError\<close> with its delay in nanoseconds.
\<close>

datatype error =
    ErrNotFound
  | ErrUnauthorized
  | ErrInviteInvalid
  | ErrAlreadyClaimed
  | ErrMFARequired
  | ErrConflict
  | ErrNoRows
  | Constraint string
  | Message string
  | Wrap string error string
  | Retryable error int

text \<open>\<open>err.Error()\<close>.\<close>

fun error_text :: "error \<Rightarrow> string" where
  "error_text ErrNotFound = ''not found''"
| "error_text ErrUnauthorized = ''unauthorized''"
| "error_text ErrInviteInvalid = ''invite is invalid, expired, revoked, or already used''"
| "error_text ErrAlreadyClaimed = ''installation owner has already been claimed''"
| "error_text ErrMFARequired = ''discord MFA is required by panel policy''"
| "error_text ErrConflict = ''resource conflict''"
| "error_text ErrNoRows = ''no rows in result set''"
| "error_text (Constraint c) = c"
| "error_text (Message m) = m"
| "error_text (Wrap pre e post) = pre @ error_text e @ post"
| "error_text (Retryable e d) = error_text e"

text \<open>\<open>errors.Is(err, target)\<close> for a sentinel target: the chain of \<open>Unwrap\<close>s.\<close>

fun error_is :: "error \<Rightarrow> error \<Rightarrow> bool" where
  "error_is (Wrap pre e post) t = (Wrap pre e post = t \<or> error_is e t)"
| "error_is (Retryable e d) t = (Retryable e d = t \<or> error_is e t)"
| "error_is e t = (e = t)"

lemma error_is_refl [simp]: "error_is e e"
  by (cases e) auto

section \<open>Time\<close>

text \<open>
  Timestamps of the database are microseconds since the epoch (PostgreSQL's resolution), Go
  durations are nanoseconds.  \<open>interval_of\<close> is \<open>fmt.Sprintf("%f seconds", d.Seconds())\<close> read
  by PostgreSQL as an interval: six decimals, that is whole microseconds.  The durations the
  code formats this way are whole seconds or clamped to at least one second.
\<close>

type_synonym time = int
type_synonym duration = int
type_synonym uuid = string

definition second :: duration where "second = 1000000000"
definition minute :: duration where "minute = 60 * second"
definition hour :: duration where "hour = 60 * minute"

definition interval_of :: "duration \<Rightarrow> int" where
  "interval_of d = (d + 500) div 1000"

lemma interval_of_mono: "a \<le> b \<Longrightarrow> interval_of a \<le> interval_of b"
  by (simp add: interval_of_def zdiv_mono1)

lemma interval_of_seconds: "interval_of (n * second) = n * 1000000"
proof -
  have "(n * 1000000000 + 500) div 1000 = (500 + (n * 1000000) * 1000) div (1000::int)"
    by (simp add: algebra_simps)
  also have "\<dots> = n * 1000000 + 500 div 1000"
    by (rule div_mult_self1) simp
  finally show ?thesis by (simp add: interval_of_def second_def)
qed

definition seconds :: "int \<Rightarrow> int" where "seconds n = n * 1000000"
definition minutes :: "int \<Rightarrow> int" where "minutes n = n * 60000000"
definition days :: "int \<Rightarrow> int" where "days n = n * 86400000000"

lemmas time_defs = second_def minute_def hour_def interval_of_def seconds_def minutes_def days_def

section \<open>Go strings\<close>

text \<open>
  Strings are byte strings, as Go's are.  White space and letter case are those of ASCII.
\<close>

definition is_space :: "char \<Rightarrow> bool" where
  "is_space c \<longleftrightarrow> c \<in> {CHR 0x09, CHR 0x0A, CHR 0x0B, CHR 0x0C, CHR 0x0D, CHR 0x20}"

definition trim_left :: "string \<Rightarrow> string" where "trim_left s = dropWhile is_space s"

definition trim_space :: "string \<Rightarrow> string" where
  "trim_space s = rev (trim_left (rev (trim_left s)))"

definition trim_prefix :: "string \<Rightarrow> string \<Rightarrow> string" where
  "trim_prefix p s = (if prefix p s then drop (length p) s else s)"

definition truncate_to :: "nat \<Rightarrow> string \<Rightarrow> string" where
  "truncate_to n s = (if length s \<le> n then s else take n s)"

definition to_lower_char :: "char \<Rightarrow> char" where
  "to_lower_char c =
     (let n = of_char c :: nat in if 65 \<le> n \<and> n \<le> 90 then char_of (n + 32) else c)"

definition to_lower :: "string \<Rightarrow> string" where "to_lower s = map to_lower_char s"

definition to_upper_char :: "char \<Rightarrow> char" where
  "to_upper_char c =
     (let n = of_char c :: nat in if 97 \<le> n \<and> n \<le> 122 then char_of (n - 32) else c)"

definition to_upper :: "string \<Rightarrow> string" where "to_upper s = map to_upper_char s"

text \<open>\<open>strings.Fields\<close>: the maximal runs of non-space bytes.\<close>

function string_fields :: "string \<Rightarrow> string list" where
  "string_fields s =
     (case trim_left s of
        [] \<Rightarrow> []
      | c # cs \<Rightarrow>
          takeWhile (\<lambda>x. \<not> is_space x) (c # cs) # string_fields (dropWhile (\<lambda>x. \<not> is_space x) (c # cs)))"
  by pat_completeness auto

lemma trim_left_Cons: "trim_left s = c # cs \<Longrightarrow> \<not> is_space c \<and> length (c # cs) \<le> length s"
proof -
  assume eq: "trim_left s = c # cs"
  then have "\<not> is_space c" unfolding trim_left_def by (simp add: dropWhile_eq_Cons_conv)
  moreover have "length (trim_left s) \<le> length s"
    unfolding trim_left_def by (rule length_dropWhile_le)
  ultimately show ?thesis by (simp add: eq)
qed

termination string_fields
proof (relation "measure length", goal_cases)
  case (2 s c cs)
  from trim_left_Cons [OF 2] have c: "\<not> is_space c" "length cs < length s" by auto
  have "length (dropWhile (\<lambda>x. \<not> is_space x) cs) \<le> length cs"
    by (rule length_dropWhile_le)
  with c show ?case by simp
qed simp

declare string_fields.simps [simp del]

text \<open>\<open>strings.Split(s, sep)\<close> for a one-byte separator.\<close>

fun split_char :: "char \<Rightarrow> string \<Rightarrow> string list" where
  "split_char c [] = [[]]"
| "split_char c (x # xs) =
     (if x = c then [] # split_char c xs
      else (case split_char c xs of [] \<Rightarrow> [[x]] | y # ys \<Rightarrow> (x # y) # ys))"

lemma split_char_nonempty [simp]: "split_char c s \<noteq> []"
  by (induction s) (auto split: list.splits)

text \<open>Decimal digits of a natural number and of an integer (\<open>strconv.Itoa\<close>).\<close>

fun nat_digits :: "nat \<Rightarrow> string" where
  "nat_digits n =
     (if n < 10 then [char_of (48 + n)] else nat_digits (n div 10) @ [char_of (48 + n mod 10)])"

declare nat_digits.simps [simp del]

definition itoa :: "int \<Rightarrow> string" where
  "itoa n = (if n < 0 then ''-'' @ nat_digits (nat (- n)) else nat_digits (nat n))"

lemma length_truncate_to: "length (truncate_to n s) \<le> n"
  by (simp add: truncate_to_def)

lemma truncate_to_prefix: "prefix (truncate_to n s) s"
  by (simp add: truncate_to_def take_is_prefix)

lemma truncate_to_short [simp]: "length s \<le> n \<Longrightarrow> truncate_to n s = s"
  by (simp add: truncate_to_def)

lemma trim_left_idem [simp]: "trim_left (trim_left s) = trim_left s"
  by (simp add: trim_left_def)

text \<open>
  The characters of a UTF-8 text are counted by the bytes that are not continuation bytes; this is
  PostgreSQL's \<open>length(text)\<close> and the length of \<open>[]rune(s)\<close> for valid UTF-8.
\<close>

definition is_continuation :: "char \<Rightarrow> bool" where
  "is_continuation c \<longleftrightarrow> (of_char c :: nat) div 64 = 2"

definition char_length :: "string \<Rightarrow> nat" where
  "char_length s = length (filter (\<lambda>c. \<not> is_continuation c) s)"

lemma char_length_le: "char_length s \<le> length s"
  by (simp add: char_length_def)

lemma char_length_append: "char_length (s @ t) = char_length s + char_length t"
  by (simp add: char_length_def)

text \<open>\<open>[A-Z_][A-Z0-9_]*\<close>, the names of environment variables.\<close>

definition upper_or_underscore :: "char \<Rightarrow> bool" where
  "upper_or_underscore c \<longleftrightarrow> c = CHR ''_'' \<or> (65 \<le> (of_char c :: nat) \<and> (of_char c :: nat) \<le> 90)"

definition is_digit :: "char \<Rightarrow> bool" where
  "is_digit c \<longleftrightarrow> 48 \<le> (of_char c :: nat) \<and> (of_char c :: nat) \<le> 57"

definition environment_name :: "string \<Rightarrow> bool" where
  "environment_name s \<longleftrightarrow>
     (case s of [] \<Rightarrow> False
      | c # cs \<Rightarrow> upper_or_underscore c \<and> list_all (\<lambda>x. upper_or_underscore x \<or> is_digit x) cs)"

section \<open>JSON documents\<close>

text \<open>
  The \<open>jsonb\<close> values the panel writes and reads back: payloads of outbox events, configurations
  of schedule tasks, data of activity events and canonical template documents.
\<close>

datatype json =
    JNull
  | JBool bool
  | JNum int
  | JStr string
  | JArr "json list"
  | JObj "(string \<times> json) list"

fun json_field :: "json \<Rightarrow> string \<Rightarrow> json option" where
  "json_field (JObj kvs) k = map_of kvs k"
| "json_field _ k = None"

text \<open>
  \<open>json.Unmarshal\<close> into a struct field: an absent field or \<open>null\<close> leaves the zero value, a
  value of another kind is a decoding error; a document that is not an object is an error.
\<close>

definition decode_error :: error where
  "decode_error = Message ''json: cannot unmarshal value into Go struct field''"

definition json_string :: "json \<Rightarrow> string \<Rightarrow> error + string" where
  "json_string j k =
     (case j of JObj kvs \<Rightarrow>
        (case map_of kvs k of
           None \<Rightarrow> Inr [] | Some JNull \<Rightarrow> Inr [] | Some (JStr s) \<Rightarrow> Inr s | Some _ \<Rightarrow> Inl decode_error)
      | JNull \<Rightarrow> Inr []
      | _ \<Rightarrow> Inl decode_error)"

definition json_int :: "json \<Rightarrow> string \<Rightarrow> error + int" where
  "json_int j k =
     (case j of JObj kvs \<Rightarrow>
        (case map_of kvs k of
           None \<Rightarrow> Inr 0 | Some JNull \<Rightarrow> Inr 0 | Some (JNum n) \<Rightarrow> Inr n | Some _ \<Rightarrow> Inl decode_error)
      | JNull \<Rightarrow> Inr 0
      | _ \<Rightarrow> Inl decode_error)"

definition json_bool :: "json \<Rightarrow> string \<Rightarrow> error + bool" where
  "json_bool j k =
     (case j of JObj kvs \<Rightarrow>
        (case map_of kvs k of
           None \<Rightarrow> Inr False | Some JNull \<Rightarrow> Inr False | Some (JBool b) \<Rightarrow> Inr b
         | Some _ \<Rightarrow> Inl decode_error)
      | JNull \<Rightarrow> Inr False
      | _ \<Rightarrow> Inl decode_error)"

definition json_int_opt :: "json \<Rightarrow> string \<Rightarrow> error + int option" where
  "json_int_opt j k =
     (case j of JObj kvs \<Rightarrow>
        (case map_of kvs k of
           None \<Rightarrow> Inr None | Some JNull \<Rightarrow> Inr None | Some (JNum n) \<Rightarrow> Inr (Some n)
         | Some _ \<Rightarrow> Inl decode_error)
      | JNull \<Rightarrow> Inr None
      | _ \<Rightarrow> Inl decode_error)"

fun json_string_elems :: "json list \<Rightarrow> error + string list" where
  "json_string_elems [] = Inr []"
| "json_string_elems (JStr s # js) = map_sum id (Cons s) (json_string_elems js)"
| "json_string_elems (JNull # js) = map_sum id (Cons []) (json_string_elems js)"
| "json_string_elems (_ # js) = Inl decode_error"

definition json_strings :: "json \<Rightarrow> string \<Rightarrow> error + string list" where
  "json_strings j k =
     (case j of JObj kvs \<Rightarrow>
        (case map_of kvs k of
           None \<Rightarrow> Inr [] | Some JNull \<Rightarrow> Inr [] | Some (JArr js) \<Rightarrow> json_string_elems js
         | Some _ \<Rightarrow> Inl decode_error)
      | JNull \<Rightarrow> Inr []
      | _ \<Rightarrow> Inl decode_error)"

definition jopt :: "string option \<Rightarrow> json" where
  "jopt s = (case s of None \<Rightarrow> JNull | Some x \<Rightarrow> JStr x)"

section \<open>Tables\<close>

text \<open>
  A table is the list of its rows in insertion order.  \<open>upd p f\<close> is \<open>UPDATE ... SET f WHERE p\<close>,
  \<open>del p\<close> is \<open>DELETE ... WHERE p\<close>, \<open>affected p\<close> the number of rows a statement touches,
  \<open>order_by\<close> a stable \<open>ORDER BY\<close>, \<open>find\<close> of the list library a query for at most one row.
\<close>

definition upd :: "('r \<Rightarrow> bool) \<Rightarrow> ('r \<Rightarrow> 'r) \<Rightarrow> 'r list \<Rightarrow> 'r list" where
  "upd p f t = map (\<lambda>r. if p r then f r else r) t"

definition del :: "('r \<Rightarrow> bool) \<Rightarrow> 'r list \<Rightarrow> 'r list" where
  "del p t = filter (\<lambda>r. \<not> p r) t"

definition affected :: "('r \<Rightarrow> bool) \<Rightarrow> 'r list \<Rightarrow> nat" where
  "affected p t = length (filter p t)"

definition order_by :: "('r \<Rightarrow> int) \<Rightarrow> 'r list \<Rightarrow> 'r list" where
  "order_by k t = sort_key k t"

lemma upd_Nil [simp]: "upd p f [] = []" by (simp add: upd_def)

lemma upd_Cons [simp]: "upd p f (r # t) = (if p r then f r else r) # upd p f t"
  by (simp add: upd_def)

lemma upd_append [table_simps]: "upd p f (s @ t) = upd p f s @ upd p f t"
  by (simp add: upd_def)

lemma length_upd [simp]: "length (upd p f t) = length t"
  by (simp add: upd_def)

lemma set_upd [table_simps]: "set (upd p f t) = (\<lambda>r. if p r then f r else r) ` set t"
  by (simp add: upd_def)

lemma map_upd [table_simps]:
  assumes "\<And>r. r \<in> set t \<Longrightarrow> p r \<Longrightarrow> k (f r) = k r"
  shows "map k (upd p f t) = map k t"
  using assms by (auto simp: upd_def)

lemma ball_upd: "(\<And>r. r \<in> set t \<Longrightarrow> q r \<Longrightarrow> p r \<Longrightarrow> q (f r)) \<Longrightarrow> \<forall>r \<in> set t. q r \<Longrightarrow> \<forall>r \<in> set (upd p f t). q r"
  by (auto simp: upd_def)

lemma upd_none: "\<forall>r \<in> set t. \<not> p r \<Longrightarrow> upd p f t = t"
  by (simp add: upd_def map_idI)

lemma set_del [table_simps]: "set (del p t) = {r \<in> set t. \<not> p r}"
  by (simp add: del_def)

lemma ball_del: "\<forall>r \<in> set t. q r \<Longrightarrow> \<forall>r \<in> set (del p t). q r"
  by (simp add: del_def)

lemma distinct_map_del: "distinct (map k t) \<Longrightarrow> distinct (map k (del p t))"
  by (simp add: del_def distinct_map_filter)

lemma affected_0: "affected p t = 0 \<longleftrightarrow> (\<forall>r \<in> set t. \<not> p r)"
  by (simp add: affected_def filter_empty_conv)

lemma affected_pos: "0 < affected p t \<longleftrightarrow> (\<exists>r \<in> set t. p r)"
  using affected_0 [of p t] by auto

lemma affected_key_le_1: "distinct (map k t) \<Longrightarrow> affected (\<lambda>r. k r = x \<and> p r) t \<le> 1"
proof (induction t)
  case Nil
  then show ?case by (simp add: affected_def)
next
  case (Cons r t)
  show ?case
  proof (cases "k r = x \<and> p r")
    case True
    with Cons.prems have "\<forall>r' \<in> set t. k r' \<noteq> x" by (auto simp: rev_image_eqI)
    then have "filter (\<lambda>r. k r = x \<and> p r) t = []" by (simp add: filter_empty_conv)
    with True show ?thesis by (simp add: affected_def)
  next
    case False
    with Cons show ?thesis by (auto simp: affected_def)
  qed
qed

lemma set_order_by [simp]: "set (order_by k t) = set t"
  by (simp add: order_by_def)

lemma order_by_Nil: "order_by k t = [] \<longleftrightarrow> t = []"
  unfolding order_by_def by (metis length_0_conv length_sort)

lemma order_by_hd:
  assumes "order_by k t = r # rs"
  shows "r \<in> set t \<and> (\<forall>x \<in> set t. k r \<le> k x)"
proof -
  have srt: "sorted (map k (order_by k t))" by (simp add: order_by_def)
  have "set (r # rs) = set t" using assms set_order_by [of k t] by simp
  with srt assms show ?thesis by auto
qed

lemma find_SomeD: "find p t = Some r \<Longrightarrow> r \<in> set t \<and> p r"
  by (metis find_Some_iff nth_mem)

lemma find_NoneD: "find p t = None \<Longrightarrow> x \<in> set t \<Longrightarrow> \<not> p x"
  by (metis find_None_iff)

lemma find_upd: "(\<And>r. p (f r) = p r) \<Longrightarrow> find p (upd p f t) = map_option f (find p t)"
  by (induction t) auto

lemma find_key:
  assumes "distinct (map k t)" and "r \<in> set t" and "k r = x"
  shows "find (\<lambda>r. k r = x) t = Some r"
  using assms by (induction t) (auto simp: rev_image_eqI)

lemma distinct_key_eq: "distinct (map k t) \<Longrightarrow> a \<in> set t \<Longrightarrow> b \<in> set t \<Longrightarrow> k a = k b \<Longrightarrow> a = b"
  by (meson distinct_map inj_onD)

section \<open>Statements and postconditions\<close>

text \<open>
  A statement maps a state to an error or a new state.  A transaction body is a list of
  statements; the first error ends it, and since the error carries no state, nothing of an
  aborted transaction is visible afterwards.
\<close>

type_synonym 's stmt = "'s \<Rightarrow> error + 's"

fun exec :: "'s stmt list \<Rightarrow> 's stmt" where
  "exec [] s = Inr s"
| "exec (c # cs) s = (case c s of Inl e \<Rightarrow> Inl e | Inr s' \<Rightarrow> exec cs s')"

declare exec.simps [simp del]

lemma exec_Nil [simp]: "exec [] s = Inr s"
  by (simp add: exec.simps)

lemma exec_Cons_Inr: "exec (c # cs) s = Inr s' \<longleftrightarrow> (\<exists>s1. c s = Inr s1 \<and> exec cs s1 = Inr s')"
  by (auto simp: exec.simps split: sum.splits)

definition skip :: "'s stmt" where "skip s = Inr s"

text \<open>\<open>fmt.Errorf("...: %w", err)\<close> around the error of a statement.\<close>

definition labelled :: "string \<Rightarrow> 's stmt \<Rightarrow> 's stmt" where
  "labelled pre c s = (case c s of Inl e \<Rightarrow> Inl (Wrap pre e '''') | Inr s' \<Rightarrow> Inr s')"

text \<open>The value an operation returns beside the committed state.\<close>

definition ret :: "'a \<Rightarrow> error + 's \<Rightarrow> error + ('a \<times> 's)" where
  "ret x r = (case r of Inl e \<Rightarrow> Inl e | Inr s \<Rightarrow> Inr (x, s))"

text \<open>A loop of the code over a list, one statement per element.\<close>

fun for_each :: "('a \<Rightarrow> 's stmt) \<Rightarrow> 'a list \<Rightarrow> 's stmt" where
  "for_each c [] s = Inr s"
| "for_each c (x # xs) s = (case c x s of Inl e \<Rightarrow> Inl e | Inr s' \<Rightarrow> for_each c xs s')"

text \<open>Statements that commit one by one: the first error ends the run, what was done stays.\<close>

fun autocommit :: "'s stmt list \<Rightarrow> 's \<Rightarrow> error option \<times> 's" where
  "autocommit [] s = (None, s)"
| "autocommit (c # cs) s = (case c s of Inl e \<Rightarrow> (Some e, s) | Inr s' \<Rightarrow> autocommit cs s')"

text \<open>\<open>sat q r\<close>: if \<open>r\<close> is a success, its value satisfies \<open>q\<close>.\<close>

definition sat :: "('v \<Rightarrow> bool) \<Rightarrow> error + 'v \<Rightarrow> bool" where
  "sat q r \<longleftrightarrow> (\<forall>v. r = Inr v \<longrightarrow> q v)"

definition preserves :: "('s \<Rightarrow> bool) \<Rightarrow> 's stmt \<Rightarrow> bool" where
  "preserves i c \<longleftrightarrow> (\<forall>s. i s \<longrightarrow> sat i (c s))"

lemma satI: "(\<And>v. r = Inr v \<Longrightarrow> q v) \<Longrightarrow> sat q r"
  by (simp add: sat_def)

lemma satD: "sat q r \<Longrightarrow> r = Inr v \<Longrightarrow> q v"
  by (simp add: sat_def)

lemma sat_mono: "sat p r \<Longrightarrow> (\<And>v. p v \<Longrightarrow> q v) \<Longrightarrow> sat q r"
  by (simp add: sat_def)

lemma sat_Inl [simp, sat_intros]: "sat q (Inl e)"
  by (simp add: sat_def)

lemma sat_Inr [simp]: "sat q (Inr v) \<longleftrightarrow> q v"
  by (simp add: sat_def)

lemma sat_if [sat_intros]: "(b \<Longrightarrow> sat q x) \<Longrightarrow> (\<not> b \<Longrightarrow> sat q y) \<Longrightarrow> sat q (if b then x else y)"
  by simp

lemma sat_option [sat_intros]:
  "(m = None \<Longrightarrow> sat q x) \<Longrightarrow> (\<And>v. m = Some v \<Longrightarrow> sat q (y v)) \<Longrightarrow>
   sat q (case m of None \<Rightarrow> x | Some v \<Rightarrow> y v)"
  by (cases m) auto

lemma sat_sum [sat_intros]:
  "(\<And>e. m = Inl e \<Longrightarrow> sat q (x e)) \<Longrightarrow> (\<And>v. m = Inr v \<Longrightarrow> sat q (y v)) \<Longrightarrow>
   sat q (case m of Inl e \<Rightarrow> x e | Inr v \<Rightarrow> y v)"
  by (cases m) auto

lemma sat_let [sat_intros]: "(\<And>x. x = v \<Longrightarrow> sat q (f x)) \<Longrightarrow> sat q (let x = v in f x)"
  by simp

lemma sat_prod [sat_intros]: "(\<And>a b. p = (a, b) \<Longrightarrow> sat q (f a b)) \<Longrightarrow> sat q (case p of (a, b) \<Rightarrow> f a b)"
  by (cases p) auto

lemma sat_ret [simp]: "sat q (ret x r) \<longleftrightarrow> sat (\<lambda>s. q (x, s)) r"
  by (auto simp: sat_def ret_def split: sum.splits)

lemma ret_Inr [simp]: "ret x r = Inr (y, s) \<longleftrightarrow> x = y \<and> r = Inr s"
  by (auto simp: ret_def split: sum.splits)

lemma ret_Inl [simp]: "ret x r = Inl e \<longleftrightarrow> r = Inl e"
  by (auto simp: ret_def split: sum.splits)

lemma preservesD: "preserves i c \<Longrightarrow> i s \<Longrightarrow> c s = Inr s' \<Longrightarrow> i s'"
  by (auto simp: preserves_def sat_def)

lemma preserves_run: "preserves i c \<Longrightarrow> c s = Inr s' \<Longrightarrow> i s \<Longrightarrow> i s'"
  by (rule preservesD)

lemma preservesI: "(\<And>s s'. i s \<Longrightarrow> c s = Inr s' \<Longrightarrow> i s') \<Longrightarrow> preserves i c"
  by (auto simp: preserves_def sat_def)

lemma preserves_sat: "preserves i c \<Longrightarrow> i s \<Longrightarrow> sat i (c s)"
  by (simp add: preserves_def)

lemma preserves_skip [simp]: "preserves i skip"
  by (simp add: preserves_def skip_def)

lemma preserves_if [simp]:
  "(b \<Longrightarrow> preserves i c) \<Longrightarrow> (\<not> b \<Longrightarrow> preserves i d) \<Longrightarrow> preserves i (if b then c else d)"
  by simp

lemma sat_exec: "i s \<Longrightarrow> list_all (preserves i) cs \<Longrightarrow> sat i (exec cs s)"
proof (induction cs arbitrary: s)
  case Nil
  then show ?case by simp
next
  case (Cons c cs)
  show ?case
  proof (cases "c s")
    case (Inl e)
    then show ?thesis by (simp add: exec.simps)
  next
    case (Inr s')
    with Cons.prems have "i s'" by (auto dest: preservesD)
    with Inr Cons show ?thesis by (simp add: exec.simps)
  qed
qed

lemma preserves_exec: "list_all (preserves i) cs \<Longrightarrow> preserves i (exec cs)"
  by (simp add: preserves_def sat_exec)

lemma preserves_for_each:
  assumes "\<And>x. x \<in> set xs \<Longrightarrow> preserves i (c x)"
  shows "preserves i (for_each c xs)"
proof (rule preservesI)
  fix s s'
  assume "i s" and "for_each c xs s = Inr s'"
  with assms show "i s'"
  proof (induction xs arbitrary: s)
    case Nil
    then show ?case by simp
  next
    case (Cons x xs)
    from Cons.prems(3) obtain s1 where "c x s = Inr s1" "for_each c xs s1 = Inr s'"
      by (auto split: sum.splits)
    with Cons.prems show ?case
      by (intro Cons.IH [of s1]) (auto dest: preservesD)
  qed
qed

text \<open>The same for an operation that also returns a value.\<close>

definition preserves_op :: "('s \<Rightarrow> bool) \<Rightarrow> ('s \<Rightarrow> error + ('a \<times> 's)) \<Rightarrow> bool" where
  "preserves_op i f \<longleftrightarrow> (\<forall>s. i s \<longrightarrow> sat (\<lambda>v. i (snd v)) (f s))"

lemma preserves_opI: "(\<And>s. i s \<Longrightarrow> sat (\<lambda>v. i (snd v)) (f s)) \<Longrightarrow> preserves_op i f"
  by (simp add: preserves_op_def)

lemma sat_ret_exec [sat_intros]:
  "i s \<Longrightarrow> list_all (preserves i) cs \<Longrightarrow> sat (\<lambda>v. i (snd v)) (ret x (exec cs s))"
  by (simp add: sat_exec)

lemma preserves_opD: "preserves_op i f \<Longrightarrow> i s \<Longrightarrow> f s = Inr (x, s') \<Longrightarrow> i s'"
  by (auto simp: preserves_op_def sat_def)

lemma preserves_conj: "preserves i c \<Longrightarrow> preserves j c \<Longrightarrow> preserves (\<lambda>s. i s \<and> j s) c"
  by (auto simp: preserves_def sat_def)

lemma preserves_by_sat: "(\<And>s. i s \<Longrightarrow> sat i (c s)) \<Longrightarrow> preserves i c"
  by (simp add: preserves_def)

lemma preserves_labelled: "preserves i c \<Longrightarrow> preserves i (labelled pre c)"
  by (auto simp: preserves_def labelled_def sat_def split: sum.splits)

lemma labelled_Inr [simp]: "labelled pre c s = Inr s' \<longleftrightarrow> c s = Inr s'"
  by (auto simp: labelled_def split: sum.splits)

lemma preserves_dependent: "(\<And>s0. preserves i (c s0)) \<Longrightarrow> preserves i (\<lambda>s. c s s)"
  by (simp add: preserves_def)

text \<open>Total correctness: from every state in \<open>p\<close> the statement succeeds, in a state in \<open>q\<close>.\<close>

definition succeeds :: "('s \<Rightarrow> bool) \<Rightarrow> 's stmt \<Rightarrow> ('s \<Rightarrow> bool) \<Rightarrow> bool" where
  "succeeds p c q \<longleftrightarrow> (\<forall>s. p s \<longrightarrow> (\<exists>s'. c s = Inr s' \<and> q s'))"

lemma succeedsD: "succeeds p c q \<Longrightarrow> p s \<Longrightarrow> \<exists>s'. c s = Inr s' \<and> q s'"
  by (simp add: succeeds_def)

lemma succeeds_Nil: "succeeds p (exec []) p"
  by (simp add: succeeds_def)

lemma succeeds_Cons: "succeeds p c q \<Longrightarrow> succeeds q (exec cs) r \<Longrightarrow> succeeds p (exec (c # cs)) r"
  unfolding succeeds_def exec_Cons_Inr by blast

lemma succeeds_skip: "succeeds p skip p"
  by (simp add: succeeds_def skip_def)

lemma succeeds_if: "succeeds p c q \<Longrightarrow> succeeds p e q \<Longrightarrow> succeeds p (if b then c else e) q"
  by simp

text \<open>A quantity no statement of a list changes is unchanged at the end.\<close>

definition frames :: "('s \<Rightarrow> 'v) \<Rightarrow> 's stmt \<Rightarrow> bool" where
  "frames g c \<longleftrightarrow> (\<forall>s s'. c s = Inr s' \<longrightarrow> g s' = g s)"

lemma framesD: "frames g c \<Longrightarrow> c s = Inr s' \<Longrightarrow> g s' = g s"
  by (simp add: frames_def)

lemma frames_skip [simp]: "frames g skip"
  by (simp add: frames_def skip_def)

lemma frames_if [simp]: "frames g c \<Longrightarrow> frames g d \<Longrightarrow> frames g (if b then c else d)"
  by simp

lemma frames_exec: "list_all (frames g) cs \<Longrightarrow> exec cs s = Inr s' \<Longrightarrow> g s' = g s"
proof (induction cs arbitrary: s)
  case Nil
  then show ?case by simp
next
  case (Cons c cs)
  from Cons.prems obtain s1 where "c s = Inr s1" "exec cs s1 = Inr s'"
    by (auto simp: exec_Cons_Inr)
  with Cons show ?case by (auto dest: framesD)
qed

lemma frames_for_each:
  assumes "\<And>x. x \<in> set xs \<Longrightarrow> frames g (c x)" and "for_each c xs s = Inr s'"
  shows "g s' = g s"
  using assms
proof (induction xs arbitrary: s)
  case Nil
  then show ?case by simp
next
  case (Cons x xs)
  from Cons.prems(2) obtain s1 where s1: "c x s = Inr s1" "for_each c xs s1 = Inr s'"
    by (auto split: sum.splits)
  then have "g s' = g s1" using Cons by auto
  also have "\<dots> = g s" using s1 Cons.prems(1) by (auto dest: framesD)
  finally show ?case .
qed

section \<open>Drawing identifiers in a loop\<close>

text \<open>
  Where the code draws a number of identifiers that depends on the data, the operation takes the
  list of the identifiers it will get; a statement over the pair of the state and the identifiers
  left either uses none (\<open>lift_stmt\<close>) or the next one (\<open>with_id\<close>).  An exhausted list is the
  error of a failed read of the random source.
\<close>

definition lift_stmt :: "'s stmt \<Rightarrow> ('s \<times> uuid list) stmt" where
  "lift_stmt c = (\<lambda>(s, ids). case c s of Inl e \<Rightarrow> Inl e | Inr s' \<Rightarrow> Inr (s', ids))"

definition with_id :: "(uuid \<Rightarrow> 's stmt) \<Rightarrow> ('s \<times> uuid list) stmt" where
  "with_id c = (\<lambda>(s, ids). case ids of
       [] \<Rightarrow> Inl (Message ''generate uuid'')
     | i # rest \<Rightarrow> (case c i s of Inl e \<Rightarrow> Inl e | Inr s' \<Rightarrow> Inr (s', rest)))"

text \<open>The state of such a run once the identifiers are dropped.\<close>

definition state_of :: "error + ('s \<times> uuid list) \<Rightarrow> error + 's" where
  "state_of r = (case r of Inl e \<Rightarrow> Inl e | Inr p \<Rightarrow> Inr (fst p))"

lemma sat_state_of [simp]: "sat q (state_of r) \<longleftrightarrow> sat (\<lambda>p. q (fst p)) r"
  by (auto simp: sat_def state_of_def split: sum.splits)

lemma state_of_Inr: "state_of r = Inr s \<longleftrightarrow> (\<exists>ids. r = Inr (s, ids))"
  by (auto simp: state_of_def split: sum.splits)

text \<open>Equations that evaluate a statement only at the state it is applied to.\<close>

lemma stmt_apply:
  "lift_stmt c (s, ids) = (case c s of Inl e \<Rightarrow> Inl e | Inr s' \<Rightarrow> Inr (s', ids))"
  "with_id k (s, []) = Inl (Message ''generate uuid'')"
  "with_id k (s, i # ids) = (case k i s of Inl e \<Rightarrow> Inl e | Inr s' \<Rightarrow> Inr (s', ids))"
  by (simp_all add: lift_stmt_def with_id_def)

lemma lift_stmt_Inr: "lift_stmt c p = Inr p' \<longleftrightarrow> (\<exists>s'. c (fst p) = Inr s' \<and> p' = (s', snd p))"
  by (auto simp: lift_stmt_def split: prod.splits sum.splits)

lemma preserves_lift: "preserves i c \<Longrightarrow> preserves (\<lambda>p. i (fst p)) (lift_stmt c)"
  by (auto simp: preserves_def lift_stmt_def sat_def split: sum.splits)

lemma preserves_with_id: "(\<And>x. preserves i (c x)) \<Longrightarrow> preserves (\<lambda>p. i (fst p)) (with_id c)"
  by (auto simp: preserves_def with_id_def sat_def split: sum.splits list.splits)

lemma frames_lift: "frames g c \<Longrightarrow> frames (\<lambda>p. g (fst p)) (lift_stmt c)"
  by (auto simp: frames_def lift_stmt_def split: sum.splits)

lemma frames_with_id: "(\<And>x. frames g (c x)) \<Longrightarrow> frames (\<lambda>p. g (fst p)) (with_id c)"
  by (auto simp: frames_def with_id_def split: sum.splits list.splits)

section \<open>Runs and invariants\<close>

inductive reachable :: "('s \<Rightarrow> bool) \<Rightarrow> ('s \<Rightarrow> 's \<Rightarrow> bool) \<Rightarrow> 's \<Rightarrow> bool"
  for init :: "'s \<Rightarrow> bool" and step :: "'s \<Rightarrow> 's \<Rightarrow> bool" where
  start: "init s \<Longrightarrow> reachable init step s"
| next_state: "reachable init step s \<Longrightarrow> step s s' \<Longrightarrow> reachable init step s'"

text \<open>
  The contract of an inductive invariant: it holds initially and every step keeps it.  Each
  state machine of the development interprets it with its own step relation.
\<close>

locale inductive_invariant =
  fixes init :: "'s \<Rightarrow> bool" and step :: "'s \<Rightarrow> 's \<Rightarrow> bool" and inv :: "'s \<Rightarrow> bool"
  assumes init_inv: "init s \<Longrightarrow> inv s"
    and step_inv: "inv s \<Longrightarrow> step s s' \<Longrightarrow> inv s'"
begin

lemma reachable_inv: "reachable init step s \<Longrightarrow> inv s"
  by (induction rule: reachable.induct) (auto intro: init_inv step_inv)

lemma steps_inv: "step\<^sup>*\<^sup>* s t \<Longrightarrow> inv s \<Longrightarrow> inv t"
  by (induction rule: rtranclp_induct) (auto intro: step_inv)

end

end
