(* ===== verification/Schema.thy ===== *)
theory Schema
  imports Prelude Complex_Main
begin

text \<open>
  The rows of the panel database (\<open>internal/db/migrations/0001_initial.sql\<close>), one record per
  table, with the columns the modelled statements read or write.  Nullable columns are options,
  enumerations are the strings the CHECK constraints list, timestamps are microseconds, \<open>jsonb\<close>
  is \<^typ>\<open>json\<close>.  The record \<open>db\<close> is the whole database; \<open>operation_log_sequence\<close> is the
  identity counter of \<open>operation_log_entries\<close>, \<open>db_uuid\<close> the \<open>gen_random_uuid()\<close> of the
  webhook trigger: the id given to the delivery of an event to a destination.
\<close>

section \<open>Users, sessions and roles\<close>

record installation =
  in_id :: uuid
  in_bootstrap_token_hash :: "string option"
  in_owner_user_id :: "uuid option"
  in_mfa_policy :: string
  in_updated_at :: time

record user =
  us_id :: uuid
  us_discord_id :: string
  us_username :: string
  us_global_name :: "string option"
  us_avatar_hash :: "string option"
  us_locale :: "string option"
  us_mfa_enabled :: bool
  us_mfa_checked_at :: time
  us_status :: string
  us_panel_role :: string
  us_created_at :: time
  us_updated_at :: time
  us_last_login_at :: "time option"

record session =
  se_id :: uuid
  se_user_id :: uuid
  se_token_hash :: string
  se_csrf_hash :: string
  se_last_seen_at :: time
  se_idle_expires_at :: time
  se_absolute_expires_at :: time
  se_revoked_at :: "time option"

record invite =
  iv_id :: uuid
  iv_token_hash :: string
  iv_label :: "string option"
  iv_created_by :: uuid
  iv_claimed_by :: "uuid option"
  iv_created_at :: time
  iv_expires_at :: time
  iv_claimed_at :: "time option"
  iv_revoked_at :: "time option"

record oauth_state =
  oa_id :: uuid
  oa_state_hash :: string
  oa_purpose :: string
  oa_invite_id :: "uuid option"
  oa_expires_at :: time
  oa_consumed_at :: "time option"

record role =
  ro_id :: uuid
  ro_installation_id :: uuid
  ro_name :: string

record role_permission =
  rp_role_id :: uuid
  rp_permission :: string

record role_binding =
  rb_id :: uuid
  rb_user_id :: uuid
  rb_role_id :: uuid
  rb_server_id :: "uuid option"
  rb_created_by :: "uuid option"

section \<open>Templates\<close>

record template =
  te_id :: uuid
  te_name :: string
  te_archived_at :: "time option"

record template_version =
  tv_id :: uuid
  tv_template_id :: uuid
  tv_version :: int
  tv_canonical :: json

section \<open>Servers\<close>

record server =
  sv_id :: uuid
  sv_installation_id :: uuid
  sv_template_version_id :: uuid
  sv_name :: string
  sv_description :: string
  sv_status :: string
  sv_desired_state :: string
  sv_container_id :: "string option"
  sv_image_reference :: string
  sv_startup_override :: "string option"
  sv_stop_reason :: "string option"
  sv_recovery_attempts :: int
  sv_recovery_window_started_at :: "time option"
  sv_recovery_not_before :: "time option"
  sv_missing_container_observations :: int
  sv_externally_deleted_at :: "time option"
  sv_created_by :: "uuid option"
  sv_created_at :: time
  sv_updated_at :: time
  sv_deleted_at :: "time option"
  sv_version :: int

record server_resources =
  rs_server_id :: uuid
  rs_cpu_limit_millicores :: "int option"
  rs_cpu_set :: "string option"
  rs_memory_limit_bytes :: "int option"
  rs_memory_reservation_bytes :: "int option"
  rs_swap_limit_bytes :: "int option"
  rs_disk_limit_bytes :: "int option"
  rs_pids_limit :: "int option"
  rs_io_weight :: "int option"

record server_runtime =
  rt_server_id :: uuid
  rt_observed_state :: string
  rt_health :: string
  rt_cpu_percent :: "rat option"
  rt_memory_bytes :: "int option"
  rt_memory_limit_bytes :: "int option"
  rt_network_rx_bytes :: "int option"
  rt_network_tx_bytes :: "int option"
  rt_block_read_bytes :: "int option"
  rt_block_write_bytes :: "int option"
  rt_started_at :: "time option"
  rt_exit_code :: "int option"
  rt_last_error :: "string option"
  rt_observed_at :: time

record server_port =
  po_id :: uuid
  po_server_id :: uuid
  po_bind_address :: string
  po_host_port :: int
  po_container_port :: int
  po_protocol :: string
  po_purpose :: "string option"
  po_environment :: "string option"
  po_is_primary :: bool

record server_variable =
  va_server_id :: uuid
  va_name :: string
  va_value_text :: "string option"
  va_value_encrypted :: "string option"
  va_is_secret :: bool

record variable_definition =
  vd_server_id :: uuid
  vd_environment :: string
  vd_display_name :: string
  vd_description :: string
  vd_default_value :: string
  vd_user_viewable :: bool
  vd_user_editable :: bool
  vd_rules :: string
  vd_field_type :: string
  vd_secret :: bool
  vd_position :: int

section \<open>Operations, the outbox and activity\<close>

record operation =
  op_id :: uuid
  op_server_id :: "uuid option"
  op_actor_user_id :: "uuid option"
  op_kind :: string
  op_status :: string
  op_idempotency_key :: string
  op_progress :: int
  op_message :: "string option"
  op_error_code :: "string option"
  op_error_detail :: "string option"
  op_requested_at :: time
  op_started_at :: "time option"
  op_completed_at :: "time option"

record operation_log_entry =
  lo_sequence :: int
  lo_operation_id :: uuid
  lo_server_id :: uuid
  lo_phase :: string
  lo_stream :: string
  lo_message :: string
  lo_observed_at :: time

record outbox_event =
  ob_id :: uuid
  ob_topic :: string
  ob_aggregate_id :: "uuid option"
  ob_payload :: json
  ob_available_at :: time
  ob_attempts :: int
  ob_locked_at :: "time option"
  ob_locked_by :: "string option"
  ob_processed_at :: "time option"
  ob_last_error :: "string option"
  ob_created_at :: time

record activity_event =
  ac_id :: uuid
  ac_server_id :: "uuid option"
  ac_actor_user_id :: "uuid option"
  ac_event_type :: string
  ac_severity :: string
  ac_summary :: string
  ac_data :: json
  ac_created_at :: time

record audit_event =
  au_id :: uuid
  au_actor_user_id :: "uuid option"
  au_action :: string
  au_target_type :: string
  au_target_id :: "string option"
  au_data :: json

section \<open>Schedules\<close>

record schedule =
  sc_id :: uuid
  sc_server_id :: uuid
  sc_name :: string
  sc_cron_expression :: string
  sc_timezone :: string
  sc_enabled :: bool
  sc_concurrency_policy :: string
  sc_misfire_policy :: string
  sc_next_run_at :: "time option"
  sc_created_by :: "uuid option"
  sc_created_at :: time
  sc_updated_at :: time

record schedule_task =
  ta_id :: uuid
  ta_schedule_id :: uuid
  ta_position :: int
  ta_task_type :: string
  ta_config :: json
  ta_timeout_seconds :: int

record schedule_run =
  ru_id :: uuid
  ru_schedule_id :: uuid
  ru_planned_for :: time
  ru_status :: string
  ru_started_at :: "time option"
  ru_completed_at :: "time option"
  ru_error_detail :: "string option"

section \<open>Backups and webhooks\<close>

record backup =
  bk_id :: uuid
  bk_server_id :: uuid
  bk_name :: string
  bk_status :: string
  bk_storage_kind :: string
  bk_object_key :: "string option"
  bk_size_bytes :: "int option"
  bk_sha256 :: "string option"
  bk_include_paths :: "string list"
  bk_exclude_globs :: "string list"
  bk_locked :: bool
  bk_retention_days :: "int option"
  bk_expires_at :: "time option"
  bk_created_by :: "uuid option"
  bk_created_at :: time
  bk_completed_at :: "time option"

record backup_delivery =
  de_id :: uuid
  de_backup_id :: uuid
  de_destination_id :: uuid
  de_format :: string
  de_status :: string
  de_attempts :: int
  de_response_status :: "int option"
  de_last_error :: "string option"
  de_delivered_at :: "time option"
  de_created_at :: time
  de_updated_at :: time

record webhook_destination =
  wh_id :: uuid
  wh_server_id :: uuid
  wh_name :: string
  wh_kind :: string
  wh_url_encrypted :: string
  wh_signing_secret_encrypted :: "string option"
  wh_enabled :: bool
  wh_deliver_events :: bool
  wh_deliver_backups :: bool
  wh_event_filters :: "string list"
  wh_created_by :: "uuid option"
  wh_created_at :: time
  wh_updated_at :: time

record webhook_delivery =
  wd_id :: uuid
  wd_destination_id :: uuid
  wd_event_id :: uuid
  wd_status :: string
  wd_attempts :: int
  wd_response_status :: "int option"
  wd_last_error :: "string option"
  wd_next_attempt_at :: "time option"
  wd_created_at :: time
  wd_delivered_at :: "time option"

section \<open>The database\<close>

record db =
  installations :: "installation list"
  users :: "user list"
  sessions :: "session list"
  invites :: "invite list"
  oauth_states :: "oauth_state list"
  roles :: "role list"
  permissions :: "string list"
  role_permissions :: "role_permission list"
  role_bindings :: "role_binding list"
  templates :: "template list"
  template_versions :: "template_version list"
  servers :: "server list"
  resources :: "server_resources list"
  runtimes :: "server_runtime list"
  server_ports :: "server_port list"
  server_variables :: "server_variable list"
  variable_definitions :: "variable_definition list"
  operations :: "operation list"
  operation_log :: "operation_log_entry list"
  operation_log_sequence :: int
  outbox :: "outbox_event list"
  schedules :: "schedule list"
  schedule_tasks :: "schedule_task list"
  schedule_runs :: "schedule_run list"
  backups :: "backup list"
  backup_deliveries :: "backup_delivery list"
  webhook_destinations :: "webhook_destination list"
  webhook_deliveries :: "webhook_delivery list"
  activity :: "activity_event list"
  audit :: "audit_event list"
  db_uuid :: "uuid \<Rightarrow> uuid \<Rightarrow> uuid"

text \<open>A database with empty tables, from which the concrete examples are built.\<close>

definition empty_db :: db where
  "empty_db = \<lparr> installations = [], users = [], sessions = [], invites = [], oauth_states = [],
     roles = [], permissions = [], role_permissions = [], role_bindings = [], templates = [],
     template_versions = [], servers = [], resources = [], runtimes = [], server_ports = [],
     server_variables = [], variable_definitions = [], operations = [], operation_log = [],
     operation_log_sequence = 1, outbox = [], schedules = [],
     schedule_tasks = [], schedule_runs = [], backups = [], backup_deliveries = [],
     webhook_destinations = [], webhook_deliveries = [], activity = [], audit = [],
     db_uuid = (\<lambda>e d. e @ ''/'' @ d) \<rparr>"

end
