(* ===== verification/Statements.thy ===== *)
theory Statements
  imports Schema
begin

text \<open>
  The statements of the store on the tables of \<open>Schema\<close>: INSERTs with the primary key, UNIQUE,
  CHECK and foreign key constraints of the migration (a violation is the error
  \<^const>\<open>Constraint\<close>), UPDATEs, DELETEs with their ON DELETE CASCADE, and the trigger that
  queues webhook deliveries.  \<open>db_ok\<close> collects the constraints; the UPDATE statements do not
  check them, so that the theorems about the operations show that the code never breaks them.
\<close>

section \<open>CHECK constraints\<close>

definition server_statuses :: "string list" where
  "server_statuses = [''installing'', ''stopped'', ''starting'', ''running'', ''restarting'',
     ''stopping'', ''degraded'', ''suspended'', ''deleting'', ''failed'']"

definition check_server :: "server \<Rightarrow> bool" where
  "check_server r \<longleftrightarrow>
     sv_status r \<in> set server_statuses \<and>
     sv_desired_state r \<in> {''running'', ''stopped'', ''suspended'', ''deleted''} \<and>
     sv_stop_reason r \<in> {None, Some ''requested'', Some ''clean_exit'', Some ''unexpected_exit'',
       Some ''startup_failure'', Some ''health_failure''} \<and>
     0 \<le> sv_recovery_attempts r \<and> sv_recovery_attempts r \<le> 5 \<and>
     0 \<le> sv_missing_container_observations r \<and> sv_missing_container_observations r \<le> 10 \<and>
     (case sv_startup_override r of None \<Rightarrow> True
      | Some x \<Rightarrow> 1 \<le> char_length x \<and> char_length x \<le> 32768)"

definition check_port :: "server_port \<Rightarrow> bool" where
  "check_port r \<longleftrightarrow>
     po_protocol r \<in> {''tcp'', ''udp''} \<and> 1 \<le> po_host_port r \<and> po_host_port r \<le> 65535 \<and>
     1 \<le> po_container_port r \<and> po_container_port r \<le> 65535"

definition positive_or_null :: "int option \<Rightarrow> bool" where
  "positive_or_null x \<longleftrightarrow> (case x of None \<Rightarrow> True | Some n \<Rightarrow> 0 < n)"

definition check_resources :: "server_resources \<Rightarrow> bool" where
  "check_resources r \<longleftrightarrow>
     positive_or_null (rs_cpu_limit_millicores r) \<and> positive_or_null (rs_memory_limit_bytes r) \<and>
     positive_or_null (rs_disk_limit_bytes r) \<and> positive_or_null (rs_pids_limit r)"

definition check_variable :: "server_variable \<Rightarrow> bool" where
  "check_variable r \<longleftrightarrow>
     (va_is_secret r \<and> va_value_text r = None \<and> va_value_encrypted r \<noteq> None) \<or>
     (\<not> va_is_secret r \<and> va_value_text r \<noteq> None \<and> va_value_encrypted r = None)"

definition check_variable_definition :: "variable_definition \<Rightarrow> bool" where
  "check_variable_definition r \<longleftrightarrow>
     environment_name (vd_environment r) \<and> length (vd_environment r) \<le> 128 \<and>
     vd_field_type r \<in> {''text'', ''number'', ''boolean'', ''password'', ''select''} \<and>
     1 \<le> char_length (vd_display_name r) \<and> char_length (vd_display_name r) \<le> 120 \<and>
     char_length (vd_description r) \<le> 1000 \<and> char_length (vd_default_value r) \<le> 65536 \<and>
     char_length (vd_rules r) \<le> 1000"

definition check_operation :: "operation \<Rightarrow> bool" where
  "check_operation r \<longleftrightarrow>
     op_status r \<in> {''pending'', ''running'', ''succeeded'', ''failed'', ''cancelled''} \<and>
     0 \<le> op_progress r \<and> op_progress r \<le> 100"

definition check_log :: "operation_log_entry \<Rightarrow> bool" where
  "check_log r \<longleftrightarrow> lo_stream r \<in> {''system'', ''stdout'', ''stderr''}"

definition check_schedule :: "schedule \<Rightarrow> bool" where
  "check_schedule r \<longleftrightarrow>
     sc_concurrency_policy r \<in> {''skip'', ''queue_once'', ''replace''} \<and>
     sc_misfire_policy r \<in> {''skip'', ''run_once''}"

definition check_task :: "schedule_task \<Rightarrow> bool" where
  "check_task r \<longleftrightarrow>
     ta_task_type r \<in> {''backup'', ''power'', ''command'', ''delay'', ''notify''}"

definition check_run :: "schedule_run \<Rightarrow> bool" where
  "check_run r \<longleftrightarrow>
     ru_status r \<in> {''queued'', ''running'', ''succeeded'', ''failed'', ''skipped'', ''cancelled''}"

definition check_backup :: "backup \<Rightarrow> bool" where
  "check_backup r \<longleftrightarrow>
     bk_status r \<in> {''queued'', ''running'', ''succeeded'', ''failed'', ''deleting''} \<and>
     bk_storage_kind r \<in> {''local'', ''s3''} \<and>
     (case bk_retention_days r of None \<Rightarrow> True | Some n \<Rightarrow> 1 \<le> n \<and> n \<le> 3650)"

definition check_backup_delivery :: "backup_delivery \<Rightarrow> bool" where
  "check_backup_delivery r \<longleftrightarrow>
     de_format r \<in> {''archive'', ''zip''} \<and>
     de_status r \<in> {''pending'', ''queued'', ''uploading'', ''delivered'', ''too_large'', ''failed''}"

definition check_destination :: "webhook_destination \<Rightarrow> bool" where
  "check_destination r \<longleftrightarrow> wh_kind r \<in> {''discord'', ''generic''}"

definition check_webhook_delivery :: "webhook_delivery \<Rightarrow> bool" where
  "check_webhook_delivery r \<longleftrightarrow>
     wd_status r \<in> {''queued'', ''delivering'', ''succeeded'', ''retrying'', ''dead''}"

definition check_activity :: "activity_event \<Rightarrow> bool" where
  "check_activity r \<longleftrightarrow> ac_severity r \<in> {''info'', ''warning'', ''error''}"

definition check_user :: "user \<Rightarrow> bool" where
  "check_user r \<longleftrightarrow>
     us_status r \<in> {''pending'', ''active'', ''suspended'', ''rejected''} \<and>
     us_panel_role r \<in> {''owner'', ''administrator'', ''operator'', ''viewer''}"

lemmas check_defs = check_server_def check_port_def check_resources_def check_variable_def
  check_variable_definition_def
  check_operation_def check_log_def check_schedule_def check_task_def check_run_def
  check_backup_def check_backup_delivery_def check_destination_def check_webhook_delivery_def
  check_activity_def check_user_def server_statuses_def

section \<open>Inserts\<close>

definition constrain :: "bool \<Rightarrow> string \<Rightarrow> db \<Rightarrow> error + db" where
  "constrain b name d = (if b then Inr d else Inl (Constraint name))"

definition server_exists :: "uuid \<Rightarrow> db \<Rightarrow> bool" where
  "server_exists s d \<longleftrightarrow> s \<in> sv_id ` set (servers d)"

definition server_exists_opt :: "uuid option \<Rightarrow> db \<Rightarrow> bool" where
  "server_exists_opt s d \<longleftrightarrow> (case s of None \<Rightarrow> True | Some x \<Rightarrow> server_exists x d)"

text \<open>The unique index on \<open>(installation_id, lower(name))\<close> of the servers that are not deleted.\<close>

definition name_key :: "server \<Rightarrow> uuid \<times> string" where
  "name_key r = (sv_installation_id r, to_lower (sv_name r))"

definition name_taken :: "uuid \<Rightarrow> string \<Rightarrow> db \<Rightarrow> bool" where
  "name_taken installationID name d \<longleftrightarrow>
     (\<exists>s \<in> set (servers d). sv_installation_id s = installationID \<and>
        to_lower (sv_name s) = to_lower name \<and> sv_deleted_at s = None)"

definition insert_server :: "server \<Rightarrow> db stmt" where
  "insert_server r d =
     constrain (sv_id r \<notin> sv_id ` set (servers d) \<and> check_server r \<and>
         (sv_deleted_at r = None \<longrightarrow> \<not> name_taken (sv_installation_id r) (sv_name r) d))
       ''servers'' (d\<lparr>servers := servers d @ [r]\<rparr>)"

definition insert_resources :: "server_resources \<Rightarrow> db stmt" where
  "insert_resources r d =
     constrain (rs_server_id r \<notin> rs_server_id ` set (resources d) \<and> check_resources r \<and>
         server_exists (rs_server_id r) d)
       ''server_resources'' (d\<lparr>resources := resources d @ [r]\<rparr>)"

definition insert_runtime :: "server_runtime \<Rightarrow> db stmt" where
  "insert_runtime r d =
     constrain (rt_server_id r \<notin> rt_server_id ` set (runtimes d) \<and> server_exists (rt_server_id r) d)
       ''server_runtime'' (d\<lparr>runtimes := runtimes d @ [r]\<rparr>)"

definition port_key :: "server_port \<Rightarrow> string \<times> int \<times> string" where
  "port_key r = (po_bind_address r, po_host_port r, po_protocol r)"

definition insert_port :: "server_port \<Rightarrow> db stmt" where
  "insert_port r d =
     constrain (po_id r \<notin> po_id ` set (server_ports d) \<and>
         port_key r \<notin> port_key ` set (server_ports d) \<and>
         (po_is_primary r \<longrightarrow>
            \<not> (\<exists>x \<in> set (server_ports d). po_is_primary x \<and> po_server_id x = po_server_id r)) \<and>
         check_port r \<and> server_exists (po_server_id r) d)
       ''server_ports'' (d\<lparr>server_ports := server_ports d @ [r]\<rparr>)"

definition variable_key :: "server_variable \<Rightarrow> uuid \<times> string" where
  "variable_key r = (va_server_id r, va_name r)"

definition insert_variable :: "server_variable \<Rightarrow> db stmt" where
  "insert_variable r d =
     constrain (variable_key r \<notin> variable_key ` set (server_variables d) \<and> check_variable r \<and>
         server_exists (va_server_id r) d)
       ''server_variables'' (d\<lparr>server_variables := server_variables d @ [r]\<rparr>)"

text \<open>\<open>ON CONFLICT (server_id, name) DO UPDATE SET\<close> the value columns.\<close>

definition upsert_variable :: "server_variable \<Rightarrow> db stmt" where
  "upsert_variable r d =
     (if variable_key r \<in> variable_key ` set (server_variables d)
      then constrain (check_variable r) ''server_variables''
        (d\<lparr>server_variables := upd (\<lambda>x. variable_key x = variable_key r)
          (\<lambda>x. x\<lparr>va_value_text := va_value_text r, va_value_encrypted := va_value_encrypted r,
                 va_is_secret := va_is_secret r\<rparr>) (server_variables d)\<rparr>)
      else insert_variable r d)"

definition definition_key :: "variable_definition \<Rightarrow> uuid \<times> string" where
  "definition_key r = (vd_server_id r, vd_environment r)"

definition insert_variable_definition :: "variable_definition \<Rightarrow> db stmt" where
  "insert_variable_definition r d =
     constrain (definition_key r \<notin> definition_key ` set (variable_definitions d) \<and>
         check_variable_definition r \<and> server_exists (vd_server_id r) d)
       ''server_variable_definitions'' (d\<lparr>variable_definitions := variable_definitions d @ [r]\<rparr>)"

definition insert_operation :: "operation \<Rightarrow> db stmt" where
  "insert_operation r d =
     constrain (op_id r \<notin> op_id ` set (operations d) \<and>
         op_idempotency_key r \<notin> op_idempotency_key ` set (operations d) \<and>
         check_operation r \<and> server_exists_opt (op_server_id r) d)
       ''operations'' (d\<lparr>operations := operations d @ [r]\<rparr>)"

text \<open>The row's sequence number comes from the identity column.\<close>

definition insert_log :: "operation_log_entry \<Rightarrow> db stmt" where
  "insert_log r d =
     constrain (check_log r \<and> server_exists (lo_server_id r) d \<and>
         lo_operation_id r \<in> op_id ` set (operations d))
       ''operation_log_entries''
       (d\<lparr>operation_log := operation_log d @ [r\<lparr>lo_sequence := operation_log_sequence d\<rparr>],
          operation_log_sequence := operation_log_sequence d + 1\<rparr>)"

definition insert_outbox :: "outbox_event \<Rightarrow> db stmt" where
  "insert_outbox r d =
     constrain (ob_id r \<notin> ob_id ` set (outbox d))
       ''outbox_events'' (d\<lparr>outbox := outbox d @ [r]\<rparr>)"

definition insert_schedule :: "schedule \<Rightarrow> db stmt" where
  "insert_schedule r d =
     constrain (sc_id r \<notin> sc_id ` set (schedules d) \<and> check_schedule r \<and>
         server_exists (sc_server_id r) d)
       ''schedules'' (d\<lparr>schedules := schedules d @ [r]\<rparr>)"

definition task_key :: "schedule_task \<Rightarrow> uuid \<times> int" where
  "task_key r = (ta_schedule_id r, ta_position r)"

definition insert_task :: "schedule_task \<Rightarrow> db stmt" where
  "insert_task r d =
     constrain (ta_id r \<notin> ta_id ` set (schedule_tasks d) \<and>
         task_key r \<notin> task_key ` set (schedule_tasks d) \<and> check_task r \<and>
         ta_schedule_id r \<in> sc_id ` set (schedules d))
       ''schedule_tasks'' (d\<lparr>schedule_tasks := schedule_tasks d @ [r]\<rparr>)"

definition run_key :: "schedule_run \<Rightarrow> uuid \<times> time" where
  "run_key r = (ru_schedule_id r, ru_planned_for r)"

definition insert_run :: "schedule_run \<Rightarrow> db stmt" where
  "insert_run r d =
     constrain (ru_id r \<notin> ru_id ` set (schedule_runs d) \<and>
         run_key r \<notin> run_key ` set (schedule_runs d) \<and> check_run r \<and>
         ru_schedule_id r \<in> sc_id ` set (schedules d))
       ''schedule_runs'' (d\<lparr>schedule_runs := schedule_runs d @ [r]\<rparr>)"

text \<open>\<open>INSERT ... ON CONFLICT(schedule_id, planned_for) DO NOTHING\<close>.\<close>

definition insert_run_or_ignore :: "schedule_run \<Rightarrow> db stmt" where
  "insert_run_or_ignore r d =
     (if run_key r \<in> run_key ` set (schedule_runs d) then Inr d else insert_run r d)"

definition insert_backup :: "backup \<Rightarrow> db stmt" where
  "insert_backup r d =
     constrain (bk_id r \<notin> bk_id ` set (backups d) \<and> check_backup r \<and>
         server_exists (bk_server_id r) d)
       ''backups'' (d\<lparr>backups := backups d @ [r]\<rparr>)"

definition delivery_key :: "backup_delivery \<Rightarrow> uuid \<times> uuid" where
  "delivery_key r = (de_backup_id r, de_destination_id r)"

definition insert_backup_delivery :: "backup_delivery \<Rightarrow> db stmt" where
  "insert_backup_delivery r d =
     constrain (de_id r \<notin> de_id ` set (backup_deliveries d) \<and>
         delivery_key r \<notin> delivery_key ` set (backup_deliveries d) \<and> check_backup_delivery r \<and>
         de_backup_id r \<in> bk_id ` set (backups d) \<and>
         de_destination_id r \<in> wh_id ` set (webhook_destinations d))
       ''backup_deliveries'' (d\<lparr>backup_deliveries := backup_deliveries d @ [r]\<rparr>)"

definition insert_destination :: "webhook_destination \<Rightarrow> db stmt" where
  "insert_destination r d =
     constrain (wh_id r \<notin> wh_id ` set (webhook_destinations d) \<and> check_destination r \<and>
         server_exists (wh_server_id r) d)
       ''webhook_destinations'' (d\<lparr>webhook_destinations := webhook_destinations d @ [r]\<rparr>)"

definition insert_webhook_delivery :: "webhook_delivery \<Rightarrow> db stmt" where
  "insert_webhook_delivery r d =
     constrain (wd_id r \<notin> wd_id ` set (webhook_deliveries d) \<and> check_webhook_delivery r \<and>
         wd_destination_id r \<in> wh_id ` set (webhook_destinations d))
       ''webhook_deliveries'' (d\<lparr>webhook_deliveries := webhook_deliveries d @ [r]\<rparr>)"

definition insert_audit_row :: "audit_event \<Rightarrow> db stmt" where
  "insert_audit_row r d =
     constrain (au_id r \<notin> au_id ` set (audit d))
       ''audit_events'' (d\<lparr>audit := audit d @ [r]\<rparr>)"

text \<open>
  The trigger \<open>activity_enqueue_webhooks\<close>: an event of a server queues one delivery for every
  enabled destination of that server that delivers events and whose filters are empty or name
  the event's type or severity.
\<close>

definition webhook_matches :: "activity_event \<Rightarrow> webhook_destination \<Rightarrow> bool" where
  "webhook_matches ev w \<longleftrightarrow>
     ac_server_id ev = Some (wh_server_id w) \<and> wh_enabled w \<and> wh_deliver_events w \<and>
     (length (wh_event_filters w) = 0 \<or>
      ac_event_type ev \<in> set (wh_event_filters w) \<or>
      (''severity:'' @ ac_severity ev) \<in> set (wh_event_filters w))"

definition queued_delivery :: "uuid \<Rightarrow> uuid \<Rightarrow> uuid \<Rightarrow> time \<Rightarrow> webhook_delivery" where
  "queued_delivery i dest ev now = \<lparr> wd_id = i, wd_destination_id = dest, wd_event_id = ev,
     wd_status = ''queued'', wd_attempts = 0, wd_response_status = None, wd_last_error = None,
     wd_next_attempt_at = Some now, wd_created_at = now, wd_delivered_at = None \<rparr>"

definition dockside_enqueue_webhook_deliveries :: "activity_event \<Rightarrow> db \<Rightarrow> webhook_delivery list" where
  "dockside_enqueue_webhook_deliveries ev d =
     map (\<lambda>w. queued_delivery (db_uuid d (ac_id ev) (wh_id w)) (wh_id w) (ac_id ev) (ac_created_at ev))
       (filter (webhook_matches ev) (webhook_destinations d))"

definition insert_activity :: "activity_event \<Rightarrow> db stmt" where
  "insert_activity r d =
     (let queued = dockside_enqueue_webhook_deliveries r d in
      constrain (ac_id r \<notin> ac_id ` set (activity d) \<and> check_activity r \<and>
          server_exists_opt (ac_server_id r) d \<and>
          distinct (map wd_id (webhook_deliveries d @ queued)))
        ''activity_events''
        (d\<lparr>activity := activity d @ [r], webhook_deliveries := webhook_deliveries d @ queued\<rparr>))"

section \<open>Rows with their column defaults\<close>

definition activity_row ::
  "uuid \<Rightarrow> time \<Rightarrow> uuid option \<Rightarrow> uuid option \<Rightarrow> string \<Rightarrow> string \<Rightarrow> string \<Rightarrow> json \<Rightarrow> activity_event" where
  "activity_row i now srv actor type severity summary data =
     \<lparr> ac_id = i, ac_server_id = srv, ac_actor_user_id = actor, ac_event_type = type,
       ac_severity = severity, ac_summary = summary, ac_data = data, ac_created_at = now \<rparr>"

definition outbox_row :: "uuid \<Rightarrow> time \<Rightarrow> string \<Rightarrow> uuid \<Rightarrow> json \<Rightarrow> outbox_event" where
  "outbox_row i now topic agg payload =
     \<lparr> ob_id = i, ob_topic = topic, ob_aggregate_id = Some agg, ob_payload = payload,
       ob_available_at = now, ob_attempts = 0, ob_locked_at = None, ob_locked_by = None,
       ob_processed_at = None, ob_last_error = None, ob_created_at = now \<rparr>"

definition operation_row ::
  "uuid \<Rightarrow> time \<Rightarrow> uuid \<Rightarrow> uuid option \<Rightarrow> string \<Rightarrow> string \<Rightarrow> string \<Rightarrow> operation" where
  "operation_row i now srv actor kind key message =
     \<lparr> op_id = i, op_server_id = Some srv, op_actor_user_id = actor, op_kind = kind,
       op_status = ''pending'', op_idempotency_key = key, op_progress = 0, op_message = Some message,
       op_error_code = None, op_error_detail = None, op_requested_at = now, op_started_at = None,
       op_completed_at = None \<rparr>"

text \<open>\<open>NULLIF($n, '')::uuid\<close>.\<close>

definition nullif_empty :: "string \<Rightarrow> string option" where
  "nullif_empty s = (if s = '''' then None else Some s)"

lemmas row_defs = activity_row_def outbox_row_def operation_row_def queued_delivery_def

section \<open>Updates and deletes\<close>

definition update_servers :: "(server \<Rightarrow> bool) \<Rightarrow> (server \<Rightarrow> server) \<Rightarrow> db stmt" where
  "update_servers p f d = Inr (d\<lparr>servers := upd p f (servers d)\<rparr>)"

text \<open>
  UPDATEs of columns with constraints the code does not check before: the new rows are checked,
  and a row that takes the name of another live server is refused.
\<close>

definition checked_update_servers :: "(server \<Rightarrow> bool) \<Rightarrow> (server \<Rightarrow> server) \<Rightarrow> db stmt" where
  "checked_update_servers p f d =
     constrain (\<forall>r \<in> set (servers d). p r \<longrightarrow> check_server (f r) \<and>
         (sv_deleted_at (f r) = None \<longrightarrow>
            \<not> (\<exists>x \<in> set (servers d). sv_id x \<noteq> sv_id r \<and> sv_deleted_at x = None \<and>
                 name_key x = name_key (f r))))
       ''servers'' (d\<lparr>servers := upd p f (servers d)\<rparr>)"

definition checked_update_resources ::
  "(server_resources \<Rightarrow> bool) \<Rightarrow> (server_resources \<Rightarrow> server_resources) \<Rightarrow> db stmt" where
  "checked_update_resources p f d =
     constrain (\<forall>r \<in> set (resources d). p r \<longrightarrow> check_resources (f r))
       ''server_resources'' (d\<lparr>resources := upd p f (resources d)\<rparr>)"

definition update_runtimes :: "(server_runtime \<Rightarrow> bool) \<Rightarrow> (server_runtime \<Rightarrow> server_runtime) \<Rightarrow> db stmt" where
  "update_runtimes p f d = Inr (d\<lparr>runtimes := upd p f (runtimes d)\<rparr>)"

definition update_operations :: "(operation \<Rightarrow> bool) \<Rightarrow> (operation \<Rightarrow> operation) \<Rightarrow> db stmt" where
  "update_operations p f d = Inr (d\<lparr>operations := upd p f (operations d)\<rparr>)"

definition update_outbox :: "(outbox_event \<Rightarrow> bool) \<Rightarrow> (outbox_event \<Rightarrow> outbox_event) \<Rightarrow> db stmt" where
  "update_outbox p f d = Inr (d\<lparr>outbox := upd p f (outbox d)\<rparr>)"

definition update_schedules :: "(schedule \<Rightarrow> bool) \<Rightarrow> (schedule \<Rightarrow> schedule) \<Rightarrow> db stmt" where
  "update_schedules p f d = Inr (d\<lparr>schedules := upd p f (schedules d)\<rparr>)"

definition update_runs :: "(schedule_run \<Rightarrow> bool) \<Rightarrow> (schedule_run \<Rightarrow> schedule_run) \<Rightarrow> db stmt" where
  "update_runs p f d = Inr (d\<lparr>schedule_runs := upd p f (schedule_runs d)\<rparr>)"

definition update_backups :: "(backup \<Rightarrow> bool) \<Rightarrow> (backup \<Rightarrow> backup) \<Rightarrow> db stmt" where
  "update_backups p f d = Inr (d\<lparr>backups := upd p f (backups d)\<rparr>)"

definition update_backup_deliveries ::
  "(backup_delivery \<Rightarrow> bool) \<Rightarrow> (backup_delivery \<Rightarrow> backup_delivery) \<Rightarrow> db stmt" where
  "update_backup_deliveries p f d = Inr (d\<lparr>backup_deliveries := upd p f (backup_deliveries d)\<rparr>)"

definition update_destinations ::
  "(webhook_destination \<Rightarrow> bool) \<Rightarrow> (webhook_destination \<Rightarrow> webhook_destination) \<Rightarrow> db stmt" where
  "update_destinations p f d =
     Inr (d\<lparr>webhook_destinations := upd p f (webhook_destinations d)\<rparr>)"

definition update_webhook_deliveries ::
  "(webhook_delivery \<Rightarrow> bool) \<Rightarrow> (webhook_delivery \<Rightarrow> webhook_delivery) \<Rightarrow> db stmt" where
  "update_webhook_deliveries p f d = Inr (d\<lparr>webhook_deliveries := upd p f (webhook_deliveries d)\<rparr>)"

definition delete_ports :: "(server_port \<Rightarrow> bool) \<Rightarrow> db stmt" where
  "delete_ports p d = Inr (d\<lparr>server_ports := del p (server_ports d)\<rparr>)"

definition delete_variable_definitions :: "(variable_definition \<Rightarrow> bool) \<Rightarrow> db stmt" where
  "delete_variable_definitions p d = Inr (d\<lparr>variable_definitions := del p (variable_definitions d)\<rparr>)"

definition delete_tasks :: "(schedule_task \<Rightarrow> bool) \<Rightarrow> db stmt" where
  "delete_tasks p d = Inr (d\<lparr>schedule_tasks := del p (schedule_tasks d)\<rparr>)"

text \<open>Deleting a schedule deletes its tasks and runs, a backup its deliveries, a destination
  the deliveries to it.\<close>

definition delete_schedules :: "(schedule \<Rightarrow> bool) \<Rightarrow> db stmt" where
  "delete_schedules p d =
     (let keep = del p (schedules d); kept = sc_id ` set keep in
      Inr (d\<lparr>schedules := keep,
             schedule_tasks := del (\<lambda>t. ta_schedule_id t \<notin> kept) (schedule_tasks d),
             schedule_runs := del (\<lambda>r. ru_schedule_id r \<notin> kept) (schedule_runs d)\<rparr>))"

definition delete_backups :: "(backup \<Rightarrow> bool) \<Rightarrow> db stmt" where
  "delete_backups p d =
     (let keep = del p (backups d); kept = bk_id ` set keep in
      Inr (d\<lparr>backups := keep,
             backup_deliveries := del (\<lambda>r. de_backup_id r \<notin> kept) (backup_deliveries d)\<rparr>))"

definition delete_destinations :: "(webhook_destination \<Rightarrow> bool) \<Rightarrow> db stmt" where
  "delete_destinations p d =
     (let keep = del p (webhook_destinations d); kept = wh_id ` set keep in
      Inr (d\<lparr>webhook_destinations := keep,
             webhook_deliveries := del (\<lambda>r. wd_destination_id r \<notin> kept) (webhook_deliveries d),
             backup_deliveries := del (\<lambda>r. de_destination_id r \<notin> kept) (backup_deliveries d)\<rparr>))"

text \<open>A statement whose number of affected rows must be one, else the operation ends in \<open>e\<close>.\<close>

definition require :: "(db \<Rightarrow> bool) \<Rightarrow> error \<Rightarrow> db stmt" where
  "require b e d = (if b d then Inr d else Inl e)"

lemmas update_stmt_defs = update_servers_def update_runtimes_def update_operations_def
  update_outbox_def update_schedules_def update_runs_def update_backups_def
  update_backup_deliveries_def update_destinations_def update_webhook_deliveries_def

lemmas delete_stmt_defs = delete_ports_def delete_variable_definitions_def delete_tasks_def delete_schedules_def delete_backups_def
  delete_destinations_def

lemmas insert_stmt_defs = insert_server_def insert_resources_def insert_runtime_def insert_port_def
  insert_variable_def insert_variable_definition_def upsert_variable_def insert_operation_def insert_log_def insert_outbox_def insert_schedule_def
  insert_task_def insert_run_def insert_run_or_ignore_def insert_backup_def
  insert_backup_delivery_def insert_destination_def insert_webhook_delivery_def
  insert_audit_row_def constrain_def

lemma constrain_Inr [simp]: "constrain b n d = Inr d' \<longleftrightarrow> b \<and> d' = d"
  by (auto simp: constrain_def)

lemma insert_activity_InrD:
  "insert_activity r d = Inr d' \<Longrightarrow>
   d' = d\<lparr>activity := activity d @ [r],
          webhook_deliveries := webhook_deliveries d @ dockside_enqueue_webhook_deliveries r d\<rparr>"
  by (auto simp: insert_activity_def Let_def)

end
