(* ===== verification/Integrity.thy ===== *)
theory Integrity
  imports Statements
begin

text \<open>
  The integrity of the database: unique keys, foreign keys and CHECK constraints of every table,
  as one invariant \<open>db_ok\<close>, and the fact that each statement keeps it.  An UPDATE keeps it when
  it leaves the key and reference columns alone and moves rows that satisfy the CHECK constraint
  to rows that satisfy it; those side conditions are what the operations' proofs discharge.
\<close>

section \<open>The invariant\<close>

definition names_unique :: "server list \<Rightarrow> bool" where
  "names_unique t \<longleftrightarrow> (\<forall>r \<in> set t. \<forall>r' \<in> set t. sv_deleted_at r = None \<longrightarrow> sv_deleted_at r' = None \<longrightarrow>
     name_key r = name_key r' \<longrightarrow> sv_id r = sv_id r')"

definition servers_ok :: "db \<Rightarrow> bool" where
  "servers_ok d \<longleftrightarrow> distinct (map sv_id (servers d)) \<and> (\<forall>r \<in> set (servers d). check_server r) \<and>
     names_unique (servers d)"

definition resources_ok :: "db \<Rightarrow> bool" where
  "resources_ok d \<longleftrightarrow> distinct (map rs_server_id (resources d)) \<and>
     (\<forall>r \<in> set (resources d). check_resources r \<and> rs_server_id r \<in> sv_id ` set (servers d))"

definition runtimes_ok :: "db \<Rightarrow> bool" where
  "runtimes_ok d \<longleftrightarrow> distinct (map rt_server_id (runtimes d)) \<and>
     (\<forall>r \<in> set (runtimes d). rt_server_id r \<in> sv_id ` set (servers d))"

definition ports_ok :: "db \<Rightarrow> bool" where
  "ports_ok d \<longleftrightarrow> distinct (map po_id (server_ports d)) \<and>
     distinct (map port_key (server_ports d)) \<and>
     distinct (map po_server_id (filter po_is_primary (server_ports d))) \<and>
     (\<forall>r \<in> set (server_ports d). check_port r \<and> po_server_id r \<in> sv_id ` set (servers d))"

definition variables_ok :: "db \<Rightarrow> bool" where
  "variables_ok d \<longleftrightarrow> distinct (map variable_key (server_variables d)) \<and>
     (\<forall>r \<in> set (server_variables d). check_variable r \<and> va_server_id r \<in> sv_id ` set (servers d))"

definition definitions_ok :: "db \<Rightarrow> bool" where
  "definitions_ok d \<longleftrightarrow> distinct (map definition_key (variable_definitions d)) \<and>
     (\<forall>r \<in> set (variable_definitions d).
        check_variable_definition r \<and> vd_server_id r \<in> sv_id ` set (servers d))"

definition operations_ok :: "db \<Rightarrow> bool" where
  "operations_ok d \<longleftrightarrow> distinct (map op_id (operations d)) \<and>
     distinct (map op_idempotency_key (operations d)) \<and>
     (\<forall>r \<in> set (operations d). check_operation r \<and>
        (\<forall>s. op_server_id r = Some s \<longrightarrow> s \<in> sv_id ` set (servers d)))"

definition log_ok :: "db \<Rightarrow> bool" where
  "log_ok d \<longleftrightarrow> distinct (map lo_sequence (operation_log d)) \<and>
     (\<forall>r \<in> set (operation_log d). lo_sequence r < operation_log_sequence d \<and> check_log r \<and>
        lo_server_id r \<in> sv_id ` set (servers d) \<and> lo_operation_id r \<in> op_id ` set (operations d))"

definition outbox_ok :: "db \<Rightarrow> bool" where
  "outbox_ok d \<longleftrightarrow> distinct (map ob_id (outbox d))"

definition schedules_ok :: "db \<Rightarrow> bool" where
  "schedules_ok d \<longleftrightarrow> distinct (map sc_id (schedules d)) \<and>
     (\<forall>r \<in> set (schedules d). check_schedule r \<and> sc_server_id r \<in> sv_id ` set (servers d))"

definition tasks_ok :: "db \<Rightarrow> bool" where
  "tasks_ok d \<longleftrightarrow> distinct (map ta_id (schedule_tasks d)) \<and>
     distinct (map task_key (schedule_tasks d)) \<and>
     (\<forall>r \<in> set (schedule_tasks d). check_task r \<and> ta_schedule_id r \<in> sc_id ` set (schedules d))"

definition runs_ok :: "db \<Rightarrow> bool" where
  "runs_ok d \<longleftrightarrow> distinct (map ru_id (schedule_runs d)) \<and>
     distinct (map run_key (schedule_runs d)) \<and>
     (\<forall>r \<in> set (schedule_runs d). check_run r \<and> ru_schedule_id r \<in> sc_id ` set (schedules d))"

definition backups_ok :: "db \<Rightarrow> bool" where
  "backups_ok d \<longleftrightarrow> distinct (map bk_id (backups d)) \<and>
     (\<forall>r \<in> set (backups d). check_backup r \<and> bk_server_id r \<in> sv_id ` set (servers d))"

definition backup_deliveries_ok :: "db \<Rightarrow> bool" where
  "backup_deliveries_ok d \<longleftrightarrow> distinct (map de_id (backup_deliveries d)) \<and>
     distinct (map delivery_key (backup_deliveries d)) \<and>
     (\<forall>r \<in> set (backup_deliveries d). check_backup_delivery r \<and>
        de_backup_id r \<in> bk_id ` set (backups d) \<and>
        de_destination_id r \<in> wh_id ` set (webhook_destinations d))"

definition destinations_ok :: "db \<Rightarrow> bool" where
  "destinations_ok d \<longleftrightarrow> distinct (map wh_id (webhook_destinations d)) \<and>
     (\<forall>r \<in> set (webhook_destinations d). check_destination r \<and>
        wh_server_id r \<in> sv_id ` set (servers d))"

definition webhook_deliveries_ok :: "db \<Rightarrow> bool" where
  "webhook_deliveries_ok d \<longleftrightarrow> distinct (map wd_id (webhook_deliveries d)) \<and>
     (\<forall>r \<in> set (webhook_deliveries d). check_webhook_delivery r \<and>
        wd_destination_id r \<in> wh_id ` set (webhook_destinations d))"

definition activity_ok :: "db \<Rightarrow> bool" where
  "activity_ok d \<longleftrightarrow> distinct (map ac_id (activity d)) \<and>
     (\<forall>r \<in> set (activity d). check_activity r \<and>
        (\<forall>s. ac_server_id r = Some s \<longrightarrow> s \<in> sv_id ` set (servers d)))"

definition audit_ok :: "db \<Rightarrow> bool" where
  "audit_ok d \<longleftrightarrow> distinct (map au_id (audit d))"

definition db_ok :: "db \<Rightarrow> bool" where
  "db_ok d \<longleftrightarrow> servers_ok d \<and> resources_ok d \<and> runtimes_ok d \<and> ports_ok d \<and> variables_ok d \<and>
     definitions_ok d \<and> operations_ok d \<and> log_ok d \<and> outbox_ok d \<and> schedules_ok d \<and> tasks_ok d \<and> runs_ok d \<and>
     backups_ok d \<and> backup_deliveries_ok d \<and> destinations_ok d \<and> webhook_deliveries_ok d \<and>
     activity_ok d \<and> audit_ok d"

lemmas ok_defs = db_ok_def servers_ok_def resources_ok_def runtimes_ok_def ports_ok_def
  variables_ok_def definitions_ok_def operations_ok_def log_ok_def outbox_ok_def schedules_ok_def tasks_ok_def
  runs_ok_def backups_ok_def backup_deliveries_ok_def destinations_ok_def
  webhook_deliveries_ok_def activity_ok_def audit_ok_def

lemma empty_db_ok: "db_ok empty_db"
  by (simp add: ok_defs names_unique_def empty_db_def)

lemma db_ok_servers: "db_ok d \<Longrightarrow> distinct (map sv_id (servers d))"
  by (simp add: ok_defs)

section \<open>Every statement keeps it\<close>

named_theorems keeps_ok "statements that keep the integrity of the database"

lemma ids_upd: "(\<And>r. p r \<Longrightarrow> k (f r) = k r) \<Longrightarrow> k ` set (upd p f t) = k ` set t"
proof -
  assume k: "\<And>r. p r \<Longrightarrow> k (f r) = k r"
  have "map k (upd p f t) = map k t" using k by (rule map_upd) auto
  then show ?thesis by (metis list.set_map)
qed

lemma map_ids_upd: "(\<And>r. p r \<Longrightarrow> k (f r) = k r) \<Longrightarrow> map k (upd p f t) = map k t"
  by (rule map_upd) auto

text \<open>
  The values foreign keys refer to only grow from \<open>d\<close> to \<open>d'\<close>; then a table the statement leaves
  alone keeps its constraints.
\<close>

definition refs_le :: "db \<Rightarrow> db \<Rightarrow> bool" where
  "refs_le d d' \<longleftrightarrow> sv_id ` set (servers d) \<subseteq> sv_id ` set (servers d') \<and>
     op_id ` set (operations d) \<subseteq> op_id ` set (operations d') \<and>
     sc_id ` set (schedules d) \<subseteq> sc_id ` set (schedules d') \<and>
     bk_id ` set (backups d) \<subseteq> bk_id ` set (backups d') \<and>
     wh_id ` set (webhook_destinations d) \<subseteq> wh_id ` set (webhook_destinations d')"

lemma ok_mono:
  assumes "refs_le d d'"
  shows "servers d' = servers d \<Longrightarrow> servers_ok d \<Longrightarrow> servers_ok d'"
    and "resources d' = resources d \<Longrightarrow> resources_ok d \<Longrightarrow> resources_ok d'"
    and "runtimes d' = runtimes d \<Longrightarrow> runtimes_ok d \<Longrightarrow> runtimes_ok d'"
    and "server_ports d' = server_ports d \<Longrightarrow> ports_ok d \<Longrightarrow> ports_ok d'"
    and "server_variables d' = server_variables d \<Longrightarrow> variables_ok d \<Longrightarrow> variables_ok d'"
    and "variable_definitions d' = variable_definitions d \<Longrightarrow> definitions_ok d \<Longrightarrow> definitions_ok d'"
    and "operations d' = operations d \<Longrightarrow> operations_ok d \<Longrightarrow> operations_ok d'"
    and "operation_log d' = operation_log d \<Longrightarrow> operation_log_sequence d' = operation_log_sequence d \<Longrightarrow> log_ok d \<Longrightarrow> log_ok d'"
    and "outbox d' = outbox d \<Longrightarrow> outbox_ok d \<Longrightarrow> outbox_ok d'"
    and "schedules d' = schedules d \<Longrightarrow> schedules_ok d \<Longrightarrow> schedules_ok d'"
    and "schedule_tasks d' = schedule_tasks d \<Longrightarrow> tasks_ok d \<Longrightarrow> tasks_ok d'"
    and "schedule_runs d' = schedule_runs d \<Longrightarrow> runs_ok d \<Longrightarrow> runs_ok d'"
    and "backups d' = backups d \<Longrightarrow> backups_ok d \<Longrightarrow> backups_ok d'"
    and "backup_deliveries d' = backup_deliveries d \<Longrightarrow> backup_deliveries_ok d \<Longrightarrow> backup_deliveries_ok d'"
    and "webhook_destinations d' = webhook_destinations d \<Longrightarrow> destinations_ok d \<Longrightarrow> destinations_ok d'"
    and "webhook_deliveries d' = webhook_deliveries d \<Longrightarrow> webhook_deliveries_ok d \<Longrightarrow> webhook_deliveries_ok d'"
    and "activity d' = activity d \<Longrightarrow> activity_ok d \<Longrightarrow> activity_ok d'"
    and "audit d' = audit d \<Longrightarrow> audit_ok d \<Longrightarrow> audit_ok d'"
proof -
  have sub: "\<And>x. x \<in> sv_id ` set (servers d) \<Longrightarrow> x \<in> sv_id ` set (servers d')"
    "\<And>x. x \<in> op_id ` set (operations d) \<Longrightarrow> x \<in> op_id ` set (operations d')"
    "\<And>x. x \<in> sc_id ` set (schedules d) \<Longrightarrow> x \<in> sc_id ` set (schedules d')"
    "\<And>x. x \<in> bk_id ` set (backups d) \<Longrightarrow> x \<in> bk_id ` set (backups d')"
    "\<And>x. x \<in> wh_id ` set (webhook_destinations d) \<Longrightarrow> x \<in> wh_id ` set (webhook_destinations d')"
    using assms by (simp_all only: refs_le_def subset_eq)
  show "servers d' = servers d \<Longrightarrow> servers_ok d \<Longrightarrow> servers_ok d'"
    unfolding servers_ok_def by (auto intro: sub)
  show "resources d' = resources d \<Longrightarrow> resources_ok d \<Longrightarrow> resources_ok d'"
    unfolding resources_ok_def by (auto intro: sub)
  show "runtimes d' = runtimes d \<Longrightarrow> runtimes_ok d \<Longrightarrow> runtimes_ok d'"
    unfolding runtimes_ok_def by (auto intro: sub)
  show "server_ports d' = server_ports d \<Longrightarrow> ports_ok d \<Longrightarrow> ports_ok d'"
    unfolding ports_ok_def by (auto intro: sub)
  show "server_variables d' = server_variables d \<Longrightarrow> variables_ok d \<Longrightarrow> variables_ok d'"
    unfolding variables_ok_def by (auto intro: sub)
  show "variable_definitions d' = variable_definitions d \<Longrightarrow> definitions_ok d \<Longrightarrow> definitions_ok d'"
    unfolding definitions_ok_def by (auto intro: sub)
  show "operations d' = operations d \<Longrightarrow> operations_ok d \<Longrightarrow> operations_ok d'"
    unfolding operations_ok_def by (auto intro: sub)
  show "operation_log d' = operation_log d \<Longrightarrow> operation_log_sequence d' = operation_log_sequence d \<Longrightarrow> log_ok d \<Longrightarrow> log_ok d'"
    unfolding log_ok_def by (auto intro: sub)
  show "outbox d' = outbox d \<Longrightarrow> outbox_ok d \<Longrightarrow> outbox_ok d'"
    unfolding outbox_ok_def by (auto intro: sub)
  show "schedules d' = schedules d \<Longrightarrow> schedules_ok d \<Longrightarrow> schedules_ok d'"
    unfolding schedules_ok_def by (auto intro: sub)
  show "schedule_tasks d' = schedule_tasks d \<Longrightarrow> tasks_ok d \<Longrightarrow> tasks_ok d'"
    unfolding tasks_ok_def by (auto intro: sub)
  show "schedule_runs d' = schedule_runs d \<Longrightarrow> runs_ok d \<Longrightarrow> runs_ok d'"
    unfolding runs_ok_def by (auto intro: sub)
  show "backups d' = backups d \<Longrightarrow> backups_ok d \<Longrightarrow> backups_ok d'"
    unfolding backups_ok_def by (auto intro: sub)
  show "backup_deliveries d' = backup_deliveries d \<Longrightarrow> backup_deliveries_ok d \<Longrightarrow> backup_deliveries_ok d'"
    unfolding backup_deliveries_ok_def by (auto intro: sub)
  show "webhook_destinations d' = webhook_destinations d \<Longrightarrow> destinations_ok d \<Longrightarrow> destinations_ok d'"
    unfolding destinations_ok_def by (auto intro: sub)
  show "webhook_deliveries d' = webhook_deliveries d \<Longrightarrow> webhook_deliveries_ok d \<Longrightarrow> webhook_deliveries_ok d'"
    unfolding webhook_deliveries_ok_def by (auto intro: sub)
  show "activity d' = activity d \<Longrightarrow> activity_ok d \<Longrightarrow> activity_ok d'"
    unfolding activity_ok_def by (auto intro: sub)
  show "audit d' = audit d \<Longrightarrow> audit_ok d \<Longrightarrow> audit_ok d'"
    unfolding audit_ok_def by (auto intro: sub)
qed

text \<open>
  One statement: every table is either left alone or shown to keep its constraints.
\<close>

lemma integrity_step:
  assumes ok: "db_ok d" and refs: "refs_le d d'"
    and "servers d' = servers d \<or> (servers_ok d \<longrightarrow> servers_ok d')"
    and "resources d' = resources d \<or> (resources_ok d \<longrightarrow> resources_ok d')"
    and "runtimes d' = runtimes d \<or> (runtimes_ok d \<longrightarrow> runtimes_ok d')"
    and "server_ports d' = server_ports d \<or> (ports_ok d \<longrightarrow> ports_ok d')"
    and "server_variables d' = server_variables d \<or> (variables_ok d \<longrightarrow> variables_ok d')"
    and "variable_definitions d' = variable_definitions d \<or> (definitions_ok d \<longrightarrow> definitions_ok d')"
    and "operations d' = operations d \<or> (operations_ok d \<longrightarrow> operations_ok d')"
    and "operation_log d' = operation_log d \<and> operation_log_sequence d' = operation_log_sequence d \<or> (log_ok d \<longrightarrow> log_ok d')"
    and "outbox d' = outbox d \<or> (outbox_ok d \<longrightarrow> outbox_ok d')"
    and "schedules d' = schedules d \<or> (schedules_ok d \<longrightarrow> schedules_ok d')"
    and "schedule_tasks d' = schedule_tasks d \<or> (tasks_ok d \<longrightarrow> tasks_ok d')"
    and "schedule_runs d' = schedule_runs d \<or> (runs_ok d \<longrightarrow> runs_ok d')"
    and "backups d' = backups d \<or> (backups_ok d \<longrightarrow> backups_ok d')"
    and "backup_deliveries d' = backup_deliveries d \<or> (backup_deliveries_ok d \<longrightarrow> backup_deliveries_ok d')"
    and "webhook_destinations d' = webhook_destinations d \<or> (destinations_ok d \<longrightarrow> destinations_ok d')"
    and "webhook_deliveries d' = webhook_deliveries d \<or> (webhook_deliveries_ok d \<longrightarrow> webhook_deliveries_ok d')"
    and "activity d' = activity d \<or> (activity_ok d \<longrightarrow> activity_ok d')"
    and "audit d' = audit d \<or> (audit_ok d \<longrightarrow> audit_ok d')"
  shows "db_ok d'"
proof -
  note mono = ok_mono [OF refs]
  have "servers_ok d'" using ok assms(3) mono(1) unfolding db_ok_def by blast
  moreover have "resources_ok d'" using ok assms(4) mono(2) unfolding db_ok_def by blast
  moreover have "runtimes_ok d'" using ok assms(5) mono(3) unfolding db_ok_def by blast
  moreover have "ports_ok d'" using ok assms(6) mono(4) unfolding db_ok_def by blast
  moreover have "variables_ok d'" using ok assms(7) mono(5) unfolding db_ok_def by blast
  moreover have "definitions_ok d'" using ok assms(8) mono(6) unfolding db_ok_def by blast
  moreover have "operations_ok d'" using ok assms(9) mono(7) unfolding db_ok_def by blast
  moreover have "log_ok d'" using ok assms(10) mono(8) unfolding db_ok_def by blast
  moreover have "outbox_ok d'" using ok assms(11) mono(9) unfolding db_ok_def by blast
  moreover have "schedules_ok d'" using ok assms(12) mono(10) unfolding db_ok_def by blast
  moreover have "tasks_ok d'" using ok assms(13) mono(11) unfolding db_ok_def by blast
  moreover have "runs_ok d'" using ok assms(14) mono(12) unfolding db_ok_def by blast
  moreover have "backups_ok d'" using ok assms(15) mono(13) unfolding db_ok_def by blast
  moreover have "backup_deliveries_ok d'" using ok assms(16) mono(14) unfolding db_ok_def by blast
  moreover have "destinations_ok d'" using ok assms(17) mono(15) unfolding db_ok_def by blast
  moreover have "webhook_deliveries_ok d'" using ok assms(18) mono(16) unfolding db_ok_def by blast
  moreover have "activity_ok d'" using ok assms(19) mono(17) unfolding db_ok_def by blast
  moreover have "audit_ok d'" using ok assms(20) mono(18) unfolding db_ok_def by blast
  ultimately show ?thesis unfolding db_ok_def by (intro conjI)
qed

lemma names_uniqueD:
  "names_unique t \<Longrightarrow> r \<in> set t \<Longrightarrow> r' \<in> set t \<Longrightarrow> sv_deleted_at r = None \<Longrightarrow> sv_deleted_at r' = None \<Longrightarrow>
   name_key r = name_key r' \<Longrightarrow> sv_id r = sv_id r'"
  unfolding names_unique_def by blast

lemma names_unique_single [simp]: "names_unique [r]"
  unfolding names_unique_def by simp

lemma names_unique_append:
  assumes old: "names_unique t"
    and new: "\<And>x. x \<in> set t \<Longrightarrow> sv_deleted_at x = None \<Longrightarrow> sv_deleted_at r = None \<Longrightarrow> name_key x \<noteq> name_key r"
  shows "names_unique (t @ [r])"
  unfolding names_unique_def
proof (intro ballI impI)
  fix a b
  assume "a \<in> set (t @ [r])" "b \<in> set (t @ [r])"
    and live: "sv_deleted_at a = None" "sv_deleted_at b = None" and key: "name_key a = name_key b"
  then consider "a \<in> set t" "b \<in> set t" | "a = r" "b = r" | "a \<in> set t" "b = r" | "a = r" "b \<in> set t"
    by auto
  then show "sv_id a = sv_id b"
  proof cases
    case 1
    then show ?thesis using names_uniqueD [OF old] live key by blast
  next
    case 3
    then show ?thesis using new live key by metis
  next
    case 4
    then show ?thesis using new live key by metis
  qed simp
qed

lemma name_taken_key: "name_taken (sv_installation_id r) (sv_name r) d \<longleftrightarrow>
    (\<exists>x \<in> set (servers d). sv_deleted_at x = None \<and> name_key x = name_key r)"
  unfolding name_taken_def name_key_def by blast

lemma insert_server_ok [keeps_ok]: "preserves db_ok (insert_server r)"
proof (rule preservesI)
  fix d d' assume ok: "db_ok d" and ins: "insert_server r d = Inr d'"
  from ins have d': "d' = d\<lparr>servers := servers d @ [r]\<rparr>" by (simp add: insert_server_def)
  have "names_unique (servers d @ [r])" if "names_unique (servers d)"
    by (rule names_unique_append [OF that]) (use ins name_taken_key [of r d] in \<open>auto simp: insert_server_def\<close>)
  with ins have srv: "servers_ok d \<longrightarrow> servers_ok d'"
    by (simp add: insert_server_def servers_ok_def d')
  have "refs_le d d'" by (auto simp: refs_le_def d')
  from integrity_step [OF ok this] srv show "db_ok d'" by (simp add: d')
qed

lemma insert_resources_ok [keeps_ok]: "preserves db_ok (insert_resources r)"
  by (rule preservesI, erule integrity_step) (auto simp: insert_resources_def resources_ok_def server_exists_def refs_le_def)

lemma insert_runtime_ok [keeps_ok]: "preserves db_ok (insert_runtime r)"
  by (rule preservesI, erule integrity_step) (auto simp: insert_runtime_def runtimes_ok_def server_exists_def refs_le_def)

lemma insert_port_ok [keeps_ok]: "preserves db_ok (insert_port r)"
  by (rule preservesI, erule integrity_step) (auto simp: insert_port_def ports_ok_def server_exists_def refs_le_def)

lemma insert_variable_ok [keeps_ok]: "preserves db_ok (insert_variable r)"
  by (rule preservesI, erule integrity_step) (auto simp: insert_variable_def variables_ok_def server_exists_def refs_le_def)

lemma upsert_variable_ok [keeps_ok]: "preserves db_ok (upsert_variable r)"
proof (rule preservesI)
  fix d d' assume ok: "db_ok d" and run: "upsert_variable r d = Inr d'"
  show "db_ok d'"
  proof (cases "variable_key r \<in> variable_key ` set (server_variables d)")
    case True
    let ?f = "\<lambda>x. x\<lparr>va_value_text := va_value_text r, va_value_encrypted := va_value_encrypted r,
      va_is_secret := va_is_secret r\<rparr>"
    from True run have d': "check_variable r"
      "d' = d\<lparr>server_variables := upd (\<lambda>x. variable_key x = variable_key r) ?f (server_variables d)\<rparr>"
      by (simp_all add: upsert_variable_def)
    have keys: "map variable_key (server_variables d') = map variable_key (server_variables d)"
      unfolding d' by (simp, rule map_ids_upd) (simp add: variable_key_def)
    from ok d'(1) have "variables_ok d'"
      using keys by (auto simp: db_ok_def variables_ok_def d'(2) set_upd check_variable_def)
    moreover have "refs_le d d'" by (simp add: refs_le_def d'(2))
    ultimately show ?thesis using integrity_step [OF ok] by (simp add: d'(2))
  next
    case False
    with run have "insert_variable r d = Inr d'" by (simp add: upsert_variable_def)
    with ok show ?thesis by (rule preservesD [OF insert_variable_ok])
  qed
qed

lemma insert_variable_definition_ok [keeps_ok]: "preserves db_ok (insert_variable_definition r)"
  by (rule preservesI, erule integrity_step)
    (auto simp: insert_variable_definition_def definitions_ok_def server_exists_def refs_le_def)

lemma insert_operation_ok [keeps_ok]: "preserves db_ok (insert_operation r)"
  by (rule preservesI, erule integrity_step) (auto simp: insert_operation_def operations_ok_def server_exists_opt_def server_exists_def refs_le_def)

lemma insert_log_ok [keeps_ok]: "preserves db_ok (insert_log r)"
proof (rule preservesI)
  fix d d' assume ok: "db_ok d" and ins: "insert_log r d = Inr d'"
  from ins have d': "d' = d\<lparr>operation_log := operation_log d @ [r\<lparr>lo_sequence := operation_log_sequence d\<rparr>],
          operation_log_sequence := operation_log_sequence d + 1\<rparr>"
    and row: "check_log r" "lo_server_id r \<in> sv_id ` set (servers d)"
      "lo_operation_id r \<in> op_id ` set (operations d)"
    by (auto simp: insert_log_def server_exists_def)
  from ok have old: "log_ok d" by (simp add: db_ok_def)
  have "operation_log_sequence d \<notin> lo_sequence ` set (operation_log d)"
    using old by (auto simp: log_ok_def)
  with old row have "log_ok d'"
    by (auto simp: log_ok_def d' check_log_def)
  moreover have "refs_le d d'" by (simp add: refs_le_def d')
  ultimately show "db_ok d'" using ok ok_mono [of d d'] by (simp add: db_ok_def d')
qed

lemma insert_outbox_ok [keeps_ok]: "preserves db_ok (insert_outbox r)"
  by (rule preservesI, erule integrity_step) (auto simp: insert_outbox_def outbox_ok_def refs_le_def)

lemma insert_schedule_ok [keeps_ok]: "preserves db_ok (insert_schedule r)"
  by (rule preservesI, erule integrity_step) (auto simp: insert_schedule_def schedules_ok_def server_exists_def refs_le_def)

lemma insert_task_ok [keeps_ok]: "preserves db_ok (insert_task r)"
  by (rule preservesI, erule integrity_step) (auto simp: insert_task_def tasks_ok_def refs_le_def)

lemma insert_run_ok [keeps_ok]: "preserves db_ok (insert_run r)"
  by (rule preservesI, erule integrity_step) (auto simp: insert_run_def runs_ok_def refs_le_def)

lemma insert_run_or_ignore_ok [keeps_ok]: "preserves db_ok (insert_run_or_ignore r)"
  using insert_run_ok [of r] by (auto simp: preserves_def insert_run_or_ignore_def)

lemma insert_backup_ok [keeps_ok]: "preserves db_ok (insert_backup r)"
  by (rule preservesI, erule integrity_step) (auto simp: insert_backup_def backups_ok_def server_exists_def refs_le_def)

lemma insert_backup_delivery_ok [keeps_ok]: "preserves db_ok (insert_backup_delivery r)"
  by (rule preservesI, erule integrity_step) (auto simp: insert_backup_delivery_def backup_deliveries_ok_def refs_le_def)

lemma insert_destination_ok [keeps_ok]: "preserves db_ok (insert_destination r)"
  by (rule preservesI, erule integrity_step) (auto simp: insert_destination_def destinations_ok_def server_exists_def refs_le_def)

lemma insert_webhook_delivery_ok [keeps_ok]: "preserves db_ok (insert_webhook_delivery r)"
  by (rule preservesI, erule integrity_step) (auto simp: insert_webhook_delivery_def webhook_deliveries_ok_def refs_le_def)

lemma insert_audit_row_ok [keeps_ok]: "preserves db_ok (insert_audit_row r)"
  by (rule preservesI, erule integrity_step) (auto simp: insert_audit_row_def audit_ok_def refs_le_def)

lemma insert_activity_ok [keeps_ok]: "preserves db_ok (insert_activity r)"
proof (rule preservesI)
  fix d d' assume ok: "db_ok d" and ins: "insert_activity r d = Inr d'"
  let ?q = "dockside_enqueue_webhook_deliveries r d"
  from ins have d': "d' = d\<lparr>activity := activity d @ [r],
      webhook_deliveries := webhook_deliveries d @ ?q\<rparr>"
    and new: "ac_id r \<notin> ac_id ` set (activity d)" "check_activity r"
      "server_exists_opt (ac_server_id r) d" "distinct (map wd_id (webhook_deliveries d @ ?q))"
    by (auto simp: insert_activity_def Let_def)
  have "\<forall>x \<in> set ?q. check_webhook_delivery x \<and> wd_destination_id x \<in> wh_id ` set (webhook_destinations d)"
    by (auto simp: dockside_enqueue_webhook_deliveries_def queued_delivery_def check_webhook_delivery_def)
  with ok new have "webhook_deliveries_ok d'"
    by (auto simp: d' webhook_deliveries_ok_def db_ok_def)
  moreover from ok new have "activity_ok d'"
    by (auto simp: d' activity_ok_def db_ok_def server_exists_opt_def server_exists_def)
  moreover have "refs_le d d'" by (simp add: refs_le_def d')
  ultimately show "db_ok d'" using ok ok_mono [of d d'] by (simp add: db_ok_def d')
qed

lemma update_servers_ok [keeps_ok]:
  assumes "\<And>r. p r \<Longrightarrow> sv_id (f r) = sv_id r"
    and "\<And>r. p r \<Longrightarrow> sv_name (f r) = sv_name r"
    and "\<And>r. p r \<Longrightarrow> sv_installation_id (f r) = sv_installation_id r"
    and "\<And>r. p r \<Longrightarrow> sv_deleted_at (f r) = None \<Longrightarrow> sv_deleted_at r = None"
    and "\<And>r. p r \<Longrightarrow> check_server r \<Longrightarrow> check_server (f r)"
  shows "preserves db_ok (update_servers p f)"
proof (rule preservesI)
  fix d d' assume ok: "db_ok d" and "update_servers p f d = Inr d'"
  then have d': "d' = d\<lparr>servers := upd p f (servers d)\<rparr>" by (simp add: update_servers_def)
  let ?g = "\<lambda>r. if p r then f r else r"
  have same: "sv_id (?g r) = sv_id r" "name_key (?g r) = name_key r"
    "sv_deleted_at (?g r) = None \<Longrightarrow> sv_deleted_at r = None" for r
    using assms by (simp_all add: name_key_def split: if_splits)
  have "names_unique (upd p f (servers d))" if "names_unique (servers d)"
    unfolding names_unique_def set_upd
  proof (intro ballI impI, elim imageE)
    fix a b r r'
    assume a: "a = ?g r" "r \<in> set (servers d)" "sv_deleted_at a = None"
      and b: "b = ?g r'" "r' \<in> set (servers d)" "sv_deleted_at b = None" and key: "name_key a = name_key b"
    from a(3) b(3) key have "sv_deleted_at r = None" "sv_deleted_at r' = None" "name_key r = name_key r'"
      unfolding a(1) b(1) by (auto dest: same(3) simp only: same(2))
    with names_uniqueD [OF that a(2) b(2)] show "sv_id a = sv_id b" unfolding a(1) b(1) same(1) by blast
  qed
  then have srv: "servers_ok d \<longrightarrow> servers_ok d'"
    by (auto simp: d' servers_ok_def map_ids_upd set_upd assms)
  have "refs_le d d'" by (simp add: refs_le_def d' ids_upd assms)
  from integrity_step [OF ok this] srv show "db_ok d'" by (simp add: d')
qed

lemma checked_update_servers_ok [keeps_ok]:
  assumes "\<And>r. p r \<Longrightarrow> sv_id (f r) = sv_id r" and one: "\<And>r r'. p r \<Longrightarrow> p r' \<Longrightarrow> sv_id r = sv_id r'"
  shows "preserves db_ok (checked_update_servers p f)"
proof (rule preservesI)
  fix d d' assume ok: "db_ok d" and run: "checked_update_servers p f d = Inr d'"
  then have d': "d' = d\<lparr>servers := upd p f (servers d)\<rparr>" by (simp add: checked_update_servers_def)
  let ?g = "\<lambda>r. if p r then f r else r"
  have id: "sv_id (?g r) = sv_id r" for r using assms(1) by simp
  have new: "sv_id x = sv_id r" if "p r" "r \<in> set (servers d)" "sv_deleted_at (f r) = None"
    "x \<in> set (servers d)" "sv_deleted_at x = None" "name_key x = name_key (f r)" for r x
    using run that unfolding checked_update_servers_def constrain_Inr by blast
  have "names_unique (upd p f (servers d))" if old: "names_unique (servers d)"
    unfolding names_unique_def set_upd
  proof (intro ballI impI, elim imageE)
    fix a b r r'
    assume a: "a = ?g r" "r \<in> set (servers d)" "sv_deleted_at a = None"
      and b: "b = ?g r'" "r' \<in> set (servers d)" "sv_deleted_at b = None" and key: "name_key a = name_key b"
    have "sv_id r = sv_id r'"
    proof (cases "p r")
      case True
      with a b key one [of r r'] new [of r r'] show ?thesis by (auto split: if_splits)
    next
      case False
      show ?thesis
      proof (cases "p r'")
        case True
        with False a b key new [of r' r] show ?thesis by simp
      next
        case np: False
        with False a b key have "sv_deleted_at r = None" "sv_deleted_at r' = None" "name_key r = name_key r'"
          by simp_all
        then show ?thesis by (rule names_uniqueD [OF old a(2) b(2)])
      qed
    qed
    then show "sv_id a = sv_id b" unfolding a(1) b(1) id .
  qed
  moreover have "\<forall>r \<in> set (servers d). p r \<longrightarrow> check_server (f r)"
    using run by (simp add: checked_update_servers_def)
  ultimately have srv: "servers_ok d \<longrightarrow> servers_ok d'"
    by (auto simp: d' servers_ok_def map_ids_upd set_upd assms(1))
  have "refs_le d d'" by (simp add: refs_le_def d' ids_upd assms(1))
  from integrity_step [OF ok this] srv show "db_ok d'" by (simp add: d')
qed

lemma checked_update_resources_ok [keeps_ok]:
  assumes "\<And>r. p r \<Longrightarrow> rs_server_id (f r) = rs_server_id r"
  shows "preserves db_ok (checked_update_resources p f)"
  by (rule preservesI, erule integrity_step)
    (auto simp: checked_update_resources_def refs_le_def resources_ok_def map_ids_upd set_upd assms)

lemma update_runtimes_ok [keeps_ok]:
  assumes "\<And>r. p r \<Longrightarrow> rt_server_id (f r) = rt_server_id r"
  shows "preserves db_ok (update_runtimes p f)"
  by (rule preservesI, erule integrity_step, clarsimp simp: update_runtimes_def refs_le_def ids_upd assms)
    (auto simp: update_runtimes_def runtimes_ok_def map_ids_upd set_upd assms)

lemma update_operations_ok [keeps_ok]:
  assumes "\<And>r. p r \<Longrightarrow> op_id (f r) = op_id r"
    and "\<And>r. p r \<Longrightarrow> op_idempotency_key (f r) = op_idempotency_key r"
    and "\<And>r. p r \<Longrightarrow> op_server_id (f r) = op_server_id r"
    and "\<And>r. p r \<Longrightarrow> check_operation r \<Longrightarrow> check_operation (f r)"
  shows "preserves db_ok (update_operations p f)"
  by (rule preservesI, erule integrity_step, clarsimp simp: update_operations_def refs_le_def ids_upd assms)
    (auto simp: update_operations_def operations_ok_def map_ids_upd set_upd assms)

lemma update_outbox_ok [keeps_ok]:
  assumes "\<And>r. p r \<Longrightarrow> ob_id (f r) = ob_id r"
  shows "preserves db_ok (update_outbox p f)"
  by (rule preservesI, erule integrity_step, clarsimp simp: update_outbox_def refs_le_def ids_upd assms)
    (auto simp: update_outbox_def outbox_ok_def map_ids_upd set_upd assms)

lemma update_schedules_ok [keeps_ok]:
  assumes "\<And>r. p r \<Longrightarrow> sc_id (f r) = sc_id r"
    and "\<And>r. p r \<Longrightarrow> sc_server_id (f r) = sc_server_id r"
    and "\<And>r. p r \<Longrightarrow> check_schedule r \<Longrightarrow> check_schedule (f r)"
  shows "preserves db_ok (update_schedules p f)"
  by (rule preservesI, erule integrity_step, clarsimp simp: update_schedules_def refs_le_def ids_upd assms)
    (auto simp: update_schedules_def schedules_ok_def map_ids_upd set_upd assms)

lemma update_runs_ok [keeps_ok]:
  assumes "\<And>r. p r \<Longrightarrow> ru_id (f r) = ru_id r"
    and "\<And>r. p r \<Longrightarrow> ru_schedule_id (f r) = ru_schedule_id r"
    and "\<And>r. p r \<Longrightarrow> ru_planned_for (f r) = ru_planned_for r"
    and "\<And>r. p r \<Longrightarrow> check_run r \<Longrightarrow> check_run (f r)"
  shows "preserves db_ok (update_runs p f)"
  by (rule preservesI, erule integrity_step, clarsimp simp: update_runs_def refs_le_def ids_upd assms)
    (auto simp: update_runs_def runs_ok_def map_ids_upd run_key_def set_upd assms)

lemma update_backups_ok [keeps_ok]:
  assumes "\<And>r. p r \<Longrightarrow> bk_id (f r) = bk_id r"
    and "\<And>r. p r \<Longrightarrow> bk_server_id (f r) = bk_server_id r"
    and "\<And>r. p r \<Longrightarrow> check_backup r \<Longrightarrow> check_backup (f r)"
  shows "preserves db_ok (update_backups p f)"
  by (rule preservesI, erule integrity_step, clarsimp simp: update_backups_def refs_le_def ids_upd assms)
    (auto simp: update_backups_def backups_ok_def map_ids_upd set_upd assms)

lemma update_backup_deliveries_ok [keeps_ok]:
  assumes "\<And>r. p r \<Longrightarrow> de_id (f r) = de_id r"
    and "\<And>r. p r \<Longrightarrow> de_backup_id (f r) = de_backup_id r"
    and "\<And>r. p r \<Longrightarrow> de_destination_id (f r) = de_destination_id r"
    and "\<And>r. p r \<Longrightarrow> check_backup_delivery r \<Longrightarrow> check_backup_delivery (f r)"
  shows "preserves db_ok (update_backup_deliveries p f)"
  by (rule preservesI, erule integrity_step, clarsimp simp: update_backup_deliveries_def refs_le_def ids_upd assms)
    (auto simp: update_backup_deliveries_def backup_deliveries_ok_def map_ids_upd delivery_key_def set_upd assms)

lemma update_destinations_ok [keeps_ok]:
  assumes "\<And>r. p r \<Longrightarrow> wh_id (f r) = wh_id r"
    and "\<And>r. p r \<Longrightarrow> wh_server_id (f r) = wh_server_id r"
    and "\<And>r. p r \<Longrightarrow> check_destination r \<Longrightarrow> check_destination (f r)"
  shows "preserves db_ok (update_destinations p f)"
  by (rule preservesI, erule integrity_step, clarsimp simp: update_destinations_def refs_le_def ids_upd assms)
    (auto simp: update_destinations_def destinations_ok_def map_ids_upd set_upd assms)

lemma update_webhook_deliveries_ok [keeps_ok]:
  assumes "\<And>r. p r \<Longrightarrow> wd_id (f r) = wd_id r"
    and "\<And>r. p r \<Longrightarrow> wd_destination_id (f r) = wd_destination_id r"
    and "\<And>r. p r \<Longrightarrow> check_webhook_delivery r \<Longrightarrow> check_webhook_delivery (f r)"
  shows "preserves db_ok (update_webhook_deliveries p f)"
  by (rule preservesI, erule integrity_step, clarsimp simp: update_webhook_deliveries_def refs_le_def ids_upd assms)
    (auto simp: update_webhook_deliveries_def webhook_deliveries_ok_def map_ids_upd set_upd assms)

lemma other_tables_schedules:
  "servers_ok (d\<lparr>schedules := a, schedule_tasks := b, schedule_runs := c\<rparr>) = servers_ok d"
  "resources_ok (d\<lparr>schedules := a, schedule_tasks := b, schedule_runs := c\<rparr>) = resources_ok d"
  "runtimes_ok (d\<lparr>schedules := a, schedule_tasks := b, schedule_runs := c\<rparr>) = runtimes_ok d"
  "ports_ok (d\<lparr>schedules := a, schedule_tasks := b, schedule_runs := c\<rparr>) = ports_ok d"
  "variables_ok (d\<lparr>schedules := a, schedule_tasks := b, schedule_runs := c\<rparr>) = variables_ok d"
  "definitions_ok (d\<lparr>schedules := a, schedule_tasks := b, schedule_runs := c\<rparr>) = definitions_ok d"
  "operations_ok (d\<lparr>schedules := a, schedule_tasks := b, schedule_runs := c\<rparr>) = operations_ok d"
  "log_ok (d\<lparr>schedules := a, schedule_tasks := b, schedule_runs := c\<rparr>) = log_ok d"
  "outbox_ok (d\<lparr>schedules := a, schedule_tasks := b, schedule_runs := c\<rparr>) = outbox_ok d"
  "backups_ok (d\<lparr>schedules := a, schedule_tasks := b, schedule_runs := c\<rparr>) = backups_ok d"
  "backup_deliveries_ok (d\<lparr>schedules := a, schedule_tasks := b, schedule_runs := c\<rparr>) = backup_deliveries_ok d"
  "destinations_ok (d\<lparr>schedules := a, schedule_tasks := b, schedule_runs := c\<rparr>) = destinations_ok d"
  "webhook_deliveries_ok (d\<lparr>schedules := a, schedule_tasks := b, schedule_runs := c\<rparr>) = webhook_deliveries_ok d"
  "activity_ok (d\<lparr>schedules := a, schedule_tasks := b, schedule_runs := c\<rparr>) = activity_ok d"
  "audit_ok (d\<lparr>schedules := a, schedule_tasks := b, schedule_runs := c\<rparr>) = audit_ok d"
  by (simp_all add: servers_ok_def resources_ok_def runtimes_ok_def ports_ok_def variables_ok_def definitions_ok_def operations_ok_def log_ok_def outbox_ok_def backups_ok_def backup_deliveries_ok_def destinations_ok_def webhook_deliveries_ok_def activity_ok_def audit_ok_def)

lemma other_tables_backups:
  "servers_ok (d\<lparr>backups := a, backup_deliveries := b\<rparr>) = servers_ok d"
  "resources_ok (d\<lparr>backups := a, backup_deliveries := b\<rparr>) = resources_ok d"
  "runtimes_ok (d\<lparr>backups := a, backup_deliveries := b\<rparr>) = runtimes_ok d"
  "ports_ok (d\<lparr>backups := a, backup_deliveries := b\<rparr>) = ports_ok d"
  "variables_ok (d\<lparr>backups := a, backup_deliveries := b\<rparr>) = variables_ok d"
  "definitions_ok (d\<lparr>backups := a, backup_deliveries := b\<rparr>) = definitions_ok d"
  "operations_ok (d\<lparr>backups := a, backup_deliveries := b\<rparr>) = operations_ok d"
  "log_ok (d\<lparr>backups := a, backup_deliveries := b\<rparr>) = log_ok d"
  "outbox_ok (d\<lparr>backups := a, backup_deliveries := b\<rparr>) = outbox_ok d"
  "schedules_ok (d\<lparr>backups := a, backup_deliveries := b\<rparr>) = schedules_ok d"
  "tasks_ok (d\<lparr>backups := a, backup_deliveries := b\<rparr>) = tasks_ok d"
  "runs_ok (d\<lparr>backups := a, backup_deliveries := b\<rparr>) = runs_ok d"
  "destinations_ok (d\<lparr>backups := a, backup_deliveries := b\<rparr>) = destinations_ok d"
  "webhook_deliveries_ok (d\<lparr>backups := a, backup_deliveries := b\<rparr>) = webhook_deliveries_ok d"
  "activity_ok (d\<lparr>backups := a, backup_deliveries := b\<rparr>) = activity_ok d"
  "audit_ok (d\<lparr>backups := a, backup_deliveries := b\<rparr>) = audit_ok d"
  by (simp_all add: servers_ok_def resources_ok_def runtimes_ok_def ports_ok_def variables_ok_def definitions_ok_def operations_ok_def log_ok_def outbox_ok_def schedules_ok_def tasks_ok_def runs_ok_def destinations_ok_def webhook_deliveries_ok_def activity_ok_def audit_ok_def)

lemma other_tables_destinations:
  "servers_ok (d\<lparr>webhook_destinations := a, webhook_deliveries := b, backup_deliveries := c\<rparr>) = servers_ok d"
  "resources_ok (d\<lparr>webhook_destinations := a, webhook_deliveries := b, backup_deliveries := c\<rparr>) = resources_ok d"
  "runtimes_ok (d\<lparr>webhook_destinations := a, webhook_deliveries := b, backup_deliveries := c\<rparr>) = runtimes_ok d"
  "ports_ok (d\<lparr>webhook_destinations := a, webhook_deliveries := b, backup_deliveries := c\<rparr>) = ports_ok d"
  "variables_ok (d\<lparr>webhook_destinations := a, webhook_deliveries := b, backup_deliveries := c\<rparr>) = variables_ok d"
  "definitions_ok (d\<lparr>webhook_destinations := a, webhook_deliveries := b, backup_deliveries := c\<rparr>) = definitions_ok d"
  "operations_ok (d\<lparr>webhook_destinations := a, webhook_deliveries := b, backup_deliveries := c\<rparr>) = operations_ok d"
  "log_ok (d\<lparr>webhook_destinations := a, webhook_deliveries := b, backup_deliveries := c\<rparr>) = log_ok d"
  "outbox_ok (d\<lparr>webhook_destinations := a, webhook_deliveries := b, backup_deliveries := c\<rparr>) = outbox_ok d"
  "schedules_ok (d\<lparr>webhook_destinations := a, webhook_deliveries := b, backup_deliveries := c\<rparr>) = schedules_ok d"
  "tasks_ok (d\<lparr>webhook_destinations := a, webhook_deliveries := b, backup_deliveries := c\<rparr>) = tasks_ok d"
  "runs_ok (d\<lparr>webhook_destinations := a, webhook_deliveries := b, backup_deliveries := c\<rparr>) = runs_ok d"
  "backups_ok (d\<lparr>webhook_destinations := a, webhook_deliveries := b, backup_deliveries := c\<rparr>) = backups_ok d"
  "activity_ok (d\<lparr>webhook_destinations := a, webhook_deliveries := b, backup_deliveries := c\<rparr>) = activity_ok d"
  "audit_ok (d\<lparr>webhook_destinations := a, webhook_deliveries := b, backup_deliveries := c\<rparr>) = audit_ok d"
  by (simp_all add: servers_ok_def resources_ok_def runtimes_ok_def ports_ok_def variables_ok_def definitions_ok_def operations_ok_def log_ok_def outbox_ok_def schedules_ok_def tasks_ok_def runs_ok_def backups_ok_def activity_ok_def audit_ok_def)

lemma filter_del: "filter q (del p xs) = del p (filter q xs)"
  by (simp add: del_def filter_filter conj_commute)

lemma delete_ports_ok [keeps_ok]: "preserves db_ok (delete_ports p)"
  by (rule preservesI, erule integrity_step)
    (auto simp: delete_ports_def ports_ok_def refs_le_def distinct_map_del filter_del set_del)

lemma delete_variable_definitions_ok [keeps_ok]: "preserves db_ok (delete_variable_definitions p)"
  by (rule preservesI, erule integrity_step)
    (auto simp: delete_variable_definitions_def definitions_ok_def refs_le_def distinct_map_del set_del)

lemma delete_tasks_ok [keeps_ok]: "preserves db_ok (delete_tasks p)"
  by (rule preservesI, erule integrity_step)
    (auto simp: delete_tasks_def tasks_ok_def refs_le_def distinct_map_del set_del)

text \<open>
  The cascading deletes shrink a referenced key; every table but the one deleted from and those
  the cascade prunes reads the same columns before and after.
\<close>

lemma delete_schedules_ok [keeps_ok]: "preserves db_ok (delete_schedules p)"
proof (rule preservesI)
  fix d d' assume ok: "db_ok d" and "delete_schedules p d = Inr d'"
  then have d': "d' = d\<lparr>schedules := del p (schedules d),
      schedule_tasks := del (\<lambda>t. ta_schedule_id t \<notin> sc_id ` set (del p (schedules d))) (schedule_tasks d),
      schedule_runs := del (\<lambda>r. ru_schedule_id r \<notin> sc_id ` set (del p (schedules d))) (schedule_runs d)\<rparr>"
    by (simp add: delete_schedules_def Let_def)
  from ok have old: "schedules_ok d" "tasks_ok d" "runs_ok d" by (simp_all add: db_ok_def)
  have "schedules_ok d'" using old(1) by (simp add: d' schedules_ok_def distinct_map_del set_del)
  moreover have "tasks_ok d'" using old(2) by (simp add: d' tasks_ok_def distinct_map_del set_del)
  moreover have "runs_ok d'" using old(3) by (simp add: d' runs_ok_def distinct_map_del set_del)
  ultimately show "db_ok d'" using ok unfolding db_ok_def
    by (simp add: d' other_tables_schedules)
qed

lemma delete_backups_ok [keeps_ok]: "preserves db_ok (delete_backups p)"
proof (rule preservesI)
  fix d d' assume ok: "db_ok d" and "delete_backups p d = Inr d'"
  then have d': "d' = d\<lparr>backups := del p (backups d),
      backup_deliveries := del (\<lambda>r. de_backup_id r \<notin> bk_id ` set (del p (backups d))) (backup_deliveries d)\<rparr>"
    by (simp add: delete_backups_def Let_def)
  from ok have old: "backups_ok d" "backup_deliveries_ok d" by (simp_all add: db_ok_def)
  have "backups_ok d'" using old(1) by (simp add: d' backups_ok_def distinct_map_del set_del)
  moreover have "backup_deliveries_ok d'" using old(2)
    by (simp add: d' backup_deliveries_ok_def distinct_map_del set_del)
  ultimately show "db_ok d'" using ok unfolding db_ok_def
    by (simp add: d' other_tables_backups)
qed

lemma delete_destinations_ok [keeps_ok]: "preserves db_ok (delete_destinations p)"
proof (rule preservesI)
  fix d d' assume ok: "db_ok d" and "delete_destinations p d = Inr d'"
  then have d': "d' = d\<lparr>webhook_destinations := del p (webhook_destinations d),
      webhook_deliveries := del (\<lambda>r. wd_destination_id r \<notin> wh_id ` set (del p (webhook_destinations d)))
        (webhook_deliveries d),
      backup_deliveries := del (\<lambda>r. de_destination_id r \<notin> wh_id ` set (del p (webhook_destinations d)))
        (backup_deliveries d)\<rparr>"
    by (simp add: delete_destinations_def Let_def)
  from ok have old: "destinations_ok d" "webhook_deliveries_ok d" "backup_deliveries_ok d"
    by (simp_all add: db_ok_def)
  have "destinations_ok d'" using old(1) by (simp add: d' destinations_ok_def distinct_map_del set_del)
  moreover have "webhook_deliveries_ok d'" using old(2)
    by (simp add: d' webhook_deliveries_ok_def distinct_map_del set_del)
  moreover have "backup_deliveries_ok d'" using old(3)
    by (simp add: d' backup_deliveries_ok_def distinct_map_del set_del)
  ultimately show "db_ok d'" using ok unfolding db_ok_def
    by (simp add: d' other_tables_destinations)
qed

lemma require_keeps [keeps_ok]: "preserves i (require b e)"
  by (rule preservesI) (auto simp: require_def split: if_splits)

end
