(* ===== verification/Evolution.thy ===== *)
theory Evolution
  imports Integrity
begin

text \<open>
  How the servers table may change: rows are never removed, a deletion time is never cleared or
  moved, the version never decreases, and a live server has never more than one missing-container
  observation.  \<open>evolves d0 d\<close> relates two states of the database; since it is reflexive and
  transitive, "every statement of an operation keeps \<open>evolves d0\<close>" is an instance of
  \<^const>\<open>preserves\<close>, and the rules of the prelude prove it operation by operation.
\<close>

definition row_step :: "server \<Rightarrow> server \<Rightarrow> bool" where
  "row_step r r' \<longleftrightarrow> sv_id r' = sv_id r \<and> sv_version r \<le> sv_version r' \<and>
     (\<forall>t. sv_deleted_at r = Some t \<longrightarrow> sv_deleted_at r' = Some t) \<and>
     (sv_deleted_at r' = None \<longrightarrow>
        sv_missing_container_observations r' \<le> max 1 (sv_missing_container_observations r))"

definition fresh_row :: "server \<Rightarrow> bool" where
  "fresh_row r \<longleftrightarrow> (sv_deleted_at r = None \<longrightarrow> sv_missing_container_observations r \<le> 1)"

definition rows_evolve :: "db \<Rightarrow> db \<Rightarrow> bool" where
  "rows_evolve d d' \<longleftrightarrow>
     (\<forall>r \<in> set (servers d). \<exists>r' \<in> set (servers d'). row_step r r') \<and>
     (\<forall>r' \<in> set (servers d'). fresh_row r' \<or> (\<exists>r \<in> set (servers d). row_step r r'))"

text \<open>No host port is allocated to two servers, whatever addresses they bind it on.\<close>

definition hosts_disjoint :: "db \<Rightarrow> bool" where
  "hosts_disjoint d \<longleftrightarrow> (\<forall>p \<in> set (server_ports d). \<forall>q \<in> set (server_ports d).
     po_host_port p = po_host_port q \<longrightarrow> po_protocol p = po_protocol q \<longrightarrow> po_server_id p = po_server_id q)"

definition evolves :: "db \<Rightarrow> db \<Rightarrow> bool" where
  "evolves d d' \<longleftrightarrow> rows_evolve d d' \<and> (hosts_disjoint d \<longrightarrow> hosts_disjoint d')"

text \<open>The bound on observations that the reconciliation relies on.\<close>

definition observations_ok :: "db \<Rightarrow> bool" where
  "observations_ok d \<longleftrightarrow> (\<forall>r \<in> set (servers d). fresh_row r)"

lemma row_step_refl [simp]: "row_step r r"
  by (simp add: row_step_def)

lemma row_step_keep:
  "sv_id r' = sv_id r \<Longrightarrow> sv_version r \<le> sv_version r' \<Longrightarrow> sv_deleted_at r' = sv_deleted_at r \<Longrightarrow>
   sv_missing_container_observations r' \<le> max 1 (sv_missing_container_observations r) \<Longrightarrow> row_step r r'"
  by (simp add: row_step_def)

lemma row_step_trans: "row_step a b \<Longrightarrow> row_step b c \<Longrightarrow> row_step a c"
  unfolding row_step_def
  by (cases "sv_deleted_at b"; cases "sv_deleted_at a") auto

lemma row_step_fresh: "row_step a b \<Longrightarrow> fresh_row a \<Longrightarrow> fresh_row b"
  unfolding row_step_def fresh_row_def
  by (cases "sv_deleted_at a") auto

lemma rows_evolve_refl [simp]: "rows_evolve d d"
  unfolding rows_evolve_def by (auto intro: row_step_refl)

lemma rows_evolve_trans:
  assumes ab: "rows_evolve a b" and bc: "rows_evolve b c"
  shows "rows_evolve a c"
  unfolding rows_evolve_def
proof (intro conjI ballI)
  fix r assume "r \<in> set (servers a)"
  with ab obtain r1 where "r1 \<in> set (servers b)" "row_step r r1" unfolding rows_evolve_def by blast
  with bc obtain r2 where "r2 \<in> set (servers c)" "row_step r r2"
    unfolding rows_evolve_def by (meson row_step_trans)
  then show "\<exists>r' \<in> set (servers c). row_step r r'" by blast
next
  fix r' assume r': "r' \<in> set (servers c)"
  show "fresh_row r' \<or> (\<exists>r \<in> set (servers a). row_step r r')"
  proof (cases "fresh_row r'")
    case False
    with bc r' obtain r1 where r1: "r1 \<in> set (servers b)" "row_step r1 r'"
      unfolding rows_evolve_def by blast
    with False have "\<not> fresh_row r1" by (auto dest: row_step_fresh)
    with ab r1 obtain r where "r \<in> set (servers a)" "row_step r r1"
      unfolding rows_evolve_def by blast
    with r1 show ?thesis by (meson row_step_trans)
  qed simp
qed

lemma evolves_refl [simp]: "evolves d d"
  by (simp add: evolves_def)

lemma evolves_trans: "evolves a b \<Longrightarrow> evolves b c \<Longrightarrow> evolves a c"
  unfolding evolves_def by (blast intro: rows_evolve_trans)

lemma evolves_observations: "evolves d d' \<Longrightarrow> observations_ok d \<Longrightarrow> observations_ok d'"
  unfolding evolves_def rows_evolve_def observations_ok_def by (meson row_step_fresh)

lemma evolves_hosts: "evolves d d' \<Longrightarrow> hosts_disjoint d \<Longrightarrow> hosts_disjoint d'"
  by (simp add: evolves_def)

lemma evolves_row:
  assumes "evolves d d'" and "r \<in> set (servers d)"
  shows "\<exists>r' \<in> set (servers d'). row_step r r'"
  using assms unfolding evolves_def rows_evolve_def by blast

lemma evolves_deleted:
  assumes "evolves d d'" and "r \<in> set (servers d)" and "sv_deleted_at r = Some t"
  shows "\<exists>r' \<in> set (servers d'). sv_id r' = sv_id r \<and> sv_deleted_at r' = Some t \<and>
           sv_version r \<le> sv_version r'"
  using evolves_row [OF assms(1,2)] assms(3) unfolding row_step_def by meson

lemma hosts_disjointD:
  "hosts_disjoint d \<Longrightarrow> p \<in> set (server_ports d) \<Longrightarrow> q \<in> set (server_ports d) \<Longrightarrow>
   po_host_port p = po_host_port q \<Longrightarrow> po_protocol p = po_protocol q \<Longrightarrow> po_server_id p = po_server_id q"
  unfolding hosts_disjoint_def by blast

lemma hosts_disjoint_subset:
  "hosts_disjoint d \<Longrightarrow> set (server_ports d') \<subseteq> set (server_ports d) \<Longrightarrow> hosts_disjoint d'"
  unfolding hosts_disjoint_def by blast

section \<open>Statements\<close>

named_theorems keeps_evolving "statements under which the servers table evolves"

lemma evolves_same:
  "servers d' = servers d \<Longrightarrow> set (server_ports d') \<subseteq> set (server_ports d) \<Longrightarrow> evolves d d'"
  unfolding evolves_def rows_evolve_def using hosts_disjoint_subset [of d d'] by (auto intro: row_step_refl)

lemma evolves_other:
  "evolves d0 d \<Longrightarrow> servers d' = servers d \<Longrightarrow> server_ports d' = server_ports d \<Longrightarrow> evolves d0 d'"
  using evolves_trans [of d0 d d'] evolves_same [of d' d] by simp

lemma evolving_same:
  assumes "\<And>d d'. c d = Inr d' \<Longrightarrow> servers d' = servers d \<and> set (server_ports d') \<subseteq> set (server_ports d)"
  shows "preserves (evolves d0) c"
  by (rule preservesI) (use assms in \<open>blast intro: evolves_trans evolves_same\<close>)

lemma evolves_upd:
  assumes "\<And>r. r \<in> set (servers d) \<Longrightarrow> p r \<Longrightarrow> row_step r (f r)"
  shows "evolves d (d\<lparr>servers := upd p f (servers d)\<rparr>)"
proof -
  have hosts: "hosts_disjoint (d\<lparr>servers := upd p f (servers d)\<rparr>) = hosts_disjoint d"
    by (simp add: hosts_disjoint_def)
  let ?g = "\<lambda>r. if p r then f r else r"
  have set: "set (servers (d\<lparr>servers := upd p f (servers d)\<rparr>)) = ?g ` set (servers d)"
    using set_upd [of p f "servers d"] by simp
  have step: "\<And>r. r \<in> set (servers d) \<Longrightarrow> row_step r (?g r)" using assms by simp
  show ?thesis unfolding evolves_def rows_evolve_def set hosts using step by blast
qed

lemma update_servers_evolving [keeps_evolving]:
  assumes "\<And>r. p r \<Longrightarrow> row_step r (f r)"
  shows "preserves (evolves d0) (update_servers p f)"
  by (rule preservesI) (use assms in \<open>auto simp: update_servers_def intro!: evolves_trans [OF _ evolves_upd]\<close>)

lemma checked_update_servers_evolving [keeps_evolving]:
  assumes "\<And>r. p r \<Longrightarrow> row_step r (f r)"
  shows "preserves (evolves d0) (checked_update_servers p f)"
  by (rule preservesI)
    (use assms in \<open>auto simp: checked_update_servers_def intro!: evolves_trans [OF _ evolves_upd]\<close>)

lemma insert_server_evolving [keeps_evolving]:
  assumes "fresh_row r"
  shows "preserves (evolves d0) (insert_server r)"
proof (rule preservesI)
  fix d d' assume "evolves d0 d" and "insert_server r d = Inr d'"
  moreover from this have "evolves d d'"
  proof -
    from \<open>insert_server r d = Inr d'\<close> have d': "d' = d\<lparr>servers := servers d @ [r]\<rparr>"
      by (simp add: insert_server_def)
    have "rows_evolve d d'" using assms by (auto simp: d' rows_evolve_def intro: row_step_refl)
    then show ?thesis using hosts_disjoint_subset [of d d'] by (simp add: d' evolves_def)
  qed
  ultimately show "evolves d0 d'" by (blast intro: evolves_trans)
qed

lemma other_inserts_evolving [keeps_evolving]:
  "preserves (evolves d0) (insert_resources a)" "preserves (evolves d0) (insert_runtime b)"
  "preserves (evolves d0) (insert_variable e)"
  "preserves (evolves d0) (insert_operation f)" "preserves (evolves d0) (insert_log g)"
  "preserves (evolves d0) (insert_outbox h)" "preserves (evolves d0) (insert_schedule i)"
  "preserves (evolves d0) (insert_task j)" "preserves (evolves d0) (insert_run k)"
  "preserves (evolves d0) (insert_backup l)" "preserves (evolves d0) (insert_backup_delivery m)"
  "preserves (evolves d0) (insert_destination n)" "preserves (evolves d0) (insert_webhook_delivery q)"
  "preserves (evolves d0) (insert_audit_row s)"
  "preserves (evolves d0) (upsert_variable u)" "preserves (evolves d0) (insert_variable_definition v)"
  by (rule evolving_same; auto simp: insert_stmt_defs split: if_splits)+

text \<open>A new port leaves the servers alone; that its host port is free is for the operation to show.\<close>

lemma insert_port_rows: "preserves (rows_evolve d0) (insert_port r)"
  by (rule preservesI) (auto simp: insert_port_def rows_evolve_def)

lemma evolving_rows: "(\<And>d. preserves (evolves d) c) \<Longrightarrow> preserves (rows_evolve d0) c"
  unfolding preserves_def sat_def by (metis evolves_def evolves_refl rows_evolve_trans)

lemma hosts_disjoint_add:
  assumes "hosts_disjoint d" and "server_ports d' = ps @ qs" and "set ps \<subseteq> set (server_ports d)"
    and "\<And>q. q \<in> set qs \<Longrightarrow> po_server_id q = s"
    and "\<And>p q. p \<in> set ps \<Longrightarrow> q \<in> set qs \<Longrightarrow> po_server_id p \<noteq> s \<Longrightarrow>
      po_host_port p \<noteq> po_host_port q \<or> po_protocol p \<noteq> po_protocol q"
  shows "hosts_disjoint d'"
proof -
  have "po_server_id p = po_server_id q"
    if p: "p \<in> set ps \<or> p \<in> set qs" and q: "q \<in> set ps \<or> q \<in> set qs"
      and same: "po_host_port p = po_host_port q" "po_protocol p = po_protocol q" for p q
  proof -
    consider "p \<in> set ps" "q \<in> set ps" | "p \<in> set ps" "q \<in> set qs" | "p \<in> set qs" "q \<in> set ps"
      | "p \<in> set qs" "q \<in> set qs" using p q by blast
    then show ?thesis
    proof cases
      case 1
      with assms(3) have "p \<in> set (server_ports d)" "q \<in> set (server_ports d)" by blast+
      then show ?thesis by (rule hosts_disjointD [OF assms(1) _ _ same])
    next
      case 2
      with assms(5) [OF 2] assms(4) [OF 2(2)] same show ?thesis by metis
    next
      case 3
      with assms(5) [OF 3(2,1)] assms(4) [OF 3(1)] same show ?thesis by metis
    next
      case 4
      with assms(4) [OF 4(1)] assms(4) [OF 4(2)] show ?thesis by simp
    qed
  qed
  then show ?thesis unfolding hosts_disjoint_def assms(2) set_append Un_iff by blast
qed

lemma insert_run_or_ignore_evolving [keeps_evolving]: "preserves (evolves d0) (insert_run_or_ignore r)"
  by (rule evolving_same) (auto simp: insert_run_or_ignore_def insert_run_def split: if_splits)

lemma insert_activity_evolving [keeps_evolving]: "preserves (evolves d0) (insert_activity r)"
  by (rule evolving_same) (auto dest: insert_activity_InrD)

lemma other_updates_evolving [keeps_evolving]:
  "preserves (evolves d0) (update_runtimes p1 f1)" "preserves (evolves d0) (update_operations p2 f2)"
  "preserves (evolves d0) (update_outbox p3 f3)" "preserves (evolves d0) (update_schedules p4 f4)"
  "preserves (evolves d0) (update_runs p5 f5)" "preserves (evolves d0) (update_backups p6 f6)"
  "preserves (evolves d0) (update_backup_deliveries p7 f7)"
  "preserves (evolves d0) (update_destinations p8 f8)"
  "preserves (evolves d0) (update_webhook_deliveries p9 f9)"
  "preserves (evolves d0) (delete_ports q1)" "preserves (evolves d0) (delete_tasks q2)"
  "preserves (evolves d0) (delete_schedules q3)" "preserves (evolves d0) (delete_backups q4)"
  "preserves (evolves d0) (delete_destinations q5)" "preserves (evolves d0) (delete_variable_definitions q6)"
  "preserves (evolves d0) (checked_update_resources p10 f10)"
  by (rule evolving_same; auto simp: checked_update_resources_def set_del update_stmt_defs delete_stmt_defs Let_def)+

declare require_keeps [keeps_evolving]

end
