(* ===== verification/Servers.thy ===== *)
theory Servers
  imports Evolution
begin

text \<open>
  The life cycle of a server in \<open>internal/store/servers.go\<close>: provisioning results, power
  requests and their completion, automatic recovery, console restarts, deletion and the
  operation log.  Generated identifiers (\<open>identity.NewUUID\<close>, \<open>identity.Token\<close>) are arguments, in
  the order the code draws them; \<open>now\<close> is the transaction's \<open>now()\<close>.
\<close>

section \<open>Provisioning\<close>

record provision_result =
  pr_container_id :: string
  pr_volume_name :: string
  pr_network_name :: string
  pr_state :: string

definition MarkProvisionRunning :: "time \<Rightarrow> uuid \<Rightarrow> uuid \<Rightarrow> db stmt" where
  "MarkProvisionRunning now serverID operationID =
     exec [
       update_operations (\<lambda>r. op_id r = operationID \<and> op_server_id r = Some serverID)
         (\<lambda>r. r\<lparr>op_status := ''running'',
                op_started_at := (case op_started_at r of None \<Rightarrow> Some now | Some t \<Rightarrow> Some t),
                op_progress := 10, op_message := Some ''Provisioning container resources''\<rparr>),
       update_runtimes (\<lambda>r. rt_server_id r = serverID)
         (\<lambda>r. r\<lparr>rt_observed_state := ''creating'', rt_observed_at := now\<rparr>)]"

definition AppendOperationLog :: "uuid \<Rightarrow> uuid \<Rightarrow> string \<Rightarrow> string \<Rightarrow> string \<Rightarrow> time \<Rightarrow> db stmt" where
  "AppendOperationLog operationID serverID phase stream message observedAt d =
     (let stream' = (if stream \<noteq> ''system'' \<and> stream \<noteq> ''stdout'' \<and> stream \<noteq> ''stderr''
                     then ''system'' else stream);
          phase' = (if trim_space phase = '''' then ''provision'' else phase);
          message' = trim_space message in
      if message' = '''' then Inr d
      else insert_log \<lparr> lo_sequence = 0, lo_operation_id = operationID, lo_server_id = serverID,
             lo_phase = phase', lo_stream = stream', lo_message = truncate_to 8000 message',
             lo_observed_at = observedAt \<rparr> d)"

definition ServerOperationLogs :: "uuid \<Rightarrow> int \<Rightarrow> db \<Rightarrow> operation_log_entry list" where
  "ServerOperationLogs serverID limit d =
     (let n = (if limit < 20 \<or> limit > 5000 then 1000 else limit);
          rows = filter (\<lambda>r. lo_server_id r = serverID) (operation_log d);
          recent = take (nat n) (order_by (\<lambda>r. - lo_sequence r) rows) in
      order_by lo_sequence recent)"

definition MarkProvisionSucceeded :: "time \<Rightarrow> uuid \<Rightarrow> uuid \<Rightarrow> uuid \<Rightarrow> provision_result \<Rightarrow> db stmt" where
  "MarkProvisionSucceeded now eventID serverID operationID result =
     (let status = (if pr_state result = ''running'' then ''running'' else ''stopped'') in
      exec [
        update_servers (\<lambda>r. sv_id r = serverID)
          (\<lambda>r. r\<lparr>sv_status := status, sv_container_id := Some (pr_container_id result),
                 sv_updated_at := now, sv_version := sv_version r + 1\<rparr>),
        update_runtimes (\<lambda>r. rt_server_id r = serverID)
          (\<lambda>r. r\<lparr>rt_observed_state := status, rt_health := ''unknown'',
                 rt_started_at := (if status = ''running'' then Some now else None),
                 rt_last_error := None, rt_observed_at := now\<rparr>),
        update_operations (\<lambda>r. op_id r = operationID)
          (\<lambda>r. r\<lparr>op_status := ''succeeded'', op_progress := 100,
                 op_message := Some ''Provisioning completed'', op_completed_at := Some now\<rparr>),
        insert_activity (activity_row eventID now (Some serverID) None
          ''server.provision.succeeded'' ''info'' ''Server provisioning completed''
          (JObj [(''container_id'', JStr (pr_container_id result)),
                 (''volume_name'', JStr (pr_volume_name result)),
                 (''network_name'', JStr (pr_network_name result))]))])"

definition MarkProvisionFailed :: "time \<Rightarrow> uuid \<Rightarrow> uuid \<Rightarrow> uuid \<Rightarrow> error \<Rightarrow> db stmt" where
  "MarkProvisionFailed now eventID serverID operationID provisionErr =
     (let detail = truncate_to 4000 (error_text provisionErr) in
      exec [
        update_servers (\<lambda>r. sv_id r = serverID)
          (\<lambda>r. r\<lparr>sv_status := ''failed'', sv_updated_at := now, sv_version := sv_version r + 1\<rparr>),
        update_runtimes (\<lambda>r. rt_server_id r = serverID)
          (\<lambda>r. r\<lparr>rt_observed_state := ''failed'', rt_health := ''unhealthy'',
                 rt_last_error := Some detail, rt_observed_at := now\<rparr>),
        update_operations (\<lambda>r. op_id r = operationID)
          (\<lambda>r. r\<lparr>op_status := ''failed'', op_error_code := Some ''provision_failed'',
                 op_error_detail := Some detail, op_message := Some ''Provisioning failed'',
                 op_completed_at := Some now\<rparr>),
        insert_activity (activity_row eventID now (Some serverID) None
          ''server.provision.failed'' ''error'' ''Server provisioning failed''
          (JObj [(''error'', JStr detail)]))])"

section \<open>Power\<close>

text \<open>The two maps of \<open>requestPower\<close>; a missing key is the empty string.\<close>

definition power_transition :: "string \<Rightarrow> string" where
  "power_transition action =
     (if action = ''start'' then ''starting''
      else if action = ''stop'' then ''stopping''
      else if action = ''restart'' then ''restarting''
      else if action = ''kill'' then ''stopping'' else '''')"

definition power_desired :: "string \<Rightarrow> string" where
  "power_desired action =
     (if action = ''start'' \<or> action = ''restart'' then ''running''
      else if action = ''stop'' \<or> action = ''kill'' then ''stopped'' else '''')"

definition live :: "uuid \<Rightarrow> server \<Rightarrow> bool" where
  "live serverID r \<longleftrightarrow> sv_id r = serverID \<and> sv_deleted_at r = None"

text \<open>The statements of an accepted request.\<close>

definition power_statements ::
  "time \<Rightarrow> uuid \<Rightarrow> string \<Rightarrow> uuid \<Rightarrow> uuid \<Rightarrow> uuid \<Rightarrow> uuid \<Rightarrow> string \<Rightarrow> bool \<Rightarrow> db stmt list" where
  "power_statements now operationID idempotencyKey activityID outboxID serverID actorID action enqueue =
     [update_servers (live serverID)
        (\<lambda>r. r\<lparr>sv_status := power_transition action, sv_desired_state := power_desired action,
               sv_stop_reason := (if power_desired action = ''stopped'' then Some ''requested'' else None),
               sv_recovery_attempts := 0, sv_recovery_window_started_at := None,
               sv_recovery_not_before := None,
               sv_updated_at := now, sv_version := sv_version r + 1\<rparr>),
      (if power_desired action = ''stopped'' then
         update_outbox
           (\<lambda>e. ob_aggregate_id e = Some serverID \<and> ob_topic e = ''server.recover'' \<and>
                ob_processed_at e = None)
           (\<lambda>e. e\<lparr>ob_processed_at := Some now,
                  ob_last_error := Some ''cancelled by explicit stop intent''\<rparr>)
       else skip),
      insert_operation ((operation_row operationID now serverID (nullif_empty actorID)
          (''server.power.'' @ action) idempotencyKey (''Server '' @ action @ '' in progress''))
        \<lparr>op_status := ''running'', op_started_at := Some now\<rparr>),
      insert_activity (activity_row activityID now (Some serverID) (nullif_empty actorID)
        (''server.power.'' @ action) ''info'' (''Server '' @ action @ '' requested'')
        (JObj [(''action'', JStr action), (''operation_id'', JStr operationID)])),
      (if enqueue then
         insert_outbox (outbox_row outboxID now ''server.power'' serverID
           (JObj [(''server_id'', JStr serverID), (''operation_id'', JStr operationID),
                  (''action'', JStr action)]))
       else skip)]"

definition requestPower ::
  "time \<Rightarrow> uuid \<Rightarrow> string \<Rightarrow> uuid \<Rightarrow> uuid \<Rightarrow> uuid \<Rightarrow> uuid \<Rightarrow> string \<Rightarrow> bool \<Rightarrow> db \<Rightarrow> error + (uuid \<times> db)" where
  "requestPower now operationID idempotencyKey activityID outboxID serverID actorID action enqueue d =
     (if power_transition action = '''' then Inl ErrConflict
      else case find (live serverID) (servers d) of
        None \<Rightarrow> Inl ErrNotFound
      | Some s \<Rightarrow>
        (let current = sv_status s in
         if current = ''installing'' \<or> current = ''deleting'' \<or> current = ''suspended''
         then Inl ErrConflict
         else if action \<noteq> ''kill'' \<and>
           (current = ''starting'' \<or> current = ''restarting'' \<or> current = ''stopping'')
         then Inl ErrConflict
         else if (action = ''start'' \<and> current = ''running'') \<or>
           ((action = ''stop'' \<or> action = ''kill'') \<and> current = ''stopped'')
         then Inl ErrConflict
         else ret operationID (exec (power_statements now operationID idempotencyKey activityID outboxID
           serverID actorID action enqueue) d)))"

definition RequestPower ::
  "time \<Rightarrow> uuid \<Rightarrow> string \<Rightarrow> uuid \<Rightarrow> uuid \<Rightarrow> uuid \<Rightarrow> uuid \<Rightarrow> string \<Rightarrow> db \<Rightarrow> error + (uuid \<times> db)" where
  "RequestPower now operationID key activityID outboxID serverID actorID action d =
     requestPower now operationID key activityID outboxID serverID actorID action True d"

definition RequestImmediatePower ::
  "time \<Rightarrow> uuid \<Rightarrow> string \<Rightarrow> uuid \<Rightarrow> uuid \<Rightarrow> uuid \<Rightarrow> string \<Rightarrow> db \<Rightarrow> error + (uuid \<times> db)" where
  "RequestImmediatePower now operationID key activityID serverID actorID action d =
     requestPower now operationID key activityID '''' serverID actorID action False d"

definition desires :: "uuid \<Rightarrow> string \<Rightarrow> server \<Rightarrow> bool" where
  "desires serverID state r \<longleftrightarrow> sv_id r = serverID \<and> sv_desired_state r = state"

definition FinishPower :: "time \<Rightarrow> uuid \<Rightarrow> uuid \<Rightarrow> string \<Rightarrow> error option \<Rightarrow> db stmt" where
  "FinishPower now serverID operationID action powerErr d =
     (let status = power_desired action; expectedDesired = power_desired action in
      if status = '''' then Inl ErrConflict
      else case powerErr of
        Some e \<Rightarrow>
          (let detail = truncate_to 2000 (error_text e);
               fallback = (if action = ''stop'' \<or> action = ''kill'' then ''running'' else ''failed'') in
           exec [
             update_servers (desires serverID expectedDesired)
               (\<lambda>r. r\<lparr>sv_status := fallback,
                      sv_desired_state := (if fallback = ''running'' then ''running''
                                           else sv_desired_state r),
                      sv_stop_reason := (if fallback = ''running'' then None else sv_stop_reason r),
                      sv_updated_at := now, sv_version := sv_version r + 1\<rparr>),
             update_operations (\<lambda>r. op_id r = operationID)
               (\<lambda>r. r\<lparr>op_status := ''failed'', op_message := Some ''Power action failed'',
                      op_error_code := Some ''power_failed'', op_error_detail := Some detail,
                      op_completed_at := Some now\<rparr>)] d)
      | None \<Rightarrow>
          exec [
            update_servers (desires serverID expectedDesired)
              (\<lambda>r. r\<lparr>sv_status := status,
                     sv_stop_reason := (if status = ''stopped'' then Some ''requested'' else None),
                     sv_recovery_attempts :=
                       (if status = ''running'' then 0 else sv_recovery_attempts r),
                     sv_recovery_window_started_at :=
                       (if status = ''running'' then None else sv_recovery_window_started_at r),
                     sv_recovery_not_before := None,
                     sv_updated_at := now, sv_version := sv_version r + 1\<rparr>),
            (\<lambda>d. update_runtimes
              (\<lambda>r. rt_server_id r = serverID \<and>
                   (\<exists>s \<in> set (servers d). desires serverID expectedDesired s))
              (\<lambda>r. r\<lparr>rt_observed_state := status,
                     rt_started_at := (if status = ''running'' then Some now else rt_started_at r),
                     rt_observed_at := now\<rparr>) d),
            update_operations (\<lambda>r. op_id r = operationID)
              (\<lambda>r. r\<lparr>op_status := ''succeeded'', op_progress := 100,
                     op_message := Some ''Power action completed'', op_completed_at := Some now\<rparr>)] d)"

section \<open>Automatic recovery\<close>

definition recoverable :: "uuid \<Rightarrow> int \<Rightarrow> server \<Rightarrow> bool" where
  "recoverable serverID attempt r \<longleftrightarrow>
     live serverID r \<and> sv_desired_state r = ''running'' \<and> sv_status r = ''stopped'' \<and>
     sv_recovery_attempts r = attempt"

definition BeginRecovery :: "time \<Rightarrow> uuid \<Rightarrow> int \<Rightarrow> db \<Rightarrow> error + (bool \<times> db)" where
  "BeginRecovery now serverID attempt d =
     ret (affected (recoverable serverID attempt) (servers d) = 1)
       (update_servers (recoverable serverID attempt)
          (\<lambda>r. r\<lparr>sv_status := ''starting'', sv_recovery_not_before := None,
                 sv_updated_at := now, sv_version := sv_version r + 1\<rparr>) d)"

definition RecoveryStillDesired :: "uuid \<Rightarrow> db \<Rightarrow> bool" where
  "RecoveryStillDesired serverID d =
     (case find (live serverID) (servers d) of
        None \<Rightarrow> False | Some s \<Rightarrow> sv_desired_state s = ''running'')"

definition FinishRecovery :: "time \<Rightarrow> uuid \<Rightarrow> uuid \<Rightarrow> int \<Rightarrow> error option \<Rightarrow> db stmt" where
  "FinishRecovery now eventID serverID attempt recoveryErr =
     exec [
       (case recoveryErr of
          Some e \<Rightarrow> update_servers (desires serverID ''running'')
            (\<lambda>r. r\<lparr>sv_status := ''stopped'', sv_stop_reason := Some ''unexpected_exit'',
                   sv_updated_at := now, sv_version := sv_version r + 1\<rparr>)
        | None \<Rightarrow> update_servers (desires serverID ''running'')
            (\<lambda>r. r\<lparr>sv_status := ''starting'', sv_updated_at := now,
                   sv_version := sv_version r + 1\<rparr>)),
       insert_activity (activity_row eventID now (Some serverID) None ''server.recovery.attempt''
         (case recoveryErr of None \<Rightarrow> ''info'' | Some e \<Rightarrow> ''error'')
         (''Automatic recovery attempt '' @ itoa attempt @
            (case recoveryErr of None \<Rightarrow> '' started'' | Some e \<Rightarrow> '' failed''))
         (JObj ((''attempt'', JNum attempt) #
            (case recoveryErr of None \<Rightarrow> []
             | Some e \<Rightarrow> [(''error'', JStr (truncate_to 1000 (error_text e)))]))))]"

section \<open>Console restarts\<close>

text \<open>\<open>canonical_document->>'key'\<close> of a document whose fields are scalars.\<close>

definition json_text :: "json \<Rightarrow> string \<Rightarrow> string option" where
  "json_text j k =
     (case json_field j k of
        Some (JStr s) \<Rightarrow> Some s
      | Some (JNum n) \<Rightarrow> Some (itoa n)
      | Some (JBool b) \<Rightarrow> Some (if b then ''true'' else ''false'')
      | _ \<Rightarrow> None)"

definition matchesTemplateStopCommand :: "string \<Rightarrow> string \<Rightarrow> bool" where
  "matchesTemplateStopCommand templateCommand actualCommand =
     (let expected = string_fields (to_lower (trim_space templateCommand));
          actual = string_fields (to_lower (trim_space actualCommand)) in
      0 < length expected \<and> 0 < length actual \<and> hd expected = hd actual)"

definition server_stop_command :: "uuid \<Rightarrow> db \<Rightarrow> string option" where
  "server_stop_command serverID d =
     (case find (live serverID) (servers d) of
        None \<Rightarrow> None
      | Some s \<Rightarrow>
          (case find (\<lambda>v. tv_id v = sv_template_version_id s) (template_versions d) of
             None \<Rightarrow> None
           | Some v \<Rightarrow>
               Some (case json_text (tv_canonical v) ''stop_command'' of
                       None \<Rightarrow> '''' | Some c \<Rightarrow> c)))"

definition running_intent :: "uuid \<Rightarrow> server \<Rightarrow> bool" where
  "running_intent serverID r \<longleftrightarrow> live serverID r \<and> sv_desired_state r = ''running''"

definition MarkConsoleRestartIntent ::
  "time \<Rightarrow> uuid \<Rightarrow> uuid \<Rightarrow> uuid \<Rightarrow> string \<Rightarrow> db \<Rightarrow> error + (bool \<times> db)" where
  "MarkConsoleRestartIntent now eventID serverID actorID command d =
     (case server_stop_command serverID d of
        None \<Rightarrow> Inl ErrNotFound
      | Some stopCommand \<Rightarrow>
          if \<not> matchesTemplateStopCommand stopCommand command then Inr (False, d)
          else if affected (running_intent serverID) (servers d) \<noteq> 1 then Inr (False, d)
          else ret True (exec [
            update_servers (running_intent serverID)
              (\<lambda>r. r\<lparr>sv_status := ''restarting'', sv_stop_reason := None,
                     sv_updated_at := now, sv_version := sv_version r + 1\<rparr>),
            insert_activity (activity_row eventID now (Some serverID) (Some actorID)
              ''server.restart.console_requested'' ''info''
              ''Restart requested through the game console''
              (JObj [(''transport'', JStr ''console'')]))] d))"

definition CancelConsoleRestartIntent :: "time \<Rightarrow> uuid \<Rightarrow> uuid \<Rightarrow> uuid \<Rightarrow> db stmt" where
  "CancelConsoleRestartIntent now eventID serverID actorID =
     exec [
       update_servers (\<lambda>r. desires serverID ''running'' r \<and> sv_status r = ''restarting'')
         (\<lambda>r. r\<lparr>sv_status := ''running'', sv_updated_at := now, sv_version := sv_version r + 1\<rparr>),
       insert_activity (activity_row eventID now (Some serverID) (Some actorID)
         ''server.restart.console_failed'' ''error''
         ''Game console restart command was not delivered'' (JObj []))]"

definition ServerCommandReady :: "uuid \<Rightarrow> db \<Rightarrow> error + bool" where
  "ServerCommandReady serverID d =
     (case find (live serverID) (servers d) of
        None \<Rightarrow> Inl ErrNotFound | Some s \<Rightarrow> Inr (sv_status s = ''running''))"

definition RecordConsoleCommand :: "time \<Rightarrow> uuid \<Rightarrow> uuid \<Rightarrow> uuid \<Rightarrow> nat \<Rightarrow> db stmt" where
  "RecordConsoleCommand now eventID serverID actorID len =
     insert_activity (activity_row eventID now (Some serverID) (Some actorID)
       ''server.console.command'' ''info'' ''Console command sent''
       (JObj [(''length'', JNum (int len))]))"

definition RecordFileActivity :: "time \<Rightarrow> uuid \<Rightarrow> uuid \<Rightarrow> uuid \<Rightarrow> string \<Rightarrow> string \<Rightarrow> db stmt" where
  "RecordFileActivity now eventID serverID actorID action path =
     insert_activity (activity_row eventID now (Some serverID) (Some actorID)
       (''server.file.'' @ action) ''info'' (''Server file '' @ action)
       (JObj [(''path'', JStr path)]))"

section \<open>Existence and deletion\<close>

definition ServerExists :: "uuid \<Rightarrow> db \<Rightarrow> error + unit" where
  "ServerExists serverID d =
     (if \<exists>r \<in> set (servers d). live serverID r then Inr () else Inl ErrNotFound)"

definition AddAudit :: "uuid \<Rightarrow> uuid \<Rightarrow> string \<Rightarrow> string \<Rightarrow> string \<Rightarrow> json \<Rightarrow> db stmt" where
  "AddAudit i actorID action targetType targetID data =
     insert_audit_row \<lparr> au_id = i, au_actor_user_id = nullif_empty actorID, au_action = action,
       au_target_type = targetType, au_target_id = nullif_empty targetID, au_data = data \<rparr>"

text \<open>
  \<open>FinalizeServerDeletion\<close> runs two separate statements without a transaction: when the audit
  record fails, the error is returned but the server stays deleted.
\<close>

definition FinalizeServerDeletion :: "time \<Rightarrow> uuid \<Rightarrow> uuid \<Rightarrow> uuid \<Rightarrow> db \<Rightarrow> error option \<times> db" where
  "FinalizeServerDeletion now auditID serverID actorID d =
     (let d1 = d\<lparr>servers := upd (live serverID)
            (\<lambda>r. r\<lparr>sv_status := ''deleting'', sv_desired_state := ''deleted'',
                   sv_deleted_at := Some now, sv_container_id := None,
                   sv_updated_at := now, sv_version := sv_version r + 1\<rparr>) (servers d)\<rparr> in
      case AddAudit auditID actorID ''server.delete'' ''server'' serverID JNull d1 of
        Inl e \<Rightarrow> (Some e, d1) | Inr d2 \<Rightarrow> (None, d2))"

section \<open>The operations keep the integrity of the database\<close>

lemma MarkProvisionRunning_ok: "preserves db_ok (MarkProvisionRunning now s opn)"
  unfolding MarkProvisionRunning_def
  by (rule preserves_exec) (auto intro!: keeps_ok simp: check_defs)

lemma AppendOperationLog_ok: "preserves db_ok (AppendOperationLog opn s ph st m t)"
  unfolding AppendOperationLog_def Let_def
  by (rule preserves_by_sat) (auto intro!: preserves_sat keeps_ok)

lemma MarkProvisionSucceeded_ok: "preserves db_ok (MarkProvisionSucceeded now ev s opn res)"
  unfolding MarkProvisionSucceeded_def Let_def
  by (rule preserves_exec) (auto intro!: keeps_ok simp: check_defs)

lemma MarkProvisionFailed_ok: "preserves db_ok (MarkProvisionFailed now ev s opn e)"
  unfolding MarkProvisionFailed_def Let_def
  by (rule preserves_exec) (auto intro!: keeps_ok simp: check_defs)

lemma power_transition_values:
  "power_transition a \<noteq> [] \<Longrightarrow> power_transition a \<in> {''starting'', ''stopping'', ''restarting''} \<and>
   power_desired a \<in> {''running'', ''stopped''}"
  by (auto simp: power_transition_def power_desired_def split: if_splits)

lemma requestPower_ok: "preserves_op db_ok (requestPower now opn key act ob s actor a enq)"
proof (rule preserves_opI)
  fix d assume ok: "db_ok d"
  show "sat (\<lambda>v. db_ok (snd v)) (requestPower now opn key act ob s actor a enq d)"
  proof (cases "power_transition a = []")
    case True
    then show ?thesis by (simp add: requestPower_def)
  next
    case False
    from power_transition_values [OF this]
    have vals: "power_transition a \<in> set server_statuses"
      "power_desired a = ''running'' \<or> power_desired a = ''stopped''"
      by (auto simp: server_statuses_def)
    have "preserves db_ok (update_servers (live s) (\<lambda>r. r\<lparr>sv_status := power_transition a,
        sv_desired_state := power_desired a,
        sv_stop_reason := (if power_desired a = ''stopped'' then Some ''requested'' else None),
        sv_recovery_attempts := 0, sv_recovery_window_started_at := None,
        sv_recovery_not_before := None, sv_updated_at := now, sv_version := sv_version r + 1\<rparr>))"
      by (rule keeps_ok) (use vals in \<open>auto simp: check_server_def\<close>)
    then show ?thesis
      unfolding requestPower_def Let_def
      by (intro sat_intros ok) (simp_all add: power_statements_def keeps_ok)
  qed
qed

lemma RequestPower_ok: "preserves_op db_ok (RequestPower now opn key act ob s actor a)"
  using requestPower_ok by (simp add: RequestPower_def [abs_def])

lemma FinishPower_ok: "preserves db_ok (FinishPower now s opn a err)"
proof (rule preserves_by_sat)
  fix d assume ok: "db_ok d"
  have vals: "power_desired a \<noteq> [] \<Longrightarrow> power_desired a = ''running'' \<or> power_desired a = ''stopped''"
    by (auto simp: power_desired_def split: if_splits)
  have server: "preserves db_ok (update_servers (desires s x) f)"
    if "\<And>r. check_server r \<Longrightarrow> check_server (f r)" "\<And>r. sv_id (f r) = sv_id r"
      "\<And>r. sv_name (f r) = sv_name r" "\<And>r. sv_installation_id (f r) = sv_installation_id r"
      "\<And>r. sv_deleted_at (f r) = sv_deleted_at r" for x f
    using that by (intro keeps_ok) simp_all
  have oper: "preserves db_ok (update_operations p f)"
    if "\<And>r. op_id (f r) = op_id r \<and> op_idempotency_key (f r) = op_idempotency_key r \<and>
        op_server_id (f r) = op_server_id r" "\<And>r. check_operation r \<Longrightarrow> check_operation (f r)" for p f
    using that by (intro keeps_ok) auto
  have runtime: "preserves db_ok (\<lambda>d. update_runtimes (p d) f d)"
    if "\<And>r. rt_server_id (f r) = rt_server_id r" for p f
    by (rule preserves_dependent [where c = "\<lambda>d0. update_runtimes (p d0) f"])
      (rule keeps_ok, rule that)
  show "sat db_ok (FinishPower now s opn a err d)"
  proof (cases "power_desired a = []")
    case True
    then show ?thesis by (simp add: FinishPower_def)
  next
    case False
    have st: "power_desired a \<in> set server_statuses" "''running'' \<in> set server_statuses"
      "''failed'' \<in> set server_statuses" "''stopped'' \<in> set server_statuses"
      using vals [OF False] by (auto simp: server_statuses_def)
    show ?thesis
      unfolding FinishPower_def Let_def
      by (intro sat_intros sat_exec ok)
        (auto intro!: server oper runtime simp: st check_server_def check_operation_def)
  qed
qed

lemma BeginRecovery_ok: "preserves_op db_ok (BeginRecovery now s n)"
  unfolding BeginRecovery_def
  by (rule preserves_opI) (auto intro!: preserves_sat keeps_ok simp: check_defs)

lemma FinishRecovery_ok: "preserves db_ok (FinishRecovery now ev s n err)"
  unfolding FinishRecovery_def
  by (rule preserves_exec) (auto intro!: keeps_ok simp: check_defs split: option.splits)

lemma MarkConsoleRestartIntent_ok: "preserves_op db_ok (MarkConsoleRestartIntent now ev s actor c)"
  unfolding MarkConsoleRestartIntent_def
  by (rule preserves_opI) (auto intro!: sat_intros sat_exec keeps_ok simp: check_defs)

lemma CancelConsoleRestartIntent_ok: "preserves db_ok (CancelConsoleRestartIntent now ev s actor)"
  unfolding CancelConsoleRestartIntent_def
  by (rule preserves_exec) (auto intro!: keeps_ok simp: check_defs)

lemma RecordConsoleCommand_ok: "preserves db_ok (RecordConsoleCommand now ev s actor n)"
  unfolding RecordConsoleCommand_def by (rule keeps_ok)

lemma RecordFileActivity_ok: "preserves db_ok (RecordFileActivity now ev s actor a p)"
  unfolding RecordFileActivity_def by (rule keeps_ok)

lemma AddAudit_ok: "preserves db_ok (AddAudit i actor a tt ti dt)"
  unfolding AddAudit_def by (rule keeps_ok)

lemma FinalizeServerDeletion_ok:
  "db_ok d \<Longrightarrow> db_ok (snd (FinalizeServerDeletion now au s actor d))"
proof -
  assume ok: "db_ok d"
  let ?f = "\<lambda>r. r\<lparr>sv_status := ''deleting'', sv_desired_state := ''deleted'',
      sv_deleted_at := Some now, sv_container_id := None,
      sv_updated_at := now, sv_version := sv_version r + 1\<rparr>"
  have "preserves db_ok (update_servers (live s) ?f)"
    by (rule keeps_ok) (auto simp: check_defs)
  with ok have "db_ok (d\<lparr>servers := upd (live s) ?f (servers d)\<rparr>)"
    by (auto simp: preserves_def update_servers_def)
  then show ?thesis
    using AddAudit_ok [of au actor "''server.delete''" "''server''" s JNull]
    by (auto simp: FinalizeServerDeletion_def Let_def preserves_def sat_def split: sum.splits)
qed

section \<open>How they change the servers table\<close>

lemma MarkProvisionRunning_evolves: "preserves (evolves d0) (MarkProvisionRunning now s opn)"
  unfolding MarkProvisionRunning_def Let_def
  by (rule preserves_exec) (auto intro!: keeps_evolving row_step_keep)

lemma AppendOperationLog_evolves: "preserves (evolves d0) (AppendOperationLog opn s ph st m t)"
  unfolding AppendOperationLog_def Let_def
  by (rule preserves_by_sat) (auto intro!: preserves_sat keeps_evolving row_step_keep split: option.splits)

lemma MarkProvisionSucceeded_evolves: "preserves (evolves d0) (MarkProvisionSucceeded now ev s opn res)"
  unfolding MarkProvisionSucceeded_def Let_def
  by (rule preserves_exec) (auto intro!: keeps_evolving row_step_keep)

lemma MarkProvisionFailed_evolves: "preserves (evolves d0) (MarkProvisionFailed now ev s opn e)"
  unfolding MarkProvisionFailed_def Let_def
  by (rule preserves_exec) (auto intro!: keeps_evolving row_step_keep)

lemma requestPower_evolves: "preserves_op (evolves d0) (requestPower now opn key act ob s actor a enq)"
  unfolding requestPower_def Let_def
  by (rule preserves_opI, intro sat_intros) (simp_all add: power_statements_def keeps_evolving row_step_keep)

lemma RequestPower_evolves: "preserves_op (evolves d0) (RequestPower now opn key act ob s actor a)"
  using requestPower_evolves by (simp add: RequestPower_def [abs_def])

lemma RecordConsoleCommand_evolves: "preserves (evolves d0) (RecordConsoleCommand now ev s actor n)"
  unfolding RecordConsoleCommand_def by (rule keeps_evolving)

lemma RecordFileActivity_evolves: "preserves (evolves d0) (RecordFileActivity now ev s actor a p)"
  unfolding RecordFileActivity_def by (rule keeps_evolving)

lemma FinishPower_evolves: "preserves (evolves d0) (FinishPower now s opn a err)"
proof -
  have runtime: "preserves (evolves d0) (\<lambda>d. update_runtimes (p d) f d)" for p f
    by (rule preserves_dependent [where c = "\<lambda>d0. update_runtimes (p d0) f"]) (rule keeps_evolving)
  show ?thesis
    unfolding FinishPower_def Let_def
    by (rule preserves_by_sat) (auto intro!: sat_intros sat_exec keeps_evolving runtime row_step_keep)
qed

lemma BeginRecovery_evolves: "preserves_op (evolves d0) (BeginRecovery now s n)"
  unfolding BeginRecovery_def Let_def
  by (rule preserves_opI) (auto intro!: preserves_sat keeps_evolving row_step_keep split: option.splits)

lemma FinishRecovery_evolves: "preserves (evolves d0) (FinishRecovery now ev s n err)"
  unfolding FinishRecovery_def Let_def
  by (rule preserves_exec) (auto intro!: keeps_evolving row_step_keep split: option.splits)

lemma MarkConsoleRestartIntent_evolves: "preserves_op (evolves d0) (MarkConsoleRestartIntent now ev s actor c)"
  unfolding MarkConsoleRestartIntent_def Let_def
  by (rule preserves_opI, intro sat_intros) (auto intro!: sat_exec keeps_evolving row_step_keep)

lemma CancelConsoleRestartIntent_evolves: "preserves (evolves d0) (CancelConsoleRestartIntent now ev s actor)"
  unfolding CancelConsoleRestartIntent_def Let_def
  by (rule preserves_exec) (auto intro!: keeps_evolving row_step_keep)

lemma AddAudit_evolves: "preserves (evolves d0) (AddAudit i actor a tt ti dt)"
  unfolding AddAudit_def Let_def
  by (rule keeps_evolving)

lemma FinalizeServerDeletion_evolves:
  "evolves d0 d \<Longrightarrow> evolves d0 (snd (FinalizeServerDeletion now au s actor d))"
proof -
  assume ev: "evolves d0 d"
  let ?f = "\<lambda>r. r\<lparr>sv_status := ''deleting'', sv_desired_state := ''deleted'',
      sv_deleted_at := Some now, sv_container_id := None,
      sv_updated_at := now, sv_version := sv_version r + 1\<rparr>"
  have "evolves d (d\<lparr>servers := upd (live s) ?f (servers d)\<rparr>)"
    by (rule evolves_upd) (auto simp: row_step_def live_def)
  with ev have "evolves d0 (d\<lparr>servers := upd (live s) ?f (servers d)\<rparr>)" by (rule evolves_trans)
  then show ?thesis
    using AddAudit_evolves [of d0 au actor "''server.delete''" "''server''" s JNull]
    by (auto simp: FinalizeServerDeletion_def Let_def preserves_def sat_def split: sum.splits)
qed

end
