(* ===== verification/Telemetry.thy ===== *)
theory Telemetry
  imports Servers
begin

text \<open>
  \<open>internal/store/telemetry.go\<close>: one reconciliation of the database with the containers the
  engine reports.  Each snapshot updates the runtime and the status of its server and, when a
  server that should run has stopped, plans a recovery attempt with a growing delay; a server
  whose container is missing twice in a row is recorded as deleted outside the panel.
\<close>

section \<open>Status and recovery policy\<close>

definition runtimeServerStatus :: "string \<Rightarrow> string \<Rightarrow> string \<Rightarrow> string" where
  "runtimeServerStatus observed desired previous =
     (if observed = ''running'' then
        (if desired = ''stopped'' \<and> previous = ''stopping'' then ''stopping'' else ''running'')
      else if observed = ''created'' then
        (if previous = ''installing'' then previous else ''stopped'')
      else if observed = ''paused'' then ''suspended''
      else if observed = ''restarting'' then ''restarting''
      else if observed = ''removing'' \<or> observed = ''dead'' then
        (if desired = ''deleted'' then ''deleting'' else ''stopped'')
      else if observed = ''exited'' then
        (if desired = ''running'' then ''stopped'' else ''stopped'')
      else previous)"

definition recovery_delays :: "duration list" where
  "recovery_delays = [5 * second, 15 * second, 30 * second, 60 * second, 120 * second]"

definition recoveryDelay :: "int \<Rightarrow> duration" where
  "recoveryDelay attempt =
     (let a = (if attempt < 1 then 1 else attempt);
          b = (if a > int (length recovery_delays) then int (length recovery_delays) else a) in
      recovery_delays ! nat (b - 1))"

definition nextRecoveryAttempt :: "int \<Rightarrow> int" where
  "nextRecoveryAttempt current =
     (if current < 0 then 1 else if current \<ge> 5 then 5 else current + 1)"

section \<open>One snapshot\<close>

record server_stats =
  st_server_id :: uuid
  st_container_id :: string
  st_state :: string
  st_health :: string
  st_cpu_percent :: rat
  st_memory_bytes :: int
  st_memory_limit_bytes :: int
  st_network_rx_bytes :: int
  st_network_tx_bytes :: int
  st_block_read_bytes :: int
  st_block_write_bytes :: int
  st_started_at :: "time option"
  st_exit_code :: "int option"
  st_error :: string
  st_observed_at :: time

definition json_int_or_null :: "int option \<Rightarrow> json" where
  "json_int_or_null x = (case x of None \<Rightarrow> JNull | Some n \<Rightarrow> JNum n)"

text \<open>The reason recorded for a status that counts as stopped.\<close>

definition snapshot_stop_reason :: "string \<Rightarrow> string \<Rightarrow> string \<Rightarrow> string option" where
  "snapshot_stop_reason status desired previous =
     (if status = ''stopped'' \<or> (status = ''stopping'' \<and> desired = ''stopped'') then
        Some (if desired = ''running'' then
                (if previous = ''restarting'' then ''clean_exit'' else ''unexpected_exit'')
              else ''requested'')
      else None)"

definition stable_running :: "server_stats \<Rightarrow> string \<Rightarrow> bool" where
  "stable_running snap status \<longleftrightarrow>
     status = ''running'' \<and>
     (case st_started_at snap of None \<Rightarrow> False | Some t \<Rightarrow> st_observed_at snap - t \<ge> minutes 5)"

definition pending_recovery :: "uuid \<Rightarrow> outbox_event \<Rightarrow> bool" where
  "pending_recovery serverID e \<longleftrightarrow>
     ob_aggregate_id e = Some serverID \<and> ob_topic e = ''server.recover'' \<and> ob_processed_at e = None"

definition snapshot_runtime :: "server_stats \<Rightarrow> db stmt" where
  "snapshot_runtime snap =
     update_runtimes (\<lambda>r. rt_server_id r = st_server_id snap)
       (\<lambda>r. r\<lparr>rt_observed_state := st_state snap,
              rt_health := (if st_error snap \<noteq> '''' then ''unknown'' else st_health snap),
              rt_cpu_percent := Some (st_cpu_percent snap),
              rt_memory_bytes := Some (st_memory_bytes snap),
              rt_memory_limit_bytes :=
                (if st_memory_limit_bytes snap = 0 then None else Some (st_memory_limit_bytes snap)),
              rt_network_rx_bytes := Some (st_network_rx_bytes snap),
              rt_network_tx_bytes := Some (st_network_tx_bytes snap),
              rt_block_read_bytes := Some (st_block_read_bytes snap),
              rt_block_write_bytes := Some (st_block_write_bytes snap),
              rt_started_at := st_started_at snap, rt_exit_code := st_exit_code snap,
              rt_last_error := nullif_empty (st_error snap),
              rt_observed_at := st_observed_at snap\<rparr>)"

definition snapshot_server :: "time \<Rightarrow> server_stats \<Rightarrow> string \<Rightarrow> string option \<Rightarrow> db stmt" where
  "snapshot_server now snap status stopReason =
     update_servers (\<lambda>r. sv_id r = st_server_id snap)
       (\<lambda>r. r\<lparr>sv_status := status, sv_container_id := Some (st_container_id snap),
              sv_stop_reason := stopReason, sv_missing_container_observations := 0,
              sv_recovery_attempts :=
                (if stable_running snap status then 0 else sv_recovery_attempts r),
              sv_recovery_window_started_at :=
                (if stable_running snap status then None else sv_recovery_window_started_at r),
              sv_recovery_not_before :=
                (if status = ''running'' then None else sv_recovery_not_before r),
              sv_updated_at := now,
              sv_version := (if sv_status r \<noteq> status then sv_version r + 1 else sv_version r)\<rparr>)"

definition snapshot_exit_event :: "time \<Rightarrow> server_stats \<Rightarrow> bool \<Rightarrow> uuid \<Rightarrow> db stmt" where
  "snapshot_exit_event now snap plannedRestart eventID =
     insert_activity (activity_row eventID now (Some (st_server_id snap)) None
       (if plannedRestart then ''server.restart.in_progress'' else ''server.unexpected_exit'')
       (if plannedRestart then ''info'' else ''error'')
       (if plannedRestart then ''Game process exited for restart'' else ''Server stopped unexpectedly'')
       (JObj [(''exit_code'', json_int_or_null (st_exit_code snap)),
              (''state'', JStr (st_state snap))]))"

definition plan_recovery ::
  "time \<Rightarrow> server_stats \<Rightarrow> int \<Rightarrow> time \<Rightarrow> (db \<times> uuid list) stmt" where
  "plan_recovery now snap recoveryAttempts recoveryWindowStarted p =
     (if \<exists>e \<in> set (outbox (fst p)). pending_recovery (st_server_id snap) e then Inr p
      else
        (let attempt = nextRecoveryAttempt recoveryAttempts; delay = recoveryDelay attempt in
         exec [
           with_id (\<lambda>outboxID. insert_outbox
             ((outbox_row outboxID now ''server.recover'' (st_server_id snap)
                 (JObj [(''server_id'', JStr (st_server_id snap)), (''attempt'', JNum attempt)]))
               \<lparr>ob_available_at := now + interval_of delay\<rparr>)),
           lift_stmt (update_servers (\<lambda>r. sv_id r = st_server_id snap)
             (\<lambda>r. r\<lparr>sv_recovery_attempts := attempt,
                    sv_recovery_window_started_at := Some recoveryWindowStarted,
                    sv_recovery_not_before := Some (now + interval_of delay)\<rparr>)),
           (if attempt = 5 \<and> recoveryAttempts < 5 then
              with_id (\<lambda>eventID. insert_activity
                (activity_row eventID now (Some (st_server_id snap)) None
                  ''server.recovery.persistent'' ''warning''
                  ''Server entered persistent recovery mode''
                  (JObj [(''attempt'', JNum 5), (''retry_seconds'', JNum (delay div second))])))
            else skip)] p))"

definition sync_snapshot :: "time \<Rightarrow> server_stats \<Rightarrow> (db \<times> uuid list) stmt" where
  "sync_snapshot now snap p =
     (if st_server_id snap = '''' then Inr p
      else case find (live (st_server_id snap)) (servers (fst p)) of
        None \<Rightarrow> Inr p
      | Some s \<Rightarrow>
        (let desired = sv_desired_state s; previous = sv_status s;
             status = runtimeServerStatus (st_state snap) desired previous;
             stopReason = snapshot_stop_reason status desired previous;
             needsRecovery = (status = ''stopped'' \<and> desired = ''running'');
             plannedRestart = (needsRecovery \<and> previous = ''restarting'');
             window = sv_recovery_window_started_at s;
             attempts = (if window = None then 0 else sv_recovery_attempts s);
             windowStart = (case window of None \<Rightarrow> st_observed_at snap | Some t \<Rightarrow> t) in
         exec [
           lift_stmt (snapshot_runtime snap),
           lift_stmt (snapshot_server now snap status stopReason),
           (if needsRecovery \<and> previous \<noteq> ''stopped''
            then with_id (snapshot_exit_event now snap plannedRestart) else skip),
           (if needsRecovery then plan_recovery now snap attempts windowStart else skip)] p))"

section \<open>Missing containers\<close>

definition expects_container :: "server \<Rightarrow> bool" where
  "expects_container r \<longleftrightarrow>
     sv_deleted_at r = None \<and> sv_container_id r \<noteq> None \<and>
     sv_status r \<noteq> ''installing'' \<and> sv_status r \<noteq> ''deleting''"

definition record_external_deletion :: "time \<Rightarrow> uuid \<Rightarrow> int \<Rightarrow> (db \<times> uuid list) stmt" where
  "record_external_deletion now serverID observations =
     exec [
       with_id (\<lambda>eventID. insert_activity (activity_row eventID now (Some serverID) None
         ''server.external_delete'' ''warning'' ''Server container was deleted outside Dockside''
         (JObj [(''observations'', JNum observations)]))),
       lift_stmt (update_schedules (\<lambda>r. sc_server_id r = serverID)
         (\<lambda>r. r\<lparr>sc_enabled := False, sc_updated_at := now\<rparr>)),
       lift_stmt (update_outbox
         (\<lambda>e. ob_aggregate_id e = Some serverID \<and> ob_processed_at e = None)
         (\<lambda>e. e\<lparr>ob_processed_at := Some now,
                ob_last_error := Some ''cancelled after external container deletion''\<rparr>)),
       lift_stmt (delete_ports (\<lambda>r. po_server_id r = serverID)),
       lift_stmt (update_servers (live serverID)
         (\<lambda>r. r\<lparr>sv_status := ''deleting'', sv_desired_state := ''deleted'',
                sv_externally_deleted_at := Some now, sv_deleted_at := Some now,
                sv_container_id := None, sv_updated_at := now, sv_version := sv_version r + 1\<rparr>))]"

definition observe_missing :: "time \<Rightarrow> uuid \<Rightarrow> (db \<times> uuid list) stmt" where
  "observe_missing now serverID p =
     (case find (live serverID) (servers (fst p)) of
        None \<Rightarrow> Inl ErrNoRows
      | Some s \<Rightarrow>
        (let observations = sv_missing_container_observations s + 1 in
         exec [
           lift_stmt (update_servers (live serverID)
             (\<lambda>r. r\<lparr>sv_missing_container_observations :=
                      sv_missing_container_observations r + 1\<rparr>)),
           (if observations < 2 then skip
            else record_external_deletion now serverID observations)] p))"

definition missing_servers :: "server_stats list \<Rightarrow> db \<Rightarrow> uuid list" where
  "missing_servers snapshots d =
     filter (\<lambda>i. \<not> (i \<noteq> '''' \<and> i \<in> st_server_id ` set snapshots))
       (map sv_id (filter expects_container (servers d)))"

definition SyncRuntimeStats :: "time \<Rightarrow> uuid list \<Rightarrow> server_stats list \<Rightarrow> db stmt" where
  "SyncRuntimeStats now ids snapshots d =
     state_of (exec [
       for_each (sync_snapshot now) snapshots,
       (\<lambda>p. for_each (observe_missing now) (missing_servers snapshots (fst p)) p)] (d, ids))"

section \<open>The policy\<close>

lemma runtimeServerStatus_values:
  "previous \<in> set server_statuses \<Longrightarrow> runtimeServerStatus observed desired previous \<in> set server_statuses"
  by (auto simp: runtimeServerStatus_def server_statuses_def)

lemma nextRecoveryAttempt_range: "1 \<le> nextRecoveryAttempt n \<and> nextRecoveryAttempt n \<le> 5"
  by (auto simp: nextRecoveryAttempt_def)

lemma snapshot_stop_reason_values:
  "snapshot_stop_reason st desired previous \<in>
     {None, Some ''requested'', Some ''clean_exit'', Some ''unexpected_exit''}"
  by (auto simp: snapshot_stop_reason_def)

section \<open>Reconciliation keeps the integrity of the database\<close>

lemma snapshot_runtime_ok [keeps_ok]: "preserves db_ok (snapshot_runtime snap)"
  unfolding snapshot_runtime_def by (rule keeps_ok) auto

lemma snapshot_server_ok [keeps_ok]:
  assumes "st \<in> set server_statuses"
    and "reason \<in> {None, Some ''requested'', Some ''clean_exit'', Some ''unexpected_exit''}"
  shows "preserves db_ok (snapshot_server now snap st reason)"
  unfolding snapshot_server_def
  by (rule keeps_ok) (use assms in \<open>auto simp: check_server_def\<close>)

lemma snapshot_exit_event_ok [keeps_ok]: "preserves db_ok (snapshot_exit_event now snap b ev)"
  unfolding snapshot_exit_event_def by (rule keeps_ok)

lemma plan_recovery_ok: "preserves (\<lambda>p. db_ok (fst p)) (plan_recovery now snap n w)"
proof (rule preserves_by_sat)
  fix p :: "db \<times> uuid list" assume ok: "db_ok (fst p)"
  show "sat (\<lambda>p. db_ok (fst p)) (plan_recovery now snap n w p)"
    unfolding plan_recovery_def Let_def
    using nextRecoveryAttempt_range [of n] ok
    by (auto intro!: sat_exec preserves_lift preserves_with_id keeps_ok simp: check_server_def)
qed

lemma sync_snapshot_ok: "preserves (\<lambda>p. db_ok (fst p)) (sync_snapshot now snap)"
proof (rule preserves_by_sat)
  fix p :: "db \<times> uuid list" assume ok: "db_ok (fst p)"
  have "runtimeServerStatus (st_state snap) (sv_desired_state s) (sv_status s) \<in> set server_statuses"
    if "find (live (st_server_id snap)) (servers (fst p)) = Some s" for s
    using ok find_SomeD [OF that]
    by (intro runtimeServerStatus_values) (auto simp: ok_defs check_server_def)
  moreover have "preserves (\<lambda>p. db_ok (fst p))
      (lift_stmt (snapshot_server now snap st (snapshot_stop_reason st a b)))"
    if "st \<in> set server_statuses" for st a b
    using that snapshot_stop_reason_values by (intro preserves_lift keeps_ok)
  ultimately show "sat (\<lambda>p. db_ok (fst p)) (sync_snapshot now snap p)"
    unfolding sync_snapshot_def Let_def
    by (intro sat_intros sat_exec)
      (simp_all add: ok plan_recovery_ok preserves_lift preserves_with_id keeps_ok)
qed

text \<open>What the recording of an external deletion leaves in the tables.\<close>

definition deleted_externally :: "time \<Rightarrow> server \<Rightarrow> server" where
  "deleted_externally now r = r\<lparr>sv_status := ''deleting'', sv_desired_state := ''deleted'',
     sv_externally_deleted_at := Some now, sv_deleted_at := Some now,
     sv_container_id := None, sv_updated_at := now, sv_version := sv_version r + 1\<rparr>"

lemma record_external_deletion_InrD:
  assumes "record_external_deletion now i n p = Inr p'"
  shows "servers (fst p') = upd (live i) (deleted_externally now) (servers (fst p))"
    and "schedules (fst p') = upd (\<lambda>r. sc_server_id r = i)
           (\<lambda>r. r\<lparr>sc_enabled := False, sc_updated_at := now\<rparr>) (schedules (fst p))"
    and "outbox (fst p') = upd (\<lambda>e. ob_aggregate_id e = Some i \<and> ob_processed_at e = None)
           (\<lambda>e. e\<lparr>ob_processed_at := Some now,
                  ob_last_error := Some ''cancelled after external container deletion''\<rparr>)
           (outbox (fst p))"
    and "server_ports (fst p') = del (\<lambda>r. po_server_id r = i) (server_ports (fst p))"
  using assms
  by (auto simp: record_external_deletion_def exec_Cons_Inr with_id_def lift_stmt_def update_stmt_defs
      delete_stmt_defs deleted_externally_def [abs_def] split: prod.splits list.splits sum.splits
      dest!: insert_activity_InrD)

lemma record_external_deletion_ok: "preserves (\<lambda>p. db_ok (fst p)) (record_external_deletion now i n)"
  unfolding record_external_deletion_def
  by (rule preserves_exec) (auto intro!: preserves_lift preserves_with_id keeps_ok simp: check_defs)

section \<open>How reconciliation changes the servers table\<close>

lemma plan_recovery_evolves: "preserves (\<lambda>p. evolves d0 (fst p)) (plan_recovery now snap n w)"
  unfolding plan_recovery_def Let_def
  by (rule preserves_by_sat)
    (auto intro!: sat_exec preserves_lift preserves_with_id keeps_evolving simp: row_step_def)

lemma sync_snapshot_evolves: "preserves (\<lambda>p. evolves d0 (fst p)) (sync_snapshot now snap)"
proof (rule preserves_by_sat)
  fix p :: "db \<times> uuid list" assume ev: "evolves d0 (fst p)"
  have "preserves (evolves d0) (snapshot_runtime snap)"
    unfolding snapshot_runtime_def by (rule keeps_evolving)
  moreover have "preserves (evolves d0) (snapshot_server now snap st reason)" for st reason
    unfolding snapshot_server_def by (rule keeps_evolving) (auto simp: row_step_def)
  moreover have "preserves (evolves d0) (snapshot_exit_event now snap b i)" for b i
    unfolding snapshot_exit_event_def by (rule keeps_evolving)
  ultimately show "sat (\<lambda>p. evolves d0 (fst p)) (sync_snapshot now snap p)"
    unfolding sync_snapshot_def Let_def
    by (intro sat_intros sat_exec)
      (simp_all add: ev plan_recovery_evolves preserves_lift preserves_with_id)
qed

text \<open>
  The second observation of a missing container deletes the server in the same transaction, so
  the count of a live server stays at most one.
\<close>

definition one_more_observation :: "server \<Rightarrow> server" where
  "one_more_observation r =
     r\<lparr>sv_missing_container_observations := sv_missing_container_observations r + 1\<rparr>"

lemma observe_missing_InrD:
  assumes "observe_missing now i p = Inr p'"
  shows "\<exists>s. find (live i) (servers (fst p)) = Some s \<and>
    servers (fst p') = upd (live i)
      (if sv_missing_container_observations s + 1 < 2 then one_more_observation
       else (\<lambda>r. deleted_externally now (one_more_observation r))) (servers (fst p))"
proof (cases "find (live i) (servers (fst p))")
  case None
  with assms show ?thesis by (simp add: observe_missing_def)
next
  case (Some s)
  let ?p1 = "((fst p)\<lparr>servers := upd (live i) one_more_observation (servers (fst p))\<rparr>, snd p)"
  have first: "lift_stmt (update_servers (live i) (\<lambda>r. r\<lparr>sv_missing_container_observations :=
      sv_missing_container_observations r + 1\<rparr>)) p = Inr ?p1"
    by (simp add: lift_stmt_def update_stmt_defs one_more_observation_def [abs_def] split: prod.splits)
  have live: "live i (one_more_observation r) = live i r" for r
    by (simp add: live_def one_more_observation_def)
  have "servers (fst p') = upd (live i) (\<lambda>r. deleted_externally now (one_more_observation r)) (servers (fst p))"
    if "record_external_deletion now i n ?p1 = Inr p'" for n
    using record_external_deletion_InrD(1) [OF that] live by (auto simp: upd_def)
  with Some assms first show ?thesis
    by (auto simp: observe_missing_def Let_def exec_Cons_Inr skip_def split: if_splits)
qed

lemma row_step_observation:
  "live i r \<Longrightarrow> row_step r (one_more_observation r) \<longleftrightarrow> sv_missing_container_observations r < 1"
  "live i r \<Longrightarrow> row_step r (deleted_externally now (one_more_observation r))"
  by (auto simp: row_step_def deleted_externally_def one_more_observation_def live_def)

lemma observe_missing_row:
  assumes "distinct (map sv_id (servers (fst p)))" and "observe_missing now i p = Inr p'"
  shows "\<exists>f. servers (fst p') = upd (live i) f (servers (fst p)) \<and>
    (\<forall>r \<in> set (servers (fst p)). live i r \<longrightarrow> row_step r (f r))"
proof -
  from observe_missing_InrD [OF assms(2)] obtain s where s: "find (live i) (servers (fst p)) = Some s"
    and eq: "servers (fst p') = upd (live i)
      (if sv_missing_container_observations s + 1 < 2 then one_more_observation
       else (\<lambda>r. deleted_externally now (one_more_observation r))) (servers (fst p))" by blast
  have "row_step r ((if sv_missing_container_observations s + 1 < 2 then one_more_observation
        else (\<lambda>r. deleted_externally now (one_more_observation r))) r)"
    if "r \<in> set (servers (fst p))" "live i r" for r
  proof -
    have "r = s"
      by (rule distinct_key_eq [OF assms(1) that(1)])
        (use find_SomeD [OF s] that(2) in \<open>auto simp: live_def\<close>)
    then have "sv_missing_container_observations r = sv_missing_container_observations s"
      by (rule arg_cong)
    then show ?thesis
      using row_step_observation(1) [OF that(2)] row_step_observation(2) [OF that(2), of now] by (simp split: if_split)
  qed
  with eq show ?thesis by blast
qed

lemma observe_missing_ports:
  assumes "observe_missing now i p = Inr p'"
  shows "set (server_ports (fst p')) \<subseteq> set (server_ports (fst p))"
proof -
  have "set (server_ports (fst p2)) \<subseteq> set (server_ports (fst p1))"
    if "record_external_deletion now i n p1 = Inr p2" for n p1 p2
    using record_external_deletion_InrD(4) [OF that] by (auto simp: set_del)
  with assms show ?thesis
    by (fastforce simp: observe_missing_def Let_def exec_Cons_Inr skip_def lift_stmt_def update_servers_def
        split: if_splits option.splits prod.splits)
qed

lemma observe_missing_evolves:
  assumes "db_ok (fst p)" and "observe_missing now i p = Inr p'"
  shows "evolves (fst p) (fst p')"
proof -
  from observe_missing_row [OF db_ok_servers [OF assms(1)] assms(2)] obtain f where
    f: "servers (fst p') = upd (live i) f (servers (fst p))"
    "\<And>r. r \<in> set (servers (fst p)) \<Longrightarrow> live i r \<Longrightarrow> row_step r (f r)" by blast
  then have "evolves (fst p) ((fst p)\<lparr>servers := upd (live i) f (servers (fst p))\<rparr>)"
    by (intro evolves_upd)
  moreover have "evolves ((fst p)\<lparr>servers := upd (live i) f (servers (fst p))\<rparr>) (fst p')"
    by (rule evolves_same) (simp_all add: f(1) observe_missing_ports [OF assms(2)])
  ultimately show ?thesis by (rule evolves_trans)
qed

lemma observe_missing_ok:
  assumes ok: "db_ok (fst p)" and obs: "observations_ok (fst p)"
    and run: "observe_missing now i p = Inr p'"
  shows "db_ok (fst p')"
proof (cases "find (live i) (servers (fst p))")
  case None
  with run show ?thesis by (simp add: observe_missing_def)
next
  case (Some s)
  let ?d = "(fst p)\<lparr>servers := upd (live i) one_more_observation (servers (fst p))\<rparr>"
  have "preserves db_ok (update_servers (\<lambda>r. live i r \<and> fresh_row r) one_more_observation)"
    by (rule keeps_ok) (auto simp: check_server_def one_more_observation_def fresh_row_def live_def)
  moreover have "upd (\<lambda>r. live i r \<and> fresh_row r) one_more_observation (servers (fst p)) =
      upd (live i) one_more_observation (servers (fst p))"
    using obs by (auto simp: upd_def observations_ok_def)
  ultimately have "db_ok ?d" using ok by (auto simp: preserves_def update_stmt_defs)
  moreover have "lift_stmt (update_servers (live i) (\<lambda>r. r\<lparr>sv_missing_container_observations :=
      sv_missing_container_observations r + 1\<rparr>)) p = Inr (?d, snd p)"
    by (simp add: lift_stmt_def update_stmt_defs one_more_observation_def [abs_def] split: prod.splits)
  ultimately show ?thesis
    using Some run preservesD [OF record_external_deletion_ok]
    by (fastforce simp: observe_missing_def Let_def exec_Cons_Inr skip_def split: if_splits)
qed

text \<open>One reconciliation keeps the integrity of the database and the bound on observations.\<close>

definition reconciled :: "db \<Rightarrow> db \<Rightarrow> bool" where
  "reconciled d0 d \<longleftrightarrow> db_ok d \<and> observations_ok d \<and> evolves d0 d"

lemma SyncRuntimeStats_reconciled:
  assumes "db_ok d" and "observations_ok d" and "evolves d0 d"
  shows "sat (reconciled d0) (SyncRuntimeStats now ids snaps d)"
proof -
  let ?i = "\<lambda>p :: db \<times> uuid list. reconciled d0 (fst p)"
  have trans: "reconciled d0 d'" if "reconciled d0 d" "evolves d d'" "db_ok d'" for d d'
    using that unfolding reconciled_def by (blast intro: evolves_trans evolves_observations)
  have "preserves ?i (sync_snapshot now snap)" for snap
  proof (rule preservesI)
    fix p p' assume "?i p" and run: "sync_snapshot now snap p = Inr p'"
    moreover from this have "evolves (fst p) (fst p')"
      using preservesD [OF sync_snapshot_evolves _ run] by simp
    moreover have "db_ok (fst p')"
      using preservesD [OF sync_snapshot_ok _ run] \<open>?i p\<close> by (simp add: reconciled_def)
    ultimately show "?i p'" using trans by blast
  qed
  moreover have "preserves ?i (observe_missing now i)" for i
  proof (rule preservesI)
    fix p p' assume "?i p" and run: "observe_missing now i p = Inr p'"
    then have "db_ok (fst p)" "observations_ok (fst p)" by (auto simp: reconciled_def)
    with \<open>?i p\<close> show "?i p'"
      using trans observe_missing_evolves [OF _ run] observe_missing_ok [OF _ _ run] by blast
  qed
  then have "preserves ?i (\<lambda>p. for_each (observe_missing now) (missing_servers snaps (fst p)) p)"
    by (intro preserves_dependent [where c = "\<lambda>p. for_each (observe_missing now) (missing_servers snaps (fst p))"]
        preserves_for_each)
  ultimately show ?thesis
    unfolding SyncRuntimeStats_def using assms
    by (simp add: reconciled_def)
      (intro sat_exec, auto intro!: preserves_for_each simp: reconciled_def [symmetric])
qed

end
