(* ===== verification/Queues.thy ===== *)
theory Queues
  imports Prelude
begin

text \<open>
  What the outbox and the webhook deliveries have in common: a claim takes the oldest eligible row,
  marks it as leased and leaves the others alone.  The locale \<open>lease_queue\<close> states the two facts
  a queue must provide about its eligibility test and its update, and draws the consequences for
  concurrent workers; \<open>retry_policy\<close> is the contract of a back-off.
\<close>

section \<open>Claiming the oldest eligible row\<close>

text \<open>
  \<open>WITH candidate AS (SELECT id ... WHERE p ORDER BY k LIMIT 1) UPDATE ... WHERE id = candidate.id
  RETURNING ...\<close>
\<close>

definition claim_oldest ::
  "('r \<Rightarrow> 'k) \<Rightarrow> ('r \<Rightarrow> int) \<Rightarrow> ('r \<Rightarrow> bool) \<Rightarrow> ('r \<Rightarrow> 'r) \<Rightarrow> 'r list \<Rightarrow> ('r \<times> 'r list) option" where
  "claim_oldest key created p f t =
     (case order_by created (filter p t) of
        [] \<Rightarrow> None
      | r # rs \<Rightarrow> Some (f r, upd (\<lambda>x. key x = key r) f t))"

lemma claim_oldest_SomeD:
  assumes "claim_oldest key created p f t = Some (r, t')"
  shows "\<exists>r0 \<in> set t. p r0 \<and> r = f r0 \<and> t' = upd (\<lambda>x. key x = key r0) f t \<and>
           (\<forall>x \<in> set t. p x \<longrightarrow> created r0 \<le> created x)"
proof -
  from assms obtain r0 rs where "order_by created (filter p t) = r0 # rs"
    and "r = f r0" "t' = upd (\<lambda>x. key x = key r0) f t"
    by (auto simp: claim_oldest_def split: list.splits)
  with order_by_hd [of created "filter p t" r0 rs] show ?thesis by auto
qed

lemma claim_oldest_None: "claim_oldest key created p f t = None \<longleftrightarrow> (\<forall>x \<in> set t. \<not> p x)"
proof (cases "order_by created (filter p t)")
  case Nil
  then have "filter p t = []" by (simp add: order_by_Nil)
  with Nil show ?thesis unfolding claim_oldest_def by (simp add: filter_empty_conv)
next
  case (Cons r rs)
  with order_by_hd [OF Cons] show ?thesis by (auto simp: claim_oldest_def)
qed

text \<open>Claims one after the other, each by some worker at some time, with the keys they returned.\<close>

fun claim_sequence ::
  "('r \<Rightarrow> 'k) \<Rightarrow> ('r \<Rightarrow> int) \<Rightarrow> (time \<Rightarrow> 'r \<Rightarrow> bool) \<Rightarrow> (time \<Rightarrow> 'w \<Rightarrow> 'r \<Rightarrow> 'r) \<Rightarrow> (time \<times> 'w) list \<Rightarrow>
   'r list \<Rightarrow> 'k list \<times> 'r list" where
  "claim_sequence key created p f [] t = ([], t)"
| "claim_sequence key created p f ((now, w) # cs) t =
     (case claim_oldest key created (p now) (f now w) t of
        None \<Rightarrow> claim_sequence key created p f cs t
      | Some (r, t') \<Rightarrow>
          (case claim_sequence key created p f cs t' of (ks, t'') \<Rightarrow> (key r # ks, t'')))"

section \<open>Leases\<close>

locale lease_queue =
  fixes key :: "'r \<Rightarrow> 'k" and created :: "'r \<Rightarrow> int"
    and eligible :: "time \<Rightarrow> 'r \<Rightarrow> bool" and lease :: "time \<Rightarrow> 'w \<Rightarrow> 'r \<Rightarrow> 'r"
    and period :: int
  assumes key_lease: "key (lease now w r) = key r"
    and leased: "now \<le> now' \<Longrightarrow> now' < now + period \<Longrightarrow> \<not> eligible now' (lease now w r)"
begin

text \<open>While a lease lasts, no claim, by whichever worker, returns the leased row.\<close>

lemma claims_exclusive:
  assumes "claim_oldest key created (eligible now) (lease now w) t = Some (r, t1)"
    and "claim_oldest key created (eligible now') (lease now' w') t1 = Some (r', t2)"
    and "now \<le> now'" and "now' < now + period"
  shows "key r' \<noteq> key r"
proof
  assume same: "key r' = key r"
  from claim_oldest_SomeD [OF assms(1)] obtain r0 where r0: "r = lease now w r0"
    and t1: "t1 = upd (\<lambda>x. key x = key r0) (lease now w) t" by blast
  from claim_oldest_SomeD [OF assms(2)] obtain r1 where r1: "r1 \<in> set t1" "eligible now' r1"
    "r' = lease now' w' r1" by blast
  with same r0 have "key r1 = key r0" by (simp add: key_lease)
  with r1(1) obtain x where "r1 = lease now w x"
    unfolding t1 set_upd by (auto simp: key_lease split: if_splits)
  with r1(2) leased [OF assms(3,4)] show False by simp
qed

text \<open>
  The same for any number of claims by any workers within one lease period: every row is handed
  out at most once.  The invariant: the rows with a key in \<open>ks\<close> carry a lease taken since \<open>t0\<close>.
\<close>

lemma claim_sequence_distinct:
  assumes "sorted (map fst cs)" and "\<And>c. c \<in> set cs \<Longrightarrow> t0 \<le> fst c \<and> fst c < t0 + period"
  shows "distinct (fst (claim_sequence key created eligible lease cs t))"
proof -
  have "distinct (fst (claim_sequence key created eligible lease cs t)) \<and>
      set (fst (claim_sequence key created eligible lease cs t)) \<inter> ks = {}"
    if "\<forall>x \<in> set t. key x \<in> ks \<longrightarrow> (\<exists>n w y. x = lease n w y \<and> t0 \<le> n \<and> (\<forall>c \<in> set cs. n \<le> fst c))" for ks
    using assms that
  proof (induction cs arbitrary: t ks)
    case Nil
    then show ?case by simp
  next
    case (Cons c cs)
    obtain now w where c: "c = (now, w)" by fastforce
    have later: "sorted (map fst cs)" "\<And>c. c \<in> set cs \<Longrightarrow> t0 \<le> fst c \<and> fst c < t0 + period"
      using Cons.prems(1,2) by auto
    show ?case
    proof (cases "claim_oldest key created (eligible now) (lease now w) t")
      case None
      have "\<forall>x \<in> set t. key x \<in> ks \<longrightarrow> (\<exists>n w y. x = lease n w y \<and> t0 \<le> n \<and> (\<forall>c \<in> set cs. n \<le> fst c))"
        using Cons.prems(3) by fastforce
      from Cons.IH [OF later this] None c show ?thesis by simp
    next
      case (Some rt)
      obtain r t' where rt: "rt = (r, t')" by fastforce
      from claim_oldest_SomeD [OF Some [unfolded rt]] obtain r0 where r0: "r0 \<in> set t" "eligible now r0"
        "r = lease now w r0" and t': "t' = upd (\<lambda>x. key x = key r0) (lease now w) t" by blast
      have "key r0 \<notin> ks"
      proof
        assume "key r0 \<in> ks"
        with Cons.prems(3) r0(1) c obtain n v y where y: "r0 = lease n v y" "t0 \<le> n" "n \<le> now" by fastforce
        have "now < n + period" using Cons.prems(2) [of c] y(2) c by simp
        with leased [of n now v y] y(1,3) r0(2) show False by simp
      qed
      have "\<exists>n v y. x = lease n v y \<and> t0 \<le> n \<and> (\<forall>c \<in> set cs. n \<le> fst c)"
        if x: "x \<in> set t'" "key x \<in> insert (key r) ks" for x
      proof -
        from x(1) obtain z where z: "z \<in> set t" "x = (if key z = key r0 then lease now w z else z)"
          unfolding t' set_upd by blast
        show ?thesis
        proof (cases "key z = key r0")
          case True
          moreover have "t0 \<le> now \<and> (\<forall>c \<in> set cs. now \<le> fst c)" using Cons.prems(1,2) c by fastforce
          ultimately show ?thesis using z(2) by auto
        next
          case False
          with z x(2) have "key z \<in> ks" by (auto simp: r0(3) key_lease)
          with Cons.prems(3) z False show ?thesis by fastforce
        qed
      qed
      then have "\<forall>x \<in> set t'. key x \<in> insert (key r) ks \<longrightarrow>
          (\<exists>n w y. x = lease n w y \<and> t0 \<le> n \<and> (\<forall>c \<in> set cs. n \<le> fst c))" by blast
      from Cons.IH [OF later this] \<open>key r0 \<notin> ks\<close> Some rt c show ?thesis
        by (auto simp: r0(3) key_lease split: prod.splits)
    qed
  qed
  from this [of "{}"] show ?thesis by simp
qed

text \<open>A claim leaves every other row as it is.\<close>

lemma claim_others:
  assumes "claim_oldest key created (eligible now) (lease now w) t = Some (r, t1)"
    and "x \<in> set t" and "key x \<noteq> key r"
  shows "x \<in> set t1"
proof -
  from claim_oldest_SomeD [OF assms(1)] obtain r0 where "r = lease now w r0"
    and t1: "t1 = upd (\<lambda>x. key x = key r0) (lease now w) t" by blast
  with assms(3) have "key x \<noteq> key r0" by (simp add: key_lease)
  with assms(2) show ?thesis unfolding t1 upd_def by force
qed

text \<open>Rows are served in the order of their creation.\<close>

lemma claim_oldest_first:
  assumes "claim_oldest key created (eligible now) (lease now w) t = Some (r, t1)"
    and "\<And>x. created (lease now w x) = created x"
    and "x \<in> set t" and "eligible now x"
  shows "created r \<le> created x"
  using claim_oldest_SomeD [OF assms(1)] assms(2-4) by auto

end

section \<open>Back-off\<close>

locale retry_policy =
  fixes delay :: "int \<Rightarrow> duration" and least most :: duration
  assumes least_pos: "second \<le> least"
    and delay_least: "least \<le> delay n" and delay_most: "delay n \<le> most"
    and delay_mono: "m \<le> n \<Longrightarrow> delay m \<le> delay n"
begin

lemma interval_least: "1000000 \<le> interval_of (delay n)"
proof -
  have "second \<le> delay n" using least_pos delay_least [of n] by simp
  then have "interval_of second \<le> interval_of (delay n)" by (rule interval_of_mono)
  then show ?thesis using interval_of_seconds [of 1] by simp
qed

lemma next_attempt_later: "now < now + interval_of (delay n)"
  using interval_least [of n] by linarith

lemma next_attempt_by: "now + interval_of (delay n) \<le> now + interval_of most"
  using interval_of_mono [OF delay_most] by simp

text \<open>The pauses after \<open>n\<close> failures in a row add up to at most \<open>n\<close> times the longest.\<close>

lemma total_delay: "(\<Sum>i\<leftarrow>upto 1 (int n). delay i) \<le> int n * most"
proof (induction n)
  case 0
  then show ?case by simp
next
  case (Suc n)
  have "(\<Sum>i\<leftarrow>upto 1 (int (Suc n)). delay i) = (\<Sum>i\<leftarrow>upto 1 (int n). delay i) + delay (int (Suc n))"
    by (simp add: upto_rec2)
  also have "\<dots> \<le> int n * most + most" using Suc.IH delay_most by (intro add_mono)
  finally show ?case by (simp add: algebra_simps)
qed

end

end
