(* ===== verification/Outbox.thy ===== *)
theory Outbox
  imports Servers Queues
begin

text \<open>
  The outbox loop of \<open>internal/worker/worker.go\<close> (\<open>processOne\<close>): a worker leases the oldest
  unprocessed event that is available, handles it outside the transaction, and records the result
  only while it still holds the lease.  Several workers may run; each step below is one statement
  of one of them.
\<close>

section \<open>Claiming and finishing\<close>

definition outbox_claimable :: "time \<Rightarrow> outbox_event \<Rightarrow> bool" where
  "outbox_claimable now e \<longleftrightarrow>
     ob_processed_at e = None \<and> ob_available_at e \<le> now \<and>
     (case ob_locked_at e of None \<Rightarrow> True | Some t \<Rightarrow> t < now - minutes 5)"

definition outbox_lease :: "time \<Rightarrow> uuid \<Rightarrow> outbox_event \<Rightarrow> outbox_event" where
  "outbox_lease now worker e =
     e\<lparr>ob_locked_at := Some now, ob_locked_by := Some worker, ob_attempts := ob_attempts e + 1\<rparr>"

definition claim_event :: "time \<Rightarrow> uuid \<Rightarrow> db \<Rightarrow> outbox_event option \<times> db" where
  "claim_event now worker d =
     (case claim_oldest ob_id ob_created_at (outbox_claimable now) (outbox_lease now worker) (outbox d) of
        None \<Rightarrow> (None, d)
      | Some (e, t) \<Rightarrow> (Some e, d\<lparr>outbox := t\<rparr>))"

text \<open>\<open>min(300, 1<<min(attempts, 8))\<close> seconds; attempts is at least one once an event is claimed.\<close>

definition worker_backoff :: "int \<Rightarrow> duration" where
  "worker_backoff attempts = min 300 (2 ^ nat (min attempts 8)) * second"

text \<open>\<open>errors.As(err, &retry)\<close>: the first \<open>retryableError\<close> of the chain.\<close>

fun retry_after :: "error \<Rightarrow> duration option" where
  "retry_after (Retryable e after) = Some after"
| "retry_after (Wrap pre e post) = retry_after e"
| "retry_after _ = None"

definition event_backoff :: "int \<Rightarrow> error \<Rightarrow> duration" where
  "event_backoff attempts e =
     (case retry_after e of
        Some after \<Rightarrow>
          if after > 0 then (if after > hour then hour else after) else worker_backoff attempts
      | None \<Rightarrow> worker_backoff attempts)"

definition holds_lease :: "uuid \<Rightarrow> uuid \<Rightarrow> outbox_event \<Rightarrow> bool" where
  "holds_lease eventID worker e \<longleftrightarrow> ob_id e = eventID \<and> ob_locked_by e = Some worker"

definition finish_event :: "time \<Rightarrow> uuid \<Rightarrow> outbox_event \<Rightarrow> error option \<Rightarrow> db stmt" where
  "finish_event now worker claimed handlerErr =
     (case handlerErr of
        None \<Rightarrow> update_outbox (holds_lease (ob_id claimed) worker)
          (\<lambda>e. e\<lparr>ob_processed_at := Some now, ob_locked_at := None, ob_locked_by := None,
                 ob_last_error := None\<rparr>)
      | Some err \<Rightarrow> update_outbox (holds_lease (ob_id claimed) worker)
          (\<lambda>e. e\<lparr>ob_available_at := now + interval_of (event_backoff (ob_attempts claimed) err),
                 ob_locked_at := None, ob_locked_by := None,
                 ob_last_error := Some (truncate_to 2000 (error_text err))\<rparr>))"

text \<open>
  One pass of the loop.  \<open>handle\<close> is the dispatcher applied to the claimed event; it reports the
  handler's error and the state it left behind, with what other transactions did in the meantime.
  The statements of the claim and of the report are taken to be answered: when the claim fails the
  pass does nothing, and when the report is lost the event stays leased until its lease runs out.
\<close>

definition processOne ::
  "(outbox_event \<Rightarrow> db \<Rightarrow> error option \<times> db) \<Rightarrow> time \<Rightarrow> time \<Rightarrow> uuid \<Rightarrow> db \<Rightarrow> error option \<times> db" where
  "processOne handle now finished worker d =
     (case claim_event now worker d of
        (None, d1) \<Rightarrow> (None, d1)
      | (Some claimed, d1) \<Rightarrow>
          (case handle claimed d1 of
             (handlerErr, d2) \<Rightarrow>
               (case finish_event finished worker claimed handlerErr d2 of
                  Inl e \<Rightarrow> (Some e, d2) | Inr d3 \<Rightarrow> (None, d3))))"

section \<open>Contracts\<close>

interpretation outbox_leases: lease_queue ob_id ob_created_at outbox_claimable outbox_lease "minutes 5"
  by unfold_locales (auto simp: outbox_lease_def outbox_claimable_def)

lemma worker_backoff_least: "0 \<le> n \<Longrightarrow> second \<le> worker_backoff n"
  by (simp add: worker_backoff_def second_def)

lemma worker_backoff_most: "worker_backoff n \<le> 256 * second"
proof -
  have "(2::int) ^ nat (min n 8) \<le> 2 ^ 8" by (rule power_increasing) auto
  then show ?thesis by (simp add: worker_backoff_def second_def)
qed

lemma worker_backoff_mono: "m \<le> n \<Longrightarrow> worker_backoff m \<le> worker_backoff n"
  unfolding worker_backoff_def
  by (intro mult_right_mono min.mono power_increasing nat_mono) (auto simp: second_def)

interpretation worker_retries: retry_policy worker_backoff second "256 * second"
  by unfold_locales
    (use worker_backoff_most worker_backoff_mono in \<open>auto simp: worker_backoff_def second_def\<close>)

lemma event_backoff_range:
  assumes "1 \<le> n"
  shows "0 < event_backoff n e" and "event_backoff n e \<le> hour"
  using worker_retries.delay_least [of n] worker_backoff_most [of n]
  by (auto simp: event_backoff_def time_defs split: option.splits)

section \<open>Invariants\<close>

lemma outbox_lease_upd:
  "claim_oldest ob_id ob_created_at (outbox_claimable now) (outbox_lease now w) t = Some (e, t') \<Longrightarrow>
   \<exists>p. t' = upd p (outbox_lease now w) t"
  by (auto dest: claim_oldest_SomeD)

lemma claim_event_snd:
  "snd (claim_event now w d) = d \<or>
   (\<exists>p. update_outbox p (outbox_lease now w) d = Inr (snd (claim_event now w d)))"
  by (auto simp: claim_event_def update_stmt_defs split: option.splits dest!: outbox_lease_upd)

lemma claim_event_ok: "db_ok d \<Longrightarrow> db_ok (snd (claim_event now w d))"
proof -
  assume ok: "db_ok d"
  have "preserves db_ok (update_outbox p (outbox_lease now w))" for p
    by (rule keeps_ok) (simp add: outbox_lease_def)
  with ok claim_event_snd [of now w d] show ?thesis by (auto dest: preservesD)
qed

lemma claim_event_evolves: "evolves d0 d \<Longrightarrow> evolves d0 (snd (claim_event now w d))"
  using claim_event_snd [of now w d] by (auto dest: preservesD [OF other_updates_evolving(3)])

lemma finish_event_ok: "preserves db_ok (finish_event now w c err)"
  unfolding finish_event_def by (auto split: option.split intro!: keeps_ok)

lemma finish_event_evolves: "preserves (evolves d0) (finish_event now w c err)"
  unfolding finish_event_def by (auto split: option.split intro!: keeps_evolving)

text \<open>Whatever a handler keeps, a pass of the loop keeps.\<close>

lemma processOne_keeps:
  assumes "i d" and "\<And>d. i d \<Longrightarrow> i (snd (claim_event now w d))"
    and "\<And>e d. i d \<Longrightarrow> i (snd (handle e d))" and "\<And>c err. preserves i (finish_event fin w c err)"
  shows "i (snd (processOne handle now fin w d))"
proof -
  obtain c d1 where claim: "claim_event now w d = (c, d1)" by (cases "claim_event now w d")
  with assms(1,2) have d1: "i d1" by (metis snd_conv)
  show ?thesis
  proof (cases c)
    case None
    with claim d1 show ?thesis by (simp add: processOne_def)
  next
    case (Some e)
    obtain err d2 where h: "handle e d1 = (err, d2)" by (cases "handle e d1")
    with assms(3) d1 have d2: "i d2" by (metis snd_conv)
    with claim Some h show ?thesis
      by (auto simp: processOne_def split: sum.splits dest: preservesD [OF assms(4)])
  qed
qed

end
