(* ===== verification/Backups.thy ===== *)
theory Backups
  imports Servers
begin

text \<open>
  \<open>internal/store/backups.go\<close>: the life of a backup (queued, running, succeeded or failed,
  deleting), its deliveries to Discord, restores, retention and locking.  \<open>sanitize\<close> stands for
  \<open>sanitize.Text\<close>, which the operations apply to an error text before storing it.
\<close>

section \<open>Jobs\<close>

record backup_job =
  bj_backup_id :: uuid
  bj_server_id :: uuid
  bj_include_path :: "string list"
  bj_exclude_glob :: "string list"

record backup_result =
  br_object_key :: string
  br_size_bytes :: int
  br_sha256 :: string

record backup_delivery_job =
  dj_delivery_id :: uuid
  dj_backup_id :: uuid
  dj_server_id :: uuid
  dj_backup_name :: string
  dj_format :: string
  dj_size_bytes :: int
  dj_sha256 :: string
  dj_destination_id :: uuid
  dj_url_encrypted :: string
  dj_attempts :: int

record backup_restore_job =
  rj_operation_id :: uuid
  rj_backup_id :: uuid
  rj_server_id :: uuid
  rj_sha256 :: string
  rj_was_running :: bool

section \<open>Creating and reading backups\<close>

text \<open>The query that refuses a second backup, restore or template update of a server.\<close>

definition active_backup :: "uuid \<Rightarrow> backup \<Rightarrow> bool" where
  "active_backup serverID b \<longleftrightarrow>
     bk_server_id b = serverID \<and> (bk_status b = ''queued'' \<or> bk_status b = ''running'')"

definition active_operation :: "uuid \<Rightarrow> operation \<Rightarrow> bool" where
  "active_operation serverID r \<longleftrightarrow>
     op_server_id r = Some serverID \<and> (op_status r = ''pending'' \<or> op_status r = ''running'')"

definition server_busy :: "uuid \<Rightarrow> db \<Rightarrow> bool" where
  "server_busy serverID d \<longleftrightarrow>
     (\<exists>b \<in> set (backups d). active_backup serverID b) \<or>
     (\<exists>r \<in> set (operations d). active_operation serverID r)"

definition backup_destinations :: "uuid \<Rightarrow> db \<Rightarrow> webhook_destination list" where
  "backup_destinations serverID d =
     order_by wh_created_at
       (filter (\<lambda>w. wh_server_id w = serverID \<and> wh_kind w = ''discord'' \<and> wh_enabled w \<and>
                    wh_deliver_backups w) (webhook_destinations d))"

definition queued_backup ::
  "uuid \<Rightarrow> time \<Rightarrow> uuid \<Rightarrow> string \<Rightarrow> string list \<Rightarrow> string list \<Rightarrow> int option \<Rightarrow> uuid \<Rightarrow> backup" where
  "queued_backup i now serverID name includes excludes retention actor =
     \<lparr> bk_id = i, bk_server_id = serverID, bk_name = name, bk_status = ''queued'',
       bk_storage_kind = ''local'', bk_object_key = None, bk_size_bytes = None, bk_sha256 = None,
       bk_include_paths = includes, bk_exclude_globs = excludes, bk_locked = False,
       bk_retention_days = retention,
       bk_expires_at = (case retention of None \<Rightarrow> None | Some n \<Rightarrow> Some (now + days n)),
       bk_created_by = Some actor, bk_created_at = now, bk_completed_at = None \<rparr>"

definition pending_delivery :: "uuid \<Rightarrow> time \<Rightarrow> uuid \<Rightarrow> uuid \<Rightarrow> backup_delivery" where
  "pending_delivery i now backupID destinationID =
     \<lparr> de_id = i, de_backup_id = backupID, de_destination_id = destinationID, de_format = ''zip'',
       de_status = ''pending'', de_attempts = 0, de_response_status = None, de_last_error = None,
       de_delivered_at = None, de_created_at = now, de_updated_at = now \<rparr>"

definition CreateBackup ::
  "time \<Rightarrow> uuid \<Rightarrow> uuid \<Rightarrow> uuid \<Rightarrow> uuid list \<Rightarrow> uuid \<Rightarrow> uuid \<Rightarrow> string \<Rightarrow> string list \<Rightarrow> string list \<Rightarrow>
   int option \<Rightarrow> db \<Rightarrow> error + (backup \<times> db)" where
  "CreateBackup now backupID outboxID eventID deliveryIDs serverID actorID name includePaths
     excludeGlobs retentionDays d =
     (if \<not> (\<exists>r \<in> set (servers d). live serverID r) then Inl ErrNotFound
      else if server_busy serverID d then Inl ErrConflict
      else if (case retentionDays of None \<Rightarrow> False | Some n \<Rightarrow> n < 1 \<or> n > 3650) then Inl ErrConflict
      else
        (let b = queued_backup backupID now serverID name includePaths excludeGlobs retentionDays actorID in
         ret b (state_of (exec [
           lift_stmt (insert_backup b),
           (\<lambda>p. for_each
              (\<lambda>w. with_id (\<lambda>deliveryID.
                 insert_backup_delivery (pending_delivery deliveryID now backupID (wh_id w))))
              (backup_destinations serverID (fst p)) p),
           lift_stmt (insert_outbox (outbox_row outboxID now ''backup.create'' backupID
             (JObj [(''backup_id'', JStr backupID)]))),
           lift_stmt (insert_activity (activity_row eventID now (Some serverID) (Some actorID)
             ''server.backup.queued'' ''info'' ''Backup queued''
             (JObj [(''backup_id'', JStr backupID), (''name'', JStr name)])))] (d, deliveryIDs)))))"

definition ListBackups :: "uuid \<Rightarrow> db \<Rightarrow> (backup \<times> (backup_delivery \<times> string) list) list" where
  "ListBackups serverID d =
     map (\<lambda>b. (b,
         map (\<lambda>r. (r, case find (\<lambda>w. wh_id w = de_destination_id r) (webhook_destinations d) of
                         None \<Rightarrow> ''Deleted webhook'' | Some w \<Rightarrow> wh_name w))
           (order_by de_created_at
              (filter (\<lambda>r. de_backup_id r = bk_id b) (backup_deliveries d)))))
       (order_by (\<lambda>b. - bk_created_at b) (filter (\<lambda>b. bk_server_id b = serverID) (backups d)))"

definition BackupByID :: "uuid \<Rightarrow> uuid \<Rightarrow> db \<Rightarrow> error + backup" where
  "BackupByID serverID backupID d =
     (case find (\<lambda>b. bk_id b = backupID \<and> bk_server_id b = serverID) (backups d) of
        None \<Rightarrow> Inl ErrNotFound | Some b \<Rightarrow> Inr b)"

definition BackupJob :: "uuid \<Rightarrow> db \<Rightarrow> error + backup_job" where
  "BackupJob backupID d =
     (case find (\<lambda>b. bk_id b = backupID \<and> (bk_status b = ''queued'' \<or> bk_status b = ''running''))
             (backups d) of
        None \<Rightarrow> Inl ErrNotFound
      | Some b \<Rightarrow> Inr \<lparr> bj_backup_id = bk_id b, bj_server_id = bk_server_id b,
                      bj_include_path = bk_include_paths b, bj_exclude_glob = bk_exclude_globs b \<rparr>)"

section \<open>Running a backup\<close>

definition MarkBackupRunning :: "uuid \<Rightarrow> db stmt" where
  "MarkBackupRunning backupID =
     update_backups (\<lambda>b. bk_id b = backupID \<and> bk_status b = ''queued'')
       (\<lambda>b. b\<lparr>bk_status := ''running''\<rparr>)"

definition pending_for :: "uuid \<Rightarrow> backup_delivery \<Rightarrow> bool" where
  "pending_for backupID r \<longleftrightarrow> de_backup_id r = backupID \<and> de_status r = ''pending''"

definition MarkBackupSucceeded ::
  "time \<Rightarrow> uuid \<Rightarrow> uuid list \<Rightarrow> backup_job \<Rightarrow> backup_result \<Rightarrow> db stmt" where
  "MarkBackupSucceeded now eventID outboxIDs job result d =
     (let deliveryIDs = map de_id (filter (pending_for (bj_backup_id job)) (backup_deliveries d)) in
      state_of (exec [
        lift_stmt (update_backups (\<lambda>b. bk_id b = bj_backup_id job)
          (\<lambda>b. b\<lparr>bk_status := ''succeeded'', bk_object_key := Some (br_object_key result),
                 bk_size_bytes := Some (br_size_bytes result), bk_sha256 := Some (br_sha256 result),
                 bk_completed_at := Some now\<rparr>)),
        lift_stmt (insert_activity (activity_row eventID now (Some (bj_server_id job)) None
          ''server.backup.succeeded'' ''info'' ''Backup completed''
          (JObj [(''backup_id'', JStr (bj_backup_id job)),
                 (''size_bytes'', JNum (br_size_bytes result)),
                 (''sha256'', JStr (br_sha256 result))]))),
        lift_stmt (update_backup_deliveries (pending_for (bj_backup_id job))
          (\<lambda>r. r\<lparr>de_status := ''queued'', de_updated_at := now\<rparr>)),
        for_each (\<lambda>deliveryID. with_id (\<lambda>outboxID.
            insert_outbox (outbox_row outboxID now ''backup.discord_delivery'' (bj_backup_id job)
              (JObj [(''delivery_id'', JStr deliveryID)])))) deliveryIDs] (d, outboxIDs)))"

definition MarkBackupFailed :: "time \<Rightarrow> uuid \<Rightarrow> backup_job \<Rightarrow> error \<Rightarrow> db stmt" where
  "MarkBackupFailed now eventID job backupErr =
     exec [
       update_backups (\<lambda>b. bk_id b = bj_backup_id job)
         (\<lambda>b. b\<lparr>bk_status := ''failed'', bk_completed_at := Some now\<rparr>),
       insert_activity (activity_row eventID now (Some (bj_server_id job)) None
         ''server.backup.failed'' ''error'' ''Backup failed''
         (JObj [(''backup_id'', JStr (bj_backup_id job)),
                (''error'', JStr (truncate_to 2000 (error_text backupErr)))]))]"

section \<open>Restoring\<close>

definition restorable :: "uuid \<Rightarrow> uuid \<Rightarrow> backup \<Rightarrow> bool" where
  "restorable serverID backupID b \<longleftrightarrow>
     bk_id b = backupID \<and> bk_server_id b = serverID \<and> bk_status b = ''succeeded'' \<and>
     bk_sha256 b \<noteq> None"

text \<open>\<open>wasRunning\<close> of \<open>QueueBackupRestore\<close> and \<open>QueueTemplateUpdate\<close>.\<close>

definition was_running :: "server \<Rightarrow> bool" where
  "was_running s \<longleftrightarrow>
     sv_desired_state s = ''running'' \<or> sv_status s = ''running'' \<or> sv_status s = ''starting'' \<or>
     sv_status s = ''restarting''"

text \<open>The UPDATE both issue: the server is told to stop before the worker takes over.\<close>

definition stop_for_maintenance :: "time \<Rightarrow> uuid \<Rightarrow> db stmt" where
  "stop_for_maintenance now serverID =
     update_servers (\<lambda>r. sv_id r = serverID)
       (\<lambda>r. r\<lparr>sv_desired_state := ''stopped'',
              sv_status :=
                (if sv_status r = ''running'' \<or> sv_status r = ''starting'' \<or>
                    sv_status r = ''restarting'' then ''stopping'' else sv_status r),
              sv_stop_reason := Some ''requested'', sv_updated_at := now,
              sv_version := sv_version r + 1\<rparr>)"

definition restore_payload :: "backup_restore_job \<Rightarrow> json" where
  "restore_payload job =
     JObj [(''OperationID'', JStr (rj_operation_id job)), (''BackupID'', JStr (rj_backup_id job)),
           (''ServerID'', JStr (rj_server_id job)), (''SHA256'', JStr (rj_sha256 job)),
           (''WasRunning'', JBool (rj_was_running job))]"

definition QueueBackupRestore ::
  "time \<Rightarrow> uuid \<Rightarrow> uuid \<Rightarrow> uuid \<Rightarrow> string \<Rightarrow> uuid \<Rightarrow> uuid \<Rightarrow> uuid \<Rightarrow> db \<Rightarrow> error + (uuid \<times> db)" where
  "QueueBackupRestore now operationID outboxID activityID idempotencyKey serverID backupID actorID d =
     (case (find (restorable serverID backupID) (backups d), find (live serverID) (servers d)) of
        (Some b, Some s) \<Rightarrow>
          if server_busy serverID d
          then Inl (Wrap '''' ErrConflict '': another server or backup operation is active'')
          else
            (let job = \<lparr> rj_operation_id = operationID, rj_backup_id = backupID,
                         rj_server_id = serverID,
                         rj_sha256 = (case bk_sha256 b of None \<Rightarrow> '''' | Some h \<Rightarrow> h),
                         rj_was_running = was_running s \<rparr> in
             ret operationID (exec [
               insert_operation (operation_row operationID now serverID (Some actorID)
                 ''backup.restore'' idempotencyKey ''Waiting for restore worker''),
               insert_outbox (outbox_row outboxID now ''backup.restore'' serverID (restore_payload job)),
               stop_for_maintenance now serverID,
               insert_activity (activity_row activityID now (Some serverID) (Some actorID)
                 ''server.backup.restore.requested'' ''info'' ''Backup restore requested''
                 (restore_payload job))] d))
      | _ \<Rightarrow> Inl ErrConflict)"

definition MarkBackupRestoreRunning :: "time \<Rightarrow> backup_restore_job \<Rightarrow> int \<Rightarrow> string \<Rightarrow> db stmt" where
  "MarkBackupRestoreRunning now job progress message =
     update_operations (\<lambda>r. op_id r = rj_operation_id job \<and> op_kind r = ''backup.restore'')
       (\<lambda>r. r\<lparr>op_status := ''running'',
              op_started_at := (case op_started_at r of None \<Rightarrow> Some now | Some t \<Rightarrow> Some t),
              op_progress := progress, op_message := Some message\<rparr>)"

definition FinishBackupRestore ::
  "(string \<Rightarrow> string) \<Rightarrow> time \<Rightarrow> uuid \<Rightarrow> backup_restore_job \<Rightarrow> error option \<Rightarrow> db stmt" where
  "FinishBackupRestore sanitize now eventID job restoreErr =
     (let status = (if rj_was_running job then ''starting'' else ''stopped'');
          desired = (if rj_was_running job then ''running'' else ''stopped'');
          failed = (restoreErr \<noteq> None);
          detail = map_option (\<lambda>e. sanitize (error_text e)) restoreErr in
      exec [
        update_servers (\<lambda>r. sv_id r = rj_server_id job)
          (\<lambda>r. r\<lparr>sv_desired_state := desired, sv_status := status, sv_stop_reason := None,
                 sv_updated_at := now, sv_version := sv_version r + 1\<rparr>),
        update_operations (\<lambda>r. op_id r = rj_operation_id job)
          (\<lambda>r. r\<lparr>op_status := (if failed then ''failed'' else ''succeeded''),
                 op_progress := (if failed then op_progress r else 100),
                 op_message := Some (if failed then ''Restore failed'' else ''Restore completed''),
                 op_error_code := (if failed then Some ''backup_restore_failed'' else None),
                 op_error_detail := detail, op_completed_at := Some now\<rparr>),
        insert_activity (activity_row eventID now (Some (rj_server_id job)) None
          (if failed then ''server.backup.restore.failed'' else ''server.backup.restored'')
          (if failed then ''error'' else ''info'')
          (if failed then ''Backup restore failed'' else ''Backup restored'')
          (JObj [(''backup_id'', JStr (rj_backup_id job)),
                 (''operation_id'', JStr (rj_operation_id job)), (''error'', jopt detail)]))])"

section \<open>Delivery to Discord\<close>

text \<open>
  The delivery, backup and destination rows a delivery statement joins.  A backup whose size or
  digest is NULL cannot be scanned into the job; the UPDATE has been committed by then.
\<close>

definition delivery_backup :: "backup_delivery \<Rightarrow> db \<Rightarrow> backup option" where
  "delivery_backup r d = find (\<lambda>b. bk_id b = de_backup_id r) (backups d)"

definition delivery_destination :: "backup_delivery \<Rightarrow> db \<Rightarrow> webhook_destination option" where
  "delivery_destination r d = find (\<lambda>w. wh_id w = de_destination_id r) (webhook_destinations d)"

definition deliverable :: "db \<Rightarrow> uuid \<Rightarrow> backup_delivery \<Rightarrow> bool" where
  "deliverable d deliveryID r \<longleftrightarrow>
     de_id r = deliveryID \<and>
     (case (delivery_backup r d, delivery_destination r d) of
        (Some b, Some w) \<Rightarrow> bk_status b = ''succeeded'' \<and> wh_enabled w \<and> wh_kind w = ''discord''
      | _ \<Rightarrow> False)"

definition delivery_job :: "db \<Rightarrow> backup_delivery \<Rightarrow> error + backup_delivery_job" where
  "delivery_job d r =
     (case (delivery_backup r d, delivery_destination r d) of
        (Some b, Some w) \<Rightarrow>
          (case (bk_size_bytes b, bk_sha256 b) of
             (Some bytes, Some sha) \<Rightarrow> Inr \<lparr> dj_delivery_id = de_id r, dj_backup_id = bk_id b,
               dj_server_id = bk_server_id b, dj_backup_name = bk_name b, dj_format = de_format r,
               dj_size_bytes = bytes, dj_sha256 = sha, dj_destination_id = wh_id w,
               dj_url_encrypted = wh_url_encrypted w, dj_attempts = de_attempts r \<rparr>
           | _ \<Rightarrow> Inl (Message ''cannot scan NULL''))
      | _ \<Rightarrow> Inl ErrNotFound)"

definition BeginBackupDelivery :: "time \<Rightarrow> uuid \<Rightarrow> db \<Rightarrow> (error + backup_delivery_job) \<times> db" where
  "BeginBackupDelivery now deliveryID d =
     (let p = (\<lambda>r. deliverable d deliveryID r \<and> (de_status r = ''queued'' \<or> de_status r = ''uploading''));
          f = (\<lambda>r. r\<lparr>de_status := ''uploading'', de_attempts := de_attempts r + 1,
                     de_updated_at := now\<rparr>) in
      case find p (backup_deliveries d) of
        None \<Rightarrow> (Inl ErrNotFound, d)
      | Some r \<Rightarrow>
          (let d' = d\<lparr>backup_deliveries := upd p f (backup_deliveries d)\<rparr> in
           (delivery_job d' (f r), d')))"

definition replace_underscore :: "string \<Rightarrow> string" where
  "replace_underscore s = map (\<lambda>c. if c = CHR ''_'' then CHR '' '' else c) s"

definition FinishBackupDelivery ::
  "(string \<Rightarrow> string) \<Rightarrow> time \<Rightarrow> uuid \<Rightarrow> uuid \<Rightarrow> string \<Rightarrow> int \<Rightarrow> error option \<Rightarrow> db stmt" where
  "FinishBackupDelivery sanitize now eventID deliveryID status responseStatus deliveryErr d =
     (let detail = map_option (\<lambda>e. truncate_to 2000 (sanitize (error_text e))) deliveryErr in
      case find (\<lambda>r. de_id r = deliveryID) (backup_deliveries d) of
        None \<Rightarrow> Inl ErrNoRows
      | Some r \<Rightarrow>
        (case delivery_backup r d of
           None \<Rightarrow> Inl ErrNoRows
         | Some b \<Rightarrow> exec [
             update_backup_deliveries (\<lambda>r. de_id r = deliveryID)
               (\<lambda>r. r\<lparr>de_status := status,
                      de_response_status := (if responseStatus = 0 then None else Some responseStatus),
                      de_last_error := detail,
                      de_delivered_at := (if status = ''delivered'' then Some now else de_delivered_at r),
                      de_updated_at := now\<rparr>),
             (if status = ''delivered'' \<or> status = ''too_large'' \<or> status = ''failed'' then
                insert_activity (activity_row eventID now (Some (bk_server_id b)) None
                  (''server.backup.discord.'' @ status)
                  (if status = ''delivered'' then ''info'' else ''warning'')
                  (if status = ''delivered'' then ''Backup delivered to Discord''
                   else ''Discord backup delivery '' @ replace_underscore status)
                  (JObj [(''backup_id'', JStr (bk_id b)), (''delivery_id'', JStr deliveryID)]))
              else skip)] d))"

definition RetryBackupDelivery ::
  "time \<Rightarrow> uuid \<Rightarrow> uuid \<Rightarrow> uuid \<Rightarrow> uuid \<Rightarrow> uuid \<Rightarrow> uuid \<Rightarrow> db stmt" where
  "RetryBackupDelivery now outboxID eventID serverID backupID deliveryID actorID d =
     (let p = (\<lambda>r. deliverable d deliveryID r \<and> de_backup_id r = backupID \<and>
                   (\<exists>b \<in> set (backups d). bk_id b = backupID \<and> bk_server_id b = serverID) \<and>
                   (de_status r = ''failed'' \<or> de_status r = ''too_large'')) in
      case find p (backup_deliveries d) of
        None \<Rightarrow> Inl ErrConflict
      | Some r \<Rightarrow> exec [
          update_backup_deliveries p
            (\<lambda>r. r\<lparr>de_status := ''queued'', de_attempts := 0, de_response_status := None,
                   de_last_error := None, de_delivered_at := None, de_updated_at := now\<rparr>),
          insert_outbox (outbox_row outboxID now ''backup.discord_delivery'' backupID
            (JObj [(''delivery_id'', JStr deliveryID)])),
          insert_activity (activity_row eventID now (Some serverID) (nullif_empty actorID)
            ''server.backup.discord.retry'' ''info'' ''Discord backup delivery queued again''
            (JObj [(''backup_id'', JStr backupID), (''delivery_id'', JStr deliveryID),
                   (''destination_name'',
                      JStr (case delivery_destination r d of None \<Rightarrow> '''' | Some w \<Rightarrow> wh_name w))]))] d)"

section \<open>Deletion, retention and locks\<close>

definition finished_backup :: "backup \<Rightarrow> bool" where
  "finished_backup b \<longleftrightarrow> bk_status b = ''succeeded'' \<or> bk_status b = ''failed''"

definition deletable :: "uuid \<Rightarrow> uuid \<Rightarrow> backup \<Rightarrow> bool" where
  "deletable serverID backupID b \<longleftrightarrow>
     bk_id b = backupID \<and> bk_server_id b = serverID \<and> \<not> bk_locked b \<and> finished_backup b"

definition BeginBackupDeletion :: "uuid \<Rightarrow> uuid \<Rightarrow> db \<Rightarrow> error + (string \<times> db)" where
  "BeginBackupDeletion serverID backupID d =
     (case find (deletable serverID backupID) (backups d) of
        None \<Rightarrow> Inl ErrConflict
      | Some b \<Rightarrow>
          ret (if bk_object_key b = None then ''failed'' else ''succeeded'')
            (update_backups (deletable serverID backupID) (\<lambda>b. b\<lparr>bk_status := ''deleting''\<rparr>) d))"

definition CancelBackupDeletion :: "uuid \<Rightarrow> uuid \<Rightarrow> string \<Rightarrow> db stmt" where
  "CancelBackupDeletion serverID backupID previous =
     (let previous' = (if previous \<noteq> ''succeeded'' \<and> previous \<noteq> ''failed'' then ''failed'' else previous) in
      update_backups
        (\<lambda>b. bk_id b = backupID \<and> bk_server_id b = serverID \<and> bk_status b = ''deleting'')
        (\<lambda>b. b\<lparr>bk_status := previous'\<rparr>))"

definition being_deleted :: "uuid \<Rightarrow> uuid \<Rightarrow> backup \<Rightarrow> bool" where
  "being_deleted serverID backupID b \<longleftrightarrow>
     bk_id b = backupID \<and> bk_server_id b = serverID \<and> bk_status b = ''deleting''"

definition DeleteBackupRecord :: "time \<Rightarrow> uuid \<Rightarrow> uuid \<Rightarrow> uuid \<Rightarrow> uuid \<Rightarrow> db stmt" where
  "DeleteBackupRecord now eventID serverID backupID actorID =
     exec [
       require (\<lambda>d. affected (being_deleted serverID backupID) (backups d) = 1) ErrConflict,
       delete_backups (being_deleted serverID backupID),
       insert_activity (activity_row eventID now (Some serverID) (nullif_empty actorID)
         ''server.backup.deleted'' ''info''
         (if actorID = '''' then ''Expired backup deleted'' else ''Backup deleted'')
         (JObj [(''backup_id'', JStr backupID)]))]"

definition expired :: "time \<Rightarrow> backup \<Rightarrow> bool" where
  "expired now b \<longleftrightarrow>
     (case bk_expires_at b of None \<Rightarrow> False | Some t \<Rightarrow> t \<le> now) \<and> \<not> bk_locked b \<and> finished_backup b"

definition ExpiredBackups :: "time \<Rightarrow> int \<Rightarrow> db \<Rightarrow> (uuid \<times> uuid) list" where
  "ExpiredBackups now limit d =
     (let n = (if limit < 1 \<or> limit > 100 then 20 else limit) in
      map (\<lambda>b. (bk_id b, bk_server_id b))
        (take (nat n)
          (order_by (\<lambda>b. case bk_expires_at b of None \<Rightarrow> 0 | Some t \<Rightarrow> t)
             (filter (expired now) (backups d)))))"

definition SetBackupLocked :: "time \<Rightarrow> uuid \<Rightarrow> uuid \<Rightarrow> uuid \<Rightarrow> uuid \<Rightarrow> bool \<Rightarrow> db stmt" where
  "SetBackupLocked now eventID serverID backupID actorID locked =
     (let p = (\<lambda>b. bk_id b = backupID \<and> bk_server_id b = serverID \<and> finished_backup b) in
      exec [
        require (\<lambda>d. affected p (backups d) = 1) ErrConflict,
        update_backups p (\<lambda>b. b\<lparr>bk_locked := locked\<rparr>),
        insert_activity (activity_row eventID now (Some serverID) (Some actorID)
          ''server.backup.lock'' ''info'' (if locked then ''Backup locked'' else ''Backup unlocked'')
          (JObj [(''backup_id'', JStr backupID), (''locked'', JBool locked)]))])"

section \<open>The operations keep the integrity of the database\<close>

lemma CreateBackup_ok:
  "preserves_op db_ok (CreateBackup now b ob ev ids s actor name inc exc rd)"
proof (rule preserves_opI)
  fix d assume ok: "db_ok d"
  have loop: "preserves (\<lambda>p. db_ok (fst p)) (\<lambda>p. for_each (\<lambda>w. with_id (\<lambda>i.
      insert_backup_delivery (pending_delivery i now b (wh_id w)))) (backup_destinations s (fst p)) p)"
    by (rule preserves_dependent [where c = "\<lambda>p. for_each (\<lambda>w. with_id (\<lambda>i.
          insert_backup_delivery (pending_delivery i now b (wh_id w)))) (backup_destinations s (fst p))"])
      (intro preserves_for_each preserves_with_id keeps_ok)
  show "sat (\<lambda>v. db_ok (snd v)) (CreateBackup now b ob ev ids s actor name inc exc rd d)"
    unfolding CreateBackup_def Let_def
    by (intro sat_intros) (auto intro!: sat_exec ok loop preserves_lift keeps_ok)
qed

lemma MarkBackupRunning_ok: "preserves db_ok (MarkBackupRunning b)"
  unfolding MarkBackupRunning_def by (rule keeps_ok) (auto simp: check_defs)

lemma MarkBackupSucceeded_ok: "preserves db_ok (MarkBackupSucceeded now ev obs job res)"
  unfolding MarkBackupSucceeded_def Let_def
  by (rule preserves_by_sat)
    (auto intro!: sat_exec preserves_lift preserves_for_each preserves_with_id keeps_ok
       simp: check_defs delivery_key_def)

lemma MarkBackupFailed_ok: "preserves db_ok (MarkBackupFailed now ev job e)"
  unfolding MarkBackupFailed_def
  by (rule preserves_exec) (auto intro!: keeps_ok simp: check_defs)

lemma stop_for_maintenance_ok [keeps_ok]: "preserves db_ok (stop_for_maintenance now s)"
  unfolding stop_for_maintenance_def by (rule keeps_ok) (auto simp: check_defs)

lemma QueueBackupRestore_ok: "preserves_op db_ok (QueueBackupRestore now opn ob ac key s b actor)"
  unfolding QueueBackupRestore_def Let_def
  by (rule preserves_opI)
    (auto intro!: sat_exec keeps_ok simp: check_defs split: option.splits)

lemma MarkBackupRestoreRunning_ok:
  "0 \<le> n \<Longrightarrow> n \<le> 100 \<Longrightarrow> preserves db_ok (MarkBackupRestoreRunning now job n m)"
  unfolding MarkBackupRestoreRunning_def by (rule keeps_ok) (auto simp: check_defs)

lemma FinishBackupRestore_ok: "preserves db_ok (FinishBackupRestore sn now ev job err)"
  unfolding FinishBackupRestore_def Let_def
  by (rule preserves_exec) (auto intro!: keeps_ok simp: check_defs)

lemma BeginBackupDelivery_ok: "db_ok d \<Longrightarrow> db_ok (snd (BeginBackupDelivery now i d))"
proof -
  assume ok: "db_ok d"
  have "preserves db_ok (update_backup_deliveries p
      (\<lambda>r. r\<lparr>de_status := ''uploading'', de_attempts := de_attempts r + 1, de_updated_at := now\<rparr>))" for p
    by (rule keeps_ok) (auto simp: check_defs delivery_key_def)
  with ok show ?thesis
    by (auto simp: BeginBackupDelivery_def Let_def preserves_def update_backup_deliveries_def
        split: option.splits)
qed

lemma FinishBackupDelivery_ok:
  assumes "status \<in> {''queued'', ''delivered'', ''too_large'', ''failed''}"
  shows "preserves db_ok (FinishBackupDelivery sn now ev i status rs err)"
proof (rule preserves_by_sat)
  fix d assume ok: "db_ok d"
  have "preserves db_ok (update_backup_deliveries p (\<lambda>r. r\<lparr>de_status := status,
      de_response_status := x, de_last_error := e, de_delivered_at := g r, de_updated_at := now\<rparr>))"
    for p x e g
    by (rule keeps_ok) (use assms in \<open>auto simp: check_backup_delivery_def delivery_key_def\<close>)
  then show "sat db_ok (FinishBackupDelivery sn now ev i status rs err d)"
    unfolding FinishBackupDelivery_def Let_def
    by (intro sat_intros sat_exec ok) (auto intro!: keeps_ok)
qed

lemma RetryBackupDelivery_ok: "preserves db_ok (RetryBackupDelivery now ob ev s b i actor)"
  unfolding RetryBackupDelivery_def Let_def
  by (rule preserves_by_sat)
    (auto intro!: sat_exec keeps_ok simp: check_defs delivery_key_def split: option.splits)

lemma BeginBackupDeletion_ok: "preserves_op db_ok (BeginBackupDeletion s b)"
  unfolding BeginBackupDeletion_def
  by (rule preserves_opI) (auto intro!: preserves_sat keeps_ok simp: check_defs split: option.splits)

lemma CancelBackupDeletion_ok: "preserves db_ok (CancelBackupDeletion s b prev)"
  unfolding CancelBackupDeletion_def Let_def by (rule keeps_ok) (auto simp: check_defs)

lemma DeleteBackupRecord_ok: "preserves db_ok (DeleteBackupRecord now ev s b actor)"
  unfolding DeleteBackupRecord_def by (rule preserves_exec) (auto intro!: keeps_ok)

lemma SetBackupLocked_ok: "preserves db_ok (SetBackupLocked now ev s b actor l)"
  unfolding SetBackupLocked_def Let_def
  by (rule preserves_exec) (auto intro!: keeps_ok simp: check_defs)

section \<open>How they change the servers table\<close>

lemma CreateBackup_evolves:
  "preserves_op (evolves d0) (CreateBackup now b ob ev ids s actor name inc exc rd)"
proof (rule preserves_opI)
  fix d assume ok: "evolves d0 d"
  have loop: "preserves (\<lambda>p. evolves d0 (fst p)) (\<lambda>p. for_each (\<lambda>w. with_id (\<lambda>i.
      insert_backup_delivery (pending_delivery i now b (wh_id w)))) (backup_destinations s (fst p)) p)"
    by (rule preserves_dependent [where c = "\<lambda>p. for_each (\<lambda>w. with_id (\<lambda>i.
          insert_backup_delivery (pending_delivery i now b (wh_id w)))) (backup_destinations s (fst p))"])
      (intro preserves_for_each preserves_with_id keeps_evolving)
  show "sat (\<lambda>v. evolves d0 (snd v)) (CreateBackup now b ob ev ids s actor name inc exc rd d)"
    unfolding CreateBackup_def Let_def
    by (intro sat_intros) (auto intro!: sat_exec ok loop preserves_lift keeps_evolving)
qed

lemma MarkBackupRunning_evolves: "preserves (evolves d0) (MarkBackupRunning b)"
  unfolding MarkBackupRunning_def Let_def
  by (rule keeps_evolving)

lemma MarkBackupSucceeded_evolves: "preserves (evolves d0) (MarkBackupSucceeded now ev obs job res)"
  unfolding MarkBackupSucceeded_def Let_def
  by (rule preserves_by_sat)
    (auto intro!: sat_exec preserves_lift preserves_for_each preserves_with_id keeps_evolving)

lemma MarkBackupFailed_evolves: "preserves (evolves d0) (MarkBackupFailed now ev job e)"
  unfolding MarkBackupFailed_def Let_def
  by (rule preserves_exec) (auto intro!: keeps_evolving row_step_keep)

lemma stop_for_maintenance_evolves [keeps_evolving]: "preserves (evolves d0) (stop_for_maintenance now s)"
  unfolding stop_for_maintenance_def
  by (rule keeps_evolving) (auto simp: row_step_def)

lemma QueueBackupRestore_evolves: "preserves_op (evolves d0) (QueueBackupRestore now opn ob ac key s b actor)"
  unfolding QueueBackupRestore_def Let_def
  by (rule preserves_opI, intro sat_intros) (auto intro!: sat_exec keeps_evolving row_step_keep)

lemma MarkBackupRestoreRunning_evolves: "preserves (evolves d0) (MarkBackupRestoreRunning now job n m)"
  unfolding MarkBackupRestoreRunning_def Let_def
  by (rule keeps_evolving)

lemma FinishBackupRestore_evolves: "preserves (evolves d0) (FinishBackupRestore sn now ev job err)"
  unfolding FinishBackupRestore_def Let_def
  by (rule preserves_by_sat) (auto intro!: sat_intros sat_exec keeps_evolving row_step_keep)

lemma BeginBackupDelivery_evolves: "evolves d0 d \<Longrightarrow> evolves d0 (snd (BeginBackupDelivery now i d))"
  by (erule evolves_other; simp add: BeginBackupDelivery_def Let_def split: option.splits)

lemma FinishBackupDelivery_evolves: "preserves (evolves d0) (FinishBackupDelivery sn now ev i status rs err)"
  unfolding FinishBackupDelivery_def Let_def
  by (rule preserves_by_sat) (auto intro!: sat_intros sat_exec keeps_evolving row_step_keep)

lemma RetryBackupDelivery_evolves: "preserves (evolves d0) (RetryBackupDelivery now ob ev s b i actor)"
  unfolding RetryBackupDelivery_def Let_def
  by (rule preserves_by_sat) (auto intro!: sat_intros sat_exec keeps_evolving row_step_keep)

lemma BeginBackupDeletion_evolves: "preserves_op (evolves d0) (BeginBackupDeletion s b)"
  unfolding BeginBackupDeletion_def Let_def
  by (rule preserves_opI) (auto intro!: preserves_sat keeps_evolving row_step_keep split: option.splits)

lemma CancelBackupDeletion_evolves: "preserves (evolves d0) (CancelBackupDeletion s b prev)"
  unfolding CancelBackupDeletion_def Let_def
  by (rule keeps_evolving)

lemma DeleteBackupRecord_evolves: "preserves (evolves d0) (DeleteBackupRecord now ev s b actor)"
  unfolding DeleteBackupRecord_def Let_def
  by (rule preserves_exec) (auto intro!: keeps_evolving row_step_keep)

lemma SetBackupLocked_evolves: "preserves (evolves d0) (SetBackupLocked now ev s b actor l)"
  unfolding SetBackupLocked_def Let_def
  by (rule preserves_exec) (auto intro!: keeps_evolving row_step_keep)


end
