(* ===== verification/Schedules.thy ===== *)
theory Schedules
  imports Servers
begin

text \<open>
  \<open>internal/store/schedules.go\<close>: schedules with their ordered tasks, the runs that become due,
  and their completion.  The time zone database and the cron parser (\<open>robfig/cron\<close>) are the
  parameter \<open>cron_env\<close>: \<open>ce_load_location\<close> is \<open>time.LoadLocation\<close> (the error it reports, if any),
  \<open>ce_parse\<close> is \<open>cronParser.Parse\<close>, whose result maps a zone and a time to the next activation.
  The library documents that the next activation is later than the given time, or the zero time
  when there is none within five years (\<open>cron_law\<close>).
\<close>

section \<open>Cron expressions\<close>

record cron_env =
  ce_load_location :: "string \<Rightarrow> error option"
  ce_parse :: "string \<Rightarrow> error + (string \<Rightarrow> time \<Rightarrow> time)"

text \<open>\<open>time.Time{}\<close>, 0001-01-01 UTC, in microseconds since 1970.\<close>

definition zero_time :: time where "zero_time = - 62135596800000000"

definition cron_law :: "cron_env \<Rightarrow> bool" where
  "cron_law env \<longleftrightarrow>
     (\<forall>e next zone t. ce_parse env e = Inr next \<longrightarrow> next zone t = zero_time \<or> t < next zone t)"

definition ValidateSchedule :: "cron_env \<Rightarrow> time \<Rightarrow> string \<Rightarrow> string \<Rightarrow> error + time" where
  "ValidateSchedule env clock expression timezone =
     (case ce_load_location env timezone of
        Some e \<Rightarrow> Inl (Message ''invalid IANA timezone'')
      | None \<Rightarrow>
          (case ce_parse env (trim_space expression) of
             Inl e \<Rightarrow> Inl (Wrap ''invalid cron expression: '' e '''')
           | Inr next \<Rightarrow> Inr (next timezone clock)))"

definition scheduleNextRun :: "cron_env \<Rightarrow> time \<Rightarrow> string \<Rightarrow> string \<Rightarrow> bool \<Rightarrow> error + time option" where
  "scheduleNextRun env clock expression timezone enabled =
     (case ValidateSchedule env clock expression timezone of
        Inl e \<Rightarrow> Inl e
      | Inr next \<Rightarrow> Inr (if \<not> enabled then None else Some next))"

section \<open>Schedules and their tasks\<close>

record task_input =
  ti_task_type :: string
  ti_config :: json
  ti_timeout_seconds :: int

record schedule_params =
  cp_schedule_id :: uuid
  cp_server_id :: uuid
  cp_name :: string
  cp_cron_expression :: string
  cp_timezone :: string
  cp_enabled :: bool
  cp_created_by :: uuid
  cp_tasks :: "task_input list"

record schedule_run_job =
  sj_run_id :: uuid
  sj_schedule_id :: uuid
  sj_server_id :: uuid
  sj_actor_id :: uuid
  sj_name :: string
  sj_timezone :: string
  sj_planned_for :: time
  sj_tasks :: "schedule_task list"

text \<open>\<open>SELECT ... FROM schedule_tasks WHERE schedule_id = $1 ORDER BY position\<close>.\<close>

definition tasks_of :: "uuid \<Rightarrow> db \<Rightarrow> schedule_task list" where
  "tasks_of scheduleID d = order_by ta_position (filter (\<lambda>t. ta_schedule_id t = scheduleID) (schedule_tasks d))"

text \<open>The loop that stores the tasks with their positions.\<close>

definition task_row :: "uuid \<Rightarrow> uuid \<Rightarrow> nat \<Rightarrow> task_input \<Rightarrow> schedule_task" where
  "task_row taskID scheduleID position task =
     \<lparr> ta_id = taskID, ta_schedule_id = scheduleID, ta_position = int position,
       ta_task_type = ti_task_type task, ta_config = ti_config task,
       ta_timeout_seconds = ti_timeout_seconds task \<rparr>"

definition insert_tasks :: "uuid \<Rightarrow> task_input list \<Rightarrow> (db \<times> uuid list) stmt" where
  "insert_tasks scheduleID tasks =
     for_each (\<lambda>(position, task). with_id (\<lambda>taskID. insert_task (task_row taskID scheduleID position task)))
       (enumerate 0 tasks)"

text \<open>A schedule is returned with its tasks, in the order they were stored.\<close>

definition with_tasks :: "schedule \<Rightarrow> error + db \<Rightarrow> error + ((schedule \<times> schedule_task list) \<times> db)" where
  "with_tasks item r = (case r of Inl e \<Rightarrow> Inl e | Inr d \<Rightarrow> Inr ((item, tasks_of (sc_id item) d), d))"

definition CreateSchedule ::
  "cron_env \<Rightarrow> time \<Rightarrow> time \<Rightarrow> uuid \<Rightarrow> uuid list \<Rightarrow> schedule_params \<Rightarrow> db \<Rightarrow>
   error + ((schedule \<times> schedule_task list) \<times> db)" where
  "CreateSchedule env clock now scheduleID taskIDs input d =
     (case scheduleNextRun env clock (cp_cron_expression input) (cp_timezone input) (cp_enabled input) of
        Inl e \<Rightarrow> Inl e
      | Inr nextRun \<Rightarrow>
          if \<not> (\<exists>r \<in> set (servers d). live (cp_server_id input) r) then Inl ErrNotFound
          else
            (let item = \<lparr> sc_id = scheduleID, sc_server_id = cp_server_id input, sc_name = cp_name input,
                          sc_cron_expression = cp_cron_expression input,
                          sc_timezone = cp_timezone input, sc_enabled = cp_enabled input,
                          sc_concurrency_policy = ''skip'', sc_misfire_policy = ''run_once'',
                          sc_next_run_at = nextRun, sc_created_by = Some (cp_created_by input),
                          sc_created_at = now, sc_updated_at = now \<rparr> in
             with_tasks item (state_of (exec [
               lift_stmt (insert_schedule item), insert_tasks scheduleID (cp_tasks input)] (d, taskIDs)))))"

definition UpdateSchedule ::
  "cron_env \<Rightarrow> time \<Rightarrow> time \<Rightarrow> uuid list \<Rightarrow> schedule_params \<Rightarrow> db \<Rightarrow>
   error + ((schedule \<times> schedule_task list) \<times> db)" where
  "UpdateSchedule env clock now taskIDs input d =
     (case scheduleNextRun env clock (cp_cron_expression input) (cp_timezone input) (cp_enabled input) of
        Inl e \<Rightarrow> Inl e
      | Inr nextRun \<Rightarrow>
        (let p = (\<lambda>r. sc_id r = cp_schedule_id input \<and> sc_server_id r = cp_server_id input);
             f = (\<lambda>r. r\<lparr>sc_name := cp_name input, sc_cron_expression := cp_cron_expression input,
                        sc_timezone := cp_timezone input, sc_enabled := cp_enabled input,
                        sc_next_run_at := nextRun, sc_updated_at := now\<rparr>) in
         case find p (schedules d) of
           None \<Rightarrow> Inl ErrNotFound
         | Some r \<Rightarrow> with_tasks (f r) (state_of (exec [
             lift_stmt (update_schedules p f),
             lift_stmt (delete_tasks (\<lambda>t. ta_schedule_id t = cp_schedule_id input)),
             insert_tasks (cp_schedule_id input) (cp_tasks input)] (d, taskIDs)))))"

definition ListSchedules :: "uuid \<Rightarrow> db \<Rightarrow> (schedule \<times> schedule_task list) list" where
  "ListSchedules serverID d =
     map (\<lambda>r. (r, tasks_of (sc_id r) d))
       (order_by (\<lambda>r. - sc_created_at r) (filter (\<lambda>r. sc_server_id r = serverID) (schedules d)))"

definition schedule_of :: "uuid \<Rightarrow> uuid \<Rightarrow> schedule \<Rightarrow> bool" where
  "schedule_of serverID scheduleID r \<longleftrightarrow> sc_id r = scheduleID \<and> sc_server_id r = serverID"

definition DeleteSchedule :: "uuid \<Rightarrow> uuid \<Rightarrow> db stmt" where
  "DeleteSchedule serverID scheduleID =
     exec [
       require (\<lambda>d. affected (schedule_of serverID scheduleID) (schedules d) = 1) ErrNotFound,
       delete_schedules (schedule_of serverID scheduleID)]"

definition SetScheduleEnabled :: "cron_env \<Rightarrow> time \<Rightarrow> time \<Rightarrow> uuid \<Rightarrow> uuid \<Rightarrow> bool \<Rightarrow> db stmt" where
  "SetScheduleEnabled env clock now serverID scheduleID enabled d =
     (case find (schedule_of serverID scheduleID) (schedules d) of
        None \<Rightarrow> Inl ErrNotFound
      | Some r \<Rightarrow>
          (case scheduleNextRun env clock (sc_cron_expression r) (sc_timezone r) enabled of
             Inl e \<Rightarrow> Inl e
           | Inr next \<Rightarrow>
               update_schedules (schedule_of serverID scheduleID)
                 (\<lambda>r. r\<lparr>sc_enabled := enabled, sc_next_run_at := next, sc_updated_at := now\<rparr>) d))"

section \<open>Runs\<close>

definition run_row :: "uuid \<Rightarrow> uuid \<Rightarrow> time \<Rightarrow> string \<Rightarrow> time option \<Rightarrow> schedule_run" where
  "run_row runID scheduleID planned status completed =
     \<lparr> ru_id = runID, ru_schedule_id = scheduleID, ru_planned_for = planned, ru_status = status,
       ru_started_at = None, ru_completed_at = completed, ru_error_detail = None \<rparr>"

definition run_event :: "uuid \<Rightarrow> time \<Rightarrow> uuid \<Rightarrow> outbox_event" where
  "run_event outboxID now runID =
     outbox_row outboxID now ''schedule.run'' runID (JObj [(''run_id'', JStr runID)])"

definition RunScheduleNow :: "time \<Rightarrow> uuid \<Rightarrow> uuid \<Rightarrow> uuid \<Rightarrow> uuid \<Rightarrow> db stmt" where
  "RunScheduleNow now runID outboxID serverID scheduleID =
     exec [
       require (\<lambda>d. \<exists>r \<in> set (schedules d). schedule_of serverID scheduleID r) ErrNotFound,
       insert_run (run_row runID scheduleID now ''queued'' None),
       insert_outbox (run_event outboxID now runID)]"

definition active_run :: "uuid \<Rightarrow> schedule_run \<Rightarrow> bool" where
  "active_run scheduleID r \<longleftrightarrow>
     ru_schedule_id r = scheduleID \<and> (ru_status r = ''queued'' \<or> ru_status r = ''running'')"

definition is_due :: "time \<Rightarrow> schedule \<Rightarrow> bool" where
  "is_due now r \<longleftrightarrow> sc_enabled r \<and> (case sc_next_run_at r of None \<Rightarrow> False | Some t \<Rightarrow> t \<le> now)"

definition planned_time :: "schedule \<Rightarrow> time" where
  "planned_time r = (case sc_next_run_at r of None \<Rightarrow> 0 | Some t \<Rightarrow> t)"

definition due_schedules :: "time \<Rightarrow> nat \<Rightarrow> db \<Rightarrow> schedule list" where
  "due_schedules now limit d = take limit (order_by planned_time (filter (is_due now) (schedules d)))"

text \<open>
  One iteration of the loop: \<open>clock i\<close> is the value of \<open>time.Now()\<close> when schedule \<open>i\<close> is handled.
\<close>

definition enqueue_due :: "cron_env \<Rightarrow> (uuid \<Rightarrow> time) \<Rightarrow> time \<Rightarrow> schedule \<Rightarrow> (db \<times> uuid list) stmt" where
  "enqueue_due env clock now item = (\<lambda>(d, ids).
     case ce_load_location env (sc_timezone item) of
       Some e \<Rightarrow> Inl e
     | None \<Rightarrow>
       (case ce_parse env (sc_cron_expression item) of
          Inl e \<Rightarrow> Inl e
        | Inr schedule_next \<Rightarrow>
          (let next = schedule_next (sc_timezone item) (clock (sc_id item));
               active = (\<exists>r \<in> set (schedule_runs d). active_run (sc_id item) r);
               status = (if active then ''skipped'' else ''queued'') in
           case ids of
             [] \<Rightarrow> Inl (Message ''generate uuid'')
           | runID # rest \<Rightarrow> exec [
               lift_stmt (insert_run_or_ignore (run_row runID (sc_id item) (planned_time item) status
                 (if status = ''skipped'' then Some now else None))),
               (if status = ''queued'' then with_id (\<lambda>outboxID. insert_outbox (run_event outboxID now runID))
                else skip),
               lift_stmt (update_schedules (\<lambda>r. sc_id r = sc_id item)
                 (\<lambda>r. r\<lparr>sc_next_run_at := Some next, sc_updated_at := now\<rparr>))] (d, rest))))"

definition EnqueueDueSchedules :: "cron_env \<Rightarrow> (uuid \<Rightarrow> time) \<Rightarrow> time \<Rightarrow> uuid list \<Rightarrow> nat \<Rightarrow> db stmt" where
  "EnqueueDueSchedules env clock now ids limit d =
     state_of (for_each (enqueue_due env clock now) (due_schedules now limit d) (d, ids))"

text \<open>
  The UPDATE commits before its row is scanned: a schedule whose creator is NULL cannot be scanned
  into the job's \<open>ActorID\<close>.
\<close>

definition ScheduleRunJob :: "time \<Rightarrow> uuid \<Rightarrow> db \<Rightarrow> (error + schedule_run_job) \<times> db" where
  "ScheduleRunJob now runID d =
     (let p = (\<lambda>r. ru_id r = runID \<and> (ru_status r = ''queued'' \<or> ru_status r = ''running'') \<and>
                   ru_schedule_id r \<in> sc_id ` set (schedules d));
          d' = d\<lparr>schedule_runs := upd p (\<lambda>r. r\<lparr>ru_status := ''running'', ru_started_at := Some now\<rparr>)
                  (schedule_runs d)\<rparr> in
      case find p (schedule_runs d) of
        None \<Rightarrow> (Inl ErrNotFound, d)
      | Some r \<Rightarrow>
          (case find (\<lambda>s. sc_id s = ru_schedule_id r) (schedules d) of
             None \<Rightarrow> (Inl ErrNotFound, d)
           | Some s \<Rightarrow>
               (case sc_created_by s of
                  None \<Rightarrow> Inl (Message ''cannot scan NULL'')
                | Some actor \<Rightarrow> Inr \<lparr> sj_run_id = runID, sj_schedule_id = sc_id s,
                    sj_server_id = sc_server_id s, sj_actor_id = actor, sj_name = sc_name s,
                    sj_timezone = sc_timezone s, sj_planned_for = ru_planned_for r,
                    sj_tasks = tasks_of (sc_id s) d \<rparr>, d')))"

definition FinishScheduleRun :: "time \<Rightarrow> uuid \<Rightarrow> schedule_run_job \<Rightarrow> error option \<Rightarrow> db stmt" where
  "FinishScheduleRun now eventID job runErr =
     (let status = (if runErr = None then ''succeeded'' else ''failed'');
          severity = (if runErr = None then ''info'' else ''error'');
          summary = (if runErr = None then ''Schedule completed'' else ''Schedule failed'');
          detail = map_option (\<lambda>e. truncate_to 2000 (error_text e)) runErr in
      exec [
        update_runs (\<lambda>r. ru_id r = sj_run_id job)
          (\<lambda>r. r\<lparr>ru_status := status, ru_error_detail := detail, ru_completed_at := Some now\<rparr>),
        insert_activity (activity_row eventID now (Some (sj_server_id job)) None
          (''server.schedule.'' @ status) severity summary
          (JObj [(''schedule_id'', JStr (sj_schedule_id job)), (''run_id'', JStr (sj_run_id job)),
                 (''name'', JStr (sj_name job))]))])"

definition RecordScheduleNotification :: "time \<Rightarrow> uuid \<Rightarrow> uuid \<Rightarrow> uuid \<Rightarrow> uuid \<Rightarrow> string \<Rightarrow> db stmt" where
  "RecordScheduleNotification now eventID serverID actorID scheduleID message =
     insert_activity (activity_row eventID now (Some serverID) (Some actorID)
       ''server.schedule.notification'' ''info'' message (JObj [(''schedule_id'', JStr scheduleID)]))"

section \<open>The operations keep the integrity of the database\<close>

lemma sat_with_tasks: "sat q r \<Longrightarrow> sat (\<lambda>v. q (snd v)) (with_tasks item r)"
  by (auto simp: sat_def with_tasks_def split: sum.splits)

text \<open>Facts shared by the two invariants of the operations.\<close>

lemma insert_tasks_keeps:
  assumes "\<And>t. preserves i (insert_task t)"
  shows "preserves (\<lambda>p. i (fst p)) (insert_tasks s ts)"
  unfolding insert_tasks_def
  by (rule preserves_for_each) (auto intro!: preserves_with_id assms)

lemma CreateSchedule_keeps:
  assumes "\<And>t. preserves i (insert_task t)" and "\<And>r. preserves i (insert_schedule r)"
  shows "preserves_op i (CreateSchedule env clock now s ids inp)"
  unfolding CreateSchedule_def Let_def
  by (rule preserves_opI, intro sat_intros sat_with_tasks)
    (simp add: sat_exec insert_tasks_keeps preserves_lift assms)

lemma UpdateSchedule_keeps:
  assumes "\<And>t. preserves i (insert_task t)" and "\<And>p. preserves i (delete_tasks p)"
    and "\<And>p n. preserves i (update_schedules p (\<lambda>r. r\<lparr>sc_name := cp_name inp,
      sc_cron_expression := cp_cron_expression inp, sc_timezone := cp_timezone inp,
      sc_enabled := cp_enabled inp, sc_next_run_at := n, sc_updated_at := now\<rparr>))"
  shows "preserves_op i (UpdateSchedule env clock now ids inp)"
  unfolding UpdateSchedule_def Let_def
  by (rule preserves_opI, intro sat_intros sat_with_tasks)
    (simp add: sat_exec insert_tasks_keeps preserves_lift assms)

lemma DeleteSchedule_keeps:
  assumes "\<And>p. preserves i (delete_schedules p)"
  shows "preserves i (DeleteSchedule s sc)"
  unfolding DeleteSchedule_def by (rule preserves_exec) (simp add: assms require_keeps)

lemma SetScheduleEnabled_keeps:
  assumes "\<And>p n. preserves i (update_schedules p
    (\<lambda>r. r\<lparr>sc_enabled := en, sc_next_run_at := n, sc_updated_at := now\<rparr>))"
  shows "preserves i (SetScheduleEnabled env clock now s sc en)"
  unfolding SetScheduleEnabled_def
  by (rule preserves_by_sat, intro sat_intros preserves_sat assms)

lemma RunScheduleNow_keeps:
  assumes "\<And>r. preserves i (insert_run r)" and "\<And>e. preserves i (insert_outbox e)"
  shows "preserves i (RunScheduleNow now r ob s sc)"
  unfolding RunScheduleNow_def by (rule preserves_exec) (simp add: assms require_keeps)

lemma enqueue_due_keeps:
  assumes "\<And>r. preserves i (insert_run_or_ignore r)" and "\<And>e. preserves i (insert_outbox e)"
    and "\<And>p n. preserves i (update_schedules p (\<lambda>r. r\<lparr>sc_next_run_at := n, sc_updated_at := now\<rparr>))"
  shows "preserves (\<lambda>p. i (fst p)) (enqueue_due env clock now item)"
  by (rule preserves_by_sat)
    (auto simp: enqueue_due_def Let_def assms intro!: sat_intros sat_exec preserves_lift preserves_with_id
      split: list.splits)

lemma EnqueueDueSchedules_keeps:
  assumes "\<And>r. preserves i (insert_run_or_ignore r)" and "\<And>e. preserves i (insert_outbox e)"
    and "\<And>p n. preserves i (update_schedules p (\<lambda>r. r\<lparr>sc_next_run_at := n, sc_updated_at := now\<rparr>))"
  shows "preserves i (EnqueueDueSchedules env clock now ids limit)"
  unfolding EnqueueDueSchedules_def
  by (rule preserves_by_sat)
    (auto intro!: preserves_sat [OF preserves_for_each] enqueue_due_keeps assms)

lemma FinishScheduleRun_keeps:
  assumes "\<And>r. preserves i (insert_activity r)"
    and "\<And>p st e. st \<in> {''succeeded'', ''failed''} \<Longrightarrow> preserves i (update_runs p
      (\<lambda>r. r\<lparr>ru_status := st, ru_error_detail := e, ru_completed_at := Some now\<rparr>))"
  shows "preserves i (FinishScheduleRun now ev job err)"
  unfolding FinishScheduleRun_def Let_def by (rule preserves_exec) (simp add: assms)

lemma ScheduleRunJob_snd:
  "snd (ScheduleRunJob now i d) = d \<or>
   (\<exists>p. update_runs p (\<lambda>r. r\<lparr>ru_status := ''running'', ru_started_at := Some now\<rparr>) d =
        Inr (snd (ScheduleRunJob now i d)))"
  by (auto simp: ScheduleRunJob_def Let_def update_stmt_defs split: option.splits)

lemma CreateSchedule_ok: "preserves_op db_ok (CreateSchedule env clock now s ids inp)"
  by (rule CreateSchedule_keeps) (rule keeps_ok)+

lemma UpdateSchedule_ok: "preserves_op db_ok (UpdateSchedule env clock now ids inp)"
  by (rule UpdateSchedule_keeps) (auto intro!: keeps_ok simp: check_schedule_def)

lemma DeleteSchedule_ok: "preserves db_ok (DeleteSchedule s sc)"
  by (rule DeleteSchedule_keeps) (rule keeps_ok)

lemma SetScheduleEnabled_ok: "preserves db_ok (SetScheduleEnabled env clock now s sc en)"
  by (rule SetScheduleEnabled_keeps) (auto intro!: keeps_ok simp: check_schedule_def)

lemma RunScheduleNow_ok: "preserves db_ok (RunScheduleNow now r ob s sc)"
  by (rule RunScheduleNow_keeps) (rule keeps_ok)+

lemma EnqueueDueSchedules_ok: "preserves db_ok (EnqueueDueSchedules env clock now ids limit)"
  by (rule EnqueueDueSchedules_keeps) (auto intro!: keeps_ok simp: check_schedule_def)

lemma FinishScheduleRun_ok: "preserves db_ok (FinishScheduleRun now ev job err)"
  by (rule FinishScheduleRun_keeps) (auto intro!: keeps_ok simp: check_run_def)

lemma RecordScheduleNotification_ok: "preserves db_ok (RecordScheduleNotification now ev s a sc m)"
  unfolding RecordScheduleNotification_def by (rule keeps_ok)

lemma ScheduleRunJob_ok: "db_ok d \<Longrightarrow> db_ok (snd (ScheduleRunJob now i d))"
proof -
  assume ok: "db_ok d"
  have "preserves db_ok (update_runs p (\<lambda>r. r\<lparr>ru_status := ''running'', ru_started_at := Some now\<rparr>))" for p
    by (rule keeps_ok) (auto simp: check_run_def)
  with ok ScheduleRunJob_snd [of now i d] show ?thesis by (auto dest: preservesD)
qed

section \<open>How they change the servers table\<close>

lemma CreateSchedule_evolves: "preserves_op (evolves d0) (CreateSchedule env clock now s ids inp)"
  by (rule CreateSchedule_keeps) (rule keeps_evolving)+

lemma UpdateSchedule_evolves: "preserves_op (evolves d0) (UpdateSchedule env clock now ids inp)"
  by (rule UpdateSchedule_keeps) (rule keeps_evolving)+

lemma DeleteSchedule_evolves: "preserves (evolves d0) (DeleteSchedule s sc)"
  by (rule DeleteSchedule_keeps) (rule keeps_evolving)

lemma SetScheduleEnabled_evolves: "preserves (evolves d0) (SetScheduleEnabled env clock now s sc en)"
  by (rule SetScheduleEnabled_keeps) (rule keeps_evolving)

lemma RunScheduleNow_evolves: "preserves (evolves d0) (RunScheduleNow now r ob s sc)"
  by (rule RunScheduleNow_keeps) (rule keeps_evolving)+

lemma EnqueueDueSchedules_evolves: "preserves (evolves d0) (EnqueueDueSchedules env clock now ids limit)"
  by (rule EnqueueDueSchedules_keeps) (rule keeps_evolving)+

lemma FinishScheduleRun_evolves: "preserves (evolves d0) (FinishScheduleRun now ev job err)"
  by (rule FinishScheduleRun_keeps) (rule keeps_evolving)+

lemma RecordScheduleNotification_evolves:
  "preserves (evolves d0) (RecordScheduleNotification now ev s a sc m)"
  unfolding RecordScheduleNotification_def by (rule keeps_evolving)

lemma ScheduleRunJob_evolves: "evolves d0 d \<Longrightarrow> evolves d0 (snd (ScheduleRunJob now i d))"
  using ScheduleRunJob_snd [of now i d] by (auto dest: preservesD [OF other_updates_evolving(5)])

end
