(* ===== verification/Webhooks.thy ===== *)
theory Webhooks
  imports Servers Queues "HOL-Library.Word"
begin

unbundle bit_operations_syntax

text \<open>
  Webhooks: the destinations and the delivery queue of \<open>internal/store/webhooks.go\<close>, and the
  client of \<open>internal/webhooks/client.go\<close> that validates a URL, builds the request and decides from
  the response whether a delivery succeeded, is retried, or is dead.

  The record \<open>webhook_env\<close> holds what the code takes from the Go library: URL and address parsing,
  JSON encoding, HMAC-SHA256 (as a hexadecimal digest of key and message), time formats, and the
  parsers behind \<open>Retry-After\<close>.  The HTTP transport is an argument of the sending functions.
\<close>

record parsed_url =
  pu_scheme :: string
  pu_host :: string
  pu_hostname :: string
  pu_path :: string
  pu_has_user :: bool
  pu_fragment :: string

type_synonym ip = "8 word list"

record webhook_env =
  we_url_parse :: "string \<Rightarrow> error + parsed_url"
  we_parse_ip :: "string \<Rightarrow> ip option"
  we_with_wait :: "parsed_url \<Rightarrow> string"
  we_marshal :: "json \<Rightarrow> string"
  we_hmac_hex :: "string \<Rightarrow> string \<Rightarrow> string"
  we_rfc3339 :: "time \<Rightarrow> string"
  we_timestamp :: "time \<Rightarrow> string"
  we_parse_float :: "string \<Rightarrow> rat option"
  we_parse_time :: "string \<Rightarrow> time option"

section \<open>Addresses\<close>

text \<open>
  \<open>net.IP\<close> as its bytes, 4 or 16 of them.  \<open>to4\<close> is \<open>IP.To4\<close>: the four bytes of an IPv4 address,
  also of one mapped into IPv6; the tests are those of package \<open>net\<close>.
\<close>

definition v4_in_v6_prefix :: ip where
  "v4_in_v6_prefix = replicate 10 0 @ [0xFF, 0xFF]"

definition to4 :: "ip \<Rightarrow> ip option" where
  "to4 ip =
     (if length ip = 4 then Some ip
      else if length ip = 16 \<and> take 12 ip = v4_in_v6_prefix then Some (drop 12 ip)
      else None)"

definition ip_is_loopback :: "ip \<Rightarrow> bool" where
  "ip_is_loopback ip =
     (case to4 ip of Some b \<Rightarrow> b ! 0 = 127 | None \<Rightarrow> ip = replicate 15 0 @ [1])"

definition ip_is_private :: "ip \<Rightarrow> bool" where
  "ip_is_private ip =
     (case to4 ip of
        Some b \<Rightarrow> b ! 0 = 10 \<or> (b ! 0 = 172 \<and> b ! 1 AND 0xF0 = 16) \<or> (b ! 0 = 192 \<and> b ! 1 = 168)
      | None \<Rightarrow> length ip = 16 \<and> ip ! 0 AND 0xFE = 0xFC)"

definition ip_is_unspecified :: "ip \<Rightarrow> bool" where
  "ip_is_unspecified ip =
     (case to4 ip of Some b \<Rightarrow> b = [0, 0, 0, 0] | None \<Rightarrow> ip = replicate 16 0)"

definition ip_is_link_local_unicast :: "ip \<Rightarrow> bool" where
  "ip_is_link_local_unicast ip =
     (case to4 ip of
        Some b \<Rightarrow> b ! 0 = 169 \<and> b ! 1 = 254
      | None \<Rightarrow> length ip = 16 \<and> ip ! 0 = 0xFE \<and> ip ! 1 AND 0xC0 = 0x80)"

definition ip_is_link_local_multicast :: "ip \<Rightarrow> bool" where
  "ip_is_link_local_multicast ip =
     (case to4 ip of
        Some b \<Rightarrow> b ! 0 = 224 \<and> b ! 1 = 0 \<and> b ! 2 = 0
      | None \<Rightarrow> length ip = 16 \<and> ip ! 0 = 0xFF \<and> ip ! 1 AND 0x0F = 0x02)"

definition ip_is_multicast :: "ip \<Rightarrow> bool" where
  "ip_is_multicast ip =
     (case to4 ip of
        Some b \<Rightarrow> b ! 0 AND 0xF0 = 0xE0
      | None \<Rightarrow> length ip = 16 \<and> ip ! 0 = 0xFF)"

definition publicIP :: "ip option \<Rightarrow> bool" where
  "publicIP address =
     (case address of
        None \<Rightarrow> False
      | Some ip \<Rightarrow> \<not> ip_is_loopback ip \<and> \<not> ip_is_private ip \<and> \<not> ip_is_unspecified ip \<and>
                  \<not> ip_is_link_local_unicast ip \<and> \<not> ip_is_link_local_multicast ip \<and>
                  \<not> ip_is_multicast ip)"

text \<open>The addresses of a host the dialer may connect to, in the resolver's order.\<close>

definition dial_candidates :: "ip list \<Rightarrow> ip list" where
  "dial_candidates addresses = filter (\<lambda>a. publicIP (Some a)) addresses"

section \<open>Validation\<close>

definition discord_hosts :: "string list" where
  "discord_hosts = [''discord.com'', ''canary.discord.com'', ''ptb.discord.com'']"

definition ValidateURL :: "webhook_env \<Rightarrow> string \<Rightarrow> string \<Rightarrow> error option" where
  "ValidateURL env rawURL kind =
     (let malformed =
            Some (Message ''webhook URL must be an HTTPS URL without credentials or fragments'') in
      case we_url_parse env (trim_space rawURL) of
        Inl e \<Rightarrow> malformed
      | Inr parsed \<Rightarrow>
          if pu_scheme parsed \<noteq> ''https'' \<or> pu_host parsed = '''' \<or> pu_has_user parsed \<or>
             pu_fragment parsed \<noteq> '''' then malformed
          else
            (let host = to_lower (pu_hostname parsed) in
             if host = ''localhost'' \<or> suffix ''.localhost'' host
             then Some (Message ''webhook URL cannot target localhost'')
             else if we_parse_ip env host \<noteq> None \<and> \<not> publicIP (we_parse_ip env host)
             then Some (Message ''webhook URL must target a public address'')
             else if kind = ''discord'' then
               (if host \<notin> set discord_hosts
                then Some (Message ''Discord webhook must use discord.com'')
                else if \<not> prefix ''/api/webhooks/'' (pu_path parsed)
                then Some (Message ''invalid Discord incoming webhook path'')
                else None)
             else None))"

text \<open>\<open>webhookKind\<close> of \<open>internal/httpapi/webhook_handlers.go\<close>.\<close>

definition webhookKind :: "webhook_env \<Rightarrow> string \<Rightarrow> string" where
  "webhookKind env raw =
     (case we_url_parse env raw of
        Inl e \<Rightarrow> ''generic''
      | Inr parsed \<Rightarrow>
          (let host = to_lower (pu_hostname parsed) in
           if (host = ''discord.com'' \<or> host = ''discordapp.com'') \<and>
              prefix ''/api/webhooks/'' (pu_path parsed)
           then ''discord'' else ''generic''))"

section \<open>Back-off\<close>

definition backoff :: "int \<Rightarrow> duration" where
  "backoff attempt =
     (let a = (if attempt < 1 then 1 else attempt);
          secs = 2 ^ nat (min a 10);
          secs' = (if secs > 900 then 900 else secs) in
      secs' * second)"

text \<open>
  \<open>time.Duration(f)\<close> for a float64 \<open>f\<close>: truncation, and the least int64 where the value does not
  fit, as amd64 converts it.
\<close>

definition duration_of_float :: "rat \<Rightarrow> duration" where
  "duration_of_float f =
     (let n = (if 0 \<le> f then \<lfloor>f\<rfloor> else \<lceil>f\<rceil>) in
      if - (2 ^ 63) \<le> n \<and> n < 2 ^ 63 then n else - (2 ^ 63))"

definition parseRetryAfter :: "webhook_env \<Rightarrow> time \<Rightarrow> string \<Rightarrow> duration" where
  "parseRetryAfter env clock header =
     (let v = trim_space header in
      if v = '''' then 0
      else case we_parse_float env v of
        Some secs \<Rightarrow>
          if 0 < secs then duration_of_float (secs * 1000000000)
          else (case we_parse_time env v of Some w \<Rightarrow> (w - clock) * 1000 | None \<Rightarrow> 0)
      | None \<Rightarrow> (case we_parse_time env v of Some w \<Rightarrow> (w - clock) * 1000 | None \<Rightarrow> 0))"

section \<open>Sending\<close>

record webhook_job =
  wj_delivery_id :: uuid
  wj_destination_id :: uuid
  wj_server_id :: uuid
  wj_destination_name :: string
  wj_kind :: string
  wj_url_encrypted :: string
  wj_signing_secret_encrypted :: "string option"
  wj_attempts :: int
  wj_event_id :: uuid
  wj_event_type :: string
  wj_severity :: string
  wj_summary :: string
  wj_data :: json
  wj_created_at :: time

record http_request =
  hr_url :: string
  hr_headers :: "(string \<times> string) list"
  hr_body :: string

record http_response =
  hp_status :: int
  hp_retry_after :: string
  hp_body :: string

type_synonym transport = "http_request \<Rightarrow> error + http_response"

record send_result =
  sr_status :: int
  sr_retry_after :: duration
  sr_permanent :: bool
  sr_error :: "error option"

definition refused :: "error \<Rightarrow> send_result" where
  "refused e = \<lparr> sr_status = 0, sr_retry_after = 0, sr_permanent = True, sr_error = Some e \<rparr>"

definition severity_color :: "string \<Rightarrow> int" where
  "severity_color severity =
     (if severity = ''info'' then 0x11C3F5 else if severity = ''warning'' then 0xFDB022
      else if severity = ''error'' then 0xF97066 else 0)"

definition deliveryPayload :: "webhook_env \<Rightarrow> webhook_job \<Rightarrow> json" where
  "deliveryPayload env job =
     (if wj_kind job = ''discord'' then
        JObj [(''username'', JStr ''Dockside.GG''),
              (''allowed_mentions'', JObj [(''parse'', JArr [])]),
              (''embeds'', JArr [JObj [
                (''title'', JStr (wj_summary job)),
                (''description'', JStr (''`'' @ wj_event_type job @ ''`'')),
                (''color'', JNum (severity_color (wj_severity job))),
                (''timestamp'', JStr (we_rfc3339 env (wj_created_at job))),
                (''footer'', JObj [(''text'', JStr ''Dockside.GG game server event'')])]])]
      else
        JObj [(''version'', JNum 1), (''delivery_id'', JStr (wj_delivery_id job)),
              (''event'', JObj [
                (''id'', JStr (wj_event_id job)), (''type'', JStr (wj_event_type job)),
                (''severity'', JStr (wj_severity job)), (''summary'', JStr (wj_summary job)),
                (''data'', wj_data job), (''created_at'', JStr (we_timestamp env (wj_created_at job))),
                (''server_id'', JStr (wj_server_id job))])])"

definition send_request :: "webhook_env \<Rightarrow> webhook_job \<Rightarrow> string \<Rightarrow> string \<Rightarrow> http_request" where
  "send_request env job rawURL signingSecret =
     (let payload = we_marshal env (deliveryPayload env job) in
      \<lparr> hr_url = rawURL,
        hr_headers = [(''Content-Type'', ''application/json''), (''Accept'', ''application/json''),
            (''User-Agent'', ''Dockside.GG-Game-Panel/1''),
            (''X-Dockside-Event'', wj_event_type job), (''X-Dockside-Delivery'', wj_delivery_id job)] @
          (if signingSecret \<noteq> '''' then
             [(''X-Dockside-Signature'', ''sha256='' @ we_hmac_hex env signingSecret payload)]
           else []),
        hr_body = payload \<rparr>)"

definition is_success :: "int \<Rightarrow> bool" where
  "is_success status \<longleftrightarrow> 200 \<le> status \<and> status < 300"

definition event_transient :: "int \<Rightarrow> bool" where
  "event_transient status \<longleftrightarrow>
     status = 408 \<or> status = 409 \<or> status = 425 \<or> status = 429 \<or> 500 \<le> status"

definition backup_transient :: "int \<Rightarrow> bool" where
  "backup_transient status \<longleftrightarrow> status = 408 \<or> status = 409 \<or> status = 429 \<or> 500 \<le> status"

text \<open>What both senders make of the transport's answer.\<close>

definition interpret_response ::
  "webhook_env \<Rightarrow> time \<Rightarrow> (int \<Rightarrow> bool) \<Rightarrow> (http_response \<Rightarrow> string) \<Rightarrow> int \<Rightarrow>
   error + http_response \<Rightarrow> send_result" where
  "interpret_response env clock transient describe attempts answer =
     (case answer of
        Inl e \<Rightarrow> \<lparr> sr_status = 0, sr_retry_after = backoff attempts,
                  sr_permanent = attempts \<ge> 10, sr_error = Some e \<rparr>
      | Inr response \<Rightarrow>
          if is_success (hp_status response)
          then \<lparr> sr_status = hp_status response, sr_retry_after = 0, sr_permanent = False, sr_error = None \<rparr>
          else
            (let retry = parseRetryAfter env clock (hp_retry_after response);
                 retry' = (if retry = 0 then backoff attempts else retry) in
             \<lparr> sr_status = hp_status response, sr_retry_after = retry',
               sr_permanent = \<not> transient (hp_status response) \<or> attempts \<ge> 10,
               sr_error = Some (Message (describe response)) \<rparr>))"

definition Send ::
  "webhook_env \<Rightarrow> time \<Rightarrow> transport \<Rightarrow> webhook_job \<Rightarrow> string \<Rightarrow> string \<Rightarrow> send_result" where
  "Send env clock do job rawURL signingSecret =
     (case ValidateURL env rawURL (wj_kind job) of
        Some e \<Rightarrow> refused e
      | None \<Rightarrow>
          interpret_response env clock event_transient
            (\<lambda>r. ''webhook returned HTTP '' @ itoa (hp_status r)) (wj_attempts job)
            (do (send_request env job rawURL signingSecret)))"

text \<open>The two parts of the multipart body are kept apart: the JSON payload and the archive.\<close>

definition backup_payload :: "string \<Rightarrow> string \<Rightarrow> string \<Rightarrow> json" where
  "backup_payload name format sha256 =
     JObj [(''username'', JStr ''Dockside.GG''),
           (''allowed_mentions'', JObj [(''parse'', JArr [])]),
           (''embeds'', JArr [JObj [
             (''title'', JStr (''Backup delivered: '' @ name)),
             (''description'', JStr (''Restorable Dockside backup `'' @ format @ ''`'' @ [CHR 0x0A] @
                                   ''SHA-256 `'' @ sha256 @ ''`'')),
             (''color'', JNum 0x11C3F5),
             (''footer'', JObj [(''text'', JStr ''Dockside.GG game server backup'')])]])]"

definition SendBackup ::
  "webhook_env \<Rightarrow> time \<Rightarrow> (string \<Rightarrow> json \<Rightarrow> string \<Rightarrow> error + http_response) \<Rightarrow> string \<Rightarrow> string \<Rightarrow> string \<Rightarrow>
   int \<Rightarrow> string \<Rightarrow> string \<Rightarrow> send_result" where
  "SendBackup env clock upload name format sha256 attempts rawURL filename =
     (case ValidateURL env rawURL ''discord'' of
        Some e \<Rightarrow> refused e
      | None \<Rightarrow>
          (case we_url_parse env rawURL of
             Inl e \<Rightarrow> refused e
           | Inr parsed \<Rightarrow>
               interpret_response env clock backup_transient
                 (\<lambda>r. ''Discord backup upload returned HTTP '' @ itoa (hp_status r) @ '': '' @
                     truncate_to 500 (trim_space (take 65536 (hp_body r)))) attempts
                 (upload (we_with_wait env parsed) (backup_payload name format sha256) filename)))"

end
