(* ===== verification/Webhook_Queue.thy ===== *)
theory Webhook_Queue
  imports Webhooks
begin

text \<open>
  \<open>internal/store/webhooks.go\<close>: destinations, test deliveries, and the delivery queue that the
  worker claims from and reports to.  \<open>seal\<close> and \<open>open_box\<close> stand for \<open>secure.Box\<close>, applied to a
  text and its associated data.
\<close>

section \<open>Destinations\<close>

type_synonym box_fun = "string \<Rightarrow> string \<Rightarrow> error + string"

definition url_context :: "uuid \<Rightarrow> string" where "url_context i = ''webhook:'' @ i @ '':url''"
definition secret_context :: "uuid \<Rightarrow> string" where "secret_context i = ''webhook:'' @ i @ '':secret''"

definition CreateWebhook ::
  "box_fun \<Rightarrow> time \<Rightarrow> uuid \<Rightarrow> uuid \<Rightarrow> uuid \<Rightarrow> string \<Rightarrow> string \<Rightarrow> string \<Rightarrow> string \<Rightarrow> db \<Rightarrow>
   error + (webhook_destination \<times> db)" where
  "CreateWebhook seal now i serverID actorID name kind rawURL signingSecret d =
     (case seal rawURL (url_context i) of
        Inl e \<Rightarrow> Inl e
      | Inr encryptedURL \<Rightarrow>
          (case (if signingSecret = '''' then Inr None
                 else map_sum id Some (seal signingSecret (secret_context i))) of
             Inl e \<Rightarrow> Inl e
           | Inr encryptedSecret \<Rightarrow>
               (let item = \<lparr> wh_id = i, wh_server_id = serverID, wh_name = name, wh_kind = kind,
                     wh_url_encrypted = encryptedURL, wh_signing_secret_encrypted = encryptedSecret,
                     wh_enabled = True, wh_deliver_events = False, wh_deliver_backups = False,
                     wh_event_filters = [], wh_created_by = Some actorID,
                     wh_created_at = now, wh_updated_at = now \<rparr> in
                case insert_destination item d of
                  Inl e \<Rightarrow> Inl (Wrap ''create webhook: '' e '''')
                | Inr d' \<Rightarrow> Inr (item, d'))))"

text \<open>The listing opens every URL, to show its scheme and host; one that does not open is an error.\<close>

fun open_all :: "box_fun \<Rightarrow> webhook_destination list \<Rightarrow> error + (webhook_destination \<times> string) list" where
  "open_all open_box [] = Inr []"
| "open_all open_box (w # ws) =
     (case open_box (wh_url_encrypted w) (url_context (wh_id w)) of
        Inl e \<Rightarrow> Inl e
      | Inr rawURL \<Rightarrow>
          (case open_all open_box ws of Inl e \<Rightarrow> Inl e | Inr rest \<Rightarrow> Inr ((w, rawURL) # rest)))"

definition webhookURLPreview :: "webhook_env \<Rightarrow> string \<Rightarrow> string" where
  "webhookURLPreview env raw =
     (case we_url_parse env raw of
        Inl e \<Rightarrow> ''configured''
      | Inr parsed \<Rightarrow> pu_scheme parsed @ ''://'' @ pu_host parsed @ ''/'' @
          concat (replicate 6 [CHR 0xE2, CHR 0x80, CHR 0xA2]))"

definition ListWebhooks :: "webhook_env \<Rightarrow> box_fun \<Rightarrow> uuid \<Rightarrow> db \<Rightarrow> error + (webhook_destination \<times> string) list" where
  "ListWebhooks env open_box serverID d =
     map_sum id (map (\<lambda>(w, rawURL). (w, webhookURLPreview env rawURL)))
       (open_all open_box (order_by (\<lambda>w. - wh_created_at w)
          (filter (\<lambda>w. wh_server_id w = serverID) (webhook_destinations d))))"

definition destination_of :: "uuid \<Rightarrow> uuid \<Rightarrow> webhook_destination \<Rightarrow> bool" where
  "destination_of serverID webhookID w \<longleftrightarrow> wh_id w = webhookID \<and> wh_server_id w = serverID"

definition coalesce :: "'a option \<Rightarrow> 'a \<Rightarrow> 'a" where
  "coalesce x y = (case x of None \<Rightarrow> y | Some v \<Rightarrow> v)"

definition UpdateWebhook ::
  "time \<Rightarrow> uuid \<Rightarrow> uuid \<Rightarrow> bool option \<Rightarrow> bool option \<Rightarrow> bool option \<Rightarrow> string list option \<Rightarrow> db stmt" where
  "UpdateWebhook now serverID webhookID enabled deliverEvents deliverBackups eventFilters =
     exec [
       require (\<lambda>d. affected (destination_of serverID webhookID) (webhook_destinations d) = 1) ErrNotFound,
       update_destinations (destination_of serverID webhookID)
         (\<lambda>w. w\<lparr>wh_enabled := coalesce enabled (wh_enabled w),
                wh_deliver_events := coalesce deliverEvents (wh_deliver_events w),
                wh_deliver_backups := coalesce deliverBackups (wh_deliver_backups w),
                wh_event_filters := coalesce eventFilters (wh_event_filters w),
                wh_updated_at := now\<rparr>)]"

definition DeleteWebhook :: "uuid \<Rightarrow> uuid \<Rightarrow> db stmt" where
  "DeleteWebhook serverID webhookID =
     exec [
       require (\<lambda>d. affected (destination_of serverID webhookID) (webhook_destinations d) = 1) ErrNotFound,
       delete_destinations (destination_of serverID webhookID)]"

section \<open>Deliveries\<close>

definition WebhookDeliveryByID :: "uuid \<Rightarrow> uuid \<Rightarrow> uuid \<Rightarrow> db \<Rightarrow> error + webhook_delivery" where
  "WebhookDeliveryByID serverID webhookID deliveryID d =
     (case find (\<lambda>r. wd_id r = deliveryID \<and> wd_destination_id r = webhookID \<and>
                     (\<exists>w \<in> set (webhook_destinations d). destination_of serverID webhookID w))
             (webhook_deliveries d) of
        None \<Rightarrow> Inl ErrNotFound | Some r \<Rightarrow> Inr r)"

text \<open>The transaction of a test: the event, and a delivery unless the trigger has queued one.\<close>

definition queue_test :: "time \<Rightarrow> uuid \<Rightarrow> uuid \<Rightarrow> uuid \<Rightarrow> uuid \<Rightarrow> uuid \<Rightarrow> db stmt" where
  "queue_test now eventID deliveryID serverID actorID webhookID =
     exec [
       insert_activity (activity_row eventID now (Some serverID) (Some actorID) ''webhook.test''
         ''info'' ''Dockside webhook test'' (JObj [(''destination_id'', JStr webhookID)])),
       (\<lambda>d. if \<exists>r \<in> set (webhook_deliveries d). wd_destination_id r = webhookID \<and> wd_event_id r = eventID
            then Inr d else insert_webhook_delivery (queued_delivery deliveryID webhookID eventID now) d)]"

text \<open>
  The result is read after the commit: the operation can report an error and still have queued
  a delivery, so the committed state is part of the result in every case.
\<close>

definition QueueWebhookTest ::
  "time \<Rightarrow> uuid \<Rightarrow> uuid \<Rightarrow> uuid \<Rightarrow> uuid \<Rightarrow> uuid \<Rightarrow> db \<Rightarrow> (error + webhook_delivery) \<times> db" where
  "QueueWebhookTest now eventID deliveryID serverID actorID webhookID d =
     (if \<not> (\<exists>w \<in> set (webhook_destinations d). destination_of serverID webhookID w)
      then (Inl ErrNotFound, d)
      else case queue_test now eventID deliveryID serverID actorID webhookID d of
        Inl e \<Rightarrow> (Inl e, d)
      | Inr d' \<Rightarrow> (WebhookDeliveryByID serverID webhookID deliveryID d', d'))"

definition RetryWebhookDelivery :: "time \<Rightarrow> uuid \<Rightarrow> uuid \<Rightarrow> uuid \<Rightarrow> db stmt" where
  "RetryWebhookDelivery now serverID webhookID deliveryID d =
     (let p = (\<lambda>r. wd_id r = deliveryID \<and> wd_destination_id r = webhookID \<and>
                   (\<exists>w \<in> set (webhook_destinations d). destination_of serverID webhookID w) \<and>
                   (wd_status r = ''dead'' \<or> wd_status r = ''retrying'')) in
      if affected p (webhook_deliveries d) \<noteq> 1 then Inl ErrConflict
      else update_webhook_deliveries p
        (\<lambda>r. r\<lparr>wd_status := ''queued'', wd_next_attempt_at := Some now, wd_last_error := None\<rparr>) d)"

definition webhook_claimable :: "time \<Rightarrow> webhook_delivery \<Rightarrow> bool" where
  "webhook_claimable now r \<longleftrightarrow>
     ((wd_status r = ''queued'' \<or> wd_status r = ''retrying'') \<and>
      coalesce (wd_next_attempt_at r) (wd_created_at r) \<le> now) \<or>
     (wd_status r = ''delivering'' \<and>
      (case wd_next_attempt_at r of None \<Rightarrow> False | Some t \<Rightarrow> t \<le> now))"

definition webhook_lease :: "time \<Rightarrow> unit \<Rightarrow> webhook_delivery \<Rightarrow> webhook_delivery" where
  "webhook_lease now w r =
     r\<lparr>wd_status := ''delivering'', wd_attempts := wd_attempts r + 1,
       wd_next_attempt_at := Some (now + minutes 5)\<rparr>"

definition webhook_job_of :: "db \<Rightarrow> webhook_delivery \<Rightarrow> error + webhook_job" where
  "webhook_job_of d r =
     (case (find (\<lambda>w. wh_id w = wd_destination_id r) (webhook_destinations d),
            find (\<lambda>e. ac_id e = wd_event_id r) (activity d)) of
        (Some w, Some e) \<Rightarrow> Inr \<lparr> wj_delivery_id = wd_id r, wj_destination_id = wh_id w,
          wj_server_id = wh_server_id w, wj_destination_name = wh_name w, wj_kind = wh_kind w,
          wj_url_encrypted = wh_url_encrypted w,
          wj_signing_secret_encrypted = wh_signing_secret_encrypted w, wj_attempts = wd_attempts r,
          wj_event_id = ac_id e, wj_event_type = ac_event_type e, wj_severity = ac_severity e,
          wj_summary = ac_summary e, wj_data = ac_data e, wj_created_at = ac_created_at e \<rparr>
      | _ \<Rightarrow> Inl ErrNotFound)"

definition ClaimWebhookDelivery :: "time \<Rightarrow> db \<Rightarrow> (error + webhook_job) \<times> db" where
  "ClaimWebhookDelivery now d =
     (case claim_oldest wd_id wd_created_at (webhook_claimable now) (webhook_lease now ())
             (webhook_deliveries d) of
        None \<Rightarrow> (Inl ErrNotFound, d)
      | Some (r, t) \<Rightarrow> (webhook_job_of d r, d\<lparr>webhook_deliveries := t\<rparr>))"

text \<open>The delay of the next attempt, clamped to between a second and an hour.\<close>

definition clamp_retry :: "duration \<Rightarrow> duration" where
  "clamp_retry retryAfter =
     (let r = (if retryAfter < second then second else retryAfter) in if r > hour then hour else r)"

definition FinishWebhookDelivery ::
  "(string \<Rightarrow> string) \<Rightarrow> time \<Rightarrow> uuid \<Rightarrow> int \<Rightarrow> error option \<Rightarrow> duration \<Rightarrow> bool \<Rightarrow> db stmt" where
  "FinishWebhookDelivery sanitize now deliveryID statusCode deliveryErr retryAfter permanent =
     (case deliveryErr of
        None \<Rightarrow> update_webhook_deliveries (\<lambda>r. wd_id r = deliveryID)
          (\<lambda>r. r\<lparr>wd_status := ''succeeded'', wd_response_status := Some statusCode,
                 wd_last_error := None, wd_next_attempt_at := None, wd_delivered_at := Some now\<rparr>)
      | Some e \<Rightarrow>
          (let state = (if permanent then ''dead'' else ''retrying'');
               detail = truncate_to 2000 (sanitize (error_text e)) in
           update_webhook_deliveries (\<lambda>r. wd_id r = deliveryID)
             (\<lambda>r. r\<lparr>wd_status := state,
                    wd_response_status := (if statusCode = 0 then None else Some statusCode),
                    wd_last_error := Some detail,
                    wd_next_attempt_at :=
                      (if state = ''retrying'' then Some (now + interval_of (clamp_retry retryAfter))
                       else None)\<rparr>)))"

section \<open>The worker's step\<close>

text \<open>
  \<open>processOneWebhook\<close> of \<open>internal/worker/worker.go\<close>: the claim, the delivery outside any
  transaction, and the report.  \<open>send\<close> is \<open>webhooks.Client.Send\<close> with its environment.
\<close>

definition open_secret :: "box_fun \<Rightarrow> webhook_job \<Rightarrow> error + string" where
  "open_secret open_box job =
     (case wj_signing_secret_encrypted job of
        None \<Rightarrow> Inr ''''
      | Some s \<Rightarrow> open_box s (secret_context (wj_destination_id job)))"

definition deliver ::
  "box_fun \<Rightarrow> (webhook_job \<Rightarrow> string \<Rightarrow> string \<Rightarrow> send_result) \<Rightarrow> webhook_job \<Rightarrow> send_result" where
  "deliver open_box send job =
     (case open_box (wj_url_encrypted job) (url_context (wj_destination_id job)) of
        Inl e \<Rightarrow> refused e
      | Inr rawURL \<Rightarrow>
          (case open_secret open_box job of
             Inl e \<Rightarrow> refused e
           | Inr signingSecret \<Rightarrow> send job rawURL signingSecret))"

definition processOneWebhook ::
  "(string \<Rightarrow> string) \<Rightarrow> box_fun \<Rightarrow> (webhook_job \<Rightarrow> string \<Rightarrow> string \<Rightarrow> send_result) \<Rightarrow> time \<Rightarrow> time \<Rightarrow> db \<Rightarrow>
   error option \<times> db" where
  "processOneWebhook sanitize open_box send now finished d =
     (case ClaimWebhookDelivery now d of
        (Inl e, d1) \<Rightarrow> (Some e, d1)
      | (Inr job, d1) \<Rightarrow>
          (let r = deliver open_box send job in
           case FinishWebhookDelivery sanitize finished (wj_delivery_id job) (sr_status r)
                  (sr_error r) (sr_retry_after r) (sr_permanent r) d1 of
             Inl e \<Rightarrow> (Some e, d1)
           | Inr d2 \<Rightarrow> (None, d2)))"

section \<open>Contracts\<close>

interpretation webhook_leases: lease_queue wd_id wd_created_at webhook_claimable webhook_lease "minutes 5"
  by unfold_locales (auto simp: webhook_lease_def webhook_claimable_def coalesce_def)

lemma backoff_min: "backoff n = min 900 (2 ^ nat (min (max 1 n) 10)) * second"
  by (auto simp: backoff_def Let_def max_def)

lemma backoff_bounds: "2 * second \<le> backoff n \<and> backoff n \<le> 900 * second"
proof -
  have "(2::int) ^ 1 \<le> 2 ^ nat (min (max 1 n) 10)" by (rule power_increasing) auto
  then show ?thesis unfolding backoff_min by (auto simp: second_def min_def)
qed

lemma backoff_mono: "m \<le> n \<Longrightarrow> backoff m \<le> backoff n"
  unfolding backoff_min
  by (intro mult_right_mono min.mono power_increasing nat_mono max.mono) (auto simp: second_def)

interpretation webhook_backoff: retry_policy backoff "2 * second" "900 * second"
  by unfold_locales (use backoff_bounds backoff_mono in \<open>auto simp: second_def\<close>)

lemma clamp_retry_range: "second \<le> clamp_retry r \<and> clamp_retry r \<le> hour"
  by (auto simp: clamp_retry_def Let_def time_defs)

section \<open>The operations keep any invariant their statements keep\<close>

lemma webhook_lease_upd:
  "claim_oldest wd_id wd_created_at (webhook_claimable now) (webhook_lease now ()) t = Some (r, t') \<Longrightarrow>
   \<exists>p. t' = upd p (webhook_lease now ()) t"
  by (auto dest: claim_oldest_SomeD)

lemma ClaimWebhookDelivery_snd:
  "snd (ClaimWebhookDelivery now d) = d \<or>
   (\<exists>p. update_webhook_deliveries p (webhook_lease now ()) d = Inr (snd (ClaimWebhookDelivery now d)))"
  by (auto simp: ClaimWebhookDelivery_def update_stmt_defs split: option.splits
      dest!: webhook_lease_upd)

lemma CreateWebhook_keeps:
  assumes "\<And>w. preserves i (insert_destination w)"
  shows "preserves_op i (CreateWebhook seal now w s a n k u sec)"
  unfolding CreateWebhook_def Let_def
  by (rule preserves_opI) (auto split: sum.splits dest: preservesD [OF assms])

lemma UpdateWebhook_keeps:
  assumes "\<And>p f1 f2 f3 f4. preserves i (update_destinations p (\<lambda>w. w\<lparr>wh_enabled := f1 w,
      wh_deliver_events := f2 w, wh_deliver_backups := f3 w, wh_event_filters := f4 w, wh_updated_at := now\<rparr>))"
  shows "preserves i (UpdateWebhook now s w e de db fs)"
  unfolding UpdateWebhook_def by (rule preserves_exec) (simp add: assms require_keeps)

lemma DeleteWebhook_keeps:
  assumes "\<And>p. preserves i (delete_destinations p)"
  shows "preserves i (DeleteWebhook s w)"
  unfolding DeleteWebhook_def by (rule preserves_exec) (simp add: assms require_keeps)

lemma QueueWebhookTest_keeps:
  assumes "\<And>r. preserves i (insert_activity r)" and "\<And>r. preserves i (insert_webhook_delivery r)"
    and "i d"
  shows "i (snd (QueueWebhookTest now ev de s a w d))"
proof -
  have second: "preserves i (\<lambda>d. if \<exists>r \<in> set (webhook_deliveries d). wd_destination_id r = w \<and> wd_event_id r = ev
      then Inr d else insert_webhook_delivery x d)" for x
    by (rule preservesI) (auto split: if_splits dest: preservesD [OF assms(2)])
  have "preserves i (queue_test now ev de s a w)"
    unfolding queue_test_def by (rule preserves_exec) (simp add: assms(1) second)
  with assms(3) show ?thesis
    by (auto simp: QueueWebhookTest_def split: sum.splits dest: preservesD)
qed

lemma RetryWebhookDelivery_keeps:
  assumes "\<And>p. preserves i (update_webhook_deliveries p
      (\<lambda>r. r\<lparr>wd_status := ''queued'', wd_next_attempt_at := Some now, wd_last_error := None\<rparr>))"
  shows "preserves i (RetryWebhookDelivery now s w de)"
  unfolding RetryWebhookDelivery_def Let_def
  by (rule preserves_by_sat, intro sat_intros preserves_sat assms)

lemma FinishWebhookDelivery_keeps:
  assumes "\<And>p f. (\<And>r. wd_id (f r) = wd_id r) \<Longrightarrow> (\<And>r. wd_destination_id (f r) = wd_destination_id r) \<Longrightarrow>
      (\<And>r. check_webhook_delivery (f r)) \<Longrightarrow> preserves i (update_webhook_deliveries p f)"
  shows "preserves i (FinishWebhookDelivery sn now de sc err ra perm)"
  unfolding FinishWebhookDelivery_def Let_def by (auto split: option.splits intro!: assms simp: check_webhook_delivery_def)

lemma CreateWebhook_ok: "preserves_op db_ok (CreateWebhook seal now w s a n k u sec)"
  by (rule CreateWebhook_keeps) (rule keeps_ok)

lemma UpdateWebhook_ok: "preserves db_ok (UpdateWebhook now s w e de db fs)"
  by (rule UpdateWebhook_keeps) (auto intro!: keeps_ok simp: check_destination_def)

lemma DeleteWebhook_ok: "preserves db_ok (DeleteWebhook s w)"
  by (rule DeleteWebhook_keeps) (rule keeps_ok)

lemma QueueWebhookTest_ok: "db_ok d \<Longrightarrow> db_ok (snd (QueueWebhookTest now ev de s a w d))"
  by (rule QueueWebhookTest_keeps) (rule keeps_ok)+

lemma RetryWebhookDelivery_ok: "preserves db_ok (RetryWebhookDelivery now s w de)"
  by (rule RetryWebhookDelivery_keeps) (auto intro!: keeps_ok simp: check_webhook_delivery_def)

lemma ClaimWebhookDelivery_ok: "db_ok d \<Longrightarrow> db_ok (snd (ClaimWebhookDelivery now d))"
proof -
  assume ok: "db_ok d"
  have "preserves db_ok (update_webhook_deliveries p (webhook_lease now ()))" for p
    by (rule keeps_ok) (auto simp: webhook_lease_def check_webhook_delivery_def)
  with ok ClaimWebhookDelivery_snd [of now d] show ?thesis by (auto dest: preservesD)
qed

lemma FinishWebhookDelivery_ok: "preserves db_ok (FinishWebhookDelivery sn now de sc err ra perm)"
  by (rule FinishWebhookDelivery_keeps) (rule keeps_ok, simp_all)

lemma processOneWebhook_ok: "db_ok d \<Longrightarrow> db_ok (snd (processOneWebhook sn bx snd' now fin d))"
  unfolding processOneWebhook_def Let_def
  using ClaimWebhookDelivery_ok [of d now]
  by (auto split: prod.splits sum.splits dest: preservesD [OF FinishWebhookDelivery_ok])

lemma webhook_ops_evolve:
  "preserves_op (evolves d0) (CreateWebhook seal now w s a n k u sec)"
  "preserves (evolves d0) (UpdateWebhook now s w e de db fs)"
  "preserves (evolves d0) (DeleteWebhook s w)"
  "preserves (evolves d0) (RetryWebhookDelivery now s w de')"
  "preserves (evolves d0) (FinishWebhookDelivery sn now de' sc err ra perm)"
  by (rule CreateWebhook_keeps UpdateWebhook_keeps DeleteWebhook_keeps RetryWebhookDelivery_keeps
      FinishWebhookDelivery_keeps; rule keeps_evolving)+

lemma QueueWebhookTest_evolves: "evolves d0 d \<Longrightarrow> evolves d0 (snd (QueueWebhookTest now ev de s a w d))"
  by (rule QueueWebhookTest_keeps) (rule keeps_evolving)+

lemma ClaimWebhookDelivery_evolves: "evolves d0 d \<Longrightarrow> evolves d0 (snd (ClaimWebhookDelivery now d))"
  using ClaimWebhookDelivery_snd [of now d] by (auto dest: preservesD [OF other_updates_evolving(9)])

lemma processOneWebhook_evolves:
  "evolves d0 d \<Longrightarrow> evolves d0 (snd (processOneWebhook sn bx snd' now fin d))"
  unfolding processOneWebhook_def Let_def
  using ClaimWebhookDelivery_evolves [of d0 d now]
  by (auto split: prod.splits sum.splits dest: preservesD [OF webhook_ops_evolve(5)])

end
