(* ===== verification/Templates.thy ===== *)
theory Templates
  imports Prelude "HOL-Library.Char_ord" "HOL-Library.List_Lexorder"
begin

text \<open>
  \<open>internal/templates/model.go\<close>: the canonical template document the panel stores for every
  version of a template, with the encoding and decoding the struct tags ask of
  \<open>encoding/json\<close>.  A Go map of strings is the list of its entries.  Decoding reads the keys as
  \<open>json.Marshal\<close> writes them.
\<close>

section \<open>Records\<close>

record template_variable =
  vr_name :: string
  vr_description :: string
  vr_environment :: string
  vr_default_value :: string
  vr_user_viewable :: bool
  vr_user_editable :: bool
  vr_rules :: string
  vr_field_type :: string
  vr_secret :: bool

record network_port =
  np_name :: string
  np_purpose :: string
  np_container_port :: int
  np_protocol :: string
  np_primary :: bool
  np_required :: bool
  np_published :: bool
  np_internal_only :: bool
  np_environment :: string

record rest_basic_auth =
  ba_username :: string
  ba_password_environment :: string

record rest_command_route =
  rr_command :: string
  rr_aliases :: "string list"
  rr_usage :: string
  rr_min_args :: int
  rr_method :: string
  rr_path :: string
  rr_body_template :: string
  rr_headers :: "(string \<times> string) list"
  rr_accepted_status :: "int list"

record rest_command_transport =
  re_method :: string
  re_port :: int
  re_port_environment :: string
  re_path :: string
  re_body_template :: string
  re_headers :: "(string \<times> string) list"
  re_accepted_status :: "int list"
  re_timeout_seconds :: int
  re_basic_auth :: "rest_basic_auth option"
  re_routes :: "rest_command_route list"

record command_transport =
  ct_type :: string
  ct_rcon_port_env :: string
  ct_rcon_password_env :: string
  ct_rest :: "rest_command_transport option"

record backup_defaults =
  bd_include_paths :: "string list"
  bd_exclude_globs :: "string list"
  bd_retention_days :: "int option"

record resource_defaults =
  rd_cpu_limit_millicores :: "int option"
  rd_memory_limit_mb :: "int option"
  rd_disk_alert_limit_mb :: "int option"

record canonical_template =
  cn_api_version :: string
  cn_name :: string
  cn_description :: string
  cn_source_kind :: string
  cn_category :: string
  cn_images :: "(string \<times> string) list"
  cn_default_image :: string
  cn_startup_command :: string
  cn_stop_command :: string
  cn_install_container :: string
  cn_install_entrypoint :: string
  cn_install_script :: string
  cn_variables :: "template_variable list"
  cn_network_ports :: "network_port list"
  cn_command_transport :: command_transport
  cn_backup_defaults :: backup_defaults
  cn_resource_defaults :: resource_defaults
  cn_file_denylist :: "string list"
  cn_features :: "json option"

section \<open>Encoding\<close>

text \<open>An object from its fields in order; \<open>omitempty\<close> fields are dropped when empty.\<close>

definition str_field :: "string \<Rightarrow> string \<Rightarrow> (string \<times> json) list" where
  "str_field k s = [(k, JStr s)]"

definition opt_str :: "string \<Rightarrow> string \<Rightarrow> (string \<times> json) list" where
  "opt_str k s = (if s = [] then [] else [(k, JStr s)])"

definition opt_int :: "string \<Rightarrow> int \<Rightarrow> (string \<times> json) list" where
  "opt_int k n = (if n = 0 then [] else [(k, JNum n)])"

definition opt_ptr :: "string \<Rightarrow> int option \<Rightarrow> (string \<times> json) list" where
  "opt_ptr k x = (case x of None \<Rightarrow> [] | Some n \<Rightarrow> [(k, JNum n)])"

definition opt_list :: "('a \<Rightarrow> json) \<Rightarrow> string \<Rightarrow> 'a list \<Rightarrow> (string \<times> json) list" where
  "opt_list f k xs = (if xs = [] then [] else [(k, JArr (map f xs))])"

text \<open>\<open>json.Marshal\<close> writes the entries of a map in the order of their keys.\<close>

definition encode_map :: "(string \<times> string) list \<Rightarrow> json" where
  "encode_map m = JObj (map (\<lambda>(k, v). (k, JStr v)) (sort_key fst m))"

definition opt_map :: "string \<Rightarrow> (string \<times> string) list \<Rightarrow> (string \<times> json) list" where
  "opt_map k m = (if m = [] then [] else [(k, encode_map m)])"

definition encode_variable :: "template_variable \<Rightarrow> json" where
  "encode_variable v = JObj (str_field ''name'' (vr_name v) @ opt_str ''description'' (vr_description v) @
     str_field ''environment'' (vr_environment v) @ str_field ''default_value'' (vr_default_value v) @
     [(''user_viewable'', JBool (vr_user_viewable v)), (''user_editable'', JBool (vr_user_editable v))] @
     opt_str ''rules'' (vr_rules v) @ opt_str ''field_type'' (vr_field_type v) @
     [(''secret'', JBool (vr_secret v))])"

definition encode_network_port :: "network_port \<Rightarrow> json" where
  "encode_network_port p = JObj ([(''name'', JStr (np_name p)), (''purpose'', JStr (np_purpose p)),
     (''container_port'', JNum (np_container_port p)), (''protocol'', JStr (np_protocol p)),
     (''primary'', JBool (np_primary p)), (''required'', JBool (np_required p)),
     (''published'', JBool (np_published p)), (''internal_only'', JBool (np_internal_only p))] @
     opt_str ''environment'' (np_environment p))"

definition encode_basic_auth :: "rest_basic_auth \<Rightarrow> json" where
  "encode_basic_auth a = JObj [(''username'', JStr (ba_username a)),
     (''password_environment'', JStr (ba_password_environment a))]"

definition encode_route :: "rest_command_route \<Rightarrow> json" where
  "encode_route r = JObj (str_field ''command'' (rr_command r) @ opt_list JStr ''aliases'' (rr_aliases r) @
     opt_str ''usage'' (rr_usage r) @ opt_int ''min_args'' (rr_min_args r) @
     str_field ''method'' (rr_method r) @ str_field ''path'' (rr_path r) @
     opt_str ''body_template'' (rr_body_template r) @ opt_map ''headers'' (rr_headers r) @
     opt_list JNum ''accepted_status'' (rr_accepted_status r))"

definition encode_rest :: "rest_command_transport \<Rightarrow> json" where
  "encode_rest t = JObj (opt_str ''method'' (re_method t) @ [(''port'', JNum (re_port t))] @
     opt_str ''port_environment'' (re_port_environment t) @ opt_str ''path'' (re_path t) @
     opt_str ''body_template'' (re_body_template t) @ opt_map ''headers'' (re_headers t) @
     opt_list JNum ''accepted_status'' (re_accepted_status t) @
     opt_int ''timeout_seconds'' (re_timeout_seconds t) @
     (case re_basic_auth t of None \<Rightarrow> [] | Some a \<Rightarrow> [(''basic_auth'', encode_basic_auth a)]) @
     opt_list encode_route ''routes'' (re_routes t))"

definition encode_command_transport :: "command_transport \<Rightarrow> json" where
  "encode_command_transport c = JObj (str_field ''type'' (ct_type c) @
     opt_str ''rcon_port_env'' (ct_rcon_port_env c) @
     opt_str ''rcon_password_env'' (ct_rcon_password_env c) @
     (case ct_rest c of None \<Rightarrow> [] | Some t \<Rightarrow> [(''rest'', encode_rest t)]))"

definition encode_backup_defaults :: "backup_defaults \<Rightarrow> json" where
  "encode_backup_defaults b = JObj (opt_list JStr ''include_paths'' (bd_include_paths b) @
     opt_list JStr ''exclude_globs'' (bd_exclude_globs b) @ opt_ptr ''retention_days'' (bd_retention_days b))"

definition encode_resource_defaults :: "resource_defaults \<Rightarrow> json" where
  "encode_resource_defaults r = JObj (opt_ptr ''cpu_limit_millicores'' (rd_cpu_limit_millicores r) @
     opt_ptr ''memory_limit_mb'' (rd_memory_limit_mb r) @
     opt_ptr ''disk_alert_limit_mb'' (rd_disk_alert_limit_mb r))"

definition encode_canonical :: "canonical_template \<Rightarrow> json" where
  "encode_canonical t = JObj (str_field ''api_version'' (cn_api_version t) @
     str_field ''name'' (cn_name t) @ opt_str ''description'' (cn_description t) @
     str_field ''source_kind'' (cn_source_kind t) @ str_field ''category'' (cn_category t) @
     [(''images'', encode_map (cn_images t))] @ str_field ''default_image'' (cn_default_image t) @
     str_field ''startup_command'' (cn_startup_command t) @ opt_str ''stop_command'' (cn_stop_command t) @
     opt_str ''install_container'' (cn_install_container t) @
     opt_str ''install_entrypoint'' (cn_install_entrypoint t) @
     opt_str ''install_script'' (cn_install_script t) @
     [(''variables'', JArr (map encode_variable (cn_variables t))),
      (''network_ports'', JArr (map encode_network_port (cn_network_ports t))),
      (''command_transport'', encode_command_transport (cn_command_transport t)),
      (''backup_defaults'', encode_backup_defaults (cn_backup_defaults t)),
      (''resource_defaults'', encode_resource_defaults (cn_resource_defaults t))] @
     opt_list JStr ''file_denylist'' (cn_file_denylist t) @
     (case cn_features t of None \<Rightarrow> [] | Some j \<Rightarrow> [(''features'', j)]))"

section \<open>Decoding\<close>

text \<open>\<open>json.Unmarshal\<close>: an absent or null field is the zero value, a value of another kind an error.\<close>

definition and_then :: "error + 'a \<Rightarrow> ('a \<Rightarrow> error + 'b) \<Rightarrow> error + 'b" where
  "and_then r f = (case r of Inl e \<Rightarrow> Inl e | Inr x \<Rightarrow> f x)"

lemma and_then_Inr [simp]: "and_then (Inr x) f = f x"
  by (simp add: and_then_def)

lemma and_then_Inl [simp]: "and_then (Inl e) f = Inl e"
  by (simp add: and_then_def)

lemma and_then_InrD: "and_then r f = Inr y \<Longrightarrow> \<exists>x. r = Inr x \<and> f x = Inr y"
  by (auto simp: and_then_def split: sum.splits)

fun decode_all :: "(json \<Rightarrow> error + 'a) \<Rightarrow> json list \<Rightarrow> error + 'a list" where
  "decode_all f [] = Inr []"
| "decode_all f (j # js) = and_then (f j) (\<lambda>x. and_then (decode_all f js) (\<lambda>xs. Inr (x # xs)))"

definition decode_list :: "(json \<Rightarrow> error + 'a) \<Rightarrow> json \<Rightarrow> error + 'a list" where
  "decode_list f j = (case j of JNull \<Rightarrow> Inr [] | JArr js \<Rightarrow> decode_all f js | _ \<Rightarrow> Inl decode_error)"

definition decode_text :: "json \<Rightarrow> error + string" where
  "decode_text j = (case j of JNull \<Rightarrow> Inr [] | JStr s \<Rightarrow> Inr s | _ \<Rightarrow> Inl decode_error)"

definition decode_number :: "json \<Rightarrow> error + int" where
  "decode_number j = (case j of JNull \<Rightarrow> Inr 0 | JNum n \<Rightarrow> Inr n | _ \<Rightarrow> Inl decode_error)"

fun decode_entries :: "(string \<times> json) list \<Rightarrow> error + (string \<times> string) list" where
  "decode_entries [] = Inr []"
| "decode_entries ((k, j) # kvs) =
     and_then (decode_text j) (\<lambda>s. and_then (decode_entries kvs) (\<lambda>m. Inr ((k, s) # m)))"

definition decode_map :: "json \<Rightarrow> error + (string \<times> string) list" where
  "decode_map j = (case j of JNull \<Rightarrow> Inr [] | JObj kvs \<Rightarrow> decode_entries kvs | _ \<Rightarrow> Inl decode_error)"

text \<open>The value of a field, null when it is absent; and the error of a document that is no object.\<close>

definition field_value :: "json \<Rightarrow> string \<Rightarrow> json" where
  "field_value j k = (case json_field j k of None \<Rightarrow> JNull | Some v \<Rightarrow> v)"

definition is_object :: "json \<Rightarrow> bool" where
  "is_object j \<longleftrightarrow> (case j of JObj _ \<Rightarrow> True | JNull \<Rightarrow> True | _ \<Rightarrow> False)"

definition decode_struct :: "json \<Rightarrow> error + 'a \<Rightarrow> error + 'a" where
  "decode_struct j r = (if is_object j then r else Inl decode_error)"

text \<open>A pointer field: null leaves it nil.\<close>

definition decode_pointer :: "(json \<Rightarrow> error + 'a) \<Rightarrow> json \<Rightarrow> error + 'a option" where
  "decode_pointer f j = (if j = JNull then Inr None else and_then (f j) (\<lambda>x. Inr (Some x)))"

definition decode_variable :: "json \<Rightarrow> error + template_variable" where
  "decode_variable j =
     and_then (json_string j ''name'') (\<lambda>n. and_then (json_string j ''description'') (\<lambda>de.
     and_then (json_string j ''environment'') (\<lambda>env. and_then (json_string j ''default_value'') (\<lambda>dv.
     and_then (json_bool j ''user_viewable'') (\<lambda>uv. and_then (json_bool j ''user_editable'') (\<lambda>ue.
     and_then (json_string j ''rules'') (\<lambda>ru. and_then (json_string j ''field_type'') (\<lambda>ft.
     and_then (json_bool j ''secret'') (\<lambda>se.
       Inr \<lparr> vr_name = n, vr_description = de, vr_environment = env, vr_default_value = dv,
             vr_user_viewable = uv, vr_user_editable = ue, vr_rules = ru, vr_field_type = ft,
             vr_secret = se \<rparr>)))))))))"

definition decode_network_port :: "json \<Rightarrow> error + network_port" where
  "decode_network_port j =
     and_then (json_string j ''name'') (\<lambda>n. and_then (json_string j ''purpose'') (\<lambda>pu.
     and_then (json_int j ''container_port'') (\<lambda>cp. and_then (json_string j ''protocol'') (\<lambda>pr.
     and_then (json_bool j ''primary'') (\<lambda>pm. and_then (json_bool j ''required'') (\<lambda>rq.
     and_then (json_bool j ''published'') (\<lambda>pb. and_then (json_bool j ''internal_only'') (\<lambda>io.
     and_then (json_string j ''environment'') (\<lambda>env.
       Inr \<lparr> np_name = n, np_purpose = pu, np_container_port = cp, np_protocol = pr, np_primary = pm,
             np_required = rq, np_published = pb, np_internal_only = io, np_environment = env \<rparr>)))))))))"

definition decode_basic_auth :: "json \<Rightarrow> error + rest_basic_auth" where
  "decode_basic_auth j =
     and_then (json_string j ''username'') (\<lambda>u. and_then (json_string j ''password_environment'') (\<lambda>p.
       Inr \<lparr> ba_username = u, ba_password_environment = p \<rparr>))"

definition decode_route :: "json \<Rightarrow> error + rest_command_route" where
  "decode_route j =
     and_then (json_string j ''command'') (\<lambda>c.
     and_then (decode_list decode_text (field_value j ''aliases'')) (\<lambda>al.
     and_then (json_string j ''usage'') (\<lambda>us. and_then (json_int j ''min_args'') (\<lambda>mi.
     and_then (json_string j ''method'') (\<lambda>me. and_then (json_string j ''path'') (\<lambda>pa.
     and_then (json_string j ''body_template'') (\<lambda>bo.
     and_then (decode_map (field_value j ''headers'')) (\<lambda>he.
     and_then (decode_list decode_number (field_value j ''accepted_status'')) (\<lambda>st.
       Inr \<lparr> rr_command = c, rr_aliases = al, rr_usage = us, rr_min_args = mi, rr_method = me,
             rr_path = pa, rr_body_template = bo, rr_headers = he, rr_accepted_status = st \<rparr>)))))))))"

definition decode_rest :: "json \<Rightarrow> error + rest_command_transport" where
  "decode_rest j =
     and_then (json_string j ''method'') (\<lambda>me. and_then (json_int j ''port'') (\<lambda>po.
     and_then (json_string j ''port_environment'') (\<lambda>pe. and_then (json_string j ''path'') (\<lambda>pa.
     and_then (json_string j ''body_template'') (\<lambda>bo.
     and_then (decode_map (field_value j ''headers'')) (\<lambda>he.
     and_then (decode_list decode_number (field_value j ''accepted_status'')) (\<lambda>st.
     and_then (json_int j ''timeout_seconds'') (\<lambda>ti.
     and_then (decode_pointer decode_basic_auth (field_value j ''basic_auth'')) (\<lambda>ba.
     and_then (decode_list decode_route (field_value j ''routes'')) (\<lambda>ro.
       Inr \<lparr> re_method = me, re_port = po, re_port_environment = pe, re_path = pa,
             re_body_template = bo, re_headers = he, re_accepted_status = st,
             re_timeout_seconds = ti, re_basic_auth = ba, re_routes = ro \<rparr>))))))))))"

definition decode_command_transport :: "json \<Rightarrow> error + command_transport" where
  "decode_command_transport j =
     and_then (json_string j ''type'') (\<lambda>ty. and_then (json_string j ''rcon_port_env'') (\<lambda>rp.
     and_then (json_string j ''rcon_password_env'') (\<lambda>rw.
     and_then (decode_pointer decode_rest (field_value j ''rest'')) (\<lambda>re.
       Inr \<lparr> ct_type = ty, ct_rcon_port_env = rp, ct_rcon_password_env = rw, ct_rest = re \<rparr>))))"

definition decode_backup_defaults :: "json \<Rightarrow> error + backup_defaults" where
  "decode_backup_defaults j = decode_struct j
     (and_then (decode_list decode_text (field_value j ''include_paths'')) (\<lambda>inc.
     and_then (decode_list decode_text (field_value j ''exclude_globs'')) (\<lambda>ex.
     and_then (json_int_opt j ''retention_days'') (\<lambda>r.
       Inr \<lparr> bd_include_paths = inc, bd_exclude_globs = ex, bd_retention_days = r \<rparr>))))"

definition decode_resource_defaults :: "json \<Rightarrow> error + resource_defaults" where
  "decode_resource_defaults j =
     and_then (json_int_opt j ''cpu_limit_millicores'') (\<lambda>c.
     and_then (json_int_opt j ''memory_limit_mb'') (\<lambda>m.
     and_then (json_int_opt j ''disk_alert_limit_mb'') (\<lambda>d.
       Inr \<lparr> rd_cpu_limit_millicores = c, rd_memory_limit_mb = m, rd_disk_alert_limit_mb = d \<rparr>)))"

definition decode_canonical :: "json \<Rightarrow> error + canonical_template" where
  "decode_canonical j =
     and_then (json_string j ''api_version'') (\<lambda>av. and_then (json_string j ''name'') (\<lambda>n.
     and_then (json_string j ''description'') (\<lambda>de. and_then (json_string j ''source_kind'') (\<lambda>sk.
     and_then (json_string j ''category'') (\<lambda>ca. and_then (decode_map (field_value j ''images'')) (\<lambda>im.
     and_then (json_string j ''default_image'') (\<lambda>di. and_then (json_string j ''startup_command'') (\<lambda>sc.
     and_then (json_string j ''stop_command'') (\<lambda>st. and_then (json_string j ''install_container'') (\<lambda>ic.
     and_then (json_string j ''install_entrypoint'') (\<lambda>ie. and_then (json_string j ''install_script'') (\<lambda>is.
     and_then (decode_list decode_variable (field_value j ''variables'')) (\<lambda>va.
     and_then (decode_list decode_network_port (field_value j ''network_ports'')) (\<lambda>np.
     and_then (decode_command_transport (field_value j ''command_transport'')) (\<lambda>ct.
     and_then (decode_backup_defaults (field_value j ''backup_defaults'')) (\<lambda>bd.
     and_then (decode_resource_defaults (field_value j ''resource_defaults'')) (\<lambda>rd.
     and_then (decode_list decode_text (field_value j ''file_denylist'')) (\<lambda>fd.
       Inr \<lparr> cn_api_version = av, cn_name = n, cn_description = de, cn_source_kind = sk,
             cn_category = ca, cn_images = im, cn_default_image = di, cn_startup_command = sc,
             cn_stop_command = st, cn_install_container = ic, cn_install_entrypoint = ie,
             cn_install_script = is, cn_variables = va, cn_network_ports = np,
             cn_command_transport = ct, cn_backup_defaults = bd, cn_resource_defaults = rd,
             cn_file_denylist = fd, cn_features = json_field j ''features'' \<rparr>))))))))))))))))))"

section \<open>Decoding what was encoded\<close>

text \<open>The fields of an encoded object, one at a time.\<close>

lemma map_of_fields:
  "map_of (str_field k s @ r) k' = (if k = k' then Some (JStr s) else map_of r k')"
  "map_of (opt_str k s @ r) k' = (if k = k' \<and> s \<noteq> [] then Some (JStr s) else map_of r k')"
  "map_of (opt_int k n @ r) k' = (if k = k' \<and> n \<noteq> 0 then Some (JNum n) else map_of r k')"
  "map_of (opt_ptr k x @ r) k' = (if k = k' \<and> x \<noteq> None then Some (JNum (the x)) else map_of r k')"
  "map_of (opt_list f k xs @ r) k' = (if k = k' \<and> xs \<noteq> [] then Some (JArr (map f xs)) else map_of r k')"
  "map_of (opt_map k m @ r) k' = (if k = k' \<and> m \<noteq> [] then Some (encode_map m) else map_of r k')"
  by (auto simp: str_field_def opt_str_def opt_int_def opt_ptr_def opt_list_def opt_map_def split: option.splits)

lemmas map_of_last = map_of_fields [where r = "[]", simplified]

lemma object_fields:
  "json_string (JObj kvs) k = (case map_of kvs k of None \<Rightarrow> Inr [] | Some v \<Rightarrow> decode_text v)"
  "json_int (JObj kvs) k = (case map_of kvs k of None \<Rightarrow> Inr 0 | Some v \<Rightarrow> decode_number v)"
  "json_int_opt (JObj kvs) k =
     (case map_of kvs k of None \<Rightarrow> Inr None | Some v \<Rightarrow> decode_pointer decode_number v)"
  "json_field (JObj kvs) k = map_of kvs k"
  by (auto simp: json_string_def json_int_def json_int_opt_def decode_text_def decode_number_def
      decode_pointer_def split: option.splits json.splits)

lemma decoded_values [simp]:
  "decode_text (JStr s) = Inr s" "decode_number (JNum n) = Inr n"
  "decode_pointer g JNull = Inr None"
  "(case (if s \<noteq> [] then Some (JStr s) else None) of None \<Rightarrow> Inr [] | Some v \<Rightarrow> decode_text v) = Inr s"
  "(case (if n \<noteq> 0 then Some (JNum n) else None) of None \<Rightarrow> Inr 0 | Some v \<Rightarrow> decode_number v) = Inr n"
  "(case (if x \<noteq> None then Some (JNum (the x)) else None) of
      None \<Rightarrow> Inr None | Some v \<Rightarrow> decode_pointer decode_number v) = Inr x"
  by (simp_all add: decode_text_def decode_number_def decode_pointer_def)

lemma decode_all_map:
  "(\<And>x. x \<in> set xs \<Longrightarrow> f (g x) = Inr x) \<Longrightarrow> decode_all f (map g xs) = Inr xs"
  by (induction xs) simp_all

lemma decode_list_map:
  "(\<And>x. x \<in> set xs \<Longrightarrow> f (g x) = Inr x) \<Longrightarrow> decode_list f (JArr (map g xs)) = Inr xs"
  by (simp add: decode_list_def decode_all_map)

definition map_sorted :: "(string \<times> string) list \<Rightarrow> bool" where
  "map_sorted m \<longleftrightarrow> sorted (map fst m)"

lemma decode_entries_map: "decode_entries (map (\<lambda>(k, v). (k, JStr v)) m) = Inr m"
  by (induction m) auto

lemma decode_encode_map [simp]: "map_sorted m \<Longrightarrow> decode_map (encode_map m) = Inr m"
  by (simp add: map_sorted_def encode_map_def decode_map_def decode_entries_map sort_key_id_if_sorted)

lemma decode_map_opt [simp]:
  "map_sorted m \<Longrightarrow>
   decode_map (case (if m \<noteq> [] then Some (encode_map m) else None) of None \<Rightarrow> JNull | Some v \<Rightarrow> v) = Inr m"
  using decode_encode_map [of m] by (simp add: decode_map_def)

lemma decode_null [simp]: "decode_list f JNull = Inr []" "decode_map JNull = Inr []"
  by (simp_all add: decode_list_def decode_map_def)

lemmas decode_simps = map_of_fields map_of_last object_fields field_value_def json_bool_def
  decode_list_map

lemma decode_encode_variable [simp]: "decode_variable (encode_variable v) = Inr v"
  by (simp add: encode_variable_def decode_variable_def decode_simps del: map_of_append)

lemma decode_encode_network_port [simp]: "decode_network_port (encode_network_port p) = Inr p"
  by (simp add: encode_network_port_def decode_network_port_def decode_simps del: map_of_append)

lemma decode_encode_basic_auth [simp]: "decode_basic_auth (encode_basic_auth a) = Inr a"
  by (simp add: encode_basic_auth_def decode_basic_auth_def decode_simps del: map_of_append)

lemma decode_encode_route [simp]:
  "map_sorted (rr_headers r) \<Longrightarrow> decode_route (encode_route r) = Inr r"
  by (simp add: encode_route_def decode_route_def decode_simps del: map_of_append)

lemma encoded_objects [simp]:
  "encode_basic_auth a \<noteq> JNull" "encode_rest t \<noteq> JNull" "encode_route r \<noteq> JNull"
  by (simp_all add: encode_basic_auth_def encode_rest_def encode_route_def)

definition rest_maps_sorted :: "rest_command_transport \<Rightarrow> bool" where
  "rest_maps_sorted t \<longleftrightarrow> map_sorted (re_headers t) \<and> (\<forall>r \<in> set (re_routes t). map_sorted (rr_headers r))"

lemma decode_encode_rest [simp]: "rest_maps_sorted t \<Longrightarrow> decode_rest (encode_rest t) = Inr t"
  by (cases "re_basic_auth t")
    (simp_all add: rest_maps_sorted_def encode_rest_def decode_rest_def decode_simps decode_pointer_def del: map_of_append)

text \<open>A Go map is represented by its entries in the order of the keys.\<close>

definition maps_sorted :: "canonical_template \<Rightarrow> bool" where
  "maps_sorted t \<longleftrightarrow> map_sorted (cn_images t) \<and>
     (case ct_rest (cn_command_transport t) of None \<Rightarrow> True | Some r \<Rightarrow> rest_maps_sorted r)"

lemma decode_encode_command_transport [simp]:
  "(case ct_rest c of None \<Rightarrow> True | Some r \<Rightarrow> rest_maps_sorted r) \<Longrightarrow>
   decode_command_transport (encode_command_transport c) = Inr c"
  by (cases "ct_rest c")
    (simp_all add: encode_command_transport_def decode_command_transport_def decode_simps decode_pointer_def del: map_of_append)

lemma decode_encode_backup_defaults [simp]: "decode_backup_defaults (encode_backup_defaults b) = Inr b"
  by (cases "bd_retention_days b")
    (simp_all add: encode_backup_defaults_def decode_backup_defaults_def decode_struct_def is_object_def
      decode_simps decode_pointer_def del: map_of_append)

lemma decode_encode_resource_defaults [simp]: "decode_resource_defaults (encode_resource_defaults r) = Inr r"
  by (cases "rd_cpu_limit_millicores r"; cases "rd_memory_limit_mb r"; cases "rd_disk_alert_limit_mb r")
    (simp_all add: encode_resource_defaults_def decode_resource_defaults_def decode_simps
      decode_pointer_def del: map_of_append)

lemma decode_encode_canonical:
  assumes "maps_sorted t"
  shows "decode_canonical (encode_canonical t) = Inr t"
proof (cases "cn_features t")
  case None
  with assms show ?thesis
    by (simp add: maps_sorted_def encode_canonical_def decode_canonical_def decode_simps
      del: map_of_append)
next
  case (Some j)
  with assms show ?thesis
    by (simp add: maps_sorted_def encode_canonical_def decode_canonical_def decode_simps
      del: map_of_append)
qed

section \<open>The text of a document\<close>

text \<open>
  \<open>json.Marshal\<close> of a value: strings with the escapes of its HTML-safe mode; other bytes, the
  UTF-8 sequences among them, are copied.
\<close>

definition hex_digit :: "nat \<Rightarrow> char" where
  "hex_digit n = (if n < 10 then char_of (48 + n) else char_of (87 + n))"

definition escape_u :: "nat \<Rightarrow> string" where
  "escape_u n = [CHR 0x5C] @ ''u00'' @ [hex_digit (n div 16), hex_digit (n mod 16)]"

definition escape_char :: "char \<Rightarrow> string" where
  "escape_char c =
     (if c = CHR 0x22 \<or> c = CHR 0x5C then [CHR 0x5C, c]
      else if c = CHR 0x08 then [CHR 0x5C, CHR ''b''] else if c = CHR 0x0C then [CHR 0x5C, CHR ''f'']
      else if c = CHR 0x0A then [CHR 0x5C, CHR ''n''] else if c = CHR 0x0D then [CHR 0x5C, CHR ''r'']
      else if c = CHR 0x09 then [CHR 0x5C, CHR ''t'']
      else if (of_char c :: nat) < 32 \<or> c \<in> {CHR ''<'', CHR ''>'', CHR ''&''} then escape_u (of_char c)
      else [c])"

text \<open>The line separators U+2028 and U+2029 are escaped as well.\<close>

fun escape_text :: "string \<Rightarrow> string" where
  "escape_text (a # b # c # s) =
     (if a = CHR 0xE2 \<and> b = CHR 0x80 \<and> (c = CHR 0xA8 \<or> c = CHR 0xA9)
      then [CHR 0x5C] @ ''u202'' @ [if c = CHR 0xA8 then CHR ''8'' else CHR ''9''] @ escape_text s
      else escape_char a @ escape_text (b # c # s))"
| "escape_text (a # s) = escape_char a @ escape_text s"
| "escape_text [] = []"

definition json_quote :: "string \<Rightarrow> string" where
  "json_quote s = [CHR 0x22] @ escape_text s @ [CHR 0x22]"

fun separated :: "string list \<Rightarrow> string" where
  "separated [] = []"
| "separated [x] = x"
| "separated (x # y # xs) = x @ '','' @ separated (y # xs)"

fun marshal :: "json \<Rightarrow> string" where
  "marshal JNull = ''null''"
| "marshal (JBool b) = (if b then ''true'' else ''false'')"
| "marshal (JNum n) = itoa n"
| "marshal (JStr s) = json_quote s"
| "marshal (JArr js) = ''['' @ separated (map marshal js) @ '']''"
| "marshal (JObj kvs) =
     ''{'' @ separated (map (\<lambda>(k, j). json_quote k @ '':'' @ marshal j) kvs) @ ''}''"

end
