(* ===== verification/Provisioning.thy ===== *)
theory Provisioning
  imports Servers
begin

text \<open>
  \<open>CreateServer\<close> of \<open>internal/store/servers.go\<close>: the request to provision a server, with the
  allocation of its game ports.  \<open>seal\<close> stands for \<open>secure.Box.Seal\<close>, applied to a plaintext and
  its context; it is \<^const>\<open>None\<close> when no box is configured.
\<close>

record port_request =
  pq_id :: uuid
  pq_bind_address :: string
  pq_host_port :: int
  pq_container_port :: int
  pq_protocol :: string
  pq_purpose :: string
  pq_environment :: string
  pq_is_primary :: bool

record stored_variable =
  vs_name :: string
  vs_value_text :: "string option"
  vs_value_encrypted :: "string option"
  vs_is_secret :: bool

record create_server_params =
  cs_template_version_id :: uuid
  cs_name :: string
  cs_description :: string
  cs_image_reference :: string
  cs_ports :: "port_request list"
  cs_resources :: server_resources
  cs_variables :: "stored_variable list"
  cs_created_by :: uuid
  cs_start :: bool
  cs_game_port_start :: int
  cs_game_port_end :: int

record create_server_result =
  cr_server_id :: uuid
  cr_operation_id :: uuid
  cr_host_port :: int
  cr_ports :: "port_request list"

section \<open>Port allocation\<close>

definition port_in_use :: "string \<Rightarrow> int \<Rightarrow> db \<Rightarrow> bool" where
  "port_in_use protocol port d \<longleftrightarrow>
     (\<exists>r \<in> set (server_ports d). po_host_port r = port \<and> po_protocol r = protocol)"

definition usedByProtocol :: "string \<Rightarrow> port_request list \<Rightarrow> int list" where
  "usedByProtocol protocol allocated =
     map pq_host_port (filter (\<lambda>p. pq_protocol p = protocol) allocated)"

text \<open>
  The allocation query: the candidates of the range that no server and no earlier port of the
  request uses, the preferred one first.  For a protocol that is neither tcp nor udp the map has
  no list until one is appended, and the comparison with a NULL array selects nothing.
\<close>

definition allocate_host_port ::
  "int \<Rightarrow> int \<Rightarrow> port_request list \<Rightarrow> port_request \<Rightarrow> db \<Rightarrow> int option" where
  "allocate_host_port low high allocated requested d =
     (let preferred = (if pq_container_port requested < low \<or> pq_container_port requested > high
                       then -1 else pq_container_port requested);
          used = usedByProtocol (pq_protocol requested) allocated;
          candidates = filter (\<lambda>c. \<not> port_in_use (pq_protocol requested) c d \<and> c \<notin> set used)
                         [low..high] in
      if pq_protocol requested \<noteq> ''tcp'' \<and> pq_protocol requested \<noteq> ''udp'' then None
      else case order_by (\<lambda>c. if c = preferred then 0 else 1) candidates of
        [] \<Rightarrow> None | c # _ \<Rightarrow> Some c)"

fun allocate_ports ::
  "int \<Rightarrow> int \<Rightarrow> db \<Rightarrow> port_request list \<Rightarrow> port_request list \<Rightarrow> error + port_request list" where
  "allocate_ports low high d allocated [] = Inr allocated"
| "allocate_ports low high d allocated (requested # rest) =
     (case allocate_host_port low high allocated requested d of
        None \<Rightarrow> Inl (Wrap (''no available '' @ pq_protocol requested @ '' game ports: '') ErrConflict '''')
      | Some hostPort \<Rightarrow>
          allocate_ports low high d
            (allocated @ [requested\<lparr>pq_host_port := hostPort, pq_bind_address := ''0.0.0.0''\<rparr>]) rest)"

section \<open>The transaction\<close>

definition port_row :: "uuid \<Rightarrow> uuid \<Rightarrow> port_request \<Rightarrow> server_port" where
  "port_row i serverID port = \<lparr> po_id = i, po_server_id = serverID, po_bind_address = ''0.0.0.0'',
     po_host_port = pq_host_port port, po_container_port = pq_container_port port,
     po_protocol = pq_protocol port, po_purpose = nullif_empty (pq_purpose port),
     po_environment = nullif_empty (pq_environment port), po_is_primary = pq_is_primary port \<rparr>"

definition store_variable ::
  "(string \<Rightarrow> string \<Rightarrow> error + string) option \<Rightarrow> uuid \<Rightarrow> stored_variable \<Rightarrow> db stmt" where
  "store_variable seal serverID v d =
     (let insert = (\<lambda>text encrypted. labelled (''insert server variable '' @ vs_name v @ '': '')
            (insert_variable \<lparr> va_server_id = serverID, va_name = vs_name v,
               va_value_text = text, va_value_encrypted = encrypted, va_is_secret = vs_is_secret v \<rparr>) d) in
      if vs_is_secret v then
        (case (seal, vs_value_text v) of
           (Some box, Some plain) \<Rightarrow>
             (case box plain (serverID @ '':'' @ vs_name v) of
                Inl e \<Rightarrow> Inl (Wrap (''encrypt server variable '' @ vs_name v @ '': '') e '''')
              | Inr encrypted \<Rightarrow> insert None (Some encrypted))
         | _ \<Rightarrow> Inl (Message ''secret variable encryption is not configured''))
      else insert (vs_value_text v) (vs_value_encrypted v))"

definition new_server :: "time \<Rightarrow> uuid \<Rightarrow> uuid \<Rightarrow> create_server_params \<Rightarrow> server" where
  "new_server now serverID installationID input = \<lparr> sv_id = serverID,
     sv_installation_id = installationID, sv_template_version_id = cs_template_version_id input,
     sv_name = cs_name input, sv_description = cs_description input, sv_status = ''installing'',
     sv_desired_state = (if cs_start input then ''running'' else ''stopped''), sv_container_id = None,
     sv_image_reference = cs_image_reference input, sv_startup_override = None, sv_stop_reason = None,
     sv_recovery_attempts = 0,
     sv_recovery_window_started_at = None, sv_recovery_not_before = None,
     sv_missing_container_observations = 0, sv_externally_deleted_at = None,
     sv_created_by = Some (cs_created_by input), sv_created_at = now, sv_updated_at = now,
     sv_deleted_at = None, sv_version = 1 \<rparr>"

definition new_runtime :: "time \<Rightarrow> uuid \<Rightarrow> server_runtime" where
  "new_runtime now serverID = \<lparr> rt_server_id = serverID, rt_observed_state = ''creating'',
     rt_health = ''unknown'', rt_cpu_percent = None, rt_memory_bytes = None,
     rt_memory_limit_bytes = None, rt_network_rx_bytes = None, rt_network_tx_bytes = None,
     rt_block_read_bytes = None, rt_block_write_bytes = None, rt_started_at = None,
     rt_exit_code = None, rt_last_error = None, rt_observed_at = now \<rparr>"

definition template_available :: "uuid \<Rightarrow> db \<Rightarrow> bool" where
  "template_available versionID d \<longleftrightarrow>
     (\<exists>v \<in> set (template_versions d). tv_id v = versionID \<and>
        (\<exists>t \<in> set (templates d). te_id t = tv_template_id v \<and> te_archived_at t = None))"

text \<open>The host port reported is the one of the last port marked primary, 0 when there is none.\<close>

definition primary_host_port :: "port_request list \<Rightarrow> int" where
  "primary_host_port ports =
     (case filter pq_is_primary ports of [] \<Rightarrow> 0 | p # ps \<Rightarrow> pq_host_port (last (p # ps)))"

definition provision_payload :: "uuid \<Rightarrow> uuid \<Rightarrow> json" where
  "provision_payload serverID operationID =
     JObj [(''server_id'', JStr serverID), (''operation_id'', JStr operationID)]"

definition create_server_body ::
  "(string \<Rightarrow> string \<Rightarrow> error + string) option \<Rightarrow> time \<Rightarrow> uuid \<Rightarrow> uuid \<Rightarrow> string \<Rightarrow> uuid \<Rightarrow> uuid \<Rightarrow>
   uuid \<Rightarrow> create_server_params \<Rightarrow> port_request list \<Rightarrow> (db \<times> uuid list) stmt" where
  "create_server_body seal now serverID operationID key eventID activityID installationID input ports =
     exec [
       lift_stmt (labelled ''insert server: '' (insert_server (new_server now serverID installationID input))),
       lift_stmt (labelled ''insert server resources: ''
         (insert_resources ((cs_resources input)\<lparr>rs_server_id := serverID\<rparr>))),
       lift_stmt (labelled ''insert server runtime: '' (insert_runtime (new_runtime now serverID))),
       for_each (\<lambda>port. with_id (\<lambda>portID.
         labelled ''insert server port: '' (insert_port (port_row portID serverID port)))) ports,
       for_each (\<lambda>v. lift_stmt (store_variable seal serverID v)) (cs_variables input),
       lift_stmt (labelled ''insert provision operation: ''
         (insert_operation (operation_row operationID now serverID (Some (cs_created_by input))
           ''server.provision'' key ''Waiting for provisioning worker''))),
       lift_stmt (labelled ''enqueue server provisioning: ''
         (insert_outbox (outbox_row eventID now ''server.provision'' serverID
           (provision_payload serverID operationID)))),
       lift_stmt (labelled ''insert server activity: ''
         (insert_activity (activity_row activityID now (Some serverID)
           (Some (cs_created_by input)) ''server.provision.requested'' ''info''
           ''Server provisioning requested'' (provision_payload serverID operationID))))]"

definition CreateServer ::
  "(string \<Rightarrow> string \<Rightarrow> error + string) option \<Rightarrow> time \<Rightarrow> uuid \<Rightarrow> uuid list \<Rightarrow> uuid \<Rightarrow> string \<Rightarrow> uuid \<Rightarrow>
   uuid \<Rightarrow> create_server_params \<Rightarrow> db \<Rightarrow> error + (create_server_result \<times> db)" where
  "CreateServer seal now serverID portIDs operationID key eventID activityID input d =
     (case installations d of
        [] \<Rightarrow> Inl (Wrap ''load installation: '' ErrNoRows '''')
      | installation # _ \<Rightarrow>
        if \<not> template_available (cs_template_version_id input) d then Inl ErrNotFound
        else if name_taken (in_id installation) (cs_name input) d then Inl ErrConflict
        else case allocate_ports (cs_game_port_start input) (cs_game_port_end input) d [] (cs_ports input) of
          Inl e \<Rightarrow> Inl e
        | Inr ports \<Rightarrow>
            ret \<lparr> cr_server_id = serverID, cr_operation_id = operationID,
                  cr_host_port = primary_host_port ports,
                  cr_ports = map2 (\<lambda>i p. p\<lparr>pq_id := i\<rparr>) portIDs ports \<rparr>
              (state_of (create_server_body seal now serverID operationID key eventID activityID
                 (in_id installation) input ports (d, portIDs))))"

section \<open>What the allocation gives\<close>

lemma allocate_host_port_SomeD:
  assumes "allocate_host_port a b used r d = Some h"
  shows "a \<le> h \<and> h \<le> b \<and> \<not> port_in_use (pq_protocol r) h d \<and>
    h \<notin> set (usedByProtocol (pq_protocol r) used) \<and> pq_protocol r \<in> {''tcp'', ''udp''}"
proof -
  let ?free = "filter (\<lambda>c. \<not> port_in_use (pq_protocol r) c d \<and>
      c \<notin> set (usedByProtocol (pq_protocol r) used)) [a..b]"
  from assms obtain cs where "order_by (\<lambda>c. if c = (if pq_container_port r < a \<or>
      pq_container_port r > b then -1 else pq_container_port r) then 0 else 1) ?free = h # cs"
    and proto: "pq_protocol r \<in> {''tcp'', ''udp''}"
    by (auto simp: allocate_host_port_def Let_def split: if_splits list.splits)
  from order_by_hd [OF this(1)] have "h \<in> set ?free" by blast
  with proto show ?thesis by auto
qed

text \<open>
  A port is refused exactly when the protocol is unknown or every port of the range is taken.
\<close>

lemma allocate_host_port_None:
  "allocate_host_port a b used r d = None \<longleftrightarrow>
     pq_protocol r \<notin> {''tcp'', ''udp''} \<or>
     (\<forall>c \<in> {a..b}. port_in_use (pq_protocol r) c d \<or>
        c \<in> set (usedByProtocol (pq_protocol r) used))"
proof -
  have hd: "(case xs of [] \<Rightarrow> None | c # _ \<Rightarrow> Some c) = None \<longleftrightarrow> xs = []" for xs :: "int list"
    by (cases xs) auto
  show ?thesis
    unfolding allocate_host_port_def Let_def if_split_eq1 hd order_by_Nil filter_empty_conv set_upto
    by blast
qed

definition ports_free :: "int \<Rightarrow> int \<Rightarrow> db \<Rightarrow> port_request list \<Rightarrow> bool" where
  "ports_free a b d ports \<longleftrightarrow>
     distinct (map (\<lambda>p. (pq_host_port p, pq_protocol p)) ports) \<and>
     (\<forall>p \<in> set ports. a \<le> pq_host_port p \<and> pq_host_port p \<le> b \<and>
        \<not> port_in_use (pq_protocol p) (pq_host_port p) d \<and> pq_bind_address p = ''0.0.0.0'' \<and>
        pq_protocol p \<in> {''tcp'', ''udp''})"

lemma allocate_ports_InrD:
  assumes "allocate_ports a b d allocated rs = Inr ports" and "ports_free a b d allocated"
  shows "ports_free a b d ports \<and>
    map pq_container_port ports = map pq_container_port (allocated @ rs) \<and>
    map pq_protocol ports = map pq_protocol (allocated @ rs)"
  using assms
proof (induction rs arbitrary: allocated)
  case Nil
  then show ?case by simp
next
  case (Cons r rs)
  from Cons.prems(1) obtain h where h: "allocate_host_port a b allocated r d = Some h"
    and rest: "allocate_ports a b d
      (allocated @ [r\<lparr>pq_host_port := h, pq_bind_address := ''0.0.0.0''\<rparr>]) rs = Inr ports"
    by (auto split: option.splits)
  from allocate_host_port_SomeD [OF h] Cons.prems(2)
  have "ports_free a b d (allocated @ [r\<lparr>pq_host_port := h, pq_bind_address := ''0.0.0.0''\<rparr>])"
    by (simp add: ports_free_def usedByProtocol_def image_iff) metis
  from Cons.IH [OF rest this] show ?case by simp
qed

section \<open>Preservation\<close>

lemma store_variable_keeps:
  "(\<And>r. preserves i (insert_variable r)) \<Longrightarrow> preserves i (store_variable seal s v)"
  unfolding store_variable_def Let_def
  by (rule preserves_by_sat) (auto intro!: preserves_sat preserves_labelled split: option.splits sum.splits)

lemma create_server_body_keeps:
  assumes "preserves i (insert_server (new_server now s inst input))"
    and "\<And>r. preserves i (insert_resources r)" "\<And>r. preserves i (insert_runtime r)"
    and "\<And>r. preserves i (insert_port r)" "\<And>r. preserves i (insert_variable r)"
    and "\<And>r. preserves i (insert_operation r)" "\<And>r. preserves i (insert_outbox r)"
    and "\<And>r. preserves i (insert_activity r)"
  shows "preserves (\<lambda>p. i (fst p)) (create_server_body seal now s opn key ev act inst input ports)"
  unfolding create_server_body_def
  by (rule preserves_exec)
    (simp add: assms preserves_lift preserves_with_id preserves_labelled store_variable_keeps preserves_for_each)

lemma CreateServer_keeps:
  assumes "\<And>inst ports. preserves (\<lambda>p. i (fst p))
      (create_server_body seal now s opn key ev act inst input ports)"
  shows "preserves_op i (CreateServer seal now s pids opn key ev act input)"
proof (rule preserves_opI)
  fix d assume "i d"
  then have "sat (\<lambda>p. i (fst p)) (create_server_body seal now s opn key ev act inst input ps (d, pids))"
    for inst ps using assms by (auto simp: preserves_def)
  then show "sat (\<lambda>v. i (snd v)) (CreateServer seal now s pids opn key ev act input d)"
    unfolding CreateServer_def by (auto split: list.splits sum.splits)
qed

lemma CreateServer_ok: "preserves_op db_ok (CreateServer seal now s pids opn key ev act input)"
  by (rule CreateServer_keeps) (intro create_server_body_keeps keeps_ok)+

section \<open>The ports a creation stores\<close>

lemma port_frames [simp]:
  "frames server_ports (insert_server r1)" "frames server_ports (insert_resources r2)"
  "frames server_ports (insert_runtime r3)" "frames server_ports (insert_variable r4)"
  "frames server_ports (insert_operation r5)" "frames server_ports (insert_outbox r6)"
  "frames server_ports (insert_activity r7)"
  by (auto simp: frames_def insert_stmt_defs insert_activity_def constrain_def Let_def split: if_splits)

lemma frames_labelled [simp]: "frames g c \<Longrightarrow> frames g (labelled pre c)"
  by (auto simp: frames_def)

lemma store_variable_ports [simp]: "frames server_ports (store_variable seal s v)"
  unfolding frames_def store_variable_def Let_def
  by (auto split: option.splits sum.splits if_splits simp: insert_variable_def constrain_def)

definition insert_ports :: "uuid \<Rightarrow> port_request list \<Rightarrow> (db \<times> uuid list) stmt" where
  "insert_ports s ports = for_each (\<lambda>port. with_id (\<lambda>portID.
     labelled ''insert server port: '' (insert_port (port_row portID s port)))) ports"

lemma insert_ports_InrD:
  "insert_ports s ports p = Inr p' \<Longrightarrow> length ports \<le> length (snd p) \<and>
     server_ports (fst p') = server_ports (fst p) @ map2 (\<lambda>i. port_row i s) (snd p) ports"
proof (induction ports arbitrary: p)
  case Nil
  then show ?case by (simp add: insert_ports_def)
next
  case (Cons port ports)
  let ?c = "with_id (\<lambda>portID. labelled ''insert server port: '' (insert_port (port_row portID s port)))"
  from Cons.prems obtain p1 where p1: "?c p = Inr p1" and rest: "insert_ports s ports p1 = Inr p'"
    by (auto simp: insert_ports_def split: sum.splits)
  from p1 obtain i ids where "snd p = i # ids" "snd p1 = ids"
    "server_ports (fst p1) = server_ports (fst p) @ [port_row i s port]"
    by (auto simp: with_id_def insert_port_def constrain_def split: prod.splits list.splits sum.splits if_splits)
  with Cons.IH [OF rest] show ?case by simp
qed

lemma exec_split: "exec (xs @ c # ys) s = Inr s' \<longleftrightarrow>
  (\<exists>s1 s2. exec xs s = Inr s1 \<and> c s1 = Inr s2 \<and> exec ys s2 = Inr s')"
  by (induction xs arbitrary: s) (auto simp: exec_Cons_Inr)

definition ports_left :: "db \<times> uuid list \<Rightarrow> server_port list \<times> uuid list" where
  "ports_left p = (server_ports (fst p), snd p)"

lemma lift_ports: "frames server_ports c \<Longrightarrow> frames ports_left (lift_stmt c)"
  by (auto simp: frames_def ports_left_def lift_stmt_def split: sum.splits)

lemma frames_for_eachI: "(\<And>x. x \<in> set xs \<Longrightarrow> frames g (c x)) \<Longrightarrow> frames g (for_each c xs)"
  unfolding frames_def [of g "for_each c xs"] by (blast intro: frames_for_each)

lemma create_server_body_ports:
  assumes "create_server_body seal now s opn key ev act inst input ports (d, ids) = Inr p'"
  shows "length ports \<le> length ids \<and>
    server_ports (fst p') = server_ports d @ map2 (\<lambda>i. port_row i s) ids ports"
proof -
  define before after where "before = [
      lift_stmt (labelled ''insert server: '' (insert_server (new_server now s inst input))),
      lift_stmt (labelled ''insert server resources: ''
        (insert_resources ((cs_resources input)\<lparr>rs_server_id := s\<rparr>))),
      lift_stmt (labelled ''insert server runtime: '' (insert_runtime (new_runtime now s)))]"
    and "after = [
      for_each (\<lambda>v. lift_stmt (store_variable seal s v)) (cs_variables input),
      lift_stmt (labelled ''insert provision operation: ''
        (insert_operation (operation_row opn now s (Some (cs_created_by input))
           ''server.provision'' key ''Waiting for provisioning worker''))),
      lift_stmt (labelled ''enqueue server provisioning: ''
        (insert_outbox (outbox_row ev now ''server.provision'' s (provision_payload s opn)))),
      lift_stmt (labelled ''insert server activity: ''
        (insert_activity (activity_row act now (Some s) (Some (cs_created_by input))
           ''server.provision.requested'' ''info'' ''Server provisioning requested''
           (provision_payload s opn))))]"
  have "create_server_body seal now s opn key ev act inst input ports = exec (before @ insert_ports s ports # after)"
    by (simp add: create_server_body_def insert_ports_def before_def after_def)
  with assms obtain p1 p2 where p: "exec before (d, ids) = Inr p1" "insert_ports s ports p1 = Inr p2"
    "exec after p2 = Inr p'" by (auto simp: exec_split)
  have "list_all (frames ports_left) before" "list_all (frames ports_left) after"
    by (simp_all add: before_def after_def lift_ports frames_for_eachI)
  from frames_exec [OF this(1) p(1)] frames_exec [OF this(2) p(3)] insert_ports_InrD [OF p(2)]
  show ?thesis by (simp add: ports_left_def)
qed

lemma CreateServer_evolves:
  "preserves_op (evolves d0) (CreateServer seal now s pids opn key ev act input)"
proof (rule preserves_opI, rule satI)
  fix d v assume before: "evolves d0 d" and run: "CreateServer seal now s pids opn key ev act input d = Inr v"
  obtain res d' where v: "v = (res, d')" by (cases v)
  have "preserves_op (rows_evolve d) (CreateServer seal now s pids opn key ev act input)"
    by (rule CreateServer_keeps, rule create_server_body_keeps)
      (rule evolving_rows keeps_evolving insert_port_rows | simp add: fresh_row_def new_server_def)+
  from preserves_opD [OF this rows_evolve_refl run [unfolded v]] have rows: "rows_evolve d d'" .
  from run obtain inst ports p' where alloc: "allocate_ports (cs_game_port_start input)
      (cs_game_port_end input) d [] (cs_ports input) = Inr ports"
    and body: "create_server_body seal now s opn key ev act inst input ports (d, pids) = Inr p'" "d' = fst p'"
    by (auto simp: v CreateServer_def state_of_Inr split: list.splits if_splits sum.splits)
  from allocate_ports_InrD [OF alloc] have free: "ports_free (cs_game_port_start input) (cs_game_port_end input) d ports"
    by (simp add: ports_free_def)
  have "hosts_disjoint d'" if "hosts_disjoint d"
  proof (rule hosts_disjoint_add [OF that, where s = s])
    show "server_ports d' = server_ports d @ map2 (\<lambda>i. port_row i s) pids ports"
      using create_server_body_ports [OF body(1)] body(2) by simp
  qed (use free in \<open>auto simp: ports_free_def port_in_use_def port_row_def dest!: set_zip_rightD\<close>)
  with rows have "evolves d d'" by (simp add: evolves_def)
  with before show "evolves d0 (snd v)" unfolding v by (auto intro: evolves_trans)
qed

end
