(* ===== verification/Configuration.thy ===== *)
theory Configuration
  imports Templates Provisioning "HOL-Library.AList"
begin

text \<open>
  \<open>internal/store/configuration.go\<close> and the provisioning request of
  \<open>internal/store/servers.go\<close>: what the engine is asked to run, assembled from the template, the
  stored variables and the ports of a server; and the three commits that change it.

  A Go map is an association list with distinct keys.  \<open>order\<close> is the order in which Go iterates
  over a map, any permutation of the entries; \<open>unseal\<close> and \<open>seal\<close> are \<open>secure.Box.Open\<close> and
  \<open>Seal\<close>, applied to a text and its context.
\<close>

section \<open>Records\<close>

record engine_port =
  ep_host_ip :: string
  ep_host_port :: int
  ep_container_port :: int
  ep_protocol :: string

record engine_resources =
  er_cpu_millicores :: "int option"
  er_cpu_set :: string
  er_memory_limit_bytes :: "int option"
  er_memory_reservation_bytes :: "int option"
  er_swap_limit_bytes :: "int option"
  er_pids_limit :: "int option"
  er_io_weight :: "int option"

type_synonym environment = "(string \<times> string) list"

record install_spec =
  is_image :: string
  is_entrypoint :: string
  is_script :: string
  is_environment :: environment

record provision_request =
  pr_image :: string
  pr_startup :: string
  pr_environment :: environment
  pr_ports :: "engine_port list"
  pr_resources :: engine_resources
  pr_install :: "install_spec option"
  pr_start :: bool

record reconfigure_request =
  rc_image :: string
  rc_startup :: string
  rc_environment :: environment
  rc_ports :: "engine_port list"
  rc_resources :: engine_resources

record configuration_variable =
  cv_name :: string
  cv_display_name :: string
  cv_description :: string
  cv_default_value :: string
  cv_value :: "string option"
  cv_has_value :: bool
  cv_secret :: bool
  cv_user_viewable :: bool
  cv_user_editable :: bool
  cv_rules :: string
  cv_field_type :: string
  cv_custom :: bool

record server_configuration =
  co_server_id :: uuid
  co_version :: int
  co_status :: string
  co_name :: string
  co_description :: string
  co_image :: string
  co_images :: "(string \<times> string) list"
  co_template_startup :: string
  co_startup_override :: "string option"
  co_effective_startup :: string
  co_variables :: "configuration_variable list"
  co_ports :: "port_request list"
  co_resources :: server_resources
  co_command_transport :: command_transport
  co_backup_defaults :: backup_defaults
  co_template_network_ports :: "network_port list"
  co_environment :: environment

section \<open>Rendering a startup command\<close>

text \<open>\<open>strings.ReplaceAll(s, old, new)\<close> for a nonempty \<open>old\<close>.\<close>

function replace_all :: "string \<Rightarrow> string \<Rightarrow> string \<Rightarrow> string" where
  "replace_all old new [] = []"
| "replace_all old new (c # cs) =
     (if old \<noteq> [] \<and> prefix old (c # cs)
      then new @ replace_all old new (drop (length old) (c # cs))
      else c # replace_all old new cs)"
  by pat_completeness auto

termination replace_all
  by (relation "measure (\<lambda>(old, new, s). length s)") auto

declare replace_all.simps(2) [simp del]

definition braced :: "string \<Rightarrow> string" where
  "braced name = ''{{'' @ name @ ''}}''"

definition lookup :: "environment \<Rightarrow> string \<Rightarrow> string" where
  "lookup env k = (case map_of env k of None \<Rightarrow> [] | Some v \<Rightarrow> v)"

definition substitute :: "string \<times> string \<Rightarrow> string \<Rightarrow> string" where
  "substitute entry s = (case entry of (name, replacement) \<Rightarrow>
     replace_all (braced (''server.build.env.'' @ name)) replacement
       (replace_all (braced name) replacement s))"

definition renderTemplate :: "(environment \<Rightarrow> environment) \<Rightarrow> string \<Rightarrow> environment \<Rightarrow> string" where
  "renderTemplate order s variables =
     replace_all (braced ''server.allocations.default.ip'') (lookup variables ''SERVER_IP'')
       (replace_all (braced ''server.allocations.default.port'') (lookup variables ''SERVER_PORT'')
         (fold substitute (order variables) s))"

section \<open>The environment of a server\<close>

abbreviation set_env :: "string \<Rightarrow> string \<Rightarrow> environment \<Rightarrow> environment" where
  "set_env \<equiv> AList.update"

definition applyTemplatePortEnvironment :: "environment \<Rightarrow> network_port list \<Rightarrow> environment" where
  "applyTemplatePortEnvironment env definitions = fold (\<lambda>port e.
     let name = to_upper (trim_space (np_environment port)) in
     if name = [] \<or> np_container_port port < 1 \<or> np_container_port port > 65535 then e
     else set_env name (itoa (np_container_port port)) e) definitions env"

text \<open>The variables a port defines; both ways of building the environment do this per port.\<close>

definition port_environment :: "port_request \<Rightarrow> environment \<Rightarrow> environment" where
  "port_environment port e =
     (if pq_environment port = [] then e
      else set_env (pq_environment port @ ''_PUBLIC'') (itoa (pq_host_port port))
             (set_env (pq_environment port) (itoa (pq_container_port port)) e))"

text \<open>The last port marked primary.\<close>

definition primary_port :: "port_request list \<Rightarrow> port_request option" where
  "primary_port ports = (case filter pq_is_primary ports of [] \<Rightarrow> None | p # ps \<Rightarrow> Some (last (p # ps)))"

definition primary_ports :: "port_request list \<Rightarrow> int \<times> int" where
  "primary_ports ports = (case primary_port ports of
     None \<Rightarrow> (0, 0) | Some p \<Rightarrow> (pq_container_port p, pq_host_port p))"

text \<open>Go's integer division truncates.\<close>

definition memory_mb :: "int option \<Rightarrow> int" where
  "memory_mb limit = (case limit of None \<Rightarrow> 0
     | Some b \<Rightarrow> if b \<ge> 0 then b div 1048576 else - (- b div 1048576))"

definition engine_ports :: "port_request list \<Rightarrow> engine_port list" where
  "engine_ports ports = map (\<lambda>p. \<lparr> ep_host_ip = pq_bind_address p, ep_host_port = pq_host_port p,
     ep_container_port = pq_container_port p, ep_protocol = pq_protocol p \<rparr>) ports"

definition engine_resources_of :: "server_resources \<Rightarrow> engine_resources" where
  "engine_resources_of r = \<lparr> er_cpu_millicores = rs_cpu_limit_millicores r,
     er_cpu_set = (case rs_cpu_set r of None \<Rightarrow> [] | Some s \<Rightarrow> s),
     er_memory_limit_bytes = rs_memory_limit_bytes r,
     er_memory_reservation_bytes = rs_memory_reservation_bytes r,
     er_swap_limit_bytes = rs_swap_limit_bytes r, er_pids_limit = rs_pids_limit r,
     er_io_weight = rs_io_weight r \<rparr>"

definition transport_text :: "canonical_template \<Rightarrow> string" where
  "transport_text t = marshal (encode_command_transport (cn_command_transport t))"

definition port_order :: "server_port list \<Rightarrow> server_port list" where
  "port_order = order_by (\<lambda>p. if po_is_primary p then 0 else 1) \<circ> order_by po_host_port
     \<circ> order_by (\<lambda>p. if po_protocol p = ''tcp'' then 0 else 1)"

definition ServerPorts :: "uuid \<Rightarrow> db \<Rightarrow> port_request list" where
  "ServerPorts serverID d =
     map (\<lambda>p. \<lparr> pq_id = po_id p, pq_bind_address = po_bind_address p, pq_host_port = po_host_port p,
            pq_container_port = po_container_port p, pq_protocol = po_protocol p,
            pq_purpose = (case po_purpose p of None \<Rightarrow> [] | Some s \<Rightarrow> s),
            pq_environment = (case po_environment p of None \<Rightarrow> [] | Some s \<Rightarrow> s),
            pq_is_primary = po_is_primary p \<rparr>)
       (port_order (filter (\<lambda>p. po_server_id p = serverID) (server_ports d)))"

text \<open>A live server joined with its template version and its resources.\<close>

definition server_template ::
  "uuid \<Rightarrow> db \<Rightarrow> (server \<times> template_version \<times> server_resources) option" where
  "server_template serverID d =
     (case (find (live serverID) (servers d), find (\<lambda>r. rs_server_id r = serverID) (resources d)) of
        (Some s, Some r) \<Rightarrow>
          (case find (\<lambda>v. tv_id v = sv_template_version_id s) (template_versions d) of
             None \<Rightarrow> None | Some v \<Rightarrow> Some (s, v, r))
      | _ \<Rightarrow> None)"


section \<open>The request to provision a server\<close>

record provision_job =
  pj_server_id :: uuid
  pj_operation_id :: uuid
  pj_request :: provision_request

fun stored_environment ::
  "(string \<Rightarrow> string \<Rightarrow> error + string) \<Rightarrow> uuid \<Rightarrow> server_variable list \<Rightarrow> environment \<Rightarrow> error + environment" where
  "stored_environment unseal serverID [] env = Inr env"
| "stored_environment unseal serverID (v # vs) env =
     (if va_is_secret v then
        (case va_value_encrypted v of
           None \<Rightarrow> Inl (Message (''secret variable '' @ va_name v @ '' has no ciphertext''))
         | Some c \<Rightarrow>
             (case unseal c (serverID @ '':'' @ va_name v) of
                Inl e \<Rightarrow> Inl (Wrap (''decrypt variable '' @ va_name v @ '': '') e '''')
              | Inr value \<Rightarrow> stored_environment unseal serverID vs (set_env (va_name v) value env)))
      else (case va_value_text v of
          None \<Rightarrow> stored_environment unseal serverID vs env
        | Some value \<Rightarrow> stored_environment unseal serverID vs (set_env (va_name v) value env)))"

definition provision_environment ::
  "canonical_template \<Rightarrow> port_request list \<Rightarrow> int option \<Rightarrow> environment \<Rightarrow> environment" where
  "provision_environment t ports memory stored =
     (let e1 = fold port_environment ports
            (applyTemplatePortEnvironment (set_env ''SERVER_IP'' ''0.0.0.0'' stored) (cn_network_ports t));
          (container, host) = primary_ports ports in
      set_env ''DOCKSIDE_COMMAND_TRANSPORT'' (transport_text t)
        (set_env ''SERVER_MEMORY'' (itoa (memory_mb memory))
          (set_env ''SERVER_PUBLIC_PORT'' (itoa host) (set_env ''SERVER_PORT'' (itoa container) e1))))"

definition provision_install :: "canonical_template \<Rightarrow> environment \<Rightarrow> install_spec option" where
  "provision_install t env =
     (if cn_install_container t \<noteq> [] \<and> cn_install_script t \<noteq> []
      then Some \<lparr> is_image = cn_install_container t, is_entrypoint = cn_install_entrypoint t,
                 is_script = cn_install_script t, is_environment = env \<rparr>
      else None)"

definition ProvisionJob ::
  "(environment \<Rightarrow> environment) \<Rightarrow> (string \<Rightarrow> string \<Rightarrow> error + string) \<Rightarrow> uuid \<Rightarrow> uuid \<Rightarrow> db \<Rightarrow>
   error + provision_job" where
  "ProvisionJob order unseal serverID operationID d =
     (case server_template serverID d of
        None \<Rightarrow> Inl ErrNotFound
      | Some (s, v, r) \<Rightarrow>
        if sv_status s \<noteq> ''installing'' then Inl ErrNotFound
        else (case decode_canonical (tv_canonical v) of
          Inl e \<Rightarrow> Inl (Wrap ''decode provision template: '' e '''')
        | Inr t \<Rightarrow>
          (let ports = ServerPorts serverID d in
           if ports = [] then Inl (Wrap ''load provision ports: '' ErrNotFound '''')
           else (case stored_environment unseal serverID
                (sort_key va_name (filter (\<lambda>x. va_server_id x = serverID) (server_variables d))) [] of
             Inl e \<Rightarrow> Inl e
           | Inr stored \<Rightarrow>
             (let env = provision_environment t ports (rs_memory_limit_bytes r) stored in
              Inr \<lparr> pj_server_id = serverID, pj_operation_id = operationID,
                    pj_request = \<lparr> pr_image = sv_image_reference s,
                      pr_startup = renderTemplate order (cn_startup_command t) env,
                      pr_environment = env, pr_ports = engine_ports ports,
                      pr_resources = engine_resources_of r, pr_install = provision_install t env,
                      pr_start = (sv_desired_state s = ''running'') \<rparr> \<rparr>)))))"

section \<open>The configuration of a server\<close>

definition RuntimeRequest :: "server_configuration \<Rightarrow> reconfigure_request" where
  "RuntimeRequest c = \<lparr> rc_image = co_image c, rc_startup = co_effective_startup c,
     rc_environment = co_environment c, rc_ports = engine_ports (co_ports c),
     rc_resources = engine_resources_of (co_resources c) \<rparr>"

definition InstallSpec :: "server_configuration \<Rightarrow> canonical_template \<Rightarrow> install_spec option" where
  "InstallSpec c t =
     (if trim_space (cn_install_container t) = [] \<or> trim_space (cn_install_script t) = [] then None
      else Some \<lparr> is_image = cn_install_container t, is_entrypoint = cn_install_entrypoint t,
                 is_script = cn_install_script t, is_environment = co_environment c \<rparr>)"

definition effective_environment ::
  "port_request list \<Rightarrow> int option \<Rightarrow> environment \<Rightarrow> environment" where
  "effective_environment ports memory env =
     (let (container, host) = primary_ports ports in
      set_env ''SERVER_MEMORY'' (itoa (memory_mb memory))
        (set_env ''SERVER_PUBLIC_PORT'' (itoa host) (set_env ''SERVER_PORT'' (itoa container)
          (set_env ''SERVER_IP'' ''0.0.0.0'' (fold port_environment ports env)))))"

definition refreshEffectiveValues ::
  "(environment \<Rightarrow> environment) \<Rightarrow> server_configuration \<Rightarrow> server_configuration" where
  "refreshEffectiveValues order c =
     (let env = effective_environment (co_ports c) (rs_memory_limit_bytes (co_resources c)) (co_environment c);
          startup = (case co_startup_override c of None \<Rightarrow> co_template_startup c | Some x \<Rightarrow> x) in
      c\<lparr>co_environment := env, co_effective_startup := renderTemplate order startup env\<rparr>)"

definition apply_change :: "string \<times> string \<Rightarrow> server_configuration \<Rightarrow> server_configuration" where
  "apply_change change c = (case change of (name, value) \<Rightarrow>
     c\<lparr>co_environment := set_env name value (co_environment c),
       co_variables := upd (\<lambda>v. cv_name v = name)
         (\<lambda>v. v\<lparr>cv_has_value := True,
                cv_value := (if cv_secret v then cv_value v else Some value)\<rparr>) (co_variables c)\<rparr>)"

definition ApplyStartupCandidate ::
  "(environment \<Rightarrow> environment) \<Rightarrow> string \<Rightarrow> string option \<Rightarrow> (string \<times> string) list \<Rightarrow>
   server_configuration \<Rightarrow> server_configuration" where
  "ApplyStartupCandidate order img override changes c =
     refreshEffectiveValues order
       (fold apply_change changes (c\<lparr>co_image := img, co_startup_override := override\<rparr>))"

definition ApplyPortsCandidate ::
  "(environment \<Rightarrow> environment) \<Rightarrow> port_request list \<Rightarrow> server_configuration \<Rightarrow> server_configuration" where
  "ApplyPortsCandidate order ports c = refreshEffectiveValues order (c\<lparr>co_ports := ports\<rparr>)"

definition ApplySettingsCandidate ::
  "(environment \<Rightarrow> environment) \<Rightarrow> string \<Rightarrow> string \<Rightarrow> server_resources \<Rightarrow> server_configuration \<Rightarrow>
   server_configuration" where
  "ApplySettingsCandidate order name description res c =
     refreshEffectiveValues order (c\<lparr>co_name := name, co_description := description, co_resources := res\<rparr>)"

text \<open>The custom definitions of a server, as template variables, in their order.\<close>

definition custom_definitions :: "uuid \<Rightarrow> db \<Rightarrow> template_variable list" where
  "custom_definitions serverID d =
     map (\<lambda>r. \<lparr> vr_name = vd_display_name r, vr_description = vd_description r,
            vr_environment = vd_environment r, vr_default_value = vd_default_value r,
            vr_user_viewable = vd_user_viewable r, vr_user_editable = vd_user_editable r,
            vr_rules = vd_rules r, vr_field_type = vd_field_type r, vr_secret = vd_secret r \<rparr>)
       (order_by vd_position
         (sort_key vd_environment (filter (\<lambda>r. vd_server_id r = serverID) (variable_definitions d))))"

text \<open>The value a variable has for the server, the stored one or the default, and whether one is stored.\<close>

definition variable_value ::
  "(string \<Rightarrow> string \<Rightarrow> error + string) \<Rightarrow> uuid \<Rightarrow> server_variable option \<Rightarrow> template_variable \<Rightarrow>
   error + (string \<times> bool)" where
  "variable_value unseal serverID stored v =
     (case stored of
        None \<Rightarrow> Inr (vr_default_value v, False)
      | Some row \<Rightarrow>
        (let has = (va_value_text row \<noteq> None \<or> va_value_encrypted row \<noteq> None) in
         (case (if va_is_secret row then va_value_encrypted row else None) of
            Some c \<Rightarrow>
              (case unseal c (serverID @ '':'' @ vr_environment v) of
                 Inl e \<Rightarrow> Inl (Wrap (''decrypt variable '' @ vr_environment v @ '': '') e '''')
               | Inr value \<Rightarrow> Inr (value, has))
          | None \<Rightarrow> Inr ((case va_value_text row of None \<Rightarrow> vr_default_value v | Some t \<Rightarrow> t), has))))"

definition configuration_variable_of ::
  "template_variable \<Rightarrow> string \<Rightarrow> bool \<Rightarrow> bool \<Rightarrow> configuration_variable" where
  "configuration_variable_of v value has custom = \<lparr> cv_name = vr_environment v, cv_display_name = vr_name v,
     cv_description = vr_description v, cv_default_value = vr_default_value v,
     cv_value = (if vr_secret v then None else Some value), cv_has_value = has,
     cv_secret = vr_secret v, cv_user_viewable = vr_user_viewable v,
     cv_user_editable = vr_user_editable v, cv_rules = vr_rules v, cv_field_type = vr_field_type v,
     cv_custom = custom \<rparr>"

fun load_variables ::
  "(string \<Rightarrow> string \<Rightarrow> error + string) \<Rightarrow> uuid \<Rightarrow> (string \<Rightarrow> server_variable option) \<Rightarrow> string list \<Rightarrow>
   template_variable list \<Rightarrow> environment \<Rightarrow> error + (configuration_variable list \<times> environment)" where
  "load_variables unseal serverID stored custom [] env = Inr ([], env)"
| "load_variables unseal serverID stored custom (v # vs) env =
     (case variable_value unseal serverID (stored (vr_environment v)) v of
        Inl e \<Rightarrow> Inl e
      | Inr (value, has) \<Rightarrow>
          (case load_variables unseal serverID stored custom vs (set_env (vr_environment v) value env) of
             Inl e \<Rightarrow> Inl e
           | Inr (cvs, env') \<Rightarrow>
               Inr (configuration_variable_of v value has (vr_environment v \<in> set custom) # cvs, env')))"

definition stored_variable_row :: "uuid \<Rightarrow> db \<Rightarrow> string \<Rightarrow> server_variable option" where
  "stored_variable_row serverID d name =
     find (\<lambda>r. va_server_id r = serverID \<and> va_name r = name) (server_variables d)"

definition ServerConfiguration ::
  "(environment \<Rightarrow> environment) \<Rightarrow> (string \<Rightarrow> string \<Rightarrow> error + string) \<Rightarrow> uuid \<Rightarrow> db \<Rightarrow>
   error + server_configuration" where
  "ServerConfiguration order unseal serverID d =
     (case server_template serverID d of
        None \<Rightarrow> Inl ErrNotFound
      | Some (s, v, r) \<Rightarrow>
        (case decode_canonical (tv_canonical v) of
           Inl e \<Rightarrow> Inl (Wrap ''decode canonical server template: '' e '''')
         | Inr t \<Rightarrow>
           (let custom = custom_definitions serverID d in
            (case load_variables unseal serverID (stored_variable_row serverID d)
                (map vr_environment custom) (cn_variables t @ custom)
                [(''DOCKSIDE_COMMAND_TRANSPORT'', transport_text t)] of
               Inl e \<Rightarrow> Inl e
             | Inr (variables, env) \<Rightarrow>
                 Inr (refreshEffectiveValues order
                   \<lparr> co_server_id = sv_id s, co_version = sv_version s, co_status = sv_status s,
                     co_name = sv_name s, co_description = sv_description s,
                     co_image = sv_image_reference s,
                     co_images = (if cn_images t = [] then [(''Current image'', sv_image_reference s)]
                                  else cn_images t),
                     co_template_startup = cn_startup_command t,
                     co_startup_override = sv_startup_override s, co_effective_startup = [],
                     co_variables = variables, co_ports = ServerPorts serverID d, co_resources = r,
                     co_command_transport = cn_command_transport t,
                     co_backup_defaults = cn_backup_defaults t,
                     co_template_network_ports = cn_network_ports t,
                     co_environment = applyTemplatePortEnvironment env (cn_network_ports t) \<rparr>)))))"

definition NormalizeStartupOverride :: "string \<Rightarrow> string option" where
  "NormalizeStartupOverride s = (let t = trim_space s in if t = [] then None else Some t)"

end
