(* ===== verification/Worker.thy ===== *)
theory Worker
  imports Outbox Backups Schedules Webhook_Queue Configuration
begin

text \<open>
  The handlers of \<open>internal/worker/worker.go\<close>.  A handler alternates between the store and the
  engine, a separate process reached over HTTP; both can fail at any call.  The state of a run is
  the database and the trace of the engine calls made so far; the environment \<open>env\<close> answers the
  calls: the clock and the fresh identifiers of each step, a fault of the database connection, and
  the engine's answer to a call given the trace that ends with it.  Nothing is assumed of it.
\<close>

section \<open>Actions\<close>

datatype engine_call =
    EPower uuid string
  | ECreateBackup uuid uuid "string list" "string list"
  | ERestoreBackup uuid uuid string
  | EDeleteBackup uuid uuid
  | EOpenBackup uuid uuid
  | ECommand uuid string
  | EProvision uuid provision_request
  | EInstall uuid install_spec
  | EReconfigure uuid reconfigure_request
  | EDelete uuid

record world =
  w_db :: db
  w_calls :: "engine_call list"
  w_step :: nat

text \<open>One decoded line of the engine's console stream.\<close>

record console_frame =
  cf_stream :: string
  cf_phase :: string
  cf_message :: string
  cf_observed_at :: "time option"

record worker_env =
  en_clock :: "nat \<Rightarrow> time"
  en_fresh :: "nat \<Rightarrow> nat \<Rightarrow> uuid"
  en_fault :: "nat \<Rightarrow> error option"
  en_engine :: "engine_call list \<Rightarrow> error option"
  en_backup :: "engine_call list \<Rightarrow> backup_result"
  en_provision :: "engine_call list \<Rightarrow> provision_result"
  en_sanitize :: "string \<Rightarrow> string"
  en_open :: "string \<Rightarrow> string \<Rightarrow> error + string"
  en_upload :: "nat \<Rightarrow> backup_delivery_job \<Rightarrow> string \<Rightarrow> send_result"
  en_stamp :: "string \<Rightarrow> time \<Rightarrow> string"
  en_timer_first :: bool
  en_order :: "nat \<Rightarrow> environment \<Rightarrow> environment"
  en_late :: "nat \<Rightarrow> error option"
  en_frames :: "nat \<Rightarrow> console_frame option list"
  en_sanitize_log :: "string \<Rightarrow> string"

type_synonym 'a action = "world \<Rightarrow> (error + 'a) \<times> world"

definition andThen :: "'a action \<Rightarrow> ('a \<Rightarrow> 'b action) \<Rightarrow> 'b action" where
  "andThen m k w = (case m w of (Inl e, w') \<Rightarrow> (Inl e, w') | (Inr x, w') \<Rightarrow> k x w')"

definition done_with :: "error + 'a \<Rightarrow> 'a action" where
  "done_with r w = (r, w)"

text \<open>\<open>fmt.Errorf("...: %w", err)\<close> around an action, and an action whose error is a value.\<close>

definition wrapping :: "string \<Rightarrow> 'a action \<Rightarrow> 'a action" where
  "wrapping pre m w = (case m w of (Inl e, w') \<Rightarrow> (Inl (Wrap pre e ''''), w') | (Inr x, w') \<Rightarrow> (Inr x, w'))"

definition attempt :: "'a action \<Rightarrow> (error + 'a) action" where
  "attempt m w = (case m w of (r, w') \<Rightarrow> (Inr r, w'))"

text \<open>
  One call of the store: with a fault the database is unchanged, else the operation runs with the
  clock and the identifiers of the step.  A commit that took place although its acknowledgement was
  lost is not among the faults.
\<close>

definition store_call :: "worker_env \<Rightarrow> (time \<Rightarrow> (nat \<Rightarrow> uuid) \<Rightarrow> db \<Rightarrow> (error + 'a) \<times> db) \<Rightarrow> 'a action" where
  "store_call env f w =
     (case en_fault env (w_step w) of
        Some e \<Rightarrow> (Inl e, w\<lparr>w_step := w_step w + 1\<rparr>)
      | None \<Rightarrow>
          (case f (en_clock env (w_step w)) (en_fresh env (w_step w)) (w_db w) of
             (r, d) \<Rightarrow> (r, w\<lparr>w_db := d, w_step := w_step w + 1\<rparr>)))"

definition stmt_call :: "worker_env \<Rightarrow> (time \<Rightarrow> (nat \<Rightarrow> uuid) \<Rightarrow> db stmt) \<Rightarrow> unit action" where
  "stmt_call env c = store_call env (\<lambda>now ids d. case c now ids d of Inl e \<Rightarrow> (Inl e, d) | Inr d' \<Rightarrow> (Inr (), d'))"

definition op_call :: "worker_env \<Rightarrow> (time \<Rightarrow> (nat \<Rightarrow> uuid) \<Rightarrow> db \<Rightarrow> error + ('a \<times> db)) \<Rightarrow> 'a action" where
  "op_call env c =
     store_call env (\<lambda>now ids d. case c now ids d of Inl e \<Rightarrow> (Inl e, d) | Inr (x, d') \<Rightarrow> (Inr x, d'))"

definition query_call :: "worker_env \<Rightarrow> (time \<Rightarrow> db \<Rightarrow> error + 'a) \<Rightarrow> 'a action" where
  "query_call env q = store_call env (\<lambda>now ids d. (q now d, d))"

definition call_engine :: "worker_env \<Rightarrow> engine_call \<Rightarrow> unit action" where
  "call_engine env c w =
     (let trace = w_calls w @ [c] in
      (case en_engine env trace of None \<Rightarrow> Inr () | Some e \<Rightarrow> Inl e, w\<lparr>w_calls := trace\<rparr>))"

definition decoded :: "string \<Rightarrow> error + 'a \<Rightarrow> 'a action" where
  "decoded what r = wrapping (''decode '' @ what @ '' event: '') (done_with r)"

section \<open>Power and recovery\<close>

definition as_error :: "error + 'a \<Rightarrow> error option" where
  "as_error r = (case r of Inl e \<Rightarrow> Some e | Inr x \<Rightarrow> None)"

text \<open>The fields of a payload, decoded together: the first field that fails is the error.\<close>

fun strings_of :: "json \<Rightarrow> string list \<Rightarrow> error + string list" where
  "strings_of j [] = (case j of JObj kvs \<Rightarrow> Inr [] | JNull \<Rightarrow> Inr [] | _ \<Rightarrow> Inl decode_error)"
| "strings_of j (k # ks) =
     (case json_string j k of
        Inl e \<Rightarrow> Inl e
      | Inr s \<Rightarrow> (case strings_of j ks of Inl e \<Rightarrow> Inl e | Inr ss \<Rightarrow> Inr (s # ss)))"

definition handle_power :: "worker_env \<Rightarrow> outbox_event \<Rightarrow> unit action" where
  "handle_power env ev =
     andThen (decoded ''server power'' (strings_of (ob_payload ev) [''server_id'', ''operation_id'', ''action'']))
       (\<lambda>fields. let serverID = fields ! 0; operationID = fields ! 1; action = fields ! 2 in
          andThen (attempt (call_engine env (EPower serverID action))) (\<lambda>powerErr.
          wrapping ''finish server power action: ''
            (stmt_call env (\<lambda>now ids. FinishPower now serverID operationID action (as_error powerErr)))))"

definition recovery_payload :: "json \<Rightarrow> error + (uuid \<times> int)" where
  "recovery_payload j =
     (case json_string j ''server_id'' of
        Inl e \<Rightarrow> Inl e
      | Inr s \<Rightarrow> (case json_int j ''attempt'' of Inl e \<Rightarrow> Inl e | Inr n \<Rightarrow> Inr (s, n)))"

definition finish_recovery_event :: "worker_env \<Rightarrow> uuid \<Rightarrow> int \<Rightarrow> error + unit \<Rightarrow> unit action" where
  "finish_recovery_event env serverID n recoveryErr =
     andThen (wrapping ''verify server recovery intent: ''
         (query_call env (\<lambda>now d. Inr (RecoveryStillDesired serverID d))))
       (\<lambda>stillDesired.
          if \<not> stillDesired then
            (if recoveryErr = Inr () then
               wrapping ''stop cancelled server recovery: '' (call_engine env (EPower serverID ''stop''))
             else done_with (Inr ()))
          else wrapping ''finish server recovery: ''
            (stmt_call env (\<lambda>now ids. FinishRecovery now (ids 0) serverID n (as_error recoveryErr))))"

definition handle_recover :: "worker_env \<Rightarrow> outbox_event \<Rightarrow> unit action" where
  "handle_recover env ev =
     andThen (decoded ''server recovery'' (recovery_payload (ob_payload ev)))
       (\<lambda>(serverID, n).
          andThen (wrapping ''begin server recovery: ''
              (op_call env (\<lambda>now ids. BeginRecovery now serverID n)))
            (\<lambda>proceed.
               if \<not> proceed then done_with (Inr ())
               else andThen (attempt (call_engine env (EPower serverID ''start'')))
                 (finish_recovery_event env serverID n)))"

section \<open>Backups\<close>

definition handle_backup_create :: "worker_env \<Rightarrow> outbox_event \<Rightarrow> unit action" where
  "handle_backup_create env ev =
     andThen (decoded ''backup'' (json_string (ob_payload ev) ''backup_id'')) (\<lambda>backupID.
     andThen (query_call env (\<lambda>now. BackupJob backupID)) (\<lambda>job.
     andThen (wrapping ''mark backup running: '' (stmt_call env (\<lambda>now ids. MarkBackupRunning (bj_backup_id job)))) (\<lambda>_.
     andThen (attempt (call_engine env
         (ECreateBackup (bj_server_id job) (bj_backup_id job) (bj_include_path job) (bj_exclude_glob job))))
       (\<lambda>r. case r of
          Inl err \<Rightarrow>
            if ob_attempts ev < 3 then done_with (Inl err)
            else wrapping (''backup failed ('' @ error_text err @ '') and recording failure failed: '')
              (stmt_call env (\<lambda>now ids. MarkBackupFailed now (ids 0) job err))
        | Inr _ \<Rightarrow> (\<lambda>w. wrapping ''record backup success: ''
            (stmt_call env (\<lambda>now ids. MarkBackupSucceeded now (ids 0)
               (map ids [1 ..< 1 + length (backup_deliveries (w_db w))]) job (en_backup env (w_calls w)))) w)))))"

definition restore_job_of :: "json \<Rightarrow> error + backup_restore_job" where
  "restore_job_of j =
     (case strings_of j [''OperationID'', ''BackupID'', ''ServerID'', ''SHA256''] of
        Inl e \<Rightarrow> Inl e
      | Inr ss \<Rightarrow>
          (case json_bool j ''WasRunning'' of
             Inl e \<Rightarrow> Inl e
           | Inr b \<Rightarrow> Inr \<lparr> rj_operation_id = ss ! 0, rj_backup_id = ss ! 1, rj_server_id = ss ! 2,
                           rj_sha256 = ss ! 3, rj_was_running = b \<rparr>))"

definition restore_progress :: "worker_env \<Rightarrow> backup_restore_job \<Rightarrow> int \<Rightarrow> string \<Rightarrow> unit action" where
  "restore_progress env job progress message =
     stmt_call env (\<lambda>now ids. MarkBackupRestoreRunning now job progress message)"

text \<open>Starting the server again, whatever the restore gave; \<open>restoreErr\<close> is its error so far.\<close>

definition restart_after_restore :: "worker_env \<Rightarrow> backup_restore_job \<Rightarrow> error option \<Rightarrow> error option action" where
  "restart_after_restore env job restoreErr =
     (if \<not> rj_was_running job then done_with (Inr restoreErr)
      else
        andThen (attempt (restore_progress env job 85 ''Starting game server'')) (\<lambda>_.
        andThen (attempt (call_engine env (EPower (rj_server_id job) ''start''))) (\<lambda>r.
        done_with (Inr (case r of
            Inr _ \<Rightarrow> restoreErr
          | Inl startErr \<Rightarrow>
              Some (case restoreErr of
                None \<Rightarrow> Wrap ''files restored but server restart failed: '' startErr ''''
              | Some e \<Rightarrow> Wrap (error_text e @ ''; returning server to running state failed: '') startErr ''''))))))"

definition restore_files :: "worker_env \<Rightarrow> backup_restore_job \<Rightarrow> error option \<Rightarrow> error option action" where
  "restore_files env job stopErr =
     (case stopErr of
        Some e \<Rightarrow> done_with (Inr (Some e))
      | None \<Rightarrow>
          andThen (attempt (restore_progress env job 45 ''Verifying archive and restoring files'')) (\<lambda>r.
            case r of
              Inl e \<Rightarrow> done_with (Inr (Some e))
            | Inr _ \<Rightarrow> andThen (attempt (call_engine env
                  (ERestoreBackup (rj_server_id job) (rj_backup_id job) (rj_sha256 job))))
                (\<lambda>r. done_with (Inr (as_error r)))))"

definition handle_backup_restore :: "worker_env \<Rightarrow> outbox_event \<Rightarrow> unit action" where
  "handle_backup_restore env ev =
     andThen (decoded ''backup restore'' (restore_job_of (ob_payload ev))) (\<lambda>job.
     andThen (restore_progress env job 10 ''Preparing server for restore'') (\<lambda>_.
     andThen (if rj_was_running job then
                andThen (restore_progress env job 20 ''Stopping game server'') (\<lambda>_.
                andThen (attempt (call_engine env (EPower (rj_server_id job) ''stop''))) (\<lambda>r.
                done_with (Inr (as_error r))))
              else done_with (Inr None)) (\<lambda>stopErr.
     andThen (restore_files env job stopErr) (\<lambda>restoreErr.
     andThen (restart_after_restore env job restoreErr) (\<lambda>finalErr.
     stmt_call env (\<lambda>now ids. FinishBackupRestore (en_sanitize env) now (ids 0) job finalErr))))))"

definition finish_delivery ::
  "worker_env \<Rightarrow> backup_delivery_job \<Rightarrow> string \<Rightarrow> int \<Rightarrow> error option \<Rightarrow> unit action" where
  "finish_delivery env job status response err =
     stmt_call env (\<lambda>now ids.
       FinishBackupDelivery (en_sanitize env) now (ids 0) (dj_delivery_id job) status response err)"

definition deliver_backup :: "worker_env \<Rightarrow> backup_delivery_job \<Rightarrow> string \<Rightarrow> unit action" where
  "deliver_backup env job rawURL w =
     (let r = en_upload env (w_step w) job rawURL in
      case sr_error r of
        None \<Rightarrow> finish_delivery env job ''delivered'' (sr_status r) None w
      | Some deliveryErr \<Rightarrow>
          if sr_permanent r \<or> dj_attempts job \<ge> 10 then
            finish_delivery env job (if sr_status r = 413 then ''too_large'' else ''failed'')
              (sr_status r) (Some deliveryErr) w
          else andThen (attempt (finish_delivery env job ''queued'' (sr_status r) (Some deliveryErr)))
            (\<lambda>_. done_with (Inl (Retryable deliveryErr (sr_retry_after r)))) w)"

definition handle_backup_delivery :: "worker_env \<Rightarrow> outbox_event \<Rightarrow> unit action" where
  "handle_backup_delivery env ev =
     andThen (decoded ''backup delivery'' (json_string (ob_payload ev) ''delivery_id'')) (\<lambda>deliveryID.
     andThen (store_call env (\<lambda>now ids. BeginBackupDelivery now deliveryID)) (\<lambda>job.
     case en_open env (dj_url_encrypted job) (url_context (dj_destination_id job)) of
       Inl e \<Rightarrow> finish_delivery env job ''failed'' 0 (Some e)
     | Inr rawURL \<Rightarrow>
         andThen (attempt (call_engine env (EOpenBackup (dj_server_id job) (dj_backup_id job)))) (\<lambda>r.
           case r of
             Inl e \<Rightarrow>
               if dj_attempts job \<ge> 10 then finish_delivery env job ''failed'' 0 (Some e)
               else andThen (attempt (finish_delivery env job ''queued'' 0 (Some e))) (\<lambda>_. done_with (Inl e))
           | Inr _ \<Rightarrow> deliver_backup env job rawURL)))"

section \<open>Schedules\<close>

text \<open>
  \<open>[]rune(s)\<close> for valid UTF-8: every byte that is not a continuation byte starts a rune; a rune
  is kept as its bytes.
\<close>

function runes :: "string \<Rightarrow> string list" where
  "runes [] = []"
| "runes (c # cs) = (c # takeWhile is_continuation cs) # runes (dropWhile is_continuation cs)"
  by pat_completeness auto

termination runes
  by (relation "measure length") (auto simp: length_dropWhile_le le_imp_less_Suc)

declare runes.simps(2) [simp del]

definition scheduledBackupName :: "worker_env \<Rightarrow> string \<Rightarrow> time \<Rightarrow> string \<Rightarrow> string" where
  "scheduledBackupName env namePrefix plannedFor timezone =
     (let stamp = en_stamp env timezone plannedFor;
          sfx = '' - '' @ stamp;
          prefixRunes = runes (trim_space namePrefix);
          maximumPrefix = 120 - int (length (runes sfx)) in
      if maximumPrefix < 1 then stamp
      else concat (if int (length prefixRunes) > maximumPrefix
                   then take (nat maximumPrefix) prefixRunes else prefixRunes) @ sfx)"

record backup_config =
  bc_name :: string
  bc_include_paths :: "string list"
  bc_exclude_globs :: "string list"
  bc_retention_days :: "int option"

definition backup_config_of :: "json \<Rightarrow> error + backup_config" where
  "backup_config_of j =
     (case (json_string j ''name'', json_strings j ''include_paths'', json_strings j ''exclude_globs'',
            json_int_opt j ''retention_days'') of
        (Inr n, Inr inc, Inr exc, Inr r) \<Rightarrow> Inr \<lparr> bc_name = n, bc_include_paths = inc,
          bc_exclude_globs = exc, bc_retention_days = r \<rparr>
      | _ \<Rightarrow> Inl decode_error)"

text \<open>\<open>%q\<close> of a text without special characters.\<close>

definition quoted :: "string \<Rightarrow> string" where "quoted s = [CHR 0x22] @ s @ [CHR 0x22]"

definition deadline_exceeded :: error where
  "deadline_exceeded = Message ''context deadline exceeded''"

text \<open>The timeout of a task; a deadline within a call of the store or the engine is one of its
  faults.\<close>

definition task_timeout :: "schedule_task \<Rightarrow> duration" where
  "task_timeout t =
     (let d = ta_timeout_seconds t * second in if d \<le> 0 then 5 * minute else d)"

definition create_scheduled_backup :: "worker_env \<Rightarrow> schedule_run_job \<Rightarrow> backup_config \<Rightarrow> unit action" where
  "create_scheduled_backup env job config w =
     andThen (op_call env (\<lambda>now ids. CreateBackup now (ids 0) (ids 1) (ids 2)
       (map ids [3 ..< 3 + length (webhook_destinations (w_db w))]) (sj_server_id job) (sj_actor_id job)
       (scheduledBackupName env (bc_name config) (sj_planned_for job) (sj_timezone job))
       (bc_include_paths config) (bc_exclude_globs config) (bc_retention_days config)))
     (\<lambda>_. done_with (Inr ())) w"

definition executeScheduleTask :: "worker_env \<Rightarrow> schedule_run_job \<Rightarrow> schedule_task \<Rightarrow> unit action" where
  "executeScheduleTask env job t =
     (if ta_task_type t = ''backup'' then
        (case backup_config_of (ta_config t) of
           Inl e \<Rightarrow> done_with (Inl e)
         | Inr config \<Rightarrow> create_scheduled_backup env job config)
      else if ta_task_type t = ''power'' then
        (case json_string (ta_config t) ''action'' of
           Inl e \<Rightarrow> done_with (Inl e)
         | Inr action \<Rightarrow>
             andThen (op_call env (\<lambda>now ids. RequestPower now (ids 0) (ids 1) (ids 2) (ids 3)
               (sj_server_id job) (sj_actor_id job) action)) (\<lambda>_. done_with (Inr ())))
      else if ta_task_type t = ''command'' then
        (case json_string (ta_config t) ''command'' of
           Inl e \<Rightarrow> done_with (Inl e)
         | Inr command \<Rightarrow>
             andThen (call_engine env (ECommand (sj_server_id job) command)) (\<lambda>_.
             stmt_call env (\<lambda>now ids. RecordConsoleCommand now (ids 0) (sj_server_id job) (sj_actor_id job)
               (length command))))
      else if ta_task_type t = ''delay'' then
        (case json_int (ta_config t) ''seconds'' of
           Inl e \<Rightarrow> done_with (Inl e)
         | Inr n \<Rightarrow>
             done_with (if n * second < task_timeout t \<or> (n * second = task_timeout t \<and> en_timer_first env)
                        then Inr () else Inl deadline_exceeded))
      else if ta_task_type t = ''notify'' then
        (case json_string (ta_config t) ''message'' of
           Inl e \<Rightarrow> done_with (Inl e)
         | Inr message \<Rightarrow>
             stmt_call env (\<lambda>now ids. RecordScheduleNotification now (ids 0) (sj_server_id job)
               (sj_actor_id job) (sj_schedule_id job) message))
      else done_with (Inl (Message (''unsupported schedule task '' @ quoted (ta_task_type t)))))"

fun executeTasks :: "worker_env \<Rightarrow> schedule_run_job \<Rightarrow> schedule_task list \<Rightarrow> unit action" where
  "executeTasks env job [] w = (Inr (), w)"
| "executeTasks env job (t # ts) w =
     (case executeScheduleTask env job t w of
        (Inl e, w') \<Rightarrow>
          (Inl (Wrap (''task '' @ itoa (ta_position t + 1) @ '' ('' @ ta_task_type t @ ''): '') e ''''), w')
      | (Inr _, w') \<Rightarrow> executeTasks env job ts w')"

definition executeSchedule :: "worker_env \<Rightarrow> schedule_run_job \<Rightarrow> unit action" where
  "executeSchedule env job = executeTasks env job (sj_tasks job)"

definition handle_schedule_run :: "worker_env \<Rightarrow> outbox_event \<Rightarrow> unit action" where
  "handle_schedule_run env ev =
     andThen (decoded ''schedule run'' (json_string (ob_payload ev) ''run_id'')) (\<lambda>runID.
     andThen (store_call env (\<lambda>now ids. ScheduleRunJob now runID)) (\<lambda>job.
     andThen (attempt (executeSchedule env job)) (\<lambda>runErr.
     wrapping ''finish schedule run: ''
       (stmt_call env (\<lambda>now ids. FinishScheduleRun now (ids 0) job (as_error runErr))))))"

section \<open>The dispatcher\<close>

text \<open>
  The handlers of the two topics that also assemble a container configuration are arguments here;
  they are defined in \<open>Runtime_Handlers\<close>, where the dispatcher is completed.
\<close>

definition handle ::
  "(outbox_event \<Rightarrow> unit action) \<Rightarrow> (outbox_event \<Rightarrow> unit action) \<Rightarrow> worker_env \<Rightarrow> outbox_event \<Rightarrow> unit action" where
  "handle provision update env ev =
     (if ob_topic ev = ''noop'' then done_with (Inr ())
      else if ob_topic ev = ''server.provision'' then provision ev
      else if ob_topic ev = ''server.power'' then handle_power env ev
      else if ob_topic ev = ''server.recover'' then handle_recover env ev
      else if ob_topic ev = ''server.template_update'' then update ev
      else if ob_topic ev = ''backup.create'' then handle_backup_create env ev
      else if ob_topic ev = ''backup.restore'' then handle_backup_restore env ev
      else if ob_topic ev = ''backup.discord_delivery'' then handle_backup_delivery env ev
      else if ob_topic ev = ''schedule.run'' then handle_schedule_run env ev
      else done_with (Inl (Message (''no handler registered for topic '' @ quoted (ob_topic ev)))))"

section \<open>Retention\<close>

text \<open>
  The loop of \<open>expireBackups\<close>: a backup whose deletion cannot begin is left for later; when its
  file cannot be deleted the row goes back to its previous state and the pass ends.
\<close>

fun expire_loop :: "worker_env \<Rightarrow> (uuid \<times> uuid) list \<Rightarrow> unit action" where
  "expire_loop env [] w = (Inr (), w)"
| "expire_loop env ((backupID, serverID) # rest) w =
     (case op_call env (\<lambda>now ids. BeginBackupDeletion serverID backupID) w of
        (Inl e, w1) \<Rightarrow> if error_is e ErrConflict then expire_loop env rest w1 else (Inl e, w1)
      | (Inr previous, w1) \<Rightarrow>
          (case call_engine env (EDeleteBackup serverID backupID) w1 of
             (Inl e, w2) \<Rightarrow>
               (Inl e, snd (stmt_call env (\<lambda>now ids. CancelBackupDeletion serverID backupID previous) w2))
           | (Inr _, w2) \<Rightarrow>
               (case stmt_call env (\<lambda>now ids. DeleteBackupRecord now (ids 0) serverID backupID '''') w2 of
                  (Inl e, w3) \<Rightarrow> (Inl e, w3)
                | (Inr _, w3) \<Rightarrow> expire_loop env rest w3)))"

definition expireBackups :: "worker_env \<Rightarrow> unit action" where
  "expireBackups env =
     andThen (query_call env (\<lambda>now d. Inr (ExpiredBackups now 20 d))) (expire_loop env)"

text \<open>The three DELETE statements of \<open>cleanup\<close>.\<close>

definition cleanup :: "time \<Rightarrow> db stmt" where
  "cleanup now d = Inr (d\<lparr>
     oauth_states := del (\<lambda>r. oa_expires_at r < now - days 1) (oauth_states d),
     sessions := del (\<lambda>r. (case se_revoked_at r of None \<Rightarrow> se_absolute_expires_at r | Some t \<Rightarrow> t)
                          < now - days 30) (sessions d),
     operation_log := del (\<lambda>r. lo_observed_at r < now - days 30) (operation_log d)\<rparr>)"

section \<open>What the handlers keep\<close>

definition keeps :: "(db \<Rightarrow> bool) \<Rightarrow> 'a action \<Rightarrow> bool" where
  "keeps i m \<longleftrightarrow> (\<forall>w. i (w_db w) \<longrightarrow> i (w_db (snd (m w))))"

named_theorems keeps_intros "rules for the invariants of actions"

lemma keepsD: "keeps i m \<Longrightarrow> i (w_db w) \<Longrightarrow> i (w_db (snd (m w)))"
  by (simp add: keeps_def)

lemma keeps_andThen [keeps_intros]: "keeps i m \<Longrightarrow> (\<And>x. keeps i (k x)) \<Longrightarrow> keeps i (andThen m k)"
  unfolding keeps_def andThen_def by (auto split: prod.splits sum.splits)

lemma keeps_done_with [keeps_intros]: "keeps i (done_with r)"
  by (simp add: keeps_def done_with_def)

lemma keeps_wrapping [keeps_intros]: "keeps i m \<Longrightarrow> keeps i (wrapping pre m)"
  unfolding keeps_def wrapping_def by (auto split: prod.splits sum.splits)

lemma keeps_attempt [keeps_intros]: "keeps i m \<Longrightarrow> keeps i (attempt m)"
  unfolding keeps_def attempt_def by (auto split: prod.splits)

lemma keeps_decoded [keeps_intros]: "keeps i (decoded what r)"
  unfolding decoded_def by (intro keeps_intros)

lemma keeps_engine_call [keeps_intros]: "keeps i (call_engine env c)"
  by (simp add: keeps_def call_engine_def Let_def)

lemma keeps_store_call [keeps_intros]:
  assumes "\<And>now ids d. i d \<Longrightarrow> i (snd (f now ids d))"
  shows "keeps i (store_call env f)"
  unfolding keeps_def
proof (intro allI impI)
  fix w :: world assume "i (w_db w)"
  with assms [of "w_db w" "en_clock env (w_step w)" "en_fresh env (w_step w)"]
  show "i (w_db (snd (store_call env f w)))"
    by (auto simp: store_call_def split: option.splits prod.splits)
qed

lemma keeps_stmt_call [keeps_intros]:
  "(\<And>now ids. preserves i (c now ids)) \<Longrightarrow> keeps i (stmt_call env c)"
  unfolding stmt_call_def by (rule keeps_store_call) (auto split: sum.splits dest: preservesD)

lemma keeps_op_call [keeps_intros]:
  "(\<And>now ids. preserves_op i (c now ids)) \<Longrightarrow> keeps i (op_call env c)"
  unfolding op_call_def by (rule keeps_store_call) (auto split: sum.splits dest: preserves_opD)

lemma keeps_query_call [keeps_intros]: "keeps i (query_call env q)"
  unfolding query_call_def by (rule keeps_store_call) simp

lemma keeps_if [keeps_intros]: "keeps i a \<Longrightarrow> keeps i b \<Longrightarrow> keeps i (if c then a else b)"
  by simp

lemma keeps_sum [keeps_intros]:
  "(\<And>e. keeps i (f e)) \<Longrightarrow> (\<And>x. keeps i (g x)) \<Longrightarrow> keeps i (case r of Inl e \<Rightarrow> f e | Inr x \<Rightarrow> g x)"
  by (cases r) auto

lemma keeps_option [keeps_intros]:
  "keeps i f \<Longrightarrow> (\<And>x. keeps i (g x)) \<Longrightarrow> keeps i (case r of None \<Rightarrow> f | Some x \<Rightarrow> g x)"
  by (cases r) auto

lemma keeps_prod [keeps_intros]: "(\<And>x y. keeps i (f x y)) \<Longrightarrow> keeps i (case p of (x, y) \<Rightarrow> f x y)"
  by (cases p) auto

lemma keeps_world: "(\<And>w0. keeps i (c w0)) \<Longrightarrow> keeps i (\<lambda>w. c w w)"
  by (simp add: keeps_def)

section \<open>The store as the worker uses it\<close>

text \<open>
  The operations of the store the handlers call, each with the law that it keeps \<open>inv\<close>; then every
  handler keeps \<open>inv\<close>, whatever the clock, the engine and the faults of the connection do.
\<close>

locale store_contract =
  fixes inv :: "db \<Rightarrow> bool"
  assumes finish_power: "preserves inv (FinishPower now s opn a err)"
    and request_power: "preserves_op inv (RequestPower now opn key ac ob s actor a)"
    and begin_recovery: "preserves_op inv (BeginRecovery now s n)"
    and finish_recovery: "preserves inv (FinishRecovery now ev s n err)"
    and create_backup: "preserves_op inv (CreateBackup now b ob ev bids s actor name inc exc rd)"
    and mark_running: "preserves inv (MarkBackupRunning b)"
    and mark_succeeded: "preserves inv (MarkBackupSucceeded now ev obs job res)"
    and mark_failed: "preserves inv (MarkBackupFailed now ev job e)"
    and restore_running: "0 \<le> n \<Longrightarrow> n \<le> 100 \<Longrightarrow> preserves inv (MarkBackupRestoreRunning now rj n m)"
    and finish_restore: "preserves inv (FinishBackupRestore sn now ev rj err)"
    and begin_delivery: "inv d \<Longrightarrow> inv (snd (BeginBackupDelivery now di d))"
    and finish_delivery: "st \<in> {''queued'', ''delivered'', ''too_large'', ''failed''} \<Longrightarrow>
          preserves inv (FinishBackupDelivery sn now ev di st rs err)"
    and run_job: "inv d \<Longrightarrow> inv (snd (ScheduleRunJob now ri d))"
    and finish_run: "preserves inv (FinishScheduleRun now ev sj err)"
    and console_command: "preserves inv (RecordConsoleCommand now ev s actor len)"
    and notification: "preserves inv (RecordScheduleNotification now ev s actor sc msg)"
    and begin_deletion: "preserves_op inv (BeginBackupDeletion s b)"
    and cancel_deletion: "preserves inv (CancelBackupDeletion s b prev)"
    and delete_record: "preserves inv (DeleteBackupRecord now ev s b actor)"
begin

lemmas laws = finish_power request_power begin_recovery finish_recovery create_backup mark_running
  mark_succeeded mark_failed finish_restore run_job finish_run console_command notification

lemma power_keeps: "keeps inv (handle_power env ev)"
  unfolding handle_power_def Let_def by (intro keeps_intros laws)

lemma recover_keeps: "keeps inv (handle_recover env ev)"
  unfolding handle_recover_def finish_recovery_event_def by (intro keeps_intros laws)

lemma backup_create_keeps: "keeps inv (handle_backup_create env ev)"
proof -
  have "keeps inv (\<lambda>w. wrapping pre (stmt_call env (\<lambda>now ids. MarkBackupSucceeded now (ids 0)
      (f ids w) job (g w))) w)" for pre f g job
    by (rule keeps_world [where c = "\<lambda>w. wrapping pre (stmt_call env (\<lambda>now ids. MarkBackupSucceeded now (ids 0)
      (f ids w) job (g w)))"]) (intro keeps_intros laws)
  then show ?thesis unfolding handle_backup_create_def by (intro keeps_intros laws)
qed

lemma restore_progress_keeps: "0 \<le> n \<Longrightarrow> n \<le> 100 \<Longrightarrow> keeps inv (restore_progress env job n m)"
  unfolding restore_progress_def by (intro keeps_intros restore_running)

lemma backup_restore_keeps: "keeps inv (handle_backup_restore env ev)"
  unfolding handle_backup_restore_def restore_files_def restart_after_restore_def
  by (intro keeps_intros laws restore_progress_keeps) simp_all

lemma finish_delivery_keeps:
  "st \<in> {''queued'', ''delivered'', ''too_large'', ''failed''} \<Longrightarrow>
   keeps inv (finish_delivery env job st rs err)"
  unfolding finish_delivery_def by (intro keeps_intros finish_delivery)

lemma deliver_backup_keeps: "keeps inv (deliver_backup env job url)"
proof -
  have "keeps inv (\<lambda>w. case sr_error (r w) of
      None \<Rightarrow> finish_delivery env job ''delivered'' (sr_status (r w)) None w
    | Some e \<Rightarrow> if sr_permanent (r w) \<or> dj_attempts job \<ge> 10
        then finish_delivery env job (if sr_status (r w) = 413 then ''too_large'' else ''failed'')
          (sr_status (r w)) (Some e) w
        else andThen (attempt (finish_delivery env job ''queued'' (sr_status (r w)) (Some e)))
          (\<lambda>_. done_with (Inl (Retryable e (sr_retry_after (r w))))) w)" for r
    unfolding keeps_def
    by (auto split: option.splits intro!: keepsD [OF finish_delivery_keeps]
      keepsD [OF keeps_andThen [OF keeps_attempt [OF finish_delivery_keeps] keeps_done_with]])
  then show ?thesis unfolding deliver_backup_def [abs_def] Let_def .
qed

lemma backup_delivery_keeps: "keeps inv (handle_backup_delivery env ev)"
  unfolding handle_backup_delivery_def
  by (intro keeps_intros begin_delivery deliver_backup_keeps finish_delivery_keeps) simp_all

lemma create_scheduled_backup_keeps: "keeps inv (create_scheduled_backup env job config)"
  unfolding create_scheduled_backup_def [abs_def]
  by (rule keeps_world [where c = "\<lambda>w. andThen (op_call env (\<lambda>now ids. CreateBackup now (ids 0) (ids 1) (ids 2)
       (map ids [3 ..< 3 + length (webhook_destinations (w_db w))]) (sj_server_id job) (sj_actor_id job)
       (scheduledBackupName env (bc_name config) (sj_planned_for job) (sj_timezone job))
       (bc_include_paths config) (bc_exclude_globs config) (bc_retention_days config)))
     (\<lambda>_. done_with (Inr ()))"]) (intro keeps_intros laws)

lemma task_keeps: "keeps inv (executeScheduleTask env job t)"
  unfolding executeScheduleTask_def by (intro keeps_intros laws create_scheduled_backup_keeps)

lemma tasks_keep: "keeps inv (executeTasks env job ts)"
proof (induction ts)
  case Nil
  then show ?case by (simp add: keeps_def)
next
  case (Cons t ts)
  show ?case
    unfolding keeps_def
  proof (intro allI impI)
    fix w :: world assume "inv (w_db w)"
    then have "inv (w_db (snd (executeScheduleTask env job t w)))" by (rule keepsD [OF task_keeps])
    then show "inv (w_db (snd (executeTasks env job (t # ts) w)))"
      using Cons.IH by (auto simp: keeps_def split: prod.splits sum.splits)
  qed
qed

lemma schedule_run_keeps: "keeps inv (handle_schedule_run env ev)"
  unfolding handle_schedule_run_def executeSchedule_def by (intro keeps_intros laws tasks_keep)

lemma handle_keeps:
  assumes "\<And>ev. keeps inv (provision ev)" and "\<And>ev. keeps inv (update ev)"
  shows "keeps inv (handle provision update env ev)"
  unfolding handle_def
  by (intro keeps_intros assms power_keeps recover_keeps backup_create_keeps backup_restore_keeps
      backup_delivery_keeps schedule_run_keeps)

lemma expire_loop_keeps: "keeps inv (expire_loop env items)"
proof (induction items)
  case Nil
  then show ?case by (simp add: keeps_def)
next
  case (Cons x items)
  obtain b s where x: "x = (b, s)" by (cases x)
  have first: "keeps inv (op_call env (\<lambda>now ids. BeginBackupDeletion s b))"
    and cancel: "\<And>prev. keeps inv (stmt_call env (\<lambda>now ids. CancelBackupDeletion s b prev))"
    and remove: "keeps inv (stmt_call env (\<lambda>now ids. DeleteBackupRecord now (ids 0) s b ''''))"
    by (intro keeps_intros begin_deletion cancel_deletion delete_record)+
  show ?case
    unfolding keeps_def
  proof (intro allI impI)
    fix w :: world assume "inv (w_db w)"
    then have "inv (w_db (snd (op_call env (\<lambda>now ids. BeginBackupDeletion s b) w)))"
      by (rule keepsD [OF first])
    then show "inv (w_db (snd (expire_loop env (x # items) w)))"
      using Cons.IH cancel remove keeps_engine_call [of inv env "EDeleteBackup s b"]
      by (auto simp: keeps_def x split: prod.splits sum.splits)
  qed
qed

lemma expireBackups_keeps: "keeps inv (expireBackups env)"
  unfolding expireBackups_def by (intro keeps_intros expire_loop_keeps)

end

interpretation integrity: store_contract db_ok
  by unfold_locales
    (rule FinishPower_ok RequestPower_ok BeginRecovery_ok FinishRecovery_ok
      CreateBackup_ok MarkBackupRunning_ok MarkBackupSucceeded_ok MarkBackupFailed_ok
      MarkBackupRestoreRunning_ok FinishBackupRestore_ok BeginBackupDelivery_ok FinishBackupDelivery_ok
      ScheduleRunJob_ok FinishScheduleRun_ok RecordConsoleCommand_ok RecordScheduleNotification_ok
      BeginBackupDeletion_ok CancelBackupDeletion_ok DeleteBackupRecord_ok | assumption)+

interpretation evolution: store_contract "evolves d0" for d0
  by unfold_locales
    (rule FinishPower_evolves RequestPower_evolves
      BeginRecovery_evolves FinishRecovery_evolves CreateBackup_evolves MarkBackupRunning_evolves
      MarkBackupSucceeded_evolves MarkBackupFailed_evolves MarkBackupRestoreRunning_evolves
      FinishBackupRestore_evolves BeginBackupDelivery_evolves FinishBackupDelivery_evolves
      ScheduleRunJob_evolves FinishScheduleRun_evolves RecordConsoleCommand_evolves
      RecordScheduleNotification_evolves BeginBackupDeletion_evolves CancelBackupDeletion_evolves
      DeleteBackupRecord_evolves | assumption)+

end
