(* ===== verification/Configuration_Commits.thy ===== *)
theory Configuration_Commits
  imports Configuration Evolution
begin

text \<open>
  The transactions of \<open>internal/store/configuration.go\<close> that change a stopped server: its startup
  configuration, its ports, its settings.  Each names the version it was prepared for, and takes
  effect only while the server still has that version.
\<close>

section \<open>The guard\<close>

definition editable :: "uuid \<Rightarrow> int \<Rightarrow> server \<Rightarrow> bool" where
  "editable serverID version s \<longleftrightarrow>
     sv_id s = serverID \<and> sv_version s = version \<and> sv_status s = ''stopped'' \<and> sv_deleted_at s = None"

text \<open>\<open>UPDATE servers SET ... WHERE id = $1 AND version = $2 ...\<close> with its check of the affected rows.\<close>

definition update_version :: "uuid \<Rightarrow> int \<Rightarrow> time \<Rightarrow> (server \<Rightarrow> server) \<Rightarrow> db stmt" where
  "update_version serverID version now set_columns = exec [
     require (\<lambda>d. affected (editable serverID version) (servers d) = 1) ErrConflict,
     checked_update_servers (editable serverID version)
       (\<lambda>s. (set_columns s)\<lparr>sv_version := sv_version s + 1, sv_updated_at := now\<rparr>)]"

definition addConfigurationActivity ::
  "uuid \<Rightarrow> time \<Rightarrow> uuid \<Rightarrow> uuid \<Rightarrow> string \<Rightarrow> string \<Rightarrow> json \<Rightarrow> db stmt" where
  "addConfigurationActivity eventID now serverID actorID eventType summary data =
     insert_activity (activity_row eventID now (Some serverID) (Some actorID) eventType ''info'' summary data)"

section \<open>Startup\<close>

definition definition_row :: "uuid \<Rightarrow> nat \<Rightarrow> configuration_variable \<Rightarrow> variable_definition" where
  "definition_row serverID position v = \<lparr> vd_server_id = serverID, vd_environment = cv_name v,
     vd_display_name = cv_display_name v, vd_description = cv_description v,
     vd_default_value = (if cv_secret v then [] else cv_default_value v),
     vd_user_viewable = cv_user_viewable v, vd_user_editable = cv_user_editable v,
     vd_rules = cv_rules v, vd_field_type = cv_field_type v, vd_secret = cv_secret v,
     vd_position = int position \<rparr>"

definition is_secret :: "(string \<times> bool) list \<Rightarrow> string \<Rightarrow> bool" where
  "is_secret secretNames name \<longleftrightarrow> map_of secretNames name = Some True"

definition commit_variable ::
  "(string \<Rightarrow> string \<Rightarrow> error + string) \<Rightarrow> (string \<times> bool) list \<Rightarrow> uuid \<Rightarrow> string \<times> string \<Rightarrow> db stmt" where
  "commit_variable seal secretNames serverID change d =
     (case change of (name, value) \<Rightarrow>
        if is_secret secretNames name then
          (case seal value (serverID @ '':'' @ name) of
             Inl e \<Rightarrow> Inl e
           | Inr c \<Rightarrow> upsert_variable \<lparr> va_server_id = serverID, va_name = name, va_value_text = None,
               va_value_encrypted = Some c, va_is_secret = True \<rparr> d)
        else upsert_variable \<lparr> va_server_id = serverID, va_name = name, va_value_text = Some value,
               va_value_encrypted = None, va_is_secret = False \<rparr> d)"

definition CommitStartupConfiguration ::
  "(string \<Rightarrow> string \<Rightarrow> error + string) \<Rightarrow> time \<Rightarrow> uuid \<Rightarrow> uuid \<Rightarrow> uuid \<Rightarrow> int \<Rightarrow> string \<Rightarrow> string option \<Rightarrow>
   (string \<times> string) list \<Rightarrow> (string \<times> bool) list \<Rightarrow> configuration_variable list \<Rightarrow> string \<Rightarrow> db stmt" where
  "CommitStartupConfiguration seal now eventID serverID actorID expectedVersion img override changes
     secretNames customDefinitions containerID =
     (let names = sort (map fst changes) in
      exec [
        update_version serverID expectedVersion now
          (\<lambda>s. s\<lparr>sv_image_reference := img, sv_startup_override := override,
                 sv_container_id := Some containerID\<rparr>),
        delete_variable_definitions (\<lambda>r. vd_server_id r = serverID),
        for_each (\<lambda>(position, v). insert_variable_definition (definition_row serverID position v))
          (List.enumerate 0 customDefinitions),
        for_each (commit_variable seal secretNames serverID) (sort_key fst changes),
        addConfigurationActivity eventID now serverID actorID ''server.startup.updated''
          ''Server startup configuration updated''
          (JObj [(''image'', JStr img), (''variables_changed'', JArr (map JStr names)),
                 (''custom_startup'', JBool (override \<noteq> None))])])"

section \<open>Ports\<close>

definition taken_by_another :: "uuid \<Rightarrow> port_request \<Rightarrow> db \<Rightarrow> bool" where
  "taken_by_another serverID port d \<longleftrightarrow>
     (\<exists>r \<in> set (server_ports d). po_server_id r \<noteq> serverID \<and> po_host_port r = pq_host_port port \<and>
        po_protocol r = pq_protocol port)"

definition check_port_free :: "uuid \<Rightarrow> port_request \<Rightarrow> db stmt" where
  "check_port_free serverID port = require (\<lambda>d. \<not> taken_by_another serverID port d)
     (Wrap (''host port '' @ itoa (pq_host_port port) @ ''/'' @ pq_protocol port @ '' is already allocated: '')
       ErrConflict '''')"

definition allocation_row :: "uuid \<Rightarrow> uuid \<Rightarrow> port_request \<Rightarrow> server_port" where
  "allocation_row i serverID port = \<lparr> po_id = i, po_server_id = serverID,
     po_bind_address = pq_bind_address port, po_host_port = pq_host_port port,
     po_container_port = pq_container_port port, po_protocol = pq_protocol port,
     po_purpose = nullif_empty (pq_purpose port), po_environment = nullif_empty (pq_environment port),
     po_is_primary = pq_is_primary port \<rparr>"

text \<open>A port without an identifier draws a fresh one.\<close>

definition insert_allocation :: "uuid \<Rightarrow> port_request \<Rightarrow> (db \<times> uuid list) stmt" where
  "insert_allocation serverID port =
     (if pq_id port = [] then with_id (\<lambda>i. insert_port (allocation_row i serverID port))
      else lift_stmt (insert_port (allocation_row (pq_id port) serverID port)))"

definition CommitServerPorts ::
  "time \<Rightarrow> uuid list \<Rightarrow> uuid \<Rightarrow> uuid \<Rightarrow> uuid \<Rightarrow> int \<Rightarrow> port_request list \<Rightarrow> string \<Rightarrow> db stmt" where
  "CommitServerPorts now ids eventID serverID actorID expectedVersion ports containerID d =
     state_of (exec [
       for_each (\<lambda>p. lift_stmt (check_port_free serverID p)) ports,
       lift_stmt (update_version serverID expectedVersion now (\<lambda>s. s\<lparr>sv_container_id := Some containerID\<rparr>)),
       lift_stmt (delete_ports (\<lambda>r. po_server_id r = serverID)),
       for_each (insert_allocation serverID) ports,
       lift_stmt (addConfigurationActivity eventID now serverID actorID ''server.network.updated''
         ''Server network allocations updated'' (JObj [(''port_count'', JNum (int (length ports)))]))]
       (d, ids))"

section \<open>Settings\<close>

definition CommitServerSettings ::
  "time \<Rightarrow> uuid \<Rightarrow> uuid \<Rightarrow> uuid \<Rightarrow> int \<Rightarrow> string \<Rightarrow> string \<Rightarrow> server_resources \<Rightarrow> string \<Rightarrow> db stmt" where
  "CommitServerSettings now eventID serverID actorID expectedVersion name description res containerID =
     exec [
       update_version serverID expectedVersion now
         (\<lambda>s. s\<lparr>sv_name := name, sv_description := description, sv_container_id := Some containerID\<rparr>),
       checked_update_resources (\<lambda>r. rs_server_id r = serverID) (\<lambda>r. res\<lparr>rs_server_id := serverID\<rparr>),
       addConfigurationActivity eventID now serverID actorID ''server.settings.updated''
         ''Server settings and resource limits updated'' (JObj [(''name'', JStr name)])]"

section \<open>They keep the integrity of the database\<close>

lemma update_version_ok:
  assumes "\<And>s. sv_id (f s) = sv_id s"
  shows "preserves db_ok (update_version serverID v now f)"
  unfolding update_version_def
  by (rule preserves_exec) (auto intro!: require_keeps checked_update_servers_ok simp: editable_def assms)

lemma commit_variable_keeps:
  "(\<And>r. preserves i (upsert_variable r)) \<Longrightarrow> preserves i (commit_variable seal secretNames s change)"
  unfolding commit_variable_def
  by (rule preserves_by_sat) (auto intro!: preserves_sat split: prod.splits sum.splits)

lemma CommitStartupConfiguration_ok:
  "preserves db_ok (CommitStartupConfiguration seal now ev s actor v img override changes secrets defs c)"
  unfolding CommitStartupConfiguration_def Let_def addConfigurationActivity_def
  by (rule preserves_exec)
    (auto intro!: keeps_ok update_version_ok preserves_for_each commit_variable_keeps)

lemma insert_allocation_keeps:
  "(\<And>r. preserves i (insert_port r)) \<Longrightarrow> preserves (\<lambda>p. i (fst p)) (insert_allocation s port)"
  unfolding insert_allocation_def by (auto intro!: preserves_lift preserves_with_id)

lemma CommitServerPorts_ok:
  "preserves db_ok (CommitServerPorts now ids ev s actor v ports c)"
proof (rule preserves_by_sat)
  fix d assume "db_ok d"
  then show "sat db_ok (CommitServerPorts now ids ev s actor v ports c d)"
    unfolding CommitServerPorts_def sat_state_of check_port_free_def addConfigurationActivity_def
    by (intro sat_exec)
      (auto intro!: preserves_for_each preserves_lift insert_allocation_keeps update_version_ok keeps_ok)
qed

lemma CommitServerSettings_ok:
  "preserves db_ok (CommitServerSettings now ev s actor v name description res c)"
  unfolding CommitServerSettings_def addConfigurationActivity_def
  by (rule preserves_exec) (auto intro!: keeps_ok update_version_ok)

section \<open>How they change servers and ports\<close>

lemma update_version_evolves:
  assumes "\<And>s. sv_id (f s) = sv_id s" "\<And>s. sv_deleted_at (f s) = sv_deleted_at s"
    "\<And>s. sv_missing_container_observations (f s) = sv_missing_container_observations s"
  shows "preserves (evolves d0) (update_version serverID v now f)"
  unfolding update_version_def
  by (rule preserves_exec) (auto intro!: keeps_evolving row_step_keep simp: assms)

lemma CommitStartupConfiguration_evolves:
  "preserves (evolves d0) (CommitStartupConfiguration seal now ev s actor v img override changes secrets defs c)"
  unfolding CommitStartupConfiguration_def Let_def addConfigurationActivity_def
  by (rule preserves_exec)
    (auto intro!: keeps_evolving update_version_evolves preserves_for_each commit_variable_keeps)

lemma CommitServerSettings_evolves:
  "preserves (evolves d0) (CommitServerSettings now ev s actor v name description res c)"
  unfolding CommitServerSettings_def addConfigurationActivity_def
  by (rule preserves_exec) (auto intro!: keeps_evolving update_version_evolves)

lemma frames_update_version [simp]: "frames server_ports (update_version s v now f)"
  by (auto simp: frames_def update_version_def exec_Cons_Inr require_def checked_update_servers_def
      split: if_splits)

lemma check_port_free_Inr: "check_port_free s p d = Inr d' \<longleftrightarrow> d' = d \<and> \<not> taken_by_another s p d"
  by (auto simp: check_port_free_def require_def)

lemma ports_checked:
  "for_each (\<lambda>p. lift_stmt (check_port_free s p)) ports (d, ids) = Inr p' \<Longrightarrow>
   p' = (d, ids) \<and> (\<forall>p \<in> set ports. \<not> taken_by_another s p d)"
  by (induction ports) (auto simp: lift_stmt_def check_port_free_Inr split: sum.splits)

lemma insert_allocation_InrD:
  "insert_allocation s port p = Inr p' \<Longrightarrow>
   \<exists>i. server_ports (fst p') = server_ports (fst p) @ [allocation_row i s port]"
  by (auto simp: insert_allocation_def with_id_def lift_stmt_def insert_port_def
      split: if_splits prod.splits list.splits sum.splits)

lemma insert_allocations_InrD:
  "for_each (insert_allocation s) ports p = Inr p' \<Longrightarrow>
   \<exists>is. length is = length ports \<and>
     server_ports (fst p') = server_ports (fst p) @ map2 (\<lambda>i. allocation_row i s) is ports"
proof (induction ports arbitrary: p)
  case Nil
  then show ?case by simp
next
  case (Cons port ports)
  from Cons.prems obtain p1 where p1: "insert_allocation s port p = Inr p1"
    "for_each (insert_allocation s) ports p1 = Inr p'" by (auto split: sum.splits)
  from insert_allocation_InrD [OF p1(1)] Cons.IH [OF p1(2)] obtain i "is" where
    "server_ports (fst p1) = server_ports (fst p) @ [allocation_row i s port]" "length is = length ports"
    "server_ports (fst p') = server_ports (fst p1) @ map2 (\<lambda>i. allocation_row i s) is ports" by blast
  then show ?case by (intro exI [of _ "i # is"]) simp
qed

lemma frames_activity [simp]: "frames server_ports (addConfigurationActivity ev now s a ty su da)"
  by (auto simp: frames_def addConfigurationActivity_def dest: insert_activity_InrD)

text \<open>What a committed change of ports stores, and that the host ports were free.\<close>

lemma CommitServerPorts_InrD:
  assumes "CommitServerPorts now ids ev s actor v ports c d = Inr d'"
  shows "(\<forall>p \<in> set ports. \<not> taken_by_another s p d) \<and>
    (\<exists>is. length is = length ports \<and> server_ports d' =
       del (\<lambda>r. po_server_id r = s) (server_ports d) @ map2 (\<lambda>i. allocation_row i s) is ports)"
proof -
  from assms obtain p1 d2 d3 p4 ids' where
    p1: "for_each (\<lambda>p. lift_stmt (check_port_free s p)) ports (d, ids) = Inr p1"
    and p2: "update_version s v now (\<lambda>x. x\<lparr>sv_container_id := Some c\<rparr>) (fst p1) = Inr d2"
    and p3: "delete_ports (\<lambda>r. po_server_id r = s) d2 = Inr d3"
    and p4: "for_each (insert_allocation s) ports (d3, snd p1) = Inr p4"
    and p5: "addConfigurationActivity ev now s actor ''server.network.updated''
         ''Server network allocations updated'' (JObj [(''port_count'', JNum (int (length ports)))]) (fst p4) = Inr d'"
    by (auto simp: CommitServerPorts_def state_of_Inr exec_Cons_Inr lift_stmt_Inr)
  from ports_checked [OF p1] have d: "fst p1 = d" "\<forall>p \<in> set ports. \<not> taken_by_another s p d" by simp_all
  from insert_allocations_InrD [OF p4] obtain "is" where "length is = length ports"
    "server_ports (fst p4) = server_ports d3 @ map2 (\<lambda>i. allocation_row i s) is ports" by auto
  moreover have "server_ports d2 = server_ports d" using framesD [OF frames_update_version p2] d by simp
  moreover have "server_ports d' = server_ports (fst p4)" by (rule framesD [OF frames_activity p5])
  ultimately show ?thesis using d(2) p3 by (auto simp: delete_ports_def)
qed

lemma CommitServerPorts_evolves: "preserves (evolves d0) (CommitServerPorts now ids ev s actor v ports c)"
proof (rule preservesI)
  fix d d' assume before: "evolves d0 d" and run: "CommitServerPorts now ids ev s actor v ports c d = Inr d'"
  have "sat (rows_evolve d) (CommitServerPorts now ids ev s actor v ports c d)"
    unfolding CommitServerPorts_def sat_state_of check_port_free_def addConfigurationActivity_def
    by (intro sat_exec)
      (auto intro!: preserves_for_each preserves_lift insert_allocation_keeps insert_port_rows
        evolving_rows update_version_evolves keeps_evolving)
  with run have rows: "rows_evolve d d'" by (simp add: sat_def)
  from CommitServerPorts_InrD [OF run] obtain "is" where free: "\<forall>p \<in> set ports. \<not> taken_by_another s p d"
    and stored: "server_ports d' =
      del (\<lambda>r. po_server_id r = s) (server_ports d) @ map2 (\<lambda>i. allocation_row i s) is ports" by blast
  have "hosts_disjoint d'" if "hosts_disjoint d"
    by (rule hosts_disjoint_add [OF that stored, where s = s])
      (use free in \<open>auto simp: set_del allocation_row_def taken_by_another_def dest!: set_zip_rightD\<close>, blast)
  with rows have "evolves d d'" by (simp add: evolves_def)
  with before show "evolves d0 d'" by (rule evolves_trans)
qed

end
