(* ===== verification/Template_Updates.thy ===== *)
theory Template_Updates
  imports Backups Templates
begin

text \<open>
  \<open>internal/store/template_updates.go\<close>: moving a server to a newer version of its template.  The
  request is refused while another operation or backup of the server is active, creates the
  mandatory backup and hands the rest to the worker; \<open>SetServerTemplateVersion\<close> is used both to
  apply the new version and to go back to the old one.
\<close>

record template_update_status =
  ts_current_version_id :: uuid
  ts_current_version :: int
  ts_latest_version_id :: uuid
  ts_latest_version :: int
  ts_template_name :: string
  ts_update_available :: bool

record template_update_job =
  tj_operation_id :: uuid
  tj_server_id :: uuid
  tj_backup_id :: uuid
  tj_previous_version :: uuid
  tj_target_version :: uuid
  tj_mode :: string
  tj_was_running :: bool

definition version_by_id :: "uuid \<Rightarrow> db \<Rightarrow> template_version option" where
  "version_by_id i d = find (\<lambda>v. tv_id v = i) (template_versions d)"

definition latest_version :: "uuid \<Rightarrow> db \<Rightarrow> template_version option" where
  "latest_version templateID d =
     (case order_by (\<lambda>v. - tv_version v) (filter (\<lambda>v. tv_template_id v = templateID) (template_versions d)) of
        [] \<Rightarrow> None | v # _ \<Rightarrow> Some v)"

definition ServerTemplateUpdateStatus :: "uuid \<Rightarrow> db \<Rightarrow> error + template_update_status" where
  "ServerTemplateUpdateStatus serverID d =
     (case find (live serverID) (servers d) of
        None \<Rightarrow> Inl ErrNotFound
      | Some s \<Rightarrow>
        (case version_by_id (sv_template_version_id s) d of
           None \<Rightarrow> Inl ErrNotFound
         | Some current \<Rightarrow>
           (case (find (\<lambda>t. te_id t = tv_template_id current) (templates d),
                  latest_version (tv_template_id current) d) of
              (Some t, Some latest) \<Rightarrow> Inr \<lparr> ts_current_version_id = tv_id current,
                ts_current_version = tv_version current, ts_latest_version_id = tv_id latest,
                ts_latest_version = tv_version latest, ts_template_name = te_name t,
                ts_update_available = (tv_version latest > tv_version current) \<rparr>
            | _ \<Rightarrow> Inl ErrNotFound)))"

text \<open>The JSON encoding of a job, which is the payload of the outbox event.\<close>

definition update_payload :: "template_update_job \<Rightarrow> json" where
  "update_payload job =
     JObj [(''operation_id'', JStr (tj_operation_id job)), (''server_id'', JStr (tj_server_id job)),
           (''backup_id'', JStr (tj_backup_id job)),
           (''previous_version_id'', JStr (tj_previous_version job)),
           (''target_version_id'', JStr (tj_target_version job)), (''mode'', JStr (tj_mode job)),
           (''was_running'', JBool (tj_was_running job))]"

text \<open>The version a server runs and a version of the same template it may move to.\<close>

definition update_versions ::
  "uuid \<Rightarrow> uuid \<Rightarrow> db \<Rightarrow> (server \<times> template_version \<times> template_version) option" where
  "update_versions serverID targetVersionID d =
     (case find (live serverID) (servers d) of
        None \<Rightarrow> None
      | Some s \<Rightarrow>
        (case (version_by_id (sv_template_version_id s) d, version_by_id targetVersionID d) of
           (Some current, Some target) \<Rightarrow>
             if tv_template_id target = tv_template_id current then Some (s, current, target) else None
         | _ \<Rightarrow> None))"

definition pre_update_backup :: "uuid \<Rightarrow> time \<Rightarrow> uuid \<Rightarrow> string \<Rightarrow> string \<Rightarrow> uuid \<Rightarrow> backup" where
  "pre_update_backup i now serverID serverName stamp actorID =
     queued_backup i now serverID (''Pre-template-update '' @ serverName @ '' '' @ stamp) [] [] None actorID"

definition QueueTemplateUpdate ::
  "time \<Rightarrow> string \<Rightarrow> uuid \<Rightarrow> uuid \<Rightarrow> uuid \<Rightarrow> uuid \<Rightarrow> string \<Rightarrow> uuid \<Rightarrow> uuid \<Rightarrow> uuid \<Rightarrow> string \<Rightarrow> db \<Rightarrow>
   error + (template_update_job \<times> db)" where
  "QueueTemplateUpdate now stamp operationID backupID outboxID activityID idempotencyKey
     serverID actorID targetVersionID mode d =
     (if mode \<noteq> ''rebase'' \<and> mode \<noteq> ''reinstall''
      then Inl (Wrap '''' ErrConflict '': invalid template update mode'')
      else case update_versions serverID targetVersionID d of
        None \<Rightarrow> Inl ErrNotFound
      | Some (s, current, target) \<Rightarrow>
          if tv_version target \<le> tv_version current
          then Inl (Wrap '''' ErrConflict '': target template is not newer'')
          else if server_busy serverID d
          then Inl (Wrap '''' ErrConflict '': another server operation is active'')
          else
            (let job = \<lparr> tj_operation_id = operationID, tj_server_id = serverID, tj_backup_id = backupID,
                   tj_previous_version = tv_id current, tj_target_version = targetVersionID,
                   tj_mode = mode, tj_was_running = was_running s \<rparr> in
             ret job (exec [
               insert_backup (pre_update_backup backupID now serverID (sv_name s) stamp actorID),
               insert_operation (operation_row operationID now serverID (Some actorID)
                 ''server.template_update'' idempotencyKey ''Waiting for template update worker''),
               insert_outbox (outbox_row outboxID now ''server.template_update'' serverID (update_payload job)),
               stop_for_maintenance now serverID,
               insert_activity (activity_row activityID now (Some serverID) (Some actorID)
                 ''server.template_update.requested'' ''info'' ''Template update requested''
                 (update_payload job))] d)))"

text \<open>Two statements without a transaction: the progress stays when the log entry fails.\<close>

definition MarkTemplateUpdateRunning ::
  "time \<Rightarrow> template_update_job \<Rightarrow> int \<Rightarrow> string \<Rightarrow> db \<Rightarrow> error option \<times> db" where
  "MarkTemplateUpdateRunning now job progress message d =
     (let d1 = d\<lparr>operations := upd
            (\<lambda>r. op_id r = tj_operation_id job \<and> op_kind r = ''server.template_update'')
            (\<lambda>r. r\<lparr>op_status := ''running'',
                   op_started_at := (case op_started_at r of None \<Rightarrow> Some now | Some t \<Rightarrow> Some t),
                   op_progress := progress, op_message := Some message\<rparr>) (operations d)\<rparr> in
      case AppendOperationLog (tj_operation_id job) (tj_server_id job) ''template_update'' ''system''
             message now d1 of
        Inl e \<Rightarrow> (Some e, d1) | Inr d2 \<Rightarrow> (None, d2))"

text \<open>
  The canonical document of the new version is read and decoded after the UPDATE has been
  committed; \<open>late\<close> is the fault, if any, of that second query.
\<close>

definition SetServerTemplateVersion ::
  "error option \<Rightarrow> time \<Rightarrow> uuid \<Rightarrow> uuid \<Rightarrow> db \<Rightarrow> (error + canonical_template) \<times> db" where
  "SetServerTemplateVersion late now serverID versionID d =
     (case find (\<lambda>s. sv_id s = serverID) (servers d) of
        None \<Rightarrow> (Inl ErrConflict, d)
      | Some s \<Rightarrow>
        (case (version_by_id (sv_template_version_id s) d, version_by_id versionID d) of
           (Some current, Some target) \<Rightarrow>
             if tv_template_id target \<noteq> tv_template_id current then (Inl ErrConflict, d)
             else (case json_text (tv_canonical target) ''default_image'' of
                 None \<Rightarrow> (Inl (Constraint ''servers''), d)
               | Some img \<Rightarrow>
                   ((case late of Some e \<Rightarrow> Inl e | None \<Rightarrow> decode_canonical (tv_canonical target)),
                    d\<lparr>servers := upd (\<lambda>r. sv_id r = serverID)
                       (\<lambda>r. r\<lparr>sv_template_version_id := tv_id target, sv_image_reference := img,
                              sv_updated_at := now, sv_version := sv_version r + 1\<rparr>) (servers d)\<rparr>))
         | _ \<Rightarrow> (Inl ErrConflict, d)))"

definition FinishTemplateUpdate ::
  "(string \<Rightarrow> string) \<Rightarrow> time \<Rightarrow> uuid \<Rightarrow> template_update_job \<Rightarrow> string \<Rightarrow> error option \<Rightarrow> db stmt" where
  "FinishTemplateUpdate sanitize now eventID job containerID updateErr =
     (let desired = (if tj_was_running job then ''running'' else ''stopped'');
          serverStatus = (if tj_was_running job then ''starting'' else ''stopped'');
          failed = (updateErr \<noteq> None);
          detail = map_option (\<lambda>e. sanitize (error_text e)) updateErr in
      exec [
        update_servers (\<lambda>r. sv_id r = tj_server_id job)
          (\<lambda>r. r\<lparr>sv_desired_state := desired, sv_status := serverStatus, sv_stop_reason := None,
                 sv_container_id := (if containerID = '''' then sv_container_id r else Some containerID),
                 sv_updated_at := now, sv_version := sv_version r + 1\<rparr>),
        update_operations (\<lambda>r. op_id r = tj_operation_id job)
          (\<lambda>r. r\<lparr>op_status := (if failed then ''failed'' else ''succeeded''),
                 op_progress := (if failed then op_progress r else 100),
                 op_message := Some (if failed then ''Template update failed'' else ''Template update completed''),
                 op_error_code := (if failed then Some ''template_update_failed'' else None),
                 op_error_detail := detail, op_completed_at := Some now\<rparr>),
        insert_activity (activity_row eventID now (Some (tj_server_id job)) None
          (if failed then ''server.template_update.failed'' else ''server.template_update.succeeded'')
          (if failed then ''error'' else ''info'')
          (if failed then ''Template update failed'' else ''Template update completed'')
          (JObj [(''operation_id'', JStr (tj_operation_id job)),
                 (''target_version_id'', JStr (tj_target_version job)),
                 (''backup_id'', JStr (tj_backup_id job)), (''mode'', JStr (tj_mode job)),
                 (''error'', jopt detail)]))])"

section \<open>The operations keep the integrity of the database\<close>

lemma QueueTemplateUpdate_ok:
  "preserves_op db_ok (QueueTemplateUpdate now stamp opn b ob ac key s a tv mode)"
  unfolding QueueTemplateUpdate_def Let_def
  by (rule preserves_opI, intro sat_intros) (simp_all add: keeps_ok split: prod.splits)

lemma mark_progress_ok:
  assumes "0 \<le> n" and "n \<le> 100"
  shows "preserves db_ok (update_operations p (\<lambda>r. r\<lparr>op_status := ''running'',
    op_started_at := f r, op_progress := n, op_message := m\<rparr>))"
  by (rule keeps_ok) (use assms in \<open>auto simp: check_operation_def\<close>)

lemma MarkTemplateUpdateRunning_keeps:
  assumes update: "\<And>p f. preserves i (update_operations p (\<lambda>r. r\<lparr>op_status := ''running'',
      op_started_at := f r, op_progress := n, op_message := Some m\<rparr>))"
    and log: "\<And>x y ph st ms t. preserves i (AppendOperationLog x y ph st ms t)" and "i d"
  shows "i (snd (MarkTemplateUpdateRunning now job n m d))"
proof -
  let ?d1 = "d\<lparr>operations := upd
      (\<lambda>r. op_id r = tj_operation_id job \<and> op_kind r = ''server.template_update'')
      (\<lambda>r. r\<lparr>op_status := ''running'',
             op_started_at := (case op_started_at r of None \<Rightarrow> Some now | Some t \<Rightarrow> Some t),
             op_progress := n, op_message := Some m\<rparr>) (operations d)\<rparr>"
  have "i ?d1" by (rule preservesD [OF update \<open>i d\<close>]) (simp add: update_stmt_defs)
  then show ?thesis
    by (simp add: MarkTemplateUpdateRunning_def Let_def split: sum.split) (blast dest: preservesD [OF log])
qed

lemma MarkTemplateUpdateRunning_ok:
  assumes "0 \<le> n" and "n \<le> 100" and "db_ok d"
  shows "db_ok (snd (MarkTemplateUpdateRunning now job n m d))"
  by (rule MarkTemplateUpdateRunning_keeps) (rule mark_progress_ok AppendOperationLog_ok assms)+

lemma SetServerTemplateVersion_snd:
  "snd (SetServerTemplateVersion late now s v d) = d \<or>
   (\<exists>x y. update_servers (\<lambda>r. sv_id r = s) (\<lambda>r. r\<lparr>sv_template_version_id := x, sv_image_reference := y,
      sv_updated_at := now, sv_version := sv_version r + 1\<rparr>) d =
    Inr (snd (SetServerTemplateVersion late now s v d)))"
  by (auto simp: SetServerTemplateVersion_def update_stmt_defs split: option.splits)

lemma SetServerTemplateVersion_ok:
  "db_ok d \<Longrightarrow> db_ok (snd (SetServerTemplateVersion late now s v d))"
proof -
  assume ok: "db_ok d"
  have "preserves db_ok (update_servers p (\<lambda>r. r\<lparr>sv_template_version_id := x, sv_image_reference := y,
      sv_updated_at := now, sv_version := sv_version r + 1\<rparr>))" for p x y
    by (rule keeps_ok) (auto simp: check_server_def)
  with ok SetServerTemplateVersion_snd [of late now s v d] show ?thesis by (auto dest: preservesD)
qed

lemma FinishTemplateUpdate_ok: "preserves db_ok (FinishTemplateUpdate sn now ev job c err)"
  unfolding FinishTemplateUpdate_def Let_def
  by (rule preserves_exec) (auto intro!: keeps_ok simp: check_defs)

section \<open>How they change the servers table\<close>

lemma QueueTemplateUpdate_evolves:
  "preserves_op (evolves d0) (QueueTemplateUpdate now stamp opn b ob ac key s a tv mode)"
  unfolding QueueTemplateUpdate_def Let_def
  by (rule preserves_opI, intro sat_intros) (simp_all add: keeps_evolving split: prod.splits)

lemma MarkTemplateUpdateRunning_evolves:
  "evolves d0 d \<Longrightarrow> evolves d0 (snd (MarkTemplateUpdateRunning now job n m d))"
  by (rule MarkTemplateUpdateRunning_keeps) (rule keeps_evolving AppendOperationLog_evolves | assumption)+

lemma SetServerTemplateVersion_evolves:
  "evolves d0 d \<Longrightarrow> evolves d0 (snd (SetServerTemplateVersion late now s v d))"
proof -
  assume ev: "evolves d0 d"
  have "preserves (evolves d0) (update_servers p (\<lambda>r. r\<lparr>sv_template_version_id := x,
      sv_image_reference := y, sv_updated_at := now, sv_version := sv_version r + 1\<rparr>))" for p x y
    by (rule keeps_evolving) (auto intro: row_step_keep)
  with ev SetServerTemplateVersion_snd [of late now s v d] show ?thesis by (auto dest: preservesD)
qed

lemma FinishTemplateUpdate_evolves: "preserves (evolves d0) (FinishTemplateUpdate sn now ev job c err)"
  unfolding FinishTemplateUpdate_def Let_def
  by (rule preserves_exec) (auto intro!: keeps_evolving row_step_keep)

end
