(* ===== verification/Runtime_Handlers.thy ===== *)
theory Runtime_Handlers
  imports Worker Configuration_Commits Template_Updates
begin

text \<open>
  The two handlers of \<open>internal/worker/worker.go\<close> that build or rebuild a container: provisioning
  a new server and moving one to another template version, with the compensation that puts the
  previous version, files and container back when the update fails.
\<close>

section \<open>Provisioning\<close>

text \<open>
  \<open>persistProvisionLogs\<close> runs beside the call to the engine; \<open>en_frames\<close> are the lines it has read
  by the time the handler goes on (\<^const>\<open>None\<close> for a line that does not decode).  An error of one
  entry is logged and the next line is read.
\<close>

fun persist_frames :: "worker_env \<Rightarrow> uuid \<Rightarrow> uuid \<Rightarrow> console_frame option list \<Rightarrow> unit action" where
  "persist_frames env serverID operationID [] w = (Inr (), w)"
| "persist_frames env serverID operationID (f # fs) w =
     (case f of
        None \<Rightarrow> persist_frames env serverID operationID fs w
      | Some frame \<Rightarrow>
          if cf_phase frame = ''runtime'' \<or> cf_message frame = [] then persist_frames env serverID operationID fs w
          else persist_frames env serverID operationID fs
            (snd (stmt_call env (\<lambda>now ids. AppendOperationLog operationID serverID (cf_phase frame)
               (cf_stream frame) (en_sanitize_log env (cf_message frame))
               (case cf_observed_at frame of None \<Rightarrow> now | Some t \<Rightarrow> t)) w)))"

definition persistProvisionLogs :: "worker_env \<Rightarrow> uuid \<Rightarrow> uuid \<Rightarrow> unit action" where
  "persistProvisionLogs env serverID operationID w =
     persist_frames env serverID operationID (en_frames env (w_step w)) w"

definition load_provision_job :: "worker_env \<Rightarrow> uuid \<Rightarrow> uuid \<Rightarrow> provision_job action" where
  "load_provision_job env serverID operationID w =
     query_call env (\<lambda>now. ProvisionJob (en_order env (w_step w)) (en_open env) serverID operationID) w"

definition record_provision :: "worker_env \<Rightarrow> outbox_event \<Rightarrow> provision_job \<Rightarrow> error + unit \<Rightarrow> unit action" where
  "record_provision env ev job result w =
     (case result of
        Inl err \<Rightarrow>
          if ob_attempts ev < 3 then (Inl err, w)
          else wrapping (''provision failed ('' @ error_text err @ '') and recording failure failed: '')
            (stmt_call env (\<lambda>now ids. MarkProvisionFailed now (ids 0) (pj_server_id job) (pj_operation_id job) err)) w
      | Inr _ \<Rightarrow>
          wrapping ''record provision success: ''
            (stmt_call env (\<lambda>now ids. MarkProvisionSucceeded now (ids 0) (pj_server_id job) (pj_operation_id job)
               (en_provision env (w_calls w)))) w)"

definition handle_provision :: "worker_env \<Rightarrow> outbox_event \<Rightarrow> unit action" where
  "handle_provision env ev =
     andThen (decoded ''server provision'' (strings_of (ob_payload ev) [''server_id'', ''operation_id'']))
       (\<lambda>fields. let serverID = fields ! 0; operationID = fields ! 1 in
          andThen (wrapping ''mark provisioning running: ''
            (stmt_call env (\<lambda>now ids. MarkProvisionRunning now serverID operationID))) (\<lambda>_.
          andThen (load_provision_job env serverID operationID) (\<lambda>job.
          andThen (attempt (call_engine env (EProvision serverID (pj_request job)))) (\<lambda>result.
          andThen (persistProvisionLogs env serverID operationID) (\<lambda>_.
            record_provision env ev job result)))))"

section \<open>Template updates\<close>

definition update_job_of :: "json \<Rightarrow> error + template_update_job" where
  "update_job_of j =
     (case strings_of j [''operation_id'', ''server_id'', ''backup_id'', ''previous_version_id'',
            ''target_version_id'', ''mode''] of
        Inl e \<Rightarrow> Inl e
      | Inr ss \<Rightarrow>
          (case json_bool j ''was_running'' of
             Inl e \<Rightarrow> Inl e
           | Inr b \<Rightarrow> Inr \<lparr> tj_operation_id = ss ! 0, tj_server_id = ss ! 1, tj_backup_id = ss ! 2,
               tj_previous_version = ss ! 3, tj_target_version = ss ! 4, tj_mode = ss ! 5,
               tj_was_running = b \<rparr>))"

definition update_progress :: "worker_env \<Rightarrow> template_update_job \<Rightarrow> int \<Rightarrow> string \<Rightarrow> unit action" where
  "update_progress env job progress message =
     store_call env (\<lambda>now ids d. case MarkTemplateUpdateRunning now job progress message d of
       (None, d') \<Rightarrow> (Inr (), d') | (Some e, d') \<Rightarrow> (Inl e, d'))"

definition finish_update :: "worker_env \<Rightarrow> template_update_job \<Rightarrow> string \<Rightarrow> error option \<Rightarrow> unit action" where
  "finish_update env job containerID err =
     stmt_call env (\<lambda>now ids. FinishTemplateUpdate (en_sanitize env) now (ids 0) job containerID err)"

definition load_configuration :: "worker_env \<Rightarrow> uuid \<Rightarrow> server_configuration action" where
  "load_configuration env serverID w =
     query_call env (\<lambda>now. ServerConfiguration (en_order env (w_step w)) (en_open env) serverID) w"

definition set_version :: "worker_env \<Rightarrow> uuid \<Rightarrow> uuid \<Rightarrow> canonical_template action" where
  "set_version env serverID versionID w =
     store_call env (\<lambda>now ids. SetServerTemplateVersion (en_late env (w_step w)) now serverID versionID) w"

text \<open>An action whose error is kept as a value, and one done only when the server was running.\<close>

definition error_of :: "'a action \<Rightarrow> error option action" where
  "error_of m = andThen (attempt m) (\<lambda>r. done_with (Inr (as_error r)))"

definition if_running :: "template_update_job \<Rightarrow> unit action \<Rightarrow> error option action" where
  "if_running job m = (if tj_was_running job then error_of m else done_with (Inr None))"

text \<open>\<open>fmt.Errorf("%v; ...: %w", err, next)\<close>, when the next error occurs.\<close>

definition followed_by :: "error \<Rightarrow> string \<Rightarrow> error option \<Rightarrow> error" where
  "followed_by err what next = (case next of None \<Rightarrow> err | Some e \<Rightarrow> Wrap (error_text err @ what) e '''')"

definition fail_before_runtime_change :: "worker_env \<Rightarrow> template_update_job \<Rightarrow> error \<Rightarrow> unit action" where
  "fail_before_runtime_change env job updateErr =
     andThen (if_running job (call_engine env (EPower (tj_server_id job) ''start''))) (\<lambda>startErr.
     finish_update env job []
       (Some (followed_by updateErr ''; returning server to its prior running state failed: '' startErr)))"

definition reinstall :: "worker_env \<Rightarrow> template_update_job \<Rightarrow> server_configuration \<Rightarrow> canonical_template \<Rightarrow> unit action" where
  "reinstall env job newConfiguration canonical =
     (if tj_mode job \<noteq> ''reinstall'' then done_with (Inr ())
      else case InstallSpec newConfiguration canonical of
        None \<Rightarrow> done_with (Inr ())
      | Some spec \<Rightarrow>
          andThen (update_progress env job 55 ''Running updated template installer'') (\<lambda>_.
          call_engine env (EInstall (tj_server_id job) spec)))"

definition reconfigure :: "worker_env \<Rightarrow> uuid \<Rightarrow> reconfigure_request \<Rightarrow> string action" where
  "reconfigure env serverID request =
     andThen (call_engine env (EReconfigure serverID request)) (\<lambda>_ w.
       (Inr (pr_container_id (en_provision env (w_calls w))), w))"

definition change_runtime :: "worker_env \<Rightarrow> template_update_job \<Rightarrow> canonical_template \<Rightarrow> string action" where
  "change_runtime env job canonical =
     andThen (load_configuration env (tj_server_id job)) (\<lambda>newConfiguration.
     andThen (reinstall env job newConfiguration canonical) (\<lambda>_.
     andThen (update_progress env job 75 ''Replacing runtime container configuration'') (\<lambda>_.
     reconfigure env (tj_server_id job) (RuntimeRequest newConfiguration))))"

definition roll_back ::
  "worker_env \<Rightarrow> template_update_job \<Rightarrow> server_configuration \<Rightarrow> string \<Rightarrow> error \<Rightarrow> unit action" where
  "roll_back env job previous sha256 err =
     andThen (attempt (set_version env (tj_server_id job) (tj_previous_version job))) (\<lambda>_.
     andThen (if tj_mode job = ''reinstall''
              then error_of (call_engine env (ERestoreBackup (tj_server_id job) (tj_backup_id job) sha256))
              else done_with (Inr None)) (\<lambda>restoreErr.
     let err1 = followed_by err ''; file rollback failed: '' restoreErr in
     andThen (attempt (reconfigure env (tj_server_id job) (RuntimeRequest previous))) (\<lambda>rollback.
     let err2 = followed_by err1 ''; runtime rollback failed: '' (as_error rollback);
         containerID = (case rollback of Inl _ \<Rightarrow> [] | Inr c \<Rightarrow> c) in
     andThen (if_running job (call_engine env (EPower (tj_server_id job) ''start''))) (\<lambda>startErr.
     finish_update env job containerID
       (Some (followed_by err2 ''; server restart failed: '' startErr))))))"

definition complete_update :: "worker_env \<Rightarrow> template_update_job \<Rightarrow> string \<Rightarrow> unit action" where
  "complete_update env job containerID =
     andThen (if_running job (andThen (attempt (update_progress env job 90 ''Starting updated game server'')) (\<lambda>_.
       call_engine env (EPower (tj_server_id job) ''start'')))) (\<lambda>startErr.
     finish_update env job containerID startErr)"

definition apply_version ::
  "worker_env \<Rightarrow> template_update_job \<Rightarrow> server_configuration \<Rightarrow> string \<Rightarrow> unit action" where
  "apply_version env job previous sha256 =
     andThen (attempt (update_progress env job 40 ''Applying new template version'')) (\<lambda>r. case r of
       Inl e \<Rightarrow> fail_before_runtime_change env job e
     | Inr _ \<Rightarrow>
       andThen (attempt (set_version env (tj_server_id job) (tj_target_version job))) (\<lambda>r. case r of
         Inl e \<Rightarrow> fail_before_runtime_change env job e
       | Inr canonical \<Rightarrow>
         andThen (attempt (change_runtime env job canonical)) (\<lambda>r. case r of
           Inl e \<Rightarrow> roll_back env job previous sha256 e
         | Inr containerID \<Rightarrow> complete_update env job containerID)))"

definition update_after_backup :: "worker_env \<Rightarrow> template_update_job \<Rightarrow> backup_job \<Rightarrow> unit action" where
  "update_after_backup env job backup w =
     (let result = en_backup env (w_calls w);
          deliveries = length (backup_deliveries (w_db w)) in
      andThen (stmt_call env (\<lambda>now ids. MarkBackupSucceeded now (ids 0) (map ids [1 ..< 1 + deliveries])
        backup result)) (\<lambda>_.
      andThen (attempt (load_configuration env (tj_server_id job))) (\<lambda>r. case r of
        Inl e \<Rightarrow> finish_update env job [] (Some e)
      | Inr previous \<Rightarrow>
        andThen (update_progress env job 25 ''Stopping game server'') (\<lambda>_.
        andThen (if_running job (call_engine env (EPower (tj_server_id job) ''stop''))) (\<lambda>stopErr. case stopErr of
          Some e \<Rightarrow> finish_update env job [] (Some (Wrap ''stop server for template update: '' e ''''))
        | None \<Rightarrow> apply_version env job previous (br_sha256 result))))) w)"

definition handle_template_update :: "worker_env \<Rightarrow> outbox_event \<Rightarrow> unit action" where
  "handle_template_update env ev =
     andThen (decoded ''template update'' (update_job_of (ob_payload ev))) (\<lambda>job.
     let backup = \<lparr> bj_backup_id = tj_backup_id job, bj_server_id = tj_server_id job,
                    bj_include_path = [], bj_exclude_glob = [] \<rparr> in
     andThen (update_progress env job 5 ''Creating mandatory full backup'') (\<lambda>_.
     andThen (stmt_call env (\<lambda>now ids. MarkBackupRunning (tj_backup_id job))) (\<lambda>_.
     andThen (attempt (call_engine env (ECreateBackup (tj_server_id job) (tj_backup_id job) [] []))) (\<lambda>r. case r of
       Inl err \<Rightarrow>
         if ob_attempts ev < 3 then done_with (Inl err)
         else andThen (attempt (stmt_call env (\<lambda>now ids. MarkBackupFailed now (ids 0) backup err))) (\<lambda>_.
           finish_update env job [] (Some (Wrap ''mandatory pre-update backup failed: '' err '''')))
     | Inr _ \<Rightarrow> update_after_backup env job backup))))"

section \<open>The dispatcher\<close>

definition handle_event :: "worker_env \<Rightarrow> outbox_event \<Rightarrow> unit action" where
  "handle_event env = handle (handle_provision env) (handle_template_update env) env"

section \<open>What the handlers keep\<close>

text \<open>The operations these handlers call beside those of \<open>store_contract\<close>.\<close>

locale runtime_contract = store_contract +
  assumes provision_running: "preserves inv (MarkProvisionRunning now s opn)"
    and append_log: "preserves inv (AppendOperationLog opn s phase stream msg t)"
    and provision_succeeded: "preserves inv (MarkProvisionSucceeded now ev s opn res)"
    and provision_failed: "preserves inv (MarkProvisionFailed now ev s opn e)"
    and update_running: "0 \<le> n \<Longrightarrow> n \<le> 100 \<Longrightarrow> inv d \<Longrightarrow> inv (snd (MarkTemplateUpdateRunning now tj n m d))"
    and version_set: "inv d \<Longrightarrow> inv (snd (SetServerTemplateVersion late now s v d))"
    and update_finished: "preserves inv (FinishTemplateUpdate sn now ev tj c err)"
begin

lemma persist_frames_keep: "keeps inv (persist_frames env s opn fs)"
proof (induction fs)
  case Nil
  then show ?case by (simp add: keeps_def)
next
  case (Cons f fs)
  have "keeps inv (stmt_call env (\<lambda>now ids. AppendOperationLog opn s ph st m (t now)))" for ph st m t
    by (intro keeps_intros append_log)
  with Cons.IH show ?case by (auto simp: keeps_def split: option.splits)
qed

lemma handle_provision_keeps: "keeps inv (handle_provision env ev)"
proof -
  have load: "keeps inv (load_provision_job env s opn)" for s opn
    unfolding load_provision_job_def [abs_def]
    by (rule keeps_world [where c = "\<lambda>w. query_call env (\<lambda>now. ProvisionJob (en_order env (w_step w))
      (en_open env) s opn)"]) (intro keeps_intros)
  have logs: "keeps inv (persistProvisionLogs env s opn)" for s opn
    unfolding persistProvisionLogs_def [abs_def]
    by (rule keeps_world [where c = "\<lambda>w. persist_frames env s opn (en_frames env (w_step w))"])
      (rule persist_frames_keep)
  have noted: "keeps inv (record_provision env ev job r)" for job r
  proof -
    have "keeps inv (wrapping pre (stmt_call env (\<lambda>now ids. MarkProvisionFailed now (ids 0) a b e)))"
      "keeps inv (wrapping pre (stmt_call env (\<lambda>now ids. MarkProvisionSucceeded now (ids 0) a b res)))"
      for pre a b e res by (intro keeps_intros provision_failed provision_succeeded)+
    then show ?thesis by (auto simp: keeps_def record_provision_def split: sum.splits)
  qed
  show ?thesis
    unfolding handle_provision_def Let_def
    by (intro keeps_intros provision_running load logs noted)
qed

lemma update_progress_keeps: "0 \<le> n \<Longrightarrow> n \<le> 100 \<Longrightarrow> keeps inv (update_progress env job n m)"
proof -
  assume n: "0 \<le> n" "n \<le> 100"
  have "inv (snd (case MarkTemplateUpdateRunning now job n m d of
      (None, d') \<Rightarrow> (Inr (), d') | (Some e, d') \<Rightarrow> (Inl e, d')))" if "inv d" for now d
    using update_running [OF n that, of now job m] by (auto split: prod.splits option.splits)
  then show ?thesis unfolding update_progress_def by (intro keeps_intros)
qed

lemma finish_update_keeps: "keeps inv (finish_update env job c err)"
  unfolding finish_update_def by (intro keeps_intros update_finished)

lemma set_version_keeps: "keeps inv (set_version env s v)"
  unfolding set_version_def [abs_def]
  by (rule keeps_world [where c = "\<lambda>w. store_call env (\<lambda>now ids. SetServerTemplateVersion
      (en_late env (w_step w)) now s v)"]) (intro keeps_intros version_set)

lemma load_configuration_keeps: "keeps inv (load_configuration env s)"
  unfolding load_configuration_def [abs_def]
  by (rule keeps_world [where c = "\<lambda>w. query_call env (\<lambda>now. ServerConfiguration (en_order env (w_step w))
      (en_open env) s)"]) (intro keeps_intros)

lemma reconfigure_keeps: "keeps inv (reconfigure env s r)"
  unfolding reconfigure_def by (intro keeps_intros) (simp add: keeps_def)

lemma error_of_keeps: "keeps inv m \<Longrightarrow> keeps inv (error_of m)" for m :: "'a action"
  unfolding error_of_def by (intro keeps_intros)

lemma if_running_keeps: "keeps inv m \<Longrightarrow> keeps inv (if_running job m)"
  unfolding if_running_def by (intro keeps_intros error_of_keeps)

lemmas step_keeps = finish_update_keeps set_version_keeps load_configuration_keeps reconfigure_keeps
  error_of_keeps if_running_keeps

lemma roll_back_keeps: "keeps inv (roll_back env job previous sha e)"
  unfolding roll_back_def Let_def by (intro keeps_intros step_keeps)

lemma change_runtime_keeps: "keeps inv (change_runtime env job t)"
  unfolding change_runtime_def reinstall_def
  by (intro keeps_intros step_keeps update_progress_keeps) simp_all

lemma apply_version_keeps: "keeps inv (apply_version env job previous sha)"
  unfolding apply_version_def fail_before_runtime_change_def complete_update_def
  by (intro keeps_intros step_keeps update_progress_keeps roll_back_keeps change_runtime_keeps) simp_all

lemma update_after_backup_keeps: "keeps inv (update_after_backup env job backup)"
proof -
  have "keeps inv (andThen (stmt_call env (\<lambda>now ids. MarkBackupSucceeded now (ids 0) (f ids) backup res))
      (\<lambda>_. andThen (attempt (load_configuration env (tj_server_id job))) (\<lambda>r. case r of
        Inl e \<Rightarrow> finish_update env job [] (Some e)
      | Inr previous \<Rightarrow>
        andThen (update_progress env job 25 ''Stopping game server'') (\<lambda>_.
        andThen (if_running job (call_engine env (EPower (tj_server_id job) ''stop''))) (\<lambda>stopErr. case stopErr of
          Some e \<Rightarrow> finish_update env job [] (Some (Wrap ''stop server for template update: '' e ''''))
        | None \<Rightarrow> apply_version env job previous (br_sha256 res))))))" for f res
    by (intro keeps_intros step_keeps mark_succeeded update_progress_keeps apply_version_keeps) simp_all
  then show ?thesis by (simp add: keeps_def update_after_backup_def Let_def)
qed

lemma handle_template_update_keeps: "keeps inv (handle_template_update env ev)"
  unfolding handle_template_update_def Let_def
  by (intro keeps_intros step_keeps laws update_progress_keeps update_after_backup_keeps) simp_all

lemma handle_event_keeps: "keeps inv (handle_event env ev)"
  unfolding handle_event_def
  by (intro handle_keeps handle_provision_keeps handle_template_update_keeps)

end

interpretation runtime_integrity: runtime_contract db_ok
  by unfold_locales
    (rule MarkProvisionRunning_ok AppendOperationLog_ok MarkProvisionSucceeded_ok MarkProvisionFailed_ok
      MarkTemplateUpdateRunning_ok SetServerTemplateVersion_ok FinishTemplateUpdate_ok | assumption)+

interpretation runtime_evolution: runtime_contract "evolves d0" for d0
  by unfold_locales
    (rule MarkProvisionRunning_evolves AppendOperationLog_evolves MarkProvisionSucceeded_evolves
      MarkProvisionFailed_evolves MarkTemplateUpdateRunning_evolves SetServerTemplateVersion_evolves
      FinishTemplateUpdate_evolves | assumption)+

end
