(* ===== verification/Accounts.thy ===== *)
theory Accounts
  imports Statements "HOL-Library.List_Lexorder" "HOL-Library.Char_ord"
begin

text \<open>
  Accounts and access: \<open>internal/store/store.go\<close> (claiming the installation, invites, Discord
  logins, sessions, approval of users) and \<open>internal/store/access.go\<close> (built-in roles, bindings of
  users to servers, permissions).  \<open>hash\<close> is \<open>secure.Hash\<close>.
\<close>

section \<open>Statements on the account tables\<close>

definition update_users :: "(user \<Rightarrow> bool) \<Rightarrow> (user \<Rightarrow> user) \<Rightarrow> db stmt" where
  "update_users p f d = Inr (d\<lparr>users := upd p f (users d)\<rparr>)"

definition update_sessions :: "(session \<Rightarrow> bool) \<Rightarrow> (session \<Rightarrow> session) \<Rightarrow> db stmt" where
  "update_sessions p f d = Inr (d\<lparr>sessions := upd p f (sessions d)\<rparr>)"

definition update_invites :: "(invite \<Rightarrow> bool) \<Rightarrow> (invite \<Rightarrow> invite) \<Rightarrow> db stmt" where
  "update_invites p f d = Inr (d\<lparr>invites := upd p f (invites d)\<rparr>)"

definition update_installations :: "(installation \<Rightarrow> installation) \<Rightarrow> db stmt" where
  "update_installations f d = Inr (d\<lparr>installations := upd (\<lambda>r. True) f (installations d)\<rparr>)"

definition delete_bindings :: "(role_binding \<Rightarrow> bool) \<Rightarrow> db stmt" where
  "delete_bindings p d = Inr (d\<lparr>role_bindings := del p (role_bindings d)\<rparr>)"

definition insert_session :: "session \<Rightarrow> db stmt" where
  "insert_session r d =
     constrain (se_id r \<notin> se_id ` set (sessions d) \<and> se_token_hash r \<notin> se_token_hash ` set (sessions d) \<and>
         se_user_id r \<in> us_id ` set (users d))
       ''sessions'' (d\<lparr>sessions := sessions d @ [r]\<rparr>)"

definition insert_invite :: "invite \<Rightarrow> db stmt" where
  "insert_invite r d =
     constrain (iv_id r \<notin> iv_id ` set (invites d) \<and> iv_token_hash r \<notin> iv_token_hash ` set (invites d) \<and>
         iv_created_by r \<in> us_id ` set (users d))
       ''invites'' (d\<lparr>invites := invites d @ [r]\<rparr>)"

definition insert_oauth_state :: "oauth_state \<Rightarrow> db stmt" where
  "insert_oauth_state r d =
     constrain (oa_id r \<notin> oa_id ` set (oauth_states d) \<and>
         oa_state_hash r \<notin> oa_state_hash ` set (oauth_states d))
       ''oauth_states'' (d\<lparr>oauth_states := oauth_states d @ [r]\<rparr>)"

definition binding_key :: "role_binding \<Rightarrow> uuid \<times> uuid \<times> uuid option" where
  "binding_key b = (rb_user_id b, rb_role_id b, rb_server_id b)"

definition insert_binding :: "role_binding \<Rightarrow> db stmt" where
  "insert_binding r d =
     constrain (rb_id r \<notin> rb_id ` set (role_bindings d) \<and>
         binding_key r \<notin> binding_key ` set (role_bindings d) \<and>
         rb_user_id r \<in> us_id ` set (users d) \<and> rb_role_id r \<in> ro_id ` set (roles d))
       ''role_bindings'' (d\<lparr>role_bindings := role_bindings d @ [r]\<rparr>)"

definition insert_audit :: "uuid \<Rightarrow> uuid \<Rightarrow> string \<Rightarrow> string \<Rightarrow> string \<Rightarrow> json \<Rightarrow> db stmt" where
  "insert_audit i actorID action targetType targetID data =
     insert_audit_row \<lparr> au_id = i, au_actor_user_id = Some actorID, au_action = action,
       au_target_type = targetType, au_target_id = Some targetID, au_data = data \<rparr>"

section \<open>The installation\<close>

definition UpdateMFAPolicy :: "time \<Rightarrow> uuid \<Rightarrow> uuid \<Rightarrow> string \<Rightarrow> db stmt" where
  "UpdateMFAPolicy now auditID actorID policy d =
     (if policy \<noteq> ''off'' \<and> policy \<noteq> ''administrators'' \<and> policy \<noteq> ''operators'' \<and> policy \<noteq> ''everyone''
      then Inl ErrConflict
      else exec [
        update_installations (\<lambda>r. r\<lparr>in_mfa_policy := policy, in_updated_at := now\<rparr>),
        insert_audit auditID actorID ''installation.mfa_policy.update'' ''installation'' ''''
          (JObj [(''mfa_policy'', JStr policy)])] d)"

text \<open>A NULL result of the comparison cannot be scanned into a bool: the token is refused too.\<close>

definition ValidateBootstrapToken :: "(string \<Rightarrow> string) \<Rightarrow> string \<Rightarrow> db \<Rightarrow> error option" where
  "ValidateBootstrapToken hash token d =
     (if token = '''' then Some ErrUnauthorized
      else case installations d of
        [] \<Rightarrow> Some ErrUnauthorized
      | r # _ \<Rightarrow>
          if in_owner_user_id r = None \<and> in_bootstrap_token_hash r = Some (hash token) then None
          else Some ErrUnauthorized)"

section \<open>Invites and OAuth states\<close>

definition invite_open :: "time \<Rightarrow> invite \<Rightarrow> bool" where
  "invite_open now r \<longleftrightarrow> iv_claimed_at r = None \<and> iv_revoked_at r = None \<and> iv_expires_at r > now"

definition ResolveInvite :: "(string \<Rightarrow> string) \<Rightarrow> time \<Rightarrow> string \<Rightarrow> db \<Rightarrow> error + uuid" where
  "ResolveInvite hash now token d =
     (if token = '''' then Inl ErrInviteInvalid
      else case find (\<lambda>r. iv_token_hash r = hash token \<and> invite_open now r) (invites d) of
        None \<Rightarrow> Inl ErrInviteInvalid | Some r \<Rightarrow> Inr (iv_id r))"

definition CreateInvite ::
  "(string \<Rightarrow> string) \<Rightarrow> time \<Rightarrow> uuid \<Rightarrow> uuid \<Rightarrow> string \<Rightarrow> string \<Rightarrow> time \<Rightarrow> db \<Rightarrow> error + (invite \<times> db)" where
  "CreateInvite hash now i actorID label rawToken expiresAt d =
     (let r = \<lparr> iv_id = i, iv_token_hash = hash rawToken,
                iv_label = (let v = trim_space label in if v \<noteq> '''' then Some v else None),
                iv_created_by = actorID, iv_claimed_by = None, iv_created_at = now,
                iv_expires_at = expiresAt, iv_claimed_at = None, iv_revoked_at = None \<rparr> in
      case insert_invite r d of
        Inl e \<Rightarrow> Inl (Wrap ''create invite: '' e '''') | Inr d' \<Rightarrow> Inr (r, d'))"

definition ListInvites :: "db \<Rightarrow> (invite \<times> user option) list" where
  "ListInvites d =
     map (\<lambda>r. (r, case iv_claimed_by r of None \<Rightarrow> None | Some u \<Rightarrow> find (\<lambda>x. us_id x = u) (users d)))
       (take 200 (order_by (\<lambda>r. - iv_created_at r) (invites d)))"

definition RevokeInvite :: "time \<Rightarrow> uuid \<Rightarrow> db stmt" where
  "RevokeInvite now inviteID =
     (let p = (\<lambda>r. iv_id r = inviteID \<and> iv_claimed_at r = None \<and> iv_revoked_at r = None) in
      exec [require (\<lambda>d. affected p (invites d) \<noteq> 0) ErrNotFound,
            update_invites p (\<lambda>r. r\<lparr>iv_revoked_at := Some now\<rparr>)])"

definition CreateOAuthState ::
  "(string \<Rightarrow> string) \<Rightarrow> time \<Rightarrow> uuid \<Rightarrow> string \<Rightarrow> uuid option \<Rightarrow> string \<Rightarrow> db stmt" where
  "CreateOAuthState hash now i purpose inviteID rawState d =
     (case insert_oauth_state \<lparr> oa_id = i, oa_state_hash = hash rawState, oa_purpose = purpose,
             oa_invite_id = inviteID, oa_expires_at = now + minutes 10, oa_consumed_at = None \<rparr> d of
        Inl e \<Rightarrow> Inl (Wrap ''create oauth state: '' e '''') | Inr d' \<Rightarrow> Inr d')"

definition oauth_open :: "string \<Rightarrow> time \<Rightarrow> oauth_state \<Rightarrow> bool" where
  "oauth_open h now r \<longleftrightarrow> oa_state_hash r = h \<and> oa_consumed_at r = None \<and> oa_expires_at r > now"

definition ConsumeOAuthState :: "(string \<Rightarrow> string) \<Rightarrow> time \<Rightarrow> string \<Rightarrow> db \<Rightarrow> error + (oauth_state \<times> db)" where
  "ConsumeOAuthState hash now rawState d =
     (let p = oauth_open (hash rawState) now; f = (\<lambda>r. r\<lparr>oa_consumed_at := Some now\<rparr>) in
      case find p (oauth_states d) of
        None \<Rightarrow> Inl ErrUnauthorized
      | Some r \<Rightarrow> Inr (f r, d\<lparr>oauth_states := upd p f (oauth_states d)\<rparr>))"

section \<open>Logging in with Discord\<close>

record discord_user =
  di_id :: string
  di_username :: string
  di_global_name :: "string option"
  di_avatar :: "string option"
  di_locale :: "string option"
  di_mfa_enabled :: bool
  di_bot :: bool
  di_system :: bool

definition upsertDiscordUser ::
  "time \<Rightarrow> uuid \<Rightarrow> discord_user \<Rightarrow> string \<Rightarrow> string \<Rightarrow> db \<Rightarrow> error + (user \<times> db)" where
  "upsertDiscordUser now i discord initialStatus initialRole d =
     (let role = (if initialRole = '''' then ''viewer'' else initialRole);
          p = (\<lambda>u. us_discord_id u = di_id discord);
          refresh = (\<lambda>u. u\<lparr>us_username := di_username discord, us_global_name := di_global_name discord,
                  us_avatar_hash := di_avatar discord, us_locale := di_locale discord,
                  us_mfa_enabled := di_mfa_enabled discord, us_mfa_checked_at := now,
                  us_last_login_at := Some now, us_updated_at := now\<rparr>);
          fresh = \<lparr> us_id = i, us_discord_id = di_id discord, us_username = di_username discord,
                  us_global_name = di_global_name discord, us_avatar_hash = di_avatar discord,
                  us_locale = di_locale discord, us_mfa_enabled = di_mfa_enabled discord,
                  us_mfa_checked_at = now, us_status = initialStatus, us_panel_role = role,
                  us_created_at = now, us_updated_at = now, us_last_login_at = Some now \<rparr> in
      case find p (users d) of
        Some u \<Rightarrow> Inr (refresh u, d\<lparr>users := upd p refresh (users d)\<rparr>)
      | None \<Rightarrow>
          if i \<notin> us_id ` set (users d) \<and> check_user fresh then Inr (fresh, d\<lparr>users := users d @ [fresh]\<rparr>)
          else Inl (Wrap ''upsert discord user: '' (Constraint ''users'') ''''))"

definition claimOwner :: "time \<Rightarrow> uuid \<Rightarrow> discord_user \<Rightarrow> db \<Rightarrow> error + (user \<times> db)" where
  "claimOwner now i discord d =
     (case installations d of
        [] \<Rightarrow> Inl (Wrap ''lock installation: '' ErrNoRows '''')
      | r # _ \<Rightarrow>
          if in_owner_user_id r \<noteq> None then Inl ErrAlreadyClaimed
          else case upsertDiscordUser now i discord ''active'' ''owner'' d of
            Inl e \<Rightarrow> Inl e
          | Inr (u, d1) \<Rightarrow> ret u (update_installations
              (\<lambda>r. r\<lparr>in_owner_user_id := Some (us_id u), in_bootstrap_token_hash := None,
                     in_updated_at := now\<rparr>) d1))"

definition claimInvite :: "time \<Rightarrow> uuid \<Rightarrow> uuid \<Rightarrow> discord_user \<Rightarrow> db \<Rightarrow> error + (user \<times> db)" where
  "claimInvite now i inviteID discord d =
     (case find (\<lambda>r. iv_id r = inviteID) (invites d) of
        None \<Rightarrow> Inl ErrInviteInvalid
      | Some r \<Rightarrow>
          if \<not> invite_open now r then Inl ErrInviteInvalid
          else case upsertDiscordUser now i discord ''pending'' ''viewer'' d of
            Inl e \<Rightarrow> Inl e
          | Inr (u, d1) \<Rightarrow>
              if us_status u = ''suspended'' \<or> us_status u = ''rejected'' then Inl ErrUnauthorized
              else ret u (update_invites (\<lambda>r. iv_id r = inviteID)
                (\<lambda>r. r\<lparr>iv_claimed_by := Some (us_id u), iv_claimed_at := Some now\<rparr>) d1))"

definition loginExisting :: "time \<Rightarrow> uuid \<Rightarrow> discord_user \<Rightarrow> db \<Rightarrow> error + (user \<times> db)" where
  "loginExisting now i discord d =
     (case find (\<lambda>u. us_discord_id u = di_id discord) (users d) of
        None \<Rightarrow> Inl ErrUnauthorized
      | Some u \<Rightarrow>
          if us_status u = ''suspended'' \<or> us_status u = ''rejected'' then Inl ErrUnauthorized
          else upsertDiscordUser now i discord (us_status u) '''' d)"

definition mfaRequired :: "string \<Rightarrow> string \<Rightarrow> bool" where
  "mfaRequired policy role =
     (if policy = ''everyone'' then True
      else if policy = ''operators'' then
        role = ''owner'' \<or> role = ''administrator'' \<or> role = ''operator''
      else if policy = ''administrators'' then role = ''owner'' \<or> role = ''administrator''
      else False)"

definition CompleteOAuth ::
  "time \<Rightarrow> uuid \<Rightarrow> string \<Rightarrow> uuid option \<Rightarrow> discord_user \<Rightarrow> db \<Rightarrow> error + (user \<times> db)" where
  "CompleteOAuth now i purpose inviteID discord d =
     (if di_bot discord \<or> di_system discord \<or> di_id discord = '''' \<or> di_username discord = ''''
      then Inl ErrUnauthorized
      else case (if purpose = ''claim'' then claimOwner now i discord d
                 else if purpose = ''invite'' then
                   (case inviteID of None \<Rightarrow> Inl ErrInviteInvalid
                                   | Some v \<Rightarrow> claimInvite now i v discord d)
                 else if purpose = ''login'' then loginExisting now i discord d
                 else Inl ErrUnauthorized) of
        Inl e \<Rightarrow> Inl e
      | Inr (u, d1) \<Rightarrow>
          (case installations d1 of
             [] \<Rightarrow> Inl (Wrap ''load mfa policy: '' ErrNoRows '''')
           | r # _ \<Rightarrow>
               if mfaRequired (in_mfa_policy r) (us_panel_role u) \<and> \<not> di_mfa_enabled discord
               then Inl ErrMFARequired else Inr (u, d1)))"

section \<open>Sessions\<close>

definition CreateSession ::
  "(string \<Rightarrow> string) \<Rightarrow> time \<Rightarrow> uuid \<Rightarrow> uuid \<Rightarrow> string \<Rightarrow> string \<Rightarrow> duration \<Rightarrow> duration \<Rightarrow> db stmt" where
  "CreateSession hash now i userID rawToken rawCSRF idle absolute d =
     (case insert_session \<lparr> se_id = i, se_user_id = userID, se_token_hash = hash rawToken,
             se_csrf_hash = hash rawCSRF, se_last_seen_at = now,
             se_idle_expires_at = now + interval_of idle,
             se_absolute_expires_at = now + interval_of absolute, se_revoked_at = None \<rparr> d of
        Inl e \<Rightarrow> Inl (Wrap ''create session: '' e '''') | Inr d' \<Rightarrow> Inr d')"

definition session_user :: "db \<Rightarrow> session \<Rightarrow> user option" where
  "session_user d s = find (\<lambda>u. us_id u = se_user_id s) (users d)"

definition session_valid :: "db \<Rightarrow> time \<Rightarrow> session \<Rightarrow> bool" where
  "session_valid d now s \<longleftrightarrow>
     se_revoked_at s = None \<and> se_idle_expires_at s > now \<and> se_absolute_expires_at s > now \<and>
     (case session_user d s of
        None \<Rightarrow> False | Some u \<Rightarrow> us_status u = ''pending'' \<or> us_status u = ''active'')"

definition SessionByToken ::
  "(string \<Rightarrow> string) \<Rightarrow> time \<Rightarrow> string \<Rightarrow> duration \<Rightarrow> db \<Rightarrow> error + ((session \<times> user) \<times> db)" where
  "SessionByToken hash now rawToken idle d =
     (let p = (\<lambda>s. se_token_hash s = hash rawToken \<and> session_valid d now s);
          f = (\<lambda>s. s\<lparr>se_last_seen_at := now,
                     se_idle_expires_at := min (now + interval_of idle) (se_absolute_expires_at s)\<rparr>) in
      case find p (sessions d) of
        None \<Rightarrow> Inl ErrUnauthorized
      | Some s \<Rightarrow>
          (case session_user d s of
             None \<Rightarrow> Inl ErrUnauthorized
           | Some u \<Rightarrow> Inr ((f s, u), d\<lparr>sessions := upd p f (sessions d)\<rparr>)))"

definition RevokeSession :: "time \<Rightarrow> uuid \<Rightarrow> db stmt" where
  "RevokeSession now sessionID =
     update_sessions (\<lambda>s. se_id s = sessionID) (\<lambda>s. s\<lparr>se_revoked_at := Some now\<rparr>)"

definition revoke_user_sessions :: "time \<Rightarrow> uuid \<Rightarrow> db stmt" where
  "revoke_user_sessions now userID =
     update_sessions (\<lambda>s. se_user_id s = userID \<and> se_revoked_at s = None)
       (\<lambda>s. s\<lparr>se_revoked_at := Some now\<rparr>)"

section \<open>Users\<close>

definition status_order :: "user \<Rightarrow> int" where
  "status_order u = (if us_status u = ''pending'' then 0 else if us_status u = ''active'' then 1 else 2)"

definition ListUsers :: "db \<Rightarrow> user list" where
  "ListUsers d = order_by status_order (order_by (\<lambda>u. - us_created_at u) (users d))"

definition is_pending :: "uuid \<Rightarrow> user \<Rightarrow> bool" where
  "is_pending userID u \<longleftrightarrow> us_id u = userID \<and> us_status u = ''pending''"

definition ActivateUser :: "time \<Rightarrow> uuid \<Rightarrow> uuid \<Rightarrow> uuid \<Rightarrow> string \<Rightarrow> db stmt" where
  "ActivateUser now auditID actorID userID panelRole d =
     (if panelRole \<noteq> ''administrator'' \<and> panelRole \<noteq> ''operator'' \<and> panelRole \<noteq> ''viewer''
      then Inl (Wrap '''' ErrConflict '': invalid role'')
      else exec [
        require (\<lambda>d. affected (is_pending userID) (users d) \<noteq> 0) ErrNotFound,
        update_users (is_pending userID)
          (\<lambda>u. u\<lparr>us_status := ''active'', us_panel_role := panelRole, us_updated_at := now\<rparr>),
        insert_audit auditID actorID ''user.activate'' ''user'' userID
          (JObj [(''panel_role'', JStr panelRole)])] d)"

definition RejectUser :: "time \<Rightarrow> uuid \<Rightarrow> uuid \<Rightarrow> uuid \<Rightarrow> db stmt" where
  "RejectUser now auditID actorID userID =
     exec [
       require (\<lambda>d. affected (is_pending userID) (users d) \<noteq> 0) ErrNotFound,
       update_users (is_pending userID) (\<lambda>u. u\<lparr>us_status := ''rejected'', us_updated_at := now\<rparr>),
       revoke_user_sessions now userID,
       insert_audit auditID actorID ''user.reject'' ''user'' userID JNull]"

end
