(* ===== verification/Access.thy ===== *)
theory Access
  imports Accounts Servers
begin

text \<open>
  \<open>internal/store/access.go\<close> and the authorisation part of \<open>internal/httpapi/middleware.go\<close>: the
  built-in roles and their permissions, the bindings of users to servers, and the gates a request
  passes.
\<close>

section \<open>Built-in roles\<close>

definition viewer_permissions :: "string list" where
  "viewer_permissions = [''server.view'', ''server.console.read'', ''server.files.read'']"

definition operator_permissions :: "string list" where
  "operator_permissions =
     [''server.view'', ''server.power.start'', ''server.power.stop'', ''server.power.restart'',
      ''server.power.kill'', ''server.console.read'', ''server.console.write'',
      ''server.files.read'', ''server.files.write'', ''server.files.delete'',
      ''server.backups.download'', ''server.backups.manage'', ''server.backups.restore'',
      ''server.schedules.manage'']"

definition administrator_permissions :: "string list" where
  "administrator_permissions =
     [''server.view'', ''server.power.start'', ''server.power.stop'', ''server.power.restart'',
      ''server.power.kill'', ''server.console.read'', ''server.console.write'',
      ''server.files.read'', ''server.files.write'', ''server.files.delete'',
      ''server.backups.download'', ''server.backups.manage'', ''server.backups.restore'',
      ''server.schedules.manage'', ''server.databases.manage'', ''server.network.manage'',
      ''server.startup.manage'', ''server.resources.manage'', ''server.webhooks.manage'',
      ''server.delete'']"

definition builtInRolePermissions :: "(string \<times> string list) list" where
  "builtInRolePermissions =
     [(''owner'', [''*'']), (''administrator'', administrator_permissions),
      (''operator'', operator_permissions), (''viewer'', viewer_permissions)]"

definition roleRank :: "string \<Rightarrow> int" where
  "roleRank role =
     (if role = ''owner'' then 4 else if role = ''administrator'' then 3
      else if role = ''operator'' then 2 else if role = ''viewer'' then 1 else 0)"

text \<open>The rank the DELETE of \<open>UpdateUserAccess\<close> gives a role name.\<close>

definition binding_rank :: "string \<Rightarrow> int" where
  "binding_rank role =
     (if role = ''administrator'' then 3 else if role = ''operator'' then 2
      else if role = ''viewer'' then 1 else 99)"

definition insert_role_or_ignore :: "role \<Rightarrow> db stmt" where
  "insert_role_or_ignore r d =
     (if \<exists>x \<in> set (roles d). ro_installation_id x = ro_installation_id r \<and> ro_name x = ro_name r then Inr d
      else constrain (ro_id r \<notin> ro_id ` set (roles d)) ''roles'' (d\<lparr>roles := roles d @ [r]\<rparr>))"

text \<open>
  \<open>INSERT INTO role_permissions ... SELECT role.id, $3 FROM roles ... ON CONFLICT DO NOTHING\<close>; the
  permission must exist.
\<close>

definition grant_permission :: "uuid \<Rightarrow> string \<Rightarrow> string \<Rightarrow> db stmt" where
  "grant_permission installationID roleName permission d =
     (let granted = map (\<lambda>r. \<lparr>rp_role_id = ro_id r, rp_permission = permission\<rparr>)
            (filter (\<lambda>r. ro_installation_id r = installationID \<and> ro_name r = roleName) (roles d)) in
      constrain (granted = [] \<or> permission \<in> set (permissions d)) ''role_permissions''
        (d\<lparr>role_permissions := role_permissions d @
             filter (\<lambda>g. g \<notin> set (role_permissions d)) granted\<rparr>))"

definition role_grants :: "db \<Rightarrow> string list \<Rightarrow> string list" where
  "role_grants d requested = (if requested = [''*''] then permissions d else requested)"

text \<open>
  The code iterates over a Go map, whose order varies; the statements insert what is missing, so the
  rows do not depend on it, and the model takes the order of the declaration.
\<close>

definition ensureBuiltInRolePermissions :: "uuid \<Rightarrow> db stmt" where
  "ensureBuiltInRolePermissions installationID =
     for_each (\<lambda>(roleName, requested) d.
         for_each (grant_permission installationID roleName) (role_grants d requested) d)
       builtInRolePermissions"

definition ensure_role :: "(string \<Rightarrow> uuid) \<Rightarrow> uuid \<Rightarrow> string \<Rightarrow> db stmt" where
  "ensure_role new_id installationID name =
     insert_role_or_ignore \<lparr> ro_id = new_id name, ro_installation_id = installationID, ro_name = name \<rparr>"

text \<open>Each role is inserted on its own; the grants are one transaction.  \<open>new_id\<close> is the
  identifier drawn for a role.\<close>

definition ensureBuiltInRoles :: "(string \<Rightarrow> uuid) \<Rightarrow> uuid \<Rightarrow> db \<Rightarrow> error option \<times> db" where
  "ensureBuiltInRoles new_id installationID d =
     autocommit (map (ensure_role new_id installationID)
         [''owner'', ''administrator'', ''operator'', ''viewer''] @
       [ensureBuiltInRolePermissions installationID]) d"

section \<open>Access to servers\<close>

definition role_has :: "db \<Rightarrow> uuid \<Rightarrow> string \<Rightarrow> bool" where
  "role_has d roleID permission \<longleftrightarrow>
     (\<exists>g \<in> set (role_permissions d). rp_role_id g = roleID \<and> rp_permission g = permission)"

definition UserHasServerPermission :: "uuid \<Rightarrow> uuid \<Rightarrow> string \<Rightarrow> db \<Rightarrow> bool" where
  "UserHasServerPermission userID serverID permission d \<longleftrightarrow>
     (\<exists>b \<in> set (role_bindings d). rb_user_id b = userID \<and> rb_server_id b = Some serverID \<and>
        role_has d (rb_role_id b) permission)"

text \<open>One row per binding of the user to a live server: server, name and role (unordered here).\<close>

definition UserServerAccess :: "uuid \<Rightarrow> db \<Rightarrow> (uuid \<times> string \<times> string) list" where
  "UserServerAccess userID d =
     concat (map (\<lambda>b. case rb_server_id b of
         None \<Rightarrow> []
       | Some i \<Rightarrow>
           (case (find (live i) (servers d), find (\<lambda>r. ro_id r = rb_role_id b) (roles d)) of
              (Some s, Some r) \<Rightarrow> [(sv_id s, sv_name s, ro_name r)] | _ \<Rightarrow> []))
       (filter (\<lambda>b. rb_user_id b = userID) (role_bindings d)))"

definition bind_server :: "uuid \<Rightarrow> uuid \<Rightarrow> uuid \<Rightarrow> string \<Rightarrow> uuid \<Rightarrow> db stmt" where
  "bind_server actorID userID serverID roleName bindingID d =
     (case find (live serverID) (servers d) of
        None \<Rightarrow> Inl ErrNotFound
      | Some s \<Rightarrow>
          (case find (\<lambda>r. ro_installation_id r = sv_installation_id s \<and> ro_name r = roleName) (roles d) of
             None \<Rightarrow> Inl ErrNotFound
           | Some r \<Rightarrow> insert_binding \<lparr> rb_id = bindingID, rb_user_id = userID, rb_role_id = ro_id r,
               rb_server_id = Some serverID, rb_created_by = Some actorID \<rparr> d))"

definition assignable :: "int \<Rightarrow> string \<Rightarrow> bool" where
  "assignable maximum roleName \<longleftrightarrow>
     (roleName = ''administrator'' \<or> roleName = ''operator'' \<or> roleName = ''viewer'') \<and>
     roleRank roleName \<le> maximum"

definition chosen_role :: "(uuid \<times> string) list \<Rightarrow> uuid \<Rightarrow> string" where
  "chosen_role bindings serverID = (case map_of bindings serverID of None \<Rightarrow> '''' | Some r \<Rightarrow> r)"

text \<open>\<open>bindings\<close> is a Go map from servers to role names: an association list with distinct keys.\<close>

definition SetUserServerAccess ::
  "uuid list \<Rightarrow> uuid \<Rightarrow> uuid \<Rightarrow> uuid \<Rightarrow> (uuid \<times> string) list \<Rightarrow> db stmt" where
  "SetUserServerAccess bindingIDs auditID actorID userID bindings d =
     (case find (\<lambda>u. us_id u = userID) (users d) of
        None \<Rightarrow> Inl ErrNotFound
      | Some u \<Rightarrow>
          if us_panel_role u = ''owner'' \<or> us_status u \<noteq> ''active'' then Inl ErrConflict
          else if \<not> list_all (\<lambda>(i, roleName). assignable (roleRank (us_panel_role u)) roleName) bindings
          then Inl ErrConflict
          else state_of (exec [
            lift_stmt (delete_bindings (\<lambda>b. rb_user_id b = userID \<and> rb_server_id b \<noteq> None)),
            for_each (\<lambda>serverID. with_id (bind_server actorID userID serverID (chosen_role bindings serverID)))
              (sort (map fst bindings)),
            lift_stmt (insert_audit auditID actorID ''user.server_access.update'' ''user'' userID
              (JObj [(''bindings'', JObj (map (\<lambda>(i, r). (i, JStr r)) bindings))]))] (d, bindingIDs)))"

definition changeable_user :: "uuid \<Rightarrow> user \<Rightarrow> bool" where
  "changeable_user userID u \<longleftrightarrow>
     us_id u = userID \<and> us_panel_role u \<noteq> ''owner'' \<and>
     (us_status u = ''active'' \<or> us_status u = ''suspended'')"

definition exceeds :: "db \<Rightarrow> uuid \<Rightarrow> int \<Rightarrow> role_binding \<Rightarrow> bool" where
  "exceeds d userID maximum b \<longleftrightarrow>
     rb_user_id b = userID \<and> rb_server_id b \<noteq> None \<and>
     (\<exists>r \<in> set (roles d). ro_id r = rb_role_id b \<and> binding_rank (ro_name r) > maximum)"

definition UpdateUserAccess :: "time \<Rightarrow> uuid \<Rightarrow> uuid \<Rightarrow> uuid \<Rightarrow> string \<Rightarrow> string \<Rightarrow> db stmt" where
  "UpdateUserAccess now auditID actorID userID panelRole status d =
     (if roleRank panelRole < 1 \<or> roleRank panelRole > 3 \<or>
         (status \<noteq> ''active'' \<and> status \<noteq> ''suspended'')
      then Inl ErrConflict
      else exec [
        require (\<lambda>d. affected (changeable_user userID) (users d) = 1) ErrNotFound,
        update_users (changeable_user userID)
          (\<lambda>u. u\<lparr>us_panel_role := panelRole, us_status := status, us_updated_at := now\<rparr>),
        (\<lambda>d. delete_bindings (exceeds d userID (roleRank panelRole)) d),
        (if status = ''suspended'' then revoke_user_sessions now userID else skip),
        insert_audit auditID actorID ''user.access.update'' ''user'' userID
          (JObj [(''panel_role'', JStr panelRole), (''status'', JStr status)])] d)"

section \<open>The gates of a request\<close>

definition errForbidden :: error where "errForbidden = Message ''forbidden''"

record request =
  rq_method :: string
  rq_session_cookie :: string
  rq_csrf_token :: string
  rq_origin :: string

text \<open>
  Each gate answers the error it writes, or passes.  The session gate also moves the idle expiry,
  so it is run first and yields the session, its user and the new state.
\<close>

definition requireSession ::
  "(string \<Rightarrow> string) \<Rightarrow> time \<Rightarrow> duration \<Rightarrow> request \<Rightarrow> db \<Rightarrow> error + ((session \<times> user) \<times> db)" where
  "requireSession hash now idle r d =
     (if rq_session_cookie r = '''' then Inl ErrUnauthorized
      else SessionByToken hash now (rq_session_cookie r) idle d)"

definition requireActive :: "session \<times> user \<Rightarrow> error option" where
  "requireActive s = (if us_status (snd s) \<noteq> ''active'' then Some errForbidden else None)"

definition requireOwner :: "session \<times> user \<Rightarrow> error option" where
  "requireOwner s = (if us_panel_role (snd s) \<noteq> ''owner'' then Some errForbidden else None)"

definition privileged :: "string \<Rightarrow> bool" where
  "privileged role \<longleftrightarrow> role = ''owner'' \<or> role = ''administrator''"

definition requireAdministrator :: "session \<times> user \<Rightarrow> error option" where
  "requireAdministrator s = (if \<not> privileged (us_panel_role (snd s)) then Some errForbidden else None)"

definition canOperate :: "string \<Rightarrow> bool" where
  "canOperate role \<longleftrightarrow> privileged role \<or> role = ''operator''"

definition requireServerPermission :: "string \<Rightarrow> uuid \<Rightarrow> db \<Rightarrow> session \<times> user \<Rightarrow> error option" where
  "requireServerPermission permission serverID d s =
     (if privileged (us_panel_role (snd s)) then None
      else if UserHasServerPermission (us_id (snd s)) serverID permission d then None
      else Some errForbidden)"

definition requireCSRF :: "(string \<Rightarrow> string) \<Rightarrow> string \<Rightarrow> request \<Rightarrow> session \<times> user \<Rightarrow> error option" where
  "requireCSRF hash publicURL r s =
     (if rq_method r = ''GET'' \<or> rq_method r = ''HEAD'' \<or> rq_method r = ''OPTIONS'' then None
      else if rq_csrf_token r = '''' \<or> rq_origin r \<noteq> publicURL then Some errForbidden
      else if hash (rq_csrf_token r) \<noteq> se_csrf_hash (fst s) then Some errForbidden
      else None)"

end
