(* ===== verification/Access_Control.thy ===== *)
theory Access_Control
  imports Access
begin

text \<open>
  The invariant of the accounts: identifiers and Discord accounts are unique, and the role a user
  holds on a server never exceeds the user's panel role.  \<open>account_step\<close> is any operation of the
  account part of the store; the invariant holds in every state reached from a fresh installation.
\<close>

section \<open>The invariant\<close>

definition binding_ok :: "db \<Rightarrow> role_binding \<Rightarrow> bool" where
  "binding_ok d b \<longleftrightarrow>
     rb_user_id b \<in> us_id ` set (users d) \<and>
     (rb_server_id b \<noteq> None \<longrightarrow>
       (\<forall>u \<in> set (users d). us_id u = rb_user_id b \<longrightarrow>
          us_panel_role u \<noteq> ''owner'' \<and> us_status u \<noteq> ''pending'' \<and>
          (\<exists>r \<in> set (roles d). ro_id r = rb_role_id b \<and>
             assignable (roleRank (us_panel_role u)) (ro_name r))))"

definition access_ok :: "db \<Rightarrow> bool" where
  "access_ok d \<longleftrightarrow>
     distinct (map us_id (users d)) \<and> distinct (map us_discord_id (users d)) \<and>
     (\<forall>u \<in> set (users d). check_user u) \<and> distinct (map ro_id (roles d)) \<and>
     (\<forall>b \<in> set (role_bindings d). binding_ok d b)"

text \<open>The part of the state the invariant speaks of.\<close>

definition access_state :: "db \<Rightarrow> user list \<times> role list \<times> role_binding list" where
  "access_state d = (users d, roles d, role_bindings d)"

lemma access_ok_frame: "access_state d' = access_state d \<Longrightarrow> access_ok d' = access_ok d"
proof -
  assume "access_state d' = access_state d"
  then have "users d' = users d" "roles d' = roles d" "role_bindings d' = role_bindings d"
    by (simp_all add: access_state_def)
  then show ?thesis by (simp only: access_ok_def binding_ok_def)
qed

lemma frames_access: "frames access_state c \<Longrightarrow> preserves access_ok c"
  by (rule preservesI) (drule (1) framesD, drule access_ok_frame, blast)

named_theorems access_frames "statements that leave users, roles and bindings alone"

lemma access_frames_basic [access_frames]:
  "frames access_state (update_sessions p f)" "frames access_state (update_invites p2 f2)"
  "frames access_state (update_installations f3)" "frames access_state (insert_session s)"
  "frames access_state (insert_invite i)" "frames access_state (insert_oauth_state oa)"
  "frames access_state (insert_audit a b c e g h)" "frames access_state (require q err)"
  "frames access_state (revoke_user_sessions now u)"
  by (auto simp: frames_def access_state_def update_sessions_def update_invites_def
      update_installations_def insert_session_def insert_invite_def insert_oauth_state_def
      insert_audit_def insert_audit_row_def require_def revoke_user_sessions_def split: if_splits)

lemmas access_preserving = access_frames [THEN frames_access]

section \<open>Changes of users\<close>

lemma binding_okI:
  assumes "binding_ok d b" and "us_id ` set (users d) \<subseteq> us_id ` set (users d')"
    and "set (roles d) \<subseteq> set (roles d')"
    and "\<And>u'. u' \<in> set (users d') \<Longrightarrow> us_id u' = rb_user_id b \<Longrightarrow>
      \<exists>u \<in> set (users d). us_id u = us_id u' \<and> us_panel_role u = us_panel_role u' \<and> us_status u = us_status u'"
  shows "binding_ok d' b"
  unfolding binding_ok_def
proof (intro conjI impI ballI)
  show "rb_user_id b \<in> us_id ` set (users d')" using assms(1,2) by (auto simp: binding_ok_def)
next
  fix u' assume server: "rb_server_id b \<noteq> None" and u': "u' \<in> set (users d')" "us_id u' = rb_user_id b"
  from assms(4) [OF u'] obtain u where u: "u \<in> set (users d)" "us_id u = us_id u'"
    "us_panel_role u = us_panel_role u'" "us_status u = us_status u'" by blast
  have "us_id u = rb_user_id b" using u(2) u'(2) by simp
  with assms(1) u(1) server have "us_panel_role u \<noteq> ''owner'' \<and> us_status u \<noteq> ''pending'' \<and>
      (\<exists>r \<in> set (roles d). ro_id r = rb_role_id b \<and> assignable (roleRank (us_panel_role u)) (ro_name r))"
    unfolding binding_ok_def by blast
  with u assms(3) show "us_panel_role u' \<noteq> ''owner''" "us_status u' \<noteq> ''pending''"
    "\<exists>r \<in> set (roles d'). ro_id r = rb_role_id b \<and> assignable (roleRank (us_panel_role u')) (ro_name r)"
    by auto
qed

lemma update_users_access_ok:
  assumes ok: "access_ok d"
    and keep: "\<And>u. us_id (f u) = us_id u" "\<And>u. us_discord_id (f u) = us_discord_id u"
    and check: "\<And>u. p u \<Longrightarrow> check_user u \<Longrightarrow> check_user (f u)"
    and bindings: "\<And>b. b \<in> set (role_bindings d) \<Longrightarrow>
      binding_ok (d\<lparr>users := upd p f (users d)\<rparr>) b"
  shows "access_ok (d\<lparr>users := upd p f (users d)\<rparr>)"
proof -
  have ids: "map us_id (upd p f (users d)) = map us_id (users d)"
    "map us_discord_id (upd p f (users d)) = map us_discord_id (users d)"
    by (rule map_upd; simp add: keep)+
  have "\<forall>u \<in> set (upd p f (users d)). check_user u"
    using ok check by (intro ball_upd) (auto simp: access_ok_def)
  with ok ids bindings show ?thesis unfolding access_ok_def by simp
qed

lemma refresh_access_ok:
  assumes ok: "access_ok d"
    and keep: "\<And>u. us_id (f u) = us_id u" "\<And>u. us_discord_id (f u) = us_discord_id u"
      "\<And>u. us_panel_role (f u) = us_panel_role u" "\<And>u. us_status (f u) = us_status u"
  shows "access_ok (d\<lparr>users := upd p f (users d)\<rparr>)"
proof (rule update_users_access_ok [OF ok keep(1,2)])
  fix u assume "check_user u"
  then show "check_user (f u)" by (simp add: check_user_def keep)
next
  have ids: "us_id ` set (users d) \<subseteq> us_id ` set (users (d\<lparr>users := upd p f (users d)\<rparr>))"
    by (simp add: ids_upd keep)
  fix b assume "b \<in> set (role_bindings d)"
  with ok have "binding_ok d b" by (simp add: access_ok_def)
  then show "binding_ok (d\<lparr>users := upd p f (users d)\<rparr>) b"
    by (rule binding_okI [OF _ ids]) (auto simp: set_upd keep)
qed

lemma upsert_access_ok:
  assumes ok: "access_ok d" and run: "upsertDiscordUser now i di st ro d = Inr (u, d')"
  shows "access_ok d'"
proof (cases "find (\<lambda>u. us_discord_id u = di_id di) (users d)")
  case (Some v)
  with run show ?thesis
    by (auto simp: upsertDiscordUser_def Let_def intro!: refresh_access_ok [OF ok])
next
  case None
  with run have d': "d' = d\<lparr>users := users d @ [u]\<rparr>" and fresh: "i \<notin> us_id ` set (users d)"
    and u: "us_id u = i" "us_discord_id u = di_id di" "check_user u"
    by (auto simp: upsertDiscordUser_def Let_def split: if_splits)
  have "di_id di \<notin> us_discord_id ` set (users d)" using find_NoneD [OF None] by (metis imageE)
  moreover have "binding_ok d' b" if "b \<in> set (role_bindings d)" for b
  proof (rule binding_okI)
    show "binding_ok d b" using ok that by (simp add: access_ok_def)
    then have "rb_user_id b \<noteq> i" using fresh by (auto simp: binding_ok_def)
    then show "\<exists>x \<in> set (users d). us_id x = us_id u' \<and> us_panel_role x = us_panel_role u' \<and> us_status x = us_status u'"
      if "u' \<in> set (users d')" "us_id u' = rb_user_id b" for u'
      using that u(1) by (auto simp: d')
  qed (auto simp: d')
  ultimately show ?thesis
    using ok fresh u by (auto simp: access_ok_def d')
qed

section \<open>The operations\<close>

lemma claimOwner_access_ok:
  "access_ok d \<Longrightarrow> claimOwner now i di d = Inr (u, d') \<Longrightarrow> access_ok d'"
  by (auto simp: claimOwner_def split: list.splits if_splits sum.splits prod.splits
      dest: preservesD [OF access_preserving(3)] upsert_access_ok)

lemma claimInvite_access_ok:
  "access_ok d \<Longrightarrow> claimInvite now i iv di d = Inr (u, d') \<Longrightarrow> access_ok d'"
  by (auto simp: claimInvite_def split: option.splits if_splits sum.splits prod.splits
      dest: preservesD [OF access_preserving(2)] upsert_access_ok)

lemma loginExisting_access_ok:
  "access_ok d \<Longrightarrow> loginExisting now i di d = Inr (u, d') \<Longrightarrow> access_ok d'"
  by (auto simp: loginExisting_def split: option.splits if_splits dest: upsert_access_ok)

lemma CompleteOAuth_access_ok:
  "access_ok d \<Longrightarrow> CompleteOAuth now i purpose iv di d = Inr (u, d') \<Longrightarrow> access_ok d'"
  by (auto simp: CompleteOAuth_def split: if_splits sum.splits prod.splits list.splits option.splits
      dest: claimOwner_access_ok claimInvite_access_ok loginExisting_access_ok)

text \<open>Users without a server binding can be approved, rejected or given a role.\<close>

lemma pending_has_no_binding:
  "access_ok d \<Longrightarrow> u \<in> set (users d) \<Longrightarrow> us_status u = ''pending'' \<Longrightarrow> b \<in> set (role_bindings d) \<Longrightarrow>
   rb_user_id b = us_id u \<Longrightarrow> rb_server_id b = None"
  by (auto simp: access_ok_def binding_ok_def)

lemma change_pending_access_ok:
  assumes ok: "access_ok d" and keep: "\<And>u. us_id (f u) = us_id u" "\<And>u. us_discord_id (f u) = us_discord_id u"
    and check: "\<And>u. check_user u \<Longrightarrow> check_user (f u)"
  shows "access_ok (d\<lparr>users := upd (is_pending i) f (users d)\<rparr>)"
proof (rule update_users_access_ok [OF ok keep check])
  fix b assume b: "b \<in> set (role_bindings d)"
  with ok have bok: "binding_ok d b" by (simp add: access_ok_def)
  have ids: "us_id ` set (users d) \<subseteq> us_id ` set (upd (is_pending i) f (users d))"
    by (simp add: ids_upd keep)
  show "binding_ok (d\<lparr>users := upd (is_pending i) f (users d)\<rparr>) b"
  proof (cases "rb_server_id b = None")
    case True
    with bok ids show ?thesis by (auto simp: binding_ok_def)
  next
    case False
    then have "\<not> is_pending i u" if "u \<in> set (users d)" "us_id u = rb_user_id b" for u
      using pending_has_no_binding [OF ok that(1) _ b] that(2) by (auto simp: is_pending_def)
    then show ?thesis
      using ids by (intro binding_okI [OF bok]) (auto simp: set_upd keep)
  qed
qed

lemma ActivateUser_access_ok: "preserves access_ok (ActivateUser now au actor i role)"
proof (cases "role = ''administrator'' \<or> role = ''operator'' \<or> role = ''viewer''")
  case True
  have "preserves access_ok (update_users (is_pending i)
      (\<lambda>u. u\<lparr>us_status := ''active'', us_panel_role := role, us_updated_at := now\<rparr>))"
    by (rule preservesI) (use True in \<open>auto simp: update_users_def check_user_def intro!: change_pending_access_ok\<close>)
  then show ?thesis
    by (intro preserves_by_sat)
      (auto simp: ActivateUser_def access_preserving intro!: sat_exec)
next
  case False
  then show ?thesis by (auto simp: ActivateUser_def preserves_def)
qed

lemma RejectUser_access_ok: "preserves access_ok (RejectUser now au actor i)"
proof -
  have "preserves access_ok (update_users (is_pending i)
      (\<lambda>u. u\<lparr>us_status := ''rejected'', us_updated_at := now\<rparr>))"
    by (rule preservesI) (auto simp: update_users_def check_user_def intro!: change_pending_access_ok)
  then show ?thesis unfolding RejectUser_def by (intro preserves_exec) (simp add: access_preserving)
qed

lemma assignable_rank: "assignable n role \<Longrightarrow> binding_rank role = roleRank role"
  by (auto simp: assignable_def binding_rank_def roleRank_def)

lemma delete_bindings_access_ok: "preserves access_ok (delete_bindings p)"
  by (rule preservesI) (auto simp: delete_bindings_def access_ok_def binding_ok_def set_del)

lemma delete_bindings_users: "delete_bindings p d = Inr d' \<Longrightarrow> users d' = users d"
  by (auto simp: delete_bindings_def)

lemma bind_server_access_ok:
  assumes ok: "access_ok d" and u: "u \<in> set (users d)" "us_panel_role u \<noteq> ''owner''" "us_status u = ''active''"
    and role: "assignable (roleRank (us_panel_role u)) role"
    and run: "bind_server actor (us_id u) srv role i d = Inr d'"
  shows "access_ok d' \<and> users d' = users d"
proof -
  from run obtain s r where s: "find (live srv) (servers d) = Some s"
    and r: "find (\<lambda>r. ro_installation_id r = sv_installation_id s \<and> ro_name r = role) (roles d) = Some r"
    and d': "d' = d\<lparr>role_bindings := role_bindings d @ [\<lparr> rb_id = i, rb_user_id = us_id u,
      rb_role_id = ro_id r, rb_server_id = Some srv, rb_created_by = Some actor \<rparr>]\<rparr>"
    by (auto simp: bind_server_def insert_binding_def split: option.splits)
  from find_SomeD [OF r] have r': "r \<in> set (roles d)" "ro_name r = role" by auto
  have same: "x = u" if "x \<in> set (users d)" "us_id x = us_id u" for x
    using ok that u(1) unfolding access_ok_def by (blast intro: distinct_key_eq)
  have new: "binding_ok d \<lparr> rb_id = i, rb_user_id = us_id u, rb_role_id = ro_id r,
      rb_server_id = Some srv, rb_created_by = Some actor \<rparr>"
    unfolding binding_ok_def using u r' role by (auto dest!: same)
  have old: "binding_ok d b" if "b \<in> set (role_bindings d)" for b
    using ok that by (simp add: access_ok_def)
  have "binding_ok d' b = binding_ok d b" for b by (simp add: binding_ok_def d')
  with ok new old show ?thesis by (auto simp: access_ok_def d')
qed

lemma chosen_role_assignable:
  assumes "list_all (\<lambda>(i, r). assignable n r) bs" and "srv \<in> set (map fst bs)"
  shows "assignable n (chosen_role bs srv)"
proof -
  from assms(2) obtain role where "map_of bs srv = Some role"
    by (metis domD dom_map_of_conv_image_fst set_map)
  with assms(1) show ?thesis by (auto simp: chosen_role_def list_all_iff dest!: map_of_SomeD)
qed

text \<open>The states of the binding loop: the invariant holds and the users are those of the start.\<close>

definition binding_loop :: "db \<Rightarrow> db \<times> uuid list \<Rightarrow> bool" where
  "binding_loop d p \<longleftrightarrow> access_ok (fst p) \<and> users (fst p) = users d"

lemma bind_server_loop:
  assumes u: "find (\<lambda>u. us_id u = i) (users d) = Some u" "us_panel_role u \<noteq> ''owner''" "us_status u = ''active''"
    and role: "assignable (roleRank (us_panel_role u)) role"
  shows "preserves (binding_loop d) (with_id (bind_server actor i srv role))"
proof (rule preservesI)
  fix p p' assume p: "binding_loop d p" and run: "with_id (bind_server actor i srv role) p = Inr p'"
  from find_SomeD [OF u(1)] have u': "u \<in> set (users (fst p))" "us_id u = i"
    using p by (auto simp: binding_loop_def)
  from run obtain bid where "bind_server actor i srv role bid (fst p) = Inr (fst p')"
    by (auto simp: with_id_def split: prod.splits list.splits sum.splits)
  with p u u' role show "binding_loop d p'"
    using bind_server_access_ok [of "fst p" u role actor srv bid "fst p'"] by (simp add: binding_loop_def)
qed

lemma SetUserServerAccess_access_ok: "preserves access_ok (SetUserServerAccess ids au actor i bs)"
proof (rule preserves_by_sat)
  fix d assume ok: "access_ok d"
  have delete: "preserves (binding_loop d) (lift_stmt (delete_bindings q))" for q
  proof (rule preservesI)
    fix p p' assume "binding_loop d p" and "lift_stmt (delete_bindings q) p = Inr p'"
    moreover from this have "delete_bindings q (fst p) = Inr (fst p')"
      by (auto simp: lift_stmt_def split: prod.splits sum.splits)
    moreover from this have "users (fst p') = users (fst p)" by (rule delete_bindings_users)
    ultimately show "binding_loop d p'"
      using preservesD [OF delete_bindings_access_ok] by (auto simp: binding_loop_def)
  qed
  have audit: "preserves (binding_loop d) (lift_stmt (insert_audit a b c e f g))" for a b c e f g
  proof (rule preservesI)
    fix p p' assume "binding_loop d p" and "lift_stmt (insert_audit a b c e f g) p = Inr p'"
    moreover from this have run: "insert_audit a b c e f g (fst p) = Inr (fst p')"
      by (auto simp: lift_stmt_def split: prod.splits sum.splits)
    moreover from this have "users (fst p') = users (fst p)"
      by (auto simp: insert_audit_def insert_audit_row_def)
    ultimately show "binding_loop d p'"
      using preservesD [OF access_preserving(7)] by (auto simp: binding_loop_def)
  qed
  have loop: "sat (binding_loop d) (exec [lift_stmt (delete_bindings q),
      for_each (\<lambda>srv. with_id (bind_server actor i srv (chosen_role bs srv))) (sort (map fst bs)),
      lift_stmt (insert_audit a b c e f g)] (d, ids))"
    if u: "find (\<lambda>u. us_id u = i) (users d) = Some u" "us_panel_role u \<noteq> ''owner''" "us_status u = ''active''"
      and roles: "list_all (\<lambda>(i, r). assignable (roleRank (us_panel_role u)) r) bs" for u q a b c e f g
  proof (rule sat_exec)
    show "binding_loop d (d, ids)" using ok by (simp add: binding_loop_def)
    have "preserves (binding_loop d)
        (for_each (\<lambda>srv. with_id (bind_server actor i srv (chosen_role bs srv))) (sort (map fst bs)))"
      by (rule preserves_for_each, rule bind_server_loop [OF u], rule chosen_role_assignable [OF roles]) simp
    then show "list_all (preserves (binding_loop d)) [lift_stmt (delete_bindings q),
      for_each (\<lambda>srv. with_id (bind_server actor i srv (chosen_role bs srv))) (sort (map fst bs)),
      lift_stmt (insert_audit a b c e f g)]"
      by (simp add: delete audit)
  qed
  have "sat access_ok (state_of (exec [lift_stmt (delete_bindings q),
      for_each (\<lambda>srv. with_id (bind_server actor i srv (chosen_role bs srv))) (sort (map fst bs)),
      lift_stmt (insert_audit a b c e f g)] (d, ids)))"
    if "find (\<lambda>u. us_id u = i) (users d) = Some u" "us_panel_role u \<noteq> ''owner''" "us_status u = ''active''"
      "list_all (\<lambda>(i, r). assignable (roleRank (us_panel_role u)) r) bs" for u q a b c e f g
    unfolding sat_state_of by (rule sat_mono [OF loop [OF that]]) (simp add: binding_loop_def)
  then show "sat access_ok (SetUserServerAccess ids au actor i bs d)"
    unfolding SetUserServerAccess_def by (intro sat_intros) simp_all
qed

lemma change_access_ok:
  assumes ok: "access_ok d" and role: "1 \<le> roleRank role" "roleRank role \<le> 3"
    and st: "st = ''active'' \<or> st = ''suspended''"
    and d1: "d1 = d\<lparr>users := upd (changeable_user i)
      (\<lambda>u. u\<lparr>us_panel_role := role, us_status := st, us_updated_at := now\<rparr>) (users d)\<rparr>"
  shows "access_ok (d1\<lparr>role_bindings := del (exceeds d1 i (roleRank role)) (role_bindings d1)\<rparr>)"
proof -
  let ?f = "\<lambda>u. u\<lparr>us_panel_role := role, us_status := st, us_updated_at := now\<rparr>"
  let ?d' = "d1\<lparr>role_bindings := del (exceeds d1 i (roleRank role)) (role_bindings d1)\<rparr>"
  have role': "role \<noteq> ''owner''" "check_user u \<Longrightarrow> check_user (?f u)" for u
    using role st by (auto simp: roleRank_def check_user_def split: if_splits)
  have ids: "map us_id (users ?d') = map us_id (users d)" "map us_discord_id (users ?d') = map us_discord_id (users d)"
    by (simp_all add: d1 map_ids_upd)
  have check: "\<forall>u \<in> set (users ?d'). check_user u"
  proof -
    have "\<forall>u \<in> set (users d). check_user u" using ok by (simp add: access_ok_def)
    then show ?thesis using role'(2) by (auto simp: d1 set_upd)
  qed
  have "binding_ok ?d' b" if b: "b \<in> set (role_bindings d)" "\<not> exceeds d1 i (roleRank role) b" for b
  proof -
    have bok: "binding_ok d b" using ok b(1) by (simp add: access_ok_def)
    have user: "rb_user_id b \<in> us_id ` set (users ?d')"
      using bok by (simp add: d1 binding_ok_def ids_upd)
    have "us_panel_role u' \<noteq> ''owner'' \<and> us_status u' \<noteq> ''pending'' \<and>
        (\<exists>r \<in> set (roles d). ro_id r = rb_role_id b \<and> assignable (roleRank (us_panel_role u')) (ro_name r))"
      if u': "u' \<in> set (users ?d')" "us_id u' = rb_user_id b" and server: "rb_server_id b \<noteq> None" for u'
    proof -
      from u'(1) obtain u where u: "u \<in> set (users d)" "u' = (if changeable_user i u then ?f u else u)"
        by (auto simp: d1 set_upd split: if_splits)
      have "us_id u = rb_user_id b" using u(2) u'(2) by (simp split: if_splits)
      with bok u(1) server obtain r where r: "us_panel_role u \<noteq> ''owner''" "us_status u \<noteq> ''pending''"
        "r \<in> set (roles d)" "ro_id r = rb_role_id b" "assignable (roleRank (us_panel_role u)) (ro_name r)"
        unfolding binding_ok_def by blast
      show ?thesis
      proof (cases "changeable_user i u")
        case False
        with r u(2) show ?thesis by auto
      next
        case True
        then have "rb_user_id b = i" using \<open>us_id u = rb_user_id b\<close> by (simp add: changeable_user_def)
        with b(2) server r have "binding_rank (ro_name r) \<le> roleRank role"
          by (auto simp: exceeds_def d1)
        with r assignable_rank [OF r(5)] have "assignable (roleRank role) (ro_name r)"
          by (simp add: assignable_def)
        with True u(2) r role' st show ?thesis by auto
      qed
    qed
    with user show ?thesis unfolding binding_ok_def by (auto simp: d1)
  qed
  then have "\<forall>b \<in> set (role_bindings ?d'). binding_ok ?d' b" by (simp add: set_del d1)
  with ok ids check show ?thesis by (simp add: access_ok_def d1)
qed

lemma UpdateUserAccess_access_ok: "preserves access_ok (UpdateUserAccess now au actor i role st)"
proof (rule preservesI)
  fix d d' assume ok: "access_ok d" and run: "UpdateUserAccess now au actor i role st d = Inr d'"
  let ?d1 = "d\<lparr>users := upd (changeable_user i)
      (\<lambda>u. u\<lparr>us_panel_role := role, us_status := st, us_updated_at := now\<rparr>) (users d)\<rparr>"
  let ?d2 = "?d1\<lparr>role_bindings := del (exceeds ?d1 i (roleRank role)) (role_bindings ?d1)\<rparr>"
  from run have vals: "1 \<le> roleRank role" "roleRank role \<le> 3" "st = ''active'' \<or> st = ''suspended''"
    by (auto simp: UpdateUserAccess_def split: if_splits)
  have "access_ok ?d2" by (rule change_access_ok [OF ok vals]) simp
  moreover have "exec [(if st = ''suspended'' then revoke_user_sessions now i else skip),
      insert_audit au actor ''user.access.update'' ''user'' i
        (JObj [(''panel_role'', JStr role), (''status'', JStr st)])] ?d2 = Inr d'"
    using run by (auto simp: UpdateUserAccess_def exec_Cons_Inr require_def update_users_def
        delete_bindings_def split: if_splits)
  moreover have "preserves access_ok (exec [(if st = ''suspended'' then revoke_user_sessions now i else skip),
      insert_audit au actor ''user.access.update'' ''user'' i
        (JObj [(''panel_role'', JStr role), (''status'', JStr st)])])"
    by (rule preserves_exec) (simp add: access_preserving)
  ultimately show "access_ok d'" by (blast dest: preservesD)
qed

section \<open>Installing the built-in roles\<close>

lemma grant_permission_access_ok: "preserves access_ok (grant_permission i r p)"
  by (rule frames_access) (auto simp: frames_def access_state_def grant_permission_def Let_def)

lemma ensureBuiltInRolePermissions_access_ok: "preserves access_ok (ensureBuiltInRolePermissions i)"
  unfolding ensureBuiltInRolePermissions_def
proof (rule preserves_for_each)
  fix x :: "string \<times> string list"
  obtain name req where x: "x = (name, req)" by (cases x)
  show "preserves access_ok (case x of (name, req) \<Rightarrow> \<lambda>d. for_each (grant_permission i name) (role_grants d req) d)"
    unfolding x prod.case
    by (rule preserves_dependent [where c = "\<lambda>d. for_each (grant_permission i name) (role_grants d req)"])
      (intro preserves_for_each grant_permission_access_ok)
qed

lemma ensure_role_access_ok: "preserves access_ok (ensure_role new i name)"
proof (rule preservesI)
  fix d d' assume ok: "access_ok d" and run: "ensure_role new i name d = Inr d'"
  show "access_ok d'"
  proof (cases "d' = d")
    case False
    with run have d': "d' = d\<lparr>roles := roles d @ [\<lparr> ro_id = new name, ro_installation_id = i, ro_name = name \<rparr>]\<rparr>"
      and fresh: "new name \<notin> ro_id ` set (roles d)"
      by (auto simp: ensure_role_def insert_role_or_ignore_def split: if_splits)
    have bindings: "binding_ok d' b" if "b \<in> set (role_bindings d)" for b
    proof (rule binding_okI)
      show "binding_ok d b" using ok that by (simp add: access_ok_def)
      show "\<exists>u \<in> set (users d). us_id u = us_id u' \<and> us_panel_role u = us_panel_role u' \<and> us_status u = us_status u'"
        if "u' \<in> set (users d')" for u'
        using that by (intro bexI [of _ u']) (simp_all add: d')
    qed (auto simp: d')
    have "distinct (map ro_id (roles d'))" using ok fresh by (simp add: d' access_ok_def)
    moreover have "\<forall>b \<in> set (role_bindings d'). binding_ok d' b" using bindings by (simp add: d')
    ultimately show ?thesis using ok unfolding access_ok_def by (simp add: d')
  qed (use ok in simp)
qed

lemma autocommit_keeps: "list_all (preserves i) cs \<Longrightarrow> i s \<Longrightarrow> i (snd (autocommit cs s))"
  by (induction cs arbitrary: s) (auto split: sum.splits dest: preservesD)

lemma ensureBuiltInRoles_access_ok: "access_ok d \<Longrightarrow> access_ok (snd (ensureBuiltInRoles new i d))"
  unfolding ensureBuiltInRoles_def
  by (rule autocommit_keeps)
    (simp_all add: ensure_role_access_ok ensureBuiltInRolePermissions_access_ok)

section \<open>Every operation of the accounts\<close>

inductive account_step :: "db \<Rightarrow> db \<Rightarrow> bool" where
  oauth: "CompleteOAuth now i purpose iv di d = Inr (u, d') \<Longrightarrow> account_step d d'"
| create_state: "CreateOAuthState hash now i purpose iv raw d = Inr d' \<Longrightarrow> account_step d d'"
| consume_state: "ConsumeOAuthState hash now raw d = Inr (st, d') \<Longrightarrow> account_step d d'"
| create_invite: "CreateInvite hash now i actor label raw expires d = Inr (created, d') \<Longrightarrow> account_step d d'"
| revoke_invite: "RevokeInvite now i d = Inr d' \<Longrightarrow> account_step d d'"
| create_session: "CreateSession hash now i u raw csrf idle absolute d = Inr d' \<Longrightarrow> account_step d d'"
| use_session: "SessionByToken hash now raw idle d = Inr (s, d') \<Longrightarrow> account_step d d'"
| revoke_session: "RevokeSession now i d = Inr d' \<Longrightarrow> account_step d d'"
| activate: "ActivateUser now au actor i role d = Inr d' \<Longrightarrow> account_step d d'"
| reject: "RejectUser now au actor i d = Inr d' \<Longrightarrow> account_step d d'"
| server_access: "distinct (map fst bs) \<Longrightarrow> SetUserServerAccess ids au actor i bs d = Inr d' \<Longrightarrow> account_step d d'"
| user_access: "UpdateUserAccess now au actor i role st d = Inr d' \<Longrightarrow> account_step d d'"
| mfa_policy: "UpdateMFAPolicy now au actor policy d = Inr d' \<Longrightarrow> account_step d d'"
| builtin_roles: "account_step d (snd (ensureBuiltInRoles new i d))"

lemma CreateOAuthState_access_ok: "preserves access_ok (CreateOAuthState hash now i purpose iv raw)"
  by (rule preservesI) (auto simp: CreateOAuthState_def split: sum.splits dest: preservesD [OF access_preserving(6)])

lemma CreateSession_access_ok: "preserves access_ok (CreateSession hash now i u raw csrf idle absolute)"
  by (rule preservesI) (auto simp: CreateSession_def split: sum.splits dest: preservesD [OF access_preserving(4)])

lemma CreateInvite_access_ok:
  "access_ok d \<Longrightarrow> CreateInvite hash now i actor label raw expires d = Inr (created, d') \<Longrightarrow> access_ok d'"
  by (auto simp: CreateInvite_def Let_def split: sum.splits dest: preservesD [OF access_preserving(5)])

lemma sessions_access_ok: "access_ok (d\<lparr>sessions := x\<rparr>) = access_ok d"
  "access_ok (d\<lparr>oauth_states := y\<rparr>) = access_ok d"
  by (rule access_ok_frame; simp add: access_state_def)+

lemma ConsumeOAuthState_access_ok:
  "access_ok d \<Longrightarrow> ConsumeOAuthState hash now raw d = Inr (st, d') \<Longrightarrow> access_ok d'"
  by (auto simp: ConsumeOAuthState_def Let_def sessions_access_ok split: option.splits)

lemma SessionByToken_access_ok:
  "access_ok d \<Longrightarrow> SessionByToken hash now raw idle d = Inr (s, d') \<Longrightarrow> access_ok d'"
  by (auto simp: SessionByToken_def Let_def sessions_access_ok split: option.splits)

lemma UpdateMFAPolicy_access_ok: "preserves access_ok (UpdateMFAPolicy now au actor policy)"
  by (intro preserves_by_sat) (auto simp: UpdateMFAPolicy_def access_preserving intro!: sat_exec)

lemma RevokeInvite_access_ok: "preserves access_ok (RevokeInvite now i)"
  unfolding RevokeInvite_def Let_def by (rule preserves_exec) (simp add: access_preserving)

lemma RevokeSession_access_ok: "preserves access_ok (RevokeSession now i)"
  unfolding RevokeSession_def by (rule access_preserving)

lemma account_step_access_ok: "account_step d d' \<Longrightarrow> access_ok d \<Longrightarrow> access_ok d'"
proof (induction rule: account_step.induct)
  case oauth
  then show ?case by (blast dest: CompleteOAuth_access_ok)
next
  case create_state
  then show ?case by (blast dest: preservesD [OF CreateOAuthState_access_ok])
next
  case consume_state
  then show ?case by (blast dest: ConsumeOAuthState_access_ok)
next
  case create_invite
  then show ?case by (blast dest: CreateInvite_access_ok)
next
  case revoke_invite
  then show ?case by (blast dest: preservesD [OF RevokeInvite_access_ok])
next
  case create_session
  then show ?case by (blast dest: preservesD [OF CreateSession_access_ok])
next
  case use_session
  then show ?case by (blast dest: SessionByToken_access_ok)
next
  case revoke_session
  then show ?case by (blast dest: preservesD [OF RevokeSession_access_ok])
next
  case activate
  then show ?case by (blast dest: preservesD [OF ActivateUser_access_ok])
next
  case reject
  then show ?case by (blast dest: preservesD [OF RejectUser_access_ok])
next
  case server_access
  then show ?case by (blast dest: preservesD [OF SetUserServerAccess_access_ok])
next
  case user_access
  then show ?case by (blast dest: preservesD [OF UpdateUserAccess_access_ok])
next
  case mfa_policy
  then show ?case by (blast dest: preservesD [OF UpdateMFAPolicy_access_ok])
next
  case builtin_roles
  then show ?case by (rule ensureBuiltInRoles_access_ok)
qed

text \<open>A fresh installation has no users, roles or bindings.\<close>

definition no_accounts :: "db \<Rightarrow> bool" where
  "no_accounts d \<longleftrightarrow> users d = [] \<and> roles d = [] \<and> role_bindings d = []"

lemma no_accounts_access_ok: "no_accounts d \<Longrightarrow> access_ok d"
  by (simp add: no_accounts_def access_ok_def)

interpretation accounts: inductive_invariant no_accounts account_step access_ok
  by unfold_locales (rule no_accounts_access_ok, assumption, rule account_step_access_ok)

end
