(* ===== verification/Account_Rules.thy ===== *)
theory Account_Rules
  imports Access_Control
begin

text \<open>
  What an account operation can do to users, invites, sessions and the installation.
  \<open>account_rules\<close> lists the changes: an invariant that survives each of them survives every
  operation of the account part of the store (\<open>store/store.go\<close>, \<open>store/access.go\<close>).
\<close>

text \<open>The fields of a user, and of a session, that a login leaves as they are.\<close>

definition same_account :: "user \<Rightarrow> user \<Rightarrow> bool" where
  "same_account u u' \<longleftrightarrow> us_id u' = us_id u \<and> us_discord_id u' = us_discord_id u \<and>
     us_status u' = us_status u \<and> us_panel_role u' = us_panel_role u"

definition same_session :: "session \<Rightarrow> session \<Rightarrow> bool" where
  "same_session s s' \<longleftrightarrow> se_id s' = se_id s \<and> se_user_id s' = se_user_id s \<and>
     se_token_hash s' = se_token_hash s \<and> se_revoked_at s' = se_revoked_at s"

abbreviation three_roles :: "string set" where
  "three_roles \<equiv> {''administrator'', ''operator'', ''viewer''}"

lemma audit_preserved: "(\<And>d a. i d \<Longrightarrow> i (d\<lparr>audit := a\<rparr>)) \<Longrightarrow> preserves i (insert_audit_row r)"
  by (rule preservesI) (auto simp: insert_audit_row_def)

locale account_rules =
  fixes i :: "db \<Rightarrow> bool"
  assumes other_oauth_states: "i d \<Longrightarrow> i (d\<lparr>oauth_states := a1\<rparr>)"
    and other_roles: "i d \<Longrightarrow> i (d\<lparr>roles := a2\<rparr>)"
    and other_role_permissions: "i d \<Longrightarrow> i (d\<lparr>role_permissions := a3\<rparr>)"
    and other_role_bindings: "i d \<Longrightarrow> i (d\<lparr>role_bindings := a4\<rparr>)"
    and other_audit_row: "preserves i (insert_audit_row ar)"
    and refresh: "i d \<Longrightarrow> (\<And>u. same_account u (f1 u)) \<Longrightarrow> i (d\<lparr>users := upd p1 f1 (users d)\<rparr>)"
    and newcomer: "i d \<Longrightarrow> us_id u \<notin> us_id ` set (users d) \<Longrightarrow>
      us_discord_id u \<notin> us_discord_id ` set (users d) \<Longrightarrow> us_status u = ''pending'' \<Longrightarrow>
      us_panel_role u = ''viewer'' \<Longrightarrow> invites d \<noteq> [] \<Longrightarrow> i (d\<lparr>users := users d @ [u]\<rparr>)"
    and activated: "i d \<Longrightarrow> role \<in> three_roles \<Longrightarrow> i (d\<lparr>users := upd (is_pending x)
      (\<lambda>u. u\<lparr>us_status := ''active'', us_panel_role := role, us_updated_at := now\<rparr>) (users d)\<rparr>)"
    and rejected: "i d \<Longrightarrow> i (d\<lparr>users := upd (is_pending x)
      (\<lambda>u. u\<lparr>us_status := ''rejected'', us_updated_at := now\<rparr>) (users d)\<rparr>)"
    and changed: "i d \<Longrightarrow> role \<in> three_roles \<Longrightarrow> st \<in> {''active'', ''suspended''} \<Longrightarrow>
      i (d\<lparr>users := upd (changeable_user x)
        (\<lambda>u. u\<lparr>us_panel_role := role, us_status := st, us_updated_at := now\<rparr>) (users d)\<rparr>)"
    and owner: "claimOwner now x di d = Inr (u, d') \<Longrightarrow> i d \<Longrightarrow> i d'"
    and invite_claimed: "i d \<Longrightarrow> i (d\<lparr>invites := upd (\<lambda>r. iv_id r = v)
      (\<lambda>r. r\<lparr>iv_claimed_by := Some x, iv_claimed_at := Some now\<rparr>) (invites d)\<rparr>)"
    and invite_revoked: "i d \<Longrightarrow> i (d\<lparr>invites := upd
      (\<lambda>r. iv_id r = v \<and> iv_claimed_at r = None \<and> iv_revoked_at r = None)
      (\<lambda>r. r\<lparr>iv_revoked_at := Some now\<rparr>) (invites d)\<rparr>)"
    and invite_created: "i d \<Longrightarrow> iv_id r \<notin> iv_id ` set (invites d) \<Longrightarrow>
      iv_created_by r \<in> us_id ` set (users d) \<Longrightarrow> i (d\<lparr>invites := invites d @ [r]\<rparr>)"
    and session_created: "i d \<Longrightarrow> se_token_hash s \<notin> se_token_hash ` set (sessions d) \<Longrightarrow>
      i (d\<lparr>sessions := sessions d @ [s]\<rparr>)"
    and session_used: "i d \<Longrightarrow> (\<And>s. same_session s (f2 s)) \<Longrightarrow> i (d\<lparr>sessions := upd p2 f2 (sessions d)\<rparr>)"
    and session_revoked: "i d \<Longrightarrow>
      i (d\<lparr>sessions := upd p3 (\<lambda>s. s\<lparr>se_revoked_at := Some now\<rparr>) (sessions d)\<rparr>)"
    and policy: "i d \<Longrightarrow> i (d\<lparr>installations := upd (\<lambda>r. True)
      (\<lambda>r. r\<lparr>in_mfa_policy := pol, in_updated_at := now\<rparr>) (installations d)\<rparr>)"
begin

lemma untouched:
  "preserves i (delete_bindings p5)" "preserves i (insert_oauth_state oa)" "preserves i (insert_binding b)"
  "preserves i (insert_role_or_ignore ro)" "preserves i (grant_permission inst rn pe)"
  "preserves i (insert_audit b1 b2 b3 b4 b5 b6)" "preserves i (require q e)"
  using other_audit_row
  by (auto intro!: preservesI other_oauth_states other_roles other_role_permissions other_role_bindings
      simp: delete_bindings_def insert_oauth_state_def insert_binding_def insert_role_or_ignore_def
        grant_permission_def Let_def insert_audit_def require_def split: if_splits dest: preservesD)

lemmas elsewhere_runs = untouched [THEN preserves_run]

lemma statements:
  "preserves i (revoke_user_sessions now u)"
  "preserves i (update_sessions p (\<lambda>s. s\<lparr>se_revoked_at := Some now\<rparr>))"
  "preserves i (insert_session s)" "preserves i (insert_invite v)"
  "preserves i (update_installations (\<lambda>r. r\<lparr>in_mfa_policy := pol, in_updated_at := now\<rparr>))"
  by (auto intro!: preservesI session_revoked session_created invite_created policy
      simp: revoke_user_sessions_def update_sessions_def insert_session_def insert_invite_def
        update_installations_def)

lemma login: "loginExisting now x di d = Inr (u, d') \<Longrightarrow> i d \<Longrightarrow> i d'"
  by (auto simp: loginExisting_def upsertDiscordUser_def Let_def same_account_def
      split: option.splits if_splits intro!: refresh)

lemma invited:
  assumes run: "claimInvite now x v di d = Inr (u, d')" and ok: "i d"
  shows "i d'"
proof -
  from run obtain r d1 where r: "r \<in> set (invites d)"
    and up: "upsertDiscordUser now x di ''pending'' ''viewer'' d = Inr (u, d1)"
    and d': "d' = d1\<lparr>invites := upd (\<lambda>r. iv_id r = v)
      (\<lambda>r. r\<lparr>iv_claimed_by := Some (us_id u), iv_claimed_at := Some now\<rparr>) (invites d1)\<rparr>"
    by (auto simp: claimInvite_def update_invites_def ret_def dest!: find_SomeD
        split: option.splits if_splits sum.splits)
  have "i d1"
  proof (cases "find (\<lambda>u. us_discord_id u = di_id di) (users d)")
    case None
    then have "di_id di \<notin> us_discord_id ` set (users d)" by (auto dest: find_NoneD)
    with None up r ok show ?thesis
      by (auto simp: upsertDiscordUser_def Let_def split: if_splits intro!: newcomer)
  next
    case (Some y)
    with up ok show ?thesis
      by (auto simp: upsertDiscordUser_def Let_def same_account_def intro!: refresh)
  qed
  then show ?thesis unfolding d' by (rule invite_claimed)
qed

lemma oauth_rule: "CompleteOAuth now x purpose iv di d = Inr (u, d') \<Longrightarrow> i d \<Longrightarrow> i d'"
  by (auto simp: CompleteOAuth_def split: if_splits option.splits sum.splits list.splits
      dest: owner invited login)

lemma bind: "preserves i (bind_server actor u s role b)"
  by (rule preservesI) (auto simp: bind_server_def split: option.splits dest: elsewhere_runs)

lemma set_access: "preserves i (SetUserServerAccess ids au actor u bs)"
  unfolding SetUserServerAccess_def
  by (rule preserves_by_sat, intro sat_intros)
    (auto intro!: sat_exec preserves_lift preserves_for_each preserves_with_id untouched bind)

lemma change_access: "preserves i (UpdateUserAccess now au actor u role st)"
proof -
  have bindings: "preserves i (\<lambda>d. delete_bindings (exceeds d u n) d)" for n
    by (rule preserves_dependent [where c = "\<lambda>d. delete_bindings (exceeds d u n)"]) (rule untouched)
  have user: "preserves i (update_users (changeable_user u)
      (\<lambda>u. u\<lparr>us_panel_role := role, us_status := st, us_updated_at := now\<rparr>))"
    if "\<not> (roleRank role < 1 \<or> roleRank role > 3 \<or> (st \<noteq> ''active'' \<and> st \<noteq> ''suspended''))"
    using that by (intro preservesI)
      (auto simp: update_users_def roleRank_def intro!: changed split: if_splits)
  show ?thesis
    unfolding UpdateUserAccess_def
    by (rule preserves_by_sat, intro sat_if sat_Inl sat_exec) (simp_all add: bindings user untouched statements)
qed

lemma activate_rule: "preserves i (ActivateUser now au actor u role)"
proof (cases "role \<in> three_roles")
  case True
  then have "preserves i (update_users (is_pending u)
      (\<lambda>u. u\<lparr>us_status := ''active'', us_panel_role := role, us_updated_at := now\<rparr>))"
    by (intro preservesI) (auto simp: update_users_def intro!: activated)
  then show ?thesis
    by (intro preserves_by_sat) (auto simp: ActivateUser_def untouched intro!: sat_exec)
qed (auto simp: ActivateUser_def preserves_def)

lemma reject_rule: "preserves i (RejectUser now au actor u)"
proof -
  have "preserves i (update_users (is_pending u) (\<lambda>u. u\<lparr>us_status := ''rejected'', us_updated_at := now\<rparr>))"
    by (rule preservesI) (auto simp: update_users_def intro!: rejected)
  then show ?thesis unfolding RejectUser_def by (intro preserves_exec) (simp add: untouched statements)
qed

lemma revoke_invite_rule: "preserves i (RevokeInvite now v)"
  unfolding RevokeInvite_def Let_def
  by (rule preserves_exec) (auto simp: untouched update_invites_def intro!: preservesI invite_revoked)

lemma mfa_policy_rule: "preserves i (UpdateMFAPolicy now au actor pol)"
  by (intro preserves_by_sat) (auto simp: UpdateMFAPolicy_def untouched statements intro!: sat_exec)

lemma ensure_roles:
  assumes ok: "i d"
  shows "i (snd (ensureBuiltInRoles new inst d))"
proof -
  have grants: "preserves i (\<lambda>d. for_each (grant_permission inst role) (role_grants d req) d)" for role req
    by (rule preserves_dependent [where c = "\<lambda>d. for_each (grant_permission inst role) (role_grants d req)"])
      (intro preserves_for_each untouched)
  have permissions: "preserves i (ensureBuiltInRolePermissions inst)"
    unfolding ensureBuiltInRolePermissions_def
    by (rule preserves_for_each) (auto intro!: grants)
  show ?thesis
    unfolding ensureBuiltInRoles_def
    by (rule autocommit_keeps [where i = i]) (simp_all add: ensure_role_def untouched permissions ok)
qed

lemma use_session_rule: "SessionByToken hash now raw idle d = Inr (x, d') \<Longrightarrow> i d \<Longrightarrow> i d'"
  by (auto simp: SessionByToken_def Let_def same_session_def split: option.splits intro!: session_used)

lemma consume_state_rule: "ConsumeOAuthState hash now raw d = Inr (x, d') \<Longrightarrow> i d \<Longrightarrow> i d'"
  by (auto simp: ConsumeOAuthState_def Let_def split: option.splits intro: other_oauth_states)

lemma account_step: "account_step d d' \<Longrightarrow> i d \<Longrightarrow> i d'"
proof (induction rule: account_step.induct)
  case oauth
  then show ?case by (rule oauth_rule)
next
  case consume_state
  then show ?case by (rule consume_state_rule)
next
  case use_session
  then show ?case by (rule use_session_rule)
next
  case revoke_invite
  then show ?case by (rule preserves_run [OF revoke_invite_rule])
next
  case activate
  then show ?case by (rule preserves_run [OF activate_rule])
next
  case reject
  then show ?case by (rule preserves_run [OF reject_rule])
next
  case server_access
  then show ?case by (blast dest: preserves_run [OF set_access])
next
  case user_access
  then show ?case by (rule preserves_run [OF change_access])
next
  case mfa_policy
  then show ?case by (rule preserves_run [OF mfa_policy_rule])
next
  case builtin_roles
  then show ?case by (rule ensure_roles)
qed (auto simp: CreateOAuthState_def CreateInvite_def CreateSession_def RevokeSession_def Let_def
    split: sum.splits dest: elsewhere_runs statements [THEN preserves_run])

lemma account_steps: "account_step\<^sup>*\<^sup>* d d' \<Longrightarrow> i d \<Longrightarrow> i d'"
  by (induction rule: rtranclp_induct) (auto intro: account_step)

end

end
