(* ===== verification/Account_Frame.thy ===== *)
theory Account_Frame
  imports Account_Rules Evolution
begin

text \<open>
  The account operations and the rest of the database: an invariant that does not look at the
  account tables, and that survives a new audit record, survives every account operation.
  \<open>account_blind\<close> is that contract; the integrity of the server tables and the evolution of the
  servers are its instances.
\<close>

locale account_blind =
  fixes i :: "db \<Rightarrow> bool"
  assumes users: "i d \<Longrightarrow> i (d\<lparr>users := a1\<rparr>)" and sessions: "i d \<Longrightarrow> i (d\<lparr>sessions := a2\<rparr>)"
    and invites: "i d \<Longrightarrow> i (d\<lparr>invites := a3\<rparr>)" and oauth_states: "i d \<Longrightarrow> i (d\<lparr>oauth_states := a4\<rparr>)"
    and installations: "i d \<Longrightarrow> i (d\<lparr>installations := a5\<rparr>)" and roles: "i d \<Longrightarrow> i (d\<lparr>roles := a6\<rparr>)"
    and role_permissions: "i d \<Longrightarrow> i (d\<lparr>role_permissions := a7\<rparr>)"
    and role_bindings: "i d \<Longrightarrow> i (d\<lparr>role_bindings := a8\<rparr>)"
    and audit_row: "preserves i (insert_audit_row r)"
begin

lemmas tables = users sessions invites oauth_states installations roles role_permissions role_bindings

lemma claim_owner: "claimOwner now u di d = Inr (x, d') \<Longrightarrow> i d \<Longrightarrow> i d'"
  by (auto simp: claimOwner_def upsertDiscordUser_def update_installations_def Let_def
      split: if_splits sum.splits list.splits option.splits intro!: users installations)

end

sublocale account_blind \<subseteq> account_rules
  by unfold_locales (auto intro: tables audit_row claim_owner)

interpretation accounts_integrity: account_blind db_ok
  by unfold_locales (simp_all add: ok_defs insert_audit_row_ok)

interpretation accounts_evolution: account_blind "evolves d0" for d0
  by unfold_locales (rule keeps_evolving | (erule evolves_other; simp))+

end
