(* ===== verification/Panel.thy ===== *)
theory Panel
  imports Telemetry Runtime_Handlers Account_Frame
begin

text \<open>
  The database under everything that happens to it: the HTTP handlers, the workers and the
  reconciliation loop all act through the operations of the store, each of which commits or leaves
  the database alone.  \<open>panel_step\<close> is one committed operation, with any arguments; a run of the
  panel, however its goroutines interleave, is a sequence of such steps.
\<close>

section \<open>One committed operation\<close>

text \<open>Operations that return nothing, or whose result does not matter to the state.\<close>

inductive store_stmt :: "db stmt \<Rightarrow> bool" where
  provision_running: "store_stmt (MarkProvisionRunning now s opn)"
| operation_log: "store_stmt (AppendOperationLog opn s phase stream msg observed)"
| provision_succeeded: "store_stmt (MarkProvisionSucceeded now ev s opn res)"
| provision_failed: "store_stmt (MarkProvisionFailed now ev s opn e)"
| finish_power: "store_stmt (FinishPower now s opn action err)"
| finish_recovery: "store_stmt (FinishRecovery now ev s n err)"
| cancel_console_restart: "store_stmt (CancelConsoleRestartIntent now ev s actor)"
| console_command: "store_stmt (RecordConsoleCommand now ev s actor len)"
| file_activity: "store_stmt (RecordFileActivity now ev s actor action path)"
| add_audit: "store_stmt (AddAudit i actor action tt ti data)"
| backup_running: "store_stmt (MarkBackupRunning b)"
| backup_succeeded: "store_stmt (MarkBackupSucceeded now ev obs bj br)"
| backup_failed: "store_stmt (MarkBackupFailed now ev bj e)"
| restore_running: "0 \<le> n \<Longrightarrow> n \<le> 100 \<Longrightarrow> store_stmt (MarkBackupRestoreRunning now rj n msg)"
| finish_restore: "store_stmt (FinishBackupRestore sn now ev rj err)"
| finish_delivery: "st \<in> {''queued'', ''delivered'', ''too_large'', ''failed''} \<Longrightarrow>
    store_stmt (FinishBackupDelivery sn now ev di st rs err)"
| retry_delivery: "store_stmt (RetryBackupDelivery now ob ev s b di actor)"
| cancel_deletion: "store_stmt (CancelBackupDeletion s b prev)"
| delete_record: "store_stmt (DeleteBackupRecord now ev s b actor)"
| backup_lock: "store_stmt (SetBackupLocked now ev s b actor l)"
| delete_schedule: "store_stmt (DeleteSchedule s sc)"
| enable_schedule: "store_stmt (SetScheduleEnabled cron clock now s sc en)"
| run_schedule: "store_stmt (RunScheduleNow now r ob s sc)"
| enqueue_due: "store_stmt (EnqueueDueSchedules cron clocks now ids limit)"
| finish_run: "store_stmt (FinishScheduleRun now ev sj err)"
| notification: "store_stmt (RecordScheduleNotification now ev s actor sc msg)"
| update_webhook: "store_stmt (UpdateWebhook now s w en de db fs)"
| delete_webhook: "store_stmt (DeleteWebhook s w)"
| retry_webhook: "store_stmt (RetryWebhookDelivery now s w de)"
| finish_webhook: "store_stmt (FinishWebhookDelivery sn now de sc err ra perm)"
| finish_update: "store_stmt (FinishTemplateUpdate sn now ev tj c err)"
| cleanup: "store_stmt (cleanup now)"
| finish_event: "store_stmt (finish_event now worker claimed err)"
| commit_startup: "store_stmt (CommitStartupConfiguration seal now ev s actor v img override changes secrets defs c)"
| commit_ports: "store_stmt (CommitServerPorts now ids ev s actor v ports c)"
| commit_settings: "store_stmt (CommitServerSettings now ev s actor v name description res c)"

text \<open>Operations whose committed state stands beside a result, which may be an error.\<close>

inductive store_effect :: "(db \<Rightarrow> db) \<Rightarrow> bool" where
  finalize_deletion: "store_effect (\<lambda>d. snd (FinalizeServerDeletion now au s actor d))"
| begin_delivery: "store_effect (\<lambda>d. snd (BeginBackupDelivery now di d))"
| run_job: "store_effect (\<lambda>d. snd (ScheduleRunJob now r d))"
| webhook_test: "store_effect (\<lambda>d. snd (QueueWebhookTest now ev de s actor w d))"
| claim_webhook: "store_effect (\<lambda>d. snd (ClaimWebhookDelivery now d))"
| update_running: "0 \<le> n \<Longrightarrow> n \<le> 100 \<Longrightarrow> store_effect (\<lambda>d. snd (MarkTemplateUpdateRunning now tj n msg d))"
| set_version: "store_effect (\<lambda>d. snd (SetServerTemplateVersion late now s v d))"
| claim_event: "store_effect (\<lambda>d. snd (claim_event now worker d))"

inductive panel_step :: "db \<Rightarrow> db \<Rightarrow> bool" where
  stmt: "store_stmt c \<Longrightarrow> c d = Inr d' \<Longrightarrow> panel_step d d'"
| call: "store_effect f \<Longrightarrow> panel_step d (f d)"
| create_server: "CreateServer seal now s pids opn key ev act input d = Inr (created, d') \<Longrightarrow> panel_step d d'"
| request_power: "requestPower now opn key act ob s actor a enqueue d = Inr (opid, d') \<Longrightarrow> panel_step d d'"
| begin_recovery: "BeginRecovery now s n d = Inr (proceed, d') \<Longrightarrow> panel_step d d'"
| console_restart: "MarkConsoleRestartIntent now ev s actor c d = Inr (marked, d') \<Longrightarrow> panel_step d d'"
| reconcile: "SyncRuntimeStats now ids snapshots d = Inr d' \<Longrightarrow> panel_step d d'"
| create_backup: "CreateBackup now b ob ev ids s actor name inc exc rd d = Inr (bk, d') \<Longrightarrow> panel_step d d'"
| queue_restore: "QueueBackupRestore now opn ob act key s b actor d = Inr (opid, d') \<Longrightarrow> panel_step d d'"
| begin_deletion: "BeginBackupDeletion s b d = Inr (prev, d') \<Longrightarrow> panel_step d d'"
| create_schedule: "CreateSchedule cron clock now sid ids inp d = Inr (sc, d') \<Longrightarrow> panel_step d d'"
| update_schedule: "UpdateSchedule cron clock now ids inp d = Inr (sc, d') \<Longrightarrow> panel_step d d'"
| create_webhook: "CreateWebhook seal' now w s actor n k u sec d = Inr (wh, d') \<Longrightarrow> panel_step d d'"
| queue_update: "QueueTemplateUpdate now stamp opn b ob act key s actor tv mode d = Inr (tj, d') \<Longrightarrow>
    panel_step d d'"
| account: "account_step d d' \<Longrightarrow> panel_step d d'"

inductive_cases store_stmtE: "store_stmt c"
inductive_cases store_effectE: "store_effect f"
inductive_cases panel_stepE: "panel_step d d'"

section \<open>Every step keeps the integrity of the database\<close>

lemma cleanup_ok: "preserves db_ok (cleanup now)"
proof (rule preservesI)
  fix d d' assume ok: "db_ok d" and run: "cleanup now d = Inr d'"
  have kept: "db_ok (d1\<lparr>operation_log := del p (operation_log d1)\<rparr>)" if "db_ok d1" for d1 p
  proof -
    let ?d = "d1\<lparr>operation_log := del p (operation_log d1)\<rparr>"
    have refs: "refs_le d1 ?d" by (simp add: refs_le_def)
    from that have "log_ok d1" by (simp add: db_ok_def)
    then have "log_ok ?d" by (simp add: log_ok_def distinct_map_del set_del)
    with that ok_mono [OF refs] show ?thesis by (simp add: db_ok_def)
  qed
  have "db_ok (d\<lparr>oauth_states := x, sessions := y\<rparr>)" for x y
    using ok by (intro accounts_integrity.tables)
  from kept [OF this] run show "db_ok d'" by (auto simp: cleanup_def)
qed

lemma cleanup_evolves: "preserves (evolves d0) (cleanup now)"
  by (rule evolving_same) (auto simp: cleanup_def)

lemma store_stmt_ok: "store_stmt c \<Longrightarrow> preserves db_ok c"
  by (erule store_stmt.induct)
    (rule MarkProvisionRunning_ok AppendOperationLog_ok MarkProvisionSucceeded_ok MarkProvisionFailed_ok
      FinishPower_ok FinishRecovery_ok CancelConsoleRestartIntent_ok RecordConsoleCommand_ok
      RecordFileActivity_ok AddAudit_ok MarkBackupRunning_ok MarkBackupSucceeded_ok MarkBackupFailed_ok
      MarkBackupRestoreRunning_ok FinishBackupRestore_ok FinishBackupDelivery_ok RetryBackupDelivery_ok
      CancelBackupDeletion_ok DeleteBackupRecord_ok SetBackupLocked_ok DeleteSchedule_ok
      SetScheduleEnabled_ok RunScheduleNow_ok EnqueueDueSchedules_ok FinishScheduleRun_ok
      RecordScheduleNotification_ok UpdateWebhook_ok DeleteWebhook_ok RetryWebhookDelivery_ok
      FinishWebhookDelivery_ok FinishTemplateUpdate_ok cleanup_ok finish_event_ok
      CommitStartupConfiguration_ok CommitServerPorts_ok CommitServerSettings_ok; assumption?)+

lemma store_stmt_evolves: "store_stmt c \<Longrightarrow> preserves (evolves d0) c"
  by (erule store_stmt.induct)
    (rule MarkProvisionRunning_evolves AppendOperationLog_evolves MarkProvisionSucceeded_evolves
      MarkProvisionFailed_evolves FinishPower_evolves FinishRecovery_evolves
      CancelConsoleRestartIntent_evolves RecordConsoleCommand_evolves RecordFileActivity_evolves
      AddAudit_evolves MarkBackupRunning_evolves MarkBackupSucceeded_evolves MarkBackupFailed_evolves
      MarkBackupRestoreRunning_evolves FinishBackupRestore_evolves FinishBackupDelivery_evolves
      RetryBackupDelivery_evolves CancelBackupDeletion_evolves DeleteBackupRecord_evolves
      SetBackupLocked_evolves DeleteSchedule_evolves SetScheduleEnabled_evolves RunScheduleNow_evolves
      EnqueueDueSchedules_evolves FinishScheduleRun_evolves RecordScheduleNotification_evolves
      webhook_ops_evolve FinishTemplateUpdate_evolves cleanup_evolves finish_event_evolves
      CommitStartupConfiguration_evolves CommitServerPorts_evolves CommitServerSettings_evolves)+

lemma store_effect_ok: "store_effect f \<Longrightarrow> db_ok d \<Longrightarrow> db_ok (f d)"
  by (erule store_effect.cases)
    (simp_all add: FinalizeServerDeletion_ok BeginBackupDelivery_ok ScheduleRunJob_ok
      QueueWebhookTest_ok ClaimWebhookDelivery_ok MarkTemplateUpdateRunning_ok
      SetServerTemplateVersion_ok claim_event_ok)

lemma store_effect_evolves: "store_effect f \<Longrightarrow> evolves d0 d \<Longrightarrow> evolves d0 (f d)"
  by (erule store_effect.cases)
    (simp_all add: FinalizeServerDeletion_evolves BeginBackupDelivery_evolves ScheduleRunJob_evolves
      QueueWebhookTest_evolves ClaimWebhookDelivery_evolves MarkTemplateUpdateRunning_evolves
      SetServerTemplateVersion_evolves claim_event_evolves)

lemma panel_step_reconciled:
  assumes "panel_step d d'" and ok: "db_ok d" and obs: "observations_ok d"
  shows "reconciled d d'"
proof -
  have *: "reconciled d d''" if "db_ok d''" "evolves d d''" for d''
    using that obs by (auto simp: reconciled_def dest: evolves_observations)
  have op: "reconciled d d''"
    if "preserves_op db_ok f" "\<And>d0. preserves_op (evolves d0) f" "f d = Inr (x, d'')" for f x d''
    using that * preserves_opD [OF that(1) ok that(3)] preserves_opD [OF that(2) evolves_refl that(3)]
    by blast
  from assms(1) show ?thesis
  proof cases
    case (stmt c)
    show ?thesis
      by (rule *) (rule preservesD [OF store_stmt_ok [OF stmt(1)] ok stmt(2)]
        preservesD [OF store_stmt_evolves [OF stmt(1)] evolves_refl stmt(2)])+
  next
    case (call f)
    then show ?thesis using * store_effect_ok [OF _ ok] store_effect_evolves [OF _ evolves_refl] by simp
  next
    case create_server
    then show ?thesis by (rule op [OF CreateServer_ok CreateServer_evolves])
  next
    case request_power
    then show ?thesis by (rule op [OF requestPower_ok requestPower_evolves])
  next
    case begin_recovery
    then show ?thesis by (rule op [OF BeginRecovery_ok BeginRecovery_evolves])
  next
    case console_restart
    then show ?thesis by (rule op [OF MarkConsoleRestartIntent_ok MarkConsoleRestartIntent_evolves])
  next
    case reconcile
    then show ?thesis using satD [OF SyncRuntimeStats_reconciled [OF ok obs evolves_refl]] by blast
  next
    case create_backup
    then show ?thesis by (rule op [OF CreateBackup_ok CreateBackup_evolves])
  next
    case queue_restore
    then show ?thesis by (rule op [OF QueueBackupRestore_ok QueueBackupRestore_evolves])
  next
    case begin_deletion
    then show ?thesis by (rule op [OF BeginBackupDeletion_ok BeginBackupDeletion_evolves])
  next
    case create_schedule
    then show ?thesis by (rule op [OF CreateSchedule_ok CreateSchedule_evolves])
  next
    case update_schedule
    then show ?thesis by (rule op [OF UpdateSchedule_ok UpdateSchedule_evolves])
  next
    case create_webhook
    then show ?thesis by (rule op [OF CreateWebhook_ok webhook_ops_evolve(1)])
  next
    case queue_update
    then show ?thesis by (rule op [OF QueueTemplateUpdate_ok QueueTemplateUpdate_evolves])
  next
    case account
    then show ?thesis
      using * accounts_integrity.account_step [OF _ ok] accounts_evolution.account_step [OF _ evolves_refl]
      by blast
  qed
qed

section \<open>Runs of the panel\<close>

text \<open>A run starts from a database that keeps its constraints and has no server yet.\<close>

definition installed :: "db \<Rightarrow> bool" where
  "installed d \<longleftrightarrow> db_ok d \<and> access_ok d \<and> servers d = []"

definition panel_ok :: "db \<Rightarrow> bool" where
  "panel_ok d \<longleftrightarrow> db_ok d \<and> observations_ok d \<and> hosts_disjoint d"

lemma panel_step_ok: "panel_ok d \<Longrightarrow> panel_step d d' \<Longrightarrow> panel_ok d' \<and> evolves d d'"
  unfolding panel_ok_def using evolves_hosts [of d d'] panel_step_reconciled [of d d']
  by (auto simp: reconciled_def)

lemma installed_ok: "installed d \<Longrightarrow> panel_ok d"
proof -
  assume inst: "installed d"
  then have "server_ports d = []" by (auto simp: installed_def db_ok_def ports_ok_def)
  with inst show ?thesis by (simp add: installed_def panel_ok_def observations_ok_def hosts_disjoint_def)
qed

interpretation panel: inductive_invariant installed panel_step panel_ok
  by unfold_locales (simp add: installed_ok, blast dest: panel_step_ok)

text \<open>What happens to the servers of a state in the rest of the run.\<close>

interpretation history: inductive_invariant "\<lambda>d. d = d0 \<and> panel_ok d0" panel_step
  "\<lambda>d. panel_ok d \<and> evolves d0 d" for d0
  by unfold_locales (auto dest: panel_step_ok intro: evolves_trans)

text \<open>Handling an event of the outbox, whatever the clock, the engine and the connection do.\<close>

lemma handle_event_ok:
  assumes "panel_ok (w_db w)"
  shows "panel_ok (w_db (snd (handle_event env ev w)))"
proof -
  let ?d' = "w_db (snd (handle_event env ev w))"
  have "db_ok ?d'" using keepsD [OF runtime_integrity.handle_event_keeps] assms by (simp add: panel_ok_def)
  moreover have "evolves (w_db w) ?d'" using keepsD [OF runtime_evolution.handle_event_keeps evolves_refl] by blast
  ultimately show ?thesis
    using assms evolves_observations evolves_hosts by (auto simp: panel_ok_def)
qed

lemma run_evolves: "panel_step\<^sup>*\<^sup>* d d' \<Longrightarrow> panel_ok d \<Longrightarrow> panel_ok d' \<and> evolves d d'"
  using history.steps_inv [where ?d0.0 = d and s = d and t = d'] by simp

end
