(* ===== verification/Examples.thy ===== *)
theory Examples
  imports Provisioning Backups Schedules Webhook_Queue Access
begin

text \<open>
  Concrete rows and a small database, at which the theorems are applied: an installation with an
  owner and a viewer, the built-in roles, one template with two versions, a running server with
  its runtime, a finished backup, a webhook destination and a schedule.
\<close>

definition noon :: time where "noon = 1000000000000"

definition sample_server :: "uuid \<Rightarrow> string \<Rightarrow> string \<Rightarrow> server" where
  "sample_server i status desired = \<lparr> sv_id = i, sv_installation_id = ''inst'',
     sv_template_version_id = ''tv1'', sv_name = i, sv_description = '''', sv_status = status,
     sv_desired_state = desired, sv_container_id = Some ''c1'', sv_image_reference = ''image'',
     sv_startup_override = None,
     sv_stop_reason = None, sv_recovery_attempts = 0, sv_recovery_window_started_at = None,
     sv_recovery_not_before = None, sv_missing_container_observations = 0,
     sv_externally_deleted_at = None, sv_created_by = Some ''u1'', sv_created_at = 0,
     sv_updated_at = 0, sv_deleted_at = None, sv_version = 1 \<rparr>"

definition sample_user :: "uuid \<Rightarrow> string \<Rightarrow> string \<Rightarrow> user" where
  "sample_user i status role = \<lparr> us_id = i, us_discord_id = i, us_username = i,
     us_global_name = None, us_avatar_hash = None, us_locale = None, us_mfa_enabled = True,
     us_mfa_checked_at = 0, us_status = status, us_panel_role = role, us_created_at = 0,
     us_updated_at = 0, us_last_login_at = None \<rparr>"

definition sample_session :: "uuid \<Rightarrow> uuid \<Rightarrow> session" where
  "sample_session i u = \<lparr> se_id = i, se_user_id = u, se_token_hash = i, se_csrf_hash = ''csrf'',
     se_last_seen_at = 0, se_idle_expires_at = 2 * noon, se_absolute_expires_at = 3 * noon,
     se_revoked_at = None \<rparr>"

definition sample_role :: "string \<Rightarrow> role" where
  "sample_role name = \<lparr> ro_id = name, ro_installation_id = ''inst'', ro_name = name \<rparr>"

definition sample_version :: "uuid \<Rightarrow> int \<Rightarrow> template_version" where
  "sample_version i n = \<lparr> tv_id = i, tv_template_id = ''t1'', tv_version = n,
     tv_canonical = JObj [(''stop_command'', JStr ''stop''), (''default_image'', JStr ''image'')] \<rparr>"

definition sample_backup :: "uuid \<Rightarrow> string \<Rightarrow> backup" where
  "sample_backup i status = (queued_backup i 0 ''s1'' ''nightly'' [] [] (Some 7) ''u1'')
     \<lparr> bk_status := status,
       bk_object_key := (if status = ''succeeded'' then Some ''key'' else None),
       bk_size_bytes := Some 10, bk_sha256 := Some ''sha'' \<rparr>"

definition sample_destination :: webhook_destination where
  "sample_destination = \<lparr> wh_id = ''w1'', wh_server_id = ''s1'', wh_name = ''hook'',
     wh_kind = ''discord'', wh_url_encrypted = ''url'', wh_signing_secret_encrypted = None,
     wh_enabled = True, wh_deliver_events = False, wh_deliver_backups = True,
     wh_event_filters = [], wh_created_by = Some ''u1'', wh_created_at = 0, wh_updated_at = 0 \<rparr>"

definition sample_schedule :: "uuid \<Rightarrow> time option \<Rightarrow> schedule" where
  "sample_schedule i next = \<lparr> sc_id = i, sc_server_id = ''s1'', sc_name = i,
     sc_cron_expression = ''* * * * *'', sc_timezone = ''UTC'', sc_enabled = True,
     sc_concurrency_policy = ''skip'', sc_misfire_policy = ''run_once'', sc_next_run_at = next,
     sc_created_by = Some ''u1'', sc_created_at = 0, sc_updated_at = 0 \<rparr>"

definition sample_installation :: installation where
  "sample_installation = \<lparr> in_id = ''inst'', in_bootstrap_token_hash = None,
     in_owner_user_id = Some ''u1'', in_mfa_policy = ''off'', in_updated_at = 0 \<rparr>"

definition sample_db :: db where
  "sample_db = empty_db\<lparr> installations := [sample_installation],
     users := [sample_user ''u1'' ''active'' ''owner'', sample_user ''u2'' ''active'' ''viewer''],
     roles := map sample_role [''owner'', ''administrator'', ''operator'', ''viewer''],
     templates := [\<lparr> te_id = ''t1'', te_name = ''game'', te_archived_at = None \<rparr>],
     template_versions := [sample_version ''tv1'' 1, sample_version ''tv2'' 2],
     servers := [sample_server ''s1'' ''running'' ''running''],
     runtimes := [new_runtime 0 ''s1''],
     backups := [sample_backup ''b1'' ''succeeded''],
     webhook_destinations := [sample_destination],
     schedules := [sample_schedule ''sc1'' (Some 0)] \<rparr>"

lemmas sample_rows = sample_server_def sample_user_def sample_session_def sample_role_def
  sample_version_def sample_backup_def sample_destination_def sample_schedule_def
  sample_installation_def queued_backup_def new_runtime_def

lemmas sample_defs = sample_db_def empty_db_def sample_rows noon_def

text \<open>The tables of the sample, so that a proof unfolds only what it reads.\<close>

lemma sample_tables [simp]:
  "installations sample_db = [sample_installation]"
  "servers sample_db = [sample_server ''s1'' ''running'' ''running'']"
  "runtimes sample_db = [new_runtime 0 ''s1'']"
  "backups sample_db = [sample_backup ''b1'' ''succeeded'']"
  "webhook_destinations sample_db = [sample_destination]"
  "schedules sample_db = [sample_schedule ''sc1'' (Some 0)]"
  "template_versions sample_db = [sample_version ''tv1'' 1, sample_version ''tv2'' 2]"
  "users sample_db = [sample_user ''u1'' ''active'' ''owner'', sample_user ''u2'' ''active'' ''viewer'']"
  "roles sample_db = [sample_role ''owner'', sample_role ''administrator'', sample_role ''operator'',
     sample_role ''viewer'']"
  "role_bindings sample_db = []" "sessions sample_db = []" "invites sample_db = []"
  "operations sample_db = []" "outbox sample_db = []" "schedule_runs sample_db = []"
  "schedule_tasks sample_db = []" "webhook_deliveries sample_db = []" "activity sample_db = []"
  "backup_deliveries sample_db = []" "server_ports sample_db = []" "audit sample_db = []"
  "templates sample_db = [\<lparr> te_id = ''t1'', te_name = ''game'', te_archived_at = None \<rparr>]"
  "server_variables sample_db = []" "variable_definitions sample_db = []" "resources sample_db = []" "role_permissions sample_db = []"
  by (simp_all add: sample_db_def empty_db_def)

lemma sample_db_ok: "db_ok sample_db"
  by (simp add: ok_defs check_defs) (simp add: sample_defs days_def)

section \<open>A database without servers\<close>

text \<open>Just after the installation: users, roles and a template, and no server yet.\<close>

definition fresh_db :: db where
  "fresh_db = sample_db\<lparr>servers := [], runtimes := [], backups := [], webhook_destinations := [],
     schedules := []\<rparr>"

lemma fresh_tables [simp]:
  "servers fresh_db = []" "runtimes fresh_db = []" "backups fresh_db = []"
  "webhook_destinations fresh_db = []" "schedules fresh_db = []"
  "installations fresh_db = [sample_installation]"
  "templates fresh_db = templates sample_db"
  "template_versions fresh_db = [sample_version ''tv1'' 1, sample_version ''tv2'' 2]"
  "users fresh_db = [sample_user ''u1'' ''active'' ''owner'', sample_user ''u2'' ''active'' ''viewer'']"
  "roles fresh_db = [sample_role ''owner'', sample_role ''administrator'', sample_role ''operator'',
     sample_role ''viewer'']"
  "role_bindings fresh_db = []" "sessions fresh_db = []" "invites fresh_db = []"
  "operations fresh_db = []" "outbox fresh_db = []" "schedule_runs fresh_db = []"
  "schedule_tasks fresh_db = []" "webhook_deliveries fresh_db = []" "activity fresh_db = []"
  "backup_deliveries fresh_db = []" "server_ports fresh_db = []" "audit fresh_db = []"
  "server_variables fresh_db = []" "variable_definitions fresh_db = []" "resources fresh_db = []"
  "role_permissions fresh_db = []"
  by (simp_all add: fresh_db_def)

section \<open>Creating a server\<close>

definition sample_request :: "int \<Rightarrow> string \<Rightarrow> port_request" where
  "sample_request port protocol = \<lparr> pq_id = [], pq_bind_address = [], pq_host_port = 0,
     pq_container_port = port, pq_protocol = protocol, pq_purpose = ''game'', pq_environment = [],
     pq_is_primary = (protocol = ''tcp'') \<rparr>"

definition sample_params :: create_server_params where
  "sample_params = \<lparr> cs_template_version_id = ''tv1'', cs_name = ''new'', cs_description = [],
     cs_image_reference = ''image'', cs_ports = [sample_request 25566 ''tcp'', sample_request 80 ''udp''],
     cs_resources = \<lparr> rs_server_id = [], rs_cpu_limit_millicores = None, rs_cpu_set = None,
       rs_memory_limit_bytes = None, rs_memory_reservation_bytes = None, rs_swap_limit_bytes = None,
       rs_disk_limit_bytes = None, rs_pids_limit = None, rs_io_weight = None \<rparr>,
     cs_variables = [], cs_created_by = ''u1'', cs_start = True, cs_game_port_start = 25565,
     cs_game_port_end = 25566 \<rparr>"

lemma sample_allocation:
  assumes "server_ports d = []"
  shows "allocate_ports 25565 25566 d [] (cs_ports sample_params) =
     Inr [(sample_request 25566 ''tcp'')\<lparr>pq_host_port := 25566, pq_bind_address := ''0.0.0.0''\<rparr>,
          (sample_request 80 ''udp'')\<lparr>pq_host_port := 25565, pq_bind_address := ''0.0.0.0''\<rparr>]"
  using assms
  by (simp add: sample_params_def sample_request_def allocate_host_port_def Let_def port_in_use_def
      usedByProtocol_def order_by_def upto.simps)

text \<open>Creating a server in either database.\<close>

lemma sample_creation:
  assumes d: "d = sample_db \<or> d = fresh_db"
  shows "\<exists>res d'. CreateServer None noon ''s2'' [''p1'', ''p2''] ''op'' ''k'' ''ev'' ''ac'' sample_params d = Inr (res, d')"
proof -
  have avail: "template_available ''tv1'' d"
    using d by (auto simp: template_available_def sample_version_def)
  have free: "\<not> name_taken ''inst'' ''new'' d"
    using d by (auto simp: name_taken_def sample_server_def to_lower_def to_lower_char_def)
  let ?ports = "[(sample_request 25566 ''tcp'')\<lparr>pq_host_port := 25566, pq_bind_address := ''0.0.0.0''\<rparr>,
    (sample_request 80 ''udp'')\<lparr>pq_host_port := 25565, pq_bind_address := ''0.0.0.0''\<rparr>]"
  have "\<exists>p'. create_server_body None noon ''s2'' ''op'' ''k'' ''ev'' ''ac'' ''inst'' sample_params ?ports
      (d, [''p1'', ''p2'']) = Inr p'"
    using d free by (elim disjE; simp add: create_server_body_def exec.simps stmt_apply labelled_def
        insert_server_def insert_resources_def insert_runtime_def insert_port_def insert_operation_def
        insert_outbox_def constrain_def sample_params_def
        sample_request_def port_row_def new_server_def new_runtime_def
        sample_server_def check_server_def server_statuses_def check_resources_def positive_or_null_def
        check_port_def port_key_def server_exists_def
        operation_row_def check_operation_def server_exists_opt_def
        insert_activity_def Let_def activity_row_def check_activity_def
        dockside_enqueue_webhook_deliveries_def webhook_matches_def sample_destination_def
        outbox_row_def)
  moreover have "cs_template_version_id sample_params = ''tv1''" "cs_name sample_params = ''new''"
    "cs_game_port_start sample_params = 25565" "cs_game_port_end sample_params = 25566"
    "in_id sample_installation = ''inst''"
    by (simp_all add: sample_params_def sample_installation_def)
  moreover have "installations d = [sample_installation]" "server_ports d = []" using d by auto
  ultimately show ?thesis
    using sample_allocation [of d] by (auto simp: CreateServer_def avail free state_of_def)
qed

end
