(* ===== verification/Server_Properties.thy ===== *)
theory Server_Properties
  imports Telemetry Provisioning Examples
begin

text \<open>
  What the life cycle of a server guarantees: which power requests are accepted, that they exclude
  each other, that a stop wins over everything started earlier, and how recovery
  behaves.
\<close>

section \<open>Power requests\<close>

text \<open>The specification of acceptance, as a table of action and status.\<close>

definition power_allowed :: "string \<Rightarrow> string \<Rightarrow> bool" where
  "power_allowed action status \<longleftrightarrow>
     (action = ''start'' \<and> status \<in> {''stopped'', ''degraded'', ''failed''}) \<or>
     (action = ''stop'' \<and> status \<in> {''running'', ''degraded'', ''failed''}) \<or>
     (action = ''restart'' \<and> status \<in> {''running'', ''stopped'', ''degraded'', ''failed''}) \<or>
     (action = ''kill'' \<and> status \<in> {''running'', ''starting'', ''restarting'', ''stopping'', ''degraded'', ''failed''})"

text \<open>Identifiers drawn at random collide with nothing stored.\<close>

definition fresh_activity :: "uuid \<Rightarrow> db \<Rightarrow> bool" where
  "fresh_activity i d \<longleftrightarrow> i \<notin> ac_id ` set (activity d) \<and>
     distinct (map wd_id (webhook_deliveries d) @ map (\<lambda>w. db_uuid d i (wh_id w)) (webhook_destinations d))"

definition fresh_power_ids :: "uuid \<Rightarrow> string \<Rightarrow> uuid \<Rightarrow> uuid \<Rightarrow> db \<Rightarrow> bool" where
  "fresh_power_ids operationID key activityID outboxID d \<longleftrightarrow>
     operationID \<notin> op_id ` set (operations d) \<and> key \<notin> op_idempotency_key ` set (operations d) \<and>
     outboxID \<notin> ob_id ` set (outbox d) \<and> fresh_activity activityID d"

lemma fresh_activity_insert:
  assumes "check_activity (activity_row i now srv actor ty sev su da)"
  shows "succeeds (\<lambda>d. fresh_activity i d \<and> server_exists_opt srv d \<and> q (outbox d))
    (insert_activity (activity_row i now srv actor ty sev su da)) (\<lambda>d. q (outbox d))"
  unfolding succeeds_def
proof (intro allI impI)
  fix d
  let ?r = "activity_row i now srv actor ty sev su da"
  assume p: "fresh_activity i d \<and> server_exists_opt srv d \<and> q (outbox d)"
  have ids: "map wd_id (dockside_enqueue_webhook_deliveries ?r d) =
      map (\<lambda>w. db_uuid d i (wh_id w)) (filter (webhook_matches ?r) (webhook_destinations d))"
    by (simp add: dockside_enqueue_webhook_deliveries_def queued_delivery_def activity_row_def comp_def)
  have "distinct (map wd_id (webhook_deliveries d @ dockside_enqueue_webhook_deliveries ?r d))"
    using p unfolding map_append ids fresh_activity_def by (auto simp: distinct_map_filter)
  with assms p show "\<exists>d'. insert_activity ?r d = Inr d' \<and> q (outbox d')"
    by (simp add: insert_activity_def Let_def constrain_def fresh_activity_def activity_row_def)
qed

lemma live_find: "distinct (map sv_id (servers d)) \<Longrightarrow> r \<in> set (servers d) \<Longrightarrow> live s r \<Longrightarrow>
  find (live s) (servers d) = Some r"
proof -
  assume dist: "distinct (map sv_id (servers d))" and r: "r \<in> set (servers d)" "live s r"
  then obtain x where x: "find (live s) (servers d) = Some x" by (cases "find (live s) (servers d)") (auto dest: find_NoneD)
  have "x = r" by (rule distinct_key_eq [OF dist]) (use find_SomeD [OF x] r in \<open>auto simp: live_def\<close>)
  with x show ?thesis by simp
qed

text \<open>The states of an accepted request before each of its inserts.\<close>

definition power_ready :: "uuid \<Rightarrow> uuid \<Rightarrow> string \<Rightarrow> uuid \<Rightarrow> uuid \<Rightarrow> db \<Rightarrow> bool" where
  "power_ready s opn key ac ob d \<longleftrightarrow> server_exists s d \<and> fresh_power_ids opn key ac ob d"

lemma power_ready_updates:
  assumes "\<And>r. sv_id (f r) = sv_id r" and "\<And>e. ob_id (g e) = ob_id e"
  shows "succeeds (power_ready s opn key ac ob) (update_servers p f) (power_ready s opn key ac ob)"
    and "succeeds (power_ready s opn key ac ob) (update_outbox q g) (power_ready s opn key ac ob)"
  using assms ids_upd [of p sv_id f] ids_upd [of q ob_id g]
  by (simp_all add: succeeds_def update_stmt_defs power_ready_def server_exists_def fresh_power_ids_def
      fresh_activity_def)

lemma power_ready_operation:
  "succeeds (power_ready s opn key ac ob)
     (insert_operation ((operation_row opn now s actor kind key msg)\<lparr>op_status := ''running'', op_started_at := t\<rparr>))
     (\<lambda>d. fresh_activity ac d \<and> server_exists_opt (Some s) d \<and> ob \<notin> ob_id ` set (outbox d))"
  by (simp add: succeeds_def power_ready_def fresh_power_ids_def insert_operation_def constrain_def
      operation_row_def check_operation_def server_exists_opt_def server_exists_def fresh_activity_def)

lemma insert_outbox_succeeds:
  "ob_id r = ob \<Longrightarrow> succeeds (\<lambda>d. ob \<notin> ob_id ` set (outbox d)) (insert_outbox r) (\<lambda>d. True)"
  by (simp add: succeeds_def insert_outbox_def constrain_def)

lemma succeeds_weaken: "succeeds p c q \<Longrightarrow> (\<And>s. q s \<Longrightarrow> q' s) \<Longrightarrow> succeeds p c q'"
  unfolding succeeds_def by blast

text \<open>The three tests of the code that end in a conflict.\<close>

definition power_conflict :: "string \<Rightarrow> string \<Rightarrow> bool" where
  "power_conflict a st \<longleftrightarrow>
     (st = ''installing'' \<or> st = ''deleting'' \<or> st = ''suspended'') \<or>
     (a \<noteq> ''kill'' \<and> (st = ''starting'' \<or> st = ''restarting'' \<or> st = ''stopping'')) \<or>
     ((a = ''start'' \<and> st = ''running'') \<or> ((a = ''stop'' \<or> a = ''kill'') \<and> st = ''stopped''))"

lemma power_allowed_iff:
  assumes "st \<in> set server_statuses"
  shows "power_allowed a st \<longleftrightarrow> power_transition a \<noteq> [] \<and> \<not> power_conflict a st"
proof -
  have "st = ''installing'' \<or> st = ''stopped'' \<or> st = ''starting'' \<or> st = ''running'' \<or>
      st = ''restarting'' \<or> st = ''stopping'' \<or> st = ''degraded'' \<or> st = ''suspended'' \<or>
      st = ''deleting'' \<or> st = ''failed''"
    using assms by (simp add: server_statuses_def)
  moreover have "a = ''start'' \<or> a = ''stop'' \<or> a = ''restart'' \<or> a = ''kill'' \<or> power_transition a = []"
    by (simp add: power_transition_def)
  moreover have "power_transition a = [] \<Longrightarrow> \<not> power_allowed a st"
    by (auto simp: power_transition_def power_allowed_def split: if_splits)
  ultimately show ?thesis
    by (elim disjE) (simp_all add: power_allowed_def power_conflict_def power_transition_def)
qed

lemma refused_if: "b0 \<or> b1 \<or> b2 \<or> b3 \<Longrightarrow>
  (if b0 then e else if b1 then e else if b2 then e else if b3 then e else x) = e"
  by auto

lemma accepted_if: "\<not> b0 \<Longrightarrow> \<not> (b1 \<or> b2 \<or> b3) \<Longrightarrow> \<exists>y. x = f y \<Longrightarrow>
  \<exists>y. (if b0 then e else if b1 then e else if b2 then e else if b3 then e else x) = f y"
  by simp

lemma accepted_eq: "\<not> b0 \<Longrightarrow> \<not> (b1 \<or> b2 \<or> b3) \<Longrightarrow>
  (if b0 then e else if b1 then e else if b2 then e else if b3 then e else x) = x"
  by simp

lemma requestPower_conflict:
  assumes "find (live s) (servers d) = Some r" and "power_transition a = [] \<or> power_conflict a (sv_status r)"
  shows "requestPower now opn key ac ob s actor a enqueue d = Inl ErrConflict"
  using assms(2) unfolding requestPower_def Let_def power_conflict_def assms(1) option.case
  by (rule refused_if)

lemma requestPower_accepted:
  assumes found: "find (live s) (servers d) = Some r" and "power_transition a \<noteq> []"
    and "\<not> power_conflict a (sv_status r)" and ready: "power_ready s opn key ac ob d"
  shows "\<exists>d'. requestPower now opn key ac ob s actor a enqueue d = Inr (opn, d')"
proof -
  have "succeeds (power_ready s opn key ac ob) (exec (power_statements now opn key ac ob s actor a enqueue)) (\<lambda>d. True)"
    unfolding power_statements_def
    by (intro succeeds_Cons [OF power_ready_updates(1)] succeeds_Cons [OF power_ready_operation]
        succeeds_Cons [OF succeeds_if [OF power_ready_updates(2) succeeds_skip]]
        succeeds_Cons [OF fresh_activity_insert]
        succeeds_Cons [OF succeeds_if [OF insert_outbox_succeeds succeeds_weaken [OF succeeds_skip]]]
        succeeds_Nil; simp add: check_activity_def activity_row_def outbox_row_def)
  from succeedsD [OF this ready] have run: "\<exists>d'. ret opn (exec (power_statements now opn key ac ob s actor a enqueue) d)
      = Inr (opn, d')" by auto
  show ?thesis
    using assms(2,3) unfolding requestPower_def Let_def power_conflict_def found option.case
    by (rule accepted_if) (rule run)
qed

text \<open>What an accepted request leaves in the tables.\<close>

definition powered :: "time \<Rightarrow> string \<Rightarrow> server \<Rightarrow> server" where
  "powered now a r = r\<lparr>sv_status := power_transition a, sv_desired_state := power_desired a,
     sv_stop_reason := (if power_desired a = ''stopped'' then Some ''requested'' else None),
     sv_recovery_attempts := 0, sv_recovery_window_started_at := None,
     sv_recovery_not_before := None, sv_updated_at := now, sv_version := sv_version r + 1\<rparr>"

lemma live_powered [simp]: "live s (powered now a r) = live s r"
  by (simp add: live_def powered_def)

lemma requestPower_InrD:
  assumes "requestPower now opn key ac ob s actor a enqueue d = Inr (x, d')"
  shows "\<exists>r. find (live s) (servers d) = Some r \<and> power_transition a \<noteq> [] \<and> \<not> power_conflict a (sv_status r)"
    and "servers d' = upd (live s) (powered now a) (servers d)" and "x = opn"
    and "power_desired a = ''stopped'' \<Longrightarrow> \<not> (\<exists>e \<in> set (outbox d'). pending_recovery s e)"
proof -
  from assms obtain r where found: "find (live s) (servers d) = Some r" and a: "power_transition a \<noteq> []"
    by (cases "find (live s) (servers d)") (auto simp: requestPower_def split: if_splits)
  moreover have free: "\<not> power_conflict a (sv_status r)"
    using assms requestPower_conflict [OF found, of a now opn key ac ob actor enqueue] by auto
  ultimately show "\<exists>r. find (live s) (servers d) = Some r \<and> power_transition a \<noteq> [] \<and>
      \<not> power_conflict a (sv_status r)" by blast
  have "requestPower now opn key ac ob s actor a enqueue d =
      ret opn (exec (power_statements now opn key ac ob s actor a enqueue) d)"
    using a free unfolding requestPower_def Let_def power_conflict_def found option.case
    by (rule accepted_eq)
  with assms have x: "x = opn" and run: "exec (power_statements now opn key ac ob s actor a enqueue) d = Inr d'"
    by auto
  show "x = opn" by (rule x)
  let ?c = "power_statements now opn key ac ob s actor a enqueue"
  from run obtain d1 d2 d3 d4 where steps: "(?c ! 0) d = Inr d1" "(?c ! 1) d1 = Inr d2"
    "(?c ! 2) d2 = Inr d3" "(?c ! 3) d3 = Inr d4" "(?c ! 4) d4 = Inr d'"
    unfolding power_statements_def by (simp add: exec_Cons_Inr del: nth_Cons_numeral) (auto simp: nth_Cons')
  from steps(1) have d1: "d1 = d\<lparr>servers := upd (live s) (powered now a) (servers d)\<rparr>"
    by (simp add: power_statements_def update_stmt_defs powered_def [abs_def])
  from steps(2) have d2: "servers d2 = servers d1"
    "power_desired a = ''stopped'' \<Longrightarrow> \<not> (\<exists>e \<in> set (outbox d2). pending_recovery s e)"
    by (auto simp: power_statements_def update_stmt_defs skip_def pending_recovery_def set_upd split: if_splits)
  from steps(3) have d3: "servers d3 = servers d2" "outbox d3 = outbox d2"
    by (auto simp: power_statements_def insert_operation_def)
  from steps(4) have d4: "servers d4 = servers d3" "outbox d4 = outbox d3"
    by (auto simp: power_statements_def numeral_eq_Suc dest!: insert_activity_InrD)
  from steps(5) have d5: "servers d' = servers d4"
    "set (outbox d') \<subseteq> set (outbox d4) \<union> {e. ob_topic e = ''server.power''}"
    by (auto simp: power_statements_def numeral_eq_Suc insert_outbox_def outbox_row_def skip_def split: if_splits)
  show "servers d' = upd (live s) (powered now a) (servers d)" by (simp add: d1 d2 d3 d4 d5)
  show "\<not> (\<exists>e \<in> set (outbox d'). pending_recovery s e)" if "power_desired a = ''stopped''"
    using d2(2) [OF that] d5(2) by (auto simp: d3 d4 pending_recovery_def)
qed

text \<open>
  C1: for a live server and fresh identifiers, a power request is accepted exactly for the pairs of
  action and current status of the table \<open>power_allowed\<close>; every other request, an unknown action
  included, is answered with the conflict error.
\<close>

theorem requestPower_table:
  assumes ok: "db_ok d" and r: "r \<in> set (servers d)" "live s r"
    and fresh: "fresh_power_ids opn key ac ob d"
  shows "if power_allowed a (sv_status r)
         then \<exists>d'. requestPower now opn key ac ob s actor a enqueue d = Inr (opn, d')
         else requestPower now opn key ac ob s actor a enqueue d = Inl ErrConflict"
proof -
  have found: "find (live s) (servers d) = Some r"
    using live_find [OF db_ok_servers [OF ok] r] .
  have status: "sv_status r \<in> set server_statuses" using ok r by (auto simp: ok_defs check_server_def)
  show ?thesis
  proof (cases "power_allowed a (sv_status r)")
    case False
    with power_allowed_iff [OF status] show ?thesis
      using requestPower_conflict [OF found] by auto
  next
    case True
    have "power_ready s opn key ac ob d"
      using r fresh by (auto simp: power_ready_def server_exists_def live_def)
    with True power_allowed_iff [OF status] show ?thesis
      using requestPower_accepted [OF found] by simp
  qed
qed

theorem requestPower_table_witness:
  "\<exists>d'. requestPower noon ''op'' ''k'' ''ac'' ''ob'' ''s1'' ''u1'' ''stop'' True sample_db = Inr (''op'', d')"
  using requestPower_table [OF sample_db_ok, of "sample_server ''s1'' ''running'' ''running''" "''s1''"
      "''op''" "''k''" "''ac''" "''ob''" "''stop''" noon "''u1''" True]
  by (simp add: live_def sample_server_def power_allowed_def fresh_power_ids_def fresh_activity_def)

text \<open>
  Power requests exclude each other: once one has been accepted, every request but a kill is
  answered with the conflict error until the server's status changes again.
\<close>

theorem power_requests_exclude:
  assumes "requestPower now opn key ac ob s actor a enqueue d = Inr (x, d')" and "b \<noteq> ''kill''"
  shows "requestPower now' opn' key' ac' ob' s actor' b enqueue' d' = Inl ErrConflict"
proof -
  from requestPower_InrD [OF assms(1)] obtain r where r: "find (live s) (servers d) = Some r"
    and a: "power_transition a \<noteq> []" and d': "servers d' = upd (live s) (powered now a) (servers d)" by blast
  have "find (live s) (servers d') = Some (powered now a r)"
    unfolding d' by (simp add: find_upd r)
  moreover have "power_conflict b (sv_status (powered now a r))"
    using power_transition_values [OF a] assms(2) by (auto simp: power_conflict_def powered_def)
  ultimately show ?thesis by (blast intro: requestPower_conflict)
qed

theorem power_requests_exclude_witness:
  "\<exists>d'. RequestPower noon ''op'' ''k'' ''ac'' ''ob'' ''s1'' ''u1'' ''stop'' sample_db = Inr (''op'', d') \<and>
     RequestPower noon ''op2'' ''k2'' ''ac2'' ''ob2'' ''s1'' ''u1'' ''start'' d' = Inl ErrConflict"
proof -
  obtain d' where d': "requestPower noon ''op'' ''k'' ''ac'' ''ob'' ''s1'' ''u1'' ''stop'' True sample_db = Inr (''op'', d')"
    using requestPower_accepted [of "''s1''" sample_db "sample_server ''s1'' ''running'' ''running''" "''stop''"
      "''op''" "''k''" "''ac''" "''ob''" noon "''u1''" True]
    by (auto simp: live_def sample_server_def power_transition_def power_conflict_def power_ready_def
        server_exists_def fresh_power_ids_def fresh_activity_def)
  with power_requests_exclude [OF d', of "''start''"] show ?thesis by (simp add: RequestPower_def)
qed

section \<open>A stop wins\<close>

lemma upd_at_most_one: "distinct (map k t) \<Longrightarrow> r \<in> set (upd p f t) \<Longrightarrow> (\<And>x. k (f x) = k x) \<Longrightarrow>
  \<exists>x \<in> set t. k r = k x"
  by (auto simp: upd_def)

text \<open>The row of the server after an accepted request is the only one with its identifier.\<close>

lemma powered_row:
  assumes "db_ok d" and "requestPower now opn key ac ob s actor a enqueue d = Inr (x, d')"
    and "r \<in> set (servers d')" and "sv_id r = s"
  shows "sv_desired_state r = power_desired a" and "sv_status r = power_transition a"
proof -
  from requestPower_InrD [OF assms(2)] obtain r0 where r0: "find (live s) (servers d) = Some r0"
    and d': "servers d' = upd (live s) (powered now a) (servers d)" by blast
  from assms(3) obtain q where q: "q \<in> set (servers d)" "r = (if live s q then powered now a q else q)"
    unfolding d' set_upd by blast
  then have "sv_id q = s" using assms(4) by (auto simp: powered_def split: if_splits)
  then have "q = r0"
    using find_SomeD [OF r0] q(1) by (intro distinct_key_eq [OF db_ok_servers [OF assms(1)]]) (auto simp: live_def)
  with find_SomeD [OF r0] q(2) have "r = powered now a r0" by simp
  then show "sv_desired_state r = power_desired a" "sv_status r = power_transition a"
    by (simp_all add: powered_def)
qed

lemma FinishRecovery_ignored:
  assumes "\<not> (\<exists>r \<in> set (servers d). desires s ''running'' r)" and "FinishRecovery now ev s n err d = Inr d'"
  shows "servers d' = servers d"
  using assms by (auto simp: FinishRecovery_def exec_Cons_Inr update_stmt_defs upd_none split: option.splits
      dest!: insert_activity_InrD)

lemma FinishPower_ignored:
  assumes "\<not> (\<exists>r \<in> set (servers d). desires s (power_desired a) r)" and "FinishPower now s opn a err d = Inr d'"
  shows "servers d' = servers d \<and> runtimes d' = runtimes d"
  using assms by (auto simp: FinishPower_def Let_def exec_Cons_Inr update_stmt_defs upd_none
      split: option.splits if_splits)

text \<open>
  C3: an accepted stop or kill wins over everything started earlier: no recovery of the server is
  pending any more, a recovery that the worker begins later is refused, and the late results of a
  recovery, a start or a restart leave the server as it is.
\<close>

theorem stop_wins:
  assumes "db_ok d" and "requestPower now opn key ac ob s actor a enqueue d = Inr (x, d')"
    and "power_desired a = ''stopped''" and "power_desired b = ''running''"
  shows "\<not> (\<exists>e \<in> set (outbox d'). pending_recovery s e) \<and>
    BeginRecovery now' s n d' = Inr (False, d') \<and>
    sat (\<lambda>d2. servers d2 = servers d') (FinishRecovery now' ev s n err d') \<and>
    sat (\<lambda>d2. servers d2 = servers d' \<and> runtimes d2 = runtimes d') (FinishPower now' s opn' b err d')"
proof -
  have stopped: "\<not> (\<exists>r \<in> set (servers d'). desires s ''running'' r)"
    using powered_row(1) [OF assms(1,2)] assms(3) by (auto simp: desires_def)
  then have "\<forall>r \<in> set (servers d'). \<not> recoverable s n r" by (auto simp: recoverable_def desires_def live_def)
  then have "BeginRecovery now' s n d' = Inr (False, d')"
    using affected_0 [of "recoverable s n" "servers d'"]
    by (simp add: BeginRecovery_def update_stmt_defs upd_none ret_def)
  moreover have "\<not> (\<exists>r \<in> set (servers d'). desires s (power_desired b) r)"
    using stopped unfolding assms(4) .
  then have "sat (\<lambda>d2. servers d2 = servers d' \<and> runtimes d2 = runtimes d')
      (FinishPower now' s opn' b err d')"
    by (intro satI FinishPower_ignored)
  moreover have "sat (\<lambda>d2. servers d2 = servers d') (FinishRecovery now' ev s n err d')"
    by (intro satI FinishRecovery_ignored [OF stopped])
  ultimately show ?thesis using requestPower_InrD(4) [OF assms(2,3)] by blast
qed

lemma sample_stop:
  "\<exists>d'. requestPower noon ''op'' ''k'' ''ac'' ''ob'' ''s1'' ''u1'' ''stop'' True sample_db = Inr (''op'', d')"
  using requestPower_accepted [of "''s1''" sample_db "sample_server ''s1'' ''running'' ''running''" "''stop''"
    "''op''" "''k''" "''ac''" "''ob''" noon "''u1''" True]
  by (auto simp: live_def sample_server_def power_transition_def power_conflict_def power_ready_def
      server_exists_def fresh_power_ids_def fresh_activity_def)

theorem stop_wins_witness:
  "\<exists>d'. requestPower noon ''op'' ''k'' ''ac'' ''ob'' ''s1'' ''u1'' ''stop'' True sample_db = Inr (''op'', d') \<and>
     BeginRecovery noon ''s1'' 1 d' = Inr (False, d')"
proof -
  obtain d' where d': "requestPower noon ''op'' ''k'' ''ac'' ''ob'' ''s1'' ''u1'' ''stop'' True sample_db = Inr (''op'', d')"
    using sample_stop by blast
  with stop_wins [OF sample_db_ok d', of "''start''" noon 1 "''e''" None "''o''"] show ?thesis
    by (simp add: power_desired_def)
qed

section \<open>Recovery\<close>

lemma recoveryDelay_values: "recoveryDelay n \<in> {5 * second, 15 * second, 30 * second, 60 * second, 120 * second}"
proof -
  have "n \<le> 1 \<or> n = 2 \<or> n = 3 \<or> n = 4 \<or> 5 \<le> n" by linarith
  then show ?thesis
    by (elim disjE) (auto simp: recoveryDelay_def recovery_delays_def Let_def numeral_eq_Suc)
qed

lemma recoveryDelay_mono: "m \<le> n \<Longrightarrow> recoveryDelay m \<le> recoveryDelay n"
proof -
  have delay: "recoveryDelay n = (if n \<le> 1 then 5 * second else if n = 2 then 15 * second
      else if n = 3 then 30 * second else if n = 4 then 60 * second else 120 * second)" for n
    by (auto simp: recoveryDelay_def recovery_delays_def Let_def numeral_eq_Suc)
  show "m \<le> n \<Longrightarrow> ?thesis" unfolding delay by (auto simp: second_def)
qed

end
