(* ===== verification/Recovery_Properties.thy ===== *)
theory Recovery_Properties
  imports Server_Properties
begin

text \<open>
  What one reconciliation of the database with the engine does to the recoveries and to the servers
  whose container is gone: recoveries never pile up, their attempts and delays are bounded, and a
  server is recorded as deleted only when its container was missing twice in a row.
\<close>

section \<open>The outbox under a reconciliation\<close>

text \<open>
  A reconciliation writes the outbox in two ways: it appends the recovery of a server that has none
  pending, and it closes the open events of a server deleted outside the panel.
\<close>

definition recovery_event :: "uuid \<Rightarrow> time \<Rightarrow> uuid \<Rightarrow> int \<Rightarrow> outbox_event" where
  "recovery_event i now s n =
     (outbox_row i now ''server.recover'' s (JObj [(''server_id'', JStr s), (''attempt'', JNum n)]))
       \<lparr>ob_available_at := now + interval_of (recoveryDelay n)\<rparr>"

definition cancelled_event :: "time \<Rightarrow> outbox_event \<Rightarrow> outbox_event" where
  "cancelled_event now e = e\<lparr>ob_processed_at := Some now,
     ob_last_error := Some ''cancelled after external container deletion''\<rparr>"

definition open_event :: "uuid \<Rightarrow> outbox_event \<Rightarrow> bool" where
  "open_event s e \<longleftrightarrow> ob_aggregate_id e = Some s \<and> ob_processed_at e = None"

lemma preserves_frame: "frames g c \<Longrightarrow> preserves (\<lambda>s. q (g s)) c"
  by (auto simp: frames_def intro: preservesI)

lemma sat_exec_Cons: "(\<And>s1. c s = Inr s1 \<Longrightarrow> sat i (exec cs s1)) \<Longrightarrow> sat i (exec (c # cs) s)"
  by (simp add: exec.simps split: sum.split)

lemma outbox_frames [simp]:
  "frames outbox (update_servers p f)" "frames outbox (update_runtimes p' f')"
  "frames outbox (update_schedules p2 f2)" "frames outbox (delete_ports p3)"
  "frames outbox (insert_activity r)"
  by (auto simp: frames_def update_stmt_defs delete_stmt_defs dest!: insert_activity_InrD)

lemma snapshot_outbox [simp]:
  "frames outbox (snapshot_runtime snap)" "frames outbox (snapshot_server now snap st reason)"
  "frames outbox (snapshot_exit_event now snap b i)"
  by (simp_all add: snapshot_runtime_def snapshot_server_def snapshot_exit_event_def)

lemma preserves_both: "frames outbox c \<Longrightarrow> preserves (\<lambda>p. q (outbox (fst p))) (lift_stmt c)"
  "(\<And>i. frames outbox (k i)) \<Longrightarrow> preserves (\<lambda>p. q (outbox (fst p))) (with_id k)"
  by (blast intro: preserves_lift [where i = "\<lambda>d. q (outbox d)"] preserves_frame)
    (blast intro: preserves_with_id [where i = "\<lambda>d. q (outbox d)"] preserves_frame)

lemma plan_recovery_outbox:
  assumes insert: "\<And>t i n. q t \<Longrightarrow> 1 \<le> n \<Longrightarrow> n \<le> 5 \<Longrightarrow>
      \<not> (\<exists>e \<in> set t. pending_recovery (st_server_id snap) e) \<Longrightarrow>
      q (t @ [recovery_event i now (st_server_id snap) n])"
  shows "preserves (\<lambda>p. q (outbox (fst p))) (plan_recovery now snap a w)"
proof (rule preserves_by_sat)
  fix p :: "db \<times> uuid list" assume q: "q (outbox (fst p))"
  let ?q = "\<lambda>p :: db \<times> uuid list. q (outbox (fst p))"
  let ?n = "nextRecoveryAttempt a"
  show "sat ?q (plan_recovery now snap a w p)"
  proof (cases "\<exists>e \<in> set (outbox (fst p)). pending_recovery (st_server_id snap) e")
    case True
    with q show ?thesis by (simp add: plan_recovery_def)
  next
    case False
    let ?ins = "with_id (\<lambda>i. insert_outbox (recovery_event i now (st_server_id snap) ?n))"
    have inserted: "?q p1" if "?ins p = Inr p1" for p1
      using that insert [OF q _ _ False] nextRecoveryAttempt_range [of a]
      by (auto simp: with_id_def insert_outbox_def constrain_def
          split: prod.splits list.splits sum.splits if_splits)
    show ?thesis
      unfolding plan_recovery_def Let_def recovery_event_def [symmetric] if_not_P [OF False]
      by (rule sat_exec_Cons, drule inserted, erule sat_exec) (simp add: preserves_both)  qed
qed

lemma sync_snapshot_outbox:
  assumes "\<And>t i n. q t \<Longrightarrow> 1 \<le> n \<Longrightarrow> n \<le> 5 \<Longrightarrow>
      \<not> (\<exists>e \<in> set t. pending_recovery (st_server_id snap) e) \<Longrightarrow>
      q (t @ [recovery_event i now (st_server_id snap) n])"
  shows "preserves (\<lambda>p. q (outbox (fst p))) (sync_snapshot now snap)"
proof (rule preserves_by_sat)
  fix p :: "db \<times> uuid list" assume q: "q (outbox (fst p))"
  show "sat (\<lambda>p. q (outbox (fst p))) (sync_snapshot now snap p)"
    unfolding sync_snapshot_def Let_def
    by (intro sat_intros sat_exec)
      (simp_all add: q preserves_both plan_recovery_outbox [where q = q and now = now, OF assms])qed

lemma observe_missing_outbox:
  assumes "\<And>t. q t \<Longrightarrow> q (upd (open_event s) (cancelled_event now) t)"
  shows "preserves (\<lambda>p. q (outbox (fst p))) (observe_missing now s)"
proof -
  have close: "preserves (\<lambda>d. q (outbox d)) (update_outbox
      (\<lambda>e. ob_aggregate_id e = Some s \<and> ob_processed_at e = None) (cancelled_event now))"
    using assms by (auto simp: update_stmt_defs open_event_def [abs_def] preserves_def)
  have "preserves (\<lambda>p. q (outbox (fst p))) (record_external_deletion now s n)" for n
    unfolding record_external_deletion_def
    by (rule preserves_exec) (simp add: preserves_both preserves_lift [OF close, unfolded cancelled_event_def])
  then show ?thesis
    unfolding observe_missing_def Let_def
    by (intro preserves_by_sat sat_intros sat_exec) (simp_all add: preserves_both)
qed

lemma SyncRuntimeStats_outbox:
  assumes insert: "\<And>s t i n. q t \<Longrightarrow> 1 \<le> n \<Longrightarrow> n \<le> 5 \<Longrightarrow> \<not> (\<exists>e \<in> set t. pending_recovery s e) \<Longrightarrow>
      q (t @ [recovery_event i now s n])"
    and close: "\<And>s t. q t \<Longrightarrow> q (upd (open_event s) (cancelled_event now) t)"
    and run: "SyncRuntimeStats now ids snapshots d = Inr d'" and start: "q (outbox d)"
  shows "q (outbox d')"
proof -
  let ?q = "\<lambda>p :: db \<times> uuid list. q (outbox (fst p))"
  have "preserves ?q (for_each (sync_snapshot now) snapshots)"
    by (rule preserves_for_each, rule sync_snapshot_outbox, rule insert)
  moreover have "preserves ?q (\<lambda>p. for_each (observe_missing now) (missing_servers snapshots (fst p)) p)"
    by (rule preserves_dependent, rule preserves_for_each, rule observe_missing_outbox, rule close)
  ultimately have "preserves ?q (exec [for_each (sync_snapshot now) snapshots,
      (\<lambda>p. for_each (observe_missing now) (missing_servers snapshots (fst p)) p)])"
    by (intro preserves_exec) simp
  from preserves_sat [OF this, of "(d, ids)"] start run show ?thesis
    by (simp add: SyncRuntimeStats_def state_of_Inr sat_def)
qed

section \<open>A reconciliation that finds a stopped container\<close>

definition sample_stats :: "string \<Rightarrow> server_stats" where
  "sample_stats state = \<lparr> st_server_id = ''s1'', st_container_id = ''c1'', st_state = state,
     st_health = ''none'', st_cpu_percent = 0, st_memory_bytes = 0, st_memory_limit_bytes = 0,
     st_network_rx_bytes = 0, st_network_tx_bytes = 0, st_block_read_bytes = 0,
     st_block_write_bytes = 0, st_started_at = None, st_exit_code = Some 1, st_error = '''',
     st_observed_at = noon \<rparr>"

lemma sample_reconciliation:
  "\<exists>d'. SyncRuntimeStats noon [''e1'', ''o1''] [sample_stats ''exited''] sample_db = Inr d' \<and>
     outbox d' = [recovery_event ''o1'' noon ''s1'' 1]"
  by (simp add: SyncRuntimeStats_def exec.simps sync_snapshot_def sample_stats_def live_def sample_server_def
      runtimeServerStatus_def snapshot_stop_reason_def lift_stmt_def snapshot_runtime_def
      snapshot_server_def update_stmt_defs with_id_def snapshot_exit_event_def insert_activity_def Let_def
      constrain_def activity_row_def check_activity_def server_exists_opt_def server_exists_def
      dockside_enqueue_webhook_deliveries_def webhook_matches_def sample_destination_def
      plan_recovery_def insert_outbox_def recovery_event_def outbox_row_def nextRecoveryAttempt_def
      skip_def missing_servers_def expects_container_def state_of_def)

section \<open>Recoveries never pile up\<close>

definition recoveries_unique :: "db \<Rightarrow> bool" where
  "recoveries_unique d \<longleftrightarrow> (\<forall>s. affected (pending_recovery s) (outbox d) \<le> 1)"

lemma affected_append: "affected p (s @ t) = affected p s + affected p t"
  by (simp add: affected_def)

lemma affected_upd_le: "(\<And>r. p (f r) \<Longrightarrow> p r) \<Longrightarrow> affected p (upd q f t) \<le> affected p t"
  by (induction t) (auto simp: affected_def)

text \<open>
  C4: reconciliations never queue a second recovery for a server that has one pending, whatever the
  engine reports and however often they run.
\<close>

theorem recoveries_stay_unique:
  assumes "recoveries_unique d" and "SyncRuntimeStats now ids snapshots d = Inr d'"
  shows "recoveries_unique d'"
  unfolding recoveries_unique_def
proof (rule SyncRuntimeStats_outbox [OF _ _ assms(2)])
  fix s t i n
  assume t: "\<forall>s'. affected (pending_recovery s') t \<le> 1" and none: "\<not> (\<exists>e \<in> set t. pending_recovery s e)"
  have "affected (pending_recovery s') (t @ [recovery_event i now s n]) \<le> 1" for s'
  proof (cases "s' = s")
    case True
    with none have "affected (pending_recovery s') t = 0" by (simp add: affected_0)
    then show ?thesis by (simp add: affected_append affected_def)
  next
    case False
    then have "\<not> pending_recovery s' (recovery_event i now s n)"
      by (simp add: pending_recovery_def recovery_event_def outbox_row_def)
    with t show ?thesis by (simp add: affected_append affected_def)
  qed
  then show "\<forall>s'. affected (pending_recovery s') (t @ [recovery_event i now s n]) \<le> 1" ..
next
  fix s t
  assume t: "\<forall>s'. affected (pending_recovery s') t \<le> 1"
  have "affected (pending_recovery s') (upd (open_event s) (cancelled_event now) t) \<le>
      affected (pending_recovery s') t" for s'
    by (rule affected_upd_le) (simp add: pending_recovery_def cancelled_event_def)
  with t show "\<forall>s'. affected (pending_recovery s') (upd (open_event s) (cancelled_event now) t) \<le> 1"
    by (blast intro: order_trans)
next
  show "\<forall>s. affected (pending_recovery s) (outbox d) \<le> 1"
    using assms(1) by (simp add: recoveries_unique_def)
qed

theorem recoveries_stay_unique_witness:
  "\<exists>d'. SyncRuntimeStats noon [''e1'', ''o1''] [sample_stats ''exited''] sample_db = Inr d' \<and>
     outbox d' = [recovery_event ''o1'' noon ''s1'' 1] \<and> recoveries_unique d'"
proof -
  obtain d' where d': "SyncRuntimeStats noon [''e1'', ''o1''] [sample_stats ''exited''] sample_db = Inr d'"
    "outbox d' = [recovery_event ''o1'' noon ''s1'' 1]" using sample_reconciliation by blast
  with recoveries_stay_unique [OF _ d'(1)] show ?thesis by (simp add: recoveries_unique_def affected_def)
qed

section \<open>Bounded attempts and growing delays\<close>

lemma recoveryDelay_range: "5 * second \<le> recoveryDelay n \<and> recoveryDelay n \<le> 120 * second"
  using recoveryDelay_values [of n] by (auto simp: second_def)

interpretation recovery_retries: retry_policy recoveryDelay "5 * second" "120 * second"
  using recoveryDelay_range recoveryDelay_mono by unfold_locales (simp_all add: second_def)

definition planned_recovery :: "time \<Rightarrow> uuid \<Rightarrow> outbox_event \<Rightarrow> bool" where
  "planned_recovery now s e \<longleftrightarrow>
     (\<exists>n. 1 \<le> n \<and> n \<le> 5 \<and>
        ob_payload e = JObj [(''server_id'', JStr s), (''attempt'', JNum n)] \<and>
        ob_available_at e = now + interval_of (recoveryDelay n))"

lemma planned_recovery_time:
  "planned_recovery now s e \<Longrightarrow> now + seconds 5 \<le> ob_available_at e \<and> ob_available_at e \<le> now + seconds 120"
  using interval_of_mono [OF recovery_retries.delay_least] recovery_retries.next_attempt_by [of now]
  by (auto simp: planned_recovery_def interval_of_seconds seconds_def)

text \<open>
  C5: a recovery that a reconciliation queues carries an attempt from 1 to 5 and becomes available
  after the delay of that attempt, between five seconds and two minutes later.
\<close>

theorem recoveries_bounded:
  assumes "SyncRuntimeStats now ids snapshots d = Inr d'"
    and "e \<in> set (outbox d')" "pending_recovery s e" "e \<notin> set (outbox d)"
  shows "planned_recovery now s e \<and> now + seconds 5 \<le> ob_available_at e \<and>
    ob_available_at e \<le> now + seconds 120"
proof -
  have "\<forall>s. \<forall>e \<in> set (outbox d'). pending_recovery s e \<longrightarrow> e \<in> set (outbox d) \<or> planned_recovery now s e"
    by (rule SyncRuntimeStats_outbox [OF _ _ assms(1)])
      (fastforce simp: planned_recovery_def recovery_event_def outbox_row_def pending_recovery_def,
       auto simp: set_upd pending_recovery_def cancelled_event_def split: if_splits)
  with assms(2-4) have "planned_recovery now s e" by blast
  with planned_recovery_time show ?thesis by blast
qed

theorem recoveries_bounded_witness:
  "planned_recovery noon ''s1'' (recovery_event ''o1'' noon ''s1'' 1) \<and>
     ob_available_at (recovery_event ''o1'' noon ''s1'' 1) \<le> noon + seconds 120"
proof -
  let ?e = "recovery_event ''o1'' noon ''s1'' 1"
  obtain d' where d': "SyncRuntimeStats noon [''e1'', ''o1''] [sample_stats ''exited''] sample_db = Inr d'"
    "outbox d' = [?e]" using sample_reconciliation by blast
  have "pending_recovery ''s1'' ?e" by (simp add: pending_recovery_def recovery_event_def outbox_row_def)
  with recoveries_bounded [OF d'(1), of ?e "''s1''"] d'(2) show ?thesis by simp
qed

section \<open>Deletions outside the panel\<close>

text \<open>The rows of one server in the tables that an external deletion writes.\<close>

definition server_view :: "uuid \<Rightarrow> db \<Rightarrow> server list \<times> server_port list \<times> schedule list \<times> outbox_event list" where
  "server_view s d =
     (filter (\<lambda>r. sv_id r = s) (servers d), filter (\<lambda>r. po_server_id r = s) (server_ports d),
      filter (\<lambda>r. sc_server_id r = s) (schedules d), filter (\<lambda>e. ob_aggregate_id e = Some s) (outbox d))"

lemma server_view_sets:
  assumes "server_view s d' = server_view s d"
  shows "{x \<in> set (servers d'). sv_id x = s} = {x \<in> set (servers d). sv_id x = s}"
    and "{x \<in> set (server_ports d'). po_server_id x = s} = {x \<in> set (server_ports d). po_server_id x = s}"
    and "{x \<in> set (schedules d'). sc_server_id x = s} = {x \<in> set (schedules d). sc_server_id x = s}"
    and "{x \<in> set (outbox d'). ob_aggregate_id x = Some s} = {x \<in> set (outbox d). ob_aggregate_id x = Some s}"
  using assms by (simp_all add: server_view_def flip: set_filter)

lemma filter_upd_other: "(\<And>r. q (f r) = q r) \<Longrightarrow> (\<And>r. p r \<and> q r \<Longrightarrow> False) \<Longrightarrow> filter q (upd p f t) = filter q t"
  by (induction t) auto

lemma filter_del_other: "(\<And>r. p r \<Longrightarrow> \<not> q r) \<Longrightarrow> filter q (del p t) = filter q t"
  by (induction t) (auto simp: del_def)

lemma frames_activity_view: "frames (server_view s) (insert_activity r)"
  by (auto simp: frames_def server_view_def dest!: insert_activity_InrD)

lemma frames_view_other:
  assumes "i \<noteq> s"
  shows "(\<And>r. sv_id (f r) = sv_id r) \<Longrightarrow> frames (server_view s) (update_servers (live i) f)"
    and "(\<And>r. sc_server_id (f2 r) = sc_server_id r) \<Longrightarrow>
      frames (server_view s) (update_schedules (\<lambda>r. sc_server_id r = i) f2)"
    and "(\<And>e. ob_aggregate_id (f3 e) = ob_aggregate_id e) \<Longrightarrow>
      frames (server_view s) (update_outbox (\<lambda>e. ob_aggregate_id e = Some i \<and> ob_processed_at e = None) f3)"
    and "frames (server_view s) (delete_ports (\<lambda>r. po_server_id r = i))"
proof -
  show "frames (server_view s) (update_servers (live i) f)" if "\<And>r. sv_id (f r) = sv_id r"
  proof -
    have "filter (\<lambda>r. sv_id r = s) (upd (live i) f t) = filter (\<lambda>r. sv_id r = s) t" for t
      by (rule filter_upd_other) (use assms that in \<open>auto simp: live_def\<close>)
    then show ?thesis by (simp add: frames_def server_view_def update_stmt_defs)
  qed
  show "frames (server_view s) (update_schedules (\<lambda>r. sc_server_id r = i) f2)"
    if "\<And>r. sc_server_id (f2 r) = sc_server_id r"
    using assms that by (auto simp: frames_def server_view_def update_stmt_defs intro!: filter_upd_other)
  show "frames (server_view s) (update_outbox (\<lambda>e. ob_aggregate_id e = Some i \<and> ob_processed_at e = None) f3)"
    if "\<And>e. ob_aggregate_id (f3 e) = ob_aggregate_id e"
    using assms that by (auto simp: frames_def server_view_def update_stmt_defs intro!: filter_upd_other)
  show "frames (server_view s) (delete_ports (\<lambda>r. po_server_id r = i))"
    using assms by (simp add: frames_def server_view_def delete_stmt_defs filter_del_other)
qed
lemma frames_execI: "list_all (frames g) cs \<Longrightarrow> frames g (exec cs)"
  unfolding frames_def [of g "exec cs"] by (blast intro: frames_exec)

lemma observe_missing_other:
  assumes "i \<noteq> s"
  shows "frames (\<lambda>p. server_view s (fst p)) (observe_missing now i)"
proof -
  note views = frames_lift [OF frames_view_other(1) [OF assms]] frames_lift [OF frames_view_other(2) [OF assms]]
    frames_lift [OF frames_view_other(3) [OF assms]] frames_lift [OF frames_view_other(4) [OF assms]]
    frames_with_id [OF frames_activity_view]
  have external: "frames (\<lambda>p. server_view s (fst p)) (record_external_deletion now i n)" for n
    unfolding record_external_deletion_def by (rule frames_execI) (simp add: views)
  have body: "frames (\<lambda>p. server_view s (fst p)) (exec
      [lift_stmt (update_servers (live i) (\<lambda>r. r\<lparr>sv_missing_container_observations :=
         sv_missing_container_observations r + 1\<rparr>)),
       (if n < 2 then skip else record_external_deletion now i n)])" for n
    by (rule frames_execI) (simp add: views external)
  show ?thesis
    unfolding frames_def
  proof (intro allI impI)
    fix p p' assume run: "observe_missing now i p = Inr p'"
    then obtain r where "find (live i) (servers (fst p)) = Some r"
      by (cases "find (live i) (servers (fst p))") (simp_all add: observe_missing_def)
    from run show "server_view s (fst p') = server_view s (fst p)"
      unfolding observe_missing_def Let_def \<open>find _ _ = Some r\<close> option.case by (rule framesD [OF body])
  qed
qed
lemma only_row: "filter (\<lambda>r. sv_id r = s) t = [r] \<Longrightarrow> q \<in> set t \<Longrightarrow> sv_id q = s \<Longrightarrow> q = r"
  by (induction t) (auto split: if_splits simp: filter_empty_conv)

lemma only_row_find: "filter (\<lambda>r. sv_id r = s) t = [r] \<Longrightarrow> live s r \<Longrightarrow> find (live s) t = Some r"
  by (induction t) (auto split: if_splits simp: live_def)

lemma distinct_only_row:
  assumes "distinct (map sv_id t)" and "r \<in> set t"
  shows "filter (\<lambda>x. sv_id x = sv_id r) t = [r]"
  using assms by (induction t) (auto simp: filter_empty_conv image_iff)

lemma observe_missing_view:
  assumes run: "observe_missing now s p = Inr p'"
    and r: "filter (\<lambda>r. sv_id r = s) (servers (fst p)) = [r]" "live s r"
    and del: "\<exists>r' \<in> set (servers (fst p')). sv_id r' = s \<and> sv_deleted_at r' \<noteq> None"
  shows "1 \<le> sv_missing_container_observations r \<and>
    \<not> (\<exists>x \<in> set (server_ports (fst p')). po_server_id x = s) \<and>
    (\<forall>x \<in> set (schedules (fst p')). sc_server_id x = s \<longrightarrow> \<not> sc_enabled x) \<and>
    \<not> (\<exists>e \<in> set (outbox (fst p')). open_event s e)"
proof -
  have found: "find (live s) (servers (fst p)) = Some r" using only_row_find [OF r] .
  have rows: "q = r" if "q \<in> set (servers (fst p))" "sv_id q = s" for q
    using that only_row [OF r(1)] by blast
  have count: "1 \<le> sv_missing_container_observations r"
  proof (rule ccontr)
    assume "\<not> ?thesis"
    with observe_missing_InrD [OF run] found
    have "servers (fst p') = upd (live s) one_more_observation (servers (fst p))" by simp
    with del obtain q where "q \<in> set (servers (fst p))" "sv_id q = s" "sv_deleted_at q \<noteq> None"
      by (auto simp: set_upd one_more_observation_def split: if_splits)
    with rows r(2) show False by (auto simp: live_def)
  qed
  from run count have "\<exists>p1 n. record_external_deletion now s n p1 = Inr p'"
    unfolding observe_missing_def found option.case Let_def exec_Cons_Inr exec_Nil
    by auto
  then obtain p1 n where "record_external_deletion now s n p1 = Inr p'" by blast
  note deletion = record_external_deletion_InrD [OF this]
  have "\<not> (\<exists>x \<in> set (server_ports (fst p')). po_server_id x = s)"
    unfolding deletion(4) by (simp add: set_del)
  moreover have "\<forall>x \<in> set (schedules (fst p')). sc_server_id x = s \<longrightarrow> \<not> sc_enabled x"
    unfolding deletion(2) set_upd by (simp add: ball_Un)
  moreover have "\<not> (\<exists>e \<in> set (outbox (fst p')). open_event s e)"
    unfolding deletion(3) set_upd by (simp add: open_event_def ball_Un)
  ultimately show ?thesis using count by blast
qed

text \<open>The snapshots write only the rows of the servers they report, and never delete one.\<close>

definition reported_rows :: "uuid set \<Rightarrow> server list \<Rightarrow> db \<Rightarrow> bool" where
  "reported_rows S t d \<longleftrightarrow> map sv_id (servers d) = map sv_id t \<and>
     (\<forall>r \<in> set (servers d). \<exists>q \<in> set t. sv_id r = sv_id q \<and> sv_deleted_at r = sv_deleted_at q \<and>
        (sv_id q \<notin> S \<longrightarrow> r = q))"

lemma reported_rows_update:
  assumes "s \<in> S" and "\<And>r. sv_id (f r) = sv_id r \<and> sv_deleted_at (f r) = sv_deleted_at r"
  shows "preserves (reported_rows S t) (update_servers (\<lambda>r. sv_id r = s) f)"
proof (rule preservesI)
  fix d d' assume rep: "reported_rows S t d" and "update_servers (\<lambda>r. sv_id r = s) f d = Inr d'"
  then have d': "servers d' = upd (\<lambda>r. sv_id r = s) f (servers d)" by (auto simp: update_stmt_defs)
  have ids: "map sv_id (servers d') = map sv_id (servers d)"
    unfolding d' by (rule map_upd) (simp add: assms(2))
  have "\<exists>q \<in> set t. sv_id r = sv_id q \<and> sv_deleted_at r = sv_deleted_at q \<and> (sv_id q \<notin> S \<longrightarrow> r = q)"
    if "r \<in> set (servers d')" for r
  proof -
    from that obtain x where x: "x \<in> set (servers d)" "r = (if sv_id x = s then f x else x)"
      unfolding d' set_upd by blast
    with rep obtain q where "q \<in> set t" "sv_id x = sv_id q \<and> sv_deleted_at x = sv_deleted_at q \<and>
        (sv_id q \<notin> S \<longrightarrow> x = q)" unfolding reported_rows_def by blast
    with x(2) assms show ?thesis by (intro bexI [of _ q]) auto
  qed
  with ids rep show "reported_rows S t d'" by (simp add: reported_rows_def)
qed

lemma reported_rows_frame: "frames servers c \<Longrightarrow> preserves (reported_rows S t) c"
  unfolding reported_rows_def by (rule preserves_frame)

lemma servers_frames [simp]:
  "frames servers (insert_activity r)" "frames servers (insert_outbox e)" "frames servers (snapshot_runtime snap)"
  "frames servers (snapshot_exit_event now snap b i)"
  by (auto simp: frames_def update_stmt_defs snapshot_runtime_def snapshot_exit_event_def insert_outbox_def
      constrain_def dest!: insert_activity_InrD split: if_splits)

lemma sync_snapshot_rows:
  assumes "st_server_id snap \<in> S"
  shows "preserves (\<lambda>p. reported_rows S t (fst p)) (sync_snapshot now snap)"
proof (rule preserves_by_sat)
  fix p :: "db \<times> uuid list" assume rep: "reported_rows S t (fst p)"
  have row: "preserves (reported_rows S t) (snapshot_server now snap st reason)" for st reason
    unfolding snapshot_server_def by (rule reported_rows_update [OF assms]) simp
  have plan: "preserves (\<lambda>p. reported_rows S t (fst p)) (plan_recovery now snap a w)" for a w
    unfolding plan_recovery_def Let_def
    by (intro preserves_by_sat sat_intros sat_exec)
      (simp_all add: preserves_lift preserves_with_id reported_rows_frame reported_rows_update [OF assms])
  show "sat (\<lambda>p. reported_rows S t (fst p)) (sync_snapshot now snap p)"
    unfolding sync_snapshot_def Let_def
    by (intro sat_intros sat_exec)
      (simp_all add: rep row plan preserves_lift preserves_with_id reported_rows_frame)
qed

lemma for_each_append: "for_each c (xs @ ys) s =
  (case for_each c xs s of Inl e \<Rightarrow> Inl e | Inr s' \<Rightarrow> for_each c ys s')"
  by (induction xs arbitrary: s) (auto split: sum.splits)

lemma observe_others:
  assumes "for_each (observe_missing now) ms q = Inr q'" and "s \<notin> set ms"
  shows "server_view s (fst q') = server_view s (fst q)"
  by (rule frames_for_each [OF observe_missing_other assms(1)]) (use assms(2) in auto)

lemma observe_one:
  assumes run: "for_each (observe_missing now) ms p = Inr p'" and "distinct ms" "s \<in> set ms"
  shows "\<exists>q q'. observe_missing now s q = Inr q' \<and> server_view s (fst q) = server_view s (fst p) \<and>
    server_view s (fst p') = server_view s (fst q')"
proof -
  from assms(2,3) obtain xs ys where ms: "ms = xs @ s # ys" "s \<notin> set xs" "s \<notin> set ys"
    by (metis distinct_append distinct.simps(2) in_set_conv_decomp not_distinct_conv_prefix split_list_first)
  from run ms(1) obtain q1 q2 where "for_each (observe_missing now) xs p = Inr q1"
    "observe_missing now s q1 = Inr q2" "for_each (observe_missing now) ys q2 = Inr p'"
    by (auto simp: for_each_append split: sum.splits)
  with observe_others ms show ?thesis by metis
qed

text \<open>The two phases of a reconciliation.\<close>

lemma SyncRuntimeStats_phases:
  assumes "SyncRuntimeStats now ids snapshots d = Inr d'"
  obtains p1 p2 where "for_each (sync_snapshot now) snapshots (d, ids) = Inr p1"
    and "for_each (observe_missing now) (missing_servers snapshots (fst p1)) p1 = Inr p2" and "d' = fst p2"
  using assms by (auto simp: SyncRuntimeStats_def state_of_Inr exec_Cons_Inr)

lemma snapshots_rows:
  assumes "for_each (sync_snapshot now) snapshots (d, ids) = Inr p1"
  shows "reported_rows (st_server_id ` set snapshots - {''''}) (servers d) (fst p1)"
proof -
  let ?S = "st_server_id ` set snapshots - {''''}"
  have "preserves (\<lambda>p. reported_rows ?S (servers d) (fst p)) (sync_snapshot now snap)" if "snap \<in> set snapshots" for snap
    using that sync_snapshot_rows [of snap ?S]
    by (cases "st_server_id snap = ''''") (auto simp: sync_snapshot_def preserves_def)
  from preserves_run [OF preserves_for_each [OF this] assms] show ?thesis
    by (simp add: reported_rows_def) blast
qed

text \<open>
  C6: a reconciliation records a server as deleted only when it has a container, is neither being
  installed nor deleted, is reported by no snapshot and was already missing once; its ports are
  then released, its schedules disabled and its open events closed, in the same transaction.
\<close>

theorem external_deletion:
  assumes ok: "db_ok d" and run: "SyncRuntimeStats now ids snapshots d = Inr d'"
    and r: "r \<in> set (servers d)" "live s r" "s \<noteq> ''''"
    and deleted: "\<exists>r' \<in> set (servers d'). sv_id r' = s \<and> sv_deleted_at r' \<noteq> None"
  shows "expects_container r \<and> s \<notin> st_server_id ` set snapshots \<and>
    1 \<le> sv_missing_container_observations r \<and>
    \<not> (\<exists>x \<in> set (server_ports d'). po_server_id x = s) \<and>
    (\<forall>x \<in> set (schedules d'). sc_server_id x = s \<longrightarrow> \<not> sc_enabled x) \<and>
    \<not> (\<exists>e \<in> set (outbox d'). open_event s e)"
proof -
  obtain p1 p2 where p1: "for_each (sync_snapshot now) snapshots (d, ids) = Inr p1"
    and p2: "for_each (observe_missing now) (missing_servers snapshots (fst p1)) p1 = Inr p2" "d' = fst p2"
    using run by (rule SyncRuntimeStats_phases)
  let ?S = "st_server_id ` set snapshots - {''''}" and ?ms = "missing_servers snapshots (fst p1)"
  have rows: "reported_rows ?S (servers d) (fst p1)" by (rule snapshots_rows [OF p1])
  have dist: "distinct (map sv_id (servers d))" by (rule db_ok_servers [OF ok])
  with rows have dist1: "distinct (map sv_id (servers (fst p1)))" by (simp add: reported_rows_def)
  have id: "sv_id r = s" using r(2) by (simp add: live_def)
  have alive: "sv_deleted_at x = None \<and> (s \<notin> ?S \<longrightarrow> x = r)"
    if "x \<in> set (servers (fst p1))" "sv_id x = s" for x
  proof -
    from rows that(1) obtain q where q: "q \<in> set (servers d)" "sv_id x = sv_id q"
      "sv_deleted_at x = sv_deleted_at q" "sv_id q \<notin> ?S \<longrightarrow> x = q"
      unfolding reported_rows_def by blast
    with that(2) id have "q = r" using distinct_key_eq [OF dist q(1) r(1)] by simp
    with q r(2) show ?thesis by (simp add: live_def)
  qed
  have mem: "s \<in> set ?ms"
  proof (rule ccontr)
    assume "s \<notin> set ?ms"
    from server_view_sets(1) [OF observe_others [OF p2(1) this]] p2(2)
    have eq: "{r \<in> set (servers d'). sv_id r = s} = {r \<in> set (servers (fst p1)). sv_id r = s}" by simp
    from deleted obtain x where x: "x \<in> {r \<in> set (servers d'). sv_id r = s}" "sv_deleted_at x \<noteq> None" by blast
    from x(1) have "x \<in> set (servers (fst p1))" "sv_id x = s" unfolding eq by simp_all
    from alive [OF this] x(2) show False by simp
  qed
  then obtain x where x: "x \<in> set (servers (fst p1))" "expects_container x" "sv_id x = s" "s \<notin> ?S"
    using r(3) by (auto simp: missing_servers_def)
  with alive have "x = r" by blast
  have "distinct ?ms" using dist1 by (simp add: missing_servers_def distinct_map_filter)
  from observe_one [OF p2(1) this mem] obtain q1 q2 where q: "observe_missing now s q1 = Inr q2"
    "server_view s (fst q1) = server_view s (fst p1)" "server_view s d' = server_view s (fst q2)"
    using p2(2) by blast
  have "filter (\<lambda>r. sv_id r = s) (servers (fst q1)) = [r]"
    using q(2) distinct_only_row [OF dist1 x(1)] x(3) \<open>x = r\<close> by (simp add: server_view_def)
  moreover note sets = server_view_sets [OF q(3)]
  have "\<exists>r' \<in> set (servers (fst q2)). sv_id r' = s \<and> sv_deleted_at r' \<noteq> None"
    using deleted sets(1) by blast
  ultimately have view: "1 \<le> sv_missing_container_observations r \<and>
    \<not> (\<exists>x \<in> set (server_ports (fst q2)). po_server_id x = s) \<and>
    (\<forall>x \<in> set (schedules (fst q2)). sc_server_id x = s \<longrightarrow> \<not> sc_enabled x) \<and>
    \<not> (\<exists>e \<in> set (outbox (fst q2)). open_event s e)"
    using observe_missing_view [OF q(1) _ r(2)] by blast
  with sets(2-4) x r(3) show ?thesis unfolding open_event_def \<open>x = r\<close> by blast
qed

definition missing_db :: db where
  "missing_db = sample_db\<lparr>servers :=
     [(sample_server ''s1'' ''running'' ''running'')\<lparr>sv_missing_container_observations := 1\<rparr>]\<rparr>"

lemma missing_db_ok: "db_ok missing_db"
  by (simp add: missing_db_def ok_defs check_defs) (simp add: sample_defs days_def)

lemma missing_servers_sample: "missing_servers [] missing_db = [''s1'']"
 by (simp add: missing_servers_def expects_container_def missing_db_def sample_server_def)
lemma missing_observation: "\<exists>d'. observe_missing noon ''s1'' (missing_db, [''e1'']) = Inr (d', []) \<and> 
     (\<exists>r \<in> set (servers d'). sv_id r = ''s1'' \<and> sv_deleted_at r \<noteq> None)"
proof -
  have "find (live ''s1'') (servers missing_db) = Some ((sample_server ''s1'' ''running'' ''running'')\<lparr>sv_missing_container_observations := 1\<rparr>)"
    by (simp add: missing_db_def live_def sample_server_def)
  then show ?thesis
    by (simp add: observe_missing_def record_external_deletion_def exec.simps with_id_def lift_stmt_def
        update_stmt_defs delete_stmt_defs)
      (simp add: exec.simps missing_db_def insert_activity_def constrain_def activity_row_def Let_def
        check_activity_def server_exists_opt_def server_exists_def sample_server_def
        dockside_enqueue_webhook_deliveries_def webhook_matches_def sample_destination_def live_def)
qed
lemma missing_reconciliation:
  "\<exists>d'. SyncRuntimeStats noon [''e1''] [] missing_db = Inr d' \<and>
     (\<exists>r \<in> set (servers d'). sv_id r = ''s1'' \<and> sv_deleted_at r \<noteq> None)"
proof -
  obtain d' where "observe_missing noon ''s1'' (missing_db, [''e1'']) = Inr (d', [])"
    "\<exists>r \<in> set (servers d'). sv_id r = ''s1'' \<and> sv_deleted_at r \<noteq> None" using missing_observation by blast
  then show ?thesis by (simp add: SyncRuntimeStats_def exec.simps missing_servers_sample state_of_def)
qed

theorem external_deletion_witness:
  "\<exists>d'. SyncRuntimeStats noon [''e1''] [] missing_db = Inr d' \<and>
     (\<forall>x \<in> set (schedules d'). sc_server_id x = ''s1'' \<longrightarrow> \<not> sc_enabled x)"
proof -
  let ?r = "(sample_server ''s1'' ''running'' ''running'')\<lparr>sv_missing_container_observations := 1\<rparr>"
  obtain d' where d': "SyncRuntimeStats noon [''e1''] [] missing_db = Inr d'"
    "\<exists>r \<in> set (servers d'). sv_id r = ''s1'' \<and> sv_deleted_at r \<noteq> None"
    using missing_reconciliation by blast
  moreover have "?r \<in> set (servers missing_db)" "live ''s1'' ?r"
    by (simp_all add: missing_db_def live_def sample_server_def)
  ultimately show ?thesis using external_deletion [OF missing_db_ok d'(1) _ _ _ d'(2)] by blast
qed

end
