(* ===== verification/Port_Properties.thy ===== *)
theory Port_Properties
  imports Provisioning Examples
begin

text \<open>
  The host ports of a new server: they are free, in the configured range and distinct, they are
  what the database stores, and the allocation fails only when the range cannot serve the request.
\<close>

section \<open>The ports of a created server\<close>

text \<open>The ports of the result carry the identifiers drawn for them.\<close>

lemma numbered:
  assumes "length ports \<le> length ids"
  shows "map pq_container_port (map2 (\<lambda>i p. p\<lparr>pq_id := i\<rparr>) ids ports) = map pq_container_port ports"
    and "map pq_protocol (map2 (\<lambda>i p. p\<lparr>pq_id := i\<rparr>) ids ports) = map pq_protocol ports"
    and "map (\<lambda>p. (pq_host_port p, pq_protocol p)) (map2 (\<lambda>i p. p\<lparr>pq_id := i\<rparr>) ids ports) =
      map (\<lambda>p. (pq_host_port p, pq_protocol p)) ports"
  using assms by (induction ports arbitrary: ids) (auto simp: Suc_le_length_iff)

lemma numbered_rows:
  "map (\<lambda>p. port_row (pq_id p) s p) (map2 (\<lambda>i p. p\<lparr>pq_id := i\<rparr>) ids ports) = map2 (\<lambda>i. port_row i s) ids ports"
  by (simp add: comp_def case_prod_unfold port_row_def)

text \<open>
  C7: a created server gets one host port per request, in their order and for their container port
  and protocol; the ports lie in the configured range, are distinct per protocol, were used by no
  server before, and are exactly the ones added to the database.
\<close>

theorem created_ports:
  assumes "CreateServer seal now s ids opn key ev act input d = Inr (res, d')"
  shows "map pq_container_port (cr_ports res) = map pq_container_port (cs_ports input) \<and>
    map pq_protocol (cr_ports res) = map pq_protocol (cs_ports input) \<and>
    distinct (map (\<lambda>p. (pq_host_port p, pq_protocol p)) (cr_ports res)) \<and>
    (\<forall>p \<in> set (cr_ports res). cs_game_port_start input \<le> pq_host_port p \<and>
       pq_host_port p \<le> cs_game_port_end input \<and> \<not> port_in_use (pq_protocol p) (pq_host_port p) d) \<and>
    server_ports d' = server_ports d @ map (\<lambda>p. port_row (pq_id p) s p) (cr_ports res)"
proof -
  from assms obtain inst ports p' where alloc: "allocate_ports (cs_game_port_start input)
      (cs_game_port_end input) d [] (cs_ports input) = Inr ports"
    and body: "create_server_body seal now s opn key ev act inst input ports (d, ids) = Inr p'" "d' = fst p'"
    and res: "cr_ports res = map2 (\<lambda>i p. p\<lparr>pq_id := i\<rparr>) ids ports"
    by (auto simp: CreateServer_def state_of_Inr split: list.splits if_splits sum.splits)
  from create_server_body_ports [OF body(1)] have len: "length ports \<le> length ids"
    and stored: "server_ports d' = server_ports d @ map2 (\<lambda>i. port_row i s) ids ports"
    by (simp_all add: body(2))
  from allocate_ports_InrD [OF alloc] have free: "ports_free (cs_game_port_start input) (cs_game_port_end input) d ports"
    and same: "map pq_container_port ports = map pq_container_port (cs_ports input)"
      "map pq_protocol ports = map pq_protocol (cs_ports input)"
    by (simp_all add: ports_free_def)
  show ?thesis
    unfolding res numbered [OF len] numbered_rows
    using free same stored by (auto simp: ports_free_def dest!: set_zip_rightD)
qed

theorem created_ports_witness:
  "\<exists>res d'. CreateServer None noon ''s2'' [''p1'', ''p2''] ''op'' ''k'' ''ev'' ''ac'' sample_params sample_db = Inr (res, d') \<and>
     map pq_container_port (cr_ports res) = [25566, 80] \<and>
     server_ports d' = map (\<lambda>p. port_row (pq_id p) ''s2'' p) (cr_ports res)"
proof -
  obtain res d' where run: "CreateServer None noon ''s2'' [''p1'', ''p2''] ''op'' ''k'' ''ev'' ''ac''
      sample_params sample_db = Inr (res, d')" using sample_creation [of sample_db] by blast
  have "map pq_container_port (cs_ports sample_params) = [25566, 80]"
    by (simp add: sample_params_def sample_request_def)
  with created_ports [OF run] show ?thesis using run by auto
qed

section \<open>When the allocation succeeds\<close>

definition free_ports :: "int \<Rightarrow> int \<Rightarrow> string \<Rightarrow> db \<Rightarrow> int set" where
  "free_ports a b protocol d = {c \<in> {a..b}. \<not> port_in_use protocol c d}"

definition asked :: "string \<Rightarrow> port_request list \<Rightarrow> nat" where
  "asked protocol rs = length (filter (\<lambda>r. pq_protocol r = protocol) rs)"

text \<open>The range has a port left for every request of each protocol.\<close>

definition range_suffices :: "int \<Rightarrow> int \<Rightarrow> db \<Rightarrow> port_request list \<Rightarrow> bool" where
  "range_suffices a b d rs \<longleftrightarrow> set (map pq_protocol rs) \<subseteq> {''tcp'', ''udp''} \<and>
     asked ''tcp'' rs \<le> card (free_ports a b ''tcp'' d) \<and>
     asked ''udp'' rs \<le> card (free_ports a b ''udp'' d)"

lemma free_ports_finite: "finite (free_ports a b p d)"
  by (rule finite_subset [of _ "{a..b}"]) (auto simp: free_ports_def)

lemma allocation_possible:
  assumes "set (map pq_protocol rs) \<subseteq> {''tcp'', ''udp''}"
    and "\<And>p. p \<in> {''tcp'', ''udp''} \<Longrightarrow> asked p allocated + asked p rs \<le> card (free_ports a b p d)"
  shows "\<exists>ports. allocate_ports a b d allocated rs = Inr ports"
  using assms
proof (induction rs arbitrary: allocated)
  case Nil
  then show ?case by simp
next
  case (Cons r rs)
  let ?p = "pq_protocol r"
  have p: "?p \<in> {''tcp'', ''udp''}" using Cons.prems(1) by auto
  have used: "card (set (usedByProtocol ?p allocated)) \<le> asked ?p allocated"
    unfolding usedByProtocol_def asked_def by (metis card_length length_map)
  have "asked ?p allocated < card (free_ports a b ?p d)"
    using Cons.prems(2) [OF p] by (simp add: asked_def)
  with used have "\<not> free_ports a b ?p d \<subseteq> set (usedByProtocol ?p allocated)"
    using card_mono [of "set (usedByProtocol ?p allocated)" "free_ports a b ?p d"] by fastforce
  then have "allocate_host_port a b allocated r d \<noteq> None"
    unfolding allocate_host_port_None using p by (auto simp: free_ports_def)
  then obtain h where h: "allocate_host_port a b allocated r d = Some h" by blast
  let ?q = "r\<lparr>pq_host_port := h, pq_bind_address := ''0.0.0.0''\<rparr>"
  have "asked p (allocated @ [?q]) + asked p rs = asked p allocated + asked p (r # rs)" for p
    by (simp add: asked_def)
  with Cons.prems have "\<exists>ports. allocate_ports a b d (allocated @ [?q]) rs = Inr ports"
    by (intro Cons.IH) auto
  with h show ?case by simp
qed

lemma asked_le_free:
  assumes "ports_free a b d ports"
  shows "asked p ports \<le> card (free_ports a b p d)"
proof -
  let ?own = "filter (\<lambda>r. pq_protocol r = p) ports"
  have "distinct (map (\<lambda>r. (pq_host_port r, pq_protocol r)) ?own)"
    using assms by (simp add: ports_free_def distinct_map_filter)
  then have "distinct (map pq_host_port ?own)" by (auto simp: distinct_map inj_on_def)
  then have "asked p ports = card (set (map pq_host_port ?own))"
    using distinct_card [of "map pq_host_port ?own"] by (simp add: asked_def)
  also have "\<dots> \<le> card (free_ports a b p d)"
    using assms by (intro card_mono free_ports_finite) (auto simp: ports_free_def free_ports_def)
  finally show ?thesis .
qed

lemma asked_map: "asked p xs = length (filter (\<lambda>q. q = p) (map pq_protocol xs))"
  by (induction xs) (simp_all add: asked_def)

lemma asked_protocols: "map pq_protocol xs = map pq_protocol ys \<Longrightarrow> asked p xs = asked p ys"
  unfolding asked_map by simp

text \<open>
  C8: the greedy allocation is complete: it serves a request exactly when every protocol is tcp or
  udp and the range has as many free ports of each protocol as the request asks for, so a request
  is refused only when no assignment of ports could serve it.
\<close>

theorem allocation_complete:
  "(\<exists>ports. allocate_ports a b d [] rs = Inr ports) \<longleftrightarrow> range_suffices a b d rs"
proof
  assume "range_suffices a b d rs"
  then show "\<exists>ports. allocate_ports a b d [] rs = Inr ports"
    by (intro allocation_possible) (auto simp: range_suffices_def asked_def)
next
  assume "\<exists>ports. allocate_ports a b d [] rs = Inr ports"
  then obtain ports where "allocate_ports a b d [] rs = Inr ports" ..
  from allocate_ports_InrD [OF this] have free: "ports_free a b d ports"
    and same: "map pq_protocol ports = map pq_protocol rs" by (simp_all add: ports_free_def)
  have "set (map pq_protocol ports) \<subseteq> {''tcp'', ''udp''}" using free by (auto simp: ports_free_def)
  with same asked_le_free [OF free] asked_protocols [OF same] show "range_suffices a b d rs"
    by (simp add: range_suffices_def)
qed

end
