(* ===== verification/Backup_Properties.thy ===== *)
theory Backup_Properties
  imports Backups Template_Updates Examples
begin

text \<open>
  What the life of a backup guarantees: backups, restores and template updates of one server
  exclude each other, a locked backup survives everything but its unlocking, a deletion that is
  given up leaves no trace, and only finished backups are delivered, restored or deleted.
\<close>

section \<open>Maintenance excludes maintenance\<close>

text \<open>An accepted request for a backup, a restore or a template update of a server.\<close>

inductive maintenance :: "uuid \<Rightarrow> db \<Rightarrow> db \<Rightarrow> bool" where
  backup: "CreateBackup now b ob ev ids s actor name inc exc rd d = Inr (bk, d') \<Longrightarrow> maintenance s d d'"
| restore: "QueueBackupRestore now opn ob ac key s b actor d = Inr (opid, d') \<Longrightarrow> maintenance s d d'"
| template_update: "QueueTemplateUpdate now stamp opn b ob ac key s actor tv mode d = Inr (tj, d') \<Longrightarrow>
    maintenance s d d'"

definition backup_active :: "uuid \<Rightarrow> db \<Rightarrow> bool" where
  "backup_active s d \<longleftrightarrow> (\<exists>b \<in> set (backups d). active_backup s b)"

definition operation_open :: "uuid \<Rightarrow> db \<Rightarrow> bool" where
  "operation_open s d \<longleftrightarrow> (\<exists>r \<in> set (operations d). active_operation s r)"

lemma server_busy_iff: "server_busy s d \<longleftrightarrow> backup_active s d \<or> operation_open s d"
  by (simp add: server_busy_def backup_active_def operation_open_def)

lemma busy_kept [simp]:
  "preserves (backup_active s) (insert_operation r1)" "preserves (backup_active s) (insert_outbox r2)"
  "preserves (backup_active s) (insert_activity r3)" "preserves (backup_active s) (insert_backup_delivery r4)"
  "preserves (backup_active s) (stop_for_maintenance now s')"
  "preserves (operation_open s) (insert_outbox r2)" "preserves (operation_open s) (insert_activity r3)"
  "preserves (operation_open s) (stop_for_maintenance now s')"
  by (auto simp: preserves_def sat_def insert_stmt_defs insert_activity_def constrain_def Let_def
      stop_for_maintenance_def update_stmt_defs backup_active_def operation_open_def)

text \<open>The first statement of a list establishes what the others keep.\<close>

lemma exec_establishes:
  assumes "exec (c # cs) d = Inr d'" and "\<And>d1. c d = Inr d1 \<Longrightarrow> i d1" and "list_all (preserves i) cs"
  shows "i d'"
proof -
  from assms(1) obtain d1 where d1: "c d = Inr d1" "exec cs d1 = Inr d'" by (auto simp: exec_Cons_Inr)
  show ?thesis by (rule preserves_run [OF preserves_exec [OF assms(3)] d1(2) assms(2) [OF d1(1)]])
qed

lemma queued_active: "insert_backup (queued_backup b now s name inc exc rd actor) d = Inr d1 \<Longrightarrow> backup_active s d1"
  by (auto simp: insert_backup_def constrain_def backup_active_def active_backup_def queued_backup_def
      split: if_splits)

lemma pending_open: "insert_operation (operation_row opn now s actor kind key msg) d = Inr d1 \<Longrightarrow> operation_open s d1"
  by (auto simp: insert_operation_def constrain_def operation_open_def active_operation_def operation_row_def
      split: if_splits)

lemma CreateBackup_busy:
  assumes run: "CreateBackup now b ob ev ids s actor name inc exc rd d = Inr (bk, d')"
  shows "\<not> server_busy s d \<and> server_busy s d'"
proof -
  let ?q = "\<lambda>p. backup_active s (fst p)"
  let ?b = "queued_backup b now s name inc exc rd actor"
  let ?loop = "\<lambda>p. for_each (\<lambda>w. with_id (\<lambda>i. insert_backup_delivery (pending_delivery i now b (wh_id w))))
      (backup_destinations s (fst p)) p"
  from run have free: "\<not> server_busy s d" by (auto simp: CreateBackup_def split: if_splits)
  from run obtain p' where body: "exec [lift_stmt (insert_backup ?b), ?loop,
      lift_stmt (insert_outbox (outbox_row ob now ''backup.create'' b (JObj [(''backup_id'', JStr b)]))),
      lift_stmt (insert_activity (activity_row ev now (Some s) (Some actor) ''server.backup.queued''
        ''info'' ''Backup queued'' (JObj [(''backup_id'', JStr b), (''name'', JStr name)])))]
      (d, ids) = Inr p'" and d': "d' = fst p'"
    by (auto simp: CreateBackup_def Let_def state_of_Inr split: if_splits)
  have loop: "preserves ?q ?loop"
    by (rule preserves_dependent [where c = "\<lambda>p. for_each (\<lambda>w. with_id (\<lambda>i.
          insert_backup_delivery (pending_delivery i now b (wh_id w)))) (backup_destinations s (fst p))"])
      (intro preserves_for_each preserves_with_id busy_kept)
  have first: "?q p1" if "lift_stmt (insert_backup ?b) (d, ids) = Inr p1" for p1
  proof -
    from that obtain d1 where "insert_backup ?b d = Inr d1" "p1 = (d1, ids)"
      by (cases "insert_backup ?b d") (simp_all add: lift_stmt_def)
    then show ?thesis using queued_active by simp
  qed
  have "?q p'" by (rule exec_establishes [OF body first]) (simp_all add: loop preserves_lift)
  with free d' show ?thesis by (simp add: server_busy_iff)
qed

lemma QueueBackupRestore_busy:
  assumes run: "QueueBackupRestore now opn ob ac key s b actor d = Inr (opid, d')"
  shows "\<not> server_busy s d \<and> server_busy s d'"
proof -
  from run obtain bk sv where found: "find (restorable s b) (backups d) = Some bk"
      "find (live s) (servers d) = Some sv" and free: "\<not> server_busy s d"
    by (auto simp: QueueBackupRestore_def split: option.splits if_splits)
  from run have "operation_open s d'"
    unfolding QueueBackupRestore_def found option.case prod.case if_not_P [OF free] Let_def ret_Inr
    by (elim conjE exec_establishes) (simp_all add: pending_open)
  with free show ?thesis by (simp add: server_busy_iff)
qed

lemma QueueTemplateUpdate_busy:
  assumes run: "QueueTemplateUpdate now stamp opn b ob ac key s actor tv mode d = Inr (tj, d')"
  shows "\<not> server_busy s d \<and> server_busy s d'"
proof -
  from run obtain sv current target where found: "update_versions s tv d = Some (sv, current, target)"
    and mode: "\<not> (mode \<noteq> ''rebase'' \<and> mode \<noteq> ''reinstall'')"
    and newer: "\<not> tv_version target \<le> tv_version current" and free: "\<not> server_busy s d"
    by (auto simp: QueueTemplateUpdate_def split: option.splits if_splits)
  from run have "backup_active s d'"
    unfolding QueueTemplateUpdate_def found option.case prod.case if_not_P [OF free] if_not_P [OF newer]
      if_not_P [OF mode] Let_def ret_Inr
    by (elim conjE exec_establishes) (simp_all add: pre_update_backup_def queued_active)
  with free show ?thesis by (simp add: server_busy_iff)
qed

lemma maintenance_busy: "maintenance s d d' \<Longrightarrow> \<not> server_busy s d \<and> server_busy s d'"
proof (erule maintenance.cases, goal_cases)
  case 1
  then show ?case using CreateBackup_busy by simp
next
  case 2
  then show ?case using QueueBackupRestore_busy by simp
next
  case 3
  then show ?case using QueueTemplateUpdate_busy by simp
qed

text \<open>
  C9: a backup, a restore or a template update of a server is accepted only while none of them (and
  no other operation of the server) is active, and leaves the server busy, so that no second one is
  accepted before the first has ended.
\<close>

theorem maintenance_exclusive:
  assumes "maintenance s d d'"
  shows "\<not> server_busy s d \<and> server_busy s d' \<and> \<not> (\<exists>d''. maintenance s d' d'')"
  using assms maintenance_busy [of s d d'] maintenance_busy [of s d'] by blast

lemma sample_backup_request:
  "\<exists>bk d'. CreateBackup noon ''b2'' ''ob'' ''ev'' [''de''] ''s1'' ''u1'' ''name'' [] [] None sample_db = Inr (bk, d')"
  by (simp add: CreateBackup_def live_def sample_server_def server_busy_def sample_backup_def queued_backup_def
      active_backup_def Let_def state_of_def exec.simps stmt_apply insert_backup_def constrain_def
      check_backup_def server_exists_def backup_destinations_def sample_destination_def order_by_def
      insert_backup_delivery_def pending_delivery_def check_backup_delivery_def insert_outbox_def
      insert_activity_def activity_row_def check_activity_def server_exists_opt_def
      dockside_enqueue_webhook_deliveries_def webhook_matches_def)

theorem maintenance_exclusive_witness:
  "\<exists>d'. maintenance ''s1'' sample_db d' \<and> server_busy ''s1'' d' \<and> \<not> (\<exists>d''. maintenance ''s1'' d' d'')"
proof -
  obtain bk d' where "CreateBackup noon ''b2'' ''ob'' ''ev'' [''de''] ''s1'' ''u1'' ''name'' [] [] None
      sample_db = Inr (bk, d')" using sample_backup_request by blast
  then have "maintenance ''s1'' sample_db d'" by (rule maintenance.backup)
  with maintenance_exclusive [OF this] show ?thesis by blast
qed

section \<open>Locked backups\<close>

text \<open>
  One operation on the backups, other than unlocking the backup \<open>i\<close>.
\<close>

inductive backup_step :: "uuid \<Rightarrow> db \<Rightarrow> db \<Rightarrow> bool" for i where
  create: "CreateBackup now b ob ev ids s actor name inc exc rd d = Inr (bk, d') \<Longrightarrow> backup_step i d d'"
| update: "QueueTemplateUpdate now stamp opn b ob ac key s actor tv mode d = Inr (tj, d') \<Longrightarrow> backup_step i d d'"
| running: "MarkBackupRunning b d = Inr d' \<Longrightarrow> backup_step i d d'"
| succeeded: "MarkBackupSucceeded now ev obs bj br d = Inr d' \<Longrightarrow> backup_step i d d'"
| failed: "MarkBackupFailed now ev bj e d = Inr d' \<Longrightarrow> backup_step i d d'"
| queue_restore: "QueueBackupRestore now opn ob ac key s b actor d = Inr (opid, d') \<Longrightarrow> backup_step i d d'"
| restore_running: "MarkBackupRestoreRunning now rj n msg d = Inr d' \<Longrightarrow> backup_step i d d'"
| finish_restore: "FinishBackupRestore sn now ev rj err d = Inr d' \<Longrightarrow> backup_step i d d'"
| begin_delivery: "BeginBackupDelivery now di d = (r, d') \<Longrightarrow> backup_step i d d'"
| finish_delivery: "FinishBackupDelivery sn now ev di st rs err d = Inr d' \<Longrightarrow> backup_step i d d'"
| retry_delivery: "RetryBackupDelivery now ob ev s b di actor d = Inr d' \<Longrightarrow> backup_step i d d'"
| begin_deletion: "BeginBackupDeletion s b d = Inr (prev, d') \<Longrightarrow> backup_step i d d'"
| cancel_deletion: "CancelBackupDeletion s b prev d = Inr d' \<Longrightarrow> backup_step i d d'"
| delete_record: "DeleteBackupRecord now ev s b actor d = Inr d' \<Longrightarrow> backup_step i d d'"
| lock: "l \<or> b \<noteq> i \<Longrightarrow> SetBackupLocked now ev s b actor l d = Inr d' \<Longrightarrow> backup_step i d d'"

text \<open>No locked backup is being deleted, and the backup \<open>i\<close> is there and locked.\<close>

definition deleting_unlocked :: "db \<Rightarrow> bool" where
  "deleting_unlocked d \<longleftrightarrow> (\<forall>b \<in> set (backups d). bk_status b = ''deleting'' \<longrightarrow> \<not> bk_locked b)"

definition protected :: "uuid \<Rightarrow> db \<Rightarrow> bool" where
  "protected i d \<longleftrightarrow> deleting_unlocked d \<and> (\<exists>b \<in> set (backups d). bk_id b = i \<and> bk_locked b)"

lemma protected_frame: "frames backups c \<Longrightarrow> preserves (protected i) c"
  unfolding protected_def deleting_unlocked_def by (auto simp: frames_def preserves_def sat_def)

lemma backups_frames [simp]:
  "frames backups (insert_operation r1)" "frames backups (insert_outbox r2)"
  "frames backups (insert_activity r3)" "frames backups (insert_backup_delivery r4)"
  "frames backups (stop_for_maintenance now s')" "frames backups (update_operations p1 f1)"
  "frames backups (update_servers p2 f2)" "frames backups (update_backup_deliveries p3 f3)"
  "frames backups (require b e)"
  by (auto simp: frames_def insert_stmt_defs insert_activity_def constrain_def Let_def
      stop_for_maintenance_def update_stmt_defs require_def split: if_splits)

lemma protected_insert: "preserves (protected i) (insert_backup (queued_backup b now s name inc exc rd actor))"
  by (auto simp: preserves_def sat_def insert_backup_def constrain_def protected_def deleting_unlocked_def
      queued_backup_def)

lemma protected_update:
  assumes "\<And>b. p b \<Longrightarrow> bk_id (f b) = bk_id b \<and> (bk_id b = i \<longrightarrow> bk_locked b \<longrightarrow> bk_locked (f b)) \<and>
      (bk_status (f b) = ''deleting'' \<longrightarrow> \<not> bk_locked (f b))"
  shows "preserves (protected i) (update_backups p f)"
proof (rule preservesI)
  fix d d' assume inv: "protected i d" and "update_backups p f d = Inr d'"
  then have d': "backups d' = upd p f (backups d)" by (auto simp: update_stmt_defs)
  from inv obtain b where b: "b \<in> set (backups d)" "bk_id b = i" "bk_locked b" by (auto simp: protected_def)
  have "(if p b then f b else b) \<in> set (backups d')" unfolding d' set_upd using b(1) by blast
  moreover have "bk_id (if p b then f b else b) = i \<and> bk_locked (if p b then f b else b)"
    using assms [of b] b(2,3) by simp
  moreover have "deleting_unlocked d'"
    using inv assms by (auto simp: protected_def deleting_unlocked_def d' set_upd)
  ultimately show "protected i d'" unfolding protected_def by blast
qed

lemma protected_delete:
  assumes "\<And>b. p b \<Longrightarrow> bk_status b = ''deleting''"
  shows "preserves (protected i) (delete_backups p)"
  using assms by (fastforce simp: preserves_def sat_def delete_stmt_defs protected_def deleting_unlocked_def set_del)

lemmas protected_rules = protected_frame protected_insert protected_update protected_delete
  preserves_lift preserves_with_id

lemma CreateBackup_protected: "preserves_op (protected i) (CreateBackup now b ob ev ids s actor name inc exc rd)"
proof (rule preserves_opI)
  fix d assume inv: "protected i d"
  have loop: "preserves (\<lambda>p. protected i (fst p)) (\<lambda>p. for_each (\<lambda>w. with_id (\<lambda>i.
      insert_backup_delivery (pending_delivery i now b (wh_id w)))) (backup_destinations s (fst p)) p)"
    by (rule preserves_dependent [where c = "\<lambda>p. for_each (\<lambda>w. with_id (\<lambda>i.
          insert_backup_delivery (pending_delivery i now b (wh_id w)))) (backup_destinations s (fst p))"])
      (simp add: preserves_for_each protected_rules)
  show "sat (\<lambda>v. protected i (snd v)) (CreateBackup now b ob ev ids s actor name inc exc rd d)"
    unfolding CreateBackup_def Let_def
    by (intro sat_intros) (simp_all add: sat_exec inv loop protected_rules)
qed

lemma QueueTemplateUpdate_protected:
  "preserves_op (protected i) (QueueTemplateUpdate now stamp opn b ob ac key s actor tv mode)"
  unfolding QueueTemplateUpdate_def Let_def pre_update_backup_def
  by (rule preserves_opI, intro sat_intros) (simp_all add: sat_exec protected_rules)

lemma MarkBackup_protected:
  "preserves (protected i) (MarkBackupRunning b)"
  "preserves (protected i) (MarkBackupSucceeded now ev obs bj br)"
  "preserves (protected i) (MarkBackupFailed now ev bj e)"
proof -
  show "preserves (protected i) (MarkBackupRunning b)"
    unfolding MarkBackupRunning_def by (rule protected_update) simp
  show "preserves (protected i) (MarkBackupSucceeded now ev obs bj br)"
    unfolding MarkBackupSucceeded_def Let_def
    by (rule preserves_by_sat) (simp add: sat_exec preserves_for_each protected_rules)
  show "preserves (protected i) (MarkBackupFailed now ev bj e)"
    unfolding MarkBackupFailed_def by (rule preserves_exec) (simp add: protected_rules)
qed

lemma restore_protected:
  "preserves_op (protected i) (QueueBackupRestore now opn ob ac key s b actor)"
  "preserves (protected i) (MarkBackupRestoreRunning now rj n msg)"
  "preserves (protected i) (FinishBackupRestore sn now ev rj err)"
proof -
  show "preserves_op (protected i) (QueueBackupRestore now opn ob ac key s b actor)"
    unfolding QueueBackupRestore_def Let_def
    by (rule preserves_opI, intro sat_intros) (simp_all add: sat_exec protected_rules)
  show "preserves (protected i) (MarkBackupRestoreRunning now rj n msg)"
    unfolding MarkBackupRestoreRunning_def by (simp add: protected_rules)
  show "preserves (protected i) (FinishBackupRestore sn now ev rj err)"
    unfolding FinishBackupRestore_def Let_def by (rule preserves_exec) (simp add: protected_rules)
qed

lemma delivery_protected:
  "protected i d \<Longrightarrow> protected i (snd (BeginBackupDelivery now di d))"
  "preserves (protected i) (FinishBackupDelivery sn now ev di st rs err)"
  "preserves (protected i) (RetryBackupDelivery now ob ev s b di actor)"
proof -
  show "protected i d \<Longrightarrow> protected i (snd (BeginBackupDelivery now di d))"
    by (auto simp: BeginBackupDelivery_def Let_def protected_def deleting_unlocked_def split: option.splits)
  show "preserves (protected i) (FinishBackupDelivery sn now ev di st rs err)"
    unfolding FinishBackupDelivery_def Let_def
    by (rule preserves_by_sat, intro sat_intros) (simp_all add: sat_exec protected_rules)
  show "preserves (protected i) (RetryBackupDelivery now ob ev s b di actor)"
    unfolding RetryBackupDelivery_def Let_def
    by (rule preserves_by_sat, intro sat_intros) (simp_all add: sat_exec protected_rules)
qed

lemma deletion_protected:
  "preserves_op (protected i) (BeginBackupDeletion s b)"
  "preserves (protected i) (CancelBackupDeletion s b prev)"
  "preserves (protected i) (DeleteBackupRecord now ev s b actor)"
  "l \<or> b \<noteq> i \<Longrightarrow> preserves (protected i) (SetBackupLocked now ev s b actor l)"
proof -
  have "preserves (protected i) (update_backups (deletable s b) (\<lambda>b. b\<lparr>bk_status := ''deleting''\<rparr>))"
    by (rule protected_update) (simp add: deletable_def)
  then show "preserves_op (protected i) (BeginBackupDeletion s b)"
    unfolding BeginBackupDeletion_def by (intro preserves_opI sat_intros) (auto simp: preserves_def)
  show "preserves (protected i) (CancelBackupDeletion s b prev)"
    unfolding CancelBackupDeletion_def Let_def by (rule protected_update) auto
  show "preserves (protected i) (DeleteBackupRecord now ev s b actor)"
  proof -
    have "preserves (protected i) (delete_backups (being_deleted s b))"
      by (rule protected_delete) (simp add: being_deleted_def)
    then show ?thesis
      unfolding DeleteBackupRecord_def by (intro preserves_exec) (simp add: protected_rules)
  qed
  show "preserves (protected i) (SetBackupLocked now ev s b actor l)" if "l \<or> b \<noteq> i"
    unfolding SetBackupLocked_def Let_def
    by (rule preserves_exec) (use that in \<open>auto simp: finished_backup_def intro!: protected_rules\<close>)
qed

lemma backup_step_protected: "protected i d \<Longrightarrow> backup_step i d d' \<Longrightarrow> protected i d'"
proof (erule backup_step.cases, goal_cases)
  case (9 now di d r d')
  then show ?case using delivery_protected(1) [of i d now di] by simp
next
  case (15 l b now ev s actor d d')
  then show ?case using preserves_run [OF deletion_protected(4)] by blast
qed (auto dest: preserves_opD [OF CreateBackup_protected] preserves_opD [OF QueueTemplateUpdate_protected]
      preserves_opD [OF restore_protected(1)] preserves_opD [OF deletion_protected(1)]
      preservesD [OF MarkBackup_protected(1)] preservesD [OF MarkBackup_protected(2)]
      preservesD [OF MarkBackup_protected(3)] preservesD [OF restore_protected(2)]
      preservesD [OF restore_protected(3)] preservesD [OF delivery_protected(2)]
      preservesD [OF delivery_protected(3)] preservesD [OF deletion_protected(2)]
      preservesD [OF deletion_protected(3)])

interpretation locked: inductive_invariant "protected i" "backup_step i" "protected i" for i
  by unfold_locales (auto intro: backup_step_protected)

text \<open>
  C10: a locked backup survives: whatever sequence of backup, restore, delivery, retention and
  deletion operations runs, its record is still there and locked, and not being deleted, as long as
  nobody unlocks it.
\<close>

theorem locked_backup_survives:
  assumes "deleting_unlocked d" and "b \<in> set (backups d)" "bk_locked b"
    and "(backup_step (bk_id b))\<^sup>*\<^sup>* d d'"
  shows "\<exists>b' \<in> set (backups d'). bk_id b' = bk_id b \<and> bk_locked b' \<and> bk_status b' \<noteq> ''deleting''"
proof -
  from assms(1-3) have "protected (bk_id b) d" by (auto simp: protected_def)
  with assms(4) have "protected (bk_id b) d'" by (rule locked.steps_inv)
  then show ?thesis by (auto simp: protected_def deleting_unlocked_def)
qed

definition locked_db :: db where
  "locked_db = sample_db\<lparr>backups :=
     [(sample_backup ''b1'' ''succeeded'')\<lparr>bk_locked := True\<rparr>, sample_backup ''b2'' ''failed'']\<rparr>"

theorem locked_backup_survives_witness:
  "\<exists>d'. BeginBackupDeletion ''s1'' ''b2'' locked_db = Inr (''failed'', d') \<and>
     BeginBackupDeletion ''s1'' ''b1'' locked_db = Inl ErrConflict \<and>
     (\<exists>b' \<in> set (backups d'). bk_id b' = ''b1'' \<and> bk_locked b' \<and> bk_status b' \<noteq> ''deleting'')"
proof -
  let ?b = "(sample_backup ''b1'' ''succeeded'')\<lparr>bk_locked := True\<rparr>"
  have b: "?b \<in> set (backups locked_db)" "bk_locked ?b" "bk_id ?b = ''b1''"
    by (simp_all add: locked_db_def sample_backup_def queued_backup_def)
  have inv: "deleting_unlocked locked_db"
    by (simp add: deleting_unlocked_def locked_db_def sample_backup_def queued_backup_def)
  have refused: "BeginBackupDeletion ''s1'' ''b1'' locked_db = Inl ErrConflict"
    by (simp add: BeginBackupDeletion_def locked_db_def deletable_def sample_backup_def queued_backup_def)
  have "\<exists>d'. BeginBackupDeletion ''s1'' ''b2'' locked_db = Inr (''failed'', d')"
    by (simp add: BeginBackupDeletion_def locked_db_def deletable_def sample_backup_def queued_backup_def
        finished_backup_def update_stmt_defs)
  then obtain d' where d': "BeginBackupDeletion ''s1'' ''b2'' locked_db = Inr (''failed'', d')" ..
  then have "(backup_step ''b1'')\<^sup>*\<^sup>* locked_db d'" by (blast intro: backup_step.begin_deletion)
  with locked_backup_survives [OF inv b(1,2)] b(3) d' refused show ?thesis by auto
qed

section \<open>Giving up a deletion\<close>

text \<open>The status a cancelled deletion leaves: whether an archive is recorded for the backup.\<close>

definition recorded_status :: "backup \<Rightarrow> string" where
  "recorded_status b = (if bk_object_key b = None then ''failed'' else ''succeeded'')"

text \<open>
  C11: a deletion that is begun and then cancelled, because the archive could not be removed, leaves
  everything as it was but for the backup's status, which becomes succeeded when an archive is
  recorded for the backup and failed otherwise.  So the database is exactly the one from before the
  deletion precisely when the status agreed with the archive; it does not after a success that was
  followed by a recorded failure (\<open>MarkBackupFailed\<close>).
\<close>

theorem cancelled_deletion_restores:
  assumes ok: "db_ok d" and b: "b \<in> set (backups d)"
    and run: "BeginBackupDeletion (bk_server_id b) (bk_id b) d = Inr (prev, d1)"
  shows "\<exists>d2. CancelBackupDeletion (bk_server_id b) (bk_id b) prev d1 = Inr d2 \<and>
    d2 = d\<lparr>backups := map (\<lambda>x. if bk_id x = bk_id b then x\<lparr>bk_status := recorded_status x\<rparr> else x) (backups d)\<rparr> \<and>
    (d2 = d \<longleftrightarrow> bk_status b = recorded_status b)"
proof -
  let ?p = "deletable (bk_server_id b) (bk_id b)"
  let ?restored = "map (\<lambda>x. if bk_id x = bk_id b then x\<lparr>bk_status := recorded_status x\<rparr> else x) (backups d)"
  have dist: "distinct (map bk_id (backups d))" using ok by (simp add: ok_defs)
  have only: "x = b" if "x \<in> set (backups d)" "bk_id x = bk_id b" for x
    using distinct_key_eq [OF dist that(1) b that(2)] .
  from run obtain y where y: "find ?p (backups d) = Some y" and prev: "prev = recorded_status y"
    and d1: "d1 = d\<lparr>backups := upd ?p (\<lambda>b. b\<lparr>bk_status := ''deleting''\<rparr>) (backups d)\<rparr>"
    by (auto simp: BeginBackupDeletion_def recorded_status_def update_stmt_defs split: option.splits)
  have "y = b" using find_SomeD [OF y] by (intro only) (auto simp: deletable_def)
  have "?p b" using find_SomeD [OF y] \<open>y = b\<close> by simp
  have rows: "upd (\<lambda>x. bk_id x = bk_id b \<and> bk_server_id x = bk_server_id b \<and> bk_status x = ''deleting'')
      (\<lambda>x. x\<lparr>bk_status := prev\<rparr>) (upd ?p (\<lambda>b. b\<lparr>bk_status := ''deleting''\<rparr>) (backups d)) = ?restored"
    unfolding upd_def map_map
  proof (rule map_cong [OF refl])
    fix x assume x: "x \<in> set (backups d)"
    show "((\<lambda>r. if bk_id r = bk_id b \<and> bk_server_id r = bk_server_id b \<and> bk_status r = ''deleting''
        then r\<lparr>bk_status := prev\<rparr> else r) \<circ> (\<lambda>r. if ?p r then r\<lparr>bk_status := ''deleting''\<rparr> else r)) x =
        (if bk_id x = bk_id b then x\<lparr>bk_status := recorded_status x\<rparr> else x)"
    proof (cases "bk_id x = bk_id b")
      case True
      then have "x = b" by (rule only [OF x])
      with \<open>?p b\<close> \<open>y = b\<close> show ?thesis by (simp add: prev)
    next
      case False
      then show ?thesis by (simp add: deletable_def)
    qed
  qed
  have allowed: "(if prev \<noteq> ''succeeded'' \<and> prev \<noteq> ''failed'' then ''failed'' else prev) = prev"
    by (simp add: prev recorded_status_def)
  have "CancelBackupDeletion (bk_server_id b) (bk_id b) prev d1 =
      Inr (d1\<lparr>backups := upd (\<lambda>x. bk_id x = bk_id b \<and> bk_server_id x = bk_server_id b \<and> bk_status x = ''deleting'')
        (\<lambda>x. x\<lparr>bk_status := prev\<rparr>) (backups d1)\<rparr>)"
    unfolding CancelBackupDeletion_def Let_def update_backups_def allowed by (rule refl)
  moreover have "backups d1 = upd ?p (\<lambda>b. b\<lparr>bk_status := ''deleting''\<rparr>) (backups d)"
    "d1\<lparr>backups := ts\<rparr> = d\<lparr>backups := ts\<rparr>" for ts by (simp_all add: d1)
  ultimately have "CancelBackupDeletion (bk_server_id b) (bk_id b) prev d1 = Inr (d\<lparr>backups := ?restored\<rparr>)"
    by (simp only: rows)
  moreover have "d\<lparr>backups := ?restored\<rparr> = d \<longleftrightarrow> ?restored = backups d" by (cases d) simp
  moreover have "?restored = backups d \<longleftrightarrow> bk_status b = recorded_status b"
  proof
    assume "?restored = backups d"
    then have "?restored = map (\<lambda>x. x) (backups d)" by simp
    then have "b\<lparr>bk_status := recorded_status b\<rparr> = b" using b unfolding map_eq_conv by auto
    then have "bk_status (b\<lparr>bk_status := recorded_status b\<rparr>) = bk_status b" by (rule arg_cong)
    then show "bk_status b = recorded_status b" by simp
  next
    assume "bk_status b = recorded_status b"
    then have same: "b\<lparr>bk_status := recorded_status b\<rparr> = b" by (cases b) simp
    show "?restored = backups d"
    proof (rule map_idI)
      fix x assume "x \<in> set (backups d)"
      with only same show "(if bk_id x = bk_id b then x\<lparr>bk_status := recorded_status x\<rparr> else x) = x" by (metis (full_types))
    qed
  qed
  ultimately show ?thesis by blast
qed

text \<open>A backup of the sample database, and the same one marked failed after its success.\<close>

definition failed_late :: db where
  "failed_late = sample_db\<lparr>backups := map (\<lambda>b. b\<lparr>bk_status := ''failed''\<rparr>) (backups sample_db)\<rparr>"

theorem cancelled_deletion_restores_witness:
  "(\<exists>d1. BeginBackupDeletion ''s1'' ''b1'' sample_db = Inr (''succeeded'', d1) \<and>
     CancelBackupDeletion ''s1'' ''b1'' ''succeeded'' d1 = Inr sample_db) \<and>
   (\<exists>d1 d2. BeginBackupDeletion ''s1'' ''b1'' failed_late = Inr (''succeeded'', d1) \<and>
     CancelBackupDeletion ''s1'' ''b1'' ''succeeded'' d1 = Inr d2 \<and> d2 \<noteq> failed_late)"
proof
  let ?b = "sample_backup ''b1'' ''succeeded''"
  have b: "?b \<in> set (backups sample_db)" "bk_status ?b = recorded_status ?b" "bk_id ?b = ''b1''" "bk_server_id ?b = ''s1''"
    by (simp_all add: recorded_status_def sample_backup_def queued_backup_def)
  have "\<exists>d1. BeginBackupDeletion ''s1'' ''b1'' sample_db = Inr (''succeeded'', d1)"
    by (simp add: BeginBackupDeletion_def deletable_def sample_backup_def queued_backup_def
        finished_backup_def update_stmt_defs)
  then obtain d1 where d1: "BeginBackupDeletion (bk_server_id ?b) (bk_id ?b) sample_db = Inr (''succeeded'', d1)"
    unfolding b(3,4) ..
  from cancelled_deletion_restores [OF sample_db_ok b(1) d1] obtain d2
    where d2: "CancelBackupDeletion (bk_server_id ?b) (bk_id ?b) ''succeeded'' d1 = Inr d2"
      "d2 = sample_db \<longleftrightarrow> bk_status ?b = recorded_status ?b" by (elim exE conjE)
  then have "d2 = sample_db" using b(2) by (simp only:)
  with d1 d2(1) show "\<exists>d1. BeginBackupDeletion ''s1'' ''b1'' sample_db = Inr (''succeeded'', d1) \<and>
     CancelBackupDeletion ''s1'' ''b1'' ''succeeded'' d1 = Inr sample_db" unfolding b(3,4) by (intro exI conjI) simp_all
next
  let ?b = "(sample_backup ''b1'' ''succeeded'')\<lparr>bk_status := ''failed''\<rparr>"
  have b: "?b \<in> set (backups failed_late)" "bk_status ?b \<noteq> recorded_status ?b" "bk_id ?b = ''b1''" "bk_server_id ?b = ''s1''"
    by (simp_all add: failed_late_def recorded_status_def sample_backup_def queued_backup_def)
  have ok: "db_ok failed_late"
  proof -
    have "preserves db_ok (update_backups (\<lambda>b. True) (\<lambda>b. b\<lparr>bk_status := ''failed''\<rparr>))"
      by (rule keeps_ok) (auto simp: check_defs)
    from preservesD [OF this sample_db_ok] show ?thesis
      by (simp add: update_backups_def upd_def failed_late_def)
  qed
  have "\<exists>d1. BeginBackupDeletion ''s1'' ''b1'' failed_late = Inr (''succeeded'', d1)"
    by (simp add: failed_late_def BeginBackupDeletion_def deletable_def sample_backup_def queued_backup_def
        finished_backup_def update_stmt_defs)
  then obtain d1 where d1: "BeginBackupDeletion (bk_server_id ?b) (bk_id ?b) failed_late = Inr (''succeeded'', d1)"
    unfolding b(3,4) ..
  from cancelled_deletion_restores [OF ok b(1) d1] obtain d2
    where d2: "CancelBackupDeletion (bk_server_id ?b) (bk_id ?b) ''succeeded'' d1 = Inr d2"
      "d2 = failed_late \<longleftrightarrow> bk_status ?b = recorded_status ?b" by (elim exE conjE)
  then have "d2 \<noteq> failed_late" using b(2) by blast
  with d1 d2(1) show "\<exists>d1 d2. BeginBackupDeletion ''s1'' ''b1'' failed_late = Inr (''succeeded'', d1) \<and>
     CancelBackupDeletion ''s1'' ''b1'' ''succeeded'' d1 = Inr d2 \<and> d2 \<noteq> failed_late" unfolding b(3,4) by (intro exI conjI) simp_all
qed

section \<open>Only finished work is delivered or removed\<close>

text \<open>
  The archive handed to a Discord delivery is that of a backup that has succeeded, with the
  size and digest recorded for it; the destination is an enabled Discord webhook, and the attempt
  is counted in the database before the upload starts.
\<close>

theorem delivery_only_succeeded:
  assumes "db_ok d" and "BeginBackupDelivery now i d = (Inr job, d')"
  shows "\<exists>r \<in> set (backup_deliveries d). \<exists>b \<in> set (backups d). \<exists>w \<in> set (webhook_destinations d).
    de_id r = i \<and> de_status r \<in> {''queued'', ''uploading''} \<and> dj_delivery_id job = i \<and>
    bk_id b = de_backup_id r \<and> dj_backup_id job = bk_id b \<and> bk_status b = ''succeeded'' \<and>
    bk_size_bytes b = Some (dj_size_bytes job) \<and> bk_sha256 b = Some (dj_sha256 job) \<and>
    wh_id w = de_destination_id r \<and> wh_enabled w \<and> wh_kind w = ''discord'' \<and>
    dj_url_encrypted job = wh_url_encrypted w \<and> dj_attempts job = de_attempts r + 1 \<and>
    (\<exists>r' \<in> set (backup_deliveries d'). de_id r' = i \<and> de_attempts r' = dj_attempts job)"
proof -
  let ?p = "\<lambda>r. deliverable d i r \<and> (de_status r = ''queued'' \<or> de_status r = ''uploading'')"
  let ?f = "\<lambda>r. r\<lparr>de_status := ''uploading'', de_attempts := de_attempts r + 1, de_updated_at := now\<rparr>"
  from assms(2) obtain r where found: "find ?p (backup_deliveries d) = Some r"
    and d': "d' = d\<lparr>backup_deliveries := upd ?p ?f (backup_deliveries d)\<rparr>" and job: "delivery_job d' (?f r) = Inr job"
    by (auto simp: BeginBackupDelivery_def Let_def split: option.splits)
  from find_SomeD [OF found] have r: "r \<in> set (backup_deliveries d)" "?p r" by simp_all
  have same: "delivery_backup (?f r) d' = delivery_backup r d" "delivery_destination (?f r) d' = delivery_destination r d"
    by (simp_all add: delivery_backup_def delivery_destination_def d')
  from r(2) obtain b w where bw: "delivery_backup r d = Some b" "delivery_destination r d = Some w"
    and ok: "bk_status b = ''succeeded''" "wh_enabled w" "wh_kind w = ''discord''" "de_id r = i"
    by (auto simp: deliverable_def split: option.splits)
  from job obtain bytes sha where "bk_size_bytes b = Some bytes" "bk_sha256 b = Some sha"
    and "job = \<lparr> dj_delivery_id = i, dj_backup_id = bk_id b, dj_server_id = bk_server_id b,
      dj_backup_name = bk_name b, dj_format = de_format r, dj_size_bytes = bytes, dj_sha256 = sha,
      dj_destination_id = wh_id w, dj_url_encrypted = wh_url_encrypted w, dj_attempts = de_attempts r + 1 \<rparr>"
    unfolding delivery_job_def same bw using ok(4) by (auto split: option.splits)
  moreover have "b \<in> set (backups d)" "bk_id b = de_backup_id r" "w \<in> set (webhook_destinations d)"
    "wh_id w = de_destination_id r"
    using find_SomeD bw unfolding delivery_backup_def delivery_destination_def by fastforce+
  moreover have "?f r \<in> set (backup_deliveries d')" using r by (auto simp: d' set_upd)
  then have "\<exists>r' \<in> set (backup_deliveries d'). de_id r' = i \<and> de_attempts r' = de_attempts r + 1"
    using ok(4) by (intro bexI [of _ "?f r"]) simp_all
  ultimately show ?thesis using r ok by (intro bexI [of _ r] bexI [of _ b] bexI [of _ w]) auto
qed

definition delivery_db :: db where
  "delivery_db = sample_db\<lparr>backup_deliveries :=
     [(pending_delivery ''de'' 0 ''b1'' ''w1'')\<lparr>de_status := ''queued''\<rparr>]\<rparr>"

lemma delivery_db_ok: "db_ok delivery_db"
  by (simp add: delivery_db_def ok_defs check_defs pending_delivery_def) (simp add: sample_defs days_def)

theorem delivery_only_succeeded_witness:
  "\<exists>job d'. BeginBackupDelivery noon ''de'' delivery_db = (Inr job, d') \<and> dj_attempts job = 1"
proof -
  have "\<exists>job d'. BeginBackupDelivery noon ''de'' delivery_db = (Inr job, d')"
    by (simp add: BeginBackupDelivery_def delivery_db_def pending_delivery_def deliverable_def delivery_backup_def
        delivery_destination_def sample_backup_def queued_backup_def sample_destination_def delivery_job_def Let_def)
  then obtain job d' where run: "BeginBackupDelivery noon ''de'' delivery_db = (Inr job, d')" by blast
  from delivery_only_succeeded [OF delivery_db_ok run] have "dj_attempts job = 1"
    by (auto simp: delivery_db_def pending_delivery_def)
  with run show ?thesis by blast
qed

text \<open>
  The retention job sees at most a hundred backups at a time, all of them unlocked, finished
  and past their expiry, and the ones that expired first come first.
\<close>

theorem expired_backups_eligible:
  "length (ExpiredBackups now limit d) \<le> 100 \<and>
   set (ExpiredBackups now limit d) \<subseteq>
     {(bk_id b, bk_server_id b) |b. b \<in> set (backups d) \<and> \<not> bk_locked b \<and> finished_backup b \<and>
        (\<exists>t. bk_expires_at b = Some t \<and> t \<le> now)}"
proof -
  let ?sorted = "order_by (\<lambda>b. case bk_expires_at b of None \<Rightarrow> 0 | Some t \<Rightarrow> t) (filter (expired now) (backups d))"
  have sub: "set (take n ?sorted) \<subseteq> {b \<in> set (backups d). expired now b}" for n
    using set_take_subset [of n ?sorted] by auto
  have "set (ExpiredBackups now limit d) \<subseteq> (\<lambda>b. (bk_id b, bk_server_id b)) ` {b \<in> set (backups d). expired now b}"
    unfolding ExpiredBackups_def Let_def set_map by (rule image_mono [OF sub])
  also have "\<dots> \<subseteq> {(bk_id b, bk_server_id b) |b. b \<in> set (backups d) \<and> \<not> bk_locked b \<and> finished_backup b \<and>
      (\<exists>t. bk_expires_at b = Some t \<and> t \<le> now)}"
    by (auto simp: expired_def split: option.splits)
  finally have eligible: "set (ExpiredBackups now limit d) \<subseteq> \<dots>" .
  have "length (ExpiredBackups now limit d) \<le> nat (if limit < 1 \<or> limit > 100 then 20 else limit)"
    unfolding ExpiredBackups_def Let_def length_map length_take by (rule min.cobounded2)
  also have "\<dots> \<le> 100" by (simp split: if_split) linarith
  finally show ?thesis using eligible by blast
qed

end
