(* ===== verification/Schedule_Properties.thy ===== *)
theory Schedule_Properties
  imports Schedules Examples
begin

text \<open>
  What the scheduler guarantees: a schedule never has two runs under way because it came due, a due
  schedule is recorded and moved on, and the tasks of a schedule keep the order they were given.
\<close>

section \<open>Coming due\<close>

definition active_runs :: "uuid \<Rightarrow> db \<Rightarrow> schedule_run list" where
  "active_runs s d = filter (active_run s) (schedule_runs d)"

text \<open>Nothing was started beside the active runs \<open>before\<close>; without one, at most one was started.\<close>

definition at_most_one_started :: "uuid \<Rightarrow> schedule_run list \<Rightarrow> db \<Rightarrow> bool" where
  "at_most_one_started s before d \<longleftrightarrow>
     (if before = [] then length (active_runs s d) \<le> 1 else active_runs s d = before)"

text \<open>What one iteration of the loop does when it succeeds.\<close>

definition due_run :: "time \<Rightarrow> uuid \<Rightarrow> schedule \<Rightarrow> db \<Rightarrow> schedule_run" where
  "due_run now i item d =
     (let active = (\<exists>r \<in> set (schedule_runs d). active_run (sc_id item) r) in
      run_row i (sc_id item) (planned_time item) (if active then ''skipped'' else ''queued'')
        (if active then Some now else None))"

definition moved_on :: "time \<Rightarrow> time \<Rightarrow> schedule \<Rightarrow> schedule" where
  "moved_on now t r = r\<lparr>sc_next_run_at := Some t, sc_updated_at := now\<rparr>"

lemma enqueue_due_InrD:
  assumes "enqueue_due env clock now item p = Inr p'"
  shows "\<exists>parsed. ce_parse env (sc_cron_expression item) = Inr parsed \<and>
      schedules (fst p') = upd (\<lambda>r. sc_id r = sc_id item)
        (moved_on now (parsed (sc_timezone item) (clock (sc_id item)))) (schedules (fst p))"
    and "\<exists>i. schedule_runs (fst p') =
      (if run_key (due_run now i item (fst p)) \<in> run_key ` set (schedule_runs (fst p))
       then schedule_runs (fst p) else schedule_runs (fst p) @ [due_run now i item (fst p)])"
proof -
  obtain d ids where p: "p = (d, ids)" by fastforce
  from assms obtain parsed i rest where parsed: "ce_parse env (sc_cron_expression item) = Inr parsed" "ids = i # rest"
    by (cases ids) (auto simp: enqueue_due_def p Let_def split: option.splits sum.splits)
  let ?active = "\<exists>r \<in> set (schedule_runs d). active_run (sc_id item) r"
  let ?t = "parsed (sc_timezone item) (clock (sc_id item))"
  let ?c = "[lift_stmt (insert_run_or_ignore (due_run now i item d)),
    (if ?active then skip else with_id (\<lambda>outboxID. insert_outbox (run_event outboxID now i))),
    lift_stmt (update_schedules (\<lambda>r. sc_id r = sc_id item) (moved_on now ?t))]"
  have statement: "(\<lambda>r. r\<lparr>sc_next_run_at := Some ?t, sc_updated_at := now\<rparr>) = moved_on now ?t"
    by (simp add: moved_on_def [abs_def])
  from assms parsed have "exec ?c (d, rest) = Inr p'"
    by (cases ?active) (simp_all add: enqueue_due_def p Let_def statement due_run_def split: option.splits)
  then obtain p1 p2 where p1: "lift_stmt (insert_run_or_ignore (due_run now i item d)) (d, rest) = Inr p1"
    and p2: "(if ?active then skip else with_id (\<lambda>outboxID. insert_outbox (run_event outboxID now i))) p1 = Inr p2"
    and p3: "lift_stmt (update_schedules (\<lambda>r. sc_id r = sc_id item) (moved_on now ?t)) p2 = Inr p'"
    unfolding exec_Cons_Inr exec_Nil by blast
  from p1 have first: "schedules (fst p1) = schedules d"
    "schedule_runs (fst p1) = (if run_key (due_run now i item d) \<in> run_key ` set (schedule_runs d)
       then schedule_runs d else schedule_runs d @ [due_run now i item d])"
    by (auto simp: stmt_apply insert_run_or_ignore_def insert_run_def constrain_def split: sum.splits if_splits)
  from p2 have same: "schedules (fst p2) = schedules (fst p1)" "schedule_runs (fst p2) = schedule_runs (fst p1)"
    by (auto simp: skip_def with_id_def insert_outbox_def constrain_def
        split: if_splits list.splits prod.splits sum.splits)
  from p3 have last: "schedules (fst p') = upd (\<lambda>r. sc_id r = sc_id item) (moved_on now ?t) (schedules (fst p2))"
    "schedule_runs (fst p') = schedule_runs (fst p2)"
    by (auto simp: lift_stmt_def update_stmt_defs split: prod.splits)
  show "\<exists>parsed. ce_parse env (sc_cron_expression item) = Inr parsed \<and>
      schedules (fst p') = upd (\<lambda>r. sc_id r = sc_id item)
        (moved_on now (parsed (sc_timezone item) (clock (sc_id item)))) (schedules (fst p))"
    using parsed(1) last(1) same(1) first(1) by (simp add: p)
  show "\<exists>i. schedule_runs (fst p') =
      (if run_key (due_run now i item (fst p)) \<in> run_key ` set (schedule_runs (fst p))
       then schedule_runs (fst p) else schedule_runs (fst p) @ [due_run now i item (fst p)])"
    using last(2) same(2) first(2) by (intro exI [of _ i]) (simp add: p)
qed

lemma due_run_active:
  "active_run s (due_run now i item d) \<Longrightarrow>
     s = sc_id item \<and> \<not> (\<exists>r \<in> set (schedule_runs d). active_run s r)"
  by (auto simp: due_run_def Let_def active_run_def run_row_def split: if_splits)

lemma enqueue_due_exclusive:
  "preserves (\<lambda>p. at_most_one_started s before (fst p)) (enqueue_due env clock now item)"
proof (rule preservesI)
  fix p p' :: "db \<times> uuid list"
  assume started: "at_most_one_started s before (fst p)" and run: "enqueue_due env clock now item p = Inr p'"
  from enqueue_due_InrD(2) [OF run] obtain i where runs: "schedule_runs (fst p') = schedule_runs (fst p) \<or>
      schedule_runs (fst p') = schedule_runs (fst p) @ [due_run now i item (fst p)]" by metis
  show "at_most_one_started s before (fst p')"
  proof (cases "active_run s (due_run now i item (fst p))")
    case True
    from due_run_active [OF True] have "active_runs s (fst p) = []"
      by (auto simp: active_runs_def filter_empty_conv)
    with runs started show ?thesis by (auto simp: at_most_one_started_def active_runs_def split: if_splits)
  next
    case False
    with runs have "active_runs s (fst p') = active_runs s (fst p)" by (auto simp: active_runs_def)
    with started show ?thesis unfolding at_most_one_started_def by (simp split: if_splits)
  qed
qed

text \<open>
  C14: however many schedules come due at once, a pass of the scheduler that succeeds never starts a
  second run of a schedule that has one queued or running: its queued and running runs stay the ones
  it had.  For a schedule that has none, at most one is started.
\<close>

theorem due_runs_exclusive:
  assumes "EnqueueDueSchedules env clock now ids limit d = Inr d'"
  shows "if active_runs s d = [] then length (active_runs s d') \<le> 1 else active_runs s d' = active_runs s d"
proof -
  from assms obtain p' where run: "for_each (enqueue_due env clock now) (due_schedules now limit d) (d, ids) = Inr p'"
    and d': "d' = fst p'" by (auto simp: EnqueueDueSchedules_def state_of_Inr)
  have "at_most_one_started s (active_runs s d) (fst p')"
    by (rule preserves_run [OF preserves_for_each [OF enqueue_due_exclusive] run])
      (simp add: at_most_one_started_def)
  then show ?thesis unfolding d' at_most_one_started_def .
qed

text \<open>An environment with a schedule that runs every minute, and one due schedule.\<close>

definition every_minute :: cron_env where
  "every_minute = \<lparr> ce_load_location = (\<lambda>z. None),
     ce_parse = (\<lambda>e. Inr (\<lambda>zone t. (t div 60000000 + 1) * 60000000)) \<rparr>"

lemma every_minute_law: "cron_law every_minute"
proof -
  have "t < (t div 60000000 + 1) * 60000000" for t :: int
    using mod_less_divisor [of 60000000 "nat t"] pos_mod_bound [of 60000000 t] div_mult_mod_eq [of t 60000000]
    by (simp add: algebra_simps)
  then show ?thesis by (auto simp: cron_law_def every_minute_def)
qed

lemma sample_due:
  "due_schedules noon 10 sample_db = [sample_schedule ''sc1'' (Some 0)]"
  by (simp add: due_schedules_def is_due_def sample_schedule_def noon_def order_by_def)

lemma sample_enqueue:
  "\<exists>d'. EnqueueDueSchedules every_minute (\<lambda>i. noon) noon [''r1'', ''o1''] 10 sample_db = Inr d'"
  unfolding EnqueueDueSchedules_def sample_due
  by (simp add: enqueue_due_def every_minute_def Let_def exec.simps stmt_apply insert_run_or_ignore_def
      insert_run_def constrain_def run_row_def run_key_def check_run_def sample_schedule_def
      insert_outbox_def run_event_def outbox_row_def update_stmt_defs state_of_def)

text \<open>The same database with a manual run of the schedule under way, and with two of them.\<close>

definition manual_runs :: "uuid list \<Rightarrow> db" where
  "manual_runs is = sample_db\<lparr>schedule_runs := map (\<lambda>i. run_row i ''sc1'' 7 ''running'' None) is\<rparr>"

theorem due_runs_exclusive_witness:
  "\<exists>d1 d2. EnqueueDueSchedules every_minute (\<lambda>i. noon) noon [''r1'', ''o1''] 10 sample_db = Inr d1 \<and>
     length (active_runs ''sc1'' d1) \<le> 1 \<and>
     EnqueueDueSchedules every_minute (\<lambda>i. noon) noon [''r1'', ''o1''] 10 (manual_runs [''m1'', ''m2'']) = Inr d2 \<and>
     map ru_id (active_runs ''sc1'' d2) = [''m1'', ''m2'']"
proof -
  obtain d1 where d1: "EnqueueDueSchedules every_minute (\<lambda>i. noon) noon [''r1'', ''o1''] 10 sample_db = Inr d1"
    using sample_enqueue by blast
  have none: "active_runs ''sc1'' sample_db = []" by (simp add: active_runs_def)
  have due: "due_schedules noon 10 (manual_runs is) = [sample_schedule ''sc1'' (Some 0)]" for "is"
    by (simp add: due_schedules_def manual_runs_def is_due_def sample_schedule_def noon_def order_by_def)
  have "\<exists>d2. EnqueueDueSchedules every_minute (\<lambda>i. noon) noon [''r1'', ''o1''] 10 (manual_runs [''m1'', ''m2'']) = Inr d2"
    unfolding EnqueueDueSchedules_def due
    by (simp add: enqueue_due_def every_minute_def Let_def exec.simps stmt_apply insert_run_or_ignore_def
      insert_run_def constrain_def run_row_def run_key_def check_run_def sample_schedule_def manual_runs_def
      active_run_def skip_def update_stmt_defs state_of_def)
  then obtain d2 where d2: "EnqueueDueSchedules every_minute (\<lambda>i. noon) noon [''r1'', ''o1''] 10
      (manual_runs [''m1'', ''m2'']) = Inr d2" by blast
  have two: "map ru_id (active_runs ''sc1'' (manual_runs [''m1'', ''m2''])) = [''m1'', ''m2'']"
    by (simp add: active_runs_def manual_runs_def run_row_def active_run_def)
  from due_runs_exclusive [OF d1, of "''sc1''"] due_runs_exclusive [OF d2, of "''sc1''"] none two d1 d2
  show ?thesis by (auto split: if_splits)
qed

section \<open>Every due schedule is recorded and moved on\<close>

lemma for_each_establishes:
  assumes "for_each c xs s = Inr s'" and "x \<in> set xs" and "q s"
    and "\<And>y. y \<in> set xs \<Longrightarrow> preserves q (c y)" and "\<And>y. y \<in> set xs \<Longrightarrow> preserves i (c y)"
    and "\<And>s1 s2. q s1 \<Longrightarrow> c x s1 = Inr s2 \<Longrightarrow> i s2"
  shows "i s'"
  using assms(1-5)
proof (induction xs arbitrary: s)
  case Nil
  then show ?case by simp
next
  case (Cons y ys)
  from Cons.prems(1) obtain s1 where s1: "c y s = Inr s1" "for_each c ys s1 = Inr s'"
    by (auto split: sum.splits)
  show ?case
  proof (cases "x = y")
    case True
    with assms(6) Cons.prems(3) s1(1) have "i s1" by blast
    with preserves_run [OF preserves_for_each s1(2), of i] Cons.prems(5) show ?thesis by simp
  next
    case False
    with Cons.prems(2) have "x \<in> set ys" by simp
    moreover have "q s1" by (rule preserves_run [OF Cons.prems(4) s1(1) Cons.prems(3)]) simp
    ultimately show ?thesis using Cons.IH [OF s1(2)] Cons.prems(4,5) by simp
  qed
qed

definition has_schedule :: "uuid \<Rightarrow> db \<Rightarrow> bool" where
  "has_schedule i d \<longleftrightarrow> (\<exists>r \<in> set (schedules d). sc_id r = i)"

definition next_activation :: "uuid \<Rightarrow> time \<Rightarrow> db \<Rightarrow> bool" where
  "next_activation i t d \<longleftrightarrow> (\<exists>r \<in> set (schedules d). sc_id r = i \<and> sc_next_run_at r = Some t)"

definition run_recorded :: "uuid \<Rightarrow> time \<Rightarrow> db \<Rightarrow> bool" where
  "run_recorded i planned d \<longleftrightarrow> (i, planned) \<in> run_key ` set (schedule_runs d)"

text \<open>What a pass establishes for schedule \<open>s\<close>.\<close>

definition handled :: "cron_env \<Rightarrow> (uuid \<Rightarrow> time) \<Rightarrow> schedule \<Rightarrow> db \<Rightarrow> bool" where
  "handled env clock s d \<longleftrightarrow>
     (case ce_parse env (sc_cron_expression s) of
        Inl e \<Rightarrow> False
      | Inr parsed \<Rightarrow> next_activation (sc_id s) (parsed (sc_timezone s) (clock (sc_id s))) d) \<and>
     run_recorded (sc_id s) (planned_time s) d"

lemma enqueue_due_records:
  assumes "has_schedule (sc_id item) (fst p)" and "enqueue_due env clock now item p = Inr p'"
  shows "handled env clock item (fst p')"
proof -
  from enqueue_due_InrD(1) [OF assms(2)] obtain parsed where parsed: "ce_parse env (sc_cron_expression item) = Inr parsed"
    and rows: "schedules (fst p') = upd (\<lambda>r. sc_id r = sc_id item)
      (moved_on now (parsed (sc_timezone item) (clock (sc_id item)))) (schedules (fst p))" by blast
  let ?t = "parsed (sc_timezone item) (clock (sc_id item))"
  from assms(1) obtain r where "r \<in> set (schedules (fst p))" "sc_id r = sc_id item" by (auto simp: has_schedule_def)
  then have "moved_on now ?t r \<in> set (schedules (fst p'))" unfolding rows set_upd by force
  moreover have "run_key (due_run now i item (fst p)) = (sc_id item, planned_time item)" for i
    by (simp add: run_key_def due_run_def Let_def run_row_def)
  moreover obtain i where "schedule_runs (fst p') =
      (if run_key (due_run now i item (fst p)) \<in> run_key ` set (schedule_runs (fst p))
       then schedule_runs (fst p) else schedule_runs (fst p) @ [due_run now i item (fst p)])"
    using enqueue_due_InrD(2) [OF assms(2)] by blast
  ultimately show ?thesis
    using \<open>sc_id r = sc_id item\<close> parsed unfolding handled_def next_activation_def run_recorded_def
    by (auto simp: moved_on_def intro!: bexI [of _ "moved_on now ?t r"])
qed

lemma enqueue_due_keeps_schedule: "preserves (\<lambda>p. has_schedule i (fst p)) (enqueue_due env clock now item)"
proof (rule preservesI)
  fix p p' :: "db \<times> uuid list"
  assume has: "has_schedule i (fst p)" and run: "enqueue_due env clock now item p = Inr p'"
  from enqueue_due_InrD(1) [OF run] obtain t where "schedules (fst p') = upd (\<lambda>r. sc_id r = sc_id item)
      (moved_on now t) (schedules (fst p))" by blast
  then have "map sc_id (schedules (fst p')) = map sc_id (schedules (fst p))"
    by (simp add: map_upd moved_on_def)
  then have "sc_id ` set (schedules (fst p')) = sc_id ` set (schedules (fst p))"
    by (metis set_map)
  moreover have "has_schedule i d \<longleftrightarrow> i \<in> sc_id ` set (schedules d)" for d by (auto simp: has_schedule_def)
  ultimately show "has_schedule i (fst p')" using has by simp
qed

lemma enqueue_due_keeps_record:
  assumes "sc_id item \<noteq> sc_id s"
  shows "preserves (\<lambda>p. handled env clock s (fst p)) (enqueue_due env clock now item)"
proof (rule preservesI)
  fix p p' :: "db \<times> uuid list"
  assume rec: "handled env clock s (fst p)" and run: "enqueue_due env clock now item p = Inr p'"
  from enqueue_due_InrD(1) [OF run] obtain t where rows: "schedules (fst p') =
      upd (\<lambda>r. sc_id r = sc_id item) (moved_on now t) (schedules (fst p))" by blast
  have "next_activation (sc_id s) u (fst p')" if "next_activation (sc_id s) u (fst p)" for u
    using that assms unfolding next_activation_def rows set_upd by auto
  moreover have "set (schedule_runs (fst p)) \<subseteq> set (schedule_runs (fst p'))"
    using enqueue_due_InrD(2) [OF run] by auto
  ultimately show "handled env clock s (fst p')"
    using rec by (auto simp: handled_def run_recorded_def split: sum.splits)
qed

lemma enqueue_due_handles:
  "preserves (\<lambda>p. has_schedule (sc_id s) (fst p) \<and> handled env clock s (fst p)) (enqueue_due env clock now s)"
  by (rule preservesI)
    (use enqueue_due_records preserves_run [OF enqueue_due_keeps_schedule] in blast)

text \<open>
  C15: a pass of the scheduler that succeeds records, for every schedule it takes (the given number
  of due ones, longest due first), a run planned for the time the schedule was due, and its next
  activation is the one the cron library gives for its expression and time zone after the moment it
  was handled: later than that moment, or the zero time when the expression has no activation any
  more.
\<close>

theorem due_schedules_recorded:
  assumes "cron_law env" and "db_ok d" and "EnqueueDueSchedules env clock now ids limit d = Inr d'"
    and "s \<in> set (due_schedules now limit d)"
  shows "\<exists>parsed t. ce_parse env (sc_cron_expression s) = Inr parsed \<and>
    t = parsed (sc_timezone s) (clock (sc_id s)) \<and> next_activation (sc_id s) t d' \<and>
    (t = zero_time \<or> clock (sc_id s) < t) \<and> run_recorded (sc_id s) (planned_time s) d'"
proof -
  let ?q = "\<lambda>p :: db \<times> uuid list. has_schedule (sc_id s) (fst p)"
  let ?i = "\<lambda>p :: db \<times> uuid list. ?q p \<and> handled env clock s (fst p)"
  from assms(3) obtain p' where run: "for_each (enqueue_due env clock now) (due_schedules now limit d) (d, ids) = Inr p'"
    and d': "d' = fst p'" by (auto simp: EnqueueDueSchedules_def state_of_Inr)
  have rows: "x \<in> set (schedules d)" if "x \<in> set (due_schedules now limit d)" for x
    using that in_set_takeD by (fastforce simp: due_schedules_def)
  from rows [OF assms(4)] have has: "?q (d, ids)" by (auto simp: has_schedule_def)
  have dist: "distinct (map sc_id (schedules d))" using assms(2) by (simp add: ok_defs)
  have "?i p'"
  proof (rule for_each_establishes [where q = ?q and i = ?i, OF run assms(4) has])
    show "preserves ?q (enqueue_due env clock now y)" for y by (rule enqueue_due_keeps_schedule)
    show "preserves ?i (enqueue_due env clock now y)" if "y \<in> set (due_schedules now limit d)" for y
    proof (cases "y = s")
      case True
      then show ?thesis using enqueue_due_handles by simp
    next
      case False
      with distinct_key_eq [OF dist rows [OF that] rows [OF assms(4)]] have "sc_id y \<noteq> sc_id s" by blast
      then show ?thesis
        by (intro preserves_conj enqueue_due_keeps_schedule enqueue_due_keeps_record)
    qed
    show "?i p2" if "?q p1" "enqueue_due env clock now s p1 = Inr p2" for p1 p2
      using enqueue_due_records [OF that] preserves_run [OF enqueue_due_keeps_schedule that(2,1)] by blast
  qed
  then show ?thesis using assms(1) by (auto simp: d' handled_def cron_law_def split: sum.splits)
qed

theorem due_schedules_recorded_witness:
  "\<exists>d'. EnqueueDueSchedules every_minute (\<lambda>i. noon) noon [''r1'', ''o1''] 10 sample_db = Inr d' \<and>
     next_activation ''sc1'' ((noon div 60000000 + 1) * 60000000) d' \<and> run_recorded ''sc1'' 0 d'"
proof -
  obtain d' where d': "EnqueueDueSchedules every_minute (\<lambda>i. noon) noon [''r1'', ''o1''] 10 sample_db = Inr d'"
    using sample_enqueue by blast
  from due_schedules_recorded [OF every_minute_law sample_db_ok d', of "sample_schedule ''sc1'' (Some 0)"] sample_due d'
  show ?thesis by (auto simp: sample_schedule_def planned_time_def every_minute_def)
qed

section \<open>The order of the tasks\<close>

definition stored_tasks :: "uuid \<Rightarrow> nat \<Rightarrow> task_input list \<Rightarrow> uuid list \<Rightarrow> schedule_task list" where
  "stored_tasks s k tasks ids = map2 (\<lambda>i (position, task). task_row i s position task) ids (enumerate k tasks)"

lemma insert_tasks_InrD:
  "for_each (\<lambda>(position, task). with_id (\<lambda>taskID. insert_task (task_row taskID s position task)))
     (enumerate k tasks) p = Inr p' \<Longrightarrow>
   \<exists>ids. length ids = length tasks \<and> schedule_tasks (fst p') = schedule_tasks (fst p) @ stored_tasks s k tasks ids"
proof (induction tasks arbitrary: k p)
  case Nil
  then show ?case by (simp add: stored_tasks_def)
next
  case (Cons t ts)
  let ?c = "\<lambda>(position, task). with_id (\<lambda>taskID. insert_task (task_row taskID s position task))"
  from Cons.prems obtain p1 where p1: "?c (k, t) p = Inr p1"
    and rest: "for_each ?c (enumerate (Suc k) ts) p1 = Inr p'" by (auto split: sum.splits)
  from p1 obtain i where "schedule_tasks (fst p1) = schedule_tasks (fst p) @ [task_row i s k t]"
    by (auto simp: with_id_def insert_task_def constrain_def split: prod.splits list.splits sum.splits if_splits)
  moreover from Cons.IH [OF rest] obtain ids where "length ids = length ts"
    "schedule_tasks (fst p') = schedule_tasks (fst p1) @ stored_tasks s (Suc k) ts ids" by blast
  ultimately show ?case by (intro exI [of _ "i # ids"]) (simp add: stored_tasks_def)
qed

text \<open>What a client sees of a stored task, and of a task it asks for.\<close>

definition task_view :: "schedule_task \<Rightarrow> task_input" where
  "task_view t = \<lparr> ti_task_type = ta_task_type t, ti_config = ta_config t, ti_timeout_seconds = ta_timeout_seconds t \<rparr>"

lemma stored_tasks_view:
  assumes "length ids = length tasks"
  shows "map ta_position (stored_tasks s k tasks ids) = map int [k..<k + length tasks]"
    and "map task_view (stored_tasks s k tasks ids) = tasks"
    and "t \<in> set (stored_tasks s k tasks ids) \<Longrightarrow> ta_schedule_id t = s"
proof -
  show "map ta_position (stored_tasks s k tasks ids) = map int [k..<k + length tasks]"
    unfolding stored_tasks_def using assms
    by (intro nth_equalityI) (simp_all add: nth_enumerate_eq task_row_def case_prod_unfold)
  show "map task_view (stored_tasks s k tasks ids) = tasks"
    unfolding stored_tasks_def using assms
    by (intro nth_equalityI) (simp_all add: nth_enumerate_eq task_row_def task_view_def case_prod_unfold)
  show "t \<in> set (stored_tasks s k tasks ids) \<Longrightarrow> ta_schedule_id t = s"
    by (auto simp: stored_tasks_def task_row_def)
qed

lemma tasks_of_stored:
  assumes "insert_tasks s tasks p = Inr p'" and "\<not> (\<exists>t \<in> set (schedule_tasks (fst p)). ta_schedule_id t = s)"
  shows "map task_view (tasks_of s (fst p')) = tasks \<and>
    map ta_position (tasks_of s (fst p')) = map int [0..<length tasks]"
proof -
  from insert_tasks_InrD [OF assms(1) [unfolded insert_tasks_def]] obtain ids where ids: "length ids = length tasks"
    and stored: "schedule_tasks (fst p') = schedule_tasks (fst p) @ stored_tasks s 0 tasks ids" by blast
  let ?rows = "stored_tasks s 0 tasks ids"
  note rows = stored_tasks_view [OF ids, where s = s and k = 0]
  have "filter (\<lambda>t. ta_schedule_id t = s) ?rows = ?rows" by (rule filter_True) (simp add: rows(3))
  moreover have "filter (\<lambda>t. ta_schedule_id t = s) (schedule_tasks (fst p)) = []"
    using assms(2) by (auto simp: filter_empty_conv)
  ultimately have "filter (\<lambda>t. ta_schedule_id t = s) (schedule_tasks (fst p')) = ?rows" by (simp add: stored)
  moreover have "sorted (map ta_position ?rows)" unfolding rows(1) by (simp add: sorted_map sorted_wrt_iff_nth_less)
  ultimately have "tasks_of s (fst p') = ?rows" by (simp add: tasks_of_def order_by_def sort_key_id_if_sorted)
  with rows(1,2) show ?thesis by simp
qed

text \<open>
  A schedule that is created or updated is answered, and stored, with exactly the tasks of the
  request, in the order of the request and numbered from zero; none of its former tasks is left.
\<close>

theorem schedule_tasks_roundtrip:
  assumes ok: "db_ok d"
    and run: "CreateSchedule env clock now (cp_schedule_id input) ids input d = Inr ((item, tasks), d') \<or>
      UpdateSchedule env clock now ids input d = Inr ((item, tasks), d')"
  shows "map task_view tasks = cp_tasks input \<and> map ta_position tasks = map int [0..<length (cp_tasks input)] \<and>
    tasks = tasks_of (cp_schedule_id input) d' \<and> sc_id item = cp_schedule_id input"
  using run
proof
  let ?i = "cp_schedule_id input"
  assume "CreateSchedule env clock now ?i ids input d = Inr ((item, tasks), d')"
  then obtain p1 p2 where p1: "lift_stmt (insert_schedule item) (d, ids) = Inr p1"
    and p2: "insert_tasks ?i (cp_tasks input) p1 = Inr p2"
    and result: "tasks = tasks_of (sc_id item) (fst p2)" "d' = fst p2" "sc_id item = ?i"
    by (auto simp: CreateSchedule_def Let_def with_tasks_def state_of_Inr exec_Cons_Inr
        split: sum.splits if_splits)
  from p1 result(3) have "?i \<notin> sc_id ` set (schedules d)" "schedule_tasks (fst p1) = schedule_tasks d"
    by (auto simp: stmt_apply insert_schedule_def constrain_def split: sum.splits if_splits)
  moreover have "ta_schedule_id ` set (schedule_tasks d) \<subseteq> sc_id ` set (schedules d)"
    using ok by (auto simp: ok_defs)
  ultimately have "\<not> (\<exists>t \<in> set (schedule_tasks (fst p1)). ta_schedule_id t = ?i)" by (metis image_eqI subsetD)
  from tasks_of_stored [OF p2 this] result show ?thesis by simp
next
  let ?i = "cp_schedule_id input"
  assume "UpdateSchedule env clock now ids input d = Inr ((item, tasks), d')"
  then obtain r p1 p2 p3 where found: "find (\<lambda>r. sc_id r = ?i \<and> sc_server_id r = cp_server_id input) (schedules d) = Some r"
    and p1: "lift_stmt (delete_tasks (\<lambda>t. ta_schedule_id t = ?i)) p1 = Inr p2"
    and p2: "insert_tasks ?i (cp_tasks input) p2 = Inr p3"
    and result: "tasks = tasks_of (sc_id item) (fst p3)" "d' = fst p3" "sc_id item = sc_id r"
    by (auto simp: UpdateSchedule_def Let_def with_tasks_def state_of_Inr exec_Cons_Inr
        split: sum.splits option.splits)
  from find_SomeD [OF found] have "sc_id r = ?i" by simp  from p1 have "\<not> (\<exists>t \<in> set (schedule_tasks (fst p2)). ta_schedule_id t = ?i)"
    by (auto simp: lift_stmt_def delete_tasks_def set_del split: prod.splits)
  from tasks_of_stored [OF p2 this] result \<open>sc_id r = ?i\<close> show ?thesis by simp
qed

definition sample_schedule_params :: schedule_params where
  "sample_schedule_params = \<lparr> cp_schedule_id = ''sc2'', cp_server_id = ''s1'', cp_name = ''nightly'',
     cp_cron_expression = ''0 0 * * *'', cp_timezone = ''UTC'', cp_enabled = True, cp_created_by = ''u1'',
     cp_tasks = [\<lparr> ti_task_type = ''backup'', ti_config = JNull, ti_timeout_seconds = 60 \<rparr>,
       \<lparr> ti_task_type = ''notify'', ti_config = JNull, ti_timeout_seconds = 60 \<rparr>] \<rparr>"

theorem schedule_tasks_roundtrip_witness:
  "\<exists>item tasks d'. CreateSchedule every_minute noon noon ''sc2'' [''t1'', ''t2''] sample_schedule_params sample_db =
     Inr ((item, tasks), d') \<and> map ta_task_type tasks = [''backup'', ''notify'']"
proof -
  have "\<exists>item tasks d'. CreateSchedule every_minute noon noon ''sc2'' [''t1'', ''t2''] sample_schedule_params sample_db =
      Inr ((item, tasks), d')"
    by (simp add: CreateSchedule_def scheduleNextRun_def ValidateSchedule_def every_minute_def live_def
        sample_server_def sample_schedule_params_def Let_def with_tasks_def state_of_def exec.simps stmt_apply
        insert_schedule_def constrain_def check_schedule_def server_exists_def sample_schedule_def insert_tasks_def
        insert_task_def task_row_def task_key_def check_task_def)
  then obtain item tasks d' where run: "CreateSchedule every_minute noon noon (cp_schedule_id sample_schedule_params)
      [''t1'', ''t2''] sample_schedule_params sample_db = Inr ((item, tasks), d')"
    by (auto simp: sample_schedule_params_def)
  from schedule_tasks_roundtrip [OF sample_db_ok disjI1 [OF run]]
  have "map task_view tasks = cp_tasks sample_schedule_params" by blast
  then have "map ti_task_type (map task_view tasks) = [''backup'', ''notify'']"
    by (simp add: sample_schedule_params_def del: map_map)
  moreover have "map ti_task_type (map task_view tasks) = map ta_task_type tasks" by (simp add: task_view_def comp_def)
  ultimately show ?thesis using run by (auto simp: sample_schedule_params_def)
qed

end
