(* ===== verification/Queue_Properties.thy ===== *)
theory Queue_Properties
  imports Outbox Webhook_Queue Examples
begin

text \<open>
  What the two queues of the panel guarantee to the code behind them: an event or a delivery is
  handed to one worker at a time, a worker that lost its lease cannot settle the event, a failure is
  retried later and within bounds, and a webhook that may not be called is never called.
\<close>

section \<open>The outbox\<close>

text \<open>
  Everything that happens to the outbox while the workers run: a worker claims an event, a worker
  reports on an event it was handed, a stop or an external deletion closes events
  (\<open>power_statements\<close>, \<open>record_external_deletion\<close>), and an operation of the panel queues an event.
\<close>

datatype outbox_event_step =
    Claim time uuid
  | Report time uuid outbox_event "error option"
  | Close time "outbox_event \<Rightarrow> bool" string
  | Enqueue outbox_event

definition step_result :: "error + db \<Rightarrow> db \<Rightarrow> uuid list \<times> db" where
  "step_result r d = (case r of Inl e \<Rightarrow> ([], d) | Inr d' \<Rightarrow> ([], d'))"

fun outbox_step :: "outbox_event_step \<Rightarrow> db \<Rightarrow> uuid list \<times> db" where
  "outbox_step (Claim now w) d =
     (case claim_event now w d of (None, d1) \<Rightarrow> ([], d1) | (Some e, d1) \<Rightarrow> ([ob_id e], d1))"
| "outbox_step (Report now w claimed err) d = step_result (finish_event now w claimed err d) d"
| "outbox_step (Close now p reason) d = step_result (update_outbox (\<lambda>e. p e \<and> ob_processed_at e = None)
     (\<lambda>e. e\<lparr>ob_processed_at := Some now, ob_last_error := Some reason\<rparr>) d) d"
| "outbox_step (Enqueue e) d = step_result (insert_outbox e d) d"

text \<open>The events handed out by a sequence of steps.\<close>

fun handed_out :: "outbox_event_step list \<Rightarrow> db \<Rightarrow> uuid list" where
  "handed_out [] d = []"
| "handed_out (s # ss) d = (case outbox_step s d of (ids, d1) \<Rightarrow> ids @ handed_out ss d1)"

text \<open>A step that can take place while worker \<open>w\<close> holds event \<open>i\<close>, leased at \<open>t0\<close>.\<close>

fun during_lease :: "time \<Rightarrow> uuid \<Rightarrow> uuid \<Rightarrow> outbox_event_step \<Rightarrow> bool" where
  "during_lease t0 w i (Claim now w') \<longleftrightarrow> t0 \<le> now \<and> now < t0 + minutes 5"
| "during_lease t0 w i (Report now w' claimed err) \<longleftrightarrow> \<not> (w' = w \<and> ob_id claimed = i)"
| "during_lease t0 w i (Close now p reason) \<longleftrightarrow> True"
| "during_lease t0 w i (Enqueue e) \<longleftrightarrow> True"

text \<open>The rows of an event that is leased, or closed since.\<close>

definition leased_row :: "time \<Rightarrow> uuid \<Rightarrow> uuid \<Rightarrow> outbox_event \<Rightarrow> bool" where
  "leased_row t0 w i x \<longleftrightarrow> (ob_id x = i \<longrightarrow> ob_locked_by x = Some w \<and>
     (ob_processed_at x = None \<longrightarrow> ob_locked_at x = Some t0))"

definition event_leased :: "time \<Rightarrow> uuid \<Rightarrow> uuid \<Rightarrow> db \<Rightarrow> bool" where
  "event_leased t0 w i d \<longleftrightarrow> i \<in> ob_id ` set (outbox d) \<and> list_all (leased_row t0 w i) (outbox d)"

lemma event_leasedI:
  assumes "event_leased t0 w i d" and "\<And>x. ob_id (f x) = ob_id x"
    and "\<And>x. p x \<Longrightarrow> leased_row t0 w i x \<Longrightarrow> leased_row t0 w i (f x)"
  shows "event_leased t0 w i (d\<lparr>outbox := upd p f (outbox d)\<rparr>)"
proof -
  have "map ob_id (upd p f (outbox d)) = map ob_id (outbox d)" by (simp add: upd_def assms(2))
  then have "ob_id ` set (upd p f (outbox d)) = ob_id ` set (outbox d)" by (metis set_map)
  with assms(1,3) show ?thesis by (auto simp: event_leased_def list_all_iff set_upd)
qed

lemma claim_event_leases:
  assumes "claim_event t0 w d = (Some e, d1)"
  shows "event_leased t0 w (ob_id e) d1"
proof -
  from assms obtain t where claim: "claim_oldest ob_id ob_created_at (outbox_claimable t0) (outbox_lease t0 w)
      (outbox d) = Some (e, t)" and d1: "d1 = d\<lparr>outbox := t\<rparr>"
    by (auto simp: claim_event_def split: option.splits)
  from claim_oldest_SomeD [OF claim] obtain r0 where r0: "r0 \<in> set (outbox d)" "e = outbox_lease t0 w r0"
    and t: "t = upd (\<lambda>x. ob_id x = ob_id r0) (outbox_lease t0 w) (outbox d)" by blast
  have "map ob_id t = map ob_id (outbox d)" by (simp add: t upd_def outbox_lease_def)
  then have "ob_id ` set t = ob_id ` set (outbox d)" by (metis set_map)
  moreover have "ob_id e = ob_id r0" by (simp add: r0(2) outbox_lease_def)
  ultimately have "ob_id e \<in> ob_id ` set t" using r0(1) by simp
  moreover have "\<forall>x \<in> set t. leased_row t0 w (ob_id e) x" unfolding t set_upd
    by (auto simp: r0(2) leased_row_def outbox_lease_def)
  ultimately show ?thesis by (simp add: d1 event_leased_def list_all_iff)
qed

lemma claim_while_leased:
  assumes "event_leased t0 w i d" and "t0 \<le> now" and "now < t0 + minutes 5"
  shows "i \<notin> set (fst (outbox_step (Claim now w') d)) \<and> event_leased t0 w i (snd (outbox_step (Claim now w') d))"
proof (cases "claim_oldest ob_id ob_created_at (outbox_claimable now) (outbox_lease now w') (outbox d)")
  case None
  with assms(1) show ?thesis by (simp add: claim_event_def)
next
  case (Some p)
  obtain e t where p: "p = (e, t)" by fastforce
  from claim_oldest_SomeD [OF Some [unfolded p]] obtain r0 where r0: "r0 \<in> set (outbox d)"
    "outbox_claimable now r0" "e = outbox_lease now w' r0"
    and t: "t = upd (\<lambda>x. ob_id x = ob_id r0) (outbox_lease now w') (outbox d)" by blast
  have "leased_row t0 w i r0" using assms(1) r0(1) by (simp add: event_leased_def list_all_iff)
  with r0(2) assms(3) have "ob_id r0 \<noteq> i"
    by (auto simp: leased_row_def outbox_claimable_def)
  moreover from this have "event_leased t0 w i (d\<lparr>outbox := t\<rparr>)"
    unfolding t by (intro event_leasedI [OF assms(1)]) (auto simp: outbox_lease_def leased_row_def)
  ultimately show ?thesis using r0(3) by (simp add: claim_event_def Some p outbox_lease_def)
qed

lemma step_while_leased:
  assumes "event_leased t0 w i d" and "during_lease t0 w i s"
  shows "i \<notin> set (fst (outbox_step s d)) \<and> event_leased t0 w i (snd (outbox_step s d))"
proof (cases s)
  case (Claim now w')
  with claim_while_leased [OF assms(1)] assms(2) show ?thesis by simp
next
  case (Report now w' claimed err)
  with assms(2) have other: "\<not> (w' = w \<and> ob_id claimed = i)" by simp
  obtain f where f: "finish_event now w' claimed err d =
      Inr (d\<lparr>outbox := upd (holds_lease (ob_id claimed) w') f (outbox d)\<rparr>)" "\<And>x. ob_id (f x) = ob_id x"
    by (cases err) (simp_all add: finish_event_def update_outbox_def)
  have "event_leased t0 w i (d\<lparr>outbox := upd (holds_lease (ob_id claimed) w') f (outbox d)\<rparr>)"
    by (rule event_leasedI [OF assms(1) f(2)]) (use other f(2) in \<open>auto simp: holds_lease_def leased_row_def\<close>)
  then show ?thesis using Report by (simp add: f(1) step_result_def)
next
  case (Close now p reason)
  have "event_leased t0 w i (d\<lparr>outbox := upd (\<lambda>e. p e \<and> ob_processed_at e = None)
      (\<lambda>e. e\<lparr>ob_processed_at := Some now, ob_last_error := Some reason\<rparr>) (outbox d)\<rparr>)"
    by (rule event_leasedI [OF assms(1)]) (auto simp: leased_row_def)
  then show ?thesis using Close by (simp add: step_result_def update_outbox_def)
next
  case (Enqueue e)
  have "event_leased t0 w i d'" if "insert_outbox e d = Inr d'" for d'
    using that assms(1)
    by (auto simp: insert_outbox_def constrain_def event_leased_def leased_row_def list_all_iff split: if_splits)
  then show ?thesis using Enqueue assms(1) by (simp add: step_result_def split: sum.split)
qed

text \<open>
  C17: an event that was handed to a worker is handed to nobody, that worker included, for five
  minutes, whatever other workers claim and report, whatever events are closed or queued, and in
  whatever order; only the holder's own report on the event gives it back earlier.
\<close>

theorem outbox_claims_distinct:
  assumes "claim_event t0 w d = (Some e, d1)" and "list_all (during_lease t0 w (ob_id e)) steps"
  shows "ob_id e \<notin> set (handed_out steps d1)"
proof -
  have "ob_id e \<notin> set (handed_out steps d2)" if "event_leased t0 w (ob_id e) d2" for d2
    using assms(2) that
  proof (induction steps arbitrary: d2)
    case Nil
    then show ?case by simp
  next
    case (Cons s ss)
    from step_while_leased [of t0 w "ob_id e" d2 s] Cons.prems
    have "ob_id e \<notin> set (fst (outbox_step s d2))" "event_leased t0 w (ob_id e) (snd (outbox_step s d2))" by simp_all
    with Cons.IH [of "snd (outbox_step s d2)"] Cons.prems show ?case by (simp add: case_prod_unfold)
  qed
  then show ?thesis using claim_event_leases [OF assms(1)] by blast
qed

definition sample_event :: "uuid \<Rightarrow> time \<Rightarrow> outbox_event" where
  "sample_event i t = outbox_row i t ''backup.create'' ''b1'' JNull"

definition outbox_db :: db where
  "outbox_db = sample_db\<lparr>outbox := [sample_event ''e1'' 1, sample_event ''e2'' 0]\<rparr>"

lemmas outbox_db_defs = outbox_db_def sample_event_def outbox_row_def claim_event_def claim_oldest_def
  outbox_claimable_def outbox_lease_def order_by_def noon_def minutes_def

definition busy_minutes :: "outbox_event_step list" where
  "busy_minutes = [Claim noon ''w2'', Report (noon + 1) ''w2'' (sample_event ''e1'' 1) None,
     Report (noon + 1) ''w2'' (sample_event ''e2'' 0) None, Claim (noon + minutes 4) ''w2'']"

theorem outbox_claims_distinct_witness:
  "\<exists>e d1. claim_event noon ''w1'' outbox_db = (Some e, d1) \<and> ob_id e = ''e2'' \<and>
     handed_out busy_minutes d1 = [''e1''] \<and> ''e2'' \<notin> set (handed_out busy_minutes d1)"
proof -
  let ?e1 = "outbox_lease noon ''w1'' (sample_event ''e2'' 0)"
  let ?d1 = "outbox_db\<lparr>outbox := [sample_event ''e1'' 1, ?e1]\<rparr>"
  have claim: "claim_event noon ''w1'' outbox_db = (Some ?e1, ?d1)" by (simp add: outbox_db_defs)
  have id: "ob_id ?e1 = ''e2''" by (simp add: outbox_db_defs)
  have "list_all (during_lease noon ''w1'' (ob_id ?e1)) busy_minutes"
    by (simp add: busy_minutes_def id minutes_def)
  from outbox_claims_distinct [OF claim this] have "''e2'' \<notin> set (handed_out busy_minutes ?d1)" by (simp only: id not_False_eq_True)
  moreover have "handed_out busy_minutes ?d1 = [''e1'']"
    by (simp add: busy_minutes_def outbox_db_defs step_result_def finish_event_def update_outbox_def upd_def
        holds_lease_def)
  ultimately show ?thesis using claim id by (intro exI conjI)
qed

text \<open>
  C18: an event that was handed to another worker after the first one's lease ran out can no longer
  be settled by the first one: its late report leaves the database as it is.
\<close>

theorem stale_worker_ignored:
  assumes "claim_event now w' d = (Some e', d')"
    and "ob_id claimed = ob_id e'" and "w \<noteq> w'"
  shows "finish_event t w claimed err d' = Inr d'"
proof -
  from assms(1) obtain t' where claim: "claim_oldest ob_id ob_created_at (outbox_claimable now)
      (outbox_lease now w') (outbox d) = Some (e', t')" and d': "d' = d\<lparr>outbox := t'\<rparr>"
    by (auto simp: claim_event_def split: option.splits)
  from claim_oldest_SomeD [OF claim] obtain r0 where r0: "r0 \<in> set (outbox d)" "e' = outbox_lease now w' r0"
    and t': "t' = upd (\<lambda>x. ob_id x = ob_id r0) (outbox_lease now w') (outbox d)" by blast
  have "\<forall>x \<in> set t'. \<not> holds_lease (ob_id claimed) w x"
    using assms(2,3) r0(2) unfolding t' set_upd by (auto simp: holds_lease_def outbox_lease_def)
  then show ?thesis
    by (cases err) (simp_all add: finish_event_def update_outbox_def d' upd_none)
qed

theorem stale_worker_ignored_witness:
  "\<exists>e1 d1 e2 d2. claim_event noon ''w1'' outbox_db = (Some e1, d1) \<and>
     claim_event (noon + minutes 6) ''w2'' d1 = (Some e2, d2) \<and> ob_id e1 = ob_id e2 \<and>
     finish_event (noon + minutes 7) ''w1'' e1 None d2 = Inr d2"
proof -
  let ?e1 = "outbox_lease noon ''w1'' (sample_event ''e2'' 0)"
  let ?d1 = "outbox_db\<lparr>outbox := [sample_event ''e1'' 1, ?e1]\<rparr>"
  let ?e2 = "outbox_lease (noon + minutes 6) ''w2'' ?e1"
  let ?d2 = "?d1\<lparr>outbox := [sample_event ''e1'' 1, ?e2]\<rparr>"
  have first: "claim_event noon ''w1'' outbox_db = (Some ?e1, ?d1)"
    by (simp add: outbox_db_def sample_event_def outbox_row_def claim_event_def claim_oldest_def
        outbox_claimable_def outbox_lease_def order_by_def noon_def minutes_def)
  have second: "claim_event (noon + minutes 6) ''w2'' ?d1 = (Some ?e2, ?d2)"
    by (simp add: outbox_db_def sample_event_def outbox_row_def claim_event_def claim_oldest_def
        outbox_claimable_def outbox_lease_def order_by_def noon_def minutes_def)
  from stale_worker_ignored [OF second, of ?e1 "''w1''" "noon + minutes 7" None]
  have "finish_event (noon + minutes 7) ''w1'' ?e1 None ?d2 = Inr ?d2" by (simp add: outbox_lease_def)
  with first second show ?thesis by (auto simp: outbox_lease_def)
qed

definition reopened :: "time \<Rightarrow> error \<Rightarrow> outbox_event \<Rightarrow> bool" where
  "reopened fin f r \<longleftrightarrow> ob_last_error r = Some (truncate_to 2000 (error_text f)) \<and>
     fin \<le> ob_available_at r \<and> ob_available_at r \<le> fin + interval_of hour \<and>
     (if retry_after f = None
      then fin + seconds 1 \<le> ob_available_at r \<and> ob_available_at r \<le> fin + seconds 256 else True)"

text \<open>What becomes of a row \<open>r\<close> of the outbox that the handler of event \<open>i\<close> left behind.\<close>

definition settled_by :: "uuid \<Rightarrow> uuid \<Rightarrow> time \<Rightarrow> error option \<Rightarrow> outbox_event \<Rightarrow> outbox_event \<Rightarrow> bool" where
  "settled_by i w fin err r r' \<longleftrightarrow>
     (if ob_id r = i \<and> ob_locked_by r = Some w then
        ob_id r' = i \<and> ob_locked_at r' = None \<and> ob_locked_by r' = None \<and> ob_attempts r' = ob_attempts r \<and>
        (case err of
           None \<Rightarrow> ob_processed_at r' = Some fin \<and> ob_last_error r' = None
         | Some f \<Rightarrow> ob_processed_at r' = ob_processed_at r \<and> reopened fin f r') \<and>
        (\<forall>t. outbox_claimable t r' \<longleftrightarrow> err \<noteq> None \<and> ob_processed_at r = None \<and> ob_available_at r' \<le> t)
      else r' = r)"

lemma list_all2_upd: "list_all2 q xs (upd p f xs) \<longleftrightarrow> (\<forall>x \<in> set xs. q x (if p x then f x else x))"
  by (simp add: upd_def list_all2_conv_all_nth all_set_conv_all_nth)

text \<open>
  C19: a pass settles the event it claimed, whatever the handler answers and in whatever state it,
  and whoever else wrote meanwhile, leaves the database: as long as the worker still holds the lease
  the event is processed after a success, and after a failure it is without a lease, with the error
  recorded (at most 2000 bytes of it), and available not before the failure and at most an hour
  after it, the pause being between one second and 256 seconds unless the handler asked for another.
  From then on it can be claimed, unless it was closed meanwhile by a stop or an external deletion:
  then it stays closed.  Nothing else of the database is changed.
\<close>

theorem event_settled:
  assumes claim: "claim_event now w d = (Some e, d1)" and handled: "handle e d1 = (err, d2)"
    and attempts: "list_all (\<lambda>x. 0 \<le> ob_attempts x) (outbox d)"
  shows "\<exists>t. processOne handle now fin w d = (None, d2\<lparr>outbox := t\<rparr>) \<and>
    list_all2 (settled_by (ob_id e) w fin err) (outbox d2) t"
proof -
  from claim obtain t where oldest: "claim_oldest ob_id ob_created_at (outbox_claimable now) (outbox_lease now w)
      (outbox d) = Some (e, t)" by (auto simp: claim_event_def split: option.splits)
  from claim_oldest_SomeD [OF oldest] obtain r0 where r0: "r0 \<in> set (outbox d)" "e = outbox_lease now w r0" by blast
  have "1 \<le> ob_attempts e" using attempts r0 by (simp add: list_all_iff outbox_lease_def)
  show ?thesis
  proof (cases err)
    case None
    then show ?thesis
      by (simp add: processOne_def claim handled finish_event_def update_outbox_def)
        (auto simp: list_all2_upd settled_by_def holds_lease_def outbox_claimable_def intro!: exI)
  next
    case (Some g)
    let ?at = "fin + interval_of (event_backoff (ob_attempts e) g)"
    let ?f = "\<lambda>e'. e'\<lparr>ob_available_at := ?at, ob_locked_at := None, ob_locked_by := None,
      ob_last_error := Some (truncate_to 2000 (error_text g))\<rparr>"
    have run: "processOne handle now fin w d =
        (None, d2\<lparr>outbox := upd (holds_lease (ob_id e) w) ?f (outbox d2)\<rparr>)"
      by (simp add: processOne_def claim handled Some finish_event_def update_outbox_def)
    note range = event_backoff_range [OF \<open>1 \<le> ob_attempts e\<close>, of g]
    have "fin \<le> ?at" using range(1) by (simp add: interval_of_def)
    moreover have "?at \<le> fin + interval_of hour" using interval_of_mono [OF range(2)] by simp
    moreover have "fin + seconds 1 \<le> ?at \<and> ?at \<le> fin + seconds 256" if "retry_after g = None"
      using that \<open>1 \<le> ob_attempts e\<close> worker_retries.interval_least [of "ob_attempts e"]
        worker_retries.next_attempt_by [of fin "ob_attempts e"]
      by (simp add: event_backoff_def seconds_def interval_of_seconds)
    ultimately have "reopened fin g (?f r)" for r by (simp add: reopened_def)
    then show ?thesis unfolding run Some
      by (intro exI conjI [OF refl]) (auto simp: list_all2_upd settled_by_def holds_lease_def outbox_claimable_def)
  qed
qed

text \<open>A handler that fails, and one that fails after a stop has closed its event.\<close>

definition closing_handler :: "bool \<Rightarrow> outbox_event \<Rightarrow> db \<Rightarrow> error option \<times> db" where
  "closing_handler closes e d = (Some ErrConflict,
     if closes then snd (outbox_step (Close noon (\<lambda>x. ob_id x = ob_id e) ''cancelled'') d) else d)"

theorem event_settled_witness:
  "(\<exists>t. processOne (closing_handler False) noon (noon + 1) ''w1'' outbox_db = (None, outbox_db\<lparr>outbox := t\<rparr>) \<and>
      (\<exists>r \<in> set t. ob_id r = ''e2'' \<and> ob_attempts r = 1 \<and> ob_locked_at r = None \<and> ob_processed_at r = None \<and>
        noon + 1 + seconds 1 \<le> ob_available_at r)) \<and>
   (\<exists>t. processOne (closing_handler True) noon (noon + 1) ''w1'' outbox_db = (None, outbox_db\<lparr>outbox := t\<rparr>) \<and>
      (\<exists>r \<in> set t. ob_id r = ''e2'' \<and> \<not> outbox_claimable (noon + minutes 60) r))"
proof -
  let ?e1 = "outbox_lease noon ''w1'' (sample_event ''e2'' 0)"
  let ?d1 = "outbox_db\<lparr>outbox := [sample_event ''e1'' 1, ?e1]\<rparr>"
  let ?e2 = "?e1\<lparr>ob_processed_at := Some noon, ob_last_error := Some ''cancelled''\<rparr>"
  let ?d2 = "outbox_db\<lparr>outbox := [sample_event ''e1'' 1, ?e2]\<rparr>"
  have claim: "claim_event noon ''w1'' outbox_db = (Some ?e1, ?d1)" by (simp add: outbox_db_defs)
  have counts: "list_all (\<lambda>x. 0 \<le> ob_attempts x) (outbox outbox_db)" by (simp add: outbox_db_defs)
  have fails: "closing_handler False ?e1 ?d1 = (Some ErrConflict, ?d1)" by (simp add: closing_handler_def)
  have closed: "closing_handler True ?e1 ?d1 = (Some ErrConflict, ?d2)"
    by (simp add: closing_handler_def step_result_def update_outbox_def upd_def outbox_db_defs)
  have row: "ob_id ?e1 = ''e2''" "ob_locked_by ?e1 = Some ''w1''" "ob_processed_at ?e1 = None" "ob_attempts ?e1 = 1"
    by (simp_all add: outbox_db_defs)
  note first = event_settled [where handle = "closing_handler False" and fin = "noon + 1", OF claim fails counts]
  note second = event_settled [where handle = "closing_handler True" and fin = "noon + 1", OF claim closed counts]
  show ?thesis
  proof
    from first obtain x r where run: "processOne (closing_handler False) noon (noon + 1) ''w1'' outbox_db =
        (None, ?d1\<lparr>outbox := [x, r]\<rparr>)" and r: "settled_by ''e2'' ''w1'' (noon + 1) (Some ErrConflict) ?e1 r"
      by (auto simp: list_all2_Cons1 row)
    from r have "ob_id r = ''e2'' \<and> ob_attempts r = 1 \<and> ob_locked_at r = None \<and> ob_processed_at r = None \<and>
        noon + 1 + seconds 1 \<le> ob_available_at r" by (simp add: settled_by_def row reopened_def)
    with run show "\<exists>t. processOne (closing_handler False) noon (noon + 1) ''w1'' outbox_db =
        (None, outbox_db\<lparr>outbox := t\<rparr>) \<and> (\<exists>r \<in> set t. ob_id r = ''e2'' \<and> ob_attempts r = 1 \<and>
          ob_locked_at r = None \<and> ob_processed_at r = None \<and> noon + 1 + seconds 1 \<le> ob_available_at r)"
      by (intro exI [of _ "[x, r]"]) simp
  next
    from second obtain x r where run: "processOne (closing_handler True) noon (noon + 1) ''w1'' outbox_db =
        (None, ?d2\<lparr>outbox := [x, r]\<rparr>)" and r: "settled_by ''e2'' ''w1'' (noon + 1) (Some ErrConflict) ?e2 r"
      by (auto simp: list_all2_Cons1 row)
    from r have "ob_id r = ''e2'' \<and> \<not> outbox_claimable (noon + minutes 60) r" by (simp add: settled_by_def row)
    with run show "\<exists>t. processOne (closing_handler True) noon (noon + 1) ''w1'' outbox_db =
        (None, outbox_db\<lparr>outbox := t\<rparr>) \<and> (\<exists>r \<in> set t. ob_id r = ''e2'' \<and> \<not> outbox_claimable (noon + minutes 60) r)"
      by (intro exI [of _ "[x, r]"]) simp
  qed
qed

text \<open>
  Events are served oldest first: a claim returns the eligible event that was created first,
  counts the attempt and takes a lease for the worker; no event is returned only when none is eligible.
\<close>

theorem outbox_oldest_first:
  "case claim_event now w d of
     (None, d1) \<Rightarrow> d1 = d \<and> (\<forall>x \<in> set (outbox d). \<not> outbox_claimable now x)
   | (Some e, d1) \<Rightarrow> (\<exists>r0 \<in> set (outbox d). outbox_claimable now r0 \<and> e = outbox_lease now w r0 \<and>
        e \<in> set (outbox d1) \<and> (\<forall>x \<in> set (outbox d). outbox_claimable now x \<longrightarrow> ob_created_at r0 \<le> ob_created_at x) \<and>
        (\<forall>x \<in> set (outbox d). ob_id x \<noteq> ob_id e \<longrightarrow> x \<in> set (outbox d1)))"
proof (cases "claim_oldest ob_id ob_created_at (outbox_claimable now) (outbox_lease now w) (outbox d)")
  case None
  then have "\<forall>x \<in> set (outbox d). \<not> outbox_claimable now x" by (simp add: claim_oldest_None)
  with None show ?thesis by (simp add: claim_event_def)
next
  case (Some p)
  obtain e t where p: "p = (e, t)" by fastforce
  from claim_oldest_SomeD [OF Some [unfolded p]] obtain r0 where r0: "r0 \<in> set (outbox d)" "outbox_claimable now r0"
    "e = outbox_lease now w r0" "t = upd (\<lambda>x. ob_id x = ob_id r0) (outbox_lease now w) (outbox d)"
    "\<forall>x \<in> set (outbox d). outbox_claimable now x \<longrightarrow> ob_created_at r0 \<le> ob_created_at x" by blast
  have "e \<in> set t" unfolding r0(3,4) set_upd using r0(1) by force
  moreover have "\<forall>x \<in> set (outbox d). ob_id x \<noteq> ob_id e \<longrightarrow> x \<in> set t"
    using outbox_leases.claim_others [OF Some [unfolded p]] by blast
  ultimately show ?thesis using r0 by (auto simp: claim_event_def Some p)
qed

theorem outbox_oldest_first_witness:
  "\<exists>e d1. claim_event noon ''w1'' outbox_db = (Some e, d1) \<and> ob_id e = ''e2'' \<and> ob_attempts e = 1 \<and>
     sample_event ''e1'' 1 \<in> set (outbox d1)"
proof -
  let ?e1 = "outbox_lease noon ''w1'' (sample_event ''e2'' 0)"
  let ?d1 = "outbox_db\<lparr>outbox := [sample_event ''e1'' 1, ?e1]\<rparr>"
  have claim: "claim_event noon ''w1'' outbox_db = (Some ?e1, ?d1)"
    by (simp add: outbox_db_def sample_event_def outbox_row_def claim_event_def claim_oldest_def
        outbox_claimable_def outbox_lease_def order_by_def noon_def minutes_def)
  have other: "sample_event ''e1'' 1 \<in> set (outbox outbox_db)" "ob_id (sample_event ''e1'' 1) \<noteq> ob_id ?e1"
    "outbox_claimable noon (sample_event ''e1'' 1)"
    by (simp_all add: outbox_db_def outbox_lease_def sample_event_def outbox_row_def outbox_claimable_def noon_def)
  have id: "ob_id ?e1 = ''e2''" "ob_attempts ?e1 = 1" "ob_created_at ?e1 = 0"
    by (simp_all add: outbox_lease_def sample_event_def outbox_row_def)
  from outbox_oldest_first [where now = noon and w = "''w1''" and d = outbox_db] other(1,2)
  have "sample_event ''e1'' 1 \<in> set (outbox ?d1)" unfolding claim prod.case option.case by blast
  with claim id show ?thesis by blast
qed

section \<open>The webhook deliveries\<close>

fun claim_webhooks :: "time list \<Rightarrow> db \<Rightarrow> uuid list" where
  "claim_webhooks [] d = []"
| "claim_webhooks (now # ts) d =
     (case ClaimWebhookDelivery now d of
        (Inl e, d1) \<Rightarrow> claim_webhooks ts d1
      | (Inr job, d1) \<Rightarrow> wj_delivery_id job # claim_webhooks ts d1)"

lemma claim_webhooks_sequence:
  "set (claim_webhooks ts d) \<subseteq> set (fst (claim_sequence wd_id wd_created_at webhook_claimable webhook_lease
     (map (\<lambda>t. (t, ())) ts) (webhook_deliveries d))) \<and>
   (distinct (fst (claim_sequence wd_id wd_created_at webhook_claimable webhook_lease
     (map (\<lambda>t. (t, ())) ts) (webhook_deliveries d))) \<longrightarrow> distinct (claim_webhooks ts d))"
proof (induction ts arbitrary: d)
  case Nil
  then show ?case by simp
next
  case (Cons now ts)
  let ?seq = "\<lambda>t. fst (claim_sequence wd_id wd_created_at webhook_claimable webhook_lease (map (\<lambda>t. (t, ())) ts) t)"
  show ?case
  proof (cases "claim_oldest wd_id wd_created_at (webhook_claimable now) (webhook_lease now ()) (webhook_deliveries d)")
    case None
    then have "ClaimWebhookDelivery now d = (Inl ErrNotFound, d)" by (simp add: ClaimWebhookDelivery_def)
    with Cons.IH [of d] None show ?thesis by simp
  next
    case (Some p)
    obtain r t where p: "p = (r, t)" by fastforce
    let ?d1 = "d\<lparr>webhook_deliveries := t\<rparr>"
    have claim: "ClaimWebhookDelivery now d = (webhook_job_of d r, ?d1)"
      by (simp add: ClaimWebhookDelivery_def Some p)
    have seq: "fst (claim_sequence wd_id wd_created_at webhook_claimable webhook_lease
        (map (\<lambda>t. (t, ())) (now # ts)) (webhook_deliveries d)) = wd_id r # ?seq t"
      by (simp add: Some p split: prod.split)
    show ?thesis
    proof (cases "webhook_job_of d r")
      case (Inl e)
      with Cons.IH [of ?d1] claim seq show ?thesis by auto
    next
      case (Inr job)
      then have "wj_delivery_id job = wd_id r" by (auto simp: webhook_job_of_def split: option.splits)
      with Cons.IH [of ?d1] claim seq Inr show ?thesis by auto
    qed
  qed
qed

text \<open>
  Within five minutes every webhook delivery is handed to a worker at most once, whatever
  number of workers claim deliveries.
\<close>

theorem webhook_claims_distinct:
  assumes "sorted ts" and "\<forall>t \<in> set ts. t0 \<le> t \<and> t < t0 + minutes 5"
  shows "distinct (claim_webhooks ts d)"
proof -
  have "map fst (map (\<lambda>t. (t, ())) ts) = ts" by (simp add: comp_def)
  with assms have "distinct (fst (claim_sequence wd_id wd_created_at webhook_claimable webhook_lease
      (map (\<lambda>t. (t, ())) ts) (webhook_deliveries d)))"
    by (intro webhook_leases.claim_sequence_distinct [of _ t0]) auto
  with claim_webhooks_sequence [of ts d] show ?thesis by blast
qed

definition test_event :: activity_event where
  "test_event = activity_row ''ev'' 0 (Some ''s1'') None ''server.stopped'' ''info'' ''Stopped'' JNull"

definition webhook_db :: db where
  "webhook_db = sample_db\<lparr>activity := [test_event],
     webhook_deliveries := [queued_delivery ''d1'' ''w1'' ''ev'' 0, queued_delivery ''d2'' ''w1'' ''ev'' 1]\<rparr>"

lemmas webhook_db_defs = webhook_db_def test_event_def queued_delivery_def ClaimWebhookDelivery_def
  claim_oldest_def order_by_def webhook_claimable_def webhook_lease_def coalesce_def webhook_job_of_def
  sample_destination_def activity_row_def noon_def minutes_def

theorem webhook_claims_distinct_witness:
  "claim_webhooks [noon, noon, noon + 1] webhook_db = [''d1'', ''d2''] \<and>
   distinct (claim_webhooks [noon, noon, noon + 1] webhook_db)"
proof
  show "claim_webhooks [noon, noon, noon + 1] webhook_db = [''d1'', ''d2'']" by (simp add: webhook_db_defs)
  show "distinct (claim_webhooks [noon, noon, noon + 1] webhook_db)"
    by (rule webhook_claims_distinct [where ?t0.0 = noon]) (simp_all add: minutes_def)
qed

text \<open>The stored delivery after a report.\<close>

lemma processOneWebhook_row:
  assumes "ClaimWebhookDelivery now d = (Inr job, d1)" and r_def: "r = deliver bx send job"
  shows "\<exists>d2. processOneWebhook sn bx send now fin d = (None, d2) \<and>
    (\<exists>w \<in> set (webhook_deliveries d2). wd_id w = wj_delivery_id job \<and> wd_attempts w = wj_attempts job \<and>
      (case sr_error r of
         None \<Rightarrow> wd_status w = ''succeeded'' \<and> wd_delivered_at w = Some fin \<and> wd_next_attempt_at w = None
       | Some e \<Rightarrow>
           (if sr_permanent r then wd_status w = ''dead'' \<and> wd_next_attempt_at w = None
            else wd_status w = ''retrying'' \<and>
              wd_next_attempt_at w = Some (fin + interval_of (clamp_retry (sr_retry_after r))))))"
proof -
  from assms(1) obtain x t where oldest: "claim_oldest wd_id wd_created_at (webhook_claimable now)
      (webhook_lease now ()) (webhook_deliveries d) = Some (x, t)"
    and job: "webhook_job_of d x = Inr job" and d1: "d1 = d\<lparr>webhook_deliveries := t\<rparr>"
    by (auto simp: ClaimWebhookDelivery_def split: option.splits)
  from claim_oldest_SomeD [OF oldest] obtain r0 where r0: "r0 \<in> set (webhook_deliveries d)" "x = webhook_lease now () r0"
    "t = upd (\<lambda>y. wd_id y = wd_id r0) (webhook_lease now ()) (webhook_deliveries d)" by blast
  have x: "x \<in> set (webhook_deliveries d1)" unfolding d1 r0(2,3) using r0(1) by (auto simp: set_upd)
  have ids: "wd_id x = wj_delivery_id job" "wd_attempts x = wj_attempts job"
    using job by (auto simp: webhook_job_of_def split: option.splits)
  have row: "f x \<in> set (upd (\<lambda>y. wd_id y = wj_delivery_id job) f (webhook_deliveries d1))" for f
    unfolding set_upd using x ids(1) by force
  show ?thesis
  proof (cases "sr_error r")
    case None
    let ?f = "\<lambda>y. y\<lparr>wd_status := ''succeeded'', wd_response_status := Some (sr_status r), wd_last_error := None,
      wd_next_attempt_at := None, wd_delivered_at := Some fin\<rparr>"
    have "processOneWebhook sn bx send now fin d =
        (None, d1\<lparr>webhook_deliveries := upd (\<lambda>y. wd_id y = wj_delivery_id job) ?f (webhook_deliveries d1)\<rparr>)"
      using None by (simp add: processOneWebhook_def assms(1) r_def [symmetric] Let_def FinishWebhookDelivery_def update_stmt_defs)
    with row [of ?f] ids None show ?thesis by (auto intro!: bexI [of _ "?f x"])
  next
    case (Some e)
    let ?f = "\<lambda>y. y\<lparr>wd_status := (if sr_permanent r then ''dead'' else ''retrying''),
      wd_response_status := (if sr_status r = 0 then None else Some (sr_status r)),
      wd_last_error := Some (truncate_to 2000 (sn (error_text e))),
      wd_next_attempt_at := (if sr_permanent r then None
        else Some (fin + interval_of (clamp_retry (sr_retry_after r))))\<rparr>"
    have "processOneWebhook sn bx send now fin d =
        (None, d1\<lparr>webhook_deliveries := upd (\<lambda>y. wd_id y = wj_delivery_id job) ?f (webhook_deliveries d1)\<rparr>)"
      using Some by (simp add: processOneWebhook_def assms(1) r_def [symmetric] Let_def FinishWebhookDelivery_def update_stmt_defs)
    with row [of ?f] ids Some show ?thesis by (auto intro!: bexI [of _ "?f x"])
  qed
qed

lemma send_permanent: "sr_error (Send env clock do job url secret) \<noteq> None \<Longrightarrow> 10 \<le> wj_attempts job \<Longrightarrow>
  sr_permanent (Send env clock do job url secret)"
  by (auto simp: Send_def interpret_response_def refused_def Let_def split: option.splits sum.splits if_splits)

lemma deliver_permanent: "sr_error (deliver bx (Send env clock do) job) \<noteq> None \<Longrightarrow> 10 \<le> wj_attempts job \<Longrightarrow>
  sr_permanent (deliver bx (Send env clock do) job)"
  using send_permanent by (auto simp: deliver_def refused_def split: sum.splits)

definition sample_env :: "string \<Rightarrow> webhook_env" where
  "sample_env scheme = \<lparr> we_url_parse = (\<lambda>u. Inr \<lparr> pu_scheme = scheme, pu_host = ''discord.com'',
       pu_hostname = ''discord.com'', pu_path = ''/api/webhooks/1/x'', pu_has_user = False, pu_fragment = [] \<rparr>),
     we_parse_ip = (\<lambda>s. None), we_with_wait = pu_host, we_marshal = (\<lambda>j. []), we_hmac_hex = (\<lambda>k m. k),
     we_rfc3339 = itoa, we_timestamp = itoa, we_parse_float = (\<lambda>s. None), we_parse_time = (\<lambda>s. None) \<rparr>"

lemma sample_claim: "\<exists>job d1. ClaimWebhookDelivery noon webhook_db = (Inr job, d1) \<and> wj_delivery_id job = ''d1''"
  by (simp add: webhook_db_defs)

text \<open>
  C22: a claimed delivery is settled by the pass that claimed it: it has succeeded, or it is dead,
  or it is retried, and then no earlier than a second and no later than an hour after the failure,
  and only if it has been attempted fewer than ten times: no destination is called more than ten
  times for one delivery.
\<close>

theorem webhook_delivery_settled:
  assumes "ClaimWebhookDelivery now d = (Inr job, d1)"
  shows "\<exists>d2. processOneWebhook sn bx (Send env clock do) now fin d = (None, d2) \<and>
    (\<exists>w \<in> set (webhook_deliveries d2). wd_id w = wj_delivery_id job \<and> wd_attempts w = wj_attempts job \<and>
      (wd_status w = ''succeeded'' \<or> wd_status w = ''dead'' \<or>
       wd_status w = ''retrying'' \<and> wd_attempts w < 10 \<and>
       (\<exists>t. wd_next_attempt_at w = Some t \<and> fin + seconds 1 \<le> t \<and> t \<le> fin + interval_of hour)))"
proof -
  let ?r = "deliver bx (Send env clock do) job"
  from processOneWebhook_row [OF assms refl, where sn = sn and bx = bx and send = "Send env clock do" and fin = fin]
  obtain d2 w where run: "processOneWebhook sn bx (Send env clock do) now fin d = (None, d2)"
    and w: "w \<in> set (webhook_deliveries d2)" "wd_id w = wj_delivery_id job" "wd_attempts w = wj_attempts job"
    and row: "case sr_error ?r of
         None \<Rightarrow> wd_status w = ''succeeded'' \<and> wd_delivered_at w = Some fin \<and> wd_next_attempt_at w = None
       | Some e \<Rightarrow>
           (if sr_permanent ?r then wd_status w = ''dead'' \<and> wd_next_attempt_at w = None
            else wd_status w = ''retrying'' \<and>
              wd_next_attempt_at w = Some (fin + interval_of (clamp_retry (sr_retry_after ?r))))" by blast
  have "interval_of second \<le> interval_of (clamp_retry (sr_retry_after ?r))"
    "interval_of (clamp_retry (sr_retry_after ?r)) \<le> interval_of hour"
    using clamp_retry_range interval_of_mono by blast+
  moreover have "interval_of second = seconds 1" using interval_of_seconds [of 1] by (simp add: seconds_def)
  ultimately have "wd_status w = ''succeeded'' \<or> wd_status w = ''dead'' \<or>
       wd_status w = ''retrying'' \<and> wd_attempts w < 10 \<and>
       (\<exists>t. wd_next_attempt_at w = Some t \<and> fin + seconds 1 \<le> t \<and> t \<le> fin + interval_of hour)"
    using row deliver_permanent [of bx env clock do job] w(3)
    by (cases "wj_attempts job < 10") (auto split: option.splits if_splits)
  with run w show ?thesis by blast
qed

theorem webhook_delivery_settled_witness:
  "\<exists>d2. processOneWebhook (\<lambda>s. s) (\<lambda>s c. Inr s) (Send (sample_env ''https'') noon (\<lambda>r. Inl ErrConflict))
      noon noon webhook_db = (None, d2) \<and>
    (\<exists>w \<in> set (webhook_deliveries d2). wd_id w = ''d1'' \<and> wd_status w \<in> {''succeeded'', ''dead'', ''retrying''})"
proof -
  obtain job d1 where claim: "ClaimWebhookDelivery noon webhook_db = (Inr job, d1)" and id: "wj_delivery_id job = ''d1''"
    using sample_claim by blast
  from webhook_delivery_settled [OF claim, where sn = "\<lambda>s. s" and bx = "\<lambda>s c. Inr s" and
      env = "sample_env ''https''" and clock = noon and do = "\<lambda>r. Inl ErrConflict" and fin = noon]
  show ?thesis unfolding id by blast
qed

text \<open>
  A destination whose URL is not acceptable (not https, with credentials or a fragment, for
  localhost or an address that is not public, or not a Discord webhook path) is never called: the
  pass does the same with every transport, and the delivery is dead.
\<close>

theorem refused_url_never_called:
  assumes claim: "ClaimWebhookDelivery now d = (Inr job, d1)"
    and url: "bx (wj_url_encrypted job) (url_context (wj_destination_id job)) = Inr rawURL"
    and bad: "ValidateURL env rawURL (wj_kind job) \<noteq> None"
  shows "processOneWebhook sn bx (Send env clock do) now fin d = processOneWebhook sn bx (Send env clock do') now fin d \<and>
    (\<exists>w \<in> set (webhook_deliveries (snd (processOneWebhook sn bx (Send env clock do) now fin d))).
       wd_id w = wj_delivery_id job \<and> wd_status w = ''dead'')"
proof -
  have same: "deliver bx (Send env clock do) job = deliver bx (Send env clock do') job" for do do'
    using url bad by (auto simp: deliver_def Send_def split: sum.splits)
  have "sr_error (deliver bx (Send env clock do) job) \<noteq> None" "sr_permanent (deliver bx (Send env clock do) job)" for do
    using url bad by (auto simp: deliver_def Send_def refused_def split: sum.splits option.splits)
  with processOneWebhook_row [OF claim refl, where sn = sn and bx = bx and send = "Send env clock do" and fin = fin]
  have "\<exists>w \<in> set (webhook_deliveries (snd (processOneWebhook sn bx (Send env clock do) now fin d))).
       wd_id w = wj_delivery_id job \<and> wd_status w = ''dead''"
    by (auto split: option.splits)
  moreover have "processOneWebhook sn bx (Send env clock do) now fin d = processOneWebhook sn bx (Send env clock do') now fin d"
    by (simp add: processOneWebhook_def claim Let_def same [of do do'])
  ultimately show ?thesis by blast
qed

theorem refused_url_never_called_witness:
  "\<exists>w \<in> set (webhook_deliveries (snd (processOneWebhook (\<lambda>s. s) (\<lambda>s c. Inr s)
      (Send (sample_env ''http'') noon (\<lambda>r. Inl ErrConflict)) noon noon webhook_db))).
     wd_id w = ''d1'' \<and> wd_status w = ''dead''"
proof -
  obtain job d1 where claim: "ClaimWebhookDelivery noon webhook_db = (Inr job, d1)" and id: "wj_delivery_id job = ''d1''"
    using sample_claim by blast
  have "ValidateURL (sample_env ''http'') url kind \<noteq> None" for url kind
    by (simp add: ValidateURL_def sample_env_def)
  from refused_url_never_called [where bx = "\<lambda>s c. Inr s", OF claim refl this, where sn = "\<lambda>s. s" and clock = noon and
      do = "\<lambda>r. Inl ErrConflict" and fin = noon]
  show ?thesis unfolding id by blast
qed

end
