(* ===== verification/Address_Properties.thy ===== *)
theory Address_Properties
  imports Webhooks
begin

unbundle bit_operations_syntax

text \<open>
  The test for public addresses against its specification: an address is refused exactly when it
  lies in one of the reserved blocks, written as address and prefix length, and an IPv4 address
  mapped into IPv6 is treated as the IPv4 address.
\<close>

section \<open>Blocks of addresses\<close>

text \<open>The address as a number, most significant byte first, and membership in a block.\<close>

fun ip_value :: "ip \<Rightarrow> int" where
  "ip_value [] = 0"
| "ip_value (b # bs) = uint b * 256 ^ length bs + ip_value bs"

definition in_block :: "ip \<Rightarrow> ip \<times> nat \<Rightarrow> bool" where
  "in_block address block =
     (case block of (base, n) \<Rightarrow> length address = length base \<and>
        ip_value address div 2 ^ (8 * length address - n) = ip_value base div 2 ^ (8 * length address - n))"

definition reserved_v4 :: "(ip \<times> nat) list" where
  "reserved_v4 = [([127, 0, 0, 0], 8), ([10, 0, 0, 0], 8), ([172, 16, 0, 0], 12), ([192, 168, 0, 0], 16),
     ([0, 0, 0, 0], 32), ([169, 254, 0, 0], 16), ([224, 0, 0, 0], 24), ([224, 0, 0, 0], 4)]"

definition reserved_v6 :: "(ip \<times> nat) list" where
  "reserved_v6 = [(replicate 15 0 @ [1], 128), (0xFC # replicate 15 0, 7), (replicate 16 0, 128),
     (0xFE # 0x80 # replicate 14 0, 10), (0xFF # replicate 15 0, 8)]"

lemma ip_value_range: "0 \<le> ip_value bs \<and> ip_value bs < 256 ^ length bs"
proof (induction bs)
  case Nil
  then show ?case by simp
next
  case (Cons b bs)
  have b: "0 \<le> uint b" "uint b \<le> 255" using uint_lt2p [of b] by simp_all
  have "uint b * 256 ^ length bs \<le> 255 * 256 ^ length bs" using b by (intro mult_right_mono) simp_all
  with Cons.IH have "uint b * 256 ^ length bs + ip_value bs < 256 * 256 ^ length bs" by linarith
  with Cons.IH b show ?case by simp
qed

lemma ip_value_append: "ip_value (xs @ ys) = ip_value xs * 256 ^ length ys + ip_value ys"
  by (induction xs) (simp_all add: algebra_simps power_add)

lemma ip_value_inject: "length xs = length ys \<Longrightarrow> ip_value xs = ip_value ys \<longleftrightarrow> xs = ys"
proof (induction xs ys rule: list_induct2)
  case Nil
  then show ?case by simp
next
  case (Cons x xs y ys)
  let ?m = "256 ^ length ys :: int"
  have "(uint x * ?m + ip_value xs) div ?m = uint x" "(uint y * ?m + ip_value ys) div ?m = uint y"
    using ip_value_range [of xs] ip_value_range [of ys] Cons.hyps by simp_all
  moreover have "(uint x * ?m + ip_value xs) mod ?m = ip_value xs" "(uint y * ?m + ip_value ys) mod ?m = ip_value ys"
    using ip_value_range [of xs] ip_value_range [of ys] Cons.hyps by simp_all
  ultimately have "uint x * ?m + ip_value xs = uint y * ?m + ip_value ys \<longleftrightarrow> uint x = uint y \<and> ip_value xs = ip_value ys"
    by metis
  with Cons show ?case by (simp add: word_uint_eq_iff)
qed

text \<open>Only the bytes that the prefix reaches matter.\<close>

lemma in_block_prefix:
  assumes "length xs = length bs" and "length ys = length cs" and "j \<le> 8 * length xs"
  shows "in_block (xs @ ys) (bs @ cs, 8 * length xs - j) \<longleftrightarrow> ip_value xs div 2 ^ j = ip_value bs div 2 ^ j"
proof -
  have shift: "8 * (length xs + length ys) - (8 * length xs - j) = 8 * length ys + j" using assms(3) by simp
  have head: "ip_value (us @ vs) div 2 ^ (8 * length ys + j) = ip_value us div 2 ^ j" if "length vs = length ys" for us vs
  proof -
    have "(2::int) ^ (8 * length ys + j) = 256 ^ length ys * 2 ^ j" by (simp add: power_add power_mult)
    then have "ip_value (us @ vs) div 2 ^ (8 * length ys + j) = ip_value (us @ vs) div 256 ^ length ys div 2 ^ j"
      by (simp add: zdiv_zmult2_eq)
    moreover have "ip_value (us @ vs) div 256 ^ length ys = ip_value us"
      using ip_value_range [of vs] that by (simp add: ip_value_append)
    ultimately show ?thesis by simp
  qed
  show ?thesis using assms head [of ys xs] head [of cs bs] by (simp add: in_block_def shift)
qed

lemma in_block_whole:
  "length xs = length bs \<Longrightarrow> in_block xs (bs, 8 * length xs) \<longleftrightarrow> xs = bs"
  using in_block_prefix [of xs bs "[]" "[]" 0] by (simp add: ip_value_inject)

section \<open>Masks\<close>

lemma and_high:
  assumes "k \<le> 8"
  shows "(w :: 8 word) AND push_bit k (mask (8 - k)) = push_bit k (drop_bit k w)"
proof (rule bit_word_eqI)
  fix n assume "n < LENGTH(8)"
  then show "bit (w AND push_bit k (mask (8 - k))) n = bit (push_bit k (drop_bit k w)) n"
    using assms by (auto simp: bit_simps)
qed

lemma uint_and_high:
  assumes "k \<le> 8"
  shows "uint ((w :: 8 word) AND push_bit k (mask (8 - k))) = 2 ^ k * (uint w div 2 ^ k)"
proof -
  have "2 ^ k * (uint w div 2 ^ k) + uint w mod 2 ^ k = uint w" by (rule mult_div_mod_eq)
  moreover have "0 \<le> uint w mod 2 ^ k" by simp
  ultimately have "2 ^ k * (uint w div 2 ^ k) \<le> uint w" by linarith
  moreover have "uint w < 256" using uint_lt2p [of w] by simp
  ultimately have "take_bit 8 (2 ^ k * (uint w div 2 ^ k)) = 2 ^ k * (uint w div 2 ^ k)"
    by (intro take_bit_int_eq_self mult_nonneg_nonneg) (simp_all add: pos_imp_zdiv_nonneg_iff)
  moreover have "take_bit 8 (uint w) = uint w"
    using uint_lt2p [of w] by (intro take_bit_int_eq_self) simp_all
  then have "uint (push_bit k (drop_bit k w)) = take_bit 8 (2 ^ k * (uint w div 2 ^ k))"
    unfolding unsigned_push_bit_eq unsigned_drop_bit_eq
    by (simp add: push_bit_eq_mult drop_bit_eq_div mult.commute)
  ultimately show ?thesis by (simp add: and_high [OF assms])
qed

text \<open>The masks of the code: the high 4, 7 and 2 bits of a byte.\<close>

lemma masks:
  "uint ((w :: 8 word) AND 0xF0) = 16 * (uint w div 16)"
  "uint (w AND 0xFE) = 2 * (uint w div 2)"
  "uint (w AND 0xC0) = 64 * (uint w div 64)"
  using uint_and_high [of 4 w] uint_and_high [of 1 w] uint_and_high [of 6 w]
  by (simp_all add: push_bit_eq_mult mask_eq_exp_minus_1)

section \<open>The specification of publicIP\<close>

definition reserved :: "(ip \<times> nat) list \<Rightarrow> ip \<Rightarrow> bool" where
  "reserved blocks address \<longleftrightarrow> (\<exists>b \<in> set blocks. in_block address b)"

lemma byte: "0 \<le> uint (w :: 8 word) \<and> uint w < 256"
  using uint_lt2p [of w] by simp

lemma digits:
  fixes x y :: int
  assumes "0 \<le> y" "y < 256" "0 \<le> y'" "y' < 256"
  shows "x * 256 + y = x' * 256 + y' \<longleftrightarrow> x = x' \<and> y = y'"
  using assms by (cases x x' rule: linorder_cases) auto

lemma reserved_v4_bytes:
  "reserved reserved_v4 [a, b, c, d] \<longleftrightarrow>
     uint a = 127 \<or> uint a = 10 \<or> uint a = 172 \<and> uint b div 16 = 1 \<or> uint a = 192 \<and> uint b = 168 \<or>
     [a, b, c, d] = [0, 0, 0, 0] \<or> uint a = 169 \<and> uint b = 254 \<or>
     uint a = 224 \<and> uint b = 0 \<and> uint c = 0 \<or> uint a div 16 = 14"
proof -
  have one: "in_block [a, b, c, d] ([x, 0, 0, 0], 8) \<longleftrightarrow> uint a = uint x" for x
    using in_block_prefix [of "[a]" "[x]" "[b, c, d]" "[0, 0, 0]" 0] by simp
  have two: "in_block [a, b, c, d] ([x, y, 0, 0], 16) \<longleftrightarrow> uint a * 256 + uint b = uint x * 256 + uint y" for x y
    using in_block_prefix [of "[a, b]" "[x, y]" "[c, d]" "[0, 0]" 0] by simp
  have twelve: "in_block [a, b, c, d] ([172, 16, 0, 0], 12) \<longleftrightarrow> (uint a * 256 + uint b) div 16 = 2753"
    using in_block_prefix [of "[a, b]" "[172, 16]" "[c, d]" "[0, 0]" 4] by simp
  have three: "in_block [a, b, c, d] ([224, 0, 0, 0], 24) \<longleftrightarrow> uint a * 65536 + (uint b * 256 + uint c) = 224 * 65536"
    using in_block_prefix [of "[a, b, c]" "[224, 0, 0]" "[d]" "[0]" 0] by simp
  have four: "in_block [a, b, c, d] ([224, 0, 0, 0], 4) \<longleftrightarrow> uint a div 16 = 14"
    using in_block_prefix [of "[a]" "[224]" "[b, c, d]" "[0, 0, 0]" 4] by simp
  have whole: "in_block [a, b, c, d] ([0, 0, 0, 0], 32) \<longleftrightarrow> [a, b, c, d] = [0, 0, 0, 0]"
    using in_block_whole [of "[a, b, c, d]" "[0, 0, 0, 0]"] by simp
  have "(uint a * 256 + uint b) div 16 = uint a * 16 + uint b div 16" by simp
  moreover have "0 \<le> uint b div 16 \<and> uint b div 16 < 16" using byte [of b] by presburger
  ultimately have "(uint a * 256 + uint b) div 16 = 2753 \<longleftrightarrow> uint a = 172 \<and> uint b div 16 = 1" by presburger
  moreover have "uint a * 256 + uint b = 192 * 256 + 168 \<longleftrightarrow> uint a = 192 \<and> uint b = 168"
    "uint a * 256 + uint b = 169 * 256 + 254 \<longleftrightarrow> uint a = 169 \<and> uint b = 254"
    using byte [of a] byte [of b] by (subst digits; simp)+
  moreover have "uint a * 65536 + (uint b * 256 + uint c) = 224 * 65536 \<longleftrightarrow> uint a = 224 \<and> uint b = 0 \<and> uint c = 0"
    using byte [of a] byte [of b] byte [of c] digits [of "uint c" 0 "uint a * 256 + uint b" "224 * 256"]
      digits [of "uint b" 0 "uint a" 224] by (simp add: algebra_simps)
  ultimately show ?thesis
    by (simp add: reserved_def reserved_v4_def one two twelve three four whole)
qed

lemma publicIP_v4:
  "publicIP (Some [a, b, c, d]) \<longleftrightarrow> \<not> reserved reserved_v4 [a, b, c, d]"
proof -
  have "a = 127 \<longleftrightarrow> uint a = 127" "a = 10 \<longleftrightarrow> uint a = 10" "a = 172 \<longleftrightarrow> uint a = 172" "a = 192 \<longleftrightarrow> uint a = 192"
    "b = 168 \<longleftrightarrow> uint b = 168" "a = 169 \<longleftrightarrow> uint a = 169" "b = 254 \<longleftrightarrow> uint b = 254" "a = 224 \<longleftrightarrow> uint a = 224"
    "b = 0 \<longleftrightarrow> uint b = 0" "c = 0 \<longleftrightarrow> uint c = 0"
    by (simp_all add: word_uint_eq_iff)
  moreover have "b AND 0xF0 = 16 \<longleftrightarrow> uint b div 16 = 1" "a AND 0xF0 = 0xE0 \<longleftrightarrow> uint a div 16 = 14"
    by (simp_all add: word_uint_eq_iff masks)
  ultimately show ?thesis
    unfolding reserved_v4_bytes
    by (simp add: publicIP_def to4_def ip_is_loopback_def ip_is_private_def ip_is_unspecified_def
        ip_is_link_local_unicast_def ip_is_link_local_multicast_def ip_is_multicast_def)
qed

lemma reserved_v6_bytes:
  assumes "length cs = 14"
  shows "reserved reserved_v6 (a # b # cs) \<longleftrightarrow>
     a # b # cs = replicate 15 0 @ [1] \<or> uint a div 2 = 126 \<or> a # b # cs = replicate 16 0 \<or>
     uint a = 254 \<and> uint b div 64 = 2 \<or> uint a = 255"
proof -
  have len: "length (replicate 14 (0 :: 8 word)) = 14" "length (replicate 15 (0 :: 8 word)) = 15" by simp_all
  have seven: "in_block (a # b # cs) (0xFC # replicate 15 0, 7) \<longleftrightarrow> uint a div 2 = 126"
    using in_block_prefix [of "[a]" "[0xFC]" "b # cs" "replicate 15 0" 1] assms len by simp
  have ten: "in_block (a # b # cs) (0xFE # 0x80 # replicate 14 0, 10) \<longleftrightarrow> (uint a * 256 + uint b) div 64 = 1018"
    using in_block_prefix [of "[a, b]" "[0xFE, 0x80]" cs "replicate 14 0" 6] assms len by simp
  have eight: "in_block (a # b # cs) (0xFF # replicate 15 0, 8) \<longleftrightarrow> uint a = 255"
    using in_block_prefix [of "[a]" "[0xFF]" "b # cs" "replicate 15 0" 0] assms len by simp
  have whole: "in_block (a # b # cs) (bs, 128) \<longleftrightarrow> a # b # cs = bs" if "length bs = 16" for bs
    using in_block_whole [of "a # b # cs" bs] assms that by simp
  have "(uint a * 256 + uint b) div 64 = uint a * 4 + uint b div 64" by simp
  moreover have "0 \<le> uint b div 64 \<and> uint b div 64 < 4" using byte [of b] by presburger
  ultimately have "(uint a * 256 + uint b) div 64 = 1018 \<longleftrightarrow> uint a = 254 \<and> uint b div 64 = 2" by presburger
  then show ?thesis
    by (simp add: reserved_def reserved_v6_def seven ten eight whole)
qed

lemma publicIP_v6:
  assumes "length cs = 14" and "to4 (a # b # cs) = None"
  shows "publicIP (Some (a # b # cs)) \<longleftrightarrow> \<not> reserved reserved_v6 (a # b # cs)"
proof -
  have "a = 0xFE \<longleftrightarrow> uint a = 254" "a = 0xFF \<longleftrightarrow> uint a = 255"
    by (simp_all add: word_uint_eq_iff)
  moreover have "a AND 0xFE = 0xFC \<longleftrightarrow> uint a div 2 = 126" "b AND 0xC0 = 0x80 \<longleftrightarrow> uint b div 64 = 2"
    by (simp_all add: word_uint_eq_iff masks)
  ultimately show ?thesis
    unfolding reserved_v6_bytes [OF assms(1)]
    by (simp add: publicIP_def assms ip_is_loopback_def ip_is_private_def ip_is_unspecified_def
        ip_is_link_local_unicast_def ip_is_link_local_multicast_def ip_is_multicast_def) blast
qed

text \<open>
  C24: an address is public exactly when it lies in none of the reserved blocks (loopback, private,
  unspecified, link-local and multicast, given as address and prefix length), for IPv4 and for IPv6;
  an IPv4 address mapped into IPv6 is judged as the IPv4 address, so that a reserved address cannot
  be reached by writing it in its mapped form.
\<close>

theorem publicIP_blocks:
  assumes "length ip = 4 \<or> length ip = 16"
  shows "publicIP (Some ip) \<longleftrightarrow>
    (case to4 ip of Some v4 \<Rightarrow> \<not> reserved reserved_v4 v4 | None \<Rightarrow> \<not> reserved reserved_v6 ip)"
proof (cases "to4 ip")
  case None
  with assms have "length ip = 16" by (auto simp: to4_def split: if_splits)
  then obtain a b cs where ip: "ip = a # b # cs" "length cs = 14"
    by (cases ip; cases "tl ip") auto
  with None publicIP_v6 show ?thesis by simp
next
  case (Some v4)
  then have "length v4 = 4" using assms by (auto simp: to4_def split: if_splits)
  then obtain a b c d where v4: "v4 = [a, b, c, d]"
    by (auto simp: length_Suc_conv numeral_eq_Suc)
  then have "to4 [a, b, c, d] = Some [a, b, c, d]" by (simp add: to4_def)
  then have "publicIP (Some ip) = publicIP (Some v4)"
    using Some v4 by (simp add: publicIP_def ip_is_loopback_def ip_is_private_def ip_is_unspecified_def
        ip_is_link_local_unicast_def ip_is_link_local_multicast_def ip_is_multicast_def)
  with publicIP_v4 Some v4 show ?thesis by simp
qed

theorem publicIP_blocks_witness:
  "\<not> publicIP (Some (v4_in_v6_prefix @ [10, 1, 2, 3])) \<and> publicIP (Some [8, 8, 8, 8])"
proof
  have "to4 (v4_in_v6_prefix @ [10, 1, 2, 3]) = Some [10, 1, 2, 3]" by (simp add: to4_def v4_in_v6_prefix_def)
  with publicIP_blocks [of "v4_in_v6_prefix @ [10, 1, 2, 3]"] reserved_v4_bytes [of 10 1 2 3]
  show "\<not> publicIP (Some (v4_in_v6_prefix @ [10, 1, 2, 3]))" by (simp add: v4_in_v6_prefix_def)
  have "to4 [8, 8, 8, 8] = Some [8, 8, 8, 8]" by (simp add: to4_def)
  with publicIP_blocks [of "[8, 8, 8, 8]"] reserved_v4_bytes [of 8 8 8 8]
  show "publicIP (Some [8, 8, 8, 8])" by simp
qed

end
