(* ===== verification/Access_Properties.thy ===== *)
theory Access_Properties
  imports Account_Rules Examples
begin

text \<open>
  Accounts: roles on servers are bounded by the panel role, there is one owner, an invite is used
  once, a rejected user stays out and the sessions of a suspended user stay dead.  The invariants
  are instances of \<open>account_rules\<close>.
\<close>

section \<open>The owner\<close>

definition installation_owner :: "db \<Rightarrow> uuid option" where
  "installation_owner d = (case installations d of [] \<Rightarrow> None | r # _ \<Rightarrow> in_owner_user_id r)"

text \<open>The installation belongs to \<open>i\<close>, an active user and the only one with the role of owner.\<close>

definition owned_by :: "uuid \<Rightarrow> db \<Rightarrow> bool" where
  "owned_by i d \<longleftrightarrow> installation_owner d = Some i \<and>
     (\<exists>u \<in> set (users d). us_id u = i \<and> us_panel_role u = ''owner'' \<and> us_status u = ''active'') \<and>
     (\<forall>u \<in> set (users d). us_panel_role u = ''owner'' \<longrightarrow> us_id u = i \<and> us_status u = ''active'')"

definition unclaimed :: "db \<Rightarrow> bool" where
  "unclaimed d \<longleftrightarrow> installation_owner d = None \<and> users d = [] \<and> invites d = []"

definition claimed_or_new :: "db \<Rightarrow> bool" where
  "claimed_or_new d \<longleftrightarrow> unclaimed d \<or> (\<exists>i. owned_by i d)"

lemma owned_claim: "owned_by i d \<Longrightarrow> claimOwner now x di d = Inr r \<Longrightarrow> False"
  by (auto simp: owned_by_def installation_owner_def claimOwner_def split: list.splits)

lemma unclaimed_claim:
  assumes "unclaimed d" and "claimOwner now x di d = Inr (u, d')"
  shows "owned_by (us_id u) d'"
  using assms
  by (auto simp: unclaimed_def installation_owner_def claimOwner_def upsertDiscordUser_def Let_def
      update_installations_def ret_def owned_by_def split: list.splits if_splits sum.splits)

lemma owned_users:
  assumes ok: "owned_by i d"
    and keep: "\<And>u. u \<in> set (users d) \<Longrightarrow> p u \<Longrightarrow> us_id (f u) = us_id u"
      "\<And>u. u \<in> set (users d) \<Longrightarrow> p u \<Longrightarrow> us_panel_role u = ''owner'' \<Longrightarrow> us_status u = ''active'' \<Longrightarrow>
        us_panel_role (f u) = ''owner'' \<and> us_status (f u) = ''active''"
      "\<And>u. u \<in> set (users d) \<Longrightarrow> p u \<Longrightarrow> us_panel_role (f u) = ''owner'' \<Longrightarrow> us_panel_role u = ''owner''"
  shows "owned_by i (d\<lparr>users := upd p f (users d)\<rparr>)"
proof -
  from ok obtain u where u: "u \<in> set (users d)" "us_id u = i" "us_panel_role u = ''owner''" "us_status u = ''active''"
    and only: "\<forall>u \<in> set (users d). us_panel_role u = ''owner'' \<longrightarrow> us_id u = i \<and> us_status u = ''active''"
    and inst: "installation_owner d = Some i"
    by (auto simp: owned_by_def)
  let ?g = "\<lambda>u. if p u then f u else u"
  have g: "set (users (d\<lparr>users := upd p f (users d)\<rparr>)) = ?g ` set (users d)" by (simp add: set_upd)
  have here: "us_id (?g u) = i \<and> us_panel_role (?g u) = ''owner'' \<and> us_status (?g u) = ''active''"
    using u keep(1,2) [OF u(1)] by simp
  have all: "us_id (?g v) = i \<and> us_status (?g v) = ''active''"
    if v: "v \<in> set (users d)" "us_panel_role (?g v) = ''owner''" for v
  proof (cases "p v")
    case True
    with v keep(3) have "us_panel_role v = ''owner''" by simp
    with True v(1) only keep(1,2) show ?thesis by simp
  qed (use v only in auto)
  show ?thesis
    unfolding owned_by_def g
  proof (intro conjI ballI impI)
    show "installation_owner (d\<lparr>users := upd p f (users d)\<rparr>) = Some i"
      using inst by (simp add: installation_owner_def)
    show "\<exists>v \<in> ?g ` set (users d). us_id v = i \<and> us_panel_role v = ''owner'' \<and> us_status v = ''active''"
      using here u(1) by (intro bexI [of _ "?g u"] imageI)
  qed (use all in blast)+
qed

text \<open>What else an operation changes leaves the owner alone.\<close>

lemma owned_elsewhere:
  "owned_by i (d\<lparr>oauth_states := a1\<rparr>) = owned_by i d" "owned_by i (d\<lparr>roles := a2\<rparr>) = owned_by i d"
  "owned_by i (d\<lparr>role_permissions := a3\<rparr>) = owned_by i d" "owned_by i (d\<lparr>role_bindings := a4\<rparr>) = owned_by i d"
  "owned_by i (d\<lparr>audit := a5\<rparr>) = owned_by i d" "owned_by i (d\<lparr>invites := a6\<rparr>) = owned_by i d"
  "owned_by i (d\<lparr>sessions := a7\<rparr>) = owned_by i d"
  by (simp_all add: owned_by_def installation_owner_def)

lemma owned_policy:
  "owned_by i d \<Longrightarrow> owned_by i (d\<lparr>installations := upd (\<lambda>r. True)
     (\<lambda>r. r\<lparr>in_mfa_policy := pol, in_updated_at := now\<rparr>) (installations d)\<rparr>)"
  by (cases "installations d") (simp_all add: owned_by_def installation_owner_def)

lemma owned_newcomer: "owned_by i d \<Longrightarrow> us_panel_role u = ''viewer'' \<Longrightarrow> owned_by i (d\<lparr>users := users d @ [u]\<rparr>)"
  by (auto simp: owned_by_def installation_owner_def)

interpretation owned: account_rules "owned_by i" for i
proof unfold_locales
  fix now x di d u d' assume "claimOwner now x di d = Inr (u, d')" "owned_by i d"
  then show "owned_by i d'" using owned_claim by blast
qed (auto simp: owned_elsewhere owned_policy owned_newcomer same_account_def is_pending_def
    changeable_user_def audit_preserved intro!: owned_users)

lemma unclaimed_rules:
  "unclaimed (d\<lparr>oauth_states := a1\<rparr>) = unclaimed d" "unclaimed (d\<lparr>roles := a2\<rparr>) = unclaimed d"
  "unclaimed (d\<lparr>role_permissions := a3\<rparr>) = unclaimed d" "unclaimed (d\<lparr>role_bindings := a4\<rparr>) = unclaimed d"
  "unclaimed (d\<lparr>audit := a5\<rparr>) = unclaimed d" "unclaimed (d\<lparr>sessions := a7\<rparr>) = unclaimed d"
  "unclaimed d \<Longrightarrow> unclaimed (d\<lparr>users := upd p f (users d)\<rparr>)"
  "unclaimed d \<Longrightarrow> unclaimed (d\<lparr>invites := upd q g (invites d)\<rparr>)"
  "unclaimed d \<Longrightarrow> unclaimed (d\<lparr>installations := upd (\<lambda>r. True)
     (\<lambda>r. r\<lparr>in_mfa_policy := pol, in_updated_at := now\<rparr>) (installations d)\<rparr>)"
  "unclaimed d \<Longrightarrow> users d = [] \<and> invites d = []"
  by (cases "installations d"; simp_all add: unclaimed_def installation_owner_def)+

lemma claimed_or_new_mono:
  "claimed_or_new d \<Longrightarrow> (unclaimed d \<Longrightarrow> unclaimed d') \<Longrightarrow> (\<And>i. owned_by i d \<Longrightarrow> owned_by i d') \<Longrightarrow>
   claimed_or_new d'"
  unfolding claimed_or_new_def by blast

interpretation ownership: account_rules claimed_or_new
proof unfold_locales
  fix now x di d u d' assume run: "claimOwner now x di d = Inr (u, d')" and ok: "claimed_or_new d"
  then show "claimed_or_new d'"
    unfolding claimed_or_new_def using owned_claim unclaimed_claim by blast
next
  fix d :: db and u :: user assume "claimed_or_new d" "us_panel_role u = ''viewer''" "invites d \<noteq> []"
  then show "claimed_or_new (d\<lparr>users := users d @ [u]\<rparr>)"
    unfolding claimed_or_new_def using owned_newcomer unclaimed_rules(10) by blast
next
  fix d :: db and r :: invite assume "claimed_or_new d" "iv_created_by r \<in> us_id ` set (users d)"
  then show "claimed_or_new (d\<lparr>invites := invites d @ [r]\<rparr>)"
    unfolding claimed_or_new_def using unclaimed_rules(10) [of d] by (auto simp: owned_elsewhere)
qed (auto simp: owned_elsewhere unclaimed_rules(1-6) intro!: audit_preserved unclaimed_rules(7-9)
    intro: owned.refresh owned.activated owned.rejected owned.changed owned_policy elim!: claimed_or_new_mono)

section \<open>Invites\<close>

definition spent_invite :: "uuid \<Rightarrow> db \<Rightarrow> bool" where
  "spent_invite v d \<longleftrightarrow> v \<in> iv_id ` set (invites d) \<and>
     (\<forall>r \<in> set (invites d). iv_id r = v \<longrightarrow> iv_claimed_at r \<noteq> None \<or> iv_revoked_at r \<noteq> None)"

lemma spent_frame: "invites d' = invites d \<Longrightarrow> spent_invite v d \<Longrightarrow> spent_invite v d'"
  by (simp add: spent_invite_def)

lemma spent_updated:
  "spent_invite v d \<Longrightarrow> (\<And>r. iv_id (f r) = iv_id r \<and> (iv_claimed_at (f r) \<noteq> None \<or> iv_revoked_at (f r) \<noteq> None)) \<Longrightarrow>
   spent_invite v (d\<lparr>invites := upd p f (invites d)\<rparr>)"
  unfolding spent_invite_def by (rule conjI, simp add: ids_upd, auto simp: set_upd)

lemma claimOwner_invites: "claimOwner now x di d = Inr (u, d') \<Longrightarrow> invites d' = invites d \<and> sessions d' = sessions d"
  by (auto simp: claimOwner_def upsertDiscordUser_def update_installations_def ret_def Let_def
      split: list.splits if_splits sum.splits option.splits)

interpretation spent: account_rules "spent_invite v" for v
proof unfold_locales
  fix now x di d u d' assume "claimOwner now x di d = Inr (u, d')" "spent_invite v d"
  then show "spent_invite v d'" using claimOwner_invites spent_frame by blast
qed (auto intro!: audit_preserved spent_updated elim: spent_frame [rotated], auto simp: spent_invite_def)

section \<open>Rejected users and dead sessions\<close>

definition turned_away :: "uuid \<Rightarrow> string \<Rightarrow> db \<Rightarrow> bool" where
  "turned_away i g d \<longleftrightarrow>
     (\<exists>u \<in> set (users d). us_id u = i \<and> us_discord_id u = g \<and> us_status u = ''rejected'')"

lemma turned_away_frame: "users d' = users d \<Longrightarrow> turned_away i g d \<Longrightarrow> turned_away i g d'"
  by (simp add: turned_away_def)

lemma turned_away_updated:
  assumes "turned_away i g d"
    and "\<And>u. p u \<Longrightarrow> us_status u = ''rejected'' \<Longrightarrow> same_account u (f u)"
  shows "turned_away i g (d\<lparr>users := upd p f (users d)\<rparr>)"
proof -
  from assms(1) obtain u where u: "u \<in> set (users d)" "us_id u = i" "us_discord_id u = g" "us_status u = ''rejected''"
    by (auto simp: turned_away_def)
  let ?u = "if p u then f u else u"
  have "?u \<in> set (upd p f (users d))" using u(1) by (simp add: set_upd)
  moreover have "us_id ?u = i \<and> us_discord_id ?u = g \<and> us_status ?u = ''rejected''"
    using u assms(2) [of u] by (simp add: same_account_def)
  ultimately show ?thesis unfolding turned_away_def by (intro bexI [of _ ?u]) simp_all
qed

lemma turned_away_claim:
  assumes run: "claimOwner now x di d = Inr (u, d')" and away: "turned_away i g d"
  shows "turned_away i g d'"
proof -
  from run obtain d1 where up: "upsertDiscordUser now x di ''active'' ''owner'' d = Inr (u, d1)"
    and d': "users d' = users d1"
    by (auto simp: claimOwner_def update_installations_def ret_def split: list.splits if_splits sum.splits)
  have "turned_away i g d1"
  proof (cases "find (\<lambda>u. us_discord_id u = di_id di) (users d)")
    case None
    with up away show ?thesis by (auto simp: upsertDiscordUser_def Let_def turned_away_def split: if_splits)
  next
    case (Some y)
    with up away show ?thesis
      by (auto simp: upsertDiscordUser_def Let_def same_account_def intro!: turned_away_updated)
  qed
  with d' show ?thesis by (rule turned_away_frame)
qed

interpretation turned_away: account_rules "turned_away i g" for i g
proof unfold_locales
  fix now x di d u d' assume "claimOwner now x di d = Inr (u, d')" "turned_away i g d"
  then show "turned_away i g d'" by (rule turned_away_claim)
qed (auto intro!: audit_preserved turned_away_updated elim: turned_away_frame [rotated]
    simp: is_pending_def changeable_user_def, auto simp: turned_away_def)

text \<open>Every session row with this token hash is revoked, and there is one.\<close>

definition dead_token :: "string \<Rightarrow> db \<Rightarrow> bool" where
  "dead_token h d \<longleftrightarrow> h \<in> se_token_hash ` set (sessions d) \<and>
     (\<forall>s \<in> set (sessions d). se_token_hash s = h \<longrightarrow> se_revoked_at s \<noteq> None)"

lemma dead_frame: "sessions d' = sessions d \<Longrightarrow> dead_token h d \<Longrightarrow> dead_token h d'"
  by (simp add: dead_token_def)

lemma dead_updated:
  "dead_token h d \<Longrightarrow> (\<And>s. se_token_hash (f s) = se_token_hash s \<and> (se_revoked_at s \<noteq> None \<longrightarrow> se_revoked_at (f s) \<noteq> None)) \<Longrightarrow>
   dead_token h (d\<lparr>sessions := upd p f (sessions d)\<rparr>)"
  unfolding dead_token_def by (rule conjI, simp add: ids_upd, auto simp: set_upd)

interpretation dead: account_rules "dead_token h" for h
proof unfold_locales
  fix now x di d u d' assume "claimOwner now x di d = Inr (u, d')" "dead_token h d"
  then show "dead_token h d'" using claimOwner_invites dead_frame by blast
qed (auto intro!: audit_preserved dead_updated elim: dead_frame [rotated] simp: same_session_def,
    auto simp: dead_token_def)

section \<open>The claims\<close>

lemma access_steps: "access_ok d \<Longrightarrow> account_step\<^sup>*\<^sup>* d d' \<Longrightarrow> access_ok d'"
  by (rule accounts.steps_inv)

text \<open>
  C25: whatever account operations run, a role that a user holds on a server is administrator,
  operator or viewer and never ranks above the user's panel role; the owner and pending users hold
  none.
\<close>

theorem server_roles_bounded:
  assumes "access_ok d0" and "account_step\<^sup>*\<^sup>* d0 d" and "b \<in> set (role_bindings d)"
    and "rb_server_id b = Some s" and "u \<in> set (users d)" "us_id u = rb_user_id b"
  shows "us_panel_role u \<noteq> ''owner'' \<and> us_status u \<noteq> ''pending'' \<and>
    (\<exists>r \<in> set (roles d). ro_id r = rb_role_id b \<and>
       ro_name r \<in> {''administrator'', ''operator'', ''viewer''} \<and>
       roleRank (ro_name r) \<le> roleRank (us_panel_role u))"
proof -
  have "binding_ok d b" using access_steps [OF assms(1,2)] assms(3) by (simp add: access_ok_def)
  with assms(4-6) show ?thesis by (fastforce simp: binding_ok_def assignable_def)
qed

text \<open>
  C26: an installation that starts without users is either still unclaimed, with no users and no
  invites, or has exactly one owner, who is active; and whoever owns it keeps it, whatever account
  operations follow.
\<close>

theorem one_owner:
  assumes "unclaimed d0" and "account_step\<^sup>*\<^sup>* d0 d" and "account_step\<^sup>*\<^sup>* d d'"
  shows "unclaimed d \<or> (\<exists>i. owned_by i d \<and> owned_by i d')"
proof -
  have "claimed_or_new d0" using assms(1) by (simp add: claimed_or_new_def)
  then have "claimed_or_new d" by (rule ownership.account_steps [OF assms(2)])
  with assms(3) show ?thesis
    unfolding claimed_or_new_def by (blast intro: owned.account_steps)
qed

lemma claimed_invite_spent:
  "CompleteOAuth now i ''invite'' (Some v) di d0 = Inr (u, d) \<Longrightarrow> spent_invite v d"
  by (auto simp: CompleteOAuth_def claimInvite_def update_invites_def ret_def spent_invite_def
      upsertDiscordUser_def Let_def ids_upd dest!: find_SomeD
      split: if_splits option.splits sum.splits list.splits) (auto simp: set_upd)

lemma revoked_invite_spent:
  assumes "RevokeInvite now v d0 = Inr d"
  shows "spent_invite v d"
proof -
  let ?p = "\<lambda>r. iv_id r = v \<and> iv_claimed_at r = None \<and> iv_revoked_at r = None"
  from assms have d: "d = d0\<lparr>invites := upd ?p (\<lambda>r. r\<lparr>iv_revoked_at := Some now\<rparr>) (invites d0)\<rparr>"
    and "affected ?p (invites d0) \<noteq> 0"
    by (auto simp: RevokeInvite_def Let_def exec_Cons_Inr require_def update_invites_def split: if_splits)
  then have "v \<in> iv_id ` set (invites d0)" by (auto simp: affected_0)
  then show ?thesis
    unfolding spent_invite_def d by (simp add: ids_upd) (auto simp: set_upd)
qed

text \<open>
  C27: an invite works once: after it has been claimed or revoked, no account operation revives it;
  its token resolves to nothing and a login with it is refused.
\<close>

theorem invite_used_once:
  assumes "CompleteOAuth now i ''invite'' (Some v) di d0 = Inr (u, d) \<or> RevokeInvite now v d0 = Inr d"
    and "account_step\<^sup>*\<^sup>* d d'"
  shows "claimInvite t i' v di' d' = Inl ErrInviteInvalid \<and> ResolveInvite hash t token d' \<noteq> Inr v"
proof -
  have "spent_invite v d" using assms(1) claimed_invite_spent revoked_invite_spent by blast
  then have spent: "spent_invite v d'" by (rule spent.account_steps [OF assms(2)])
  then have "\<not> invite_open t r" if "r \<in> set (invites d')" "iv_id r = v" for r
    using that by (auto simp: spent_invite_def invite_open_def)
  then show ?thesis
    by (auto simp: claimInvite_def ResolveInvite_def split: option.splits dest!: find_SomeD)
qed

lemma rejected_turned_away:
  assumes "RejectUser now au actor i d0 = Inr d1" and "u \<in> set (users d0)" "us_id u = i"
    and "distinct (map us_id (users d0))"
  shows "turned_away i (us_discord_id u) d1"
proof -
  from assms(1) have d1: "users d1 = upd (is_pending i) (\<lambda>u. u\<lparr>us_status := ''rejected'', us_updated_at := now\<rparr>) (users d0)"
    and "\<exists>x \<in> set (users d0). is_pending i x"
    by (auto simp: RejectUser_def exec_Cons_Inr require_def update_users_def revoke_user_sessions_def
        update_sessions_def insert_audit_def insert_audit_row_def affected_0 split: if_splits)
  then obtain x where x: "x \<in> set (users d0)" "is_pending i x" by blast
  then have "u = x" using distinct_key_eq [OF assms(4,2) x(1)] assms(3) by (simp add: is_pending_def)
  with x(2) have "is_pending i u" by simp
  with assms(2) have "u\<lparr>us_status := ''rejected'', us_updated_at := now\<rparr> \<in> set (users d1)"
    by (auto simp: d1 set_upd)
  then show ?thesis
    unfolding turned_away_def by (rule bexI [rotated]) (simp add: assms(3))
qed

lemma turned_away_locked_out:
  assumes ok: "access_ok d" and away: "turned_away i g d"
  shows "SessionByToken hash t raw idle d = Inr ((s, x), d') \<Longrightarrow> us_id x \<noteq> i"
    and "owned_by o' d \<Longrightarrow> di_id di = g \<Longrightarrow> \<exists>e. CompleteOAuth t new purpose iv di d = Inl e"
proof -
  from away obtain u where u: "u \<in> set (users d)" "us_id u = i" "us_discord_id u = g" "us_status u = ''rejected''"
    by (auto simp: turned_away_def)
  have ids: "distinct (map us_id (users d))" "distinct (map us_discord_id (users d))"
    using ok by (simp_all add: access_ok_def)
  show "us_id x \<noteq> i" if "SessionByToken hash t raw idle d = Inr ((s, x), d')"
  proof
    assume "us_id x = i"
    from that obtain r where r: "session_user d r = Some x"
      and "find (\<lambda>s. se_token_hash s = hash raw \<and> session_valid d t s) (sessions d) = Some r"
      by (auto simp: SessionByToken_def Let_def split: option.splits)
    then have "session_valid d t r" by (blast dest: find_SomeD)
    with r have "x \<in> set (users d)" "us_status x \<noteq> ''rejected''"
      by (auto simp: session_valid_def session_user_def dest: find_SomeD)
    moreover have "x = u" using distinct_key_eq [OF ids(1) \<open>x \<in> set (users d)\<close> u(1)] \<open>us_id x = i\<close> u(2) by simp
    ultimately show False using u(4) by simp
  qed
  show "\<exists>e. CompleteOAuth t new purpose iv di d = Inl e" if "owned_by o' d" "di_id di = g"
  proof -
    have found: "find (\<lambda>u. us_discord_id u = di_id di) (users d) = Some u"
      using find_key [OF ids(2) u(1)] u(3) that(2) by simp
    have "claimOwner t new di d \<noteq> Inr r" for r using owned_claim [OF that(1)] by blast
    moreover have "claimInvite t new v di d \<noteq> Inr r" for v r
      using found u(4) by (auto simp: claimInvite_def upsertDiscordUser_def Let_def split: option.splits)
    moreover have "loginExisting t new di d \<noteq> Inr r" for r using found u(4) by (simp add: loginExisting_def)
    ultimately have "CompleteOAuth t new purpose iv di d \<noteq> Inr r" for r
      by (auto simp: CompleteOAuth_def split: option.splits sum.splits if_splits)
    then show ?thesis by (metis sumE)
  qed
qed

text \<open>
  A user whom an administrator has rejected stays out for good: whatever account operations
  follow, no session token authenticates the user, and no login with the user's Discord account
  succeeds, neither by invite nor otherwise.
\<close>

theorem rejected_locked_out:
  assumes ok: "access_ok d0" and owned: "owned_by o' d0" and u: "u \<in> set (users d0)" "us_id u = i"
    and run: "RejectUser now au actor i d0 = Inr d1" and steps: "account_step\<^sup>*\<^sup>* d1 d"
    and di: "di_id di = us_discord_id u"
  shows "(\<forall>s x d'. SessionByToken hash t raw idle d = Inr ((s, x), d') \<longrightarrow> us_id x \<noteq> i) \<and>
    (\<exists>e. CompleteOAuth t new purpose iv di d = Inl e)"
proof -
  have step: "account_step d0 d1" by (rule account_step.reject) (rule run)
  have ids: "distinct (map us_id (users d0))" using ok by (simp add: access_ok_def)
  have "turned_away i (us_discord_id u) d1" by (rule rejected_turned_away [OF run u ids])
  then have away: "turned_away i (us_discord_id u) d" by (rule turned_away.account_steps [OF steps])
  have "access_ok d1" by (rule account_step_access_ok [OF step ok])
  then have ok': "access_ok d" by (rule access_steps [OF _ steps])
  have "owned_by o' d1" by (rule owned.account_step [OF step owned])
  then have "owned_by o' d" by (rule owned.account_steps [OF steps])
  then show ?thesis
    using turned_away_locked_out(1) [OF ok' away] turned_away_locked_out(2) [OF ok' away _ di] by blast
qed

lemma ended_session_dead:
  assumes "UpdateUserAccess now au actor (se_user_id s) role ''suspended'' d0 = Inr d1 \<or>
      RejectUser now au actor (se_user_id s) d0 = Inr d1 \<or> RevokeSession now (se_id s) d0 = Inr d1"
    and s: "s \<in> set (sessions d0)" and hashes: "distinct (map se_token_hash (sessions d0))"
  shows "dead_token (se_token_hash s) d1"
proof -
  obtain p where d1: "sessions d1 = upd p (\<lambda>s. s\<lparr>se_revoked_at := Some now\<rparr>) (sessions d0)"
    and hit: "p s \<or> se_revoked_at s \<noteq> None"
  proof -
    have "sessions d1 = upd (\<lambda>x. se_user_id x = se_user_id s \<and> se_revoked_at x = None)
          (\<lambda>s. s\<lparr>se_revoked_at := Some now\<rparr>) (sessions d0) \<or>
        sessions d1 = upd (\<lambda>x. se_id x = se_id s) (\<lambda>s. s\<lparr>se_revoked_at := Some now\<rparr>) (sessions d0)"
      using assms(1)
      by (auto simp: UpdateUserAccess_def RejectUser_def RevokeSession_def exec_Cons_Inr require_def
          update_users_def delete_bindings_def revoke_user_sessions_def update_sessions_def
          insert_audit_def insert_audit_row_def split: if_splits)
    then show ?thesis by (auto intro: that)
  qed
  have only: "x = s" if "x \<in> set (sessions d0)" "se_token_hash x = se_token_hash s" for x
    using distinct_key_eq [OF hashes that(1) s that(2)] .
  have "se_token_hash s \<in> se_token_hash ` set (sessions d1)" using s by (simp add: d1 ids_upd)
  moreover have "se_revoked_at x \<noteq> None" if "x \<in> set (sessions d1)" "se_token_hash x = se_token_hash s" for x
  proof -
    from that(1) obtain y where y: "y \<in> set (sessions d0)"
      "x = (if p y then y\<lparr>se_revoked_at := Some now\<rparr> else y)" by (auto simp: d1 set_upd)
    with that(2) have "y = s" by (intro only) (auto split: if_splits)
    with y(2) hit show ?thesis by auto
  qed
  ultimately show ?thesis by (simp add: dead_token_def)
qed

text \<open>
  C2: suspending a user, rejecting a user or logging out ends the sessions for good: a token that
  was in use before is refused for ever after, also when the user is activated again.
\<close>

theorem ended_sessions_stay_dead:
  assumes "UpdateUserAccess now au actor (se_user_id s) role ''suspended'' d0 = Inr d1 \<or>
      RejectUser now au actor (se_user_id s) d0 = Inr d1 \<or> RevokeSession now (se_id s) d0 = Inr d1"
    and "s \<in> set (sessions d0)" and "distinct (map se_token_hash (sessions d0))"
    and "account_step\<^sup>*\<^sup>* d1 d" and "hash raw = se_token_hash s"
  shows "SessionByToken hash t raw idle d = Inl ErrUnauthorized"
proof -
  have "dead_token (se_token_hash s) d"
    by (rule dead.account_steps [OF assms(4)]) (rule ended_session_dead [OF assms(1-3)])
  then have "find (\<lambda>x. se_token_hash x = hash raw \<and> session_valid d t x) (sessions d) = None"
    by (auto simp: find_None_iff dead_token_def session_valid_def assms(5))
  then show ?thesis by (simp add: SessionByToken_def Let_def)
qed

section \<open>Instances\<close>

definition user_db :: "string \<Rightarrow> db" where
  "user_db status = sample_db\<lparr>users := [sample_user ''u1'' ''active'' ''owner'', sample_user ''u2'' status ''viewer''],
     sessions := [sample_session ''h2'' ''u2'']\<rparr>"

definition sample_invite :: invite where
  "sample_invite = \<lparr> iv_id = ''v1'', iv_token_hash = ''h'', iv_label = None, iv_created_by = ''u1'',
     iv_claimed_by = None, iv_created_at = 0, iv_expires_at = noon, iv_claimed_at = None, iv_revoked_at = None \<rparr>"

definition new_db :: db where
  "new_db = sample_db\<lparr>users := [], installations := [sample_installation\<lparr>in_owner_user_id := None\<rparr>]\<rparr>"

definition sample_discord :: "string \<Rightarrow> discord_user" where
  "sample_discord i = \<lparr> di_id = i, di_username = ''name'', di_global_name = None, di_avatar = None,
     di_locale = None, di_mfa_enabled = True, di_bot = False, di_system = False \<rparr>"

lemma access_ok_user_db: "st \<in> {''active'', ''pending''} \<Longrightarrow> access_ok (user_db st)"
  by (auto simp: access_ok_def user_db_def check_user_def sample_user_def sample_role_def)

lemma owned_user_db: "owned_by ''u1'' (user_db st)"
  by (simp add: owned_by_def installation_owner_def user_db_def sample_user_def sample_installation_def)

theorem server_roles_bounded_witness:
  "\<exists>d b u. account_step\<^sup>*\<^sup>* (user_db ''active'') d \<and> b \<in> set (role_bindings d) \<and> rb_server_id b = Some ''s1'' \<and>
     u \<in> set (users d) \<and> us_id u = rb_user_id b \<and>
     (us_panel_role u \<noteq> ''owner'' \<and> us_status u \<noteq> ''pending'' \<and>
      (\<exists>r \<in> set (roles d). ro_id r = rb_role_id b \<and>
         ro_name r \<in> {''administrator'', ''operator'', ''viewer''} \<and>
         roleRank (ro_name r) \<le> roleRank (us_panel_role u)))"
proof -
  let ?b = "\<lparr> rb_id = ''b1'', rb_user_id = ''u2'', rb_role_id = ''viewer'', rb_server_id = Some ''s1'',
    rb_created_by = Some ''u1'' \<rparr>"
  obtain d where run: "SetUserServerAccess [''b1''] ''a1'' ''u1'' ''u2'' [(''s1'', ''viewer'')] (user_db ''active'') = Inr d"
    and d: "role_bindings d = [?b]" "users d = users (user_db ''active'')"
    by (simp add: user_db_def sample_user_def SetUserServerAccess_def assignable_def roleRank_def exec.simps
        stmt_apply delete_bindings_def del_def chosen_role_def bind_server_def live_def sample_server_def
        sample_role_def insert_binding_def binding_key_def insert_audit_def insert_audit_row_def state_of_def constrain_def)
  let ?u = "sample_user ''u2'' ''active'' ''viewer''"
  have steps: "account_step\<^sup>*\<^sup>* (user_db ''active'') d"
    by (rule r_into_rtranclp, rule account_step.server_access [OF _ run]) simp
  have b: "?b \<in> set (role_bindings d)" and u: "?u \<in> set (users d)" "us_id ?u = rb_user_id ?b"
    by (simp_all add: d user_db_def sample_user_def)
  have server: "rb_server_id ?b = Some ''s1''" by simp
  have ok: "access_ok (user_db ''active'')" by (rule access_ok_user_db) simp
  show ?thesis
    using steps b server u server_roles_bounded [OF ok steps b server u] by blast
qed

theorem one_owner_witness:
  "\<exists>d u. CompleteOAuth 0 ''u1'' ''claim'' None (sample_discord ''g1'') new_db = Inr (u, d) \<and>
     (unclaimed d \<or> (\<exists>i. owned_by i d \<and> owned_by i d))"
proof -
  have start: "unclaimed new_db"
    by (simp add: unclaimed_def installation_owner_def new_db_def sample_installation_def)
  obtain u d where run: "CompleteOAuth 0 ''u1'' ''claim'' None (sample_discord ''g1'') new_db = Inr (u, d)"
    by (simp add: CompleteOAuth_def claimOwner_def upsertDiscordUser_def Let_def new_db_def sample_installation_def
        sample_discord_def check_user_def update_installations_def ret_def mfaRequired_def)
  have "account_step\<^sup>*\<^sup>* new_db d" by (rule r_into_rtranclp) (rule account_step.oauth [OF run])
  then show ?thesis using run one_owner [OF start _ rtranclp.rtrancl_refl] by blast
qed

theorem invite_used_once_witness:
  "\<exists>d. RevokeInvite 5 ''v1'' (sample_db\<lparr>invites := [sample_invite]\<rparr>) = Inr d \<and>
     claimInvite 6 ''u3'' ''v1'' (sample_discord ''g3'') d = Inl ErrInviteInvalid \<and>
     ResolveInvite id 6 ''h'' d \<noteq> Inr ''v1''"
proof -
  obtain d where "RevokeInvite 5 ''v1'' (sample_db\<lparr>invites := [sample_invite]\<rparr>) = Inr d"
    by (simp add: RevokeInvite_def Let_def exec.simps require_def affected_def update_invites_def sample_invite_def)
  then show ?thesis using invite_used_once [OF _ rtranclp.rtrancl_refl] by blast
qed

theorem rejected_locked_out_witness:
  "\<exists>d. RejectUser 5 ''a1'' ''u1'' ''u2'' (user_db ''pending'') = Inr d \<and>
     (\<forall>s x d'. SessionByToken id 6 ''h2'' 60 d = Inr ((s, x), d') \<longrightarrow> us_id x \<noteq> ''u2'') \<and>
     (\<exists>e. CompleteOAuth 6 ''u3'' ''login'' None (sample_discord ''u2'') d = Inl e)"
proof -
  obtain d where run: "RejectUser 5 ''a1'' ''u1'' ''u2'' (user_db ''pending'') = Inr d"
    by (simp add: RejectUser_def exec.simps require_def affected_def is_pending_def update_users_def user_db_def
        sample_user_def revoke_user_sessions_def update_sessions_def insert_audit_def insert_audit_row_def constrain_def)
  have ok: "access_ok (user_db ''pending'')" by (rule access_ok_user_db) simp
  have u: "sample_user ''u2'' ''pending'' ''viewer'' \<in> set (users (user_db ''pending''))"
    "us_id (sample_user ''u2'' ''pending'' ''viewer'') = ''u2''"
    by (simp_all add: user_db_def sample_user_def)
  have di: "di_id (sample_discord ''u2'') = us_discord_id (sample_user ''u2'' ''pending'' ''viewer'')"
    by (simp add: sample_discord_def sample_user_def)
  show ?thesis
    using run rejected_locked_out [OF ok owned_user_db u run rtranclp.rtrancl_refl di, of id 6 "''h2''" 60
        "''u3''" "''login''" None] by blast
qed

theorem ended_sessions_stay_dead_witness:
  "\<exists>d. UpdateUserAccess 5 ''a1'' ''u1'' ''u2'' ''viewer'' ''suspended'' (user_db ''active'') = Inr d \<and>
     SessionByToken id 6 ''h2'' 60 d = Inl ErrUnauthorized"
proof -
  let ?s = "sample_session ''h2'' ''u2''"
  obtain d where run: "UpdateUserAccess 5 ''a1'' ''u1'' ''u2'' ''viewer'' ''suspended'' (user_db ''active'') = Inr d"
    by (simp add: UpdateUserAccess_def roleRank_def exec.simps require_def affected_def changeable_user_def
        update_users_def user_db_def sample_user_def delete_bindings_def del_def revoke_user_sessions_def
        update_sessions_def insert_audit_def insert_audit_row_def constrain_def)
  have s: "?s \<in> set (sessions (user_db ''active''))" "distinct (map se_token_hash (sessions (user_db ''active'')))"
    and u: "se_user_id ?s = ''u2''" "id ''h2'' = se_token_hash ?s"
    by (simp_all add: user_db_def sample_session_def)
  have "SessionByToken id 6 ''h2'' 60 d = Inl ErrUnauthorized"
    by (rule ended_sessions_stay_dead [where s = ?s and hash = id and raw = "''h2''" and ?d0.0 = "user_db ''active''" and ?d1.0 = d
          and now = 5 and au = "''a1''" and actor = "''u1''" and role = "''viewer''"])
      (use run s u in simp_all)
  then show ?thesis using run by blast
qed

end
