(* ===== verification/Role_Properties.thy ===== *)
theory Role_Properties
  imports Access_Control Examples
begin

text \<open>
  The built-in roles: what installing them grants, and that the access of a user to a server is
  what was requested.
\<close>

text \<open>The grants that installing the built-in roles makes.\<close>

lemma role_has_append:
  "role_has (d\<lparr>role_permissions := role_permissions d @ filter (\<lambda>g. g \<notin> set (role_permissions d)) gs\<rparr>) i p \<longleftrightarrow>
     role_has d i p \<or> (\<exists>g \<in> set gs. rp_role_id g = i \<and> rp_permission g = p)"
  by (auto simp: role_has_def)

text \<open>The tables a loop of grants reads are left alone; the grants are added.\<close>

definition grants_added :: "db \<Rightarrow> db \<Rightarrow> (uuid \<Rightarrow> string \<Rightarrow> bool) \<Rightarrow> bool" where
  "grants_added d d' q \<longleftrightarrow> roles d' = roles d \<and> permissions d' = permissions d \<and>
     (\<forall>i p. role_has d' i p \<longleftrightarrow> role_has d i p \<or> q i p)"

definition named_role :: "db \<Rightarrow> uuid \<Rightarrow> string \<Rightarrow> uuid \<Rightarrow> bool" where
  "named_role d inst name i \<longleftrightarrow>
     (\<exists>r \<in> set (roles d). ro_installation_id r = inst \<and> ro_name r = name \<and> ro_id r = i)"

lemma grant_permission_grants:
  assumes "grant_permission inst name p d = Inr d'"
  shows "grants_added d d' (\<lambda>i q. q = p \<and> named_role d inst name i)"
proof -
  let ?granted = "map (\<lambda>r. \<lparr>rp_role_id = ro_id r, rp_permission = p\<rparr>)
    (filter (\<lambda>r. ro_installation_id r = inst \<and> ro_name r = name) (roles d))"
  from assms have d': "d' = d\<lparr>role_permissions := role_permissions d @
      filter (\<lambda>g. g \<notin> set (role_permissions d)) ?granted\<rparr>"
    by (auto simp: grant_permission_def Let_def)
  have "role_has d' i q \<longleftrightarrow> role_has d i q \<or> (q = p \<and> named_role d inst name i)" for i q
    unfolding d' role_has_append by (auto simp: named_role_def)
  then show ?thesis unfolding grants_added_def by (simp add: d')
qed

lemma grants_added_comp:
  "grants_added d d1 q1 \<Longrightarrow> grants_added d1 d2 q2 \<Longrightarrow> (\<And>i p. q i p \<longleftrightarrow> q1 i p \<or> q2 i p) \<Longrightarrow> grants_added d d2 q"
  by (auto simp: grants_added_def)

lemma grants_loop:
  assumes "for_each c xs d = Inr d'"
    and step: "\<And>x d1 d2. x \<in> set xs \<Longrightarrow> roles d1 = roles d \<Longrightarrow> permissions d1 = permissions d \<Longrightarrow>
      c x d1 = Inr d2 \<Longrightarrow> grants_added d1 d2 (q x)"
  shows "grants_added d d' (\<lambda>i p. \<exists>x \<in> set xs. q x i p)"
  using assms
proof (induction xs arbitrary: d)
  case Nil
  then show ?case by (simp add: grants_added_def)
next
  case (Cons x xs)
  from Cons.prems(1) obtain d1 where d1: "c x d = Inr d1" "for_each c xs d1 = Inr d'"
    by (auto split: sum.splits)
  have first: "grants_added d d1 (q x)" using Cons.prems(2) d1(1) by simp
  then have frame: "roles d1 = roles d" "permissions d1 = permissions d" by (simp_all add: grants_added_def)
  have "grants_added d1 d' (\<lambda>i p. \<exists>x \<in> set xs. q x i p)"
    using Cons.prems(2) frame by (intro Cons.IH d1(2)) simp
  with first show ?case by (rule grants_added_comp) simp
qed

lemma built_in_grants:
  assumes "ensureBuiltInRolePermissions inst d = Inr d'"
  shows "grants_added d d' (\<lambda>i p. \<exists>(name, req) \<in> set builtInRolePermissions.
    p \<in> set (role_grants d req) \<and> named_role d inst name i)"
proof -
  have "grants_added d d' (\<lambda>i p. \<exists>x \<in> set builtInRolePermissions.
      p \<in> set (role_grants d (snd x)) \<and> named_role d inst (fst x) i)"
    using assms unfolding ensureBuiltInRolePermissions_def
  proof (rule grants_loop)
    fix x d1 d2 assume same: "roles d1 = roles d" "permissions d1 = permissions d"
      and "(case x of (name, req) \<Rightarrow> \<lambda>d. for_each (grant_permission inst name) (role_grants d req) d) d1 = Inr d2"
    then have loop: "for_each (grant_permission inst (fst x)) (role_grants d (snd x)) d1 = Inr d2"
      by (simp add: case_prod_unfold role_grants_def same(2) split: if_splits)
    have "grants_added d1 d2 (\<lambda>i p. \<exists>q \<in> set (role_grants d (snd x)). p = q \<and> named_role d1 inst (fst x) i)"
      using loop by (rule grants_loop) (drule grant_permission_grants, simp add: named_role_def)
    then show "grants_added d1 d2 (\<lambda>i p. p \<in> set (role_grants d (snd x)) \<and> named_role d inst (fst x) i)"
      by (simp add: named_role_def same(1))
  qed
  then show ?thesis by (simp add: case_prod_unfold)
qed

definition role_permits :: "db \<Rightarrow> string \<Rightarrow> string set" where
  "role_permits d name =
     (case map_of builtInRolePermissions name of None \<Rightarrow> {} | Some req \<Rightarrow> set (role_grants d req))"

definition built_in_roles :: "uuid \<Rightarrow> db \<Rightarrow> bool" where
  "built_in_roles inst d \<longleftrightarrow> (\<forall>r \<in> set (roles d). ro_installation_id r = inst \<and>
     (\<forall>p. role_has d (ro_id r) p \<longleftrightarrow> p \<in> role_permits d (ro_name r)))"

lemma ensure_roles_new:
  assumes "roles d0 = []" and "ensureBuiltInRoles new inst d0 = (None, d1)"
  shows "\<exists>d. ensureBuiltInRolePermissions inst d = Inr d1 \<and> role_permissions d = role_permissions d0 \<and>
    distinct (map ro_id (roles d)) \<and>
    roles d = map (\<lambda>n. \<lparr> ro_id = new n, ro_installation_id = inst, ro_name = n \<rparr>)
      [''owner'', ''administrator'', ''operator'', ''viewer'']"
proof -
  let ?r = "\<lambda>n. \<lparr> ro_id = new n, ro_installation_id = inst, ro_name = n \<rparr>"
  have one: "ensure_role new inst n d = Inr d' \<Longrightarrow> n \<notin> ro_name ` set (roles d) \<Longrightarrow>
      d' = d\<lparr>roles := roles d @ [?r n]\<rparr> \<and> new n \<notin> ro_id ` set (roles d)" for n d d'
    by (auto simp: ensure_role_def insert_role_or_ignore_def split: if_splits)
  from assms(2) obtain a b c e where
    "ensure_role new inst ''owner'' d0 = Inr a" "ensure_role new inst ''administrator'' a = Inr b"
    "ensure_role new inst ''operator'' b = Inr c" "ensure_role new inst ''viewer'' c = Inr e"
    and perms: "ensureBuiltInRolePermissions inst e = Inr d1"
    by (auto simp: ensureBuiltInRoles_def split: sum.splits)
  note steps = this
  have a: "a = d0\<lparr>roles := roles d0 @ [?r ''owner'']\<rparr> \<and> new ''owner'' \<notin> ro_id ` set (roles d0)"
    using one [OF steps(1)] assms(1) by simp
  then have b: "b = a\<lparr>roles := roles a @ [?r ''administrator'']\<rparr> \<and> new ''administrator'' \<notin> ro_id ` set (roles a)"
    using one [OF steps(2)] assms(1) by simp
  then have c: "c = b\<lparr>roles := roles b @ [?r ''operator'']\<rparr> \<and> new ''operator'' \<notin> ro_id ` set (roles b)"
    using one [OF steps(3)] assms(1) a by simp
  then have e: "e = c\<lparr>roles := roles c @ [?r ''viewer'']\<rparr> \<and> new ''viewer'' \<notin> ro_id ` set (roles c)"
    using one [OF steps(4)] assms(1) a b by simp
  have "roles e = map ?r [''owner'', ''administrator'', ''operator'', ''viewer''] \<and>
      role_permissions e = role_permissions d0 \<and> distinct (map ro_id (roles e))"
    using a b c e assms(1) by auto
  with perms show ?thesis by blast
qed

text \<open>Where everything is in place, installing the roles changes nothing.\<close>

lemma grant_again:
  assumes "\<And>i. named_role d inst name i \<Longrightarrow> role_has d i p"
  shows "preserves (\<lambda>x. x = d) (grant_permission inst name p)"
proof (rule preservesI)
  fix s s' assume "s = d" and run: "grant_permission inst name p s = Inr s'"
  let ?gs = "map (\<lambda>r. \<lparr>rp_role_id = ro_id r, rp_permission = p\<rparr>)
    (filter (\<lambda>r. ro_installation_id r = inst \<and> ro_name r = name) (roles d))"
  have "g \<in> set (role_permissions d)" if "g \<in> set ?gs" for g
  proof -
    from that have "named_role d inst name (rp_role_id g)" and p: "rp_permission g = p"
      by (auto simp: named_role_def)
    with assms obtain g' where "g' \<in> set (role_permissions d)" "rp_role_id g' = rp_role_id g" "rp_permission g' = p"
      by (auto simp: role_has_def)
    moreover from this p have "g' = g" by simp
    ultimately show ?thesis by simp
  qed
  then have "filter (\<lambda>g. g \<notin> set (role_permissions d)) ?gs = []" by (auto simp: filter_empty_conv)
  with run \<open>s = d\<close> show "s' = d" by (auto simp: grant_permission_def Let_def)
qed

lemma ensure_again:
  assumes roles: "\<And>n. n \<in> {''owner'', ''administrator'', ''operator'', ''viewer''} \<Longrightarrow>
      \<exists>r \<in> set (roles d). ro_installation_id r = inst \<and> ro_name r = n"
    and grants: "\<And>n req p i. (n, req) \<in> set builtInRolePermissions \<Longrightarrow> p \<in> set (role_grants d req) \<Longrightarrow>
      named_role d inst n i \<Longrightarrow> role_has d i p"
  shows "snd (ensureBuiltInRoles new inst d) = d"
proof -
  have role: "preserves (\<lambda>x. x = d) (ensure_role new inst n)"
    if "n \<in> {''owner'', ''administrator'', ''operator'', ''viewer''}" for n
    using roles [OF that] by (auto simp: preserves_def ensure_role_def insert_role_or_ignore_def)
  have loop: "preserves (\<lambda>x. x = d) (case x of (n, req) \<Rightarrow> \<lambda>d. for_each (grant_permission inst n) (role_grants d req) d)"
    if x: "x \<in> set builtInRolePermissions" for x
  proof (rule preservesI)
    obtain n req where nr: "x = (n, req)" by (cases x)
    fix s s' assume "s = d" and "(case x of (n, req) \<Rightarrow> \<lambda>d. for_each (grant_permission inst n) (role_grants d req) d) s = Inr s'"
    then have "for_each (grant_permission inst n) (role_grants d req) d = Inr s'" by (simp add: nr)
    moreover have "preserves (\<lambda>x. x = d) (for_each (grant_permission inst n) (role_grants d req))"
      by (rule preserves_for_each, rule grant_again, rule grants [OF x [unfolded nr]])
    ultimately show "s' = d" by (blast dest: preserves_run)
  qed
  have "preserves (\<lambda>x. x = d) (ensureBuiltInRolePermissions inst)"
    unfolding ensureBuiltInRolePermissions_def by (rule preserves_for_each) (rule loop)
  then show ?thesis
    unfolding ensureBuiltInRoles_def
    by (intro autocommit_keeps [where i = "\<lambda>x. x = d"]) (simp_all add: role)
qed

lemma map_of_bex:
  "distinct (map fst xs) \<Longrightarrow>
   (\<exists>(k, v) \<in> set xs. k = n \<and> q v) \<longleftrightarrow> (case map_of xs n of None \<Rightarrow> False | Some v \<Rightarrow> q v)"
  by (auto split: option.splits simp: map_of_eq_None_iff rev_image_eqI dest: map_of_is_SomeI map_of_SomeD eq_key_imp_eq_value)

lemma builtIn_keys: "distinct (map fst builtInRolePermissions)"
  by (simp add: builtInRolePermissions_def)

text \<open>
  Installing the built-in roles in a new database creates the four roles and grants each of them
  exactly its built-in permissions (the owner all there are); doing it again, with whatever
  identifiers, changes nothing.
\<close>

theorem built_in_roles_installed:
  assumes "roles d0 = []" and "role_permissions d0 = []" and "ensureBuiltInRoles new inst d0 = (None, d1)"
  shows "map ro_name (roles d1) = [''owner'', ''administrator'', ''operator'', ''viewer''] \<and>
    built_in_roles inst d1 \<and> snd (ensureBuiltInRoles new' inst d1) = d1"
proof -
  let ?names = "[''owner'', ''administrator'', ''operator'', ''viewer'']"
  from ensure_roles_new [OF assms(1,3)] obtain d where run: "ensureBuiltInRolePermissions inst d = Inr d1"
    and empty: "role_permissions d = []" and ids: "distinct (map ro_id (roles d))"
    and roles: "roles d = map (\<lambda>n. \<lparr> ro_id = new n, ro_installation_id = inst, ro_name = n \<rparr>) ?names"
    using assms(2) by auto
  from built_in_grants [OF run] have same: "roles d1 = roles d" "permissions d1 = permissions d"
    and has: "role_has d1 i p \<longleftrightarrow> (\<exists>(name, req) \<in> set builtInRolePermissions.
      p \<in> set (role_grants d req) \<and> named_role d inst name i)" for i p
    using empty by (auto simp: grants_added_def role_has_def)
  have distinct_new: "distinct (map new ?names)" using ids by (simp add: roles)
  have permits: "role_has d1 (new n) p \<longleftrightarrow> p \<in> role_permits d1 n" if "n \<in> set ?names" for n p
  proof -
    have nm: "named_role d inst name (new n) \<longleftrightarrow> name = n" if "name \<in> set ?names" for name
      using that \<open>n \<in> set ?names\<close> distinct_new by (auto simp: named_role_def roles)
    have "fst x \<in> set ?names" if "x \<in> set builtInRolePermissions" for x
      using that by (auto simp: builtInRolePermissions_def)
    with nm have "role_has d1 (new n) p \<longleftrightarrow> (\<exists>(name, req) \<in> set builtInRolePermissions.
        name = n \<and> p \<in> set (role_grants d req))"
      unfolding has by (intro bex_cong refl) (simp add: case_prod_unfold conj_commute)
    also have "\<dots> \<longleftrightarrow> p \<in> role_permits d1 n"
      unfolding map_of_bex [OF builtIn_keys] role_permits_def role_grants_def same
      by (simp split: option.splits)
    finally show ?thesis .
  qed
  then have "built_in_roles inst d1" by (auto simp: built_in_roles_def same roles)
  moreover have "map ro_name (roles d1) = ?names" by (simp add: same roles)
  moreover have "snd (ensureBuiltInRoles new' inst d1) = d1"
  proof (rule ensure_again)
    fix n req p i assume *: "(n, req) \<in> set builtInRolePermissions" "p \<in> set (role_grants d1 req)"
      "named_role d1 inst n i"
    have "role_grants d1 req = role_grants d req" "named_role d1 inst n i = named_role d inst n i"
      by (simp_all add: role_grants_def named_role_def same)
    with * show "role_has d1 i p" unfolding has by (intro bexI [of _ "(n, req)"]) simp_all
  qed (auto simp: same roles)
  ultimately show ?thesis by blast
qed

text \<open>The bindings of a user to a server after the loop of \<open>SetUserServerAccess\<close>.\<close>

definition bound :: "db \<Rightarrow> uuid \<Rightarrow> uuid \<Rightarrow> uuid \<Rightarrow> bool" where
  "bound d u s i \<longleftrightarrow> (\<exists>b \<in> set (role_bindings d). rb_user_id b = u \<and> rb_server_id b = Some s \<and> rb_role_id b = i)"

definition role_view :: "db \<Rightarrow> server list \<times> role list \<times> role_permission list \<times> string list" where
  "role_view d = (servers d, roles d, role_permissions d, permissions d)"

definition server_role :: "db \<Rightarrow> uuid \<Rightarrow> string \<Rightarrow> uuid \<Rightarrow> bool" where
  "server_role d s name i \<longleftrightarrow> (\<exists>x r. find (live s) (servers d) = Some x \<and>
     find (\<lambda>r. ro_installation_id r = sv_installation_id x \<and> ro_name r = name) (roles d) = Some r \<and> ro_id r = i)"

lemma bind_server_bound:
  assumes "bind_server actor u s role b d = Inr d'"
  shows "role_view d' = role_view d \<and> (\<exists>i. server_role d s role i) \<and>
    (\<forall>t i. bound d' u t i \<longleftrightarrow> bound d u t i \<or> (t = s \<and> server_role d s role i))"
  using assms
  by (auto simp: bind_server_def insert_binding_def role_view_def server_role_def bound_def
      split: option.splits)

lemma bind_loop_bound:
  assumes "for_each (\<lambda>s. with_id (bind_server actor u s (role s))) ss (d, ids) = Inr (d', ids')"
  shows "role_view d' = role_view d \<and> (\<forall>s \<in> set ss. \<exists>i. server_role d s (role s) i) \<and>
    (\<forall>t i. bound d' u t i \<longleftrightarrow> bound d u t i \<or> (t \<in> set ss \<and> server_role d t (role t) i))"
  using assms
proof (induction ss arbitrary: d ids)
  case Nil
  then show ?case by simp
next
  case (Cons s ss)
  from Cons.prems obtain b bs d1 where one: "bind_server actor u s (role s) b d = Inr d1"
    and rest: "for_each (\<lambda>s. with_id (bind_server actor u s (role s))) ss (d1, bs) = Inr (d', ids')"
    by (cases ids) (auto simp: stmt_apply split: sum.splits)
  note first = bind_server_bound [OF one]
  then have same: "server_role d1 t n i = server_role d t n i" for t n i
    by (simp add: server_role_def role_view_def)
  from Cons.IH [OF rest] first show ?case by (auto simp: same)
qed

lemma SetUserServerAccess_bound:
  assumes "SetUserServerAccess ids au actor u bs d = Inr d'" and "distinct (map fst bs)"
  shows "role_view d' = role_view d \<and>
    (\<forall>s role. map_of bs s = Some role \<longrightarrow> role \<in> {''administrator'', ''operator'', ''viewer''} \<and>
       (\<exists>i. server_role d s role i)) \<and>
    (\<forall>s i. bound d' u s i \<longleftrightarrow> (\<exists>role. map_of bs s = Some role \<and> server_role d s role i))"
proof -
  let ?d0 = "d\<lparr>role_bindings := del (\<lambda>b. rb_user_id b = u \<and> rb_server_id b \<noteq> None) (role_bindings d)\<rparr>"
  from assms(1) obtain n d1 ids' where roles: "list_all (\<lambda>(i, r). assignable n r) bs"
    and loop: "for_each (\<lambda>s. with_id (bind_server actor u s (chosen_role bs s))) (sort (map fst bs)) (?d0, ids)
      = Inr (d1, ids')"
    and audit: "insert_audit au actor ''user.server_access.update'' ''user'' u
      (JObj [(''bindings'', JObj (map (\<lambda>(i, r). (i, JStr r)) bs))]) d1 = Inr d'"
    by (auto simp: SetUserServerAccess_def exec.simps stmt_apply delete_bindings_def state_of_def
        split: option.splits if_splits sum.splits)
  have chosen: "map_of bs s = Some role \<Longrightarrow> chosen_role bs s = role" for s role by (simp add: chosen_role_def)
  have keys: "s \<in> set (sort (map fst bs)) \<longleftrightarrow> (\<exists>role. map_of bs s = Some role)" for s
    by (auto simp: map_of_eq_Some_iff [OF assms(2)] image_iff) force
  have same: "server_role ?d0 s role i = server_role d s role i" for s role i by (simp add: server_role_def)
  have "\<not> bound ?d0 u s i" for s i by (auto simp: bound_def set_del)
  with bind_loop_bound [OF loop, unfolded same]
  have view: "role_view d1 = role_view ?d0" and found: "\<forall>s \<in> set (sort (map fst bs)). \<exists>i. server_role d s (chosen_role bs s) i"
    and bnd: "bound d1 u s i \<longleftrightarrow> s \<in> set (sort (map fst bs)) \<and> server_role d s (chosen_role bs s) i" for s i
    by blast+
  have rest: "role_view d' = role_view d1" "bound d' u s i = bound d1 u s i" for s i
    using audit by (auto simp: insert_audit_def insert_audit_row_def role_view_def bound_def)
  have "role \<in> {''administrator'', ''operator'', ''viewer''}" if "map_of bs s = Some role" for s role
    using roles map_of_SomeD [OF that] by (auto simp: list_all_iff assignable_def)
  moreover have "\<exists>i. server_role d s role i" if "map_of bs s = Some role" for s role
    using found keys [of s] chosen [OF that] that by force
  moreover have "bound d' u s i \<longleftrightarrow> (\<exists>role. map_of bs s = Some role \<and> server_role d s role i)" for s i
    unfolding rest(2) bnd keys using chosen by auto
  moreover have "role_view d' = role_view d" using view rest(1) by (simp add: role_view_def)
  ultimately show ?thesis by blast
qed

text \<open>
  C31: with the built-in roles in place, what a user may do on a server after the access of the user
  has been set is exactly what the built-in role requested for that server permits, and nothing on
  the servers that the request does not name; the gate of a request agrees.
\<close>

theorem access_as_requested:
  assumes built: "built_in_roles inst d" and run: "SetUserServerAccess ids au actor u bs d = Inr d'"
    and keys: "distinct (map fst bs)" and user: "us_id (snd session) = u"
  shows "(UserHasServerPermission u s p d' \<longleftrightarrow>
      (\<exists>role. map_of bs s = Some role \<and> p \<in> role_permits d role)) \<and>
    (requireServerPermission p s d' session = None \<longleftrightarrow>
      privileged (us_panel_role (snd session)) \<or> (\<exists>role. map_of bs s = Some role \<and> p \<in> role_permits d role))"
proof -
  from SetUserServerAccess_bound [OF run keys] have view: "role_view d' = role_view d"
    and found: "map_of bs s = Some role \<Longrightarrow> \<exists>i. server_role d s role i"
    and bnd: "bound d' u s i \<longleftrightarrow> (\<exists>role. map_of bs s = Some role \<and> server_role d s role i)" for role i
    by blast+
  have has: "role_has d' i p = role_has d i p" for i using view by (simp add: role_view_def role_has_def)
  have permits: "role_has d i p \<longleftrightarrow> p \<in> role_permits d role" if "server_role d s role i" for role i
    using that built by (auto simp: server_role_def built_in_roles_def dest!: find_SomeD)
  have "UserHasServerPermission u s p d' \<longleftrightarrow> (\<exists>i. bound d' u s i \<and> role_has d i p)"
    by (auto simp: UserHasServerPermission_def bound_def has)
  also have "\<dots> \<longleftrightarrow> (\<exists>role. map_of bs s = Some role \<and> p \<in> role_permits d role)"
    unfolding bnd using found permits by blast
  finally have allowed: "UserHasServerPermission u s p d' \<longleftrightarrow>
      (\<exists>role. map_of bs s = Some role \<and> p \<in> role_permits d role)" .
  show ?thesis unfolding requireServerPermission_def user allowed by simp
qed

section \<open>Instances\<close>

lemma grants_succeed:
  "set ps \<subseteq> set (permissions d) \<Longrightarrow>
   \<exists>d'. for_each (grant_permission inst name) ps d = Inr d' \<and> permissions d' = permissions d"
proof (induction ps arbitrary: d)
  case (Cons p ps)
  then obtain d1 where d1: "grant_permission inst name p d = Inr d1" "permissions d1 = permissions d"
    by (auto simp: grant_permission_def Let_def constrain_def)
  with Cons.prems have "set ps \<subseteq> set (permissions d1)" by simp
  from Cons.IH [OF this] d1 show ?case by simp
qed simp

lemma role_grants_succeed:
  "(\<And>x. x \<in> set rs \<Longrightarrow> set (role_grants d (snd x)) \<subseteq> set (permissions d)) \<Longrightarrow>
   \<exists>d'. for_each (\<lambda>(n, req) d. for_each (grant_permission inst n) (role_grants d req) d) rs d = Inr d'"
proof (induction rs arbitrary: d)
  case (Cons r rs)
  obtain d1 where d1: "for_each (grant_permission inst (fst r)) (role_grants d (snd r)) d = Inr d1"
    and same: "permissions d1 = permissions d"
    using grants_succeed [OF Cons.prems [of r]] by auto
  have "set (role_grants d1 (snd x)) \<subseteq> set (permissions d1)" if "x \<in> set rs" for x
    using Cons.prems [of x] that by (simp add: role_grants_def same split: if_splits)
  then obtain d' where "for_each (\<lambda>(n, req) d. for_each (grant_permission inst n) (role_grants d req) d) rs d1 = Inr d'"
    using Cons.IH by blast
  then show ?case using d1 by (simp add: case_prod_unfold)
qed simp

definition permissions_db :: db where
  "permissions_db = empty_db\<lparr>permissions := administrator_permissions\<rparr>"

theorem built_in_roles_installed_witness:
  "\<exists>d. ensureBuiltInRoles id ''inst'' permissions_db = (None, d) \<and>
     map ro_name (roles d) = [''owner'', ''administrator'', ''operator'', ''viewer''] \<and>
     built_in_roles ''inst'' d \<and> snd (ensureBuiltInRoles rev ''inst'' d) = d"
proof -
  let ?r = "\<lambda>n. \<lparr> ro_id = n, ro_installation_id = ''inst'', ro_name = n \<rparr>"
  let ?roles = "map ?r
    [''owner'', ''administrator'', ''operator'', ''viewer'']"
  let ?d = "permissions_db\<lparr>roles := ?roles\<rparr>"
  have empty: "roles permissions_db = []" "role_permissions permissions_db = []"
    by (simp_all add: permissions_db_def empty_db_def)
  have "set (role_grants ?d (snd x)) \<subseteq> set (permissions ?d)" if "x \<in> set builtInRolePermissions" for x
    using that by (auto simp: builtInRolePermissions_def role_grants_def permissions_db_def
        administrator_permissions_def operator_permissions_def viewer_permissions_def)
  then obtain d' where "ensureBuiltInRolePermissions ''inst'' ?d = Inr d'"
    unfolding ensureBuiltInRolePermissions_def using role_grants_succeed by blast
  note permissions = this
  have step: "ensure_role id ''inst'' n d = Inr (d\<lparr>roles := roles d @ [?r n]\<rparr>)"
    if "n \<notin> ro_id ` set (roles d)" "n \<notin> ro_name ` set (roles d)" for n d
    using that by (auto simp: ensure_role_def insert_role_or_ignore_def constrain_def)
  let ?d1 = "permissions_db\<lparr>roles := map ?r [''owner'']\<rparr>"
  let ?d2 = "permissions_db\<lparr>roles := map ?r [''owner'', ''administrator'']\<rparr>"
  let ?d3 = "permissions_db\<lparr>roles := map ?r [''owner'', ''administrator'', ''operator'']\<rparr>"
  have "ensure_role id ''inst'' ''owner'' permissions_db = Inr ?d1" by (subst step) (simp_all add: empty)
  moreover have "ensure_role id ''inst'' ''administrator'' ?d1 = Inr ?d2" by (subst step) simp_all
  moreover have "ensure_role id ''inst'' ''operator'' ?d2 = Inr ?d3" by (subst step) simp_all
  moreover have "ensure_role id ''inst'' ''viewer'' ?d3 = Inr ?d" by (subst step) simp_all
  ultimately have run: "ensureBuiltInRoles id ''inst'' permissions_db = (None, d')"
    using permissions by (simp only: ensureBuiltInRoles_def list.map append.simps autocommit.simps sum.case)
  show ?thesis
    by (rule exI [of _ d'], rule conjI [OF run], rule built_in_roles_installed [OF empty run])
qed

definition viewer_db :: db where
  "viewer_db = sample_db\<lparr>roles := [sample_role ''viewer''],
     role_permissions := map (\<lambda>p. \<lparr>rp_role_id = ''viewer'', rp_permission = p\<rparr>) viewer_permissions\<rparr>"

theorem access_as_requested_witness:
  "\<exists>d. SetUserServerAccess [''b1''] ''a1'' ''u1'' ''u2'' [(''s1'', ''viewer'')] viewer_db = Inr d \<and>
     UserHasServerPermission ''u2'' ''s1'' ''server.view'' d \<and>
     \<not> UserHasServerPermission ''u2'' ''s1'' ''server.power.start'' d"
proof -
  obtain d where run: "SetUserServerAccess [''b1''] ''a1'' ''u1'' ''u2'' [(''s1'', ''viewer'')] viewer_db = Inr d"
    by (simp add: viewer_db_def sample_user_def SetUserServerAccess_def assignable_def roleRank_def exec.simps
        stmt_apply delete_bindings_def del_def chosen_role_def bind_server_def live_def sample_server_def
        sample_role_def insert_binding_def binding_key_def insert_audit_def insert_audit_row_def state_of_def constrain_def)
  have permits: "role_permits viewer_db ''viewer'' = set viewer_permissions"
    by (simp add: role_permits_def role_grants_def builtInRolePermissions_def viewer_permissions_def)
  have built: "built_in_roles ''inst'' viewer_db"
    unfolding built_in_roles_def by (simp add: viewer_db_def sample_role_def role_has_def permits [unfolded viewer_db_def sample_role_def])
  have keys: "distinct (map fst [(''s1'' :: uuid, ''viewer'')])" by simp
  have user: "us_id (snd (sample_session ''h'' ''u2'', sample_user ''u2'' ''active'' ''viewer'')) = ''u2''"
    by (simp add: sample_user_def)
  have may: "UserHasServerPermission ''u2'' ''s1'' p d \<longleftrightarrow> p \<in> set viewer_permissions" for p
    using access_as_requested [OF built run keys user, of "''s1''" p] by (simp add: permits)
  show ?thesis by (intro exI [of _ d] conjI run) (simp_all add: may viewer_permissions_def)
qed

end
