(* ===== verification/Panel_Properties.thy ===== *)
theory Panel_Properties
  imports Panel Examples
begin

text \<open>
  Properties of whole runs of the panel: what every reachable database keeps, what stays true of a
  deleted server, and that a change of a server's configuration is never overwritten unseen.
\<close>

section \<open>Reachable databases\<close>

lemma fresh_installed: "installed fresh_db"
  unfolding installed_def
proof (intro conjI)
  show "db_ok fresh_db"
    by (simp add: ok_defs names_unique_def) (simp add: sample_rows fresh_db_def sample_db_def empty_db_def)
  show "access_ok fresh_db"
    by (simp add: access_ok_def sample_rows check_user_def)
qed simp

text \<open>
  C32: whatever operations of the store commit, in whatever order and with whatever arguments, and
  whatever the engine, the clock and a failing connection do to the handling of an event in that
  state, the database stays well formed: keys are distinct and references resolve, columns hold
  allowed values, two live servers of an installation never share a name, no host port belongs to
  two servers, and a live server has at most one missing-container observation.
\<close>

theorem reachable_panel_ok:
  assumes "reachable installed panel_step d" and "w_db w = d"
  shows "db_ok d \<and> hosts_disjoint d \<and> observations_ok d \<and>
    (let d' = w_db (snd (handle_event env ev w)) in db_ok d' \<and> hosts_disjoint d' \<and> observations_ok d')"
  using panel.reachable_inv [OF assms(1)] handle_event_ok [of w env ev] assms(2)
  by (simp add: panel_ok_def Let_def)

text \<open>Creating a server is a step from the fresh database to a reachable one.\<close>

lemma sample_reachable:
  "\<exists>res d. CreateServer None noon ''s2'' [''p1'', ''p2''] ''op'' ''k'' ''ev'' ''ac'' sample_params fresh_db = Inr (res, d) \<and>
     reachable installed panel_step d"
proof -
  obtain res d where run: "CreateServer None noon ''s2'' [''p1'', ''p2''] ''op'' ''k'' ''ev'' ''ac''
      sample_params fresh_db = Inr (res, d)" using sample_creation [of fresh_db] by blast
  have "reachable installed panel_step fresh_db" by (rule reachable.start) (rule fresh_installed)
  then have "reachable installed panel_step d" by (rule reachable.next_state) (rule create_server [OF run])
  with run show ?thesis by blast
qed

theorem reachable_panel_ok_witness:
  "\<exists>res d. CreateServer None noon ''s2'' [''p1'', ''p2''] ''op'' ''k'' ''ev'' ''ac'' sample_params fresh_db = Inr (res, d) \<and>
     db_ok d \<and> hosts_disjoint d \<and> observations_ok d"
proof -
  obtain res d where run: "CreateServer None noon ''s2'' [''p1'', ''p2''] ''op'' ''k'' ''ev'' ''ac''
      sample_params fresh_db = Inr (res, d)" "reachable installed panel_step d" using sample_reachable by blast
  have "w_db \<lparr>w_db = d, w_calls = [], w_step = 0\<rparr> = d" by simp
  with reachable_panel_ok [OF run(2)] have "db_ok d \<and> hosts_disjoint d \<and> observations_ok d" by blast
  with run(1) show ?thesis by blast
qed

section \<open>No lost updates\<close>

text \<open>A change of a server's configuration that was prepared for the version \<open>v\<close>.\<close>

inductive configuration_commit :: "uuid \<Rightarrow> int \<Rightarrow> db stmt \<Rightarrow> bool" where
  "configuration_commit s v (CommitStartupConfiguration seal now ev s actor v img override changes secrets defs c)"
| "configuration_commit s v (CommitServerPorts now ids ev s actor v ports c)"
| "configuration_commit s v (CommitServerSettings now ev s actor v name description res c)"

inductive_cases configuration_commitE: "configuration_commit s v c"

definition past :: "uuid \<Rightarrow> int \<Rightarrow> db \<Rightarrow> bool" where
  "past s v d \<longleftrightarrow> (\<exists>r \<in> set (servers d). sv_id r = s \<and> v < sv_version r)"

lemma past_later: "rows_evolve d d' \<Longrightarrow> past s v d \<Longrightarrow> past s v d'"
  unfolding past_def rows_evolve_def row_step_def by (metis order_less_le_trans)

lemma update_version_past:
  assumes "\<And>r. sv_id (f r) = sv_id r" and "update_version s v now f d = Inr d'"
  shows "past s v d'"
proof -
  from assms(2) have one: "affected (editable s v) (servers d) = 1"
    and rows: "servers d' = upd (editable s v) (\<lambda>r. (f r)\<lparr>sv_version := sv_version r + 1, sv_updated_at := now\<rparr>) (servers d)"
    by (auto simp: update_version_def exec_Cons_Inr require_def checked_update_servers_def split: if_splits)
  from one obtain r where "r \<in> set (servers d)" "editable s v r"
    by (metis affected_pos zero_less_one)
  then show ?thesis
    unfolding past_def rows set_upd
    by (intro bexI [of _ "(f r)\<lparr>sv_version := sv_version r + 1, sv_updated_at := now\<rparr>"])
      (auto simp: editable_def assms(1))
qed

lemma past_kept:
  assumes "\<And>d. preserves (evolves d) c"
  shows "preserves (past s v) c"
proof (rule preservesI)
  fix d d' assume "past s v d" "c d = Inr d'"
  with preservesD [OF assms evolves_refl, of d d'] show "past s v d'"
    by (auto simp: evolves_def intro: past_later)
qed

text \<open>After the guarded update, statements that let the servers table evolve.\<close>

lemma exec_past:
  assumes "exec (update_version s v now f # cs) d = Inr d'" and "\<And>r. sv_id (f r) = sv_id r"
    and "\<And>c d0. c \<in> set cs \<Longrightarrow> preserves (evolves d0) c"
  shows "past s v d'"
proof -
  from assms(1) obtain d1 where d1: "update_version s v now f d = Inr d1" "exec cs d1 = Inr d'"
    by (auto simp: exec_Cons_Inr)
  have "preserves (past s v) (exec cs)" by (rule preserves_exec) (simp add: past_kept assms(3) list_all_iff)
  from preservesD [OF this update_version_past [OF assms(2) d1(1)] d1(2)] show ?thesis .
qed

lemma ports_past:
  assumes "CommitServerPorts now ids ev s actor v ports c d = Inr d'"
  shows "past s v d'"
proof -
  let ?f = "\<lambda>x. x\<lparr>sv_container_id := Some c\<rparr>"
  from assms obtain d1 d2 p3 p4 where d1: "update_version s v now ?f d1 = Inr d2"
    and p4: "for_each (insert_allocation s) ports p3 = Inr p4" "servers (fst p3) = servers d2"
    and last: "addConfigurationActivity ev now s actor ''server.network.updated''
         ''Server network allocations updated'' (JObj [(''port_count'', JNum (int (length ports)))]) (fst p4) = Inr d'"
    by (auto simp: CommitServerPorts_def state_of_Inr exec_Cons_Inr lift_stmt_Inr delete_ports_def)
  have "past s v d2" by (rule update_version_past [OF _ d1]) simp
  with p4(2) have p3: "past s v (fst p3)" by (simp add: past_def)
  have row: "preserves (past s v) (insert_port r)" for r
    by (rule preservesI) (auto simp: insert_port_def past_def)
  have "preserves (\<lambda>p. past s v (fst p)) (for_each (insert_allocation s) ports)"
    by (intro preserves_for_each insert_allocation_keeps row)
  from preservesD [OF this p3 p4(1)] have "past s v (fst p4)" .
  moreover have "preserves (past s v) (addConfigurationActivity ev now s actor ty su da)" for ty su da
    by (rule past_kept) (simp add: addConfigurationActivity_def keeps_evolving)
  ultimately show ?thesis using last by (blast dest: preservesD)
qed

lemma commit_past:
  assumes "configuration_commit s v c" and "c d = Inr d'"
  shows "past s v d'"
  using assms(1)
proof cases
  case 1
  show ?thesis
    by (rule exec_past [OF assms(2) [unfolded 1 CommitStartupConfiguration_def Let_def]])
      (auto simp: addConfigurationActivity_def intro!: keeps_evolving preserves_for_each commit_variable_keeps)
next
  case 2
  with assms(2) show ?thesis by (simp add: ports_past)
next
  case 3
  show ?thesis
    by (rule exec_past [OF assms(2) [unfolded 3 CommitServerSettings_def]])
      (auto simp: addConfigurationActivity_def intro!: keeps_evolving)
qed

lemma past_refused:
  assumes "db_ok d" and "past s v d"
  shows "update_version s v now f d = Inl ErrConflict"
proof -
  from assms(2) obtain r where r: "r \<in> set (servers d)" "sv_id r = s" "v < sv_version r" by (auto simp: past_def)
  have "\<not> editable s v x" if "x \<in> set (servers d)" for x
    using r distinct_key_eq [OF db_ok_servers [OF assms(1)] that r(1)] by (auto simp: editable_def)
  then have "affected (editable s v) (servers d) = 0" by (simp add: affected_0)
  then show ?thesis by (simp add: update_version_def exec.simps require_def)
qed

lemma ports_refused:
  "for_each (\<lambda>p. lift_stmt (check_port_free s p)) ports x = Inl e \<Longrightarrow> error_is e ErrConflict"
  by (induction ports arbitrary: x)
    (auto simp: lift_stmt_def check_port_free_def require_def split: sum.splits if_splits)

lemma commit_refused:
  assumes refused: "\<And>now f. update_version s v now f d = Inl ErrConflict" and "configuration_commit s v c"
  shows "\<exists>e. c d = Inl e \<and> error_is e ErrConflict"
  using assms(2)
proof cases
  case (2 now ids ev actor ports cid)
  let ?checks = "for_each (\<lambda>p. lift_stmt (check_port_free s p)) ports (d, ids)"
  show ?thesis
  proof (cases ?checks)
    case (Inl e)
    then show ?thesis
      using ports_refused by (auto simp: 2 CommitServerPorts_def exec.simps state_of_def)
  next
    case (Inr p)
    with ports_checked [OF Inr] show ?thesis
      by (simp add: 2 CommitServerPorts_def exec.simps state_of_def lift_stmt_def refused)
  qed
qed (auto simp: CommitStartupConfiguration_def CommitServerSettings_def Let_def exec.simps refused)

text \<open>
  C34: once a change of startup, network or settings prepared for a version of a server has been
  committed, every other change prepared for that version is refused with the conflict error, in
  whatever state the panel has reached by then: no change overwrites one it has not seen.
\<close>

theorem no_lost_updates:
  assumes "panel_ok d" and "configuration_commit s v c" and "c d = Inr d1" and "panel_step\<^sup>*\<^sup>* d1 d2"
    and "configuration_commit s v c'"
  shows "\<exists>e. c' d2 = Inl e \<and> error_is e ErrConflict"
proof -
  have "store_stmt c" using assms(2) by cases (auto intro: store_stmt.intros)
  then have "panel_step d d1" using assms(3) by (rule stmt)
  from panel_step_ok [OF assms(1) this] run_evolves [OF assms(4)]
  have ok: "db_ok d2" and "rows_evolve d1 d2" by (auto simp: panel_ok_def evolves_def)
  with commit_past [OF assms(2,3)] have past: "past s v d2" by (blast intro: past_later)
  show ?thesis by (rule commit_refused [OF past_refused [OF ok past] assms(5)])
qed

text \<open>Two administrators change the settings of a stopped server that both saw at version 1.\<close>

definition stopped_db :: db where
  "stopped_db = sample_db\<lparr>servers := [sample_server ''s1'' ''stopped'' ''stopped'']\<rparr>"

lemma stopped_tables [simp]:
  "servers stopped_db = [sample_server ''s1'' ''stopped'' ''stopped'']"
  "resources stopped_db = []" "server_ports stopped_db = []"
  "webhook_destinations stopped_db = [sample_destination]" "activity stopped_db = []"
  "webhook_deliveries stopped_db = []" "users stopped_db = users sample_db"
  by (simp_all add: stopped_db_def)

lemma stopped_panel_ok: "panel_ok stopped_db"
proof -
  have "db_ok stopped_db"
    using sample_db_ok
    by (simp add: db_ok_def ok_defs stopped_db_def names_unique_def sample_server_def check_server_def server_statuses_def)
  then show ?thesis
    by (simp add: panel_ok_def hosts_disjoint_def observations_ok_def fresh_row_def sample_server_def)
qed

definition rename :: "string \<Rightarrow> uuid \<Rightarrow> db stmt" where
  "rename name ev = CommitServerSettings noon ev ''s1'' ''u1'' 1 name [] 
     (cs_resources sample_params) ''c2''"

lemma rename_commits: "\<exists>d'. rename ''first'' ''a1'' stopped_db = Inr d'"
  by (simp add: rename_def CommitServerSettings_def update_version_def exec.simps require_def
      affected_def editable_def sample_server_def checked_update_servers_def constrain_def
      check_server_def server_statuses_def checked_update_resources_def addConfigurationActivity_def
      insert_activity_def Let_def activity_row_def check_activity_def server_exists_opt_def server_exists_def
      dockside_enqueue_webhook_deliveries_def webhook_matches_def sample_destination_def)

theorem no_lost_updates_witness:
  "\<exists>d'. rename ''first'' ''a1'' stopped_db = Inr d' \<and>
     (\<exists>e. rename ''second'' ''a2'' d' = Inl e \<and> error_is e ErrConflict)"
proof -
  obtain d' where first: "rename ''first'' ''a1'' stopped_db = Inr d'" using rename_commits by blast
  have commits: "configuration_commit ''s1'' 1 (rename n ev)" for n ev
    unfolding rename_def by (rule configuration_commit.intros)
  from no_lost_updates [OF stopped_panel_ok commits first rtranclp.rtrancl_refl commits] first
  show ?thesis by blast
qed

section \<open>Deleted servers\<close>

definition gone :: "uuid \<Rightarrow> db \<Rightarrow> bool" where
  "gone serverID d \<longleftrightarrow> (\<exists>r \<in> set (servers d). sv_id r = serverID \<and> sv_deleted_at r \<noteq> None)"

lemma gone_not_live: "db_ok d \<Longrightarrow> gone s d \<Longrightarrow> r \<in> set (servers d) \<Longrightarrow> \<not> live s r"
  unfolding gone_def live_def using distinct_key_eq [OF db_ok_servers] by fastforce

lemma gone_later: "evolves d d' \<Longrightarrow> gone s d \<Longrightarrow> gone s d'"
  unfolding gone_def by (blast dest: evolves_deleted)

text \<open>
  C33: a deleted server stays deleted whatever happens afterwards, and from then on it refuses every
  power request, backup, restore and template update, begins no recovery, and refuses every change of
  its startup configuration, its ports and its settings, whatever version it was prepared for.
\<close>

theorem deleted_servers_refuse:
  assumes "panel_ok d" and "gone s d" and "panel_step\<^sup>*\<^sup>* d d'"
  shows "gone s d' \<and>
    (\<exists>e. requestPower now opn key ac ob s actor a enq d' = Inl e) \<and>
    CreateBackup now b ob ev ids s actor name inc exc rd d' = Inl ErrNotFound \<and>
    QueueBackupRestore now opn ob ac key s b actor d' = Inl ErrConflict \<and>
    (\<exists>e. QueueTemplateUpdate now stamp opn b ob ac key s actor tv mode d' = Inl e) \<and>
    BeginRecovery now s n d' = Inr (False, d') \<and>
    CommitStartupConfiguration seal now ev s actor v img override changes secrets defs c d' = Inl ErrConflict \<and>
    (\<exists>e. CommitServerPorts now ids ev s actor v ports c d' = Inl e \<and> error_is e ErrConflict) \<and>
    CommitServerSettings now ev s actor v name desc res c d' = Inl ErrConflict"
proof -
  from run_evolves [OF assms(3,1)] have ok: "db_ok d'" and "evolves d d'" by (auto simp: panel_ok_def)
  with assms(2) have gone: "gone s d'" by (blast intro: gone_later)
  have dead: "\<not> live s r" if "r \<in> set (servers d')" for r by (rule gone_not_live [OF ok gone that])
  then have none: "find (live s) (servers d') = None" by (auto simp: find_None_iff)
  have conflict: "affected (editable s v) (servers d') = 0" "affected (recoverable s n) (servers d') = 0"
    using dead by (auto simp: affected_0 editable_def recoverable_def live_def)
  have "requestPower now opn key ac ob s actor a enq d' = Inl (if power_transition a = [] then ErrConflict else ErrNotFound)"
    by (simp add: requestPower_def none)
  moreover have "QueueTemplateUpdate now stamp opn b ob ac key s actor tv mode d' =
      Inl (if mode \<noteq> ''rebase'' \<and> mode \<noteq> ''reinstall''
        then Wrap [] ErrConflict '': invalid template update mode'' else ErrNotFound)"
    by (simp add: QueueTemplateUpdate_def update_versions_def none)
  moreover have "CreateBackup now b ob ev ids s actor name inc exc rd d' = Inl ErrNotFound"
    using dead by (auto simp: CreateBackup_def)
  moreover have "QueueBackupRestore now opn ob ac key s b actor d' = Inl ErrConflict"
    by (simp add: QueueBackupRestore_def none split: option.splits)
  moreover have "BeginRecovery now s n d' = Inr (False, d')"
    using conflict(2) upd_none [of "servers d'" "recoverable s n"]
    by (simp add: BeginRecovery_def update_servers_def affected_0 [symmetric])
  moreover have refused: "update_version s v now f d' = Inl ErrConflict" for now f
    by (simp add: update_version_def exec.simps require_def conflict(1))
  then have "CommitServerSettings now ev s actor v name desc res c d' = Inl ErrConflict"
    "CommitStartupConfiguration seal now ev s actor v img override changes secrets defs c d' = Inl ErrConflict"
    by (simp_all add: CommitServerSettings_def CommitStartupConfiguration_def exec.simps Let_def)
  moreover have "\<exists>e. CommitServerPorts now ids ev s actor v ports c d' = Inl e \<and> error_is e ErrConflict"
    by (rule commit_refused [OF refused configuration_commit.intros(2)])
  ultimately show ?thesis using gone by auto
qed

lemma sample_panel_ok: "panel_ok sample_db"
  using sample_db_ok
  by (simp add: panel_ok_def hosts_disjoint_def observations_ok_def fresh_row_def sample_server_def)

lemma sample_deletion:
  "gone ''s1'' (snd (FinalizeServerDeletion noon ''au'' ''s1'' ''u1'' sample_db))"
  by (auto simp: FinalizeServerDeletion_def Let_def gone_def live_def sample_server_def AddAudit_def
      insert_audit_row_def constrain_def split: sum.split if_splits)

theorem deleted_servers_refuse_witness:
  "\<exists>d. d = snd (FinalizeServerDeletion noon ''au'' ''s1'' ''u1'' sample_db) \<and> gone ''s1'' d \<and>
     CreateBackup noon ''b9'' ''o'' ''e'' [] ''s1'' ''u1'' ''late'' [] [] None d = Inl ErrNotFound"
proof -
  let ?d = "snd (FinalizeServerDeletion noon ''au'' ''s1'' ''u1'' sample_db)"
  have step: "panel_step sample_db ?d" by (rule call) (rule finalize_deletion)
  have ok: "panel_ok ?d" using panel_step_ok [OF sample_panel_ok step] by blast
  have "gone ''s1'' ?d \<and> CreateBackup noon ''b9'' ''o'' ''e'' [] ''s1'' ''u1'' ''late'' [] [] None ?d = Inl ErrNotFound"
    using deleted_servers_refuse [OF ok sample_deletion rtranclp.rtrancl_refl] by simp
  then show ?thesis by blast
qed

end
