(* ===== verification/Configuration_Properties.thy ===== *)
theory Configuration_Properties
  imports Configuration Examples "HOL-Library.Multiset"
begin

text \<open>
  The startup command of a server: rendering does not depend on the order in which Go walks a map,
  and the container a server is provisioned with is the one its configuration describes.
\<close>

section \<open>Rendering\<close>

text \<open>A startup command as its author sees it: text, and placeholders between double braces.\<close>

datatype segment = Literal string | Placeholder string

definition plain :: "string \<Rightarrow> bool" where
  "plain s \<longleftrightarrow> CHR 0x7B \<notin> set s \<and> CHR 0x7D \<notin> set s"

fun plain_segment :: "segment \<Rightarrow> bool" where
  "plain_segment (Literal l) = plain l"
| "plain_segment (Placeholder n) = plain n"

fun segment_text :: "segment \<Rightarrow> string" where
  "segment_text (Literal l) = l"
| "segment_text (Placeholder n) = braced n"

definition command_text :: "segment list \<Rightarrow> string" where
  "command_text segments = concat (map segment_text segments)"

text \<open>What a placeholder stands for.\<close>

definition placeholder_value :: "(string \<rightharpoonup> string) \<Rightarrow> string \<Rightarrow> string option" where
  "placeholder_value values n =
     (let value = (\<lambda>k. Some (case values k of None \<Rightarrow> [] | Some v \<Rightarrow> v)) in
      if n = ''server.allocations.default.port'' then value ''SERVER_PORT''
      else if n = ''server.allocations.default.ip'' then value ''SERVER_IP''
      else if prefix ''server.build.env.'' n then values (drop 17 n)
      else values n)"

fun segment_value :: "(string \<rightharpoonup> string) \<Rightarrow> segment \<Rightarrow> string" where
  "segment_value values (Literal l) = l"
| "segment_value values (Placeholder n) =
     (case placeholder_value values n of None \<Rightarrow> braced n | Some v \<Rightarrow> v)"

text \<open>One replacement at a time.\<close>

fun put :: "string \<Rightarrow> string \<Rightarrow> segment \<Rightarrow> segment" where
  "put n v (Literal l) = Literal l"
| "put n v (Placeholder m) = (if m = n then Literal v else Placeholder m)"

lemma put_Placeholder: "put n v x = Placeholder m \<longleftrightarrow> x = Placeholder m \<and> m \<noteq> n"
  by (cases x) auto

lemma plain_append [simp]: "plain (s @ t) \<longleftrightarrow> plain s \<and> plain t"
  by (auto simp: plain_def)

lemma plain_Nil [simp]: "plain []"
  by (simp add: plain_def)

lemma plain_Cons [simp]: "plain (c # s) \<longleftrightarrow> c \<noteq> CHR 0x7B \<and> c \<noteq> CHR 0x7D \<and> plain s"
  by (auto simp: plain_def)

lemma replace_all_skip:
  "\<not> prefix old (c # s) \<Longrightarrow> replace_all old new (c # s) = c # replace_all old new s"
  by (simp add: replace_all.simps(2))

lemma replace_all_literal:
  "plain l \<Longrightarrow> replace_all (braced n) v (l @ s) = l @ replace_all (braced n) v s"
proof (induction l)
  case (Cons c l)
  then have "\<not> prefix (braced n) (c # l @ s)" by (auto simp: braced_def)
  with Cons show ?case by (simp add: replace_all_skip)
qed simp

lemma replace_all_same: "replace_all (braced n) v (braced n @ s) = v @ replace_all (braced n) v s"
proof -
  obtain c cs where b: "braced n @ s = c # cs" "braced n \<noteq> []" by (auto simp: braced_def)
  have "prefix (braced n) (c # cs)" by (metis b(1) prefixI)
  then have "replace_all (braced n) v (c # cs) = v @ replace_all (braced n) v (drop (length (braced n)) (c # cs))"
    using b(2) by (simp add: replace_all.simps(2))
  with b show ?thesis by (metis append_eq_conv_conj)
qed

text \<open>A brace-free name is determined by its closing braces.\<close>

lemma prefix_closing:
  assumes "plain n" and "plain m" and "prefix (n @ ''}}'') (m @ ''}}'' @ s)"
  shows "n = m"
  using assms
proof (induction n arbitrary: m)
  case Nil
  then show ?case by (cases m) auto
next
  case (Cons c n)
  then show ?case by (cases m) auto
qed

lemma replace_all_other:
  assumes "plain n" and "plain m" and "m \<noteq> n"
  shows "replace_all (braced n) v (braced m @ s) = braced m @ replace_all (braced n) v s"
proof -
  have open2: "\<not> prefix (braced n) (CHR 0x7B # m @ ''}}'' @ s)"
    using assms(2) by (cases m) (auto simp: braced_def)
  have open1: "\<not> prefix (braced n) (braced m @ s)"
    using prefix_closing [OF assms(1,2), of s] assms(3) by (auto simp: braced_def)
  have closing: "replace_all (braced n) v (''}}'' @ s) = ''}}'' @ replace_all (braced n) v s"
    by (simp add: replace_all_skip braced_def)
  show ?thesis
    using open1 open2 replace_all_literal [OF assms(2), of n v "''}}'' @ s"] closing
    by (simp add: braced_def replace_all_skip)
qed

lemma replace_command:
  assumes "plain n" and "list_all plain_segment segments"
  shows "replace_all (braced n) v (command_text segments) = command_text (map (put n v) segments)"
  using assms(2)
proof (induction segments)
  case Nil
  then show ?case by (simp add: command_text_def)
next
  case (Cons x segments)
  then show ?case using assms(1)
    by (cases x) (auto simp: command_text_def replace_all_literal replace_all_same replace_all_other)
qed

lemma put_plain: "(Placeholder n \<in> set segments \<Longrightarrow> plain v) \<Longrightarrow> list_all plain_segment segments \<Longrightarrow> list_all plain_segment (map (put n v) segments)"
proof (induction segments)
  case (Cons x segments)
  then show ?case by (cases x) auto
qed simp

text \<open>A series of replacements: a placeholder takes the first replacement that names it.\<close>

definition replace_rules :: "(string \<times> string) list \<Rightarrow> string \<Rightarrow> string" where
  "replace_rules rules s = fold (\<lambda>(n, v). replace_all (braced n) v) rules s"

fun first_match :: "(string \<times> string) list \<Rightarrow> segment \<Rightarrow> string" where
  "first_match rules (Literal l) = l"
| "first_match rules (Placeholder n) = (case map_of rules n of None \<Rightarrow> braced n | Some v \<Rightarrow> v)"

lemma replace_rules_command:
  assumes "\<forall>(n, v) \<in> set rules. plain n" and "list_all plain_segment segments"
    and "\<And>m v. Placeholder m \<in> set segments \<Longrightarrow> map_of rules m = Some v \<Longrightarrow> plain v"
  shows "replace_rules rules (command_text segments) = concat (map (first_match rules) segments)"
  using assms
proof (induction rules arbitrary: segments)
  case Nil
  have "first_match [] x = segment_text x" for x by (cases x) simp_all
  then show ?case by (simp add: replace_rules_def command_text_def comp_def)
next
  case (Cons rule rules)
  obtain n v where rule: "rule = (n, v)" by (cases rule)
  have first: "first_match rules (put n v x) = first_match (rule # rules) x" for x by (cases x) (auto simp: rule)
  have left: "m \<noteq> n \<and> Placeholder m \<in> set segments" if "Placeholder m \<in> set (map (put n v) segments)" for m
  proof -
    from that obtain x where "x \<in> set segments" "put n v x = Placeholder m" by auto
    then show ?thesis by (simp add: put_Placeholder)
  qed
  have "list_all plain_segment (map (put n v) segments)"
    using Cons.prems by (intro put_plain) (auto simp: rule)
  moreover have "plain v'" if "Placeholder m \<in> set (map (put n v) segments)" "map_of rules m = Some v'" for m v'
    using left [OF that(1)] that(2) Cons.prems(3) [of m v'] by (simp add: rule)
  ultimately have "replace_rules rules (command_text (map (put n v) segments)) =
      concat (map (first_match rules) (map (put n v) segments))"
    using Cons.prems(1) by (intro Cons.IH) auto
  with Cons.prems show ?case
    by (simp add: rule replace_rules_def replace_command comp_def first [unfolded rule])
qed


text \<open>The replacements of \<^const>\<open>renderTemplate\<close>, in the order it makes them.\<close>

definition render_rules :: "environment \<Rightarrow> environment \<Rightarrow> (string \<times> string) list" where
  "render_rules ordered env =
     concat (map (\<lambda>(n, v). [(n, v), (''server.build.env.'' @ n, v)]) ordered) @
     [(''server.allocations.default.port'', lookup env ''SERVER_PORT''),
      (''server.allocations.default.ip'', lookup env ''SERVER_IP'')]"

lemma replace_rules_append: "replace_rules (r1 @ r2) s = replace_rules r2 (replace_rules r1 s)"
  by (simp add: replace_rules_def)

lemma renderTemplate_rules: "renderTemplate order s env = replace_rules (render_rules (order env) env) s"
proof -
  have "fold substitute ordered x =
      replace_rules (concat (map (\<lambda>(n, v). [(n, v), (''server.build.env.'' @ n, v)]) ordered)) x" for ordered x
    by (induction ordered arbitrary: x) (auto simp: replace_rules_def substitute_def)
  then show ?thesis
    by (simp add: renderTemplate_def render_rules_def replace_rules_append) (simp add: replace_rules_def)
qed

text \<open>
  Names of variables have neither braces nor dots, and the values the command uses have no braces
  (the command transport, a JSON text in the environment, has).
\<close>

definition renderable :: "segment list \<Rightarrow> environment \<Rightarrow> bool" where
  "renderable segments env \<longleftrightarrow> list_all plain_segment segments \<and> distinct (map fst env) \<and>
     (\<forall>(n, v) \<in> set env. plain n \<and> CHR ''.'' \<notin> set n) \<and>
     (\<forall>x \<in> set segments. case x of Literal l \<Rightarrow> True
        | Placeholder n \<Rightarrow> (case placeholder_value (map_of env) n of None \<Rightarrow> True | Some v \<Rightarrow> plain v))"

lemma rules_map_of:
  assumes "\<forall>(n, v) \<in> set ordered. CHR ''.'' \<notin> set n"
  shows "map_of (concat (map (\<lambda>(n, v). [(n, v), (''server.build.env.'' @ n, v)]) ordered)) m =
    (if prefix ''server.build.env.'' m then map_of ordered (drop 17 m) else map_of ordered m)"
  using assms
proof (induction ordered)
  case Nil
  then show ?case by simp
next
  case (Cons e ordered)
  obtain n v where e: "e = (n, v)" by (cases e)
  with Cons.prems have dots: "CHR ''.'' \<notin> set n" by simp
  have "\<not> prefix ''server.build.env.'' n" using dots by (auto simp: prefix_def)
  then have "m = n \<Longrightarrow> \<not> prefix ''server.build.env.'' m" by simp
  moreover have "m = ''server.build.env.'' @ n \<longleftrightarrow> prefix ''server.build.env.'' m \<and> drop 17 m = n"
    by (auto simp: prefix_def)
  ultimately show ?case using Cons by (auto simp: e)
qed

lemma render_rules_value:
  assumes "renderable segments env" and "mset ordered = mset env"
  shows "map_of (render_rules ordered env) m = placeholder_value (map_of env) m"
proof -
  have "mset (map fst ordered) = mset (map fst env)" by (simp only: mset_map assms(2))
  then have keys: "distinct (map fst ordered)" "set ordered = set env"
    using assms by (metis mset_eq_imp_distinct_iff renderable_def, metis set_mset_mset)
  then have same: "map_of ordered = map_of env"
    using assms(1) by (simp add: renderable_def map_of_inject_set)
  have dots: "\<forall>(n, v) \<in> set ordered. CHR ''.'' \<notin> set n" using assms(1) keys by (auto simp: renderable_def)
  have port: "map_of env ''server.allocations.default.port'' = None"
    and ip: "map_of env ''server.allocations.default.ip'' = None"
    using assms(1) by (fastforce simp: renderable_def map_of_eq_None_iff)+
  let ?own = "if prefix ''server.build.env.'' m then map_of env (drop 17 m) else map_of env m"
  have rules: "map_of (render_rules ordered env) m = (case ?own of Some v \<Rightarrow> Some v
      | None \<Rightarrow> map_of [(''server.allocations.default.port'', lookup env ''SERVER_PORT''),
          (''server.allocations.default.ip'', lookup env ''SERVER_IP'')] m)"
    unfolding render_rules_def map_of_append map_add_def rules_map_of [OF dots] same ..
  consider "m = ''server.allocations.default.port''" | "m = ''server.allocations.default.ip''"
    | "m \<noteq> ''server.allocations.default.port''" "m \<noteq> ''server.allocations.default.ip''" by blast
  then show ?thesis
  proof cases
    case 1
    then show ?thesis unfolding rules by (simp add: port placeholder_value_def lookup_def)
  next
    case 2
    then show ?thesis unfolding rules by (simp add: ip placeholder_value_def lookup_def)
  next
    case 3
    then show ?thesis unfolding rules by (simp add: placeholder_value_def Let_def split: option.split)
  qed
qed

lemma rendered_segments:
  assumes "renderable segments env" and "mset (order env) = mset env"
  shows "renderTemplate order (command_text segments) env = concat (map (segment_value (map_of env)) segments)"
proof -
  let ?rules = "render_rules (order env) env"
  note value_of = render_rules_value [OF assms]
  from assms(2) have "set (order env) = set env" by (metis set_mset_mset)
  then have "\<forall>(n, v) \<in> set ?rules. plain n"
    using assms(1) by (auto simp: render_rules_def renderable_def)
  moreover have "plain v" if "Placeholder m \<in> set segments" "map_of ?rules m = Some v" for m v
    using that assms(1) unfolding value_of renderable_def by fastforce
  ultimately have "replace_rules ?rules (command_text segments) = concat (map (first_match ?rules) segments)"
    using assms(1) by (intro replace_rules_command) (auto simp: renderable_def)
  moreover have "first_match ?rules = segment_value (map_of env)"
  proof
    fix x show "first_match ?rules x = segment_value (map_of env) x" by (cases x) (simp_all add: value_of)
  qed
  ultimately show ?thesis by (simp add: renderTemplate_rules)
qed

text \<open>
  C35: a startup command whose text around the placeholders, and whose values for them, hold no
  braces, over variables whose names are distinct and hold neither braces nor dots, is rendered the
  same in whatever order Go walks the map of variables: each placeholder becomes the value of its
  variable or of the default allocation, or stays as it is when nothing defines it.
\<close>

theorem rendered_as_specified:
  assumes "renderable segments env" and "mset (order env) = mset env"
  shows "renderTemplate order (command_text segments) env = concat (map (segment_value (map_of env)) segments)"
  using assms by (rule rendered_segments)

definition sample_command :: "segment list" where
  "sample_command = [Literal ''./run '', Placeholder ''MAP'', Literal '' -p '',
     Placeholder ''server.allocations.default.port'', Literal '' '', Placeholder ''server.build.env.MAP'',
     Placeholder ''UNKNOWN'']"

definition sample_environment :: environment where
  "sample_environment = [(''MAP'', ''dust''), (''SERVER_PORT'', ''27015'')]"

theorem rendered_as_specified_witness:
  "renderTemplate rev (command_text sample_command) sample_environment = ''./run dust -p 27015 dust{{UNKNOWN}}''"
proof -
  have env: "renderable sample_command sample_environment"
    by (simp add: renderable_def sample_command_def sample_environment_def placeholder_value_def Let_def)
  have "mset (rev sample_environment) = mset sample_environment" by simp
  from rendered_as_specified [where order = rev, OF env this] show ?thesis
    by (simp add: sample_command_def sample_environment_def placeholder_value_def Let_def braced_def)
qed

section \<open>The environment as a map\<close>

lemma map_of_set_env [simp]: "map_of (set_env k v e) = (map_of e)(k \<mapsto> v)"
  by (rule update_conv')

text \<open>What the ports add to an environment does not depend on it.\<close>

definition port_overlay :: "network_port list \<Rightarrow> port_request list \<Rightarrow> environment \<Rightarrow> environment" where
  "port_overlay definitions ports env = fold port_environment ports (applyTemplatePortEnvironment env definitions)"

lemma map_of_port_environment:
  "map_of (port_environment p e) = map_of e ++ map_of (port_environment p [])"
  by (auto simp: port_environment_def fun_eq_iff map_add_def)

lemma fold_overlay:
  assumes "\<And>x e. map_of (f x e) = map_of e ++ map_of (f x [])"
  shows "map_of (fold f xs e) = map_of e ++ map_of (fold f xs [])"
proof (induction xs arbitrary: e)
  case (Cons x xs)
  show ?case using Cons [of "f x e"] Cons [of "f x []"] assms [of x e] by simp
qed simp

lemma map_of_template_ports:
  "map_of (applyTemplatePortEnvironment e ds) = map_of e ++ map_of (applyTemplatePortEnvironment [] ds)"
  unfolding applyTemplatePortEnvironment_def
  by (rule fold_overlay) (auto simp: Let_def fun_eq_iff map_add_def)

lemma map_of_overlay: "map_of (port_overlay ds ports e) = map_of e ++ map_of (port_overlay ds ports [])"
  unfolding port_overlay_def
  by (simp only: map_add_assoc
      fold_overlay [where f = port_environment and xs = ports and e = "applyTemplatePortEnvironment e ds", OF map_of_port_environment]
      fold_overlay [where f = port_environment and xs = ports and e = "applyTemplatePortEnvironment [] ds", OF map_of_port_environment]
      map_of_template_ports [of e])

lemma distinct_set_env: "distinct (map fst e) \<Longrightarrow> distinct (map fst (set_env k v e))"
  by (rule distinct_update)

lemma distinct_overlay: "distinct (map fst e) \<Longrightarrow> distinct (map fst (port_overlay ds ports e))"
proof -
  have fold: "distinct (map fst (fold f xs e))" if "distinct (map fst e)"
    "\<And>x e. distinct (map fst e) \<Longrightarrow> distinct (map fst (f x e))" for f :: "'x \<Rightarrow> environment \<Rightarrow> environment" and xs e
    using that(1) by (induction xs arbitrary: e) (simp_all add: that(2))
  show "distinct (map fst e) \<Longrightarrow> ?thesis"
    unfolding port_overlay_def applyTemplatePortEnvironment_def
    by (intro fold) (auto simp: port_environment_def Let_def distinct_set_env)
qed

section \<open>The variables of a server\<close>

text \<open>The text a stored variable holds.\<close>

definition holds_value :: "(string \<Rightarrow> string \<Rightarrow> error + string) \<Rightarrow> uuid \<Rightarrow> server_variable \<Rightarrow> string \<Rightarrow> bool" where
  "holds_value unseal s row x \<longleftrightarrow>
     (if va_is_secret row
      then (\<exists>c. va_value_encrypted row = Some c \<and> unseal c (s @ '':'' @ va_name row) = Inr x)
      else va_value_text row = Some x)"

lemma stored_environment_map:
  assumes "stored_environment unseal s rows env = Inr env'" and "distinct (map va_name rows)"
    and "\<forall>row \<in> set rows. check_variable row"
  shows "(\<forall>row \<in> set rows. \<exists>x. holds_value unseal s row x \<and> map_of env' (va_name row) = Some x) \<and>
    (\<forall>k. k \<notin> va_name ` set rows \<longrightarrow> map_of env' k = map_of env k)"
  using assms
proof (induction rows arbitrary: env)
  case (Cons row rows)
  from Cons.prems obtain x where x: "holds_value unseal s row x"
    "stored_environment unseal s rows (set_env (va_name row) x env) = Inr env'"
    by (auto simp: holds_value_def check_variable_def split: if_splits option.splits sum.splits)
  with Cons.IH [OF x(2)] Cons.prems(2,3) show ?case by auto
qed simp

lemma distinct_stored_environment:
  "stored_environment unseal s rows env = Inr env' \<Longrightarrow> distinct (map fst env) \<Longrightarrow> distinct (map fst env')"
  by (induction rows arbitrary: env)
    (auto simp: distinct_set_env split: if_splits option.splits sum.splits)

lemma load_variables_map:
  assumes "\<And>v. v \<in> set vs \<Longrightarrow> \<exists>row x. stored (vr_environment v) = Some row \<and> va_name row = vr_environment v \<and>
    check_variable row \<and> holds_value unseal s row x \<and> values (vr_environment v) = Some x"
  shows "\<exists>cvs env'. load_variables unseal s stored custom vs env = Inr (cvs, env') \<and>
    (\<forall>k. map_of env' k = (if k \<in> vr_environment ` set vs then values k else map_of env k)) \<and>
    (distinct (map fst env) \<longrightarrow> distinct (map fst env'))"
  using assms
proof (induction vs arbitrary: env)
  case (Cons v vs)
  from Cons.prems [of v] obtain row x where row: "stored (vr_environment v) = Some row"
    "va_name row = vr_environment v" "check_variable row" "holds_value unseal s row x"
    "values (vr_environment v) = Some x" by auto
  have loaded: "\<exists>has. variable_value unseal s (stored (vr_environment v)) v = Inr (x, has)"
    using row by (auto simp: variable_value_def Let_def holds_value_def check_variable_def)
  from Cons.IH [of "set_env (vr_environment v) x env"] Cons.prems obtain cvs env' where
    "load_variables unseal s stored custom vs (set_env (vr_environment v) x env) = Inr (cvs, env')"
    "\<forall>k. map_of env' k = (if k \<in> vr_environment ` set vs then values k
      else map_of (set_env (vr_environment v) x env) k)"
    "distinct (map fst (set_env (vr_environment v) x env)) \<longrightarrow> distinct (map fst env')" by auto
  then show ?case using loaded row(5) by (auto simp: distinct_set_env)
qed simp

section \<open>Provisioning and reconfiguring\<close>

definition stored_variables :: "uuid \<Rightarrow> db \<Rightarrow> server_variable list" where
  "stored_variables s d = sort_key va_name (filter (\<lambda>x. va_server_id x = s) (server_variables d))"

definition defined_variables :: "uuid \<Rightarrow> db \<Rightarrow> canonical_template \<Rightarrow> template_variable list" where
  "defined_variables s d t = cn_variables t @ custom_definitions s d"

text \<open>
  The variables stored for a server are the defined ones, and neither they nor a port use the name
  of the command transport, nor a port that of the address.
\<close>

definition variables_complete :: "uuid \<Rightarrow> db \<Rightarrow> canonical_template \<Rightarrow> bool" where
  "variables_complete s d t \<longleftrightarrow>
     va_name ` set (stored_variables s d) = vr_environment ` set (defined_variables s d t) \<and>
     ''DOCKSIDE_COMMAND_TRANSPORT'' \<notin> vr_environment ` set (defined_variables s d t) \<and>
     (let overlay = map_of (port_overlay (cn_network_ports t) (ServerPorts s d) []) in
        overlay ''SERVER_IP'' = None \<and> overlay ''DOCKSIDE_COMMAND_TRANSPORT'' = None)"

lemma stored_variables_distinct:
  assumes "db_ok d"
  shows "distinct (map va_name (stored_variables s d))" "\<forall>row \<in> set (stored_variables s d). check_variable row"
proof -
  from assms have "distinct (map variable_key (server_variables d))" "\<forall>r \<in> set (server_variables d). check_variable r"
    by (auto simp: db_ok_def variables_ok_def)
  moreover have "distinct (map va_name (filter (\<lambda>x. va_server_id x = s) rows))"
    if "distinct (map variable_key rows)" for rows
    using that unfolding distinct_map inj_on_def by (auto simp: variable_key_def distinct_map inj_on_def)
  ultimately show "distinct (map va_name (stored_variables s d))" "\<forall>row \<in> set (stored_variables s d). check_variable row"
    by (auto simp: stored_variables_def distinct_map)
qed

lemma stored_row:
  assumes "db_ok d" and "row \<in> set (stored_variables s d)"
  shows "stored_variable_row s d (va_name row) = Some row"
proof -
  let ?p = "\<lambda>r. va_server_id r = s \<and> va_name r = va_name row"
  from assms(2) have row: "row \<in> set (server_variables d)" "?p row" by (auto simp: stored_variables_def)
  from row obtain r where r: "find ?p (server_variables d) = Some r"
    by (cases "find ?p (server_variables d)") (auto simp: find_None_iff)
  from find_SomeD [OF r] row assms(1) have "r = row"
    using distinct_key_eq [of variable_key "server_variables d" r row]
    by (auto simp: db_ok_def variables_ok_def variable_key_def)
  with r show ?thesis by (simp add: stored_variable_row_def)
qed

lemma renderable_same:
  assumes "renderable segments e" and "map_of e' = map_of e" and "distinct (map fst e')"
  shows "renderable segments e'"
proof -
  have "set e' = set e"
    using assms by (metis map_of_inject_set renderable_def)
  with assms(1,3) show ?thesis unfolding renderable_def assms(2) by blast
qed

text \<open>The environment of a server's configuration is the one it was provisioned with.\<close>

lemma same_environment:
  assumes ok: "db_ok d" and complete: "variables_complete s d t"
    and stored: "stored_environment unseal s (stored_variables s d) [] = Inr sto"
  shows "\<exists>cvs env. load_variables unseal s (stored_variable_row s d) custom (defined_variables s d t)
      [(''DOCKSIDE_COMMAND_TRANSPORT'', transport_text t)] = Inr (cvs, env) \<and>
    (let env' = effective_environment (ServerPorts s d) mem (applyTemplatePortEnvironment env (cn_network_ports t)) in
     map_of env' = map_of (provision_environment t (ServerPorts s d) mem sto) \<and> distinct (map fst env'))"
proof -
  let ?M = "map_of (port_overlay (cn_network_ports t) (ServerPorts s d) [])"
  note rows = stored_environment_map [OF stored stored_variables_distinct [OF ok]]
  from complete have names: "va_name ` set (stored_variables s d) = vr_environment ` set (defined_variables s d t)"
    and transport: "''DOCKSIDE_COMMAND_TRANSPORT'' \<notin> vr_environment ` set (defined_variables s d t)"
    and overlay: "?M ''SERVER_IP'' = None" "?M ''DOCKSIDE_COMMAND_TRANSPORT'' = None"
    by (simp_all add: variables_complete_def Let_def)
  have "\<exists>row x. stored_variable_row s d (vr_environment v) = Some row \<and> va_name row = vr_environment v \<and>
      check_variable row \<and> holds_value unseal s row x \<and> map_of sto (vr_environment v) = Some x"
    if "v \<in> set (defined_variables s d t)" for v
  proof -
    from that names obtain row where row: "row \<in> set (stored_variables s d)" "va_name row = vr_environment v"
      by (metis image_iff)
    with rows stored_row [OF ok row(1)] stored_variables_distinct(2) [OF ok] show ?thesis by metis
  qed
  from load_variables_map [OF this] obtain cvs env where
    load: "load_variables unseal s (stored_variable_row s d) custom (defined_variables s d t)
      [(''DOCKSIDE_COMMAND_TRANSPORT'', transport_text t)] = Inr (cvs, env)"
    and env: "\<forall>k. map_of env k = (if k \<in> vr_environment ` set (defined_variables s d t) then map_of sto k
      else map_of [(''DOCKSIDE_COMMAND_TRANSPORT'', transport_text t)] k)"
    and dist: "distinct (map fst env)" by fastforce
  let ?env' = "effective_environment (ServerPorts s d) mem (applyTemplatePortEnvironment env (cn_network_ports t))"
  have sto: "map_of sto k = None" if "k \<notin> vr_environment ` set (defined_variables s d t)" for k
    using rows that names by simp
  obtain container host where ports: "primary_ports (ServerPorts s d) = (container, host)" by fastforce
  note overlays = map_of_overlay [of "cn_network_ports t" "ServerPorts s d", unfolded port_overlay_def]
  have "map_of ?env' k = map_of (provision_environment t (ServerPorts s d) mem sto) k" for k
    using overlay transport env sto
    by (auto simp: effective_environment_def provision_environment_def ports Let_def overlays [of env]
        overlays [of "set_env ''SERVER_IP'' ''0.0.0.0'' sto"] port_overlay_def map_add_def split: option.splits)
  moreover have "distinct (map fst ?env')"
    using distinct_overlay [OF dist, of "cn_network_ports t" "ServerPorts s d"]
    by (simp add: effective_environment_def ports distinct_set_env port_overlay_def)
  ultimately show ?thesis using load by (auto simp: Let_def)
qed

text \<open>
  C36: when a provisioning job is loaded for a server that has no startup override, whose stored
  variables are exactly the defined ones (none of them, and no port, using the name of the command
  transport, nor a port that of the address) and whose template's command is one that C35 covers,
  then in the same database its configuration can be loaded as well, and a container rebuilt from it
  runs the same image and startup command, sees the same environment, binds the same ports and has
  the same limits, in whatever orders the maps are walked.
\<close>

theorem rebuilt_as_provisioned:
  assumes ok: "db_ok d" and job: "ProvisionJob order unseal s opn d = Inr job"
    and tmpl: "server_template s d = Some (srv, v, r)" "decode_canonical (tv_canonical v) = Inr t"
    and complete: "variables_complete s d t" and override: "sv_startup_override srv = None"
    and command: "cn_startup_command t = command_text segments"
      "renderable segments (pr_environment (pj_request job))"
    and orders: "\<And>e. mset (order e) = mset e" "\<And>e. mset (order' e) = mset e"
  shows "\<exists>c. ServerConfiguration order' unseal s d = Inr c \<and>
    (let p = pj_request job; q = RuntimeRequest c in
     rc_image q = pr_image p \<and> rc_startup q = pr_startup p \<and>
     map_of (rc_environment q) = map_of (pr_environment p) \<and>
     rc_ports q = pr_ports p \<and> rc_resources q = pr_resources p)"
proof -
  let ?mem = "rs_memory_limit_bytes r"
  from job tmpl obtain sto where sto: "stored_environment unseal s (stored_variables s d) [] = Inr sto"
    and req: "pr_environment (pj_request job) = provision_environment t (ServerPorts s d) ?mem sto"
      "pr_startup (pj_request job) =
        renderTemplate order (cn_startup_command t) (provision_environment t (ServerPorts s d) ?mem sto)"
      "pr_image (pj_request job) = sv_image_reference srv"
      "pr_ports (pj_request job) = engine_ports (ServerPorts s d)"
      "pr_resources (pj_request job) = engine_resources_of r"
    by (auto simp: ProvisionJob_def Let_def stored_variables_def split: if_splits sum.splits)
  from same_environment [OF ok complete sto, of "map vr_environment (custom_definitions s d)" ?mem]
  obtain cvs env where load: "load_variables unseal s (stored_variable_row s d)
      (map vr_environment (custom_definitions s d)) (cn_variables t @ custom_definitions s d)
      [(''DOCKSIDE_COMMAND_TRANSPORT'', transport_text t)] = Inr (cvs, env)"
    and same: "map_of (effective_environment (ServerPorts s d) ?mem
        (applyTemplatePortEnvironment env (cn_network_ports t))) = map_of (pr_environment (pj_request job))"
      "distinct (map fst (effective_environment (ServerPorts s d) ?mem
        (applyTemplatePortEnvironment env (cn_network_ports t))))"
    by (auto simp: Let_def req(1) defined_variables_def)
  note renderable' = renderable_same [OF command(2) same]
  have "renderTemplate order' (cn_startup_command t) (effective_environment (ServerPorts s d) ?mem
      (applyTemplatePortEnvironment env (cn_network_ports t))) = pr_startup (pj_request job)"
    unfolding command(1) req(2)
      rendered_segments [where order = order', OF renderable' orders(2)]
      rendered_segments [where order = order, OF command(2) [unfolded req(1)] orders(1)]
    by (simp add: same(1) req(1))
  then show ?thesis
    using same(1)
    by (simp add: ServerConfiguration_def tmpl load Let_def refreshEffectiveValues_def RuntimeRequest_def
        override req)
qed

text \<open>A server about to be provisioned from a template with one variable and one port.\<close>

definition sample_template :: canonical_template where
  "sample_template = \<lparr> cn_api_version = ''v1'', cn_name = ''game'', cn_description = [],
     cn_source_kind = ''native'', cn_category = ''games'', cn_images = [(''main'', ''image'')],
     cn_default_image = ''image'', cn_startup_command = command_text sample_command,
     cn_stop_command = ''stop'', cn_install_container = [], cn_install_entrypoint = [],
     cn_install_script = [],
     cn_variables = [\<lparr> vr_name = ''Map'', vr_description = [], vr_environment = ''MAP'',
       vr_default_value = ''de'', vr_user_viewable = True, vr_user_editable = True, vr_rules = [],
       vr_field_type = ''text'', vr_secret = False \<rparr>],
     cn_network_ports = [],
     cn_command_transport = \<lparr> ct_type = ''none'', ct_rcon_port_env = [], ct_rcon_password_env = [],
       ct_rest = None \<rparr>,
     cn_backup_defaults = \<lparr> bd_include_paths = [], bd_exclude_globs = [], bd_retention_days = None \<rparr>,
     cn_resource_defaults = \<lparr> rd_cpu_limit_millicores = None, rd_memory_limit_mb = None,
       rd_disk_alert_limit_mb = None \<rparr>,
     cn_file_denylist = [], cn_features = None \<rparr>"

definition sample_resources :: server_resources where
  "sample_resources = (cs_resources sample_params)\<lparr>rs_server_id := ''s1'', rs_memory_limit_bytes := Some 1073741824\<rparr>"

definition new_version :: template_version where
  "new_version = (sample_version ''tv1'' 1)\<lparr>tv_canonical := encode_canonical sample_template\<rparr>"

definition installing_db :: db where
  "installing_db = sample_db\<lparr> servers := [sample_server ''s1'' ''installing'' ''running''],
     template_versions := [new_version],
     resources := [sample_resources],
     server_ports := [port_row ''p1'' ''s1'' ((sample_request 25566 ''tcp'')\<lparr>pq_host_port := 25565,
       pq_bind_address := ''0.0.0.0''\<rparr>)],
     server_variables := [\<lparr> va_server_id = ''s1'', va_name = ''MAP'', va_value_text = Some ''dust'',
       va_value_encrypted = None, va_is_secret = False \<rparr>] \<rparr>"

lemma installing_tables [simp]:
  "servers installing_db = [sample_server ''s1'' ''installing'' ''running'']"
  "template_versions installing_db = [new_version]" "resources installing_db = [sample_resources]"
  "server_ports installing_db = [port_row ''p1'' ''s1'' ((sample_request 25566 ''tcp'')\<lparr>pq_host_port := 25565,
       pq_bind_address := ''0.0.0.0''\<rparr>)]"
  "server_variables installing_db = [\<lparr> va_server_id = ''s1'', va_name = ''MAP'', va_value_text = Some ''dust'',
       va_value_encrypted = None, va_is_secret = False \<rparr>]"
  "variable_definitions installing_db = []"
  by (simp_all add: installing_db_def)

lemma installing_ok: "db_ok installing_db"
  by (simp add: ok_defs check_defs names_unique_def)
    (simp add: installing_db_def sample_defs days_def port_row_def sample_request_def sample_resources_def
      sample_params_def positive_or_null_def port_key_def)

lemma sample_template_decodes:
  "decode_canonical (tv_canonical new_version) = Inr sample_template"
  by (simp add: new_version_def, rule decode_encode_canonical)
    (simp add: maps_sorted_def sample_template_def map_sorted_def)

lemma installing_template:
  "server_template ''s1'' installing_db = Some (sample_server ''s1'' ''installing'' ''running'', new_version, sample_resources)"
  by (simp add: server_template_def live_def sample_server_def sample_resources_def new_version_def sample_version_def)

lemma installing_ports:
  "ServerPorts ''s1'' installing_db = [(sample_request 25566 ''tcp'')\<lparr>pq_id := ''p1'', pq_host_port := 25565,
     pq_bind_address := ''0.0.0.0''\<rparr>]"
  by (simp add: ServerPorts_def port_order_def order_by_def port_row_def sample_request_def nullif_empty_def)

lemma installing_variables:
  "stored_variables ''s1'' installing_db = [\<lparr> va_server_id = ''s1'', va_name = ''MAP'',
     va_value_text = Some ''dust'', va_value_encrypted = None, va_is_secret = False \<rparr>]"
  by (simp add: stored_variables_def)

definition installed_environment :: environment where
  "installed_environment = [(''MAP'', ''dust''), (''SERVER_IP'', ''0.0.0.0''), (''SERVER_PORT'', ''25566''),
     (''SERVER_PUBLIC_PORT'', ''25565''), (''SERVER_MEMORY'', ''1024''),
     (''DOCKSIDE_COMMAND_TRANSPORT'', transport_text sample_template)]"

lemma installing_job:
  "\<exists>job. ProvisionJob rev unseal ''s1'' ''op'' installing_db = Inr job \<and>
     pr_environment (pj_request job) = installed_environment"
proof -
  have "rs_memory_limit_bytes sample_resources = Some 1073741824" by (simp add: sample_resources_def)
  moreover have "provision_environment sample_template [(sample_request 25566 ''tcp'')\<lparr>pq_id := ''p1'',
      pq_host_port := 25565, pq_bind_address := ''0.0.0.0''\<rparr>] (Some 1073741824) [(''MAP'', ''dust'')] =
      installed_environment"
    by (simp add: provision_environment_def sample_request_def primary_ports_def primary_port_def
        applyTemplatePortEnvironment_def port_environment_def memory_mb_def installed_environment_def itoa_def nat_digits.simps char_of_def bit_0)
      (simp add: sample_template_def)
  moreover have "sv_status (sample_server ''s1'' ''installing'' ''running'') = ''installing''"
    by (simp add: sample_server_def)
  ultimately show ?thesis
    using installing_variables [unfolded stored_variables_def]
    by (simp add: ProvisionJob_def installing_template sample_template_decodes installing_ports)
qed

lemma installing_complete: "variables_complete ''s1'' installing_db sample_template"
  by (simp add: variables_complete_def installing_variables installing_ports defined_variables_def
      custom_definitions_def order_by_def port_overlay_def port_environment_def sample_request_def
      applyTemplatePortEnvironment_def)
    (simp add: sample_template_def)

theorem rebuilt_as_provisioned_witness:
  "\<exists>job c. ProvisionJob rev (\<lambda>c x. Inr c) ''s1'' ''op'' installing_db = Inr job \<and>
     ServerConfiguration id (\<lambda>c x. Inr c) ''s1'' installing_db = Inr c \<and>
     rc_startup (RuntimeRequest c) = pr_startup (pj_request job) \<and>
     map_of (rc_environment (RuntimeRequest c)) = map_of installed_environment"
proof -
  obtain job where job: "ProvisionJob rev (\<lambda>c x. Inr c) ''s1'' ''op'' installing_db = Inr job"
    "pr_environment (pj_request job) = installed_environment" using installing_job by blast
  have override: "sv_startup_override (sample_server ''s1'' ''installing'' ''running'') = None"
    by (simp add: sample_server_def)
  have command: "cn_startup_command sample_template = command_text sample_command"
    by (simp add: sample_template_def)
  have "renderable sample_command installed_environment"
    by (simp add: renderable_def sample_command_def installed_environment_def placeholder_value_def Let_def)
  then have renderable: "renderable sample_command (pr_environment (pj_request job))" by (simp add: job(2))
  have orders: "mset (rev e) = mset e" "mset (id e) = mset e" for e :: environment by simp_all
  from rebuilt_as_provisioned [where order = rev and order' = id, OF installing_ok job(1) installing_template
      sample_template_decodes installing_complete override command renderable orders] job
  show ?thesis by (auto simp: Let_def)
qed

end
