(* ===== verification/Maintenance_Properties.thy ===== *)
theory Maintenance_Properties
  imports Runtime_Handlers Examples
begin

text \<open>
  The worker's maintenance of a running server: whenever it has stopped the server for a restore or
  a template update, the last thing it asks of the engine is to start it again; and an update that is
  rolled back returns to the previous version and container.
\<close>

section \<open>Calls of an action\<close>

text \<open>The engine calls an action adds to the trace.\<close>

definition new_calls :: "'a action \<Rightarrow> world \<Rightarrow> engine_call list" where
  "new_calls m w = drop (length (w_calls w)) (w_calls (snd (m w)))"

definition extends :: "'a action \<Rightarrow> bool" where
  "extends m \<longleftrightarrow> (\<forall>w. w_calls (snd (m w)) = w_calls w @ new_calls m w)"

definition quiet :: "'a action \<Rightarrow> bool" where
  "quiet m \<longleftrightarrow> (\<forall>w. w_calls (snd (m w)) = w_calls w)"

lemma extendsI: "(\<And>w. \<exists>cs. w_calls (snd (m w)) = w_calls w @ cs) \<Longrightarrow> extends m"
  unfolding extends_def new_calls_def by (metis append_eq_conv_conj)

lemma extendsD: "extends m \<Longrightarrow> w_calls (snd (m w)) = w_calls w @ new_calls m w"
  unfolding extends_def by blast

lemma new_callsI: "w_calls (snd (m w)) = w_calls w @ cs \<Longrightarrow> new_calls m w = cs"
  by (simp add: new_calls_def)

lemma quiet_extends: "quiet m \<Longrightarrow> extends m"
  by (rule extendsI) (auto simp: quiet_def)

lemma quiet_new [simp]: "quiet m \<Longrightarrow> new_calls m w = []"
  by (simp add: quiet_def new_calls_def)

lemma andThen_calls:
  assumes "extends m" and "\<And>x. extends (k x)"
  shows "extends (andThen m k)" and
    "new_calls (andThen m k) w =
       new_calls m w @ (case m w of (Inl e, w') \<Rightarrow> [] | (Inr x, w') \<Rightarrow> new_calls (k x) w')"
proof -
  have *: "w_calls (snd (andThen m k w)) =
      w_calls w @ new_calls m w @ (case m w of (Inl e, w') \<Rightarrow> [] | (Inr x, w') \<Rightarrow> new_calls (k x) w')" for w
    using extendsD [OF assms(1), of w] extendsD [OF assms(2)]
    by (auto simp: andThen_def split: prod.splits sum.splits)
  then show "extends (andThen m k)" by (blast intro: extendsI)
  from * show "new_calls (andThen m k) w =
       new_calls m w @ (case m w of (Inl e, w') \<Rightarrow> [] | (Inr x, w') \<Rightarrow> new_calls (k x) w')"
    by (rule new_callsI)
qed

named_theorems trace "the engine calls of the worker's actions"

lemma quiet_calls [trace]:
  "quiet (done_with r)" "quiet (store_call env f)" "quiet (stmt_call env c)" "quiet (op_call env c')"
  "quiet (query_call env q)" "quiet (decoded what r)"
  by (auto simp: quiet_def done_with_def store_call_def stmt_call_def op_call_def query_call_def
      decoded_def wrapping_def split: option.splits prod.splits sum.splits)

lemma quiet_andThen [trace]: "quiet m \<Longrightarrow> (\<And>x. quiet (k x)) \<Longrightarrow> quiet (andThen m k)"
  by (auto simp: quiet_def andThen_def split: prod.splits sum.splits) (metis snd_conv)+

lemma quiet_wrap [trace]: "quiet m \<Longrightarrow> quiet (wrapping p m)" "quiet m \<Longrightarrow> quiet (attempt m)"
  by (auto simp: quiet_def wrapping_def attempt_def split: prod.splits sum.splits) (metis snd_conv)+

lemma engine_calls [simp]: "extends (call_engine env c)" "new_calls (call_engine env c) w = [c]"
  by (auto intro: extendsI simp: call_engine_def Let_def new_calls_def)

lemma attempt_calls [simp]: "extends m \<Longrightarrow> extends (attempt m)" "new_calls (attempt m) w = new_calls m w"
  by (auto intro!: extendsI simp: attempt_def new_calls_def extends_def split: prod.splits)
    (metis snd_conv)

lemma andThen_assoc: "andThen (andThen m k) l = andThen m (\<lambda>x. andThen (k x) l)"
  by (rule ext) (auto simp: andThen_def split: prod.splits sum.splits)

lemma andThen_done [simp]: "andThen (done_with (Inr x)) k = k x" "andThen (done_with (Inl e)) k = done_with (Inl e)"
  by (auto simp: andThen_def done_with_def fun_eq_iff)

section \<open>Shapes of traces\<close>

text \<open>An action that never fails, one that never stops the server, and one that starts it last.\<close>

definition unfailing :: "'a action \<Rightarrow> bool" where
  "unfailing m \<longleftrightarrow> (\<forall>w. \<exists>x. fst (m w) = Inr x)"

definition harmless :: "uuid \<Rightarrow> 'a action \<Rightarrow> bool" where
  "harmless s m \<longleftrightarrow> extends m \<and> (\<forall>w. EPower s ''stop'' \<notin> set (new_calls m w))"

definition starts_last :: "uuid \<Rightarrow> 'a action \<Rightarrow> bool" where
  "starts_last s m \<longleftrightarrow>
     extends m \<and> (\<forall>w. new_calls m w \<noteq> [] \<and> last (new_calls m w) = EPower s ''start'')"

text \<open>After a stop that the engine answered without an error, a start is the last call.\<close>

definition resumes :: "worker_env \<Rightarrow> uuid \<Rightarrow> 'a action \<Rightarrow> bool" where
  "resumes env s m \<longleftrightarrow> extends m \<and> (\<forall>w pre post. new_calls m w = pre @ EPower s ''stop'' # post \<longrightarrow>
     en_engine env (w_calls w @ pre @ [EPower s ''stop'']) = None \<longrightarrow>
     post \<noteq> [] \<and> last post = EPower s ''start'')"

lemma unfailing_rules:
  "unfailing (attempt m)" "unfailing (done_with (Inr x))"
  "unfailing n \<Longrightarrow> (\<And>x. unfailing (k x)) \<Longrightarrow> unfailing (andThen n k)"
  by (auto simp: unfailing_def attempt_def done_with_def andThen_def split: prod.splits sum.splits)
    (metis fst_conv sum.distinct(1) sum.inject)+

lemma harmless_quiet: "quiet m \<Longrightarrow> harmless s m"
  by (simp add: harmless_def quiet_extends)

lemma harmless_call: "c \<noteq> EPower s ''stop'' \<Longrightarrow> harmless s (call_engine env c)"
  by (simp add: harmless_def)

lemma harmless_attempt: "harmless s m \<Longrightarrow> harmless s (attempt m)"
  by (simp add: harmless_def)

lemma harmless_andThen:
  assumes "harmless s m" and "\<And>x. harmless s (k x)"
  shows "harmless s (andThen m k)"
proof -
  from assms have e: "extends m" "\<And>x. extends (k x)" by (simp_all add: harmless_def)
  show ?thesis
    using assms andThen_calls(1) [OF e]
    by (auto simp: harmless_def andThen_calls(2) [OF e] split: prod.splits sum.splits)
qed

lemma harmless_wrapping: "harmless s m \<Longrightarrow> harmless s (wrapping p m)"
proof -
  assume m: "harmless s m"
  have same: "w_calls (snd (wrapping p m w)) = w_calls (snd (m w))" for w
    by (auto simp: wrapping_def split: prod.splits sum.splits)
  with m show ?thesis by (simp add: harmless_def extends_def new_calls_def)
qed

lemma harmless_atoms:
  "harmless s (done_with r)" "harmless s (store_call env f)" "harmless s (stmt_call env c)"
  "harmless s (query_call env q)" "harmless s (decoded what r)"
  by (rule harmless_quiet, rule trace)+

lemmas harmless_rules = harmless_andThen harmless_attempt harmless_wrapping harmless_atoms harmless_call

lemma resumes_harmless: "harmless s m \<Longrightarrow> resumes env s m"
  by (auto simp: harmless_def resumes_def) (metis in_set_conv_decomp)+

lemma resumes_andThen:
  assumes "harmless s m" and "\<And>x. resumes env s (k x)"
  shows "resumes env s (andThen m k)"
proof -
  from assms have e: "extends m" "\<And>x. extends (k x)" by (simp_all add: harmless_def resumes_def)
  have "post \<noteq> [] \<and> last post = EPower s ''start''"
    if calls: "new_calls (andThen m k) w = pre @ EPower s ''stop'' # post"
      and ok: "en_engine env (w_calls w @ pre @ [EPower s ''stop'']) = None" for w pre post
  proof -
    obtain r w' where m: "m w = (r, w')" by fastforce
    let ?tail = "case r of Inl e \<Rightarrow> [] | Inr x \<Rightarrow> new_calls (k x) w'"
    from calls m have split: "new_calls m w @ ?tail = pre @ EPower s ''stop'' # post"
      by (simp add: andThen_calls(2) [OF e])
    have "EPower s ''stop'' \<notin> set (new_calls m w)" using assms(1) by (simp add: harmless_def)
    with split obtain us where pre: "pre = new_calls m w @ us" "?tail = us @ EPower s ''stop'' # post"
      by (auto simp: append_eq_append_conv2 append_eq_Cons_conv)
    then obtain x where x: "r = Inr x" by (cases r) auto
    have "w_calls w' = w_calls w @ new_calls m w" using extendsD [OF e(1), of w] m by simp
    with assms(2) [of x] pre x ok show ?thesis by (auto simp: resumes_def)
  qed
  then show ?thesis using andThen_calls(1) [OF e] by (simp add: resumes_def)
qed

lemma starts_andThen:
  assumes "extends m" "unfailing m" and "\<And>x. starts_last s (k x)"
  shows "starts_last s (andThen m k)"
proof -
  from assms have e: "extends m" "\<And>x. extends (k x)" by (simp_all add: starts_last_def)
  have "new_calls (andThen m k) w \<noteq> [] \<and> last (new_calls (andThen m k) w) = EPower s ''start''" for w
  proof -
    obtain x w' where m: "m w = (Inr x, w')" using assms(2) by (metis prod.collapse unfailing_def)
    with assms(3) [of x] show ?thesis by (simp add: andThen_calls(2) [OF e] starts_last_def)
  qed
  then show ?thesis using andThen_calls(1) [OF e] by (simp add: starts_last_def)
qed

lemma starts_call:
  assumes "\<And>x. quiet (k x)"
  shows "starts_last s (andThen (attempt (call_engine env (EPower s ''start''))) k)"
proof -
  have e: "extends (attempt (call_engine env (EPower s ''start'')))" "\<And>x. extends (k x)"
    using assms by (simp_all add: quiet_extends)
  show ?thesis
    using andThen_calls(1) [OF e] assms
    by (auto simp: starts_last_def andThen_calls(2) [OF e] split: prod.splits sum.splits)
qed

lemma resumes_starts: "starts_last s m \<Longrightarrow> resumes env s m"
proof -
  assume m: "starts_last s m"
  have "post \<noteq> [] \<and> last post = EPower s ''start''" if "new_calls m w = pre @ EPower s ''stop'' # post" for w pre post
  proof -
    from m have "last (new_calls m w) = EPower s ''start''" by (simp add: starts_last_def)
    with that show ?thesis by (cases "post = []") auto
  qed
  with m show ?thesis by (simp add: resumes_def starts_last_def)
qed

lemma resumes_stop:
  assumes ok: "starts_last s (k (Inr ()))" and failed: "\<And>e. resumes env s (k (Inl e))"
  shows "resumes env s (andThen (attempt (call_engine env (EPower s ''stop''))) k)"
proof -
  let ?m = "attempt (call_engine env (EPower s ''stop''))"
  have some: "resumes env s (k r)" for r using ok failed by (cases r) (auto intro: resumes_starts)
  have e: "extends ?m" "\<And>r. extends (k r)" using some by (simp_all add: resumes_def)
  have "post \<noteq> [] \<and> last post = EPower s ''start''"
    if calls: "new_calls (andThen ?m k) w = pre @ EPower s ''stop'' # post"
      and accepted: "en_engine env (w_calls w @ pre @ [EPower s ''stop'']) = None" for w pre post
  proof -
    obtain r w' where "call_engine env (EPower s ''stop'') w = (r, w')" by fastforce
    then have m: "?m w = (Inr r, w')" by (simp add: attempt_def)
    have w': "w_calls w' = w_calls w @ [EPower s ''stop'']"
      and r: "r = (case en_engine env (w_calls w @ [EPower s ''stop'']) of None \<Rightarrow> Inr () | Some e \<Rightarrow> Inl e)"
      using m by (auto simp: attempt_def call_engine_def Let_def split: prod.splits option.splits)
    have all: "EPower s ''stop'' # new_calls (k r) w' = pre @ EPower s ''stop'' # post"
      using calls m by (simp add: andThen_calls(2) [OF e])
    show ?thesis
    proof (cases pre)
      case Nil
      with accepted r all have "post = new_calls (k (Inr ())) w'" by simp
      with ok show ?thesis by (simp add: starts_last_def)
    next
      case (Cons c pre')
      with all have "new_calls (k r) w' = pre' @ EPower s ''stop'' # post" "c = EPower s ''stop''" by auto
      with some [of r] accepted w' Cons show ?thesis by (auto simp: resumes_def)
    qed
  qed
  then show ?thesis using andThen_calls(1) [OF e] by (simp add: resumes_def)
qed

section \<open>The handlers\<close>

lemma quiet_progress [trace]:
  "quiet (restore_progress env rj n m)" "quiet (update_progress env tj n m)"
  "quiet (finish_update env tj c err)"
  by (simp_all add: restore_progress_def update_progress_def finish_update_def trace)

lemma harmless_progress:
  "harmless s (restore_progress env rj n m)" "harmless s (update_progress env tj n m)"
  "harmless s (finish_update env tj c err)"
  by (rule harmless_quiet, rule trace)+

lemma restore_files_trace:
  "harmless s (restore_files env job stopErr)" "unfailing (restore_files env job stopErr)"
  unfolding restore_files_def
  by (auto split: option.split sum.split intro!: harmless_rules harmless_progress unfailing_rules)

lemma finish_restore_starts:
  assumes "rj_was_running job"
  shows "starts_last (rj_server_id job) (andThen (restart_after_restore env job restoreErr) (\<lambda>finalErr.
     stmt_call env (\<lambda>now ids. FinishBackupRestore (en_sanitize env) now (ids 0) job finalErr)))"
  unfolding restart_after_restore_def using assms
  by (simp add: andThen_assoc)
    (rule starts_andThen, simp_all add: trace quiet_extends unfailing_rules starts_call)

lemma restore_resumes: "resumes env s (handle_backup_restore env ev)"
proof -
  have "resumes env s (andThen (if rj_was_running job then
                andThen (restore_progress env job 20 ''Stopping game server'') (\<lambda>_.
                andThen (attempt (call_engine env (EPower (rj_server_id job) ''stop''))) (\<lambda>r.
                done_with (Inr (as_error r))))
              else done_with (Inr None)) (\<lambda>stopErr.
     andThen (restore_files env job stopErr) (\<lambda>restoreErr.
     andThen (restart_after_restore env job restoreErr) (\<lambda>finalErr.
     stmt_call env (\<lambda>now ids. FinishBackupRestore (en_sanitize env) now (ids 0) job finalErr)))))"
    (is "resumes env s (andThen _ ?k)") for job
  proof (cases "rj_was_running job \<and> rj_server_id job = s")
    case True
    then have "starts_last s (?k e)" for e
      using restore_files_trace(1) [where s = s and env = env and job = job] restore_files_trace(2) [where env = env and job = job] finish_restore_starts [of job env]
      by (intro starts_andThen [where m = "restore_files env job e"]) (simp_all add: harmless_def)
    then show ?thesis using True
      by (simp add: andThen_assoc) (intro resumes_andThen resumes_stop resumes_starts harmless_quiet; simp add: trace)
  next
    case False
    then show ?thesis
      unfolding restart_after_restore_def
      by (intro resumes_harmless) (auto intro!: harmless_rules harmless_progress restore_files_trace)
  qed
  then show ?thesis
    unfolding handle_backup_restore_def
    by (rule resumes_andThen [OF _ resumes_andThen, rotated 2]) (rule harmless_atoms harmless_progress)+
qed

text \<open>The actions after the server has been stopped for an update.\<close>

lemma start_again:
  assumes "tj_was_running job" and "\<And>x. quiet (k x)"
  shows "starts_last (tj_server_id job) (andThen (if_running job (call_engine env (EPower (tj_server_id job) ''start''))) k)"
  using assms by (simp add: if_running_def error_of_def andThen_assoc starts_call)

lemma set_version_quiet [trace]: "quiet (set_version env s v)" "quiet (load_configuration env s)"
  by (auto simp: quiet_def set_version_def load_configuration_def query_call_def store_call_def
      split: option.splits prod.splits)

lemma harmless_runtime:
  "harmless s (set_version env t v)" "harmless s (load_configuration env t)"
  "harmless s (reconfigure env t req)" "harmless s (reinstall env job cfg tpl)"
  "harmless s (change_runtime env job tpl)"
proof -
  show *: "harmless s (set_version env t v)" "harmless s (load_configuration env t)" for t v
    by (rule harmless_quiet, rule trace)+
  have read: "quiet (\<lambda>w. (Inr (f w), w))" for f :: "world \<Rightarrow> string" by (simp add: quiet_def)
  show re: "harmless s (reconfigure env t req)" for t req
    unfolding reconfigure_def by (intro harmless_rules harmless_quiet [OF read]) simp
  show ins: "harmless s (reinstall env job cfg tpl)" for cfg
    unfolding reinstall_def by (auto split: option.split intro!: harmless_rules harmless_progress)
  show "harmless s (change_runtime env job tpl)"
    unfolding change_runtime_def by (intro harmless_andThen harmless_progress * re ins)
qed

lemma harmless_if_running: "harmless s m \<Longrightarrow> harmless s (if_running job m)"
  by (auto simp: if_running_def error_of_def intro!: harmless_rules)

lemma unfailing_if_running: "unfailing (if_running job m)" "unfailing (error_of m)"
  by (simp_all add: if_running_def error_of_def unfailing_rules)

lemma harmless_extends: "harmless s m \<Longrightarrow> extends m"
  by (simp add: harmless_def)

lemma starts_after:
  assumes "harmless s m" and "\<And>r. starts_last s (k r)"
  shows "starts_last s (andThen (attempt m) k)"
  by (rule starts_andThen) (simp_all add: assms(2) harmless_extends [OF assms(1)] unfailing_rules)

lemma roll_back_starts:
  assumes "tj_was_running job"
  shows "starts_last (tj_server_id job) (roll_back env job previous sha e)"
proof -
  let ?s = "tj_server_id job"
  have files: "harmless ?s (if tj_mode job = ''reinstall''
      then error_of (call_engine env (ERestoreBackup ?s (tj_backup_id job) sha))
      else done_with (Inr None))" (is "harmless ?s ?m")
    by (auto simp: error_of_def intro!: harmless_rules)
  have "unfailing ?m" by (simp add: unfailing_if_running unfailing_rules)
  then show ?thesis
    unfolding roll_back_def Let_def using files
    by (intro starts_after harmless_runtime starts_andThen [where m = ?m] start_again [OF assms])
      (simp_all add: harmless_extends trace)
qed

lemma complete_starts:
  assumes "tj_was_running job"
  shows "starts_last (tj_server_id job) (complete_update env job c)"
proof -
  have "starts_last (tj_server_id job) (andThen (attempt (andThen (attempt m) (\<lambda>_.
      call_engine env (EPower (tj_server_id job) ''start'')))) k)"
    if "quiet m" "\<And>x. quiet (k x)" for m :: "unit action" and k :: "_ \<Rightarrow> unit action"
  proof -
    have "attempt (andThen (attempt m) l) = andThen (attempt m) (\<lambda>x. attempt (l x))" for l :: "_ \<Rightarrow> unit action"
      by (auto simp: attempt_def andThen_def fun_eq_iff split: prod.splits)
    with that show ?thesis
      by (simp add: andThen_assoc) (intro starts_after harmless_quiet starts_call; simp)
  qed
  then show ?thesis
    using assms by (simp add: complete_update_def if_running_def error_of_def andThen_assoc trace)
qed

lemma apply_version_starts:
  assumes "tj_was_running job"
  shows "starts_last (tj_server_id job) (apply_version env job previous sha)"
  unfolding apply_version_def fail_before_runtime_change_def
  by (auto split: sum.split intro!: starts_after harmless_progress harmless_runtime start_again [OF assms] trace
    roll_back_starts [OF assms] complete_starts [OF assms])

lemma harmless_update_tail:
  "harmless t (complete_update env job c)" "harmless t (fail_before_runtime_change env job e)"
  "harmless t (roll_back env job previous sha e)" "harmless t (apply_version env job previous sha)"
proof -
  show 1: "harmless t (complete_update env job c)" for c unfolding complete_update_def
    by (intro harmless_rules harmless_if_running harmless_progress) simp
  show 2: "harmless t (fail_before_runtime_change env job e)" for e unfolding fail_before_runtime_change_def
    by (intro harmless_rules harmless_if_running harmless_progress) simp
  show 3: "harmless t (roll_back env job previous sha e)" for e unfolding roll_back_def Let_def
    by (auto simp: error_of_def intro!: harmless_rules harmless_if_running harmless_progress harmless_runtime)
  show "harmless t (apply_version env job previous sha)" unfolding apply_version_def
    by (auto split: sum.split intro!: harmless_rules harmless_progress harmless_runtime 1 2 3)
qed

lemma resumes_world:
  assumes "\<And>x. resumes env s (c x)" and "\<And>w. m w = c (f w) w"
  shows "resumes env s m"
proof -
  have "new_calls m w = new_calls (c (f w)) w" "w_calls (snd (m w)) = w_calls (snd (c (f w) w))" for w
    by (simp_all add: new_calls_def assms(2))
  with assms(1) show ?thesis by (simp add: resumes_def extends_def)
qed

lemma stop_for_update:
  "resumes env s (andThen (if_running job (call_engine env (EPower (tj_server_id job) ''stop''))) (\<lambda>stopErr.
      case stopErr of
        Some e \<Rightarrow> finish_update env job [] (Some (Wrap ''stop server for template update: '' e []))
      | None \<Rightarrow> apply_version env job previous sha))"
proof (cases "tj_was_running job \<and> tj_server_id job = s")
  case True
  then show ?thesis
    by (simp add: if_running_def error_of_def andThen_assoc)
      (rule resumes_stop; auto simp: as_error_def apply_version_starts
        intro!: resumes_harmless [OF harmless_progress(3)])
next
  case False
  then show ?thesis
    by (intro resumes_harmless) (auto simp: if_running_def error_of_def split: option.split
      intro!: harmless_rules harmless_progress harmless_update_tail)
qed

lemma update_resumes: "resumes env s (handle_template_update env ev)"
proof -
  let ?after = "\<lambda>job result. andThen (attempt (load_configuration env (tj_server_id job))) (\<lambda>r. case r of
      Inl e \<Rightarrow> finish_update env job [] (Some e)
    | Inr previous \<Rightarrow>
      andThen (update_progress env job 25 ''Stopping game server'') (\<lambda>_.
      andThen (if_running job (call_engine env (EPower (tj_server_id job) ''stop''))) (\<lambda>stopErr. case stopErr of
        Some e \<Rightarrow> finish_update env job [] (Some (Wrap ''stop server for template update: '' e []))
      | None \<Rightarrow> apply_version env job previous (br_sha256 result))))"
  have after: "resumes env s (?after job result)" for job result
    by (rule resumes_andThen) (auto split: sum.split intro!: resumes_andThen stop_for_update
      harmless_attempt harmless_runtime harmless_progress resumes_harmless [OF harmless_progress(3)])
  have "resumes env s (update_after_backup env job backup)" for job backup
    by (rule resumes_world [where f = id and c = "\<lambda>w. andThen (stmt_call env (\<lambda>now ids. MarkBackupSucceeded now (ids 0)
          (map ids [1 ..< 1 + length (backup_deliveries (w_db w))]) backup (en_backup env (w_calls w))))
          (\<lambda>_. ?after job (en_backup env (w_calls w)))"])
      (rule resumes_andThen [OF harmless_atoms(3) after], simp only: update_after_backup_def Let_def id_apply)
  then show ?thesis
    unfolding handle_template_update_def Let_def
    by (auto split: sum.split intro!: resumes_andThen harmless_rules harmless_progress
        resumes_harmless [OF harmless_atoms(1)] resumes_harmless [OF harmless_progress(3)])
qed

text \<open>
  C37: after the worker has stopped a server to restore a backup or to move it to another template
  version, and the engine has answered without an error, the last thing the worker asks of the
  engine in that event is to start the server again: no error of the store or of the engine in
  between leaves a server that was running stopped without an attempt to bring it back.
\<close>

theorem maintenance_restarts:
  assumes "handler = handle_backup_restore env ev \<or> handler = handle_template_update env ev"
    and "w_calls (snd (handler w)) = w_calls w @ pre @ EPower s ''stop'' # post"
    and "en_engine env (w_calls w @ pre @ [EPower s ''stop'']) = None"
  shows "post \<noteq> [] \<and> last post = EPower s ''start''"
proof -
  have "resumes env s handler" using assms(1) restore_resumes update_resumes by blast
  moreover have "new_calls handler w = pre @ EPower s ''stop'' # post" by (rule new_callsI [where m = handler, OF assms(2)])
  ultimately show ?thesis using assms(3) by (simp add: resumes_def)
qed

text \<open>The connection to the database fails as soon as the server has been stopped.\<close>

definition outage_env :: worker_env where
  "outage_env = \<lparr> en_clock = (\<lambda>n. noon), en_fresh = (\<lambda>n i. ''id''),
     en_fault = (\<lambda>n. if n < 2 then None else Some (Message ''connection lost'')),
     en_engine = (\<lambda>calls. None),
     en_backup = (\<lambda>calls. \<lparr> br_object_key = [], br_size_bytes = 0, br_sha256 = [] \<rparr>),
     en_provision = (\<lambda>calls. \<lparr> pr_container_id = ''c'', pr_volume_name = [], pr_network_name = [], pr_state = [] \<rparr>),
     en_sanitize = (\<lambda>s. s), en_open = (\<lambda>c x. Inr c),
     en_upload = (\<lambda>n job url. \<lparr> sr_status = 0, sr_retry_after = 0, sr_permanent = False, sr_error = None \<rparr>),
     en_stamp = (\<lambda>z t. []), en_timer_first = False, en_order = (\<lambda>n e. e), en_late = (\<lambda>n. None),
     en_frames = (\<lambda>n. []), en_sanitize_log = (\<lambda>s. s) \<rparr>"

definition restore_event :: outbox_event where
  "restore_event = outbox_row ''e1'' noon ''backup.restore'' ''s1''
     (JObj [(''OperationID'', JStr ''op''), (''BackupID'', JStr ''b1''), (''ServerID'', JStr ''s1''),
            (''SHA256'', JStr ''sha''), (''WasRunning'', JBool True)])"

definition sample_world :: world where
  "sample_world = \<lparr> w_db = sample_db, w_calls = [], w_step = 0 \<rparr>"

lemma outage_calls:
  "w_calls (snd (handle_backup_restore outage_env restore_event sample_world)) =
     [EPower ''s1'' ''stop'', EPower ''s1'' ''start'']"
  by (simp add: handle_backup_restore_def restore_event_def outbox_row_def decoded_def wrapping_def
      done_with_def andThen_def restore_job_of_def json_string_def json_bool_def
      restore_progress_def stmt_call_def store_call_def outage_env_def sample_world_def
      MarkBackupRestoreRunning_def update_operations_def attempt_def call_engine_def as_error_def
      restore_files_def restart_after_restore_def)

theorem maintenance_restarts_witness:
  "\<exists>post. w_calls (snd (handle_backup_restore outage_env restore_event sample_world)) =
     EPower ''s1'' ''stop'' # post \<and> last post = EPower ''s1'' ''start''"
proof -
  have calls: "w_calls (snd (handle_backup_restore outage_env restore_event sample_world)) =
      w_calls sample_world @ [] @ EPower ''s1'' ''stop'' # [EPower ''s1'' ''start'']"
    using outage_calls by (simp add: sample_world_def)
  have "en_engine outage_env (w_calls sample_world @ [] @ [EPower ''s1'' ''stop'']) = None"
    by (simp add: outage_env_def)
  from maintenance_restarts [where handler = "handle_backup_restore outage_env restore_event", OF disjI1 [OF refl] calls this]
    outage_calls
  show ?thesis by blast
qed

section \<open>Rolling back\<close>

text \<open>The server has this template version and image.\<close>

definition at_version :: "uuid \<Rightarrow> uuid \<Rightarrow> string \<Rightarrow> db \<Rightarrow> bool" where
  "at_version s v img d \<longleftrightarrow> (\<forall>r \<in> set (servers d). sv_id r = s \<longrightarrow>
     sv_template_version_id r = v \<and> sv_image_reference r = img)"

lemma finish_keeps_version: "preserves (at_version s v img) (FinishTemplateUpdate sn now ev job c err)"
proof -
  have servers: "preserves (at_version s v img) (update_servers p f)"
    if "\<And>r. sv_id (f r) = sv_id r \<and> sv_template_version_id (f r) = sv_template_version_id r \<and>
      sv_image_reference (f r) = sv_image_reference r" for p f
    by (rule preservesI) (auto simp: at_version_def update_servers_def set_upd that)
  have operations: "preserves (at_version s v img) (update_operations p f)" for p f
    by (rule preservesI) (auto simp: at_version_def update_operations_def)
  have activity: "preserves (at_version s v img) (insert_activity row)" for row
    by (rule preservesI) (auto simp: at_version_def dest: insert_activity_InrD)
  show ?thesis
    unfolding FinishTemplateUpdate_def Let_def
    by (rule preserves_exec) (simp add: servers operations activity)
qed

lemma set_version_db:
  assumes "en_fault env (w_step w) = None" and "find (\<lambda>x. sv_id x = s) (servers (w_db w)) = Some r"
    and "version_by_id (sv_template_version_id r) (w_db w) = Some cur" "version_by_id v (w_db w) = Some target"
    and "tv_template_id target = tv_template_id cur" "json_text (tv_canonical target) ''default_image'' = Some img"
  shows "at_version s v img (w_db (snd (set_version env s v w)))"
proof -
  have "tv_id target = v" using assms(4) by (auto simp: version_by_id_def dest: find_SomeD)
  then have version: "snd (SetServerTemplateVersion late now s v (w_db w)) = (w_db w)\<lparr>servers := upd (\<lambda>r. sv_id r = s)
      (\<lambda>r. r\<lparr>sv_template_version_id := v, sv_image_reference := img, sv_updated_at := now,
             sv_version := sv_version r + 1\<rparr>) (servers (w_db w))\<rparr>" for late now
    unfolding SetServerTemplateVersion_def assms(2) option.case assms(3,4) prod.case
    by (simp only: assms(5,6) option.case not_True_eq_False simp_thms if_False snd_conv)
  have world: "w_db (snd (set_version env s v w)) =
      snd (SetServerTemplateVersion (en_late env (w_step w)) (en_clock env (w_step w)) s v (w_db w))"
    by (simp add: set_version_def store_call_def assms(1) case_prod_unfold)
  have stored: "servers (d\<lparr>servers := rows\<rparr>) = rows" for d rows by simp
  show ?thesis
    unfolding at_version_def world version
  proof (intro ballI impI)
    fix x assume x: "sv_id x = s" and "x \<in> set (servers ((w_db w)\<lparr>servers := upd (\<lambda>r. sv_id r = s)
      (\<lambda>r. r\<lparr>sv_template_version_id := v, sv_image_reference := img,
        sv_updated_at := en_clock env (w_step w), sv_version := sv_version r + 1\<rparr>) (servers (w_db w))\<rparr>))"
    then obtain r where "x = (if sv_id r = s then r\<lparr>sv_template_version_id := v, sv_image_reference := img,
        sv_updated_at := en_clock env (w_step w), sv_version := sv_version r + 1\<rparr> else r)"
      unfolding stored set_upd by blast
    with x show "sv_template_version_id x = v \<and> sv_image_reference x = img" by (simp split: if_splits)
  qed
qed

text \<open>
  C38: when the worker rolls an update back, because its installer or the replacement of the
  container failed, the store answers the change of the version, and the previous version still
  exists, then the server is at its previous template version again; the engine has been asked to
  restore the files from the backup taken before the update when the update was a reinstallation,
  to rebuild the container from the previous configuration, and to start it when it was running, in
  this order and whatever of this fails.  The image recorded for the server is the previous version's
  default image, also when another one had been selected and the container was rebuilt with that.
  This is about \<open>roll_back\<close> only: \<open>complete_update\<close> records a failing start of the updated server
  without a rollback, and \<open>fail_before_runtime_change\<close> does not undo a version that was set by a
  \<open>SetServerTemplateVersion\<close> whose later read failed.
\<close>

theorem rollback_restores_version:
  assumes "en_fault env (w_step w) = None" and "find (\<lambda>x. sv_id x = tj_server_id job) (servers (w_db w)) = Some r"
    and "version_by_id (sv_template_version_id r) (w_db w) = Some cur"
    and "version_by_id (tj_previous_version job) (w_db w) = Some target"
    and "tv_template_id target = tv_template_id cur" and "json_text (tv_canonical target) ''default_image'' = Some img"
  shows "at_version (tj_server_id job) (tj_previous_version job) img (w_db (snd (roll_back env job previous sha e w))) \<and>
    w_calls (snd (roll_back env job previous sha e w)) = w_calls w @
      (if tj_mode job = ''reinstall'' then [ERestoreBackup (tj_server_id job) (tj_backup_id job) sha] else []) @
      [EReconfigure (tj_server_id job) (RuntimeRequest previous)] @
      (if tj_was_running job then [EPower (tj_server_id job) ''start''] else [])"
proof -
  let ?s = "tj_server_id job" and ?at = "at_version (tj_server_id job) (tj_previous_version job) img"
  obtain r0 w0 where set: "set_version env ?s (tj_previous_version job) w = (r0, w0)" by fastforce
  have w0: "w_calls w0 = w_calls w" "?at (w_db w0)"
    using set set_version_quiet(1) set_version_db [OF assms] by (metis quiet_def snd_conv, metis snd_conv)
  let ?tail = "andThen (if tj_mode job = ''reinstall''
        then error_of (call_engine env (ERestoreBackup ?s (tj_backup_id job) sha)) else done_with (Inr None)) (\<lambda>restoreErr.
      let err1 = followed_by e ''; file rollback failed: '' restoreErr in
      andThen (attempt (reconfigure env ?s (RuntimeRequest previous))) (\<lambda>rollback.
      let err2 = followed_by err1 ''; runtime rollback failed: '' (as_error rollback);
          containerID = (case rollback of Inl _ \<Rightarrow> [] | Inr c \<Rightarrow> c) in
      andThen (if_running job (call_engine env (EPower ?s ''start''))) (\<lambda>startErr.
      finish_update env job containerID (Some (followed_by err2 ''; server restart failed: '' startErr)))))"
  have split: "roll_back env job previous sha e w = ?tail w0"
    by (simp add: roll_back_def andThen_def attempt_def set)
  have read: "keeps ?at (\<lambda>w. (Inr (f w), w))" for f :: "world \<Rightarrow> string" by (simp add: keeps_def)
  have "keeps ?at ?tail"
    unfolding Let_def if_running_def error_of_def reconfigure_def finish_update_def
    by (intro keeps_intros finish_keeps_version read)
  with w0(2) have "?at (w_db (snd (?tail w0)))" by (simp add: keeps_def)
  moreover have "w_calls (snd (finish_update env job c err x)) = w_calls x" for c err x
    using quiet_progress(3) by (simp add: quiet_def)
  then have "w_calls (snd (?tail w0)) = w_calls w0 @
      (if tj_mode job = ''reinstall'' then [ERestoreBackup ?s (tj_backup_id job) sha] else []) @
      [EReconfigure ?s (RuntimeRequest previous)] @ (if tj_was_running job then [EPower ?s ''start''] else [])"
    unfolding Let_def reconfigure_def if_running_def error_of_def
    by (auto simp: andThen_def attempt_def call_engine_def Let_def done_with_def
      split: prod.splits sum.splits option.splits)
  ultimately show ?thesis by (simp add: split w0(1))
qed

definition sample_update :: template_update_job where
  "sample_update = \<lparr> tj_operation_id = ''op'', tj_server_id = ''s1'', tj_backup_id = ''b1'',
     tj_previous_version = ''tv1'', tj_target_version = ''tv2'', tj_mode = ''reinstall'', tj_was_running = True \<rparr>"

theorem rollback_restores_version_witness:
  "\<forall>previous. at_version ''s1'' ''tv1'' ''image'' (w_db (snd (roll_back outage_env sample_update previous ''sha'' ErrNoRows sample_world))) \<and>
   w_calls (snd (roll_back outage_env sample_update previous ''sha'' ErrNoRows sample_world)) =
     [ERestoreBackup ''s1'' ''b1'' ''sha'', EReconfigure ''s1'' (RuntimeRequest previous), EPower ''s1'' ''start'']"
proof
  fix previous
  let ?r = "sample_server ''s1'' ''running'' ''running''"
  have world: "w_db sample_world = sample_db" "w_calls sample_world = []" "w_step sample_world = 0"
    by (simp_all add: sample_world_def)
  have job: "tj_server_id sample_update = ''s1''" "tj_previous_version sample_update = ''tv1''"
    "tj_backup_id sample_update = ''b1''" "tj_mode sample_update = ''reinstall''" "tj_was_running sample_update"
    by (simp_all add: sample_update_def)
  have fault: "en_fault outage_env (w_step sample_world) = None" by (simp add: outage_env_def world)
  have server: "find (\<lambda>x. sv_id x = tj_server_id sample_update) (servers (w_db sample_world)) = Some ?r"
    by (simp add: world job sample_server_def)
  have version: "version_by_id (sv_template_version_id ?r) (w_db sample_world) = Some (sample_version ''tv1'' 1)"
    "version_by_id (tj_previous_version sample_update) (w_db sample_world) = Some (sample_version ''tv1'' 1)"
    by (simp_all add: version_by_id_def world job sample_server_def sample_version_def)
  have img: "json_text (tv_canonical (sample_version ''tv1'' 1)) ''default_image'' = Some ''image''"
    by (simp add: sample_version_def json_text_def)
  from rollback_restores_version [OF fault server version refl img, of previous "''sha''" ErrNoRows]
  show "at_version ''s1'' ''tv1'' ''image'' (w_db (snd (roll_back outage_env sample_update previous ''sha'' ErrNoRows sample_world))) \<and>
   w_calls (snd (roll_back outage_env sample_update previous ''sha'' ErrNoRows sample_world)) =
     [ERestoreBackup ''s1'' ''b1'' ''sha'', EReconfigure ''s1'' (RuntimeRequest previous), EPower ''s1'' ''start'']"
    by (simp add: world job)
qed

end
