(* ===== verification/Releases.thy ===== *)
theory Releases
  imports Prelude "HOL-Library.Product_Lexorder" "HOL-Library.List_Lexorder" "HOL-Library.Char_ord"
begin

text \<open>
  \<open>internal/updates/releases.go\<close>: semantic versions, their comparison, and which published release
  is offered as an update.  The HTTP exchange with GitHub and its JSON decoding are the caller's:
  \<open>remote\<close> is the decoded list of releases.
\<close>

section \<open>Integers of the standard library\<close>

definition digit_value :: "char \<Rightarrow> int" where
  "digit_value c = int (of_char c) - 48"

definition decimal_value :: "string \<Rightarrow> int" where
  "decimal_value s = foldl (\<lambda>n c. 10 * n + digit_value c) 0 s"

text \<open>
  \<open>strconv.Atoi(s)\<close> and \<open>strconv.ParseInt(s, 10, 64)\<close>: an optional sign and at least one digit; a
  value outside the 64-bit range is an error.
\<close>

definition atoi :: "string \<Rightarrow> int option" where
  "atoi s =
     (let negative = (s \<noteq> [] \<and> hd s = CHR ''-'');
          digits = (if s \<noteq> [] \<and> (hd s = CHR ''-'' \<or> hd s = CHR ''+'') then tl s else s);
          n = (if negative then - decimal_value digits else decimal_value digits) in
      if digits = [] \<or> \<not> list_all is_digit digits \<or> n < - (2 ^ 63) \<or> 2 ^ 63 \<le> n then None else Some n)"

section \<open>Versions\<close>

definition prerelease_char :: "char \<Rightarrow> bool" where
  "prerelease_char c \<longleftrightarrow> is_digit c \<or> c = CHR ''.'' \<or> c = CHR ''-'' \<or>
     (65 \<le> (of_char c :: nat) \<and> (of_char c :: nat) \<le> 90) \<or> (97 \<le> (of_char c :: nat) \<and> (of_char c :: nat) \<le> 122)"

text \<open>\<open>0|[1-9][0-9]*\<close>\<close>

definition version_number :: "string \<Rightarrow> bool" where
  "version_number s \<longleftrightarrow> s = ''0'' \<or> (s \<noteq> [] \<and> list_all is_digit s \<and> hd s \<noteq> CHR ''0'')"

record version =
  ver_major :: int
  ver_minor :: int
  ver_patch :: int
  ver_prerelease :: "string list"

text \<open>
  The expression \<open>semverPattern\<close> read from left to right: a number ends at the first byte that is not
  a digit, the identifiers at the first byte outside their alphabet, so there is one way to match.
\<close>

definition match_number :: "string \<Rightarrow> (string \<times> string) option" where
  "match_number s = (let n = takeWhile is_digit s in if version_number n then Some (n, dropWhile is_digit s) else None)"

definition match_char :: "char \<Rightarrow> string \<Rightarrow> string option" where
  "match_char c s = (case s of x # xs \<Rightarrow> if x = c then Some xs else None | [] \<Rightarrow> None)"

text \<open>\<open>(?:-([0-9A-Za-z.-]+))?\<close> and \<open>(?:\+[0-9A-Za-z.-]+)?$\<close>\<close>

definition match_prerelease :: "string \<Rightarrow> (string \<times> string) option" where
  "match_prerelease s = (case match_char CHR ''-'' s of
     None \<Rightarrow> Some ([], s)
   | Some r \<Rightarrow> (let p = takeWhile prerelease_char r in
       if p = [] then None else Some (p, dropWhile prerelease_char r)))"

definition match_build :: "string \<Rightarrow> bool" where
  "match_build s \<longleftrightarrow> s = [] \<or> (case match_char CHR ''+'' s of
     None \<Rightarrow> False | Some r \<Rightarrow> r \<noteq> [] \<and> list_all prerelease_char r)"

definition semver_match :: "string \<Rightarrow> (string \<times> string \<times> string \<times> string) option" where
  "semver_match s = Option.bind (match_number s) (\<lambda>(major, r1).
     Option.bind (match_char CHR ''.'' r1) (\<lambda>r2.
     Option.bind (match_number r2) (\<lambda>(minor, r3).
     Option.bind (match_char CHR ''.'' r3) (\<lambda>r4.
     Option.bind (match_number r4) (\<lambda>(patch, r5).
     Option.bind (match_prerelease r5) (\<lambda>(prerelease, r6).
     if match_build r6 then Some (major, minor, patch, prerelease) else None))))))"

definition parseVersion :: "string \<Rightarrow> version option" where
  "parseVersion input =
     (case semver_match (trim_prefix ''v'' (trim_space input)) of
        None \<Rightarrow> None
      | Some (major, minor, patch, prerelease) \<Rightarrow>
          (case (atoi major, atoi minor, atoi patch) of
             (Some a, Some b, Some c) \<Rightarrow> Some \<lparr> ver_major = a, ver_minor = b, ver_patch = c,
               ver_prerelease = (if prerelease = [] then [] else split_char CHR ''.'' prerelease) \<rparr>
           | _ \<Rightarrow> None))"

section \<open>Comparing versions\<close>

text \<open>\<open>strings.Compare\<close>, byte by byte.\<close>

definition strings_Compare :: "string \<Rightarrow> string \<Rightarrow> int" where
  "strings_Compare a b = (if a < b then -1 else if a = b then 0 else 1)"

definition compare_int :: "int \<Rightarrow> int \<Rightarrow> int" where
  "compare_int a b = (if a < b then -1 else if a > b then 1 else 0)"

text \<open>One round of the loop over the identifiers; 0 goes on to the next one.\<close>

definition compare_identifier :: "string \<Rightarrow> string \<Rightarrow> int" where
  "compare_identifier l r =
     (let leftNumeric = (atoi l \<noteq> None); rightNumeric = (atoi r \<noteq> None);
          leftNumber = (case atoi l of None \<Rightarrow> 0 | Some n \<Rightarrow> n);
          rightNumber = (case atoi r of None \<Rightarrow> 0 | Some n \<Rightarrow> n) in
      if leftNumeric \<and> rightNumeric \<and> leftNumber \<noteq> rightNumber
      then (if leftNumber < rightNumber then -1 else 1)
      else if leftNumeric \<noteq> rightNumeric then (if leftNumeric then -1 else 1)
      else if l \<noteq> r then strings_Compare l r
      else 0)"

fun compare_identifiers :: "string list \<Rightarrow> string list \<Rightarrow> int" where
  "compare_identifiers [] [] = 0"
| "compare_identifiers [] (r # rs) = -1"
| "compare_identifiers (l # ls) [] = 1"
| "compare_identifiers (l # ls) (r # rs) =
     (if compare_identifier l r \<noteq> 0 then compare_identifier l r else compare_identifiers ls rs)"

definition compare_parsed :: "version \<Rightarrow> version \<Rightarrow> int" where
  "compare_parsed a b =
     (if compare_int (ver_major a) (ver_major b) \<noteq> 0 then compare_int (ver_major a) (ver_major b)
      else if compare_int (ver_minor a) (ver_minor b) \<noteq> 0 then compare_int (ver_minor a) (ver_minor b)
      else if compare_int (ver_patch a) (ver_patch b) \<noteq> 0 then compare_int (ver_patch a) (ver_patch b)
      else if ver_prerelease a = [] \<and> ver_prerelease b = [] then 0
      else if ver_prerelease a = [] then 1
      else if ver_prerelease b = [] then -1
      else compare_identifiers (ver_prerelease a) (ver_prerelease b))"

definition compareVersions :: "string \<Rightarrow> string \<Rightarrow> int" where
  "compareVersions left right =
     (case (parseVersion left, parseVersion right) of
        (Some a, Some b) \<Rightarrow> compare_parsed a b
      | _ \<Rightarrow> strings_Compare left right)"

section \<open>Published releases\<close>

record github_asset =
  ga_name :: string
  ga_browser_download_url :: string

record github_release =
  gr_tag_name :: string
  gr_name :: string
  gr_html_url :: string
  gr_body :: string
  gr_draft :: bool
  gr_prerelease :: bool
  gr_published_at :: time
  gr_assets :: "github_asset list"

record release =
  rl_version :: string
  rl_tag :: string
  rl_name :: string
  rl_url :: string
  rl_notes :: string
  rl_prerelease :: bool
  rl_published_at :: time
  rl_archive_url :: string
  rl_checksums_url :: string

text \<open>The URL of the last asset of that name, as the loop over the assets leaves it.\<close>

definition asset_url :: "string \<Rightarrow> github_asset list \<Rightarrow> string" where
  "asset_url name assets = fold (\<lambda>a url. if ga_name a = name then ga_browser_download_url a else url) assets []"

definition release_version :: "github_release \<Rightarrow> string" where
  "release_version item = trim_prefix ''v'' (trim_space (gr_tag_name item))"

definition release_of :: "github_release \<Rightarrow> release option" where
  "release_of item =
     (let version = release_version item;
          archiveURL = asset_url (''dockside-game-panel-'' @ version @ ''.zip'') (gr_assets item);
          checksumsURL = asset_url ''SHA256SUMS'' (gr_assets item);
          name = trim_space (gr_name item) in
      if gr_draft item \<or> parseVersion version = None \<or> archiveURL = [] \<or> checksumsURL = [] then None
      else Some \<lparr> rl_version = version, rl_tag = gr_tag_name item,
        rl_name = (if name = [] then gr_tag_name item else name), rl_url = gr_html_url item,
        rl_notes = gr_body item, rl_prerelease = gr_prerelease item,
        rl_published_at = gr_published_at item, rl_archive_url = archiveURL,
        rl_checksums_url = checksumsURL \<rparr>)"

text \<open>\<open>sort.SliceStable\<close> with \<open>less\<close>: an element moves behind the later ones that are less than it.\<close>

fun insert_stable :: "('a \<Rightarrow> 'a \<Rightarrow> bool) \<Rightarrow> 'a \<Rightarrow> 'a list \<Rightarrow> 'a list" where
  "insert_stable lt x [] = [x]"
| "insert_stable lt x (y # ys) = (if lt y x then y # insert_stable lt x ys else x # y # ys)"

definition slice_stable :: "('a \<Rightarrow> 'a \<Rightarrow> bool) \<Rightarrow> 'a list \<Rightarrow> 'a list" where
  "slice_stable lt xs = foldr (insert_stable lt) xs []"

definition newer :: "release \<Rightarrow> release \<Rightarrow> bool" where
  "newer a b \<longleftrightarrow> 0 < compareVersions (rl_version a) (rl_version b)"

definition published :: "github_release list \<Rightarrow> release list" where
  "published remote = slice_stable newer (List.map_filter release_of remote)"

section \<open>The checker\<close>

record release_cache =
  ca_releases :: "release list"
  ca_checked_at :: time
  ca_expires_at :: time
  ca_etag :: string

text \<open>GitHub's answer: status, entity tag and the decoded body.\<close>

record github_response =
  gh_status :: int
  gh_etag :: string
  gh_body :: "error + github_release list"

text \<open>
  \<open>fetch etag\<close> is the request with \<open>If-None-Match: etag\<close> (none for the empty text).  The mutex makes
  one call of \<open>releases\<close> a step of the cache.
\<close>

definition releases ::
  "(string \<Rightarrow> error + github_response) \<Rightarrow> time \<Rightarrow> bool \<Rightarrow> release_cache \<Rightarrow>
   (error + (release list \<times> time)) \<times> release_cache" where
  "releases fetch now force cache =
     (if \<not> force \<and> ca_releases cache \<noteq> [] \<and> now < ca_expires_at cache
      then (Inr (ca_releases cache, ca_checked_at cache), cache)
      else case fetch (ca_etag cache) of
        Inl e \<Rightarrow> (Inl (Wrap ''check Dockside releases: '' e []), cache)
      | Inr response \<Rightarrow>
          if gh_status response = 304 \<and> ca_releases cache \<noteq> []
          then (Inr (ca_releases cache, now),
                cache\<lparr>ca_checked_at := now, ca_expires_at := now + interval_of (5 * minute)\<rparr>)
          else if gh_status response \<noteq> 200
          then (Inl (Message (''check Dockside releases: GitHub returned HTTP '' @ itoa (gh_status response))), cache)
          else (case gh_body response of
              Inl e \<Rightarrow> (Inl (Wrap ''decode Dockside releases: '' e []), cache)
            | Inr remote \<Rightarrow>
                (Inr (published remote, now),
                 \<lparr> ca_releases = published remote, ca_checked_at = now,
                   ca_expires_at = now + interval_of (5 * minute), ca_etag = gh_etag response \<rparr>)))"

record check_result =
  ck_checked_at :: "time option"
  ck_current_version :: string
  ck_include_previews :: bool
  ck_update_available :: bool
  ck_updates_supported :: bool
  ck_reason :: string
  ck_latest :: "release option"

definition Current :: "string \<Rightarrow> bool \<Rightarrow> check_result" where
  "Current current includePrereleases =
     (let version = trim_space current; ok = (parseVersion version \<noteq> None) in
      \<lparr> ck_checked_at = None, ck_current_version = version, ck_include_previews = includePrereleases,
        ck_update_available = False, ck_updates_supported = ok,
        ck_reason = (if ok then [] else ''In-panel updates are available only for versioned release builds. Development builds must be updated from the source checkout.''),
        ck_latest = None \<rparr>)"

definition Check ::
  "(string \<Rightarrow> error + github_response) \<Rightarrow> time \<Rightarrow> string \<Rightarrow> bool \<Rightarrow> bool \<Rightarrow> release_cache \<Rightarrow>
   (error + check_result) \<times> release_cache" where
  "Check fetch now current includePrereleases force cache =
     (let result = Current current includePrereleases in
      if \<not> ck_updates_supported result then (Inr result, cache)
      else (case releases fetch now force cache of
          (Inl e, cache') \<Rightarrow> (Inl e, cache')
        | (Inr (found, checkedAt), cache') \<Rightarrow>
            (let latest = find (\<lambda>r. \<not> rl_prerelease r \<or> includePrereleases) found in
             (Inr (result\<lparr>ck_checked_at := Some checkedAt, ck_latest := latest,
                ck_update_available := (case latest of None \<Rightarrow> False
                  | Some r \<Rightarrow> 0 < compareVersions (rl_version r) (ck_current_version result))\<rparr>), cache'))))"

definition Release ::
  "(string \<Rightarrow> error + github_response) \<Rightarrow> time \<Rightarrow> string \<Rightarrow> bool \<Rightarrow> release_cache \<Rightarrow>
   (error + release) \<times> release_cache" where
  "Release fetch now requested includePrereleases cache =
     (case releases fetch now False cache of
        (Inl e, cache') \<Rightarrow> (Inl e, cache')
      | (Inr (found, _), cache') \<Rightarrow>
          (let version = trim_prefix ''v'' (trim_space requested) in
           (case find (\<lambda>r. rl_version r = version \<and> (\<not> rl_prerelease r \<or> includePrereleases)) found of
              Some r \<Rightarrow> Inr r
            | None \<Rightarrow> Inl (Message ''the requested Dockside release is not published for the selected update channel''),
            cache')))"

section \<open>The order of versions\<close>

text \<open>Three-way comparison of a linear order.\<close>

definition cmp3 :: "'a::linorder \<Rightarrow> 'a \<Rightarrow> int" where
  "cmp3 x y = (if x < y then -1 else if x = y then 0 else 1)"

lemma cmp3_simps [simp]: "cmp3 x y < 0 \<longleftrightarrow> x < y" "cmp3 x y = 0 \<longleftrightarrow> x = y" "0 < cmp3 x y \<longleftrightarrow> y < x"
  "cmp3 x y \<le> 0 \<longleftrightarrow> x \<le> y"
  by (auto simp: cmp3_def)

definition identifier_key :: "string \<Rightarrow> int \<times> int \<times> string" where
  "identifier_key s = (case atoi s of Some n \<Rightarrow> (0, n, s) | None \<Rightarrow> (1, 0, s))"

lemma identifier_key_inject [simp]: "identifier_key a = identifier_key b \<longleftrightarrow> a = b"
  by (auto simp: identifier_key_def split: option.splits)

lemma compare_identifier_key: "compare_identifier a b = cmp3 (identifier_key a) (identifier_key b)"
  by (auto simp: compare_identifier_def cmp3_def identifier_key_def strings_Compare_def Let_def
      split: option.split)

text \<open>An identifier of a prerelease, ordered the way the code compares them.\<close>

datatype prerelease_id = Identifier (identifier_text: string)

instantiation prerelease_id :: linorder
begin

definition less_eq_prerelease_id :: "prerelease_id \<Rightarrow> prerelease_id \<Rightarrow> bool" where
  "less_eq_prerelease_id a b \<longleftrightarrow> compare_identifier (identifier_text a) (identifier_text b) \<le> 0"

definition less_prerelease_id :: "prerelease_id \<Rightarrow> prerelease_id \<Rightarrow> bool" where
  "less_prerelease_id a b \<longleftrightarrow> compare_identifier (identifier_text a) (identifier_text b) < 0"

instance
  by intro_classes
    (auto simp: less_eq_prerelease_id_def less_prerelease_id_def compare_identifier_key prerelease_id.expand intro: le_neq_trans)

end

lemma compare_identifier_cmp3: "compare_identifier a b = cmp3 (Identifier a) (Identifier b)"
  by (auto simp: cmp3_def less_prerelease_id_def compare_identifier_key)

lemma compare_identifiers_cmp3: "compare_identifiers ls rs = cmp3 (map Identifier ls) (map Identifier rs)"
  by (induction ls rs rule: compare_identifiers.induct) (auto simp: compare_identifier_cmp3 cmp3_def)

text \<open>
  The precedence of a version: numbers first, a release after its prereleases, then the identifiers
  in lexicographic order.
\<close>

definition precedence :: "version \<Rightarrow> int \<times> int \<times> int \<times> bool \<times> prerelease_id list" where
  "precedence v = (ver_major v, ver_minor v, ver_patch v, ver_prerelease v = [], map Identifier (ver_prerelease v))"

lemma compare_parsed_cmp3: "compare_parsed a b = cmp3 (precedence a) (precedence b)"
  by (auto simp: compare_parsed_def precedence_def compare_int_def compare_identifiers_cmp3 cmp3_def)

lemma compareVersions_cmp3:
  "parseVersion l = Some a \<Longrightarrow> parseVersion r = Some b \<Longrightarrow> compareVersions l r = cmp3 (precedence a) (precedence b)"
  by (simp add: compareVersions_def compare_parsed_cmp3)

end
