(* ===== verification/Release_Properties.thy ===== *)
theory Release_Properties
  imports Releases
begin

text \<open>
  The update the panel offers: the newest published release of the selected channel, by the
  precedence of semantic versions.
\<close>

definition release_precedence :: "release \<Rightarrow> int \<times> int \<times> int \<times> bool \<times> prerelease_id list" where
  "release_precedence r = (case parseVersion (rl_version r) of
     None \<Rightarrow> (0, 0, 0, False, []) | Some v \<Rightarrow> precedence v)"

lemma release_of_version: "release_of item = Some r \<Longrightarrow> parseVersion (rl_version r) \<noteq> None"
  by (auto simp: release_of_def Let_def split: if_splits)

lemma release_of_fields:
  "release_of item = Some r \<Longrightarrow> rl_version r = release_version item \<and> rl_prerelease r = gr_prerelease item"
  by (auto simp: release_of_def Let_def split: if_splits)

lemma newer_precedence:
  assumes "parseVersion (rl_version a) \<noteq> None" and "parseVersion (rl_version b) \<noteq> None"
  shows "newer a b \<longleftrightarrow> release_precedence b < release_precedence a"
  using assms by (auto simp: newer_def release_precedence_def compareVersions_cmp3)

section \<open>The sorted list\<close>

lemma set_insert_stable [simp]: "set (insert_stable lt x ys) = insert x (set ys)"
  by (induction ys) auto

lemma set_slice_stable [simp]: "set (slice_stable lt xs) = set xs"
  unfolding slice_stable_def by (induction xs) auto

lemma insert_stable_sorted:
  assumes "\<And>a b. a \<in> insert x (set ys) \<Longrightarrow> b \<in> insert x (set ys) \<Longrightarrow> lt a b \<longleftrightarrow> k b < (k a :: 'k::linorder)"
    and "sorted_wrt (\<lambda>a b. k b \<le> k a) ys"
  shows "sorted_wrt (\<lambda>a b. k b \<le> k a) (insert_stable lt x ys)"
  using assms
proof (induction ys)
  case (Cons y ys)
  show ?case
  proof (cases "lt y x")
    case True
    then have "k x < k y" using Cons.prems(1) by simp
    moreover have "sorted_wrt (\<lambda>a b. k b \<le> k a) (insert_stable lt x ys)"
      using Cons.prems by (intro Cons.IH) auto
    ultimately show ?thesis using True Cons.prems(2) by auto
  next
    case False
    then have "k y \<le> k x" using Cons.prems(1) [of y x] by auto
    then show ?thesis using False Cons.prems(2) by (auto intro: order_trans)
  qed
qed simp

lemma slice_stable_sorted:
  assumes "\<And>a b. a \<in> set xs \<Longrightarrow> b \<in> set xs \<Longrightarrow> lt a b \<longleftrightarrow> k b < (k a :: 'k::linorder)"
  shows "sorted_wrt (\<lambda>a b. k b \<le> k a) (slice_stable lt xs)"
  using assms
proof (induction xs)
  case Nil
  then show ?case by (simp add: slice_stable_def)
next
  case (Cons x xs)
  have "sorted_wrt (\<lambda>a b. k b \<le> k a) (insert_stable lt x (slice_stable lt xs))"
    by (rule insert_stable_sorted) (use Cons in auto)
  then show ?case by (simp add: slice_stable_def)
qed

lemma set_map_filter: "set (List.map_filter f xs) = {y. \<exists>x \<in> set xs. f x = Some y}"
  by (induction xs) (auto simp: List.map_filter_simps split: option.splits)

lemma published_sorted: "sorted_wrt (\<lambda>a b. release_precedence b \<le> release_precedence a) (published remote)"
  unfolding published_def
  by (rule slice_stable_sorted) (auto simp: set_map_filter newer_precedence release_of_version)

lemma set_published: "set (published remote) = {r. \<exists>item \<in> set remote. release_of item = Some r}"
  by (simp add: published_def set_map_filter)

lemma find_sorted:
  assumes "sorted_wrt rel xs" and "find p xs = Some x" and "y \<in> set xs" and "p y"
  shows "y = x \<or> rel x y"
  using assms by (induction xs) (auto split: if_splits)

section \<open>The offer\<close>

text \<open>A release that GitHub publishes and the selected channel includes.\<close>

definition in_channel :: "bool \<Rightarrow> github_release list \<Rightarrow> release \<Rightarrow> bool" where
  "in_channel includePrereleases remote r \<longleftrightarrow>
     (\<exists>item \<in> set remote. release_of item = Some r) \<and> (rl_prerelease r \<longrightarrow> includePrereleases)"

text \<open>
  C39: a check against GitHub offers a published release of the selected channel, complete with
  archive and checksums, that no other one of the channel is newer than, or none when the channel
  has none; it is announced as an update exactly when it is newer than the running version.  A
  check in the following five minutes gives the same answer, whatever GitHub says by then.
\<close>

theorem newest_release_offered:
  assumes "fetch (ca_etag cache) = Inr response" and "gh_status response = 200" and "gh_body response = Inr remote"
    and "parseVersion (trim_space current) \<noteq> None"
  shows "\<exists>result cache'. Check fetch now current includePrereleases True cache = (Inr result, cache') \<and>
    (case ck_latest result of
       None \<Rightarrow> (\<forall>r. \<not> in_channel includePrereleases remote r) \<and> \<not> ck_update_available result
     | Some latest \<Rightarrow> in_channel includePrereleases remote latest \<and>
         rl_archive_url latest \<noteq> [] \<and> rl_checksums_url latest \<noteq> [] \<and>
         (\<forall>r. in_channel includePrereleases remote r \<longrightarrow> compareVersions (rl_version r) (rl_version latest) \<le> 0) \<and>
         (ck_update_available result \<longleftrightarrow> 0 < compareVersions (rl_version latest) (trim_space current)) \<and>
         (\<forall>fetch' now'. now' < now + interval_of (5 * minute) \<longrightarrow>
            Check fetch' now' current includePrereleases False cache' = (Inr result, cache')))"
proof -
  let ?found = "published remote" and ?p = "\<lambda>r. \<not> rl_prerelease r \<or> includePrereleases"
  let ?latest = "find ?p ?found"
  let ?result = "(Current current includePrereleases)\<lparr>ck_checked_at := Some now, ck_latest := ?latest,
    ck_update_available := (case ?latest of None \<Rightarrow> False
      | Some r \<Rightarrow> 0 < compareVersions (rl_version r) (trim_space current))\<rparr>"
  let ?cache = "\<lparr> ca_releases = ?found, ca_checked_at = now, ca_expires_at = now + interval_of (5 * minute),
    ca_etag = gh_etag response \<rparr>"
  have run: "Check fetch now current includePrereleases True cache = (Inr ?result, ?cache)"
    using assms by (simp add: Check_def releases_def Current_def Let_def split: option.split)
  have channel: "in_channel includePrereleases remote r \<longleftrightarrow> r \<in> set ?found \<and> ?p r" for r
    by (auto simp: in_channel_def set_published)
  have later: "Check fetch' now' current includePrereleases False ?cache = (Inr ?result, ?cache)"
    if "?found \<noteq> []" "now' < now + interval_of (5 * minute)" for fetch' now'
    using assms(4) that by (simp add: Check_def releases_def Current_def Let_def split: option.split)
  show ?thesis
  proof (cases ?latest)
    case None
    then have "\<forall>r. \<not> in_channel includePrereleases remote r" by (auto simp: channel find_None_iff)
    with run None show ?thesis by (intro exI conjI) auto
  next
    case (Some latest)
    then have mem: "latest \<in> set ?found" "?p latest" by (auto dest: find_SomeD)
    have parsed: "parseVersion (rl_version r) \<noteq> None" if "r \<in> set ?found" for r
      using that by (auto simp: set_published dest: release_of_version)
    have "compareVersions (rl_version r) (rl_version latest) \<le> 0" if "r \<in> set ?found" "?p r" for r
    proof -
      have "r = latest \<or> release_precedence r \<le> release_precedence latest"
        using find_sorted [OF published_sorted Some that] by blast
      with newer_precedence [OF parsed [OF that(1)] parsed [OF mem(1)]] show ?thesis
        by (auto simp: newer_def not_less)
    qed
    moreover have "rl_archive_url latest \<noteq> []" "rl_checksums_url latest \<noteq> []"
      using mem(1) by (auto simp: set_published release_of_def Let_def split: if_splits)
    moreover have "?found \<noteq> []" using mem(1) by auto
    ultimately show ?thesis using run Some mem later
      by (intro exI [of _ ?result] exI [of _ ?cache]) (auto simp: channel)
  qed
qed

text \<open>GitHub lists version 1.9.0, then 1.10.0, then a prerelease.\<close>

definition sample_release :: "string \<Rightarrow> bool \<Rightarrow> github_release" where
  "sample_release v pre = \<lparr> gr_tag_name = ''v'' @ v, gr_name = [], gr_html_url = [], gr_body = [], gr_draft = False,
     gr_prerelease = pre, gr_published_at = 0, gr_assets =
       [\<lparr> ga_name = ''dockside-game-panel-'' @ v @ ''.zip'', ga_browser_download_url = ''archive'' \<rparr>,
        \<lparr> ga_name = ''SHA256SUMS'', ga_browser_download_url = ''sums'' \<rparr>] \<rparr>"

definition sample_response :: github_response where
  "sample_response = \<lparr> gh_status = 200, gh_etag = ''e'', gh_body = Inr [sample_release ''1.9.0'' False,
     sample_release ''1.10.0'' False, sample_release ''2.0.0-rc.1'' True] \<rparr>"

definition no_cache :: release_cache where
  "no_cache = \<lparr> ca_releases = [], ca_checked_at = 0, ca_expires_at = 0, ca_etag = [] \<rparr>"

lemma sample_parsed: "parseVersion ''1.9.0'' \<noteq> None" "parseVersion ''1.10.0'' \<noteq> None"
  "0 < compareVersions ''1.10.0'' ''1.9.0''" "0 < compareVersions ''2.0.0'' ''2.0.0-rc.1''"
  by code_simp+

theorem newest_release_offered_witness:
  "\<exists>result cache'. Check (\<lambda>etag. Inr sample_response) 0 ''1.9.0'' False True no_cache = (Inr result, cache') \<and>
     (\<exists>latest. ck_latest result = Some latest \<and> compareVersions ''1.10.0'' (rl_version latest) \<le> 0)"
proof -
  let ?remote = "[sample_release ''1.9.0'' False, sample_release ''1.10.0'' False, sample_release ''2.0.0-rc.1'' True]"
  have response: "gh_status sample_response = 200" "gh_body sample_response = Inr ?remote"
    by (simp_all add: sample_response_def)
  have current: "parseVersion (trim_space ''1.9.0'') \<noteq> None" by code_simp
  have version: "release_version (sample_release ''1.10.0'' False) = ''1.10.0''"
    by (simp add: release_version_def sample_release_def trim_space_def trim_left_def is_space_def trim_prefix_def)
  moreover have "release_of (sample_release ''1.10.0'' False) \<noteq> None" by code_simp
  moreover have "\<not> gr_prerelease (sample_release ''1.10.0'' False)" by (simp add: sample_release_def)
  ultimately obtain r where r: "release_of (sample_release ''1.10.0'' False) = Some r" "rl_version r = ''1.10.0''"
    "\<not> rl_prerelease r" using release_of_fields by fastforce
  then have "in_channel False ?remote r" by (auto simp: in_channel_def)
  with newest_release_offered [where fetch = "\<lambda>etag. Inr sample_response" and cache = no_cache and now = 0
      and includePrereleases = False, OF refl response current]
  show ?thesis unfolding r(2) [symmetric] by (auto split: option.splits)
qed

end
