(* ===== verification/Request_Validation.thy ===== *)
theory Request_Validation
  imports Configuration_Commits Releases Webhooks Access
begin

text \<open>
  What \<open>internal/httpapi/server_handlers.go\<close> and \<open>configuration_handlers.go\<close> accept: ports,
  variables, resources and custom definitions of a request, normalised or refused.  A Go map of a
  request is an association list with distinct keys in the order in which the loop walks it.
  Lengths are bytes, as \<open>len\<close> counts them.
\<close>

definition errBadRequest :: error where "errBadRequest = Message ''bad request''"

text \<open>\<open>errors.Join(sentinel, err)\<close> for an \<open>err\<close> that is no sentinel of the store.\<close>

definition join_errors :: "error \<Rightarrow> string \<Rightarrow> error" where
  "join_errors sentinel detail = Wrap [] sentinel (CHR 0x0A # detail)"

definition error_quoted :: "string \<Rightarrow> string" where
  "error_quoted s = [CHR 0x22] @ s @ [CHR 0x22]"

section \<open>Ports of a new server\<close>

record create_port_request =
  cp_container_port :: int
  cp_protocol :: string
  cp_purpose :: string
  cp_environment :: string
  cp_primary :: bool

definition accepted_create_port :: "create_port_request \<Rightarrow> error + port_request" where
  "accepted_create_port source =
     (let protocol = to_lower (trim_space (cp_protocol source)); purpose = trim_space (cp_purpose source);
          environment = to_upper (trim_space (cp_environment source)) in
      if cp_container_port source < 1 \<or> cp_container_port source > 65535 \<or>
         (protocol \<noteq> ''tcp'' \<and> protocol \<noteq> ''udp'') \<or> length purpose > 120 \<or> length environment > 80 \<or>
         (environment \<noteq> [] \<and> \<not> environment_name environment)
      then Inl (Message ''every port needs a valid container port and TCP or UDP protocol'')
      else Inr \<lparr> pq_id = [], pq_bind_address = [], pq_host_port = 0, pq_container_port = cp_container_port source,
        pq_protocol = protocol, pq_purpose = purpose, pq_environment = environment, pq_is_primary = cp_primary source \<rparr>)"

fun accept_create_ports :: "(int \<times> string) list \<Rightarrow> create_port_request list \<Rightarrow> error + port_request list" where
  "accept_create_ports seen [] = Inr []"
| "accept_create_ports seen (source # rest) =
     (case accepted_create_port source of
        Inl e \<Rightarrow> Inl e
      | Inr p \<Rightarrow>
          let key = (pq_container_port p, pq_protocol p) in
          if key \<in> set seen
          then Inl (Message (''duplicate container allocation '' @ itoa (fst key) @ ''/'' @ snd key))
          else (case accept_create_ports (key # seen) rest of Inl e \<Rightarrow> Inl e | Inr ps \<Rightarrow> Inr (p # ps)))"

definition one_primary :: "error \<Rightarrow> port_request list \<Rightarrow> error + port_request list" where
  "one_primary e ports = (if length (filter pq_is_primary ports) = 1 then Inr ports else Inl e)"

definition validateCreateServerPorts :: "create_port_request list \<Rightarrow> error + port_request list" where
  "validateCreateServerPorts input =
     (if length input < 1 \<or> length input > 32 then Inl (Message ''one to 32 published ports are required'')
      else and_then (accept_create_ports [] input)
        (one_primary (Message ''exactly one published port must be primary'')))"

definition port_matches :: "network_port \<Rightarrow> port_request \<Rightarrow> bool" where
  "port_matches def candidate \<longleftrightarrow>
     (let environment = to_upper (trim_space (np_environment def)) in
      (environment \<noteq> [] \<and> environment = to_upper (trim_space (pq_environment candidate))) \<or>
      (np_container_port def > 0 \<and> np_protocol def \<noteq> [] \<and> np_container_port def = pq_container_port candidate \<and>
       to_lower (np_protocol def) = to_lower (pq_protocol candidate)))"

fun validateTemplatePortPolicy :: "network_port list \<Rightarrow> port_request list \<Rightarrow> error option" where
  "validateTemplatePortPolicy [] allocated = None"
| "validateTemplatePortPolicy (def # defs) allocated =
     (let found = (\<exists>p \<in> set allocated. port_matches def p) in
      if found \<and> np_internal_only def
      then Some (Message (''template port '' @ error_quoted (np_name def) @ '' is internal-only and cannot be published on the host''))
      else if np_required def \<and> \<not> found
      then Some (Message (''required template port '' @ error_quoted (np_name def) @ '' was not provided''))
      else validateTemplatePortPolicy defs allocated)"

section \<open>Variables\<close>

text \<open>One rule of a variable; rules the panel does not know are ignored.\<close>

definition violates_rule :: "string \<Rightarrow> string \<Rightarrow> string \<Rightarrow> error option" where
  "violates_rule name val rule =
     (let complaint = (\<lambda>t. Some (Message (''template variable '' @ error_quoted name @ t))) in
      if rule \<in> {[], ''string'', ''nullable'', ''sometimes''} then None
      else if rule = ''required'' then (if trim_space val = [] then complaint '' is required'' else None)
      else if rule = ''integer'' \<or> rule = ''numeric''
      then (if val \<noteq> [] \<and> atoi val = None then complaint '' must be an integer'' else None)
      else if prefix ''max:'' rule
      then (case atoi (drop 4 rule) of
              Some m \<Rightarrow> if int (length val) > m then complaint '' exceeds its maximum length'' else None
            | None \<Rightarrow> None)
      else if prefix ''min:'' rule
      then (case atoi (drop 4 rule) of
              Some m \<Rightarrow> if val \<noteq> [] \<and> int (length val) < m then complaint '' is shorter than its minimum length'' else None
            | None \<Rightarrow> None)
      else None)"

fun first_violation :: "string \<Rightarrow> string \<Rightarrow> string list \<Rightarrow> error option" where
  "first_violation name val [] = None"
| "first_violation name val (r # rs) =
     (case violates_rule name val (trim_space r) of Some e \<Rightarrow> Some e | None \<Rightarrow> first_violation name val rs)"

definition validateVariableRules :: "string \<Rightarrow> string \<Rightarrow> string \<Rightarrow> error option" where
  "validateVariableRules name val rules = first_violation name val (split_char CHR ''|'' rules)"

definition accepted_variable :: "(string \<times> string) list \<Rightarrow> template_variable \<Rightarrow> error + stored_variable" where
  "accepted_variable supplied def =
     (let name = vr_environment def;
          refused = (case map_of supplied name of None \<Rightarrow> False
            | Some x \<Rightarrow> \<not> vr_user_editable def \<and> x \<noteq> vr_default_value def);
          val = (case map_of supplied name of None \<Rightarrow> vr_default_value def
            | Some x \<Rightarrow> if vr_user_editable def then x else vr_default_value def) in
      if refused then Inl (Message (''template variable '' @ error_quoted name @ '' is not user editable''))
      else if length val > 65536 then Inl (Message (''template variable '' @ error_quoted name @ '' is too long''))
      else (case validateVariableRules name val (vr_rules def) of
          Some e \<Rightarrow> Inl e
        | None \<Rightarrow> Inr \<lparr> vs_name = name, vs_value_text = Some val, vs_value_encrypted = None,
            vs_is_secret = vr_secret def \<rparr>))"

fun accept_variables :: "(string \<times> string) list \<Rightarrow> template_variable list \<Rightarrow> error + stored_variable list" where
  "accept_variables supplied [] = Inr []"
| "accept_variables supplied (def # defs) =
     (case accepted_variable supplied def of
        Inl e \<Rightarrow> Inl e
      | Inr v \<Rightarrow> (case accept_variables supplied defs of Inl e \<Rightarrow> Inl e | Inr vs \<Rightarrow> Inr (v # vs)))"

definition validateTemplateVariables ::
  "template_variable list \<Rightarrow> (string \<times> string) list \<Rightarrow> error + stored_variable list" where
  "validateTemplateVariables defs supplied =
     (case find (\<lambda>(name, _). name \<notin> vr_environment ` set defs) supplied of
        Some (name, _) \<Rightarrow> Inl (Message (''unknown template variable '' @ error_quoted name))
      | None \<Rightarrow> accept_variables supplied defs)"

section \<open>Resources\<close>

text \<open>Go's 64-bit integers wrap around.\<close>

definition wrap64 :: "int \<Rightarrow> int" where
  "wrap64 n = (n + 2 ^ 63) mod 2 ^ 64 - 2 ^ 63"

definition megabytes :: "int option \<Rightarrow> int option" where
  "megabytes v = map_option (\<lambda>n. wrap64 (n * 1048576)) v"

record resource_request =
  rq_cpu_limit_millicores :: "int option"
  rq_memory_limit_mb :: "int option"
  rq_memory_reservation_mb :: "int option"
  rq_disk_limit_mb :: "int option"
  rq_pids_limit :: "int option"
  rq_io_weight :: "int option"

definition outside :: "int option \<Rightarrow> int \<Rightarrow> int \<Rightarrow> bool" where
  "outside v lo hi \<longleftrightarrow> (case v of None \<Rightarrow> False | Some n \<Rightarrow> n < lo \<or> hi < n)"

definition requestedResources :: "resource_request \<Rightarrow> error + server_resources" where
  "requestedResources input =
     (let r = \<lparr> rs_server_id = [], rs_cpu_limit_millicores = rq_cpu_limit_millicores input, rs_cpu_set = None,
            rs_memory_limit_bytes = megabytes (rq_memory_limit_mb input),
            rs_memory_reservation_bytes = megabytes (rq_memory_reservation_mb input),
            rs_swap_limit_bytes = None, rs_disk_limit_bytes = megabytes (rq_disk_limit_mb input),
            rs_pids_limit = rq_pids_limit input, rs_io_weight = rq_io_weight input \<rparr> in
      if outside (rs_cpu_limit_millicores r) 100 128000
      then Inl (Message ''CPU limit must be 100-128000 millicores or unlimited'')
      else if outside (rs_memory_limit_bytes r) (64 * 1048576) (2 ^ 40)
      then Inl (Message ''memory limit must be 64 MB-1 TB or unlimited'')
      else if (case rs_memory_reservation_bytes r of None \<Rightarrow> False
          | Some n \<Rightarrow> (case rs_memory_limit_bytes r of None \<Rightarrow> True | Some m \<Rightarrow> n > m))
      then Inl (Message ''memory reservation requires a limit and cannot exceed it'')
      else if outside (rs_disk_limit_bytes r) (64 * 1048576) (16 * 2 ^ 40)
      then Inl (Message ''disk alert limit must be 64 MB-16 TB or unlimited'')
      else if outside (rs_pids_limit r) 16 1000000
      then Inl (Message ''PID limit must be 16-1000000 or unlimited'')
      else if outside (rs_io_weight r) 10 1000
      then Inl (Message ''I/O weight must be 10-1000 or unset'')
      else Inr r)"

definition normalizedCPUSet :: "string option \<Rightarrow> string option" where
  "normalizedCPUSet v = (case v of None \<Rightarrow> None | Some s \<Rightarrow> nullif_empty (trim_space s))"

text \<open>\<open>^(?:\d+(?:-\d+)?)(?:,\d+(?:-\d+)?)*$\<close>\<close>

definition some_digits :: "string \<Rightarrow> bool" where
  "some_digits s \<longleftrightarrow> s \<noteq> [] \<and> list_all is_digit s"

definition cpu_range :: "string \<Rightarrow> bool" where
  "cpu_range s \<longleftrightarrow> length (split_char CHR ''-'' s) \<le> 2 \<and> list_all some_digits (split_char CHR ''-'' s)"

definition cpu_set_pattern :: "string \<Rightarrow> bool" where
  "cpu_set_pattern s \<longleftrightarrow> list_all cpu_range (split_char CHR '','' s)"

definition validateAdditionalResources :: "server_resources \<Rightarrow> error option" where
  "validateAdditionalResources r =
     (if (case rs_cpu_set r of None \<Rightarrow> False | Some s \<Rightarrow> length s > 255 \<or> \<not> cpu_set_pattern s)
      then Some (Message ''CPU set must use values like 0,2-3'')
      else if (case (rs_swap_limit_bytes r, rs_memory_limit_bytes r) of (Some s, Some m) \<Rightarrow> s < m | _ \<Rightarrow> False)
      then Some (Message ''swap limit must be at least the memory limit or unlimited'')
      else if (case rs_disk_limit_bytes r of None \<Rightarrow> False | Some n \<Rightarrow> n < 64 * 1048576)
      then Some (Message ''disk limit must be at least 64 MB or unlimited'')
      else None)"

section \<open>Changed ports\<close>

record network_port_request =
  nr_bind_address :: string
  nr_host_port :: int
  nr_container_port :: int
  nr_protocol :: string
  nr_purpose :: string
  nr_environment :: string
  nr_is_primary :: bool

text \<open>The configured range of host ports; \<open>parse_ip\<close> is \<open>net.ParseIP\<close>.\<close>

definition accepted_network_port ::
  "(string \<Rightarrow> ip option) \<Rightarrow> int \<Rightarrow> int \<Rightarrow> network_port_request \<Rightarrow> error + port_request" where
  "accepted_network_port parse_ip first_port last_port c =
     (let trimmed = trim_space (nr_bind_address c);
          bind = (if trimmed = [] then ''0.0.0.0'' else trimmed);
          protocol = to_lower (trim_space (nr_protocol c)); purpose = trim_space (nr_purpose c);
          environment = to_upper (trim_space (nr_environment c)) in
      if (case parse_ip bind of None \<Rightarrow> True | Some a \<Rightarrow> \<not> ip_is_unspecified a \<and> \<not> ip_is_loopback a)
      then Inl (Message ''bind addresses must be loopback or all interfaces'')
      else if nr_host_port c < first_port \<or> nr_host_port c > last_port \<or>
         nr_container_port c < 1 \<or> nr_container_port c > 65535 \<or> (protocol \<noteq> ''tcp'' \<and> protocol \<noteq> ''udp'') \<or>
         length purpose > 120 \<or> length environment > 80 \<or> (environment \<noteq> [] \<and> \<not> environment_name environment)
      then Inl (Message ''one or more port allocations are invalid'')
      else Inr \<lparr> pq_id = [], pq_bind_address = bind, pq_host_port = nr_host_port c,
        pq_container_port = nr_container_port c, pq_protocol = protocol, pq_purpose = purpose,
        pq_environment = environment, pq_is_primary = nr_is_primary c \<rparr>)"

fun accept_network_ports ::
  "(network_port_request \<Rightarrow> error + port_request) \<Rightarrow> (int \<times> string) list \<Rightarrow> network_port_request list \<Rightarrow>
   error + port_request list" where
  "accept_network_ports accepted seen [] = Inr []"
| "accept_network_ports accepted seen (c # cs) =
     (case accepted c of
        Inl e \<Rightarrow> Inl e
      | Inr p \<Rightarrow>
          let key = (pq_host_port p, pq_protocol p) in
          if key \<in> set seen then Inl (Message ''duplicate host port allocation'')
          else (case accept_network_ports accepted (key # seen) cs of Inl e \<Rightarrow> Inl e | Inr ps \<Rightarrow> Inr (p # ps)))"

definition validateNetworkPorts ::
  "(string \<Rightarrow> ip option) \<Rightarrow> int \<Rightarrow> int \<Rightarrow> network_port_request list \<Rightarrow> error + port_request list" where
  "validateNetworkPorts parse_ip first_port last_port input =
     (if input = [] \<or> length input > 64 then Inl (Message ''configure between 1 and 64 port allocations'')
      else and_then (accept_network_ports (accepted_network_port parse_ip first_port last_port) [] input)
        (one_primary (Message ''exactly one allocation must be primary'')))"

section \<open>Custom variables\<close>

record variable_definition_request =
  vq_environment :: string
  vq_display_name :: string
  vq_description :: string
  vq_default_value :: string
  vq_user_viewable :: bool
  vq_user_editable :: bool
  vq_rules :: string
  vq_field_type :: string
  vq_secret :: bool

definition reserved_names :: "configuration_variable list \<Rightarrow> port_request list \<Rightarrow> string list" where
  "reserved_names existing ports =
     [''STARTUP'', ''P_SERVER_UUID'', ''P_SERVER_LOCATION'', ''SERVER_IP'', ''SERVER_PORT'',
      ''SERVER_PUBLIC_PORT'', ''SERVER_MEMORY''] @
     map cv_name (filter (\<lambda>v. \<not> cv_custom v) existing) @
     concat (map (\<lambda>p. [pq_environment p, pq_environment p @ ''_PUBLIC''])
       (filter (\<lambda>p. pq_environment p \<noteq> []) ports))"

definition normalized_definition :: "variable_definition_request \<Rightarrow> variable_definition_request" where
  "normalized_definition s =
     (let field = to_lower (trim_space (vq_field_type s)) in
      s\<lparr>vq_environment := to_upper (trim_space (vq_environment s)), vq_display_name := trim_space (vq_display_name s),
        vq_description := trim_space (vq_description s), vq_field_type := (if field = [] then ''text'' else field),
        vq_rules := trim_space (vq_rules s)\<rparr>)"

definition accepted_definition ::
  "string list \<Rightarrow> variable_definition_request \<Rightarrow> error + configuration_variable" where
  "accepted_definition taken source =
     (let s = normalized_definition source in
      if vq_field_type s \<notin> {''text'', ''number'', ''boolean'', ''password'', ''select''}
      then Inl (Message (''variable '' @ error_quoted (vq_environment s) @ '' has an unsupported field type''))
      else if \<not> environment_name (vq_environment s) \<or> prefix ''DOCKSIDE_'' (vq_environment s) \<or>
         vq_environment s \<in> set taken \<or> vq_display_name s = [] \<or> length (vq_display_name s) > 120 \<or>
         length (vq_description s) > 1000 \<or> length (vq_default_value s) > 65536 \<or> length (vq_rules s) > 1000
      then Inl (Message (''custom variable '' @ error_quoted (vq_environment s) @ '' is invalid, duplicated, or reserved''))
      else Inr \<lparr> cv_name = vq_environment s, cv_display_name = vq_display_name s,
        cv_description = vq_description s, cv_default_value = vq_default_value s, cv_value = None,
        cv_has_value = False, cv_secret = (vq_secret s \<or> vq_field_type s = ''password''),
        cv_user_viewable = vq_user_viewable s, cv_user_editable = vq_user_editable s,
        cv_rules = vq_rules s, cv_field_type = vq_field_type s, cv_custom = True \<rparr>)"

fun accept_definitions ::
  "string list \<Rightarrow> variable_definition_request list \<Rightarrow> error + configuration_variable list" where
  "accept_definitions taken [] = Inr []"
| "accept_definitions taken (s # ss) =
     (case accepted_definition taken s of
        Inl e \<Rightarrow> Inl e
      | Inr v \<Rightarrow> (case accept_definitions (cv_name v # taken) ss of Inl e \<Rightarrow> Inl e | Inr vs \<Rightarrow> Inr (v # vs)))"

definition validateCustomVariableDefinitions ::
  "variable_definition_request list \<Rightarrow> configuration_variable list \<Rightarrow> port_request list \<Rightarrow>
   error + configuration_variable list" where
  "validateCustomVariableDefinitions input existing ports =
     (if length input > 64 then Inl (Message ''a server may define at most 64 custom variables'')
      else accept_definitions (reserved_names existing ports) input)"

definition imageInTemplate :: "(string \<times> string) list \<Rightarrow> string \<Rightarrow> bool" where
  "imageInTemplate images requested \<longleftrightarrow> requested \<in> snd ` set images"

section \<open>What is accepted can be stored\<close>

text \<open>Requested resources satisfy the constraints of their table.\<close>

lemma inside_positive: "\<not> outside v lo hi \<Longrightarrow> 0 < lo \<Longrightarrow> positive_or_null v"
  by (cases v) (auto simp: outside_def positive_or_null_def)

lemma requestedResources_ok:
  assumes "requestedResources input = Inr r"
  shows "check_resources r"
proof -
  from assms have "\<not> outside (rs_cpu_limit_millicores r) 100 128000"
    "\<not> outside (rs_memory_limit_bytes r) (64 * 1048576) (2 ^ 40)"
    "\<not> outside (rs_disk_limit_bytes r) (64 * 1048576) (16 * 2 ^ 40)" "\<not> outside (rs_pids_limit r) 16 1000000"
    unfolding requestedResources_def Let_def by (simp_all split: if_split_asm) fastforce+
  then have "positive_or_null (rs_cpu_limit_millicores r)" "positive_or_null (rs_memory_limit_bytes r)"
    "positive_or_null (rs_disk_limit_bytes r)" "positive_or_null (rs_pids_limit r)"
    by (auto dest: inside_positive)
  then show ?thesis by (simp add: check_resources_def)
qed

definition request_key :: "port_request \<Rightarrow> int \<times> string" where
  "request_key p = (pq_container_port p, pq_protocol p)"

definition host_key :: "port_request \<Rightarrow> int \<times> string" where
  "host_key p = (pq_host_port p, pq_protocol p)"

definition valid_request_port :: "port_request \<Rightarrow> bool" where
  "valid_request_port p \<longleftrightarrow> 1 \<le> pq_container_port p \<and> pq_container_port p \<le> 65535 \<and>
     pq_protocol p \<in> {''tcp'', ''udp''} \<and> (pq_environment p \<noteq> [] \<longrightarrow> environment_name (pq_environment p))"

lemma accepted_create_port_valid: "accepted_create_port s = Inr p \<Longrightarrow> valid_request_port p"
  by (auto simp: accepted_create_port_def Let_def valid_request_port_def split: if_splits)

lemma accept_create_ports_valid:
  "accept_create_ports seen input = Inr ports \<Longrightarrow> length ports = length input \<and> distinct (map request_key ports) \<and>
   request_key ` set ports \<inter> set seen = {} \<and> (\<forall>p \<in> set ports. valid_request_port p)"
proof (induction input arbitrary: seen ports)
  case (Cons s input)
  then obtain p ps where p: "accepted_create_port s = Inr p" "request_key p \<notin> set seen"
    "accept_create_ports (request_key p # seen) input = Inr ps" "ports = p # ps"
    by (auto simp: request_key_def Let_def split: sum.splits if_splits)
  with Cons.IH [OF p(3)] accepted_create_port_valid [OF p(1)] show ?case by auto
qed simp

lemma validateCreateServerPorts_valid:
  assumes "validateCreateServerPorts input = Inr ports"
  shows "1 \<le> length ports \<and> length ports \<le> 32 \<and> distinct (map request_key ports) \<and>
    (\<forall>p \<in> set ports. valid_request_port p) \<and> length (filter pq_is_primary ports) = 1"
proof -
  from assms have "accept_create_ports [] input = Inr ports" "length (filter pq_is_primary ports) = 1"
    "1 \<le> length input" "length input \<le> 32"
    by (auto simp: validateCreateServerPorts_def one_primary_def not_less Suc_le_eq dest!: and_then_InrD split: if_splits)
  with accept_create_ports_valid [of "[]" input ports] show ?thesis by simp
qed

lemma accept_network_ports_valid:
  assumes "\<And>s p. accepted s = Inr p \<Longrightarrow> Q p"
  shows "accept_network_ports accepted seen input = Inr ports \<Longrightarrow> length ports = length input \<and>
    distinct (map host_key ports) \<and> host_key ` set ports \<inter> set seen = {} \<and> (\<forall>p \<in> set ports. Q p)"
proof (induction input arbitrary: seen ports)
  case (Cons s input)
  then obtain p ps where p: "accepted s = Inr p" "host_key p \<notin> set seen"
    "accept_network_ports accepted (host_key p # seen) input = Inr ps" "ports = p # ps"
    by (auto simp: host_key_def Let_def split: sum.splits if_splits)
  with Cons.IH [OF p(3)] assms [OF p(1)] show ?case by auto
qed simp

lemma validateNetworkPorts_valid:
  assumes "validateNetworkPorts parse_ip first_port last_port input = Inr ports"
    and "1 \<le> first_port" and "last_port \<le> 65535"
  shows "ports \<noteq> [] \<and> length ports \<le> 64 \<and> distinct (map host_key ports) \<and>
    (\<forall>p \<in> set ports. first_port \<le> pq_host_port p \<and> pq_host_port p \<le> last_port \<and> check_port (allocation_row i s p)) \<and>
    length (filter pq_is_primary ports) = 1"
proof -
  from assms(1) have run: "accept_network_ports (accepted_network_port parse_ip first_port last_port) [] input = Inr ports"
    "length (filter pq_is_primary ports) = 1" "input \<noteq> []" "length input \<le> 64"
    by (auto simp: validateNetworkPorts_def one_primary_def dest!: and_then_InrD split: if_splits)
  have "accepted_network_port parse_ip first_port last_port c = Inr p \<Longrightarrow>
      first_port \<le> pq_host_port p \<and> pq_host_port p \<le> last_port \<and> check_port (allocation_row i s p)" for c p
    using assms(2,3) by (auto simp: accepted_network_port_def Let_def check_port_def allocation_row_def split: if_splits)
  from accept_network_ports_valid [where Q = "\<lambda>p. first_port \<le> pq_host_port p \<and> pq_host_port p \<le> last_port \<and>
      check_port (allocation_row i s p)", OF this run(1)] run show ?thesis by auto
qed

text \<open>
  Custom variables satisfy the constraints of their table, but for the length of the name: the
  table allows 128 bytes, the validation any number.
\<close>

lemma accepted_definition_ok:
  assumes "accepted_definition taken s = Inr v" and "length (cv_name v) \<le> 128"
    and utf8: "cv_display_name v \<noteq> [] \<Longrightarrow> 1 \<le> char_length (cv_display_name v)"
  shows "cv_name v \<notin> set taken \<and> check_variable_definition (definition_row server i v)"
proof -
  from assms(1) have v: "cv_field_type v \<in> {''text'', ''number'', ''boolean'', ''password'', ''select''}"
    "environment_name (cv_name v)" "cv_name v \<notin> set taken" "cv_display_name v \<noteq> []"
    "length (cv_display_name v) \<le> 120" "length (cv_description v) \<le> 1000"
    "length (cv_default_value v) \<le> 65536" "length (cv_rules v) \<le> 1000"
    unfolding accepted_definition_def Let_def by (simp_all split: if_split_asm) auto
  have "char_length x \<le> n" if "length x \<le> n" for x n using char_length_le [of x] that by simp
  moreover have "char_length [] = 0" by (simp add: char_length_def)
  ultimately show ?thesis
    using v assms(2) utf8 by (simp add: check_variable_definition_def definition_row_def)
qed

end
