(* ===== verification/Request_Handlers.thy ===== *)
theory Request_Handlers
  imports Runtime_Handlers Request_Validation
begin

text \<open>
  The handlers of \<open>internal/httpapi/configuration_handlers.go\<close> and \<open>server_handlers.go\<close> that change a
  server, as actions on the database and the engine.  \<open>body\<close> is what \<open>decodeJSON\<close> makes of the
  request; the result is the value written as the response, or the error passed to \<open>writeProblem\<close>.
  The environment of the actions is that of the worker's; \<open>handler_config\<close> adds the configured ports,
  \<open>secure.Box.Seal\<close>, and the parsers of the Go library.
\<close>

record handler_config =
  hc_game_port_start :: int
  hc_game_port_end :: int
  hc_seal :: "string \<Rightarrow> string \<Rightarrow> error + string"
  hc_parse_ip :: "string \<Rightarrow> ip option"
  hc_server_name :: "string \<Rightarrow> bool"

definition refuse_if :: "bool \<Rightarrow> error \<Rightarrow> unit action" where
  "refuse_if b e = done_with (if b then Inl e else Inr ())"

definition bad_request :: "error + 'a \<Rightarrow> error + 'a" where
  "bad_request r = (case r of Inl e \<Rightarrow> Inl (join_errors errBadRequest (error_text e)) | Inr x \<Rightarrow> Inr x)"

definition no_error :: "error option \<Rightarrow> error + unit" where
  "no_error r = (case r of None \<Rightarrow> Inr () | Some e \<Rightarrow> Inl e)"

section \<open>Changing the configuration of a server\<close>

text \<open>The checks every change makes against the configuration it has loaded.\<close>

definition check_editable :: "string \<Rightarrow> int \<Rightarrow> server_configuration \<Rightarrow> unit action" where
  "check_editable what version current =
     andThen (refuse_if (co_status current \<noteq> ''stopped'')
       (join_errors ErrConflict (''stop the server before changing '' @ what))) (\<lambda>_.
     refuse_if (version \<noteq> co_version current)
       (join_errors ErrConflict ''server configuration changed; refresh and try again''))"

text \<open>
  The container is rebuilt first; when the change cannot be committed, it is rebuilt from the
  previous configuration (an error of that is logged only).
\<close>

definition rollbackRuntimeConfiguration :: "worker_env \<Rightarrow> uuid \<Rightarrow> reconfigure_request \<Rightarrow> unit action" where
  "rollbackRuntimeConfiguration env serverID previous =
     andThen (attempt (reconfigure env serverID previous)) (\<lambda>_. done_with (Inr ()))"

definition rebuild_and_commit ::
  "worker_env \<Rightarrow> uuid \<Rightarrow> server_configuration \<Rightarrow> server_configuration \<Rightarrow>
   (string \<Rightarrow> time \<Rightarrow> (nat \<Rightarrow> uuid) \<Rightarrow> db stmt) \<Rightarrow> unit action" where
  "rebuild_and_commit env serverID current candidate commit =
     andThen (attempt (reconfigure env serverID (RuntimeRequest candidate))) (\<lambda>r. case r of
       Inl e \<Rightarrow> done_with (Inl (join_errors ErrConflict (error_text e)))
     | Inr containerID \<Rightarrow>
         andThen (attempt (stmt_call env (commit containerID))) (\<lambda>r. case r of
           Inr _ \<Rightarrow> done_with (Inr ())
         | Inl e \<Rightarrow> andThen (rollbackRuntimeConfiguration env serverID (RuntimeRequest current)) (\<lambda>_.
             done_with (Inl e))))"

record update_startup_request =
  us_version :: int
  us_image :: string
  us_startup_override :: string
  us_variables :: "(string \<times> string) list"
  us_variable_definitions :: "variable_definition_request list"

text \<open>The definition of a name: the last one of that name, custom definitions after the others.\<close>

definition editable_definition ::
  "configuration_variable list \<Rightarrow> configuration_variable list \<Rightarrow> string \<Rightarrow> configuration_variable option" where
  "editable_definition existing custom name = find (\<lambda>v. cv_name v = name) (rev (existing @ custom))"

fun validate_changes ::
  "(string \<Rightarrow> configuration_variable option) \<Rightarrow> (string \<times> string) list \<Rightarrow> error + (string \<times> bool) list" where
  "validate_changes definition_of [] = Inr []"
| "validate_changes definition_of ((name, val) # changes) =
     (case definition_of name of
        None \<Rightarrow> Inl (Message (''variable '' @ error_quoted name @ '' is not editable''))
      | Some def \<Rightarrow>
          if \<not> cv_user_editable def then Inl (Message (''variable '' @ error_quoted name @ '' is not editable''))
          else if length val > 65536 then Inl (Message (''variable '' @ error_quoted name @ '' is too long''))
          else (case validateVariableRules name val (cv_rules def) of
              Some e \<Rightarrow> Inl e
            | None \<Rightarrow> (case validate_changes definition_of changes of
                Inl e \<Rightarrow> Inl e | Inr secrets \<Rightarrow> Inr ((name, cv_secret def) # secrets))))"

definition updateServerStartup ::
  "handler_config \<Rightarrow> worker_env \<Rightarrow> string \<Rightarrow> uuid \<Rightarrow> uuid \<Rightarrow> error + update_startup_request \<Rightarrow>
   server_configuration action" where
  "updateServerStartup cfg env role userID serverID body =
     andThen (refuse_if (\<not> privileged role) errForbidden) (\<lambda>_.
     andThen (load_configuration env serverID) (\<lambda>current.
     andThen (done_with (bad_request body)) (\<lambda>input.
     andThen (check_editable ''startup configuration'' (us_version input) current) (\<lambda>_.
     let img = trim_space (us_image input); override = NormalizeStartupOverride (us_startup_override input) in
     andThen (refuse_if (img = [] \<or> length img > 512 \<or> \<not> imageInTemplate (co_images current) img)
       (join_errors errBadRequest ''runtime image is not allowed by this template'')) (\<lambda>_.
     andThen (refuse_if (case override of None \<Rightarrow> False | Some s \<Rightarrow> length s > 32768)
       (join_errors errBadRequest ''startup command is too long'')) (\<lambda>_.
     andThen (done_with (bad_request (validateCustomVariableDefinitions (us_variable_definitions input)
       (co_variables current) (co_ports current)))) (\<lambda>custom.
     andThen (done_with (bad_request (validate_changes (editable_definition (co_variables current) custom)
       (us_variables input)))) (\<lambda>secrets w.
     andThen (rebuild_and_commit env serverID current
       (ApplyStartupCandidate (en_order env (w_step w)) img override (us_variables input) current)
       (\<lambda>containerID now ids. CommitStartupConfiguration (hc_seal cfg) now (ids 0) serverID userID
          (us_version input) img override (us_variables input) secrets custom containerID)) (\<lambda>_.
     load_configuration env serverID) w))))))))"

record update_network_request =
  un_version :: int
  un_ports :: "network_port_request list"

definition updateServerNetwork ::
  "handler_config \<Rightarrow> worker_env \<Rightarrow> string \<Rightarrow> uuid \<Rightarrow> uuid \<Rightarrow> error + update_network_request \<Rightarrow>
   server_configuration action" where
  "updateServerNetwork cfg env role userID serverID body =
     andThen (refuse_if (\<not> privileged role) errForbidden) (\<lambda>_.
     andThen (done_with (bad_request body)) (\<lambda>input.
     andThen (load_configuration env serverID) (\<lambda>current.
     andThen (check_editable ''network allocations'' (un_version input) current) (\<lambda>_.
     andThen (done_with (bad_request (validateNetworkPorts (hc_parse_ip cfg) (hc_game_port_start cfg)
       (hc_game_port_end cfg) (un_ports input)))) (\<lambda>ports.
     andThen (done_with (bad_request (no_error (validateTemplatePortPolicy (co_template_network_ports current) ports)))) (\<lambda>_ w.
     let candidate = ApplyPortsCandidate (en_order env (w_step w)) ports current in
     andThen (rebuild_and_commit env serverID current candidate
       (\<lambda>containerID now ids. CommitServerPorts now (map ids [1 ..< 1 + length ports]) (ids 0) serverID userID
          (un_version input) ports containerID)) (\<lambda>_.
     done_with (Inr (candidate\<lparr>co_version := co_version candidate + 1\<rparr>))) w))))))"

record update_settings_request =
  ug_version :: int
  ug_name :: string
  ug_description :: string
  ug_resources :: resource_request
  ug_cpu_set :: "string option"
  ug_swap_limit_mb :: "int option"

text \<open>
  The resources of the request: the swap and disk limits join after the shared checks, so the disk
  limit is tested by the additional ones only.
\<close>

definition requested_settings :: "update_settings_request \<Rightarrow> error + server_resources" where
  "requested_settings input =
     and_then (requestedResources ((ug_resources input)\<lparr>rq_disk_limit_mb := None\<rparr>)) (\<lambda>r.
       let res = r\<lparr>rs_cpu_set := normalizedCPUSet (ug_cpu_set input),
             rs_swap_limit_bytes := megabytes (ug_swap_limit_mb input),
             rs_disk_limit_bytes := megabytes (rq_disk_limit_mb (ug_resources input))\<rparr> in
       case validateAdditionalResources res of Some e \<Rightarrow> Inl e | None \<Rightarrow> Inr res)"

definition updateServerSettings ::
  "handler_config \<Rightarrow> worker_env \<Rightarrow> string \<Rightarrow> uuid \<Rightarrow> uuid \<Rightarrow> error + update_settings_request \<Rightarrow>
   server_configuration action" where
  "updateServerSettings cfg env role userID serverID body =
     andThen (refuse_if (\<not> privileged role) errForbidden) (\<lambda>_.
     andThen (done_with (bad_request body)) (\<lambda>input.
     let name = trim_space (ug_name input); description = trim_space (ug_description input) in
     andThen (refuse_if (\<not> hc_server_name cfg name \<or> length description > 500)
       (join_errors errBadRequest ''invalid server name or description'')) (\<lambda>_.
     andThen (done_with (bad_request (requested_settings input))) (\<lambda>res.
     andThen (load_configuration env serverID) (\<lambda>current.
     andThen (check_editable ''settings or resource limits'' (ug_version input) current) (\<lambda>_ w.
     let candidate = ApplySettingsCandidate (en_order env (w_step w)) name description res current in
     andThen (rebuild_and_commit env serverID current candidate
       (\<lambda>containerID now ids. CommitServerSettings now (ids 0) serverID userID (ug_version input) name
          description res containerID)) (\<lambda>_.
     done_with (Inr (candidate\<lparr>co_version := co_version candidate + 1\<rparr>))) w))))))"

section \<open>Power, console and deletion\<close>

text \<open>The immediate power actions: no event is queued, the engine is called by the handler itself.\<close>

definition power_permission :: "string \<Rightarrow> uuid \<Rightarrow> uuid \<Rightarrow> string \<Rightarrow> worker_env \<Rightarrow> unit action" where
  "power_permission role userID serverID action env =
     (if privileged role then done_with (Inr ())
      else andThen (query_call env (\<lambda>now d. Inr (UserHasServerPermission userID serverID (''server.power.'' @ action) d))) (\<lambda>allowed.
        refuse_if (\<not> allowed) errForbidden))"

definition serverPower :: "worker_env \<Rightarrow> string \<Rightarrow> uuid \<Rightarrow> uuid \<Rightarrow> error + string \<Rightarrow> string action" where
  "serverPower env role userID serverID body =
     andThen (refuse_if (\<not> canOperate role) errForbidden) (\<lambda>_.
     andThen (done_with (bad_request body)) (\<lambda>action.
     andThen (refuse_if (action \<notin> {''start'', ''stop'', ''restart'', ''kill''})
       (join_errors errBadRequest ''invalid power action'')) (\<lambda>_.
     andThen (power_permission role userID serverID action env) (\<lambda>_.
     andThen (query_call env (\<lambda>now. ServerExists serverID)) (\<lambda>_.
     andThen (op_call env (\<lambda>now ids. RequestImmediatePower now (ids 0) (ids 1) (ids 2) serverID userID action)) (\<lambda>operationID.
     andThen (attempt (call_engine env (EPower serverID action))) (\<lambda>powerErr.
     andThen (stmt_call env (\<lambda>now ids. FinishPower now serverID operationID action (as_error powerErr))) (\<lambda>_.
     done_with (case powerErr of Inl e \<Rightarrow> Inl e | Inr _ \<Rightarrow> Inr operationID)))))))))"

definition forbidden_in_command :: "char \<Rightarrow> bool" where
  "forbidden_in_command c \<longleftrightarrow> c = CHR 0x00 \<or> c = CHR 0x0D \<or> c = CHR 0x0A"

text \<open>A console command; \<open>exists\<close> stands for \<open>ServerByID\<close>, of which only its error matters here.\<close>

definition serverCommand :: "worker_env \<Rightarrow> string \<Rightarrow> uuid \<Rightarrow> uuid \<Rightarrow> error + string \<Rightarrow> unit action" where
  "serverCommand env role userID serverID body =
     andThen (refuse_if (\<not> canOperate role) errForbidden) (\<lambda>_.
     andThen (query_call env (\<lambda>now. ServerExists serverID)) (\<lambda>_.
     andThen (done_with (bad_request body)) (\<lambda>text.
     let command = trim_space text in
     andThen (refuse_if (command = [] \<or> length command > 2048 \<or> (\<exists>c \<in> set command. forbidden_in_command c))
       (join_errors errBadRequest ''command must be one line and at most 2048 bytes'')) (\<lambda>_.
     andThen (query_call env (\<lambda>now. ServerCommandReady serverID)) (\<lambda>ready.
     andThen (refuse_if (\<not> ready) (join_errors ErrConflict
       ''the game server command transport is still starting; wait for console commands to become ready'')) (\<lambda>_.
     andThen (op_call env (\<lambda>now ids. MarkConsoleRestartIntent now (ids 0) serverID userID command)) (\<lambda>restartRequested.
     andThen (attempt (call_engine env (ECommand serverID command))) (\<lambda>r. case r of
       Inl e \<Rightarrow>
         andThen (if restartRequested
                  then attempt (stmt_call env (\<lambda>now ids. CancelConsoleRestartIntent now (ids 0) serverID userID))
                  else done_with (Inr (Inr ()))) (\<lambda>_. done_with (Inl e))
     | Inr _ \<Rightarrow>
         andThen (attempt (stmt_call env (\<lambda>now ids. RecordConsoleCommand now (ids 0) serverID userID (length command)))) (\<lambda>_.
         done_with (Inr ()))))))))))"

definition server_name_of :: "uuid \<Rightarrow> db \<Rightarrow> error + string" where
  "server_name_of serverID d =
     (case find (live serverID) (servers d) of None \<Rightarrow> Inl ErrNotFound | Some s \<Rightarrow> Inr (sv_name s))"

definition deleteServer :: "worker_env \<Rightarrow> string \<Rightarrow> uuid \<Rightarrow> uuid \<Rightarrow> error + string \<Rightarrow> unit action" where
  "deleteServer env role userID serverID body =
     andThen (refuse_if (\<not> privileged role) errForbidden) (\<lambda>_.
     andThen (query_call env (\<lambda>now. server_name_of serverID)) (\<lambda>name.
     andThen (done_with (bad_request body)) (\<lambda>confirm.
     andThen (refuse_if (confirm \<noteq> name) (join_errors errBadRequest ''confirmation name does not match'')) (\<lambda>_.
     andThen (attempt (call_engine env (EDelete serverID))) (\<lambda>r. case r of
       Inl e \<Rightarrow> done_with (Inl (join_errors ErrConflict (error_text e)))
     | Inr _ \<Rightarrow> store_call env (\<lambda>now ids d. case FinalizeServerDeletion now (ids 0) serverID userID d of
         (Some e, d') \<Rightarrow> (Inl e, d') | (None, d') \<Rightarrow> (Inr (), d')))))))"

end
