(* ===== verification/Request_Properties.thy ===== *)
theory Request_Properties
  imports Request_Handlers Panel_Properties Maintenance_Properties Configuration_Properties
begin

text \<open>
  A change of a server's configuration touches two systems, the database and the engine: whatever
  fails, they are left agreeing, or the handler has asked the engine for the previous container.
\<close>

section \<open>The changes that are asked for\<close>

text \<open>
  The change a request asks for: from the stored configuration and the body it gives the candidate
  the container is rebuilt from, and the statement that commits it with the identifier of the new
  container.
\<close>

type_synonym change = "server_configuration \<Rightarrow> server_configuration \<Rightarrow> (string \<Rightarrow> db stmt) \<Rightarrow> bool"

definition editable_now :: "int \<Rightarrow> server_configuration \<Rightarrow> bool" where
  "editable_now version current \<longleftrightarrow> co_status current = ''stopped'' \<and> co_version current = version"

definition startup_change ::
  "handler_config \<Rightarrow> uuid \<Rightarrow> uuid \<Rightarrow> error + update_startup_request \<Rightarrow> change" where
  "startup_change cfg user s body current candidate commit \<longleftrightarrow>
     (\<exists>input img override custom secrets order now ev. body = Inr input \<and> editable_now (us_version input) current \<and>
        img = trim_space (us_image input) \<and> imageInTemplate (co_images current) img \<and>
        override = NormalizeStartupOverride (us_startup_override input) \<and>
        validateCustomVariableDefinitions (us_variable_definitions input) (co_variables current) (co_ports current) = Inr custom \<and>
        validate_changes (editable_definition (co_variables current) custom) (us_variables input) = Inr secrets \<and>
        candidate = ApplyStartupCandidate order img override (us_variables input) current \<and>
        commit = CommitStartupConfiguration (hc_seal cfg) now ev s user (us_version input) img override
          (us_variables input) secrets custom)"

definition network_change ::
  "handler_config \<Rightarrow> uuid \<Rightarrow> uuid \<Rightarrow> error + update_network_request \<Rightarrow> change" where
  "network_change cfg user s body current candidate commit \<longleftrightarrow>
     (\<exists>input ports order now ids ev. body = Inr input \<and> editable_now (un_version input) current \<and>
        validateNetworkPorts (hc_parse_ip cfg) (hc_game_port_start cfg) (hc_game_port_end cfg) (un_ports input) = Inr ports \<and>
        validateTemplatePortPolicy (co_template_network_ports current) ports = None \<and>
        candidate = ApplyPortsCandidate order ports current \<and>
        commit = CommitServerPorts now ids ev s user (un_version input) ports)"

definition settings_change :: "uuid \<Rightarrow> uuid \<Rightarrow> error + update_settings_request \<Rightarrow> change" where
  "settings_change user s body current candidate commit \<longleftrightarrow>
     (\<exists>input name description res order now ev. body = Inr input \<and> editable_now (ug_version input) current \<and>
        name = trim_space (ug_name input) \<and> description = trim_space (ug_description input) \<and>
        requested_settings input = Inr res \<and>
        candidate = ApplySettingsCandidate order name description res current \<and>
        commit = CommitServerSettings now ev s user (ug_version input) name description res)"

section \<open>Outcomes\<close>

text \<open>
  The possible outcomes of a change \<open>asked\<close> for, given the database and the trace before: refused;
  or the engine is asked for the candidate's container, and it refuses, or the change is committed
  with the new container, or the commit fails and the engine is asked for the stored
  configuration's container.
\<close>

definition atomic_change ::
  "worker_env \<Rightarrow> uuid \<Rightarrow> db \<Rightarrow> engine_call list \<Rightarrow> change \<Rightarrow> (error + 'a) \<times> world \<Rightarrow> bool" where
  "atomic_change env s d calls asked out \<longleftrightarrow> (case out of (r, w') \<Rightarrow>
     (isl r \<and> w_db w' = d \<and> w_calls w' = calls) \<or>
     (\<exists>order current candidate commit. ServerConfiguration order (en_open env) s d = Inr current \<and>
        asked current candidate commit \<and>
        (let rebuilt = calls @ [EReconfigure s (RuntimeRequest candidate)] in
         case en_engine env rebuilt of
           Some e \<Rightarrow> isl r \<and> w_db w' = d \<and> w_calls w' = rebuilt
         | None \<Rightarrow>
             (commit (pr_container_id (en_provision env rebuilt)) d = Inr (w_db w') \<and> w_calls w' = rebuilt) \<or>
             (isl r \<and> w_db w' = d \<and> w_calls w' = rebuilt @ [EReconfigure s (RuntimeRequest current)]))))"

definition still :: "'a action \<Rightarrow> bool" where
  "still m \<longleftrightarrow> (\<forall>w. w_db (snd (m w)) = w_db w \<and> w_calls (snd (m w)) = w_calls w)"

lemma still_rules: "still (done_with r)" "still (load_configuration env s)"
  by (auto simp: still_def done_with_def query_call_def store_call_def load_configuration_def
      split: option.split)

lemma atomic_then:
  assumes "atomic_change env s d calls asked (m w)" and "\<And>x. still (k x)"
  shows "atomic_change env s d calls asked (andThen m k w)"
proof -
  obtain r w1 where m: "m w = (r, w1)" by fastforce
  show ?thesis
  proof (cases r)
    case (Inl e)
    then show ?thesis using assms(1) m
      by (simp add: andThen_def atomic_change_def Let_def cong: option.case_cong)
  next
    case (Inr x)
    obtain r2 w2 where k: "k x w1 = (r2, w2)" by fastforce
    with assms(2) have "w_db w2 = w_db w1" "w_calls w2 = w_calls w1" by (metis snd_conv still_def)+
    with assms(1) m Inr k show ?thesis
      by (fastforce simp: andThen_def atomic_change_def Let_def split: option.splits)
  qed
qed

text \<open>The steps before the container is rebuilt leave the world as it is or fail.\<close>

lemma atomic_refuse:
  assumes "w_db w = d" "w_calls w = calls" and "\<not> b \<Longrightarrow> atomic_change env s d calls asked (k () w)"
  shows "atomic_change env s d calls asked (andThen (refuse_if b e) k w)"
  using assms by (cases b) (simp_all add: refuse_if_def andThen_def done_with_def atomic_change_def)

lemma atomic_given:
  assumes "w_db w = d" "w_calls w = calls" and "\<And>x. r = Inr x \<Longrightarrow> atomic_change env s d calls asked (k x w)"
  shows "atomic_change env s d calls asked (andThen (done_with (bad_request r)) k w)"
  using assms by (cases r) (simp_all add: bad_request_def andThen_def done_with_def atomic_change_def)

lemma atomic_editable:
  assumes "w_db w = d" "w_calls w = calls" and "editable_now v c \<Longrightarrow> atomic_change env s d calls asked (k () w)"
  shows "atomic_change env s d calls asked (andThen (check_editable what v c) k w)"
  using assms
  by (cases "co_status c = ''stopped''"; cases "co_version c = v")
    (simp_all add: check_editable_def editable_now_def refuse_if_def andThen_def done_with_def atomic_change_def)

lemma atomic_load:
  assumes "w_db w = d" and "w_calls w = calls"
    and "\<And>c w1. \<exists>order. ServerConfiguration order (en_open env) s d = Inr c \<Longrightarrow> w_db w1 = d \<Longrightarrow> w_calls w1 = calls \<Longrightarrow>
      atomic_change env s d calls asked (k c w1)"
  shows "atomic_change env s d calls asked (andThen (load_configuration env s) k w)"
proof -
  obtain r w1 where m: "load_configuration env s w = (r, w1)" by fastforce
  with assms(1,2) still_rules(2) have w1: "w_db w1 = d" "w_calls w1 = calls" by (metis snd_conv still_def)+
  show ?thesis
  proof (cases r)
    case (Inl e)
    then show ?thesis using m w1 by (simp add: andThen_def atomic_change_def)
  next
    case (Inr c)
    with m assms(1) have "\<exists>order. ServerConfiguration order (en_open env) s d = Inr c"
      by (auto simp: load_configuration_def query_call_def store_call_def split: option.splits)
    with assms(3) [OF this w1] m Inr show ?thesis by (simp add: andThen_def)
  qed
qed

lemma rebuild_atomic:
  assumes previous: "\<exists>order. ServerConfiguration order (en_open env) s (w_db w) = Inr current"
    and asked: "\<And>now ids. asked current candidate (\<lambda>c. commit c now ids)"
  shows "atomic_change env s (w_db w) (w_calls w) asked (rebuild_and_commit env s current candidate commit w)"
proof -
  let ?w1 = "w\<lparr>w_calls := w_calls w @ [EReconfigure s (RuntimeRequest candidate)]\<rparr>"
  from previous obtain order where stored: "ServerConfiguration order (en_open env) s (w_db w) = Inr current" by blast
  have outcome: "atomic_change env s (w_db w) (w_calls w) asked (r, w')"
    if "case en_engine env (w_calls ?w1) of
        Some e \<Rightarrow> isl r \<and> w_db w' = w_db w \<and> w_calls w' = w_calls ?w1
      | None \<Rightarrow>
          (commit (pr_container_id (en_provision env (w_calls ?w1))) now ids (w_db w) = Inr (w_db w') \<and> w_calls w' = w_calls ?w1) \<or>
          (isl r \<and> w_db w' = w_db w \<and> w_calls w' = w_calls ?w1 @ [EReconfigure s (RuntimeRequest current)])"
    for r w' now ids
    unfolding atomic_change_def prod.case Let_def
    by (rule disjI2, rule exI [of _ order], rule exI [of _ current], rule exI [of _ candidate],
        rule exI [of _ "\<lambda>c. commit c now ids"])
      (use that stored asked in \<open>simp split: option.splits\<close>)
  show ?thesis
  proof (cases "en_engine env (w_calls ?w1)")
    case (Some e)
    then have "rebuild_and_commit env s current candidate commit w =
        (Inl (join_errors ErrConflict (error_text e)), ?w1)"
      by (simp add: rebuild_and_commit_def reconfigure_def andThen_def attempt_def call_engine_def done_with_def)
    with Some show ?thesis by (simp add: outcome)
  next
    case None
    let ?id = "pr_container_id (en_provision env (w_calls ?w1))"
    let ?out = "stmt_call env (commit ?id) ?w1"
    have run: "rebuild_and_commit env s current candidate commit w = (case ?out of
        (Inr x, w2) \<Rightarrow> (Inr (), w2)
      | (Inl e, w2) \<Rightarrow> (Inl e, w2\<lparr>w_calls := w_calls w2 @ [EReconfigure s (RuntimeRequest current)]\<rparr>))"
      using None
      by (auto simp: rebuild_and_commit_def rollbackRuntimeConfiguration_def reconfigure_def andThen_def
          attempt_def call_engine_def done_with_def Let_def split: prod.split sum.split option.split)
    show ?thesis
    proof (cases "fst ?out")
      case (Inl e)
      then obtain w2 where out: "?out = (Inl e, w2)" by (metis prod.collapse)
      then have "w_db w2 = w_db w" "w_calls w2 = w_calls ?w1"
        by (auto simp: stmt_call_def store_call_def split: option.splits sum.splits)
      then show ?thesis
        unfolding run out prod.case sum.case by (intro outcome) (use None in simp)
    next
      case (Inr x)
      then obtain w2 where out: "?out = (Inr x, w2)" by (metis prod.collapse)
      then have w2: "commit ?id (en_clock env (w_step w)) (en_fresh env (w_step w)) (w_db w) = Inr (w_db w2)"
        "w_calls w2 = w_calls ?w1"
        by (auto simp: stmt_call_def store_call_def split: option.splits sum.splits)
      show ?thesis
        unfolding run out prod.case sum.case
        by (rule outcome [of "en_clock env (w_step w)" "en_fresh env (w_step w)"]) (use None w2 in simp)
    qed
  qed
qed

lemma atomic_rebuild:
  assumes "w_db w = d" and "w_calls w = calls"
    and "\<exists>order. ServerConfiguration order (en_open env) s d = Inr current"
    and "\<And>now ids. asked current candidate (\<lambda>c. commit c now ids)" and "\<And>x. still (k x)"
  shows "atomic_change env s d calls asked (andThen (rebuild_and_commit env s current candidate commit) k w)"
  by (rule atomic_then) (use rebuild_atomic [of env s w current asked candidate commit] assms in auto)

lemmas atomic_rules = atomic_load atomic_rebuild atomic_given atomic_refuse atomic_editable still_rules

text \<open>
  C40: a change of startup, network or settings ends in one of four ways, whatever the request is
  and whatever fails: it is refused and touches nothing; or the engine has been asked to rebuild the
  container from the stored configuration with the requested change, and it has refused, with the
  database unchanged; or exactly the requested change is committed, for the version the request
  names and with the new container; or the commit has failed, the database is unchanged and the
  engine has been asked for the container of the stored configuration again, whatever it answers to
  that.  A change that is not committed is answered with an error.
\<close>

theorem configuration_changes_atomic:
  "atomic_change env s (w_db w) (w_calls w) (startup_change cfg user s b1) (updateServerStartup cfg env role user s b1 w) \<and>
   atomic_change env s (w_db w) (w_calls w) (network_change cfg user s b2) (updateServerNetwork cfg env role user s b2 w) \<and>
   atomic_change env s (w_db w) (w_calls w) (settings_change user s b3) (updateServerSettings cfg env role user s b3 w)"
proof (intro conjI)
  show "atomic_change env s (w_db w) (w_calls w) (startup_change cfg user s b1) (updateServerStartup cfg env role user s b1 w)"
    unfolding updateServerStartup_def Let_def
    by (rule atomic_rules refl | assumption)+ (auto simp: startup_change_def still_rules)
  show "atomic_change env s (w_db w) (w_calls w) (network_change cfg user s b2) (updateServerNetwork cfg env role user s b2 w)"
    unfolding updateServerNetwork_def Let_def
    by (rule atomic_rules refl | assumption)+ (auto simp: network_change_def still_rules no_error_def split: option.splits)
  show "atomic_change env s (w_db w) (w_calls w) (settings_change user s b3) (updateServerSettings cfg env role user s b3 w)"
    unfolding updateServerSettings_def Let_def
    by (rule atomic_rules refl | assumption)+ (auto simp: settings_change_def still_rules)
qed

text \<open>An administrator renames a stopped server.\<close>

definition configured_db :: db where
  "configured_db = installing_db\<lparr>servers := [sample_server ''s1'' ''stopped'' ''stopped'']\<rparr>"

lemma configured_tables [simp]:
  "servers configured_db = [sample_server ''s1'' ''stopped'' ''stopped'']"
  "resources configured_db = [sample_resources]" "template_versions configured_db = [new_version]"
  "server_ports configured_db = server_ports installing_db"
  "server_variables configured_db = server_variables installing_db" "variable_definitions configured_db = []"
  "webhook_destinations configured_db = [sample_destination]" "activity configured_db = []"
  "webhook_deliveries configured_db = []" "users configured_db = users sample_db"
  by (simp_all add: configured_db_def) (simp_all add: installing_db_def)

definition rename_request :: update_settings_request where
  "rename_request = \<lparr> ug_version = 1, ug_name = ''renamed'', ug_description = [],
     ug_resources = \<lparr> rq_cpu_limit_millicores = None, rq_memory_limit_mb = Some 1024,
       rq_memory_reservation_mb = None, rq_disk_limit_mb = None, rq_pids_limit = None, rq_io_weight = None \<rparr>,
     ug_cpu_set = None, ug_swap_limit_mb = None \<rparr>"

definition sample_config :: handler_config where
  "sample_config = \<lparr> hc_game_port_start = 25565, hc_game_port_end = 25600, hc_seal = (\<lambda>v c. Inr v),
     hc_parse_ip = (\<lambda>s. None), hc_server_name = (\<lambda>s. s \<noteq> []) \<rparr>"

definition configured_world :: world where
  "configured_world = \<lparr> w_db = configured_db, w_calls = [], w_step = 0 \<rparr>"

lemma configured_loads:
  "\<exists>c. ServerConfiguration order unseal ''s1'' configured_db = Inr c \<and> co_status c = ''stopped'' \<and> co_version c = 1"
proof -
  have tmpl: "server_template ''s1'' configured_db =
      Some (sample_server ''s1'' ''stopped'' ''stopped'', new_version, sample_resources)"
    by (simp add: server_template_def live_def sample_server_def sample_resources_def new_version_def sample_version_def)
  have custom: "custom_definitions ''s1'' configured_db = []" by (simp add: custom_definitions_def order_by_def)
  have "\<exists>p. load_variables unseal ''s1'' (stored_variable_row ''s1'' configured_db) [] (cn_variables sample_template) env = Inr p" for env
    by (simp add: sample_template_def variable_value_def stored_variable_row_def split: option.split)
  then obtain cvs env where load: "load_variables unseal ''s1'' (stored_variable_row ''s1'' configured_db) []
      (cn_variables sample_template) [(''DOCKSIDE_COMMAND_TRANSPORT'', transport_text sample_template)] = Inr (cvs, env)"
    by (metis surj_pair)
  have fields: "sv_status (sample_server ''s1'' ''stopped'' ''stopped'') = ''stopped''"
    "sv_version (sample_server ''s1'' ''stopped'' ''stopped'') = 1" by (simp_all add: sample_server_def)
  show ?thesis
    by (simp add: ServerConfiguration_def tmpl sample_template_decodes Let_def custom load refreshEffectiveValues_def fields)
qed

lemma rename_committed:
  assumes "check_resources (res\<lparr>rs_server_id := ''s1''\<rparr>)"
  shows "\<exists>d'. CommitServerSettings noon ''id'' ''s1'' ''u1'' 1 ''renamed'' [] res c configured_db = Inr d'"
  using assms
  by (simp add: CommitServerSettings_def update_version_def exec.simps require_def
      affected_def editable_def sample_server_def checked_update_servers_def constrain_def
      check_server_def server_statuses_def checked_update_resources_def addConfigurationActivity_def
      insert_activity_def Let_def activity_row_def check_activity_def server_exists_opt_def server_exists_def
      dockside_enqueue_webhook_deliveries_def webhook_matches_def sample_destination_def)

lemma rename_resources:
  "\<exists>res. requested_settings rename_request = Inr res \<and> check_resources (res\<lparr>rs_server_id := ''s1''\<rparr>)"
  by (simp add: requested_settings_def rename_request_def requestedResources_def Let_def megabytes_def
      wrap64_def outside_def normalizedCPUSet_def validateAdditionalResources_def and_then_def
      check_resources_def positive_or_null_def)

theorem configuration_changes_atomic_witness:
  "\<exists>r w' current candidate commit.
     updateServerSettings sample_config outage_env ''owner'' ''u1'' ''s1'' (Inr rename_request) configured_world = (Inr r, w') \<and>
     settings_change ''u1'' ''s1'' (Inr rename_request) current candidate commit \<and>
     commit ''c'' configured_db = Inr (w_db w') \<and>
     w_calls w' = [EReconfigure ''s1'' (RuntimeRequest candidate)]"
proof -
  obtain c where c: "ServerConfiguration (en_order outage_env 0) (en_open outage_env) ''s1'' configured_db = Inr c"
      "co_status c = ''stopped''" "co_version c = 1"
    using configured_loads by blast
  have ok: "\<exists>x w'. updateServerSettings sample_config outage_env ''owner'' ''u1'' ''s1'' (Inr rename_request) configured_world = (Inr x, w')"
  proof -
    obtain res where res: "requested_settings rename_request = Inr res" "check_resources (res\<lparr>rs_server_id := ''s1''\<rparr>)"
      using rename_resources by blast
    obtain d' where d': "CommitServerSettings noon ''id'' ''s1'' ''u1'' 1 ''renamed'' [] res ''c'' configured_db = Inr d'"
      using rename_committed [OF res(2)] by blast
    have request: "ug_version rename_request = 1" "trim_space (ug_name rename_request) = ''renamed''"
      "trim_space (ug_description rename_request) = []" "hc_server_name sample_config ''renamed''"
      by (simp_all add: rename_request_def sample_config_def trim_space_def trim_left_def is_space_def)
    have env: "en_fault outage_env 0 = None" "en_fault outage_env (Suc 0) = None" "en_engine outage_env calls = None"
      "en_clock outage_env n = noon" "en_fresh outage_env n m = ''id''"
      "pr_container_id (en_provision outage_env calls) = ''c''" for calls n m
      by (simp_all add: outage_env_def)
    show ?thesis
      by (simp add: updateServerSettings_def Let_def andThen_def refuse_if_def done_with_def bad_request_def
          request res(1) load_configuration_def query_call_def store_call_def env c check_editable_def
          configured_world_def rebuild_and_commit_def reconfigure_def attempt_def call_engine_def stmt_call_def d'
          privileged_def)
  qed
  then obtain x w' where run: "updateServerSettings sample_config outage_env ''owner'' ''u1'' ''s1'' (Inr rename_request) configured_world = (Inr x, w')"
    by blast
  have world: "w_db configured_world = configured_db" "w_calls configured_world = []"
    by (simp_all add: configured_world_def)
  have env: "en_engine outage_env calls = None" "pr_container_id (en_provision outage_env calls) = ''c''" for calls
    by (simp_all add: outage_env_def)
  from configuration_changes_atomic [of outage_env "''s1''" configured_world sample_config "''u1''" _ "''owner''" _ "Inr rename_request"]
  have "atomic_change outage_env ''s1'' configured_db [] (settings_change ''u1'' ''s1'' (Inr rename_request)) (Inr x, w')"
    by (simp add: run world)
  then show ?thesis using run by (auto simp: atomic_change_def env Let_def)
qed

end
