(* ===== verification/Paths.thy ===== *)
theory Paths
  imports Prelude
begin

text \<open>
  Slash-separated paths: \<open>path.Clean\<close>, \<open>Base\<close>, \<open>Dir\<close> and \<open>Join\<close> of the Go library, and what it
  means to walk along a path from a directory.  A directory is the list of the names that lead to it.
\<close>

section \<open>Joining and splitting\<close>

fun strings_Join :: "string list \<Rightarrow> string \<Rightarrow> string" where
  "strings_Join [] sep = []"
| "strings_Join [x] sep = x"
| "strings_Join (x # y # ys) sep = x @ sep @ strings_Join (y # ys) sep"

definition trim_suffix :: "string \<Rightarrow> string \<Rightarrow> string" where
  "trim_suffix e s = (if suffix e s then take (length s - length e) s else s)"

abbreviation slash :: char where "slash \<equiv> CHR ''/''"

lemma split_char_append:
  "c \<notin> set x \<Longrightarrow> split_char c (x @ c # s) = x # split_char c s"
  by (induction x) auto

lemma split_char_none: "c \<notin> set x \<Longrightarrow> split_char c x = [x]"
  by (induction x) auto

lemma split_strings_Join:
  assumes "xs \<noteq> []" and "\<And>x. x \<in> set xs \<Longrightarrow> c \<notin> set x"
  shows "split_char c (strings_Join xs [c]) = xs"
  using assms by (induction xs "[c]" rule: strings_Join.induct) (auto simp: split_char_none split_char_append)

lemma split_char_members: "x \<in> set (split_char c s) \<Longrightarrow> c \<notin> set x"
  by (induction c s arbitrary: x rule: split_char.induct) (auto split: list.splits if_splits)

section \<open>Cleaning a path\<close>

text \<open>One component of a path; the names kept so far are in reverse order.\<close>

definition clean_step :: "bool \<Rightarrow> string \<Rightarrow> string list \<Rightarrow> string list" where
  "clean_step rooted seg out =
     (if seg = [] \<or> seg = ''.'' then out
      else if seg = ''..'' then
        (case out of
           x # xs \<Rightarrow> if x \<noteq> ''..'' then xs else if rooted then out else ''..'' # out
         | [] \<Rightarrow> if rooted then [] else [''..''])
      else seg # out)"

definition clean_names :: "bool \<Rightarrow> string list \<Rightarrow> string list" where
  "clean_names rooted segs = rev (fold (clean_step rooted) segs [])"

definition path_Clean :: "string \<Rightarrow> string" where
  "path_Clean p =
     (let rooted = (p \<noteq> [] \<and> hd p = slash);
          body = strings_Join (clean_names rooted (split_char slash p)) [slash] in
      if rooted then slash # body else if body = [] then ''.'' else body)"

definition path_Base :: "string \<Rightarrow> string" where
  "path_Base p =
     (if p = [] then ''.''
      else let stripped = rev (dropWhile (\<lambda>c. c = slash) (rev p)) in
        if stripped = [] then [slash] else last (split_char slash stripped))"

definition path_Dir :: "string \<Rightarrow> string" where
  "path_Dir p = path_Clean (strings_Join (butlast (split_char slash p) @ [[]]) [slash])"

definition path_Join :: "string list \<Rightarrow> string" where
  "path_Join elems =
     (let used = filter (\<lambda>e. e \<noteq> []) elems in
      if used = [] then [] else path_Clean (strings_Join used [slash]))"

section \<open>Walking along a path\<close>

definition walk_step :: "string \<Rightarrow> string list \<Rightarrow> string list" where
  "walk_step seg dir =
     (if seg = [] \<or> seg = ''.'' then dir else if seg = ''..'' then butlast dir else dir @ [seg])"

definition walk :: "string list \<Rightarrow> string list \<Rightarrow> string list" where
  "walk dir segs = fold walk_step segs dir"

lemma walk_simps [simp]: "walk dir [] = dir" "walk dir (s # ss) = walk (walk_step s dir) ss"
  "walk dir (ss @ ts) = walk (walk dir ss) ts"
  by (simp_all add: walk_def)

text \<open>A proper name is neither empty nor one of the two special components.\<close>

definition proper_name :: "string \<Rightarrow> bool" where
  "proper_name s \<longleftrightarrow> s \<noteq> [] \<and> s \<noteq> ''.'' \<and> s \<noteq> ''..'' \<and> slash \<notin> set s"

lemma walk_proper: "\<forall>s \<in> set names. proper_name s \<Longrightarrow> walk dir names = dir @ names"
  by (induction names arbitrary: dir) (auto simp: walk_step_def proper_name_def)

lemma proper_no_slash: "proper_name s \<Longrightarrow> slash \<notin> set s"
  by (simp add: proper_name_def)

lemma split_proper:
  "\<forall>s \<in> set names. proper_name s \<Longrightarrow> names \<noteq> [] \<Longrightarrow> split_char slash (strings_Join names [slash]) = names"
  "\<forall>s \<in> set names. proper_name s \<Longrightarrow> split_char slash (strings_Join (names @ [[]]) [slash]) = names @ [[]]"
  by (rule split_strings_Join; use proper_no_slash in fastforce)+

lemma join_proper_empty: "\<forall>s \<in> set names. proper_name s \<Longrightarrow> strings_Join names [slash] = [] \<longleftrightarrow> names = []"
  using split_proper(1) [of names] by (metis split_char.simps(1) strings_Join.simps(1) proper_name_def list.set_intros(1))

text \<open>A walk never leaves the directory it starts in.\<close>

definition stays_below :: "string list \<Rightarrow> string list \<Rightarrow> bool" where
  "stays_below dir segs \<longleftrightarrow> (\<forall>k \<le> length segs. prefix dir (walk dir (take k segs)))"

text \<open>The names kept while cleaning a relative path: some parents, then proper names.\<close>

definition kept :: "nat \<Rightarrow> string list \<Rightarrow> string list" where
  "kept up names = names @ replicate up ''..''"

lemma clean_step_kept:
  assumes "\<forall>s \<in> set names. proper_name s" and "slash \<notin> set seg"
  shows "clean_step False seg (kept up names) =
    (if seg = [] \<or> seg = ''.'' then kept up names
     else if seg = ''..'' then (if names = [] then kept (Suc up) [] else kept up (tl names))
     else kept up (seg # names))"
  using assms by (cases names; cases up) (auto simp: clean_step_def kept_def proper_name_def)

lemma clean_relative:
  assumes dir: "dir \<noteq> []" and "\<And>s. s \<in> set segs \<Longrightarrow> slash \<notin> set s"
  shows "\<exists>up names. fold (clean_step False) segs [] = kept up names \<and> (\<forall>s \<in> set names. proper_name s) \<and>
    (up = 0 \<longleftrightarrow> stays_below dir segs) \<and> (up = 0 \<longrightarrow> walk dir segs = dir @ rev names)"
  using assms(2)
proof (induction segs rule: rev_induct)
  case Nil
  show ?case by (rule exI [of _ 0], rule exI [of _ "[]"]) (simp add: kept_def stays_below_def)
next
  case (snoc seg segs)
  then obtain up names where IH: "fold (clean_step False) segs [] = kept up names" "\<forall>s \<in> set names. proper_name s"
    "up = 0 \<longleftrightarrow> stays_below dir segs" "up = 0 \<longrightarrow> walk dir segs = dir @ rev names" by auto
  have seg: "slash \<notin> set seg" using snoc.prems by simp
  have below: "stays_below dir (segs @ [seg]) \<longleftrightarrow> stays_below dir segs \<and> prefix dir (walk dir (segs @ [seg]))"
    unfolding stays_below_def by (auto simp: le_Suc_eq)
  have out: "\<not> prefix dir (butlast dir)"
    using dir prefix_length_le [of dir "butlast dir"] by (cases dir rule: rev_cases) auto
  note step = clean_step_kept [OF IH(2) seg, of up]
  consider (stay) "seg = [] \<or> seg = ''.''" | (leave) "seg = ''..''" "names = []" | (up) "seg = ''..''" "names \<noteq> []"
    | (down) "seg \<noteq> []" "seg \<noteq> ''.''" "seg \<noteq> ''..''" by blast
  then show ?case
  proof cases
    case stay
    then show ?thesis using IH below step by (intro exI [of _ up] exI [of _ names]) (auto simp: walk_step_def)
  next
    case leave
    then have "\<not> stays_below dir (segs @ [seg])" using IH out below by (auto simp: walk_step_def)
    then show ?thesis using leave IH step by (intro exI [of _ "Suc up"] exI [of _ "[]"]) auto
  next
    case up
    then obtain n ns where n: "names = n # ns" by (cases names) auto
    have "up = 0 \<longrightarrow> walk dir (segs @ [seg]) = dir @ rev ns" using IH up n by (simp add: walk_step_def butlast_append)
    then show ?thesis
      using up n IH step below by (intro exI [of _ up] exI [of _ ns]) auto
  next
    case down
    have "up = 0 \<longrightarrow> walk dir (segs @ [seg]) = dir @ rev (seg # names)" using IH down by (simp add: walk_step_def)
    moreover have "proper_name seg" using down seg by (simp add: proper_name_def)
    ultimately show ?thesis
      using down IH step below by (intro exI [of _ up] exI [of _ "seg # names"]) auto
  qed
qed

text \<open>
  What cleaning a relative path gives: the names the walk adds to the directory when it stays below
  it, and a path that begins with a parent otherwise.
\<close>

lemma path_Clean_relative:
  assumes p: "p = [] \<or> hd p \<noteq> slash" and dir: "dir \<noteq> []"
  shows "if stays_below dir (split_char slash p)
    then \<exists>names. (\<forall>s \<in> set names. proper_name s) \<and> walk dir (split_char slash p) = dir @ names \<and>
      path_Clean p = (if names = [] then ''.'' else strings_Join names [slash])
    else path_Clean p = ''..'' \<or> prefix ''../'' (path_Clean p)"
proof -
  obtain up names where names: "fold (clean_step False) (split_char slash p) [] = kept up names"
    "\<forall>s \<in> set names. proper_name s" "up = 0 \<longleftrightarrow> stays_below dir (split_char slash p)"
    "up = 0 \<longrightarrow> walk dir (split_char slash p) = dir @ rev names"
    using clean_relative [OF dir, of "split_char slash p"] split_char_members by blast
  have clean: "path_Clean p = (let body = strings_Join (replicate up ''..'' @ rev names) [slash] in if body = [] then ''.'' else body)"
  proof -
    have "\<not> (p \<noteq> [] \<and> hd p = slash)" using p by auto
    moreover have "clean_names False (split_char slash p) = replicate up ''..'' @ rev names"
      by (simp add: clean_names_def names(1) kept_def)
    ultimately show ?thesis by (simp only: path_Clean_def Let_def if_False)
  qed
  show ?thesis
  proof (cases up)
    case 0
    have "\<forall>s \<in> set (rev names). proper_name s" using names(2) by simp
    from join_proper_empty [OF this] have "path_Clean p = (if rev names = [] then ''.'' else strings_Join (rev names) [slash])"
      using clean 0 names(2) by (simp add: Let_def)
    moreover have "walk dir (split_char slash p) = dir @ rev names" "stays_below dir (split_char slash p)"
      "\<forall>s \<in> set (rev names). proper_name s" using names 0 by auto
    ultimately show ?thesis by (subst if_P) (assumption, blast)
  next
    case (Suc n)
    have "strings_Join (''..'' # xs) [slash] = ''..'' \<or> prefix ''../'' (strings_Join (''..'' # xs) [slash])" for xs
      by (cases xs) auto
    from this [of "replicate n ''..'' @ rev names"] show ?thesis
      using clean Suc names(3) by (auto simp: Let_def)
  qed
qed

text \<open>The base name of a cleaned path is its last name, its directory the path without it.\<close>

lemma strings_Join_snoc: "xs \<noteq> [] \<Longrightarrow> strings_Join (xs @ [x]) sep = strings_Join xs sep @ sep @ x"
  by (induction xs sep rule: strings_Join.induct) auto

lemma path_Base_names:
  assumes "\<forall>s \<in> set names. proper_name s" and "names \<noteq> []"
  shows "path_Base (strings_Join names [slash]) = last names"
proof -
  obtain ns n where n: "names = ns @ [n]" using assms(2) by (cases names rule: rev_cases) auto
  from assms(1) have "proper_name n" by (simp add: n)
  then have last: "n \<noteq> []" "slash \<notin> set n" "last n \<noteq> slash"
    using last_in_set [of n] by (simp add: proper_name_def, simp add: proper_name_def, metis proper_name_def)
  have join: "strings_Join names [slash] = (if ns = [] then n else strings_Join ns [slash] @ slash # n)"
    unfolding n by (simp add: strings_Join_snoc)
  from last have end_: "strings_Join names [slash] \<noteq> []" "last (strings_Join names [slash]) \<noteq> slash"
    unfolding join by (cases "ns = []"; simp)+
  then have "dropWhile (\<lambda>c. c = slash) (rev (strings_Join names [slash])) = rev (strings_Join names [slash])"
    by (simp add: dropWhile_eq_self_iff hd_rev)
  moreover note split_proper(1) [OF assms]
  ultimately show ?thesis using end_ by (simp add: path_Base_def Let_def)
qed

section \<open>The last name of a path\<close>

lemma split_char_last: "c \<notin> set n \<Longrightarrow> split_char c (s @ c # n) = split_char c s @ [n]"
proof (induction s)
  case Nil
  then show ?case by (simp add: split_char_none)
next
  case (Cons a s)
  then show ?case by (cases "split_char c s") (auto split: list.split)
qed

lemma suffix_strings_Join: "suffix n (strings_Join (xs @ [n]) sep)"
  by (induction xs sep rule: strings_Join.induct) (auto simp: suffix_def)

text \<open>Cleaning keeps a proper last name.\<close>

lemma path_Clean_suffix:
  assumes "proper_name n" shows "suffix n (path_Clean (s @ slash # n))"
proof -
  have "clean_step r n out = n # out" for r out
    using assms by (simp add: clean_step_def proper_name_def)
  then have names: "\<exists>out. clean_names r (split_char slash (s @ slash # n)) = out @ [n]" for r
    by (simp add: clean_names_def split_char_last [OF proper_no_slash [OF assms]])
  have "strings_Join (out @ [n]) [slash] \<noteq> []" for out
    using suffix_strings_Join [of n out "[slash]"] assms by (auto simp: proper_name_def)
  with names [of True] names [of False] show ?thesis
    by (auto simp: path_Clean_def Let_def suffix_strings_Join suffix_ConsI)
qed

lemma path_Join_suffix:
  assumes "proper_name n" shows "suffix n (path_Join (elems @ [n]))"
proof (cases "filter (\<lambda>e. e \<noteq> []) elems")
  case Nil
  with assms have "path_Join (elems @ [n]) = path_Clean n"
    by (simp add: path_Join_def proper_name_def)
  moreover have "path_Clean n = n"
  proof -
    have "split_char slash n = [n]" "hd n \<noteq> slash"
      using assms proper_no_slash [OF assms] by (cases n; auto simp: split_char_none proper_name_def)+
    then show ?thesis using assms by (simp add: path_Clean_def clean_names_def clean_step_def proper_name_def)
  qed
  ultimately show ?thesis by simp
next
  case (Cons e es)
  with assms have "path_Join (elems @ [n]) = path_Clean (strings_Join (e # es) [slash] @ slash # n)"
    using strings_Join_snoc [of "e # es" n "[slash]"]
    by (simp add: path_Join_def proper_name_def del: strings_Join.simps)
  then show ?thesis using path_Clean_suffix [OF assms] by simp
qed

text \<open>A file of a directory whose own name is proper.\<close>

lemma clean_names_snoc:
  assumes "proper_name n" shows "clean_names r (split_char slash (s @ slash # n)) = clean_names r (split_char slash s) @ [n]"
proof -
  have "clean_step r n out = n # out" for out
    using assms by (simp add: clean_step_def proper_name_def)
  then show ?thesis by (simp add: clean_names_def split_char_last [OF proper_no_slash [OF assms]])
qed

lemma path_Clean_snoc:
  assumes "proper_name n" and "proper_name m" and "s = [] \<or> (\<exists>t. s = t @ [slash])"
  shows "path_Clean (s @ m @ slash # n) = path_Clean (s @ m) @ slash # n"
proof -
  have single: "clean_names r (split_char slash m) = [m]" for r
    using assms(2) proper_no_slash [OF assms(2)]
    by (simp add: split_char_none clean_names_def clean_step_def proper_name_def)
  have names: "\<exists>out. clean_names r (split_char slash (s @ m)) = out @ [m]" for r
    using assms(3)
  proof
    assume "s = []"
    then show ?thesis by (simp add: single)
  next
    assume "\<exists>t. s = t @ [slash]"
    then obtain t where "s @ m = t @ slash # m" by auto
    then show ?thesis by (simp add: clean_names_snoc [OF assms(2)])
  qed
  have body: "strings_Join (clean_names r (split_char slash (s @ m @ slash # n))) [slash] =
      strings_Join (clean_names r (split_char slash (s @ m))) [slash] @ slash # n" for r
  proof -
    obtain out where out: "clean_names r (split_char slash (s @ m)) = out @ [m]" using names by blast
    moreover have "clean_names r (split_char slash (s @ m @ slash # n)) = (out @ [m]) @ [n]"
      using clean_names_snoc [OF assms(1), of r "s @ m"] out by simp
    ultimately show ?thesis using strings_Join_snoc [of "out @ [m]" n "[slash]"] by (simp del: append_assoc)
  qed
  have "strings_Join (out @ [m]) [slash] \<noteq> []" for out
    using suffix_strings_Join [of m out "[slash]"] assms(2) by (auto simp: proper_name_def)
  then have "strings_Join (clean_names r (split_char slash (s @ m))) [slash] \<noteq> []" for r using names [of r] by auto
  moreover have "s @ m \<noteq> []" "hd (s @ m @ slash # n) = hd (s @ m)"
    using assms(2) by (auto simp: proper_name_def hd_append)
  ultimately show ?thesis by (simp add: path_Clean_def Let_def body)
qed

lemma path_Join_file:
  assumes "proper_name m" and "proper_name n"
  shows "path_Join [d, m, n] = path_Join [d, m] @ slash # n"
proof -
  have "m \<noteq> []" "n \<noteq> []" using assms by (simp_all add: proper_name_def)
  then show ?thesis
    using path_Clean_snoc [OF assms(2,1), of "[]"] path_Clean_snoc [OF assms(2,1), of "d @ [slash]"]
    by (simp add: path_Join_def)
qed

end
