(* ===== verification/Engine_Calls.thy ===== *)
theory Engine_Calls
  imports Paths
begin

text \<open>
  The engine (\<open>internal/engine\<close>) drives Docker.  Docker is not part of the program: an operation of
  the engine is a function of the calls made so far, which returns a result and the longer list of
  calls, and what Docker answers to the last call of a list is a parameter, the record \<open>docker\<close>.
  An operation ends at the first error it does not handle, as the Go code returns it.
\<close>

section \<open>Operations\<close>

type_synonym ('c, 'e, 'a) operation_on = "'c list \<Rightarrow> ('e + 'a) \<times> 'c list"

definition give :: "'e + 'a \<Rightarrow> ('c, 'e, 'a) operation_on" where
  "give r calls = (r, calls)"

definition bind_op ::
  "('c, 'e, 'a) operation_on \<Rightarrow> ('a \<Rightarrow> ('c, 'e, 'b) operation_on) \<Rightarrow> ('c, 'e, 'b) operation_on" where
  "bind_op m k calls = (case m calls of (Inl e, calls') \<Rightarrow> (Inl e, calls') | (Inr x, calls') \<Rightarrow> k x calls')"

text \<open>The result with its error as a value, and an operation whose error is written in another way.\<close>

definition outcome :: "('c, 'e, 'a) operation_on \<Rightarrow> ('c, 'f, 'e + 'a) operation_on" where
  "outcome m calls = (case m calls of (r, calls') \<Rightarrow> (Inr r, calls'))"

definition on_error :: "('e \<Rightarrow> 'f) \<Rightarrow> ('c, 'e, 'a) operation_on \<Rightarrow> ('c, 'f, 'a) operation_on" where
  "on_error f m calls = (case m calls of (Inl e, calls') \<Rightarrow> (Inl (f e), calls') | (Inr x, calls') \<Rightarrow> (Inr x, calls'))"

text \<open>A deferred operation: it runs whatever the result is, and its own result is dropped.\<close>

definition deferred ::
  "('c, 'e, 'a) operation_on \<Rightarrow> ('e + 'a \<Rightarrow> ('c, 'f, 'b) operation_on) \<Rightarrow> ('c, 'e, 'a) operation_on" where
  "deferred m cleanup calls = (case m calls of (r, calls') \<Rightarrow> (r, snd (cleanup r calls')))"

definition when_op :: "bool \<Rightarrow> ('c, 'e, unit) operation_on \<Rightarrow> ('c, 'e, unit) operation_on" where
  "when_op b m = (if b then m else give (Inr ()))"

text \<open>\<open>fmt.Errorf("text: %w", err)\<close>\<close>

abbreviation failing :: "string \<Rightarrow> ('c, error, 'a) operation_on \<Rightarrow> ('c, error, 'a) operation_on" where
  "failing text \<equiv> on_error (\<lambda>e. Wrap text e [])"

fun each_op :: "('a \<Rightarrow> ('c, 'e, unit) operation_on) \<Rightarrow> 'a list \<Rightarrow> ('c, 'e, unit) operation_on" where
  "each_op f [] = give (Inr ())"
| "each_op f (x # xs) = bind_op (f x) (\<lambda>_. each_op f xs)"

lemma bind_op_Inr: "bind_op m k calls = (Inr y, calls'') \<longleftrightarrow>
    (\<exists>x calls'. m calls = (Inr x, calls') \<and> k x calls' = (Inr y, calls''))"
  by (auto simp: bind_op_def split: prod.splits sum.splits)

section \<open>What an operation may call\<close>

text \<open>The calls an operation adds satisfy \<open>P\<close>, whatever the answers.\<close>

definition only_calls :: "('c \<Rightarrow> bool) \<Rightarrow> ('c, 'e, 'a) operation_on \<Rightarrow> bool" where
  "only_calls P m \<longleftrightarrow> (\<forall>calls. \<exists>new. snd (m calls) = calls @ new \<and> (\<forall>c \<in> set new. P c))"

named_theorems only_calls_intros "operations that make allowed calls only"

lemma only_callsD:
  "only_calls P m \<Longrightarrow> m calls = (r, calls') \<Longrightarrow> \<exists>new. calls' = calls @ new \<and> (\<forall>c \<in> set new. P c)"
  unfolding only_calls_def by (metis snd_conv)

lemma only_calls_give [only_calls_intros]: "only_calls P (give r)"
  by (simp add: only_calls_def give_def)

lemma only_calls_bind [only_calls_intros]:
  assumes "only_calls P m" and "\<And>x. only_calls P (k x)"
  shows "only_calls P (bind_op m k)"
  unfolding only_calls_def
proof
  fix calls
  obtain r calls1 where m: "m calls = (r, calls1)" by fastforce
  from only_callsD [OF assms(1) m] obtain new where new: "calls1 = calls @ new" "\<forall>c \<in> set new. P c" by blast
  show "\<exists>new. snd (bind_op m k calls) = calls @ new \<and> (\<forall>c \<in> set new. P c)"
  proof (cases r)
    case (Inl e)
    then show ?thesis using m new by (simp add: bind_op_def)
  next
    case (Inr x)
    obtain r2 calls2 where k: "k x calls1 = (r2, calls2)" by fastforce
    from only_callsD [OF assms(2) k] obtain new' where "calls2 = calls1 @ new'" "\<forall>c \<in> set new'. P c" by blast
    then show ?thesis using m new k Inr by (intro exI [of _ "new @ new'"]) (auto simp: bind_op_def)
  qed
qed

lemma only_calls_outcome [only_calls_intros]: "only_calls P m \<Longrightarrow> only_calls P (outcome m)"
  by (simp add: only_calls_def outcome_def case_prod_unfold)

lemma only_calls_on_error [only_calls_intros]: "only_calls P m \<Longrightarrow> only_calls P (on_error f m)"
  by (auto simp: only_calls_def on_error_def split: prod.split sum.split) (metis snd_conv)+

lemma only_calls_deferred [only_calls_intros]:
  assumes "only_calls P m" and "\<And>r. only_calls P (cleanup r)"
  shows "only_calls P (deferred m cleanup)"
  unfolding only_calls_def
proof
  fix calls
  obtain r calls1 where m: "m calls = (r, calls1)" by fastforce
  obtain r2 calls2 where c: "cleanup r calls1 = (r2, calls2)" by fastforce
  from only_callsD [OF assms(1) m] only_callsD [OF assms(2) c]
  show "\<exists>new. snd (deferred m cleanup calls) = calls @ new \<and> (\<forall>c \<in> set new. P c)"
    using m c by (auto simp: deferred_def intro: exI [of _ "_ @ _"])
qed

lemma only_calls_when [only_calls_intros]: "(b \<Longrightarrow> only_calls P m) \<Longrightarrow> only_calls P (when_op b m)"
  by (simp add: when_op_def only_calls_give)

lemma only_calls_each [only_calls_intros]:
  "(\<And>x. x \<in> set xs \<Longrightarrow> only_calls P (f x)) \<Longrightarrow> only_calls P (each_op f xs)"
  by (induction xs) (auto intro: only_calls_intros)

lemma only_calls_if [only_calls_intros]:
  "(b \<Longrightarrow> only_calls P m) \<Longrightarrow> (\<not> b \<Longrightarrow> only_calls P n) \<Longrightarrow> only_calls P (if b then m else n)"
  by simp

lemma only_calls_option [only_calls_intros]:
  "(x = None \<Longrightarrow> only_calls P m) \<Longrightarrow> (\<And>y. x = Some y \<Longrightarrow> only_calls P (n y)) \<Longrightarrow>
    only_calls P (case x of None \<Rightarrow> m | Some y \<Rightarrow> n y)"
  by (cases x) auto

lemma only_calls_sum [only_calls_intros]:
  "(\<And>e. x = Inl e \<Longrightarrow> only_calls P (m e)) \<Longrightarrow> (\<And>y. x = Inr y \<Longrightarrow> only_calls P (n y)) \<Longrightarrow>
    only_calls P (case x of Inl e \<Rightarrow> m e | Inr y \<Rightarrow> n y)"
  by (cases x) auto

lemma only_calls_prod [only_calls_intros]:
  "(\<And>a b. x = (a, b) \<Longrightarrow> only_calls P (m a b)) \<Longrightarrow> only_calls P (case x of (a, b) \<Rightarrow> m a b)"
  by (cases x) auto

section \<open>Docker\<close>

type_synonym labels = "(string \<times> string) list"

record mount_spec =
  mo_type :: string
  mo_source :: string
  mo_target :: string
  mo_read_only :: bool
  mo_no_copy :: bool

record port_binding =
  pb_container :: "int \<times> string"
  pb_host_ip :: string
  pb_host_port :: int

text \<open>\<open>container.Resources\<close>; absent limits are zero, as in Go.\<close>

record container_resources =
  cr_nano_cpus :: int
  cr_cpuset :: string
  cr_memory :: int
  cr_memory_reservation :: int
  cr_memory_swap :: int
  cr_pids_limit :: "int option"
  cr_blkio_weight :: int

record container_spec =
  cx_name :: string
  cx_image :: string
  cx_user :: string
  cx_entrypoint :: "string list"
  cx_cmd :: "string list"
  cx_env :: "string list"
  cx_working_dir :: string
  cx_labels :: labels
  cx_open_stdin :: bool
  cx_network :: string
  cx_exposed :: "(int \<times> string) list"
  cx_bindings :: "port_binding list"
  cx_resources :: container_resources
  cx_mounts :: "mount_spec list"
  cx_cap_drop :: "string list"
  cx_cap_add :: "string list"
  cx_security_opt :: "string list"
  cx_readonly_rootfs :: bool
  cx_restart_policy :: string

definition no_limits :: container_resources where
  "no_limits = \<lparr> cr_nano_cpus = 0, cr_cpuset = [], cr_memory = 0, cr_memory_reservation = 0, cr_memory_swap = 0,
     cr_pids_limit = None, cr_blkio_weight = 0 \<rparr>"

text \<open>A file sent to a container as a tar archive of one entry, and what an entry of an archive says.\<close>

record file_entry =
  fe_name :: string
  fe_uid :: int
  fe_gid :: int
  fe_size :: int

record tar_header =
  th_name :: string
  th_link :: string
  th_size :: int

datatype docker_call =
    ContainerList labels
  | ContainerInspect string
  | ContainerCreate container_spec
  | ContainerStart string
  | ContainerStop string int
  | ContainerRestart string int
  | ContainerKill string
  | ContainerWait string
  | ContainerLogs string
  | ContainerRename string string
  | ContainerUpdate string string
  | ContainerRemove string bool
  | ContainerStatPath string string
  | CopyFromContainer string string
  | CopyToContainer string string file_entry
  | CopyArchiveToContainer string string string
  | ImageInspect string
  | ImagePull string
  | VolumeCreate string labels
  | VolumeInspect string
  | VolumeRemove string
  | NetworkCreate string labels
  | NetworkInspect string
  | NetworkRemove string
  | MakeDirectory string
  | CreateTemporary string string
  | WriteArchive string "tar_header list"
  | RenameFile string string
  | OpenFile string
  | OpenCompressed string
  | RemoveFile string
  | RemoveTree string

record published_port =
  pp_public_port :: int
  pp_type :: string

record container_summary =
  cy_id :: string
  cy_names :: "string list"
  cy_labels :: labels
  cy_state :: string
  cy_image :: string
  cy_ports :: "published_port list"

record container_state =
  ct_running :: bool
  ct_restarting :: bool

text \<open>How waiting for a container ends; the last two are a nil error and an ended request context.\<close>

datatype wait_end = Exited int | WaitFailed error | WaitClosed | WaitCancelled error

text \<open>
  The answers to the last call of a list.  \<open>dk_pull\<close> is the decoded stream of a pull: the error text
  of each message, or the error that ends the decoding; \<open>dk_output\<close> is what \<open>stdcopy\<close> makes of a log
  stream, \<open>dk_raw\<close> the stream itself.  \<open>dk_not_found\<close> is \<open>errdefs.IsNotFound\<close>.
\<close>

record docker =
  dk_error :: "docker_call list \<Rightarrow> error option"
  dk_not_found :: "error \<Rightarrow> bool"
  dk_containers :: "docker_call list \<Rightarrow> container_summary list"
  dk_id :: "docker_call list \<Rightarrow> string"
  dk_labels :: "docker_call list \<Rightarrow> labels"
  dk_state :: "docker_call list \<Rightarrow> container_state option"
  dk_wait :: "docker_call list \<Rightarrow> wait_end"
  dk_output :: "docker_call list \<Rightarrow> error + (string \<times> string)"
  dk_raw :: "docker_call list \<Rightarrow> string"
  dk_pull :: "docker_call list \<Rightarrow> (error + string) list"

type_synonym ('e, 'a) docker_op = "(docker_call, 'e, 'a) operation_on"

text \<open>One call: an error, or what \<open>read\<close> takes from the answers.\<close>

definition ask :: "docker \<Rightarrow> docker_call \<Rightarrow> (docker_call list \<Rightarrow> 'a) \<Rightarrow> (error, 'a) docker_op" where
  "ask dk c read calls =
     (let calls' = calls @ [c] in
      (case dk_error dk calls' of Some e \<Rightarrow> Inl e | None \<Rightarrow> Inr (read calls'), calls'))"

abbreviation call :: "docker \<Rightarrow> docker_call \<Rightarrow> (error, unit) docker_op" where
  "call dk c \<equiv> ask dk c (\<lambda>_. ())"

lemma only_calls_ask [only_calls_intros]: "P c \<Longrightarrow> only_calls P (ask dk c read)"
  by (simp add: only_calls_def ask_def Let_def)

section \<open>Triples\<close>

text \<open>An observation of a list of calls, made call by call.\<close>

fun observed :: "('c list \<Rightarrow> 'c \<Rightarrow> 'o \<Rightarrow> 'o) \<Rightarrow> 'c list \<Rightarrow> 'o \<Rightarrow> 'c list \<Rightarrow> 'o" where
  "observed step before s [] = s"
| "observed step before s (c # cs) = observed step (before @ [c]) (step before c s) cs"

lemma observed_append:
  "observed step before s (cs @ ds) = observed step (before @ cs) (observed step before s cs) ds"
  by (induction cs arbitrary: before s) auto

lemma observed_step: "observed step [] s (calls @ [c]) = step calls c (observed step [] s calls)"
  by (simp add: observed_append)

text \<open>
  What an operation does to an observation of the calls: from \<open>P\<close> it leads to \<open>Q x\<close> when it returns
  \<open>x\<close> and to \<open>E e\<close> when it fails with \<open>e\<close>, whatever the answers.
\<close>

definition triple ::
  "('c list \<Rightarrow> 'o) \<Rightarrow> ('o \<Rightarrow> bool) \<Rightarrow> ('c, 'e, 'a) operation_on \<Rightarrow> ('a \<Rightarrow> 'o \<Rightarrow> bool) \<Rightarrow> ('e \<Rightarrow> 'o \<Rightarrow> bool) \<Rightarrow> bool" where
  "triple obs P m Q E \<longleftrightarrow> (\<forall>calls. P (obs calls) \<longrightarrow>
     (case m calls of (Inl e, calls') \<Rightarrow> E e (obs calls') | (Inr x, calls') \<Rightarrow> Q x (obs calls')))"

lemma tripleI:
  assumes "\<And>calls e calls'. P (obs calls) \<Longrightarrow> m calls = (Inl e, calls') \<Longrightarrow> E e (obs calls')"
    and "\<And>calls x calls'. P (obs calls) \<Longrightarrow> m calls = (Inr x, calls') \<Longrightarrow> Q x (obs calls')"
  shows "triple obs P m Q E"
  unfolding triple_def using assms by (auto split: prod.split sum.split)

lemma tripleD:
  assumes "triple obs P m Q E" and "P (obs calls)"
  shows "m calls = (Inl e, calls') \<Longrightarrow> E e (obs calls')" and "m calls = (Inr x, calls') \<Longrightarrow> Q x (obs calls')"
  using assms [unfolded triple_def] by (auto dest: spec [of _ calls])

lemma triple_conseq:
  assumes "triple obs P m Q E" and "\<And>s. P' s \<Longrightarrow> P s" and "\<And>x s. Q x s \<Longrightarrow> Q' x s" and "\<And>e s. E e s \<Longrightarrow> E' e s"
  shows "triple obs P' m Q' E'"
proof (rule tripleI)
  fix calls e calls'
  assume "P' (obs calls)" and "m calls = (Inl e, calls')"
  then show "E' e (obs calls')" by (intro assms(4) tripleD(1) [OF assms(1) assms(2)])
next
  fix calls x calls'
  assume "P' (obs calls)" and "m calls = (Inr x, calls')"
  then show "Q' x (obs calls')" by (intro assms(3) tripleD(2) [OF assms(1) assms(2)])
qed

lemma triple_pre: "triple obs P m Q E \<Longrightarrow> (\<And>s. P' s \<Longrightarrow> P s) \<Longrightarrow> triple obs P' m Q E"
  by (erule triple_conseq)

lemma triple_fact: "(C \<Longrightarrow> triple obs P m Q E) \<Longrightarrow> triple obs (\<lambda>s. P s \<and> C) m Q E"
  by (auto simp: triple_def)

lemma triple_give: "(\<And>s. P s \<Longrightarrow> case r of Inl e \<Rightarrow> E e s | Inr x \<Rightarrow> Q x s) \<Longrightarrow> triple obs P (give r) Q E"
  by (rule tripleI) (fastforce simp: give_def)+

lemma triple_bind:
  assumes "triple obs P m R E" and "\<And>x. triple obs (R x) (k x) Q E"
  shows "triple obs P (bind_op m k) Q E"
proof (rule tripleI)
  fix calls e calls'
  assume *: "P (obs calls)" and r: "bind_op m k calls = (Inl e, calls')"
  obtain r1 calls1 where m: "m calls = (r1, calls1)" by fastforce
  show "E e (obs calls')"
  proof (cases r1)
    case (Inl e1)
    with m r show ?thesis using tripleD(1) [OF assms(1) *] by (simp add: bind_op_def)
  next
    case (Inr x)
    with m r have "k x calls1 = (Inl e, calls')" by (simp add: bind_op_def)
    then show ?thesis using tripleD(1) [OF assms(2)] tripleD(2) [OF assms(1) *] m Inr by blast
  qed
next
  fix calls y calls'
  assume *: "P (obs calls)" and "bind_op m k calls = (Inr y, calls')"
  then obtain x calls1 where m: "m calls = (Inr x, calls1)" "k x calls1 = (Inr y, calls')"
    by (auto simp: bind_op_Inr)
  show "Q y (obs calls')" by (rule tripleD(2) [OF assms(2) tripleD(2) [OF assms(1) * m(1)] m(2)])
qed

lemma triple_on_error: "triple obs P m Q (\<lambda>e. E (f e)) \<Longrightarrow> triple obs P (on_error f m) Q E"
  by (rule tripleI) (auto simp: on_error_def split: prod.splits sum.splits dest: tripleD)

lemma triple_outcome:
  assumes "triple obs P m (\<lambda>x. Q (Inr x)) (\<lambda>e. Q (Inl e))" shows "triple obs P (outcome m) Q E"
proof (rule tripleI)
  fix calls x calls'
  assume *: "P (obs calls)" and "outcome m calls = (Inr x, calls')"
  then have "m calls = (x, calls')" by (auto simp: outcome_def split: prod.splits)
  then show "Q x (obs calls')" using tripleD [OF assms *] by (cases x) auto
qed (auto simp: outcome_def split: prod.splits)

lemma triple_deferred:
  assumes "triple obs P m (\<lambda>x. A (Inr x)) (\<lambda>e. A (Inl e))"
    and "\<And>r. triple obs (A r) (c r) (\<lambda>_. B r) (\<lambda>_. B r)"
  shows "triple obs P (deferred m c) (\<lambda>x. B (Inr x)) (\<lambda>e. B (Inl e))"
proof -
  have "B r (obs calls')" if "P (obs calls)" and "deferred m c calls = (r, calls')" for calls r calls'
  proof -
    from that(2) obtain calls1 where m: "m calls = (r, calls1)" "calls' = snd (c r calls1)"
      by (auto simp: deferred_def split: prod.splits)
    have "A r (obs calls1)" using tripleD [OF assms(1) that(1)] m(1) by (cases r) auto
    then show ?thesis using tripleD [OF assms(2), of r calls1] m(2)
      by (cases "c r calls1"; cases "fst (c r calls1)") auto
  qed
  then show ?thesis by (intro tripleI)
qed

lemma triple_ask:
  assumes "\<And>calls e. P (obs calls) \<Longrightarrow> dk_error dk (calls @ [c]) = Some e \<Longrightarrow> E e (obs (calls @ [c]))"
    and "\<And>calls. P (obs calls) \<Longrightarrow> dk_error dk (calls @ [c]) = None \<Longrightarrow> Q (read (calls @ [c])) (obs (calls @ [c]))"
  shows "triple obs P (ask dk c read) Q E"
  by (rule tripleI) (auto simp: ask_def Let_def split: option.splits intro: assms)

text \<open>Calls that do not change the observation.\<close>

definition neutral :: "('c list \<Rightarrow> 'o) \<Rightarrow> 'c \<Rightarrow> bool" where
  "neutral obs c \<longleftrightarrow> (\<forall>calls. obs (calls @ [c]) = obs calls)"

lemma neutral_list: "\<forall>c \<in> set new. neutral obs c \<Longrightarrow> obs (calls @ new) = obs calls"
  by (induction new rule: rev_induct) (simp_all add: neutral_def append_assoc [symmetric] del: append_assoc)

lemma triple_neutral:
  assumes "only_calls (neutral obs) m" shows "triple obs P m (\<lambda>_. P) (\<lambda>_. P)"
  by (rule tripleI) (use only_callsD [OF assms] neutral_list [of _ obs] in \<open>fastforce\<close>)+

end
