(* ===== verification/Engine_Runtime.thy ===== *)
theory Engine_Runtime
  imports Request_Validation Engine_Calls
begin

text \<open>
  What the operations of the engine share (\<open>internal/engine/provision.go\<close>): its configuration, the
  names and labels of Docker resources, the validation of a request and the specifications of
  containers.  The texts of the shell scripts are a parameter.
\<close>

section \<open>Configuration, names and labels\<close>

datatype volume_script = ListFiles | ValidateTarget | CreateDirectory | DeletePath | RenamePath | ClearVolume

record engine_config =
  ec_instance_id :: string
  ec_server_uid :: int
  ec_server_gid :: int
  ec_game_port_start :: int
  ec_game_port_end :: int
  ec_backup_root :: string
  ec_parse_ip :: "string \<Rightarrow> ip option"
  ec_nat_port :: "string \<Rightarrow> int \<Rightarrow> error option"
  ec_script :: "volume_script \<Rightarrow> string"

definition fileHelperImage :: string where "fileHelperImage = ''alpine:3.22''"

definition lower_hex :: "char \<Rightarrow> bool" where
  "lower_hex c \<longleftrightarrow> is_digit c \<or> (97 \<le> (of_char c :: nat) \<and> (of_char c :: nat) \<le> 102)"

definition uuid_pattern :: "string \<Rightarrow> bool" where
  "uuid_pattern s \<longleftrightarrow> (let parts = split_char CHR ''-'' s in
     map length parts = [8, 4, 4, 4, 12] \<and> list_all (list_all lower_hex) parts)"

record resource_names =
  rn_container :: string
  rn_volume :: string
  rn_network :: string
  rn_db_container :: string
  rn_db_volume :: string

definition resourceNames :: "engine_config \<Rightarrow> uuid \<Rightarrow> resource_names" where
  "resourceNames cfg serverID =
     (let inst = take 12 (filter (\<lambda>c. c \<noteq> CHR ''-'') (ec_instance_id cfg));
          base = ''dockside-'' @ inst @ ''-'' @ serverID in
      \<lparr> rn_container = base, rn_volume = base @ ''-data'', rn_network = base @ ''-net'',
        rn_db_container = base @ ''-postgres'', rn_db_volume = base @ ''-postgres-data'' \<rparr>)"

definition label :: "labels \<Rightarrow> string \<Rightarrow> string" where
  "label ls k = (case map_of ls k of None \<Rightarrow> [] | Some v \<Rightarrow> v)"

definition managedLabels :: "engine_config \<Rightarrow> uuid \<Rightarrow> labels" where
  "managedLabels cfg serverID =
     [(''gg.dockside.managed'', ''true''), (''gg.dockside.instance'', ec_instance_id cfg),
      (''gg.dockside.server'', serverID), (''gg.dockside.kind'', ''server'')]"

definition kind_labels :: "engine_config \<Rightarrow> uuid \<Rightarrow> string \<Rightarrow> labels" where
  "kind_labels cfg serverID kind = AList.update ''gg.dockside.kind'' kind (managedLabels cfg serverID)"

definition labelsMatch :: "labels \<Rightarrow> string \<Rightarrow> uuid \<Rightarrow> bool" where
  "labelsMatch ls instanceID serverID \<longleftrightarrow> label ls ''gg.dockside.managed'' = ''true'' \<and>
     label ls ''gg.dockside.instance'' = instanceID \<and> label ls ''gg.dockside.server'' = serverID"

section \<open>Validation\<close>

definition letter :: "char \<Rightarrow> bool" where
  "letter c \<longleftrightarrow> (65 \<le> (of_char c :: nat) \<and> (of_char c :: nat) \<le> 90) \<or> (97 \<le> (of_char c :: nat) \<and> (of_char c :: nat) \<le> 122)"

definition reference_char :: "char \<Rightarrow> bool" where
  "reference_char c \<longleftrightarrow> letter c \<or> is_digit c \<or> c \<in> {CHR ''.'', CHR ''_'', CHR '':'', CHR ''/'', CHR ''-''}"

text \<open>A digest begins with a byte outside the alphabet of the name, so there is one way to match.\<close>

definition image_reference :: "string \<Rightarrow> bool" where
  "image_reference s \<longleftrightarrow> (case s of [] \<Rightarrow> False
     | c # cs \<Rightarrow> (letter c \<or> is_digit c) \<and> (let rest = dropWhile reference_char cs in
         rest = [] \<or> (prefix ''@sha256:'' rest \<and> length (drop 8 rest) = 64 \<and> list_all lower_hex (drop 8 rest))))"

definition environment_pattern :: "string \<Rightarrow> bool" where
  "environment_pattern s \<longleftrightarrow> (case s of [] \<Rightarrow> False
     | c # cs \<Rightarrow> (letter c \<or> c = CHR ''_'') \<and> length cs \<le> 127 \<and> list_all (\<lambda>x. letter x \<or> is_digit x \<or> x = CHR ''_'') cs)"

definition environment_ok :: "environment \<Rightarrow> bool" where
  "environment_ok env \<longleftrightarrow> list_all (\<lambda>(name, val). environment_pattern name \<and> length val \<le> 65536) env"

definition valid_port :: "engine_config \<Rightarrow> engine_port \<Rightarrow> error option" where
  "valid_port cfg p =
     (if ep_host_ip p \<noteq> [] \<and> (case ec_parse_ip cfg (ep_host_ip p) of None \<Rightarrow> True
          | Some a \<Rightarrow> \<not> ip_is_unspecified a \<and> \<not> ip_is_loopback a)
      then Some (Message ''port bind address must be loopback or unspecified'')
      else if ep_host_port p < ec_game_port_start cfg \<or> ep_host_port p > ec_game_port_end cfg \<or>
         ep_container_port p < 1 \<or> ep_container_port p > 65535 \<or> (ep_protocol p \<noteq> ''tcp'' \<and> ep_protocol p \<noteq> ''udp'')
      then Some (Message ''invalid port mapping'') else None)"

fun valid_ports :: "engine_config \<Rightarrow> (string \<times> int \<times> string) list \<Rightarrow> engine_port list \<Rightarrow> error option" where
  "valid_ports cfg seen [] = None"
| "valid_ports cfg seen (p # ps) =
     (case valid_port cfg p of Some e \<Rightarrow> Some e
      | None \<Rightarrow> let key = (ep_host_ip p, ep_host_port p, ep_protocol p) in
          if key \<in> set seen then Some (Message ''duplicate port mapping'') else valid_ports cfg (key # seen) ps)"

definition valid_limits :: "engine_resources \<Rightarrow> error option" where
  "valid_limits r =
     (if outside (er_cpu_millicores r) 1 128000 then Some (Message ''CPU limit is outside the supported range'')
      else if outside (er_memory_limit_bytes r) (16 * 1048576) (2 ^ 40)
      then Some (Message ''memory limit is outside the supported range'')
      else if (case er_memory_reservation_bytes r of None \<Rightarrow> False
          | Some n \<Rightarrow> n < 1 \<or> (case er_memory_limit_bytes r of None \<Rightarrow> False | Some m \<Rightarrow> n > m))
      then Some (Message ''memory reservation is invalid'')
      else if outside (er_pids_limit r) 16 1000000 then Some (Message ''PID limit is outside the supported range'')
      else if outside (er_io_weight r) 10 1000 then Some (Message ''I/O weight must be between 10 and 1000'')
      else None)"

definition installer_entrypoint :: "install_spec \<Rightarrow> string" where
  "installer_entrypoint spec =
     (let e = path_Base (trim_space (is_entrypoint spec)) in if e = ''.'' \<or> e = [] then ''sh'' else e)"

definition valid_install :: "install_spec \<Rightarrow> error option" where
  "valid_install spec =
     (if \<not> image_reference (is_image spec) \<or> length (is_script spec) > 2 * 1048576
      then Some (Message ''invalid installer configuration'')
      else if installer_entrypoint spec \<notin> {''sh'', ''ash'', ''bash''}
      then Some (Message ''installer entrypoint must be sh, ash, or bash'')
      else if \<not> environment_ok (is_environment spec) then Some (Message ''invalid installer environment variable'')
      else None)"

definition validateRuntimeConfiguration ::
  "engine_config \<Rightarrow> string \<Rightarrow> string \<Rightarrow> environment \<Rightarrow> engine_port list \<Rightarrow> engine_resources \<Rightarrow>
   install_spec option \<Rightarrow> error option" where
  "validateRuntimeConfiguration cfg img startup env ports res install =
     (if \<not> image_reference img \<or> length img > 512 then Some (Message ''invalid runtime image reference'')
      else if trim_space startup = [] \<or> length startup > 32768
      then Some (Message ''startup command must be 1-32768 characters'')
      else if length env > 128 then Some (Message ''too many environment variables'')
      else if \<not> environment_ok env then Some (Message ''invalid environment variable'')
      else if ports = [] \<or> length ports > 64 then Some (Message ''at least one and at most 64 ports are required'')
      else case valid_ports cfg [] ports of Some e \<Rightarrow> Some e
      | None \<Rightarrow> (case valid_limits res of Some e \<Rightarrow> Some e
      | None \<Rightarrow> (case install of None \<Rightarrow> None | Some spec \<Rightarrow> valid_install spec)))"

definition validateProvision :: "engine_config \<Rightarrow> provision_request \<Rightarrow> error option" where
  "validateProvision cfg input = validateRuntimeConfiguration cfg (pr_image input) (pr_startup input)
     (pr_environment input) (pr_ports input) (pr_resources input) (pr_install input)"

section \<open>What a container is made of\<close>

definition environmentList :: "environment \<Rightarrow> string list" where
  "environmentList env = map (\<lambda>k. k @ ''='' @ lookup env k) (sort (map fst env))"

definition runtime_environment :: "uuid \<Rightarrow> string \<Rightarrow> environment \<Rightarrow> environment" where
  "runtime_environment serverID startup env =
     AList.update ''P_SERVER_LOCATION'' ''dockside'' (AList.update ''P_SERVER_UUID'' serverID
       (AList.update ''STARTUP'' startup env))"

definition binding_of :: "engine_port \<Rightarrow> port_binding" where
  "binding_of p = \<lparr> pb_container = (ep_container_port p, ep_protocol p),
     pb_host_ip = (if ep_host_ip p = [] then ''0.0.0.0'' else ep_host_ip p), pb_host_port = ep_host_port p \<rparr>"

fun portConfiguration :: "engine_config \<Rightarrow> engine_port list \<Rightarrow> error + ((int \<times> string) list \<times> port_binding list)" where
  "portConfiguration cfg [] = Inr ([], [])"
| "portConfiguration cfg (p # ps) =
     (case ec_nat_port cfg (ep_protocol p) (ep_container_port p) of
        Some e \<Rightarrow> Inl (Wrap ''construct port mapping: '' e [])
      | None \<Rightarrow> (case portConfiguration cfg ps of Inl e \<Rightarrow> Inl e
          | Inr (exposed, bindings) \<Rightarrow>
              Inr (List.insert (ep_container_port p, ep_protocol p) exposed, binding_of p # bindings)))"

definition or_zero :: "int option \<Rightarrow> int" where
  "or_zero v = (case v of None \<Rightarrow> 0 | Some n \<Rightarrow> n)"

definition dockerResources :: "engine_resources \<Rightarrow> container_resources" where
  "dockerResources r = \<lparr> cr_nano_cpus = wrap64 (or_zero (er_cpu_millicores r) * 1000000), cr_cpuset = er_cpu_set r,
     cr_memory = or_zero (er_memory_limit_bytes r), cr_memory_reservation = or_zero (er_memory_reservation_bytes r),
     cr_memory_swap = or_zero (er_swap_limit_bytes r), cr_pids_limit = er_pids_limit r,
     cr_blkio_weight = or_zero (er_io_weight r) mod 65536 \<rparr>"

definition volume_mount :: "string \<Rightarrow> string \<Rightarrow> bool \<Rightarrow> bool \<Rightarrow> mount_spec" where
  "volume_mount vol target read_only no_copy = \<lparr> mo_type = ''volume'', mo_source = vol, mo_target = target,
     mo_read_only = read_only, mo_no_copy = no_copy \<rparr>"

definition helper_spec :: "string \<Rightarrow> labels \<Rightarrow> mount_spec \<Rightarrow> container_spec" where
  "helper_spec img ls mnt = \<lparr> cx_name = [], cx_image = img, cx_user = [], cx_entrypoint = [], cx_cmd = [],
     cx_env = [], cx_working_dir = [], cx_labels = ls, cx_open_stdin = False, cx_network = ''none'',
     cx_exposed = [], cx_bindings = [], cx_resources = no_limits, cx_mounts = [mnt], cx_cap_drop = [''ALL''],
     cx_cap_add = [], cx_security_opt = [''no-new-privileges:true''], cx_readonly_rootfs = True,
     cx_restart_policy = [] \<rparr>"

definition runtime_spec ::
  "engine_config \<Rightarrow> uuid \<Rightarrow> string \<Rightarrow> string \<Rightarrow> string \<Rightarrow> environment \<Rightarrow> (int \<times> string) list \<Rightarrow> port_binding list \<Rightarrow>
   engine_resources \<Rightarrow> container_spec" where
  "runtime_spec cfg serverID name img startup env exposed bindings res =
     (helper_spec img (managedLabels cfg serverID)
        (volume_mount (rn_volume (resourceNames cfg serverID)) ''/home/container'' False True))
     \<lparr> cx_name := name, cx_env := environmentList (runtime_environment serverID startup env),
       cx_working_dir := ''/home/container'', cx_open_stdin := True,
       cx_network := rn_network (resourceNames cfg serverID), cx_exposed := exposed, cx_bindings := bindings,
       cx_resources := dockerResources res, cx_readonly_rootfs := False, cx_restart_policy := ''unless-stopped'' \<rparr>"

definition user_of :: "engine_config \<Rightarrow> string" where
  "user_of cfg = itoa (ec_server_uid cfg) @ '':'' @ itoa (ec_server_gid cfg)"

end
