(* ===== verification/Engine_Containers.thy ===== *)
theory Engine_Containers
  imports Engine_Runtime
begin

text \<open>
  The operations of the engine on containers, volumes and networks: provisioning, reconfiguration,
  installation and deletion of a server (\<open>internal/engine/provision.go\<close>), power actions
  (\<open>server.go\<close>) and the short-lived helper containers (\<open>files.go\<close>).
\<close>

text \<open>
  \<open>on_failure m c\<close> is \<open>m\<close> with a deferred \<open>c\<close> that acts when an error is returned; nested, they run
  from the inside out, as the deferred function of \<open>createServerResources\<close> removes container,
  network and volume in this order.
\<close>

definition on_failure :: "('c, 'e, 'a) operation_on \<Rightarrow> ('c, 'f, unit) operation_on \<Rightarrow> ('c, 'e, 'a) operation_on" where
  "on_failure m c = deferred m (\<lambda>r. case r of Inl _ \<Rightarrow> c | Inr _ \<Rightarrow> give (Inr ()))"

definition refuse_when :: "bool \<Rightarrow> 'e \<Rightarrow> ('c, 'e, unit) operation_on" where
  "refuse_when b e = give (if b then Inl e else Inr ())"

section \<open>Images\<close>

fun pull_result :: "(error + string) list \<Rightarrow> error + unit" where
  "pull_result [] = Inr ()"
| "pull_result (Inl e # ms) = Inl e"
| "pull_result (Inr text # ms) = (if text \<noteq> [] then Inl (Message text) else pull_result ms)"

definition pullImage :: "docker \<Rightarrow> string \<Rightarrow> (error, unit) docker_op" where
  "pullImage dk reference = bind_op (ask dk (ImagePull reference) (dk_pull dk)) (\<lambda>ms. give (pull_result ms))"

definition ensure_image :: "docker \<Rightarrow> string \<Rightarrow> string \<Rightarrow> (error, unit) docker_op" where
  "ensure_image dk what img =
     bind_op (outcome (call dk (ImageInspect img))) (\<lambda>r. case r of
       Inr _ \<Rightarrow> give (Inr ())
     | Inl e \<Rightarrow> if \<not> dk_not_found dk e then give (Inl (Wrap (''inspect '' @ what @ '' image: '') e []))
         else failing (''pull '' @ what @ '' image: '') (pullImage dk img))"

section \<open>Helper containers\<close>

definition wait_for :: "docker \<Rightarrow> string \<Rightarrow> ('e, wait_end) docker_op" where
  "wait_for dk i calls = (let calls' = calls @ [ContainerWait i] in (Inr (dk_wait dk calls'), calls'))"

text \<open>A container that is created, used by \<open>body\<close> and removed in any case.\<close>

definition with_container ::
  "docker \<Rightarrow> string \<Rightarrow> container_spec \<Rightarrow> (string \<Rightarrow> (error, 'a) docker_op) \<Rightarrow> (error, 'a) docker_op" where
  "with_container dk text spec body =
     bind_op (failing text (ask dk (ContainerCreate spec) (dk_id dk))) (\<lambda>i.
       deferred (body i) (\<lambda>_. call dk (ContainerRemove i True)))"

definition server_volume :: "engine_config \<Rightarrow> docker \<Rightarrow> uuid \<Rightarrow> (error, unit) docker_op" where
  "server_volume cfg dk serverID =
     bind_op (failing ''inspect server volume: ''
       (ask dk (VolumeInspect (rn_volume (resourceNames cfg serverID))) (dk_labels dk))) (\<lambda>ls.
     refuse_when (\<not> labelsMatch ls (ec_instance_id cfg) serverID) (Message ''server volume labels do not match''))"

definition file_helper_spec :: "engine_config \<Rightarrow> uuid \<Rightarrow> volume_script \<Rightarrow> environment \<Rightarrow> container_spec" where
  "file_helper_spec cfg serverID script env =
     (helper_spec fileHelperImage (kind_labels cfg serverID ''file-helper'')
        (volume_mount (rn_volume (resourceNames cfg serverID)) ''/mnt/server'' False False))
     \<lparr> cx_user := user_of cfg, cx_entrypoint := [''sh'', ''-c''], cx_cmd := [ec_script cfg script],
       cx_env := environmentList env \<rparr>"

definition runVolumeHelper ::
  "engine_config \<Rightarrow> docker \<Rightarrow> uuid \<Rightarrow> volume_script \<Rightarrow> environment \<Rightarrow> (error, string) docker_op" where
  "runVolumeHelper cfg dk serverID script env =
     bind_op (server_volume cfg dk serverID) (\<lambda>_.
     bind_op (ensure_image dk ''file helper'' fileHelperImage) (\<lambda>_.
     with_container dk ''create file helper: '' (file_helper_spec cfg serverID script env) (\<lambda>i.
       bind_op (failing ''start file helper: '' (call dk (ContainerStart i))) (\<lambda>_.
       bind_op (wait_for dk i) (\<lambda>w. case w of
         WaitFailed e \<Rightarrow> give (Inl (Wrap ''wait for file helper: '' e []))
       | WaitCancelled e \<Rightarrow> give (Inl e)
       | _ \<Rightarrow>
           bind_op (failing ''read file helper output: '' (ask dk (ContainerLogs i) (dk_output dk))) (\<lambda>logs. case logs of
             Inl e \<Rightarrow> give (Inl (Wrap ''decode file helper output: '' e []))
           | Inr (stdout, stderr) \<Rightarrow>
               let status = (case w of Exited n \<Rightarrow> n | _ \<Rightarrow> 0) in
               if status \<noteq> 0
               then give (Inl (Message (''file helper exited '' @ itoa status @ '': '' @ trim_space stderr)))
               else give (Inr stdout)))))))"

definition initializer_spec :: "engine_config \<Rightarrow> uuid \<Rightarrow> container_spec" where
  "initializer_spec cfg serverID =
     (helper_spec fileHelperImage (kind_labels cfg serverID ''volume-initializer'')
        (volume_mount (rn_volume (resourceNames cfg serverID)) ''/mnt/server'' False False))
     \<lparr> cx_user := ''0:0'', cx_entrypoint := [''sh'', ''-c''],
       cx_cmd := [''chown -R '' @ user_of cfg @ '' /mnt/server && chmod 0750 /mnt/server''],
       cx_cap_add := [''CHOWN'', ''FOWNER'', ''DAC_OVERRIDE''] \<rparr>"

definition initializeVolumeOwnership :: "engine_config \<Rightarrow> docker \<Rightarrow> uuid \<Rightarrow> (error, unit) docker_op" where
  "initializeVolumeOwnership cfg dk serverID =
     bind_op (ensure_image dk ''volume initializer'' fileHelperImage) (\<lambda>_.
     with_container dk ''create volume initializer: '' (initializer_spec cfg serverID) (\<lambda>i.
       bind_op (failing ''start volume initializer: '' (call dk (ContainerStart i))) (\<lambda>_.
       bind_op (wait_for dk i) (\<lambda>w. case w of
         WaitFailed e \<Rightarrow> give (Inl (Wrap ''wait for volume initializer: '' e []))
       | WaitCancelled e \<Rightarrow> give (Inl e)
       | WaitClosed \<Rightarrow> give (Inr ())
       | Exited n \<Rightarrow> give (if n \<noteq> 0 then Inl (Message (''volume initializer exited with status '' @ itoa n)) else Inr ())))))"

definition containerLogTail :: "docker \<Rightarrow> string \<Rightarrow> ('e, string) docker_op" where
  "containerLogTail dk i =
     bind_op (outcome (ask dk (ContainerLogs i) (dk_raw dk))) (\<lambda>r. case r of
       Inl _ \<Rightarrow> give (Inr ''logs unavailable'') | Inr s \<Rightarrow> give (Inr (trim_space (take 32768 s))))"

definition installer_spec :: "engine_config \<Rightarrow> uuid \<Rightarrow> install_spec \<Rightarrow> container_spec" where
  "installer_spec cfg serverID spec =
     (helper_spec (is_image spec) (kind_labels cfg serverID ''installer'')
        (volume_mount (rn_volume (resourceNames cfg serverID)) ''/mnt/server'' False True))
     \<lparr> cx_name := ''dockside-installer-'' @ filter (\<lambda>c. c \<noteq> CHR ''-'') serverID,
       cx_entrypoint := [installer_entrypoint spec, ''-c''], cx_cmd := [is_script spec],
       cx_env := environmentList (is_environment spec), cx_working_dir := ''/mnt/server'',
       cx_network := rn_network (resourceNames cfg serverID), cx_readonly_rootfs := False \<rparr>"

text \<open>The log of a running installer is followed by another goroutine; its calls are not modelled.\<close>

definition runInstaller :: "engine_config \<Rightarrow> docker \<Rightarrow> uuid \<Rightarrow> install_spec \<Rightarrow> (error, unit) docker_op" where
  "runInstaller cfg dk serverID spec =
     bind_op (failing ''pull installer image: '' (pullImage dk (is_image spec))) (\<lambda>_.
     with_container dk ''create installer container: '' (installer_spec cfg serverID spec) (\<lambda>i.
       bind_op (failing ''start installer container: '' (call dk (ContainerStart i))) (\<lambda>_.
       bind_op (wait_for dk i) (\<lambda>w. case w of
         WaitFailed e \<Rightarrow> give (Inl (Wrap ''wait for installer: '' e []))
       | WaitCancelled e \<Rightarrow> give (Inl e)
       | WaitClosed \<Rightarrow> give (Inr ())
       | Exited n \<Rightarrow>
           if n = 0 then give (Inr ())
           else bind_op (containerLogTail dk i) (\<lambda>logs.
             give (Inl (Message (''installer exited with code '' @ itoa n @ '': '' @ logs))))))))"

section \<open>Creating and replacing a server's container\<close>

text \<open>\<open>None\<close> stands for \<open>errNotFound\<close>: there is not exactly one container of the server.\<close>

definition findManagedServer :: "engine_config \<Rightarrow> docker \<Rightarrow> uuid \<Rightarrow> (error, string option) docker_op" where
  "findManagedServer cfg dk serverID =
     bind_op (ask dk (ContainerList (managedLabels cfg serverID)) (dk_containers dk)) (\<lambda>found.
       give (Inr (case found of [c] \<Rightarrow> Some (cy_id c) | _ \<Rightarrow> None)))"

definition managed_server :: "engine_config \<Rightarrow> docker \<Rightarrow> uuid \<Rightarrow> (error, string) docker_op" where
  "managed_server cfg dk serverID =
     bind_op (findManagedServer cfg dk serverID) (\<lambda>found.
       give (case found of None \<Rightarrow> Inl ErrNotFound | Some i \<Rightarrow> Inr i))"

text \<open>The first port of the request that another container publishes, with the container's names.\<close>

definition taken_port ::
  "engine_config \<Rightarrow> uuid \<Rightarrow> engine_port list \<Rightarrow> container_summary list \<Rightarrow> (container_summary \<times> engine_port) option" where
  "taken_port cfg serverID requested found =
     (let others = filter (\<lambda>c. \<not> (label (cy_labels c) ''gg.dockside.server'' = serverID \<and>
            label (cy_labels c) ''gg.dockside.instance'' = ec_instance_id cfg)) found;
          clash = (\<lambda>c q. if pp_public_port q = 0 then None
            else find (\<lambda>p. pp_public_port q = ep_host_port p \<and> to_lower (pp_type q) = to_lower (ep_protocol p)) requested) in
      case List.map_filter (\<lambda>(c, q). map_option (Pair c) (clash c q)) (concat (map (\<lambda>c. map (Pair c) (cy_ports c)) others)) of
        [] \<Rightarrow> None | x # _ \<Rightarrow> Some x)"

definition container_names :: "container_summary \<Rightarrow> string" where
  "container_names c =
     (let name = trim_prefix ''/'' (strings_Join (cy_names c) '', '') in if name = [] then take 12 (cy_id c) else name)"

definition validateHostPortAvailability ::
  "engine_config \<Rightarrow> docker \<Rightarrow> uuid \<Rightarrow> engine_port list \<Rightarrow> (error, unit) docker_op" where
  "validateHostPortAvailability cfg dk serverID requested =
     bind_op (failing ''inspect published Docker ports: '' (ask dk (ContainerList []) (dk_containers dk))) (\<lambda>found.
       give (case taken_port cfg serverID requested found of
           None \<Rightarrow> Inr ()
         | Some (c, p) \<Rightarrow> Inl (Message (''host port '' @ itoa (ep_host_port p) @ ''/'' @ ep_protocol p @
             '' is already published by Docker container '' @ container_names c))))"

definition provision_result_of :: "engine_config \<Rightarrow> uuid \<Rightarrow> string \<Rightarrow> string \<Rightarrow> provision_result" where
  "provision_result_of cfg serverID containerID state = \<lparr> pr_container_id = containerID,
     pr_volume_name = rn_volume (resourceNames cfg serverID),
     pr_network_name = rn_network (resourceNames cfg serverID), pr_state = state \<rparr>"

definition create_runtime ::
  "engine_config \<Rightarrow> docker \<Rightarrow> uuid \<Rightarrow> provision_request \<Rightarrow> (error, provision_result) docker_op" where
  "create_runtime cfg dk serverID input =
     bind_op (give (portConfiguration cfg (pr_ports input))) (\<lambda>(exposed, bindings).
     bind_op (failing ''create runtime container: '' (ask dk (ContainerCreate (runtime_spec cfg serverID
       (rn_container (resourceNames cfg serverID)) (pr_image input) (pr_startup input) (pr_environment input)
       exposed bindings (pr_resources input))) (dk_id dk))) (\<lambda>i.
     on_failure
       (bind_op (when_op (pr_start input) (failing ''start runtime container: '' (call dk (ContainerStart i)))) (\<lambda>_.
        give (Inr (provision_result_of cfg serverID i (if pr_start input then ''running'' else ''stopped'')))))
       (call dk (ContainerRemove i True))))"

definition createServerResources ::
  "engine_config \<Rightarrow> docker \<Rightarrow> uuid \<Rightarrow> provision_request \<Rightarrow> (error, provision_result) docker_op" where
  "createServerResources cfg dk serverID input =
     (let names = resourceNames cfg serverID; ls = managedLabels cfg serverID in
      bind_op (validateHostPortAvailability cfg dk serverID (pr_ports input)) (\<lambda>_.
      bind_op (failing ''pull runtime image: '' (pullImage dk (pr_image input))) (\<lambda>_.
      bind_op (failing ''create server volume: '' (call dk (VolumeCreate (rn_volume names) ls))) (\<lambda>_.
      on_failure
        (bind_op (failing ''create server network: '' (call dk (NetworkCreate (rn_network names) ls))) (\<lambda>_.
         on_failure
           (bind_op (case pr_install input of None \<Rightarrow> give (Inr ())
              | Some spec \<Rightarrow> when_op (trim_space (is_script spec) \<noteq> []) (runInstaller cfg dk serverID spec)) (\<lambda>_.
            bind_op (initializeVolumeOwnership cfg dk serverID) (\<lambda>_.
            create_runtime cfg dk serverID input)))
           (call dk (NetworkRemove (rn_network names)))))
        (call dk (VolumeRemove (rn_volume names)))))))"

definition is_running :: "container_state option \<Rightarrow> bool" where
  "is_running st \<longleftrightarrow> (case st of None \<Rightarrow> False | Some s \<Rightarrow> ct_running s)"

text \<open>\<open>stamp\<close> is the clock value in the temporary name of the new container.\<close>

definition replaceRuntimeContainer ::
  "engine_config \<Rightarrow> docker \<Rightarrow> string \<Rightarrow> uuid \<Rightarrow> reconfigure_request \<Rightarrow> (error, provision_result) docker_op" where
  "replaceRuntimeContainer cfg dk stamp serverID input =
     (let names = resourceNames cfg serverID in
      bind_op (managed_server cfg dk serverID) (\<lambda>old.
      bind_op (failing ''inspect existing container: '' (ask dk (ContainerInspect old) (dk_state dk))) (\<lambda>st.
      bind_op (refuse_when (is_running st) (Message ''server must be stopped before changing runtime configuration'')) (\<lambda>_.
      bind_op (validateHostPortAvailability cfg dk serverID (rc_ports input)) (\<lambda>_.
      bind_op (failing ''pull runtime image: '' (pullImage dk (rc_image input))) (\<lambda>_.
      bind_op (give (portConfiguration cfg (rc_ports input))) (\<lambda>(exposed, bindings).
      bind_op (failing ''create replacement container: '' (ask dk (ContainerCreate (runtime_spec cfg serverID
        (rn_container names @ ''-replacement-'' @ stamp) (rc_image input) (rc_startup input) (rc_environment input)
        exposed bindings (rc_resources input))) (dk_id dk))) (\<lambda>i.
      bind_op (on_failure (failing ''remove existing stopped container: '' (call dk (ContainerRemove old False)))
        (call dk (ContainerRemove i True))) (\<lambda>_.
      bind_op (outcome (call dk (ContainerRename i (rn_container names)))) (\<lambda>_.
      give (Inr (provision_result_of cfg serverID i ''stopped''))))))))))))"

section \<open>Removing a server\<close>

definition tolerant :: "docker \<Rightarrow> string \<Rightarrow> (error, unit) docker_op \<Rightarrow> (error, unit) docker_op" where
  "tolerant dk text m = bind_op (outcome m) (\<lambda>r. case r of
     Inr _ \<Rightarrow> give (Inr ())
   | Inl e \<Rightarrow> if dk_not_found dk e then give (Inr ()) else give (Inl (Wrap text e [])))"

definition removeTransientServerContainers :: "engine_config \<Rightarrow> docker \<Rightarrow> uuid \<Rightarrow> (error, unit) docker_op" where
  "removeTransientServerContainers cfg dk serverID =
     bind_op (failing ''list server helper containers: '' (ask dk (ContainerList (butlast (managedLabels cfg serverID)))
       (dk_containers dk))) (\<lambda>found.
     each_op (\<lambda>c. let kind = label (cy_labels c) ''gg.dockside.kind'' in
       if kind = ''server'' \<or> kind = ''database'' then give (Inr ())
       else tolerant dk (''remove '' @ kind @ '' helper container: '') (call dk (ContainerRemove (cy_id c) True))) found)"

text \<open>
  A resource found by its name: it is removed when its labels are those of the server, and its
  absence is not an error.
\<close>

definition remove_labelled ::
  "docker \<Rightarrow> string \<Rightarrow> string \<Rightarrow> docker_call \<Rightarrow> (labels \<Rightarrow> bool) \<Rightarrow> docker_call \<Rightarrow> (error, unit) docker_op" where
  "remove_labelled dk what refusal look matches remove =
     bind_op (outcome (ask dk look (dk_labels dk))) (\<lambda>r. case r of
       Inl e \<Rightarrow> if dk_not_found dk e then give (Inr ()) else give (Inl (Wrap (''inspect '' @ what @ '': '') e []))
     | Inr ls \<Rightarrow>
         if \<not> matches ls then give (Inl (Message (''refusing '' @ refusal @ '' without matching managed labels'')))
         else tolerant dk (''remove '' @ what @ '': '') (call dk remove))"

definition databaseHostContainer :: "engine_config \<Rightarrow> docker \<Rightarrow> uuid \<Rightarrow> (error, string option) docker_op" where
  "databaseHostContainer cfg dk serverID =
     bind_op (outcome (ask dk (ContainerInspect (rn_db_container (resourceNames cfg serverID)))
       (\<lambda>calls. (dk_id dk calls, dk_labels dk calls)))) (\<lambda>r. case r of
       Inl e \<Rightarrow> give (if dk_not_found dk e then Inr None else Inl e)
     | Inr (i, ls) \<Rightarrow> give (if \<not> labelsMatch ls (ec_instance_id cfg) serverID \<or> label ls ''gg.dockside.kind'' \<noteq> ''database''
         then Inl (Message ''refusing database container without matching managed labels'') else Inr (Some i)))"

definition removeDatabaseHost :: "engine_config \<Rightarrow> docker \<Rightarrow> uuid \<Rightarrow> (error, unit) docker_op" where
  "removeDatabaseHost cfg dk serverID =
     bind_op (databaseHostContainer cfg dk serverID) (\<lambda>found.
     bind_op (case found of None \<Rightarrow> give (Inr ())
       | Some i \<Rightarrow> tolerant dk ''remove database container: '' (call dk (ContainerRemove i True))) (\<lambda>_.
     remove_labelled dk ''database volume'' ''database volume'' (VolumeInspect (rn_db_volume (resourceNames cfg serverID)))
       (\<lambda>ls. labelsMatch ls (ec_instance_id cfg) serverID \<and> label ls ''gg.dockside.kind'' = ''database-volume'')
       (VolumeRemove (rn_db_volume (resourceNames cfg serverID)))))"

definition removeServerResources :: "engine_config \<Rightarrow> docker \<Rightarrow> uuid \<Rightarrow> (error, unit) docker_op" where
  "removeServerResources cfg dk serverID =
     (let names = resourceNames cfg serverID; ours = (\<lambda>ls. labelsMatch ls (ec_instance_id cfg) serverID) in
      bind_op (removeTransientServerContainers cfg dk serverID) (\<lambda>_.
      bind_op (removeDatabaseHost cfg dk serverID) (\<lambda>_.
      bind_op (findManagedServer cfg dk serverID) (\<lambda>found.
      bind_op (case found of None \<Rightarrow> give (Inr ())
        | Some i \<Rightarrow> tolerant dk ''remove container: '' (call dk (ContainerRemove i True))) (\<lambda>_.
      bind_op (remove_labelled dk ''network'' ''to remove network'' (NetworkInspect (rn_network names)) ours (NetworkRemove (rn_network names))) (\<lambda>_.
      bind_op (remove_labelled dk ''volume'' ''to remove volume'' (VolumeInspect (rn_volume names)) ours (VolumeRemove (rn_volume names))) (\<lambda>_.
      bind_op (refuse_when (path_Clean serverID \<noteq> serverID) (Message ''refusing to remove an unsafe backup directory'')) (\<lambda>_.
      failing ''remove server backups: ''
        (call dk (RemoveTree (path_Join [ec_backup_root cfg, serverID])))))))))))"

section \<open>The handlers\<close>

text \<open>A refused request: the status of the answer and its error text.\<close>

datatype reply = Refused int string

definition checked_body :: "string \<Rightarrow> string \<Rightarrow> uuid \<Rightarrow> 'b option \<Rightarrow> (reply, 'b) docker_op" where
  "checked_body invalid_id invalid_body serverID body =
     (if \<not> uuid_pattern serverID then give (Inl (Refused 400 invalid_id))
      else case body of None \<Rightarrow> give (Inl (Refused 400 invalid_body)) | Some x \<Rightarrow> give (Inr x))"

definition valid_or_400 :: "error option \<Rightarrow> (reply, unit) docker_op" where
  "valid_or_400 v = give (case v of None \<Rightarrow> Inr () | Some e \<Rightarrow> Inl (Refused 400 (error_text e)))"

definition provision_server ::
  "engine_config \<Rightarrow> docker \<Rightarrow> uuid \<Rightarrow> provision_request option \<Rightarrow> (reply, provision_result) docker_op" where
  "provision_server cfg dk serverID body =
     bind_op (checked_body ''invalid server id'' ''invalid provision request'' serverID body) (\<lambda>input.
     bind_op (valid_or_400 (validateProvision cfg input)) (\<lambda>_.
     bind_op (on_error (\<lambda>_. Refused 500 ''could not inspect managed containers'') (findManagedServer cfg dk serverID)) (\<lambda>found.
     case found of
       Some i \<Rightarrow> bind_op (on_error (\<lambda>_. Refused 409 ''managed server exists but could not be inspected'')
           (ask dk (ContainerInspect i) (dk_state dk))) (\<lambda>st.
           give (Inr (provision_result_of cfg serverID i (if is_running st then ''running'' else ''stopped''))))
     | None \<Rightarrow> on_error (\<lambda>e. Refused 409 ''server provisioning failed'') (createServerResources cfg dk serverID input))))"

definition installExisting ::
  "engine_config \<Rightarrow> docker \<Rightarrow> uuid \<Rightarrow> install_spec option \<Rightarrow> (reply, unit) docker_op" where
  "installExisting cfg dk serverID body =
     bind_op (checked_body ''invalid server id'' ''invalid installation request'' serverID body) (\<lambda>input.
     bind_op (valid_or_400 (validateRuntimeConfiguration cfg ''placeholder/image:latest'' ''true'' (is_environment input)
       [\<lparr> ep_host_ip = ''0.0.0.0'', ep_host_port = ec_game_port_start cfg, ep_container_port = 1, ep_protocol = ''tcp'' \<rparr>]
       \<lparr> er_cpu_millicores = None, er_cpu_set = [], er_memory_limit_bytes = None, er_memory_reservation_bytes = None,
         er_swap_limit_bytes = None, er_pids_limit = None, er_io_weight = None \<rparr> (Some input))) (\<lambda>_.
     bind_op (on_error (\<lambda>_. Refused 404 ''managed server not found'') (managed_server cfg dk serverID)) (\<lambda>i.
     bind_op (on_error (\<lambda>_. Refused 409 ''managed server could not be inspected'') (ask dk (ContainerInspect i) (dk_state dk))) (\<lambda>st.
     bind_op (refuse_when (st = None) (Refused 409 ''managed server could not be inspected'')) (\<lambda>_.
     bind_op (refuse_when (is_running st) (Refused 409 ''server must be stopped before running its installer'')) (\<lambda>_.
     on_error (\<lambda>e. Refused 409 ''template installer failed'') (runInstaller cfg dk serverID input)))))))"

definition reconfigure_server ::
  "engine_config \<Rightarrow> docker \<Rightarrow> string \<Rightarrow> uuid \<Rightarrow> reconfigure_request option \<Rightarrow> (reply, provision_result) docker_op" where
  "reconfigure_server cfg dk stamp serverID body =
     bind_op (checked_body ''invalid server id'' ''invalid configuration request'' serverID body) (\<lambda>input.
     bind_op (valid_or_400 (validateRuntimeConfiguration cfg (rc_image input) (rc_startup input) (rc_environment input)
       (rc_ports input) (rc_resources input) None)) (\<lambda>_.
     on_error (\<lambda>e. Refused 409 ''server reconfiguration failed'') (replaceRuntimeContainer cfg dk stamp serverID input)))"

definition delete_managed_server :: "engine_config \<Rightarrow> docker \<Rightarrow> uuid \<Rightarrow> (reply, unit) docker_op" where
  "delete_managed_server cfg dk serverID =
     (if \<not> uuid_pattern serverID then give (Inl (Refused 400 ''invalid server id''))
      else on_error (\<lambda>_. Refused 409 ''could not fully delete managed server'') (removeServerResources cfg dk serverID))"

definition setServerRestartPolicy :: "docker \<Rightarrow> string \<Rightarrow> bool \<Rightarrow> (error, unit) docker_op" where
  "setServerRestartPolicy dk i enabled = call dk (ContainerUpdate i (if enabled then ''unless-stopped'' else ''no''))"

definition power_call :: "docker \<Rightarrow> string \<Rightarrow> string \<Rightarrow> container_state option \<Rightarrow> (error, unit) docker_op" where
  "power_call dk action i st =
     (let running = is_running st; restarting = (case st of None \<Rightarrow> False | Some s \<Rightarrow> ct_restarting s) in
      if action = ''start'' then when_op (\<not> running \<and> \<not> restarting) (call dk (ContainerStart i))
      else if action = ''stop'' then when_op running (call dk (ContainerStop i 30))
      else if action = ''restart'' then
        (if running then call dk (ContainerRestart i 30) else when_op (\<not> restarting) (call dk (ContainerStart i)))
      else when_op running (call dk (ContainerKill i)))"

definition power_server :: "engine_config \<Rightarrow> docker \<Rightarrow> uuid \<Rightarrow> string option \<Rightarrow> (reply, unit) docker_op" where
  "power_server cfg dk serverID body =
     bind_op (checked_body ''invalid server id'' ''invalid request'' serverID body) (\<lambda>action.
     bind_op (refuse_when (action \<notin> {''start'', ''stop'', ''restart'', ''kill''}) (Refused 400 ''invalid power action'')) (\<lambda>_.
     bind_op (on_error (\<lambda>_. Refused 500 ''docker operation failed'') (findManagedServer cfg dk serverID)) (\<lambda>found.
     case found of None \<Rightarrow> give (Inl (Refused 404 ''managed server container not found''))
     | Some i \<Rightarrow> on_error (\<lambda>_. Refused 409 ''power action failed'')
       (bind_op (setServerRestartPolicy dk i (action = ''start'' \<or> action = ''restart'')) (\<lambda>_.
        bind_op (ask dk (ContainerInspect i) (dk_state dk)) (\<lambda>st. power_call dk action i st))))))"

section \<open>The calls of the building blocks\<close>

lemma only_calls_refuse_when [only_calls_intros]: "only_calls P (refuse_when b e)"
  by (simp add: refuse_when_def only_calls_intros)

lemma only_calls_on_failure [only_calls_intros]:
  "only_calls P m \<Longrightarrow> only_calls P c \<Longrightarrow> only_calls P (on_failure m c)"
  unfolding on_failure_def by (intro only_calls_intros)

lemma only_calls_wait_for [only_calls_intros]: "P (ContainerWait i) \<Longrightarrow> only_calls P (wait_for dk i)"
  by (simp add: only_calls_def wait_for_def Let_def)

lemma only_calls_wait_end [only_calls_intros]:
  assumes "\<And>n. only_calls P (a n)" "\<And>e. only_calls P (b e)" "only_calls P c" "\<And>e. only_calls P (d e)"
  shows "only_calls P (case w of Exited n \<Rightarrow> a n | WaitFailed e \<Rightarrow> b e | WaitClosed \<Rightarrow> c | WaitCancelled e \<Rightarrow> d e)"
  using assms by (cases w) auto

lemma only_calls_pullImage [only_calls_intros]: "P (ImagePull r) \<Longrightarrow> only_calls P (pullImage dk r)"
  unfolding pullImage_def by (intro only_calls_intros)

lemma only_calls_ensure_image [only_calls_intros]:
  "P (ImageInspect img) \<Longrightarrow> P (ImagePull img) \<Longrightarrow> only_calls P (ensure_image dk what img)"
  unfolding ensure_image_def by (intro only_calls_intros)

lemma only_calls_with_container [only_calls_intros]:
  "P (ContainerCreate spec) \<Longrightarrow> (\<And>i. P (ContainerRemove i True)) \<Longrightarrow> (\<And>i. only_calls P (body i)) \<Longrightarrow>
    only_calls P (with_container dk text spec body)"
  unfolding with_container_def by (intro only_calls_intros)

lemma only_calls_server_volume [only_calls_intros]: "P (VolumeInspect (rn_volume (resourceNames cfg s))) \<Longrightarrow> only_calls P (server_volume cfg dk s)"
  unfolding server_volume_def by (intro only_calls_intros)

lemma only_calls_tolerant [only_calls_intros]: "only_calls P m \<Longrightarrow> only_calls P (tolerant dk text m)"
  unfolding tolerant_def by (intro only_calls_intros)

lemma only_calls_remove_labelled [only_calls_intros]:
  "P look \<Longrightarrow> P remove \<Longrightarrow> only_calls P (remove_labelled dk what refusal look matches remove)"
  unfolding remove_labelled_def by (intro only_calls_intros)

lemma only_calls_find [only_calls_intros]:
  "P (ContainerList (managedLabels cfg s)) \<Longrightarrow> only_calls P (findManagedServer cfg dk s)"
  "P (ContainerList (managedLabels cfg s)) \<Longrightarrow> only_calls P (managed_server cfg dk s)"
  unfolding managed_server_def findManagedServer_def by (intro only_calls_intros; assumption)+

lemma only_calls_checked [only_calls_intros]: "only_calls P (checked_body a b s body)" "only_calls P (valid_or_400 v)"
  unfolding checked_body_def valid_or_400_def by (intro only_calls_intros)+

end
