(* ===== verification/Engine_Files.thy ===== *)
theory Engine_Files
  imports Engine_Containers
begin

text \<open>
  The files of a server (\<open>internal/engine/files.go\<close>): which paths of a request are accepted, and what
  Docker is asked to do with them.  The contents of files are not modelled beyond their length and
  validity; the scripts run in a helper container.
\<close>

section \<open>Paths of a request\<close>

definition normalized_path :: "string \<Rightarrow> string" where
  "normalized_path raw =
     (let v = map (\<lambda>c. if c = CHR 0x5C then slash else c) (trim_space raw) in if v = [] then ''.'' else v)"

definition safeRelativePath :: "string \<Rightarrow> bool \<Rightarrow> error + string" where
  "safeRelativePath raw allowRoot =
     (let v = normalized_path raw; cleaned = path_Clean v in
      if CHR 0x00 \<in> set v \<or> prefix [slash] v \<or> length v > 1024 then Inl (Message ''unsafe path'')
      else if cleaned = ''..'' \<or> prefix ''../'' cleaned then Inl (Message ''unsafe path'')
      else if cleaned = ''.'' \<and> \<not> allowRoot then Inl (Message ''root operation forbidden'')
      else Inr cleaned)"

definition safeFileName :: "string \<Rightarrow> bool" where
  "safeFileName s \<longleftrightarrow> s \<noteq> [] \<and> s \<noteq> ''.'' \<and> s \<noteq> ''..'' \<and> length s \<le> 255 \<and> slash \<notin> set s \<and>
     CHR 0x5C \<notin> set s \<and> CHR 0x00 \<notin> set s"

definition fileRequest :: "uuid \<Rightarrow> string \<Rightarrow> bool \<Rightarrow> (reply, string) docker_op" where
  "fileRequest serverID query allowRoot =
     (if \<not> uuid_pattern serverID then give (Inl (Refused 400 ''invalid server id''))
      else give (case safeRelativePath query allowRoot of
          Inl _ \<Rightarrow> Inl (Refused 400 ''invalid file path'') | Inr p \<Rightarrow> Inr p))"

section \<open>Listing a directory\<close>

record listed_file =
  lf_name :: string
  lf_path :: string
  lf_type :: string
  lf_size :: int
  lf_modified :: int

text \<open>\<open>decode\<close> is base64 decoding followed by the test for UTF-8.\<close>

definition parse_line :: "(string \<Rightarrow> string option) \<Rightarrow> string \<Rightarrow> string \<Rightarrow> error + listed_file" where
  "parse_line decode parent line =
     (case split_char CHR 0x09 line of
        [encoded, kind, bytes, modified] \<Rightarrow>
          (case decode encoded of
             None \<Rightarrow> Inl (Message ''invalid listing name'')
           | Some name \<Rightarrow>
               (case (atoi bytes, atoi modified) of
                  (Some n, Some t) \<Rightarrow> Inr \<lparr> lf_name = name,
                    lf_path = (if parent = ''.'' then name else path_Join [parent, name]), lf_type = kind,
                    lf_size = n, lf_modified = t \<rparr>
                | _ \<Rightarrow> Inl (Message ''strconv.ParseInt'')))
      | _ \<Rightarrow> Inl (Message ''invalid listing line''))"

fun parse_lines :: "(string \<Rightarrow> string option) \<Rightarrow> string \<Rightarrow> string list \<Rightarrow> error + listed_file list" where
  "parse_lines decode parent [] = Inr []"
| "parse_lines decode parent (l # ls) =
     (if l = [] then parse_lines decode parent ls
      else case parse_line decode parent l of Inl e \<Rightarrow> Inl e
        | Inr f \<Rightarrow> (case parse_lines decode parent ls of Inl e \<Rightarrow> Inl e | Inr fs \<Rightarrow> Inr (f # fs)))"

definition file_before :: "listed_file \<Rightarrow> listed_file \<Rightarrow> bool" where
  "file_before a b =
     (if (lf_type a = ''directory'') \<noteq> (lf_type b = ''directory'') then lf_type a = ''directory''
      else to_lower (lf_name a) < to_lower (lf_name b))"

text \<open>\<open>sort.Slice\<close> leaves the order of equal entries open; the model keeps it.\<close>

definition parseFileEntries :: "(string \<Rightarrow> string option) \<Rightarrow> string \<Rightarrow> string \<Rightarrow> error + listed_file list" where
  "parseFileEntries decode parent output =
     (case parse_lines decode parent (split_char CHR 0x0A (trim_space output)) of
        Inl e \<Rightarrow> Inl e | Inr files \<Rightarrow> Inr (slice_stable file_before files))"

definition listFiles ::
  "engine_config \<Rightarrow> docker \<Rightarrow> (string \<Rightarrow> string option) \<Rightarrow> uuid \<Rightarrow> string \<Rightarrow> (reply, string \<times> listed_file list) docker_op" where
  "listFiles cfg dk decode serverID query =
     bind_op (fileRequest serverID query True) (\<lambda>relative.
     bind_op (on_error (\<lambda>_. Refused 409 ''could not list server directory'')
       (runVolumeHelper cfg dk serverID ListFiles [(''TARGET'', relative)])) (\<lambda>output.
     give (case parseFileEntries decode relative output of
         Inl _ \<Rightarrow> Inl (Refused 500 ''invalid file helper response'') | Inr files \<Rightarrow> Inr (relative, files))))"

section \<open>Reading and writing a file\<close>

text \<open>
  \<open>extract\<close> is \<open>extractRegularFile\<close> on the archive Docker returns: the content of its first regular
  file, at most 1 MiB; \<open>utf8\<close> is \<open>utf8.Valid\<close>.
\<close>

definition readFile ::
  "engine_config \<Rightarrow> docker \<Rightarrow> (docker_call list \<Rightarrow> error + string) \<Rightarrow> (string \<Rightarrow> bool) \<Rightarrow> uuid \<Rightarrow> string \<Rightarrow>
   (reply, string \<times> string) docker_op" where
  "readFile cfg dk extract utf8 serverID query =
     bind_op (fileRequest serverID query False) (\<lambda>relative.
     bind_op (on_error (\<lambda>_. Refused 404 ''file not found or unsafe'')
       (runVolumeHelper cfg dk serverID ValidateTarget [(''TARGET'', relative)])) (\<lambda>_.
     bind_op (on_error (\<lambda>_. Refused 404 ''managed server not found'') (managed_server cfg dk serverID)) (\<lambda>i.
     bind_op (on_error (\<lambda>_. Refused 404 ''file not found'')
       (ask dk (CopyFromContainer i (''/home/container/'' @ relative)) extract)) (\<lambda>content. case content of
       Inl e \<Rightarrow> give (Inl (Refused 409 (error_text e)))
     | Inr text \<Rightarrow>
         if \<not> utf8 text then give (Inl (Refused 409 ''binary files cannot be edited in the browser''))
         else give (Inr (relative, text))))))"

text \<open>The directory of a container a file at this path goes to.\<close>

definition copy_target :: "string \<Rightarrow> string" where
  "copy_target parent = (if parent = ''.'' then ''/home/container'' else ''/home/container/'' @ parent)"

definition file_for :: "engine_config \<Rightarrow> string \<Rightarrow> int \<Rightarrow> file_entry" where
  "file_for cfg relative bytes = \<lparr> fe_name = path_Base relative, fe_uid = ec_server_uid cfg,
     fe_gid = ec_server_gid cfg, fe_size = bytes \<rparr>"

definition store_file ::
  "engine_config \<Rightarrow> docker \<Rightarrow> uuid \<Rightarrow> string \<Rightarrow> int \<Rightarrow> string \<Rightarrow> string \<Rightarrow> (reply, unit) docker_op" where
  "store_file cfg dk serverID relative bytes unsafe failed =
     (let parent = path_Dir relative in
      bind_op (on_error (\<lambda>_. Refused 409 unsafe) (runVolumeHelper cfg dk serverID ListFiles [(''TARGET'', parent)])) (\<lambda>_.
      bind_op (on_error (\<lambda>_. Refused 404 ''managed server not found'') (managed_server cfg dk serverID)) (\<lambda>i.
      on_error (\<lambda>_. Refused 409 failed) (call dk (CopyToContainer i (copy_target parent) (file_for cfg relative bytes))))))"

definition writeFile ::
  "engine_config \<Rightarrow> docker \<Rightarrow> (string \<Rightarrow> bool) \<Rightarrow> uuid \<Rightarrow> (string \<times> string) option \<Rightarrow> (reply, string \<times> string) docker_op" where
  "writeFile cfg dk utf8 serverID body =
     bind_op (checked_body ''invalid server id'' ''invalid file content request'' serverID body) (\<lambda>(requested, content).
     case safeRelativePath requested False of
       Inl _ \<Rightarrow> give (Inl (Refused 400 ''invalid path or text file exceeds 1 MiB''))
     | Inr relative \<Rightarrow>
         if length content > 1048576 \<or> \<not> utf8 content
         then give (Inl (Refused 400 ''invalid path or text file exceeds 1 MiB''))
         else bind_op (store_file cfg dk serverID relative (int (length content))
             ''file parent directory is missing or unsafe'' ''could not save file'') (\<lambda>_.
           give (Inr (relative, content))))"

text \<open>\<open>len\<close> is the content length of the request, negative when it is unknown.\<close>

definition uploadFile ::
  "engine_config \<Rightarrow> docker \<Rightarrow> uuid \<Rightarrow> string \<Rightarrow> int \<Rightarrow> (reply, unit) docker_op" where
  "uploadFile cfg dk serverID query len =
     (if \<not> uuid_pattern serverID then give (Inl (Refused 400 ''invalid server id''))
      else case safeRelativePath query False of
        Inl _ \<Rightarrow> give (Inl (Refused 400 ''invalid upload path or size''))
      | Inr relative \<Rightarrow>
          if len < 0 \<or> len > 2 * 2 ^ 30 then give (Inl (Refused 400 ''invalid upload path or size''))
          else store_file cfg dk serverID relative len ''upload parent directory is missing or unsafe''
            ''could not upload file'')"

section \<open>Changing paths\<close>

definition mutatePath ::
  "engine_config \<Rightarrow> docker \<Rightarrow> volume_script \<Rightarrow> uuid \<Rightarrow> string option \<Rightarrow> (reply, unit) docker_op" where
  "mutatePath cfg dk script serverID body =
     bind_op (checked_body ''invalid server id'' ''invalid file path request'' serverID body) (\<lambda>requested.
     bind_op (give (case safeRelativePath requested False of
         Inl _ \<Rightarrow> Inl (Refused 400 ''invalid file path'') | Inr p \<Rightarrow> Inr p)) (\<lambda>relative.
     bind_op (on_error (\<lambda>_. Refused 409 ''file operation failed'')
       (runVolumeHelper cfg dk serverID script [(''TARGET'', relative)])) (\<lambda>_.
     give (Inr ()))))"

definition createDirectory :: "engine_config \<Rightarrow> docker \<Rightarrow> uuid \<Rightarrow> string option \<Rightarrow> (reply, unit) docker_op" where
  "createDirectory cfg dk = mutatePath cfg dk CreateDirectory"

definition deleteFile :: "engine_config \<Rightarrow> docker \<Rightarrow> uuid \<Rightarrow> string option \<Rightarrow> (reply, unit) docker_op" where
  "deleteFile cfg dk = mutatePath cfg dk DeletePath"

definition renameFile ::
  "engine_config \<Rightarrow> docker \<Rightarrow> uuid \<Rightarrow> (string \<times> string) option \<Rightarrow> (reply, string) docker_op" where
  "renameFile cfg dk serverID body =
     bind_op (checked_body ''invalid server id'' ''invalid rename request'' serverID body) (\<lambda>(requested, new_name).
     let newName = trim_space new_name in
     case safeRelativePath requested False of
       Inl _ \<Rightarrow> give (Inl (Refused 400 ''invalid file path or new name''))
     | Inr relative \<Rightarrow>
         if \<not> safeFileName newName then give (Inl (Refused 400 ''invalid file path or new name''))
         else if path_Base relative = newName then give (Inr relative)
         else bind_op (on_error (\<lambda>_. Refused 409 ''rename failed; the destination may already exist'')
             (runVolumeHelper cfg dk serverID RenamePath [(''TARGET'', relative), (''NEW_NAME'', newName)])) (\<lambda>_.
           give (Inr (if path_Dir relative = ''.'' then newName else path_Dir relative @ slash # newName))))"

section \<open>Reading the volume as an archive\<close>

definition archive_helper_spec :: "engine_config \<Rightarrow> uuid \<Rightarrow> container_spec" where
  "archive_helper_spec cfg serverID =
     (helper_spec fileHelperImage (kind_labels cfg serverID ''archive-helper'')
        (volume_mount (rn_volume (resourceNames cfg serverID)) ''/mnt/server'' True False))
     \<lparr> cx_user := user_of cfg, cx_entrypoint := [''sleep''], cx_cmd := [''3600''] \<rparr>"

text \<open>
  The helper stays until the archive is closed: on success its identifier is returned, and
  \<open>close_archive\<close> removes it.
\<close>

definition openServerVolumeArchive :: "engine_config \<Rightarrow> docker \<Rightarrow> uuid \<Rightarrow> string \<Rightarrow> (error, string) docker_op" where
  "openServerVolumeArchive cfg dk serverID relative =
     bind_op (server_volume cfg dk serverID) (\<lambda>_.
     bind_op (ensure_image dk ''archive helper'' fileHelperImage) (\<lambda>_.
     bind_op (failing ''create archive helper: '' (ask dk (ContainerCreate (archive_helper_spec cfg serverID)) (dk_id dk))) (\<lambda>i.
     on_failure
       (bind_op (failing ''start archive helper: '' (call dk (ContainerStart i))) (\<lambda>_.
        let target = ''/mnt/server/'' @ relative in
        bind_op (failing ''stat archive target: '' (call dk (ContainerStatPath i target))) (\<lambda>_.
        bind_op (failing ''open archive target: '' (call dk (CopyFromContainer i target))) (\<lambda>_.
        give (Inr i)))))
       (call dk (ContainerRemove i True)))))"

definition close_archive :: "docker \<Rightarrow> string \<Rightarrow> ('e, unit) docker_op" where
  "close_archive dk i = bind_op (outcome (call dk (ContainerRemove i True))) (\<lambda>_. give (Inr ()))"

text \<open>\<open>serve\<close> is what is made of the archive: the answer to the request.\<close>

definition downloadFile ::
  "engine_config \<Rightarrow> docker \<Rightarrow> (docker_call list \<Rightarrow> reply + 'a) \<Rightarrow> uuid \<Rightarrow> string \<Rightarrow> (reply, 'a) docker_op" where
  "downloadFile cfg dk serve serverID query =
     bind_op (fileRequest serverID query True) (\<lambda>relative.
     bind_op (on_error (\<lambda>_. Refused 404 ''file or directory not found'') (openServerVolumeArchive cfg dk serverID relative)) (\<lambda>i.
     deferred (\<lambda>calls. (serve calls, calls)) (\<lambda>_. (close_archive dk i :: (reply, unit) docker_op))))"

section \<open>What an accepted path is\<close>

lemma normalized_relative: "\<not> prefix [slash] v \<Longrightarrow> v = [] \<or> hd v \<noteq> slash"
  by (cases v) auto

text \<open>
  An accepted path names what the walk along the requested path reaches, without leaving the
  directory; every other relative path, of a bounded length and without NUL, is refused.
\<close>

lemma safeRelativePath_names:
  assumes "safeRelativePath raw allowRoot = Inr p" and "dir \<noteq> []"
  shows "\<exists>names. (\<forall>s \<in> set names. proper_name s) \<and> p = (if names = [] then ''.'' else strings_Join names [slash]) \<and>
    (names = [] \<longrightarrow> allowRoot) \<and> stays_below dir (split_char slash (normalized_path raw)) \<and>
    walk dir (split_char slash (normalized_path raw)) = dir @ names"
proof -
  let ?v = "normalized_path raw"
  from assms(1) have v: "\<not> prefix [slash] ?v" "path_Clean ?v \<noteq> ''..''" "\<not> prefix ''../'' (path_Clean ?v)"
    "path_Clean ?v = p" "p \<noteq> ''.'' \<or> allowRoot"
    by (simp_all add: safeRelativePath_def Let_def split: if_split_asm)
  from path_Clean_relative [OF normalized_relative [OF v(1)] assms(2)] v(2-4) obtain names where
    "stays_below dir (split_char slash ?v)" "\<forall>s \<in> set names. proper_name s"
    "walk dir (split_char slash ?v) = dir @ names" "p = (if names = [] then ''.'' else strings_Join names [slash])"
    by (auto split: if_split_asm)
  with v(5) show ?thesis by (intro exI [of _ names]) auto
qed

lemma safeRelativePath_complete:
  assumes "stays_below dir (split_char slash (normalized_path raw))" and "dir \<noteq> []"
    and "\<not> prefix [slash] (normalized_path raw)" "CHR 0x00 \<notin> set (normalized_path raw)"
    "length (normalized_path raw) \<le> 1024"
  shows "\<exists>p. safeRelativePath raw True = Inr p"
proof -
  let ?v = "normalized_path raw"
  from path_Clean_relative [OF normalized_relative [OF assms(3)] assms(2)] assms(1) obtain names where
    names: "\<forall>s \<in> set names. proper_name s" "path_Clean ?v = (if names = [] then ''.'' else strings_Join names [slash])"
    by auto
  have "path_Clean ?v \<noteq> ''..'' \<and> \<not> prefix ''../'' (path_Clean ?v)"
  proof (cases names)
    case Nil
    then show ?thesis using names(2) by simp
  next
    case (Cons n ns)
    then have "split_char slash (path_Clean ?v) = names"
      using names split_proper(1) [OF names(1)] by (simp del: strings_Join.simps)
    moreover have "split_char slash ''..'' = [''..'']" by simp
    moreover have "hd (split_char slash (''../'' @ s)) = ''..''" for s by simp
    moreover have "hd names \<noteq> ''..''" using Cons names(1) by (simp add: proper_name_def)
    ultimately show ?thesis using Cons by (auto simp: prefix_def)
  qed
  with assms show ?thesis by (simp add: safeRelativePath_def Let_def)
qed

end
