(* ===== verification/Engine_Ownership.thy ===== *)
theory Engine_Ownership
  imports Engine_Files
begin

text \<open>
  What the engine creates in Docker belongs to an operation until it is removed or handed over in the
  operation's result.  \<open>pending\<close> is what a list of calls has created and not removed; \<open>owns\<close> is a
  triple of an operation, with the resources it is responsible for before and after, and one rule for
  each way of building operations.
\<close>

section \<open>Created and not removed\<close>

datatype resource = Container string | Volume string | Network string

text \<open>What the last call of a list has created, when Docker acknowledged it.\<close>

definition acknowledged :: "docker \<Rightarrow> docker_call list \<Rightarrow> docker_call \<Rightarrow> resource set" where
  "acknowledged dk calls c =
     (if dk_error dk (calls @ [c]) \<noteq> None then {}
      else case c of
        ContainerCreate spec \<Rightarrow> {Container (dk_id dk (calls @ [c]))}
      | VolumeCreate v ls \<Rightarrow> {Volume v}
      | NetworkCreate n ls \<Rightarrow> {Network n}
      | _ \<Rightarrow> {})"

definition removed :: "docker_call \<Rightarrow> resource set" where
  "removed c = (case c of ContainerRemove i f \<Rightarrow> {Container i} | VolumeRemove v \<Rightarrow> {Volume v}
     | NetworkRemove n \<Rightarrow> {Network n} | _ \<Rightarrow> {})"

definition pending :: "docker \<Rightarrow> docker_call list \<Rightarrow> resource set" where
  "pending dk = observed (\<lambda>before c p. (p - removed c) \<union> acknowledged dk before c) [] {}"

lemma pending_step: "pending dk (calls @ [c]) = (pending dk calls - removed c) \<union> acknowledged dk calls c"
  by (simp add: pending_def observed_step)

definition creates :: "docker_call \<Rightarrow> bool" where
  "creates c \<longleftrightarrow> (case c of ContainerCreate spec \<Rightarrow> True | VolumeCreate v ls \<Rightarrow> True | NetworkCreate n ls \<Rightarrow> True | _ \<Rightarrow> False)"

lemma acknowledged_nothing: "\<not> creates c \<Longrightarrow> acknowledged dk calls c = {}"
  by (auto simp: creates_def acknowledged_def split: docker_call.splits)

section \<open>Responsibility\<close>

text \<open>
  Started with at most \<open>F\<close> beside what is there already, the operation leaves nothing when it fails
  and at most \<open>K x\<close> when it returns \<open>x\<close>.
\<close>

definition owns ::
  "docker \<Rightarrow> resource set \<Rightarrow> ('e, 'a) docker_op \<Rightarrow> ('a \<Rightarrow> resource set) \<Rightarrow> bool" where
  "owns dk F m K \<longleftrightarrow> (\<forall>B. triple (pending dk) (\<lambda>p. p \<subseteq> B \<union> F) m (\<lambda>x p. p \<subseteq> B \<union> K x) (\<lambda>_ p. p \<subseteq> B))"

definition clears :: "docker \<Rightarrow> resource set \<Rightarrow> ('e, 'a) docker_op \<Rightarrow> bool" where
  "clears dk F m \<longleftrightarrow> (\<forall>B calls. pending dk calls \<subseteq> B \<union> F \<longrightarrow> pending dk (snd (m calls)) \<subseteq> B)"

lemma ownsI:
  assumes "\<And>B calls e calls'. pending dk calls \<subseteq> B \<union> F \<Longrightarrow> m calls = (Inl e, calls') \<Longrightarrow> pending dk calls' \<subseteq> B"
    and "\<And>B calls x calls'. pending dk calls \<subseteq> B \<union> F \<Longrightarrow> m calls = (Inr x, calls') \<Longrightarrow> pending dk calls' \<subseteq> B \<union> K x"
  shows "owns dk F m K"
  unfolding owns_def by (intro allI tripleI) (rule assms(1), assumption+, rule assms(2))

lemma ownsD:
  assumes "owns dk F m K" and "pending dk calls \<subseteq> B \<union> F"
  shows "m calls = (Inl e, calls') \<Longrightarrow> pending dk calls' \<subseteq> B"
    and "m calls = (Inr x, calls') \<Longrightarrow> pending dk calls' \<subseteq> B \<union> K x"
  using tripleD [OF assms(1) [unfolded owns_def, rule_format] assms(2)] by auto

abbreviation tidy :: "docker \<Rightarrow> ('e, 'a) docker_op \<Rightarrow> bool" where
  "tidy dk m \<equiv> owns dk {} m (\<lambda>_. {})"

named_theorems owns_intros "rules of responsibility"

lemma owns_give [owns_intros]: "tidy dk (give r)"
  by (rule ownsI) (auto simp: give_def)

text \<open>What an operation returns when it ends by giving a value.\<close>

lemma bind_give: "bind_op m (\<lambda>_. give (Inr y)) calls = (Inr x, calls') \<Longrightarrow> x = y"
  by (auto simp: bind_op_Inr give_def)

lemma owns_result: "owns dk {} (give (Inr x)) K"
  by (rule ownsI) (auto simp: give_def)

lemma owns_bind:
  "owns dk F m K \<Longrightarrow> (\<And>x. owns dk (K x) (k x) K') \<Longrightarrow> owns dk F (bind_op m k) K'"
  unfolding owns_def by (intro allI triple_bind) blast+

lemma tidy_bind [owns_intros]:
  "tidy dk m \<Longrightarrow> (\<And>x. tidy dk (k x)) \<Longrightarrow> tidy dk (bind_op m k)"
  by (rule owns_bind)

lemma owns_outcome [owns_intros]: "tidy dk m \<Longrightarrow> tidy dk (outcome m)"
  unfolding owns_def by (intro allI triple_outcome) (auto elim: triple_conseq)

lemma owns_on_error [owns_intros]: "owns dk F m K \<Longrightarrow> owns dk F (on_error f m) K"
  unfolding owns_def by (intro allI triple_on_error) blast

lemma owns_ask [owns_intros]:
  assumes "\<not> creates c" shows "tidy dk (ask dk c read)"
  by (rule ownsI)
    (auto simp: ask_def Let_def pending_step acknowledged_nothing [OF assms] split: option.splits)

lemma owns_create:
  "owns dk {} (ask dk (ContainerCreate spec) (dk_id dk)) (\<lambda>i. {Container i})"
  "owns dk {} (call dk (VolumeCreate v ls)) (\<lambda>_. {Volume v})"
  "owns dk {} (call dk (NetworkCreate n ls)) (\<lambda>_. {Network n})"
  by (rule ownsI; auto simp: ask_def Let_def pending_step acknowledged_def removed_def split: option.splits)+

lemma owns_deferred:
  assumes "owns dk {} m K" and "\<And>r. clears dk F (c r)"
  shows "owns dk F (deferred m c) K"
proof (rule ownsI)
  fix B calls e calls'
  assume *: "pending dk calls \<subseteq> B \<union> F" and r: "deferred m c calls = (Inl e, calls')"
  from r obtain calls1 where m: "m calls = (Inl e, calls1)" "calls' = snd (c (Inl e) calls1)"
    by (auto simp: deferred_def split: prod.splits)
  have "pending dk calls1 \<subseteq> B \<union> F" using ownsD(1) [OF assms(1) _ m(1), of "B \<union> F"] * by simp
  then show "pending dk calls' \<subseteq> B" using assms(2) m(2) unfolding clears_def by blast
next
  fix B calls x calls'
  assume *: "pending dk calls \<subseteq> B \<union> F" and r: "deferred m c calls = (Inr x, calls')"
  from r obtain calls1 where m: "m calls = (Inr x, calls1)" "calls' = snd (c (Inr x) calls1)"
    by (auto simp: deferred_def split: prod.splits)
  have "pending dk calls1 \<subseteq> (B \<union> F) \<union> K x" using ownsD(2) [OF assms(1) _ m(1), of "B \<union> F"] * by simp
  then have "pending dk calls1 \<subseteq> (B \<union> K x) \<union> F" by auto
  then show "pending dk calls' \<subseteq> B \<union> K x" using assms(2) m(2) unfolding clears_def by blast
qed

lemma owns_on_failure:
  assumes "owns dk {} m K'" and "clears dk F c"
    and "\<And>calls x calls'. m calls = (Inr x, calls') \<Longrightarrow> F \<union> K' x \<subseteq> K x"
  shows "owns dk F (on_failure m c) K"
proof (rule ownsI)
  fix B calls e calls'
  assume *: "pending dk calls \<subseteq> B \<union> F" and r: "on_failure m c calls = (Inl e, calls')"
  from r obtain calls1 where m: "m calls = (Inl e, calls1)" "calls' = snd (c calls1)"
    by (auto simp: on_failure_def deferred_def split: prod.splits sum.splits)
  have "pending dk calls1 \<subseteq> B \<union> F" using ownsD(1) [OF assms(1) _ m(1), of "B \<union> F"] * by simp
  then show "pending dk calls' \<subseteq> B" using assms(2) m(2) unfolding clears_def by blast
next
  fix B calls x calls'
  assume *: "pending dk calls \<subseteq> B \<union> F" and r: "on_failure m c calls = (Inr x, calls')"
  from r have m: "m calls = (Inr x, calls')"
    by (auto simp: on_failure_def deferred_def give_def split: prod.splits sum.splits)
  show "pending dk calls' \<subseteq> B \<union> K x"
    using ownsD(2) [OF assms(1) _ m, of "B \<union> F"] * assms(3) [OF m] by auto
qed

lemma clears_remove [owns_intros]:
  "clears dk {Container i} (call dk (ContainerRemove i f))"
  "clears dk {Volume v} (call dk (VolumeRemove v))"
  "clears dk {Network n} (call dk (NetworkRemove n))"
  by (auto simp: clears_def ask_def Let_def pending_step removed_def acknowledged_def split: option.splits)

text \<open>Case distinctions.\<close>

lemma owns_if [owns_intros]:
  "(b \<Longrightarrow> owns dk F m K) \<Longrightarrow> (\<not> b \<Longrightarrow> owns dk F n K) \<Longrightarrow> owns dk F (if b then m else n) K"
  by simp

lemma owns_sum [owns_intros]:
  "(\<And>e. x = Inl e \<Longrightarrow> owns dk F (p e) K) \<Longrightarrow> (\<And>y. x = Inr y \<Longrightarrow> owns dk F (q y) K) \<Longrightarrow>
    owns dk F (case x of Inl e \<Rightarrow> p e | Inr y \<Rightarrow> q y) K"
  by (cases x) simp_all

lemma owns_option [owns_intros]:
  "(x = None \<Longrightarrow> owns dk F m K) \<Longrightarrow> (\<And>y. x = Some y \<Longrightarrow> owns dk F (q y) K) \<Longrightarrow>
    owns dk F (case x of None \<Rightarrow> m | Some y \<Rightarrow> q y) K"
  by (cases x) simp_all

lemma owns_prod [owns_intros]:
  "(\<And>a c. x = (a, c) \<Longrightarrow> owns dk F (m a c) K) \<Longrightarrow> owns dk F (case x of (a, c) \<Rightarrow> m a c) K"
  by (cases x) simp

lemma owns_wait_end [owns_intros]:
  assumes "\<And>n. owns dk F (a n) K" "\<And>e. owns dk F (b e) K" "owns dk F c K" "\<And>e. owns dk F (d e) K"
  shows "owns dk F (case w of Exited n \<Rightarrow> a n | WaitFailed e \<Rightarrow> b e | WaitClosed \<Rightarrow> c | WaitCancelled e \<Rightarrow> d e) K"
  using assms by (cases w) auto

lemma tidy_when [owns_intros]: "tidy dk m \<Longrightarrow> tidy dk (when_op b m)"
  by (simp add: when_op_def owns_give)

lemma tidy_refuse [owns_intros]: "tidy dk (refuse_when b e)"
  by (simp add: refuse_when_def owns_give)

lemma tidy_wait [owns_intros]: "tidy dk (wait_for dk i)"
  by (rule ownsI) (auto simp: wait_for_def Let_def pending_step acknowledged_nothing creates_def)

section \<open>The operations\<close>

lemma creates_simps [simp]:
  "\<not> creates (ContainerList ls)" "\<not> creates (ContainerInspect i)" "\<not> creates (ContainerStart i)"
  "\<not> creates (ContainerStatPath i p)" "\<not> creates (CopyFromContainer i p)" "\<not> creates (CopyArchiveToContainer i p a)"
  "\<not> creates (ContainerLogs i)" "\<not> creates (ContainerRename i n)" "\<not> creates (ContainerRemove i f)"
  "\<not> creates (ImageInspect img)" "\<not> creates (ImagePull img)" "\<not> creates (VolumeInspect v)"
  by (simp_all add: creates_def)

lemma tidy_with_container [owns_intros]:
  assumes "\<And>i. tidy dk (body i)" shows "tidy dk (with_container dk text spec body)"
  unfolding with_container_def
  by (rule owns_bind [OF owns_on_error [OF owns_create(1)]], rule owns_deferred) (intro owns_intros assms)+

lemma tidy_images [owns_intros]: "tidy dk (pullImage dk r)" "tidy dk (ensure_image dk what img)"
  unfolding ensure_image_def pullImage_def by (intro owns_intros; simp)+

lemma tidy_lookups [owns_intros]:
  "tidy dk (findManagedServer cfg dk s)" "tidy dk (managed_server cfg dk s)" "tidy dk (server_volume cfg dk s)"
  "tidy dk (validateHostPortAvailability cfg dk s ports)" "tidy dk (containerLogTail dk i)"
  unfolding managed_server_def findManagedServer_def server_volume_def validateHostPortAvailability_def containerLogTail_def
  by (intro owns_intros; simp)+

lemma tidy_helpers [owns_intros]:
  "tidy dk (runVolumeHelper cfg dk s script env)" "tidy dk (initializeVolumeOwnership cfg dk s)"
  "tidy dk (runInstaller cfg dk s spec)"
  unfolding runVolumeHelper_def initializeVolumeOwnership_def runInstaller_def Let_def
  by (intro owns_intros; simp)+

section \<open>Creation, replacement, archives\<close>

definition created_resources :: "engine_config \<Rightarrow> uuid \<Rightarrow> provision_result \<Rightarrow> resource set" where
  "created_resources cfg s r = {Container (pr_container_id r), Volume (rn_volume (resourceNames cfg s)),
     Network (rn_network (resourceNames cfg s))}"

lemma owns_created_runtime:
  "owns dk {} (create_runtime cfg dk s input) (\<lambda>r. {Container (pr_container_id r)})"
proof -
  have run: "owns dk {Container i}
      (on_failure (bind_op (when_op b (failing ''start runtime container: '' (call dk (ContainerStart i))))
         (\<lambda>_. give (Inr (provision_result_of cfg s i st)))) (call dk (ContainerRemove i True)))
      (\<lambda>r. {Container (pr_container_id r)})" for i b st
    by (rule owns_on_failure [OF _ clears_remove(1), where K' = "\<lambda>_. {}"])
      ((intro owns_intros; simp), auto dest!: bind_give simp: provision_result_of_def)
  show ?thesis
    unfolding create_runtime_def
    by (intro owns_bind [OF owns_give] owns_prod owns_bind [OF owns_on_error [OF owns_create(1)]] run)
qed

lemma owns_server:
  "owns dk {} (createServerResources cfg dk s input) (created_resources cfg s)"
proof -
  let ?volume = "rn_volume (resourceNames cfg s)" and ?network = "rn_network (resourceNames cfg s)"
  have installer: "tidy dk (case pr_install input of None \<Rightarrow> give (Inr ())
      | Some spec \<Rightarrow> when_op (trim_space (is_script spec) \<noteq> []) (runInstaller cfg dk s spec))"
    by (intro owns_intros)
  have network: "owns dk {Network ?network}
      (on_failure (bind_op (case pr_install input of None \<Rightarrow> give (Inr ())
         | Some spec \<Rightarrow> when_op (trim_space (is_script spec) \<noteq> []) (runInstaller cfg dk s spec)) (\<lambda>_.
         bind_op (initializeVolumeOwnership cfg dk s) (\<lambda>_. create_runtime cfg dk s input)))
       (call dk (NetworkRemove ?network)))
      (\<lambda>r. {Container (pr_container_id r), Network ?network})"
    by (rule owns_on_failure [OF _ clears_remove(3)])
      (rule owns_bind [OF installer], rule owns_bind [OF tidy_helpers(2)], rule owns_created_runtime, auto)
  show ?thesis
    unfolding createServerResources_def Let_def
    by (rule owns_bind [OF tidy_lookups(4)], rule owns_bind [OF owns_on_error [OF tidy_images(1)]],
        rule owns_bind [OF owns_on_error [OF owns_create(2)]], rule owns_on_failure [OF _ clears_remove(2)],
        rule owns_bind [OF owns_on_error [OF owns_create(3)]], rule network) (auto simp: created_resources_def)
qed

lemma owns_frame:
  assumes "tidy dk m"
  shows "owns dk {Container i} (on_failure m (call dk (ContainerRemove i True))) (\<lambda>_. {Container i})"
  by (rule owns_on_failure [OF assms clears_remove(1)]) auto

lemma owns_replaced:
  "owns dk {} (replaceRuntimeContainer cfg dk stamp s input) (\<lambda>r. {Container (pr_container_id r)})"
proof -
  have final: "owns dk {Container i} (bind_op (outcome (call dk (ContainerRename i n)))
      (\<lambda>_. give (Inr (provision_result_of cfg s i st)))) (\<lambda>r. {Container (pr_container_id r)})" for i n st
  proof (rule ownsI)
    fix B calls e calls'
    assume "bind_op (outcome (call dk (ContainerRename i n))) (\<lambda>_. give (Inr (provision_result_of cfg s i st))) calls = (Inl e, calls')"
    then show "pending dk calls' \<subseteq> B" by (simp add: bind_op_def outcome_def give_def ask_def Let_def)
  next
    fix B calls x calls'
    assume *: "pending dk calls \<subseteq> B \<union> {Container i}"
      and r: "bind_op (outcome (call dk (ContainerRename i n))) (\<lambda>_. give (Inr (provision_result_of cfg s i st))) calls = (Inr x, calls')"
    from r have "calls' = calls @ [ContainerRename i n]" "pr_container_id x = i"
      by (auto simp: bind_op_def outcome_def give_def ask_def Let_def provision_result_of_def)
    then show "pending dk calls' \<subseteq> B \<union> {Container (pr_container_id x)}"
      using * by (auto simp: pending_step acknowledged_nothing)
  qed
  have removal: "owns dk {Container i} (on_failure (failing t (call dk (ContainerRemove old False))) (call dk (ContainerRemove i True)))
      (\<lambda>_. {Container i})" for i old t
    by (rule owns_frame [OF owns_on_error [OF owns_ask]]) simp_all
  show ?thesis
    unfolding replaceRuntimeContainer_def Let_def
    by (rule owns_bind [OF tidy_lookups(2)], rule owns_bind [OF owns_on_error [OF owns_ask]], simp,
        rule owns_bind [OF tidy_refuse], rule owns_bind [OF tidy_lookups(4)],
        rule owns_bind [OF owns_on_error [OF tidy_images(1)]], rule owns_bind [OF owns_give], rule owns_prod,
        rule owns_bind [OF owns_on_error [OF owns_create(1)]], rule owns_bind [OF removal], rule final)
qed

lemma owns_archive: "owns dk {} (openServerVolumeArchive cfg dk s p) (\<lambda>i. {Container i})"
proof -
  have opened: "owns dk {Container i} (on_failure (bind_op (failing a (call dk (ContainerStart i))) (\<lambda>_.
      bind_op (failing b (call dk (ContainerStatPath i t))) (\<lambda>_.
      bind_op (failing c (call dk (CopyFromContainer i t))) (\<lambda>_. give (Inr i))))) (call dk (ContainerRemove i True)))
      (\<lambda>i. {Container i})" for i a b c t
    by (rule owns_on_failure [OF _ clears_remove(1), where K' = "\<lambda>_. {}"])
      ((intro owns_intros; simp), auto simp: bind_op_Inr give_def)
  show ?thesis
    unfolding openServerVolumeArchive_def Let_def
    by (rule owns_bind [OF tidy_lookups(3)], rule owns_bind [OF tidy_images(2)],
        rule owns_bind [OF owns_on_error [OF owns_create(1)]], rule opened)
qed

lemma clears_archive: "clears dk {Container i} (close_archive dk i)"
  using clears_remove(1) [of dk i True]
  by (auto simp: close_archive_def clears_def bind_op_def outcome_def give_def ask_def Let_def split: option.splits)

end
