(* ===== verification/Engine_Properties.thy ===== *)
theory Engine_Properties
  imports Engine_Ownership
begin

text \<open>
  What the engine may ask of Docker about the files of a server: paths of requests stay inside the
  server's volume.
\<close>

section \<open>Paths\<close>

text \<open>The directory of a server's files in its container.\<close>

abbreviation server_root :: "string list" where "server_root \<equiv> [''home'', ''container'']"

definition acceptable_path :: "string \<Rightarrow> bool" where
  "acceptable_path v \<longleftrightarrow> \<not> prefix [slash] v \<and> CHR 0x00 \<notin> set v \<and> length v \<le> 1024 \<and>
     stays_below server_root (split_char slash v)"

text \<open>
  C13: a path of a request is accepted exactly when it is relative, without NUL, of at most 1024
  bytes, and walking along it, component by component, never leaves the directory it starts in; the
  path handed on then names the file this walk reaches, and no component of it is empty, the
  directory itself or its parent.
\<close>

theorem paths_stay_inside:
  "(case safeRelativePath raw True of
      Inr p \<Rightarrow> acceptable_path (normalized_path raw) \<and>
        walk server_root (split_char slash p) = walk server_root (split_char slash (normalized_path raw)) \<and>
        (p = ''.'' \<or> list_all proper_name (split_char slash p))
    | Inl _ \<Rightarrow> \<not> acceptable_path (normalized_path raw))"
proof (cases "safeRelativePath raw True")
  case (Inl e)
  then show ?thesis
    using safeRelativePath_complete [of server_root raw] by (auto simp: acceptable_path_def)
next
  case (Inr p)
  from safeRelativePath_names [OF this, of server_root] obtain names where
    names: "\<forall>s \<in> set names. proper_name s" "p = (if names = [] then ''.'' else strings_Join names [slash])"
    "stays_below server_root (split_char slash (normalized_path raw))"
    "walk server_root (split_char slash (normalized_path raw)) = server_root @ names" by auto
  have "split_char slash p = (if names = [] then [''.''] else names)"
    using split_proper(1) [OF names(1)] names(2) by simp
  moreover have "acceptable_path (normalized_path raw)"
    using Inr names(3) by (simp add: acceptable_path_def safeRelativePath_def Let_def not_le split: if_split_asm)
  ultimately show ?thesis using names Inr by (auto simp: walk_step_def walk_proper list_all_iff)
qed

text \<open>A path below the directory, and a call whose paths are.\<close>

definition confined_path :: "string \<Rightarrow> bool" where
  "confined_path p \<longleftrightarrow> p = ''.'' \<or> list_all proper_name (split_char slash p)"

definition below :: "string \<Rightarrow> string \<Rightarrow> bool" where
  "below base p \<longleftrightarrow> p = base \<or> (prefix (base @ [slash]) p \<and> confined_path (drop (length base + 1) p))"

definition confined_variable :: "string \<Rightarrow> bool" where
  "confined_variable v \<longleftrightarrow> (prefix ''TARGET='' v \<longrightarrow> confined_path (drop 7 v)) \<and>
     (prefix ''NEW_NAME='' v \<longrightarrow> safeFileName (drop 9 v))"

definition confined_call :: "docker_call \<Rightarrow> bool" where
  "confined_call c = (case c of
     ContainerCreate spec \<Rightarrow> list_all confined_variable (cx_env spec)
   | CopyToContainer i dir f \<Rightarrow> below ''/home/container'' dir \<and> proper_name (fe_name f)
   | CopyFromContainer i p \<Rightarrow> below ''/home/container'' p \<or> below ''/mnt/server'' p
   | ContainerStatPath i p \<Rightarrow> below ''/mnt/server'' p
   | _ \<Rightarrow> True)"

lemma confined_calls [simp]:
  "confined_call (ContainerList ls)" "confined_call (ContainerStart i)" "confined_call (ContainerWait i)"
  "confined_call (ContainerLogs i)" "confined_call (ContainerRemove i b)" "confined_call (ImageInspect s)"
  "confined_call (ImagePull s)" "confined_call (VolumeInspect s)"
  by (simp_all add: confined_call_def)

lemma accepted_path:
  assumes "safeRelativePath raw allowRoot = Inr p"
  shows "\<exists>names. (\<forall>s \<in> set names. proper_name s) \<and> (names = [] \<longrightarrow> allowRoot) \<and>
    p = (if names = [] then ''.'' else strings_Join names [slash])"
  using safeRelativePath_names [OF assms, of server_root] by auto

lemma confined_names:
  "\<forall>s \<in> set names. proper_name s \<Longrightarrow> names \<noteq> [] \<Longrightarrow> confined_path (strings_Join names [slash])"
  unfolding confined_path_def by (rule disjI2) (simp add: split_proper(1) list_all_iff)

lemma accepted_confined:
  assumes "safeRelativePath raw allowRoot = Inr p"
  shows "confined_path p"
proof -
  from accepted_path [OF assms] obtain names where names: "\<forall>s \<in> set names. proper_name s"
    and p: "p = (if names = [] then ''.'' else strings_Join names [slash])" by blast
  show ?thesis
  proof (cases "names = []")
    case True
    then show ?thesis by (simp add: p confined_path_def)
  next
    case False
    then show ?thesis using confined_names [OF names] by (simp add: p)
  qed
qed

lemma path_Dir_names:
  assumes "\<forall>s \<in> set names. proper_name s" and "names \<noteq> []"
  shows "path_Dir (strings_Join names [slash]) = (if butlast names = [] then ''.'' else strings_Join (butlast names) [slash])"
proof -
  note split = split_proper(1) [OF assms]
  let ?d = "strings_Join (butlast names @ [[]]) [slash]"
  have butlast: "\<forall>s \<in> set (butlast names). proper_name s" using assms(1) by (auto dest: in_set_butlastD)
  note again = split_proper(2) [OF butlast]
  have keep: "fold (clean_step False) ns out = rev ns @ out" if "\<forall>s \<in> set ns. proper_name s" for ns out
    using that by (induction ns arbitrary: out) (simp_all add: clean_step_def proper_name_def)
  have head: "\<not> (?d \<noteq> [] \<and> hd ?d = slash)"
  proof (cases "butlast names")
    case Nil
    then show ?thesis by simp
  next
    case (Cons n ns)
    have "proper_name n" using butlast by (simp add: Cons)
    then have n: "n \<noteq> []" "hd n \<noteq> slash" using proper_no_slash [of n] by (simp add: proper_name_def, metis hd_in_set proper_name_def)
    obtain m ms where "ns @ [[]] = m # ms" by (cases ns) auto
    then have "?d = n @ slash # strings_Join (m # ms) [slash]" by (simp add: Cons)
    with n show ?thesis by (simp add: hd_append)
  qed
  have "clean_names False (butlast names @ [[]]) = butlast names"
    by (simp add: clean_names_def keep [OF butlast] clean_step_def)
  then have "path_Clean ?d = (if strings_Join (butlast names) [slash] = [] then ''.'' else strings_Join (butlast names) [slash])"
    using head by (simp only: path_Clean_def Let_def again if_False)
  then show ?thesis by (simp add: path_Dir_def split join_proper_empty [OF butlast])
qed

lemma accepted_parent:
  assumes "safeRelativePath raw False = Inr p"
  shows "confined_path (path_Dir p) \<and> proper_name (path_Base p) \<and> below ''/home/container'' (copy_target (path_Dir p))"
proof -
  from accepted_path [OF assms] obtain names where names: "\<forall>s \<in> set names. proper_name s" "names \<noteq> []"
    "p = strings_Join names [slash]" by auto
  have butlast: "\<forall>s \<in> set (butlast names). proper_name s" using names(1) by (auto dest: in_set_butlastD)
  have dir: "confined_path (path_Dir p)"
    unfolding names(3) path_Dir_names [OF names(1,2)] using confined_names [OF butlast] by (simp add: confined_path_def)
  moreover have "proper_name (path_Base p)" unfolding names(3) path_Base_names [OF names(1,2)] using names(1,2) by simp
  ultimately show ?thesis by (simp add: copy_target_def below_def)
qed

lemma target_environment:
  "confined_path p \<Longrightarrow> list_all confined_variable (environmentList [(''TARGET'', p)])"
  "confined_path p \<Longrightarrow> safeFileName n \<Longrightarrow> list_all confined_variable (environmentList [(''TARGET'', p), (''NEW_NAME'', n)])"
  by (simp_all add: environmentList_def lookup_def confined_variable_def)

lemma helper_confined:
  assumes "list_all confined_variable (environmentList env)"
  shows "only_calls confined_call (runVolumeHelper cfg dk s script env)"
  unfolding runVolumeHelper_def Let_def
  by (intro only_calls_intros confined_calls) (simp add: confined_call_def file_helper_spec_def helper_spec_def assms)

lemmas confined_intros = only_calls_intros helper_confined target_environment confined_calls

lemma store_confined:
  assumes "safeRelativePath raw False = Inr p"
  shows "only_calls confined_call (store_file cfg dk s p n a b)"
  unfolding store_file_def Let_def
  by (intro confined_intros) (use accepted_parent [OF assms] in \<open>simp_all add: confined_call_def file_for_def\<close>)

lemma below_path: "confined_path p \<Longrightarrow> below base (base @ slash # p)"
  by (simp add: below_def)

lemma read_confined:
  assumes "confined_path p"
  shows "confined_call (CopyFromContainer i (''/home/container/'' @ p))" "confined_call (CopyFromContainer i (''/mnt/server/'' @ p))"
    "confined_call (ContainerStatPath i (''/mnt/server/'' @ p))"
  using below_path [OF assms, of "''/home/container''"] below_path [OF assms, of "''/mnt/server''"]
  by (simp_all add: confined_call_def)

lemma given: "(\<And>x. r = Inr x \<Longrightarrow> only_calls P (k x)) \<Longrightarrow> only_calls P (bind_op (give r) k)"
  by (cases r) (simp_all add: only_calls_def bind_op_def give_def)

lemma archive_confined: "confined_path p \<Longrightarrow> only_calls confined_call (openServerVolumeArchive cfg dk s p)"
  unfolding openServerVolumeArchive_def Let_def
  by (intro confined_intros read_confined)
    (simp_all add: confined_call_def archive_helper_spec_def helper_spec_def)

text \<open>
  C16: whatever the path of a request is, no operation on the files of a server hands Docker a path
  outside the server's directory: scripts get a confined target and a plain file name, and files
  are read, written and archived below the directory only.
\<close>

theorem files_confined:
  "only_calls confined_call (listFiles cfg dk decode s query) \<and>
   only_calls confined_call (readFile cfg dk extract utf8 s query) \<and>
   only_calls confined_call (writeFile cfg dk utf8 s written) \<and>
   only_calls confined_call (uploadFile cfg dk s query len) \<and>
   only_calls confined_call (createDirectory cfg dk s body) \<and>
   only_calls confined_call (deleteFile cfg dk s body) \<and>
   only_calls confined_call (renameFile cfg dk s renamed) \<and>
   only_calls confined_call (downloadFile cfg dk serve s query)"
proof (intro conjI)
  have request: "only_calls confined_call (bind_op (fileRequest s query allow) k)"
    if "\<And>p. confined_path p \<Longrightarrow> only_calls confined_call (k p)" for allow and k :: "string \<Rightarrow> (reply, 'b) docker_op"
  proof (cases "\<exists>p. fileRequest s query allow = give (Inr p) \<and> confined_path p")
    case True
    then show ?thesis using that by (auto simp: bind_op_def give_def only_calls_def)
  next
    case False
    then have "\<exists>e. fileRequest s query allow = give (Inl e)"
      using accepted_confined by (auto simp: fileRequest_def split: sum.splits if_splits)
    then show ?thesis by (auto simp: bind_op_def give_def only_calls_def)
  qed
  show "only_calls confined_call (listFiles cfg dk decode s query)"
    unfolding listFiles_def by (intro request confined_intros)
  show "only_calls confined_call (readFile cfg dk extract utf8 s query)"
    unfolding readFile_def
    by (intro request confined_intros read_confined)
  show "only_calls confined_call (writeFile cfg dk utf8 s written)"
    unfolding writeFile_def by (intro confined_intros store_confined)
  show "only_calls confined_call (uploadFile cfg dk s query len)"
    unfolding uploadFile_def by (intro confined_intros store_confined)
  have mutate: "only_calls confined_call (mutatePath cfg dk script s body)" for script
    unfolding mutatePath_def
    by (rule confined_intros(2), rule confined_intros, rule given, intro confined_intros)
      (auto intro: accepted_confined split: sum.splits)
  then show "only_calls confined_call (createDirectory cfg dk s body)" "only_calls confined_call (deleteFile cfg dk s body)"
    by (simp_all add: createDirectory_def deleteFile_def)
  show "only_calls confined_call (renameFile cfg dk s renamed)"
    unfolding renameFile_def Let_def by (intro confined_intros) (auto intro: accepted_confined)
  show "only_calls confined_call (downloadFile cfg dk serve s query)"
    unfolding downloadFile_def close_archive_def
    by (intro request archive_confined confined_intros) (simp_all add: only_calls_def)
qed

end
