(* ===== verification/Engine_Backups.thy ===== *)
theory Engine_Backups
  imports Engine_Files Backups
begin

text \<open>
  Backups in the engine (\<open>internal/engine/backups.go\<close>): a server's volume is written to an archive
  in the backup directory, and replaced by the content of one.  The files of the engine are part of
  the environment, like Docker; what is read from them is a parameter.
\<close>

section \<open>Names and rules\<close>

text \<open>
  \<open>ai_digest\<close> is the SHA-256 of the file opened by the last call, \<open>ai_headers\<close> what the tar reader
  yields of the archive opened by it, \<open>ai_written\<close> the size and SHA-256 of the archive written by it;
  \<open>ai_glob\<close> is \<open>path.Match\<close>, a bad pattern matching nothing.
\<close>

record archive_io =
  ai_digest :: "docker_call list \<Rightarrow> error + string"
  ai_headers :: "docker_call list \<Rightarrow> (error + tar_header) list"
  ai_written :: "docker_call list \<Rightarrow> int \<times> string"
  ai_glob :: "string \<Rightarrow> string \<Rightarrow> bool"

definition to_slashes :: "string \<Rightarrow> string" where
  "to_slashes s = map (\<lambda>c. if c = CHR 0x5C then slash else c) s"

definition backupFilename :: "engine_config \<Rightarrow> uuid \<Rightarrow> string \<Rightarrow> string" where
  "backupFilename cfg serverID backupID = path_Join [ec_backup_root cfg, serverID, backupID @ ''.tar.gz'']"

definition unsafe_rule :: "string \<Rightarrow> bool" where
  "unsafe_rule raw \<longleftrightarrow> (let rule = trim_space (to_slashes raw) in
     rule = [] \<or> prefix [slash] rule \<or> sublist ''..'' rule \<or> length rule > 512)"

definition validateBackupFilters :: "string list \<Rightarrow> string list \<Rightarrow> error option" where
  "validateBackupFilters includes excludes =
     (if length includes > 100 \<or> length excludes > 100
      then Some (Message ''at most 100 include and exclude rules are allowed'')
      else if list_ex unsafe_rule (includes @ excludes)
      then Some (Message ''backup filters must be safe relative paths or globs'') else None)"

definition safeArchiveName :: "string \<Rightarrow> error + string" where
  "safeArchiveName raw =
     (let cleaned = path_Clean (trim_prefix ''./'' (to_slashes raw)) in
      if cleaned = ''..'' \<or> prefix ''../'' cleaned \<or> prefix ''/'' cleaned
      then Inl (Message ''archive contained an unsafe path'') else Inr cleaned)"

definition archiveRuleMatches :: "(string \<Rightarrow> string \<Rightarrow> bool) \<Rightarrow> string \<Rightarrow> string \<Rightarrow> bool" where
  "archiveRuleMatches glob raw name =
     (let r = trim_prefix ''./'' (to_slashes raw); rule = (if suffix ''/'' r then butlast r else r) in
      name = rule \<or> prefix (rule @ ''/'') name \<or> glob rule name)"

definition backupPathSelected ::
  "(string \<Rightarrow> string \<Rightarrow> bool) \<Rightarrow> string \<Rightarrow> string list \<Rightarrow> string list \<Rightarrow> bool" where
  "backupPathSelected glob name includes excludes =
     ((includes = [] \<or> list_ex (\<lambda>rule. archiveRuleMatches glob (trim_space rule) name) includes) \<and>
      \<not> list_ex (\<lambda>rule. archiveRuleMatches glob (trim_space rule) name) excludes)"

section \<open>Writing an archive\<close>

definition unsafe_link :: "string \<Rightarrow> bool" where
  "unsafe_link l \<longleftrightarrow> l \<noteq> [] \<and> (prefix ''/'' l \<or> sublist ''..'' l)"

fun copied_entries ::
  "(string \<Rightarrow> bool) \<Rightarrow> (error + tar_header) list \<Rightarrow> error + tar_header list" where
  "copied_entries selected [] = Inr []"
| "copied_entries selected (Inl e # hs) = Inl (Wrap ''read server archive: '' e [])"
| "copied_entries selected (Inr h # hs) =
     (case safeArchiveName (th_name h) of
        Inl e \<Rightarrow> Inl e
      | Inr name \<Rightarrow>
          if name = ''.'' \<or> \<not> selected name then copied_entries selected hs
          else if unsafe_link (th_link h) then Inl (Message (''unsafe archive link '' @ th_link h))
          else (case copied_entries selected hs of Inl e \<Rightarrow> Inl e | Inr es \<Rightarrow> Inr (h\<lparr>th_name := name\<rparr> # es)))"

text \<open>\<open>os.CreateTemp\<close> puts a text of its own in the place of the star.\<close>

definition temporary_name :: "string \<Rightarrow> string \<Rightarrow> string \<Rightarrow> string" where
  "temporary_name directory backupID random = directory @ slash # backupID @ ''-'' @ random @ ''.partial''"

text \<open>
  The copy into the temporary file, its synchronisation and closing are one call, made when every
  entry has been read: a failure on the way ends the operation in the same way.
\<close>

definition archiveServerVolume ::
  "engine_config \<Rightarrow> docker \<Rightarrow> archive_io \<Rightarrow> uuid \<Rightarrow> string \<Rightarrow> string list \<Rightarrow> string list \<Rightarrow>
   (error, backup_result) docker_op" where
  "archiveServerVolume cfg dk io serverID backupID includes excludes =
     (let directory = path_Join [ec_backup_root cfg, serverID] in
      bind_op (failing ''open isolated server archive: '' (openServerVolumeArchive cfg dk serverID ''.'')) (\<lambda>i.
      deferred
        (bind_op (\<lambda>calls. (Inr (ai_headers io calls), calls)) (\<lambda>headers.
         bind_op (failing ''create backup directory: '' (call dk (MakeDirectory directory))) (\<lambda>_.
         bind_op (failing ''create temporary backup: ''
           (ask dk (CreateTemporary directory (backupID @ ''-*.partial''))
             (\<lambda>calls. temporary_name directory backupID (dk_id dk calls)))) (\<lambda>temporary.
         deferred
           (bind_op (give (copied_entries (\<lambda>name. backupPathSelected (ai_glob io) name includes excludes) headers)) (\<lambda>entries.
            bind_op (ask dk (WriteArchive temporary entries) (ai_written io)) (\<lambda>(bytes, sha256).
            bind_op (failing ''finalize backup: '' (call dk (RenameFile temporary (backupFilename cfg serverID backupID)))) (\<lambda>_.
            give (Inr \<lparr> br_object_key = path_Join [serverID, backupID @ ''.tar.gz''], br_size_bytes = bytes,
              br_sha256 = sha256 \<rparr>)))))
           (\<lambda>_. call dk (RemoveFile temporary))))))
        (\<lambda>_. (close_archive dk i :: (error, unit) docker_op))))"

section \<open>Restoring\<close>

definition verifyBackupArchive :: "docker \<Rightarrow> archive_io \<Rightarrow> string \<Rightarrow> string \<Rightarrow> (error, unit) docker_op" where
  "verifyBackupArchive dk io filename expectedHash =
     bind_op (failing ''open backup: '' (ask dk (OpenFile filename) (ai_digest io))) (\<lambda>digest.
     case digest of
       Inl e \<Rightarrow> give (Inl e)
     | Inr hash \<Rightarrow> refuse_when (hash \<noteq> expectedHash) (Message ''backup checksum mismatch''))"

definition replaceServerVolumeFromArchive ::
  "engine_config \<Rightarrow> docker \<Rightarrow> uuid \<Rightarrow> string \<Rightarrow> string \<Rightarrow> (error, unit) docker_op" where
  "replaceServerVolumeFromArchive cfg dk serverID containerID filename =
     bind_op (failing ''open restore archive: '' (call dk (OpenFile filename))) (\<lambda>_.
     bind_op (failing ''clear server volume: '' (runVolumeHelper cfg dk serverID ClearVolume [])) (\<lambda>_.
     bind_op (failing ''open compressed backup: '' (call dk (OpenCompressed filename))) (\<lambda>_.
     failing ''restore archive into server volume: ''
       (call dk (CopyArchiveToContainer containerID ''/home/container'' filename)))))"

text \<open>\<open>fmt.Errorf("restore failed: %v; rollback also failed: %w", err, rollbackErr)\<close>\<close>

definition both_failed :: "error \<Rightarrow> error \<Rightarrow> error" where
  "both_failed e rollback = Wrap (''restore failed: '' @ error_text e @ ''; rollback also failed: '') rollback []"

definition replace_or_roll_back ::
  "engine_config \<Rightarrow> docker \<Rightarrow> uuid \<Rightarrow> string \<Rightarrow> string \<Rightarrow> string \<Rightarrow> (error, unit) docker_op" where
  "replace_or_roll_back cfg dk serverID containerID filename safety =
     bind_op (outcome (replaceServerVolumeFromArchive cfg dk serverID containerID filename)) (\<lambda>r. case r of
       Inr _ \<Rightarrow> give (Inr ())
     | Inl e \<Rightarrow>
         bind_op (outcome (replaceServerVolumeFromArchive cfg dk serverID containerID safety)) (\<lambda>rollback.
         give (Inl (case rollback of
             Inl e' \<Rightarrow> both_failed e e'
           | Inr _ \<Rightarrow> Wrap ''restore failed and the original volume was restored: '' e []))))"

text \<open>\<open>stamp\<close> is the clock value in the identifier of the safety archive.\<close>

definition safety_id :: "int \<Rightarrow> string" where
  "safety_id stamp = ''restore-safety-'' @ itoa stamp"

definition restoreServerVolume ::
  "engine_config \<Rightarrow> docker \<Rightarrow> archive_io \<Rightarrow> int \<Rightarrow> uuid \<Rightarrow> uuid \<Rightarrow> string \<Rightarrow> (error, unit) docker_op" where
  "restoreServerVolume cfg dk io stamp serverID backupID expectedHash =
     (let filename = backupFilename cfg serverID backupID; safety = backupFilename cfg serverID (safety_id stamp) in
      bind_op (managed_server cfg dk serverID) (\<lambda>containerID.
      bind_op (ask dk (ContainerInspect containerID) (dk_state dk)) (\<lambda>st.
      bind_op (refuse_when (is_running st) (Message ''server must be stopped before restoring a backup'')) (\<lambda>_.
      bind_op (verifyBackupArchive dk io filename expectedHash) (\<lambda>_.
      bind_op (failing ''create pre-restore safety archive: ''
        (archiveServerVolume cfg dk io serverID (safety_id stamp) [] [])) (\<lambda>_.
      deferred (replace_or_roll_back cfg dk serverID containerID filename safety)
        (\<lambda>_. call dk (RemoveFile safety))))))))"

section \<open>The handlers\<close>

definition sha256_text :: "string \<Rightarrow> bool" where
  "sha256_text s \<longleftrightarrow> length s = 64 \<and> list_all lower_hex s"

definition backup_ids :: "uuid \<Rightarrow> uuid \<Rightarrow> (reply, unit) docker_op" where
  "backup_ids serverID backupID = refuse_when (\<not> uuid_pattern serverID \<or> \<not> uuid_pattern backupID)
     (Refused 400 ''invalid server or backup id'')"

definition createBackup ::
  "engine_config \<Rightarrow> docker \<Rightarrow> archive_io \<Rightarrow> uuid \<Rightarrow> uuid \<Rightarrow> (string list \<times> string list) option \<Rightarrow>
   (reply, backup_result) docker_op" where
  "createBackup cfg dk io serverID backupID body =
     bind_op (backup_ids serverID backupID) (\<lambda>_.
     case body of None \<Rightarrow> give (Inl (Refused 400 ''invalid backup request''))
     | Some (includes, excludes) \<Rightarrow>
         bind_op (valid_or_400 (validateBackupFilters includes excludes)) (\<lambda>_.
         on_error (\<lambda>_. Refused 409 ''backup creation failed'')
           (archiveServerVolume cfg dk io serverID backupID includes excludes)))"

definition restoreBackup ::
  "engine_config \<Rightarrow> docker \<Rightarrow> archive_io \<Rightarrow> int \<Rightarrow> uuid \<Rightarrow> uuid \<Rightarrow> string option \<Rightarrow> (reply, unit) docker_op" where
  "restoreBackup cfg dk io stamp serverID backupID body =
     bind_op (backup_ids serverID backupID) (\<lambda>_.
     bind_op (give (case body of Some hash \<Rightarrow> if sha256_text hash then Inr hash
           else Inl (Refused 400 ''valid backup SHA-256 is required'')
         | None \<Rightarrow> Inl (Refused 400 ''valid backup SHA-256 is required''))) (\<lambda>hash.
     on_error (\<lambda>_. Refused 409 ''backup restore failed'')
       (restoreServerVolume cfg dk io stamp serverID backupID hash)))"

text \<open>\<open>missing\<close> is \<open>errors.Is(err, os.ErrNotExist)\<close>.\<close>

definition deleteBackup ::
  "engine_config \<Rightarrow> docker \<Rightarrow> (error \<Rightarrow> bool) \<Rightarrow> uuid \<Rightarrow> uuid \<Rightarrow> (reply, unit) docker_op" where
  "deleteBackup cfg dk missing serverID backupID =
     bind_op (backup_ids serverID backupID) (\<lambda>_.
     bind_op (outcome (call dk (RemoveFile (backupFilename cfg serverID backupID)))) (\<lambda>r. case r of
       Inr _ \<Rightarrow> give (Inr ())
     | Inl e \<Rightarrow> give (if missing e then Inr () else Inl (Refused 409 ''backup deletion failed''))))"

text \<open>\<open>regular\<close> tells whether the opened file could be examined and is a regular file.\<close>

definition downloadBackup ::
  "engine_config \<Rightarrow> docker \<Rightarrow> (error \<Rightarrow> bool) \<Rightarrow> (docker_call list \<Rightarrow> bool) \<Rightarrow> uuid \<Rightarrow> uuid \<Rightarrow> (reply, string) docker_op" where
  "downloadBackup cfg dk missing regular serverID backupID =
     bind_op (backup_ids serverID backupID) (\<lambda>_.
     bind_op (on_error (\<lambda>e. if missing e then Refused 404 ''backup archive not found''
         else Refused 500 ''backup archive unavailable'')
       (ask dk (OpenFile (backupFilename cfg serverID backupID)) regular)) (\<lambda>ok.
     give (if ok then Inr (backupID @ ''.tar.gz'') else Inl (Refused 500 ''backup archive unavailable''))))"

end
