(* ===== verification/Engine_Restore.thy ===== *)
theory Engine_Restore
  imports Engine_Backups
begin

text \<open>
  What a restore does to a server's volume, and what there is to fall back on: an observation of the
  calls of the engine, and triples for the parts of \<open>restoreServerVolume\<close>.
\<close>

section \<open>The volume and its archives\<close>

text \<open>
  \<open>Lost\<close> is a volume that was cleared without a verified archive and a safety archive; \<open>Damaged\<close> one
  that something was unpacked into without clearing it, or incompletely.
\<close>

datatype content = Untouched | Clearing string | Emptied | Damaged | Unpacked string | Lost

record disk =
  di_verified :: bool
  di_written :: "string option"
  di_saved :: bool
  di_content :: content

definition fresh_disk :: disk where
  "fresh_disk = \<lparr> di_verified = False, di_written = None, di_saved = False, di_content = Untouched \<rparr>"

text \<open>A restore of the archive \<open>filename\<close> with this checksum, and its safety archive.\<close>

record restore_plan =
  rp_filename :: string
  rp_hash :: string
  rp_safety :: string

definition clear_helper :: "engine_config \<Rightarrow> uuid \<Rightarrow> container_spec" where
  "clear_helper cfg s = file_helper_spec cfg s ClearVolume []"

definition disk_step ::
  "engine_config \<Rightarrow> docker \<Rightarrow> archive_io \<Rightarrow> uuid \<Rightarrow> restore_plan \<Rightarrow> docker_call list \<Rightarrow> docker_call \<Rightarrow> disk \<Rightarrow> disk" where
  "disk_step cfg dk io s plan before c d =
     (let calls = before @ [c]; ok = (dk_error dk calls = None) in
      case c of
        OpenFile f \<Rightarrow> if ok \<and> f = rp_filename plan \<and> ai_digest io calls = Inr (rp_hash plan) then d\<lparr>di_verified := True\<rparr> else d
      | WriteArchive t es \<Rightarrow> if ok then d\<lparr>di_written := Some t\<rparr> else d\<lparr>di_written := None\<rparr>
      | RenameFile t f \<Rightarrow> if ok \<and> f = rp_safety plan \<and> di_written d = Some t then d\<lparr>di_saved := True\<rparr> else d
      | RemoveFile f \<Rightarrow> if f = rp_safety plan then d\<lparr>di_saved := False\<rparr> else d
      | ContainerCreate spec \<Rightarrow>
          if ok \<and> spec = clear_helper cfg s
          then d\<lparr>di_content := (if di_verified d \<and> di_saved d then Clearing (dk_id dk calls) else Lost)\<rparr> else d
      | ContainerWait i \<Rightarrow>
          if di_content d = Clearing i \<and> dk_wait dk calls \<in> {Exited 0, WaitClosed} then d\<lparr>di_content := Emptied\<rparr> else d
      | CopyArchiveToContainer i dir f \<Rightarrow>
          d\<lparr>di_content := (if di_content d = Lost then Lost else if ok \<and> di_content d = Emptied then Unpacked f else Damaged)\<rparr>
      | _ \<Rightarrow> d)"

definition disk_after ::
  "engine_config \<Rightarrow> docker \<Rightarrow> archive_io \<Rightarrow> uuid \<Rightarrow> restore_plan \<Rightarrow> docker_call list \<Rightarrow> disk" where
  "disk_after cfg dk io s plan = observed (disk_step cfg dk io s plan) [] fresh_disk"

lemma disk_after_step:
  "disk_after cfg dk io s plan (calls @ [c]) = disk_step cfg dk io s plan calls c (disk_after cfg dk io s plan calls)"
  by (simp add: disk_after_def observed_step)

lemma disk_neutral:
  "(\<And>before d. disk_step cfg dk io s plan before c d = d) \<Longrightarrow> neutral (disk_after cfg dk io s plan) c"
  by (simp add: neutral_def disk_after_step)

lemma neutral_calls [simp]:
  "neutral (disk_after cfg dk io s plan) (ContainerList ls)" "neutral (disk_after cfg dk io s plan) (ContainerInspect i)"
  "neutral (disk_after cfg dk io s plan) (ContainerStart i)" "neutral (disk_after cfg dk io s plan) (ContainerLogs i)"
  "neutral (disk_after cfg dk io s plan) (ContainerRemove i f)" "neutral (disk_after cfg dk io s plan) (ContainerStatPath i p)"
  "neutral (disk_after cfg dk io s plan) (CopyFromContainer i p)" "neutral (disk_after cfg dk io s plan) (ImageInspect img)"
  "neutral (disk_after cfg dk io s plan) (ImagePull img)" "neutral (disk_after cfg dk io s plan) (VolumeInspect v)"
  "neutral (disk_after cfg dk io s plan) (MakeDirectory p)" "neutral (disk_after cfg dk io s plan) (CreateTemporary p t)"
  "neutral (disk_after cfg dk io s plan) (OpenCompressed p)"
  "neutral (disk_after cfg dk io s plan) (ContainerCreate (archive_helper_spec cfg s))"
  by (rule disk_neutral; simp add: disk_step_def Let_def clear_helper_def file_helper_spec_def archive_helper_spec_def
      helper_spec_def)+

lemma neutral_parts:
  "only_calls (neutral (disk_after cfg dk io s plan)) (managed_server cfg dk s)"
  "only_calls (neutral (disk_after cfg dk io s plan)) (server_volume cfg dk s)"
  "only_calls (neutral (disk_after cfg dk io s plan)) (ensure_image dk what img)"
  "only_calls (neutral (disk_after cfg dk io s plan)) (openServerVolumeArchive cfg dk s p)"
  "only_calls (neutral (disk_after cfg dk io s plan)) (close_archive dk i :: (error, unit) docker_op)"
  unfolding openServerVolumeArchive_def close_archive_def Let_def
  by (intro only_calls_intros neutral_calls)+

section \<open>The parts of a restore\<close>

definition guarded :: "disk \<Rightarrow> bool" where
  "guarded d \<longleftrightarrow> di_verified d \<and> di_saved d \<and> di_content d \<noteq> Lost"

lemma verify_triple:
  "triple (disk_after cfg dk io s plan) (\<lambda>d. d = fresh_disk)
     (verifyBackupArchive dk io (rp_filename plan) (rp_hash plan))
     (\<lambda>_ d. d = fresh_disk\<lparr>di_verified := True\<rparr>) (\<lambda>_ d. di_content d = Untouched)"
  unfolding verifyBackupArchive_def
proof (rule triple_bind)
  show "triple (disk_after cfg dk io s plan) (\<lambda>d. d = fresh_disk)
     (failing ''open backup: '' (ask dk (OpenFile (rp_filename plan)) (ai_digest io)))
     (\<lambda>digest d. d = (if digest = Inr (rp_hash plan) then fresh_disk\<lparr>di_verified := True\<rparr> else fresh_disk))
     (\<lambda>_ d. di_content d = Untouched)"
    by (intro triple_on_error triple_ask) (simp_all add: disk_after_step disk_step_def Let_def fresh_disk_def)
qed (auto intro!: triple_give simp: refuse_when_def fresh_disk_def split: sum.split)

lemma itoa_no_slash: "slash \<notin> set (itoa n)"
proof -
  have digit: "slash \<noteq> char_of (48 + k)" if "k < 10" for k :: nat
  proof
    assume "slash = char_of (48 + k)"
    then have "(of_char slash :: nat) = of_char (char_of (48 + k) :: char)" by simp
    with that show False by simp
  qed
  have "slash \<notin> set (nat_digits n)" for n
    by (induction n rule: nat_digits.induct) (subst nat_digits.simps, auto dest: digit [THEN notE, rotated])
  then show ?thesis by (auto simp: itoa_def)
qed

lemma safety_named: "suffix ''.tar.gz'' (backupFilename cfg s (safety_id stamp))"
proof -
  have "proper_name (safety_id stamp @ ''.tar.gz'')"
    by (simp add: proper_name_def safety_id_def itoa_no_slash)
  from path_Join_suffix [OF this, of "[ec_backup_root cfg, s]"] show ?thesis
    by (auto simp: backupFilename_def intro: suffix_order.trans [of _ "safety_id stamp @ ''.tar.gz''"] suffixI)
qed

lemma temporary_differs: "temporary_name dir i r \<noteq> backupFilename cfg s (safety_id stamp)"
proof
  assume "temporary_name dir i r = backupFilename cfg s (safety_id stamp)"
  moreover have "last (temporary_name dir i r) = CHR ''l''" by (simp add: temporary_name_def)
  moreover have "last (backupFilename cfg s (safety_id stamp)) = CHR ''z''"
    using safety_named [of cfg s stamp] by (auto simp: suffix_def)
  ultimately show False by simp
qed

text \<open>The safety archive: afterwards it is there, and the volume is untouched.\<close>

lemma archive_triple:
  assumes "rp_safety plan = backupFilename cfg s (safety_id stamp)"
  shows "triple (disk_after cfg dk io s plan) (\<lambda>d. d = fresh_disk\<lparr>di_verified := True\<rparr>)
     (archiveServerVolume cfg dk io s (safety_id stamp) includes excludes)
     (\<lambda>_ d. guarded d \<and> di_content d = Untouched) (\<lambda>_ d. di_content d = Untouched)"
proof -
  let ?O = "disk_after cfg dk io s plan" and ?ready = "\<lambda>d. d = fresh_disk\<lparr>di_verified := True\<rparr>"
  have written: "triple ?O ?ready (ask dk (WriteArchive t es) (ai_written io))
      (\<lambda>_ d. d = fresh_disk\<lparr>di_verified := True, di_written := Some t\<rparr>) (\<lambda>_ d. di_content d = Untouched)" for t es
    by (intro triple_ask) (simp_all add: disk_after_step disk_step_def Let_def fresh_disk_def)
  have renamed: "triple ?O (\<lambda>d. d = fresh_disk\<lparr>di_verified := True, di_written := Some t\<rparr>)
      (failing msg (call dk (RenameFile t (backupFilename cfg s (safety_id stamp)))))
      (\<lambda>_ d. guarded d \<and> di_content d = Untouched) (\<lambda>_ d. di_content d = Untouched)" for t msg
    by (intro triple_on_error triple_ask)
      (simp_all add: disk_after_step disk_step_def Let_def fresh_disk_def guarded_def assms)
  let ?good = "\<lambda>r d. case r of Inl _ \<Rightarrow> di_content d = Untouched | Inr _ \<Rightarrow> guarded d \<and> di_content d = Untouched"
  have removed: "triple ?O (?good r) (call dk (RemoveFile (temporary_name dir i rnd))) (\<lambda>_. ?good r) (\<lambda>_. ?good r)" for r dir i rnd
    by (rule triple_neutral, intro only_calls_intros disk_neutral)
      (simp add: disk_step_def assms temporary_differs Let_def)
  have closed: "triple ?O (?good r) (close_archive dk i :: (error, unit) docker_op) (\<lambda>_. ?good r) (\<lambda>_. ?good r)" for r i
    by (rule triple_neutral [OF neutral_parts(5)])
  have ready: "triple ?O ?ready m (\<lambda>_. ?ready) (\<lambda>_ d. di_content d = Untouched)" if "only_calls (neutral ?O) m" for m :: "(error, 'b) docker_op"
    by (rule triple_conseq [OF triple_neutral [OF that, of ?ready]]) (auto simp: fresh_disk_def)
  have ready_failing: "triple ?O ?ready (failing msg m) (\<lambda>_. ?ready) (\<lambda>_ d. di_content d = Untouched)"
    if "only_calls (neutral ?O) m" for m :: "(error, 'b) docker_op" and msg
    by (rule triple_on_error) (rule ready [OF that])
  have read: "only_calls P (\<lambda>calls. (Inr (f calls), calls))" for P f by (simp add: only_calls_def)
  have inner: "triple ?O ?ready (bind_op (give entries) (\<lambda>es. bind_op (ask dk (WriteArchive t es) (ai_written io)) (\<lambda>(n, h).
      bind_op (failing msg (call dk (RenameFile t (backupFilename cfg s (safety_id stamp))))) (\<lambda>_. give (Inr (result n h))))))
      (\<lambda>_ d. guarded d \<and> di_content d = Untouched) (\<lambda>_ d. di_content d = Untouched)"
    for entries t msg and result :: "int \<Rightarrow> string \<Rightarrow> backup_result"
    by (rule triple_bind [OF ready [OF only_calls_give]], rule triple_bind [OF written], clarify,
        rule triple_bind [OF renamed], rule triple_give) simp
  note deferring = triple_deferred [where A = ?good and B = ?good, simplified]
  have temporary: "triple ?O ?ready (failing msg (ask dk (CreateTemporary dir pat) (\<lambda>calls. temporary_name dir i (dk_id dk calls))))
      (\<lambda>t d. ?ready d \<and> (\<exists>rnd. t = temporary_name dir i rnd)) (\<lambda>_ d. di_content d = Untouched)" for msg dir pat i
    by (intro triple_on_error triple_ask) (auto simp: disk_after_step disk_step_def Let_def fresh_disk_def)
  show ?thesis
    unfolding archiveServerVolume_def Let_def
    by (rule triple_bind [OF ready_failing [OF neutral_parts(4)]],
        rule deferring [OF _ closed [simplified]], rule triple_bind [OF ready [OF read]],
        rule triple_bind [OF ready_failing [OF only_calls_ask]], simp,
        rule triple_bind [OF temporary], rule triple_fact, clarify,
        rule deferring [OF inner [simplified] removed [simplified]])
qed

text \<open>Replacing the volume, with the archives at hand.\<close>

lemma clear_triple:
  "triple (disk_after cfg dk io s plan) guarded (runVolumeHelper cfg dk s ClearVolume [])
     (\<lambda>_ d. guarded d \<and> di_content d = Emptied) (\<lambda>_. guarded)"
proof -
  let ?O = "disk_after cfg dk io s plan"
  let ?on = "\<lambda>i d. guarded d \<and> di_content d = Clearing i"
  let ?done = "\<lambda>w d. guarded d \<and> (w \<in> {Exited 0, WaitClosed} \<longrightarrow> di_content d = Emptied)"
  have keep: "triple ?O P m (\<lambda>_. P) (\<lambda>_. guarded)" if "only_calls (neutral ?O) m" "\<And>d. P d \<Longrightarrow> guarded d"
    for P and m :: "(error, 'b) docker_op"
    by (rule triple_conseq [OF triple_neutral [OF that(1), of P]]) (auto intro: that(2))
  have keep_failing: "triple ?O P (failing msg m) (\<lambda>_. P) (\<lambda>_. guarded)" if "only_calls (neutral ?O) m" "\<And>d. P d \<Longrightarrow> guarded d"
    for P and m :: "(error, 'b) docker_op" and msg
    by (rule triple_on_error) (rule keep [OF that])
  have created: "triple ?O guarded (failing msg (ask dk (ContainerCreate (file_helper_spec cfg s ClearVolume [])) (dk_id dk)))
      ?on (\<lambda>_. guarded)" for msg
    by (intro triple_on_error triple_ask) (auto simp: disk_after_step disk_step_def Let_def guarded_def clear_helper_def)
  have waited: "triple ?O (?on i) (wait_for dk i) ?done (\<lambda>_. guarded)" for i
    by (rule tripleI) (auto simp: wait_for_def Let_def disk_after_step disk_step_def guarded_def)
  note deferring = triple_deferred [where A = "\<lambda>r d. case r of Inl _ \<Rightarrow> guarded d | Inr _ \<Rightarrow> guarded d \<and> di_content d = Emptied"
      and B = "\<lambda>r d. case r of Inl _ \<Rightarrow> guarded d | Inr _ \<Rightarrow> guarded d \<and> di_content d = Emptied", simplified]
  have read: "triple ?O (?done w) (bind_op (failing msg (ask dk (ContainerLogs i) (dk_output dk))) (\<lambda>logs. case logs of
        Inl e \<Rightarrow> give (Inl (Wrap msg' e []))
      | Inr (stdout, stderr) \<Rightarrow> let status = (case w of Exited n \<Rightarrow> n | _ \<Rightarrow> 0) in
          if status \<noteq> 0 then give (Inl (f status stderr)) else give (Inr stdout)))
      (\<lambda>_ d. guarded d \<and> di_content d = Emptied) (\<lambda>_. guarded)"
    if "w = WaitClosed \<or> (\<exists>n. w = Exited n)" for w i msg msg' f
    by (rule triple_bind [OF keep_failing [OF only_calls_ask]])
      (use that in \<open>auto intro!: triple_give split: sum.splits\<close>)
  have ends: "triple ?O (?done w) (case w of WaitFailed e \<Rightarrow> give (Inl (Wrap msg0 e [])) | WaitCancelled e \<Rightarrow> give (Inl e)
      | _ \<Rightarrow> bind_op (failing msg (ask dk (ContainerLogs i) (dk_output dk))) (\<lambda>logs. case logs of
            Inl e \<Rightarrow> give (Inl (Wrap msg' e []))
          | Inr (stdout, stderr) \<Rightarrow> let status = (case w of Exited n \<Rightarrow> n | _ \<Rightarrow> 0) in
              if status \<noteq> 0 then give (Inl (f status stderr)) else give (Inr stdout)))
      (\<lambda>_ d. guarded d \<and> di_content d = Emptied) (\<lambda>_. guarded)" for w i msg0 msg msg' f
    using read [of w msg i msg' f] by (cases w) (auto intro: triple_give)
  show ?thesis
    unfolding runVolumeHelper_def with_container_def
    by (rule triple_bind [OF keep [OF neutral_parts(2)]], simp,
        rule triple_bind [OF keep [OF neutral_parts(3)]], simp, rule triple_bind [OF created], rule deferring,
        rule triple_bind [OF keep_failing [OF only_calls_ask]], simp, simp,
        rule triple_bind [OF waited], rule ends, rule triple_neutral, simp add: only_calls_ask)
qed

lemma replace_triple:
  "triple (disk_after cfg dk io s plan) guarded (replaceServerVolumeFromArchive cfg dk s i f)
     (\<lambda>_ d. guarded d \<and> di_content d = Unpacked f) (\<lambda>_. guarded)"
proof -
  let ?O = "disk_after cfg dk io s plan"
  have opened: "triple ?O guarded (failing msg (call dk (OpenFile f))) (\<lambda>_. guarded) (\<lambda>_. guarded)" for msg
    by (intro triple_on_error triple_ask) (auto simp: disk_after_step disk_step_def Let_def guarded_def)
  have copied: "triple ?O (\<lambda>d. guarded d \<and> di_content d = Emptied) (failing msg (call dk (CopyArchiveToContainer i dir f)))
      (\<lambda>_ d. guarded d \<and> di_content d = Unpacked f) (\<lambda>_. guarded)" for msg dir
    by (intro triple_on_error triple_ask) (auto simp: disk_after_step disk_step_def Let_def guarded_def)
  have unzipped: "triple ?O (\<lambda>d. guarded d \<and> di_content d = Emptied) (failing msg (call dk (OpenCompressed f)))
      (\<lambda>_ d. guarded d \<and> di_content d = Emptied) (\<lambda>_. guarded)" for msg
    by (intro triple_on_error triple_ask) (auto simp: disk_after_step disk_step_def Let_def guarded_def)
  show ?thesis
    unfolding replaceServerVolumeFromArchive_def
    by (rule triple_bind [OF opened], rule triple_bind [OF triple_on_error], rule clear_triple,
        rule triple_bind [OF unzipped], rule copied)
qed

text \<open>
  What a restore may end with.  When the archive could not be unpacked and neither could the safety
  archive, the latter is removed all the same.
\<close>

definition replaced_end :: "restore_plan \<Rightarrow> error + unit \<Rightarrow> disk \<Rightarrow> bool" where
  "replaced_end plan r d \<longleftrightarrow> (case r of
     Inr _ \<Rightarrow> di_verified d \<and> di_content d = Unpacked (rp_filename plan)
   | Inl e \<Rightarrow> di_content d = Unpacked (rp_safety plan) \<or> (di_content d \<noteq> Lost \<and> (\<exists>e1 e2. e = both_failed e1 e2)))"

definition restore_end :: "restore_plan \<Rightarrow> error + unit \<Rightarrow> disk \<Rightarrow> bool" where
  "restore_end plan r d \<longleftrightarrow> (case r of
     Inr _ \<Rightarrow> di_verified d \<and> di_content d = Unpacked (rp_filename plan)
   | Inl e \<Rightarrow> di_content d = Untouched \<or> di_content d = Unpacked (rp_safety plan) \<or>
       (di_content d \<noteq> Lost \<and> (\<exists>e1 e2. e = both_failed e1 e2) \<and> \<not> di_saved d))"

lemma roll_back_triple:
  "triple (disk_after cfg dk io s plan) guarded
     (replace_or_roll_back cfg dk s i (rp_filename plan) (rp_safety plan))
     (\<lambda>u d. replaced_end plan (Inr u) d) (\<lambda>e d. replaced_end plan (Inl e) d)"
proof -
  let ?O = "disk_after cfg dk io s plan"
  have attempt: "triple ?O guarded (outcome (replaceServerVolumeFromArchive cfg dk s i f))
      (\<lambda>r d. guarded d \<and> (\<forall>u. r = Inr u \<longrightarrow> di_content d = Unpacked f)) E" for f and E :: "error \<Rightarrow> disk \<Rightarrow> bool"
    by (rule triple_outcome, rule triple_conseq [OF replace_triple]) auto
  show ?thesis
    unfolding replace_or_roll_back_def
  proof (rule triple_bind [OF attempt])
    fix r :: "error + unit"
    show "triple ?O (\<lambda>d. guarded d \<and> (\<forall>u. r = Inr u \<longrightarrow> di_content d = Unpacked (rp_filename plan)))
       (case r of Inl e \<Rightarrow> bind_op (outcome (replaceServerVolumeFromArchive cfg dk s i (rp_safety plan)))
           (\<lambda>rollback. give (Inl (case rollback of Inl e' \<Rightarrow> both_failed e e'
             | Inr _ \<Rightarrow> Wrap ''restore failed and the original volume was restored: '' e [])))
        | Inr _ \<Rightarrow> give (Inr ()))
       (\<lambda>u d. replaced_end plan (Inr u) d) (\<lambda>e d. replaced_end plan (Inl e) d)"
    proof (cases r)
      case (Inl e)
      show ?thesis
        unfolding Inl sum.case
        by (rule triple_bind [OF triple_pre [OF attempt]], simp, rule triple_give)
          (auto simp: replaced_end_def guarded_def split: sum.splits)
    next
      case (Inr u)
      then show ?thesis by (auto intro!: triple_give simp: replaced_end_def guarded_def)
    qed
  qed
qed

lemma restore_triple:
  assumes "plan = \<lparr> rp_filename = backupFilename cfg s b, rp_hash = hash, rp_safety = backupFilename cfg s (safety_id stamp) \<rparr>"
  shows "triple (disk_after cfg dk io s plan) (\<lambda>d. d = fresh_disk) (restoreServerVolume cfg dk io stamp s b hash)
     (\<lambda>u d. restore_end plan (Inr u) d) (\<lambda>e d. restore_end plan (Inl e) d)"
proof -
  let ?O = "disk_after cfg dk io s plan"
  have keep: "triple ?O (\<lambda>d. d = fresh_disk) m (\<lambda>_ d. d = fresh_disk) (\<lambda>e d. restore_end plan (Inl e) d)"
    if "only_calls (neutral ?O) m" for m :: "(error, 'b) docker_op"
    by (rule triple_conseq [OF triple_neutral [OF that, of "\<lambda>d. d = fresh_disk"]]) (auto simp: restore_end_def fresh_disk_def)
  have removed: "triple ?O (replaced_end plan r) (call dk (RemoveFile (rp_safety plan)))
      (\<lambda>_. restore_end plan r) (\<lambda>_. restore_end plan r)" for r
    by (intro triple_ask) (auto simp: disk_after_step disk_step_def Let_def restore_end_def replaced_end_def split: sum.splits)
  have names: "backupFilename cfg s b = rp_filename plan" "hash = rp_hash plan"
    "backupFilename cfg s (safety_id stamp) = rp_safety plan" by (simp_all add: assms)
  have verified: "triple ?O (\<lambda>d. d = fresh_disk) (verifyBackupArchive dk io (rp_filename plan) (rp_hash plan))
      (\<lambda>_ d. d = fresh_disk\<lparr>di_verified := True\<rparr>) (\<lambda>e d. restore_end plan (Inl e) d)"
    by (rule triple_conseq [OF verify_triple]) (auto simp: restore_end_def)
  have saved: "triple ?O (\<lambda>d. d = fresh_disk\<lparr>di_verified := True\<rparr>)
      (failing msg (archiveServerVolume cfg dk io s (safety_id stamp) [] []))
      (\<lambda>_. guarded) (\<lambda>e d. restore_end plan (Inl e) d)" for msg
    by (rule triple_on_error, rule triple_conseq [OF archive_triple [OF names(3) [symmetric]]]) (auto simp: restore_end_def)
  show ?thesis
    unfolding restoreServerVolume_def Let_def names
    by (rule triple_bind [OF keep [OF neutral_parts(1)]],
        rule triple_bind [OF keep], simp add: only_calls_ask,
        rule triple_bind [OF keep [OF only_calls_refuse_when]],
        rule triple_bind [OF verified], rule triple_bind [OF saved],
        rule triple_deferred [where A = "replaced_end plan" and B = "restore_end plan", OF roll_back_triple removed])
qed

end
