(* ===== verification/Engine_Isolation.thy ===== *)
theory Engine_Isolation
  imports Engine_Properties Engine_Restore
begin

text \<open>
  What the engine's operations have in common: each is confined to the server it is about, in what it
  asks of Docker and in the files it touches, and what it creates it removes when it fails.
\<close>

section \<open>Containers\<close>

text \<open>
  A container of a server: without capabilities and new privileges, labelled, and with one mount, the
  server's own volume.  Beyond that it depends on the kind: the initializer of a volume is the one
  that runs as root and with capabilities, for one command and without a network; the helpers run as
  the server user, without a network and on a read-only file system; the server itself and its
  installer run as their image says and on the server's own network.
\<close>

definition own_container :: "engine_config \<Rightarrow> uuid \<Rightarrow> container_spec \<Rightarrow> bool" where
  "own_container cfg s spec \<longleftrightarrow>
     cx_cap_drop spec = [''ALL''] \<and> cx_security_opt spec = [''no-new-privileges:true''] \<and>
     labelsMatch (cx_labels spec) (ec_instance_id cfg) s \<and>
     map mo_type (cx_mounts spec) = [''volume''] \<and> map mo_source (cx_mounts spec) = [rn_volume (resourceNames cfg s)] \<and>
     (let kind = label (cx_labels spec) ''gg.dockside.kind'' in
      if kind = ''volume-initializer''
      then cx_user spec = ''0:0'' \<and> cx_cap_add spec = [''CHOWN'', ''FOWNER'', ''DAC_OVERRIDE''] \<and>
        cx_network spec = ''none'' \<and> cx_readonly_rootfs spec \<and>
        cx_entrypoint spec = [''sh'', ''-c''] \<and>
        cx_cmd spec = [''chown -R '' @ user_of cfg @ '' /mnt/server && chmod 0750 /mnt/server'']
      else cx_cap_add spec = [] \<and>
        (if kind = ''file-helper'' \<or> kind = ''archive-helper''
         then cx_user spec = user_of cfg \<and> cx_network spec = ''none'' \<and> cx_readonly_rootfs spec
         else kind \<in> {''server'', ''installer''} \<and> cx_user spec = [] \<and>
           cx_network spec = rn_network (resourceNames cfg s)))"

section \<open>Calls\<close>

text \<open>
  The backup directory of a server, its archives and the files archives are written to; the text
  in the middle of a temporary name is \<open>os.CreateTemp\<close>'s.
\<close>

definition backup_directory :: "engine_config \<Rightarrow> uuid \<Rightarrow> string" where
  "backup_directory cfg s = path_Join [ec_backup_root cfg, s]"

definition own_archive :: "engine_config \<Rightarrow> uuid \<Rightarrow> string \<Rightarrow> bool" where
  "own_archive cfg s f \<longleftrightarrow> (\<exists>n. proper_name n \<and> f = backup_directory cfg s @ slash # n)"

definition own_temporary :: "engine_config \<Rightarrow> uuid \<Rightarrow> string \<Rightarrow> bool" where
  "own_temporary cfg s f \<longleftrightarrow> (\<exists>i r. slash \<notin> set i \<and> f = temporary_name (backup_directory cfg s) i r)"

definition own_call :: "engine_config \<Rightarrow> uuid \<Rightarrow> docker_call \<Rightarrow> bool" where
  "own_call cfg s c = (let names = resourceNames cfg s in case c of
     ContainerCreate spec \<Rightarrow> own_container cfg s spec
   | VolumeCreate v ls \<Rightarrow> v = rn_volume names \<and> labelsMatch ls (ec_instance_id cfg) s
   | NetworkCreate n ls \<Rightarrow> n = rn_network names \<and> labelsMatch ls (ec_instance_id cfg) s
   | VolumeRemove v \<Rightarrow> v \<in> {rn_volume names, rn_db_volume names}
   | NetworkRemove n \<Rightarrow> n = rn_network names
   | MakeDirectory d \<Rightarrow> d = backup_directory cfg s
   | CreateTemporary d pattern \<Rightarrow> d = backup_directory cfg s \<and> slash \<notin> set pattern
   | WriteArchive f entries \<Rightarrow> own_temporary cfg s f
   | RenameFile f g \<Rightarrow> own_temporary cfg s f \<and> own_archive cfg s g
   | OpenFile f \<Rightarrow> own_archive cfg s f
   | OpenCompressed f \<Rightarrow> own_archive cfg s f
   | CopyArchiveToContainer i target f \<Rightarrow> target = ''/home/container'' \<and> own_archive cfg s f
   | RemoveFile f \<Rightarrow> own_temporary cfg s f \<or> own_archive cfg s f
   | RemoveTree d \<Rightarrow> d = backup_directory cfg s
   | _ \<Rightarrow> True)"

lemma own_calls [simp]:
  "own_call cfg s (ContainerList ls)" "own_call cfg s (ContainerInspect i)" "own_call cfg s (ContainerStart i)"
  "own_call cfg s (ContainerStop i t)" "own_call cfg s (ContainerRestart i t)" "own_call cfg s (ContainerKill i)"
  "own_call cfg s (ContainerWait i)" "own_call cfg s (ContainerLogs i)" "own_call cfg s (ContainerRename i n)"
  "own_call cfg s (ContainerUpdate i p)" "own_call cfg s (ContainerRemove i b)" "own_call cfg s (ContainerStatPath i p)"
  "own_call cfg s (CopyFromContainer i p)" "own_call cfg s (CopyToContainer i p f)" "own_call cfg s (ImageInspect img)"
  "own_call cfg s (ImagePull img)" "own_call cfg s (VolumeInspect v)" "own_call cfg s (NetworkInspect n)"
  by (simp_all add: own_call_def Let_def)

lemma own_labels: "labelsMatch (managedLabels cfg s) (ec_instance_id cfg) s"
  "labelsMatch (kind_labels cfg s k) (ec_instance_id cfg) s"
  by (simp_all add: labelsMatch_def label_def managedLabels_def kind_labels_def)

lemma own_kinds: "label (managedLabels cfg s) ''gg.dockside.kind'' = ''server''"
  "label (kind_labels cfg s k) ''gg.dockside.kind'' = k"
  by (simp_all add: label_def managedLabels_def kind_labels_def)

lemma own_resources [simp]:
  "own_call cfg s (VolumeCreate (rn_volume (resourceNames cfg s)) (managedLabels cfg s))"
  "own_call cfg s (NetworkCreate (rn_network (resourceNames cfg s)) (managedLabels cfg s))"
  "own_call cfg s (VolumeRemove (rn_volume (resourceNames cfg s)))"
  "own_call cfg s (VolumeRemove (rn_db_volume (resourceNames cfg s)))"
  "own_call cfg s (NetworkRemove (rn_network (resourceNames cfg s)))"
  "own_call cfg s (RemoveTree (path_Join [ec_backup_root cfg, s]))"
  "own_call cfg s (MakeDirectory (path_Join [ec_backup_root cfg, s]))"
  by (simp_all add: own_call_def own_labels backup_directory_def Let_def)

lemma own_containers [simp]:
  "own_call cfg s (ContainerCreate (runtime_spec cfg s name img startup env exposed bindings res))"
  "own_call cfg s (ContainerCreate (file_helper_spec cfg s script env))"
  "own_call cfg s (ContainerCreate (initializer_spec cfg s))"
  "own_call cfg s (ContainerCreate (installer_spec cfg s spec))"
  "own_call cfg s (ContainerCreate (archive_helper_spec cfg s))"
  by (simp_all add: own_call_def own_container_def Let_def runtime_spec_def file_helper_spec_def initializer_spec_def
      installer_spec_def archive_helper_spec_def helper_spec_def volume_mount_def own_labels own_kinds)

text \<open>The files of the backups, for a server and a backup named by proper names.\<close>

lemma uuid_no_slash: "uuid_pattern s \<Longrightarrow> slash \<notin> set s"
proof
  assume "uuid_pattern s" and slash: "slash \<in> set s"
  moreover have "c = CHR ''-'' \<or> (\<exists>p \<in> set (split_char CHR ''-'' u). c \<in> set p)" if "c \<in> set u" for c u
    using that by (induction "CHR ''-''" u rule: split_char.induct) (auto split: list.splits if_splits)
  ultimately have "lower_hex slash" by (fastforce simp: uuid_pattern_def Let_def list_all_iff)
  then show False by (simp add: lower_hex_def is_digit_def)
qed

lemma uuid_proper: "uuid_pattern s \<Longrightarrow> proper_name s"
  using uuid_no_slash [of s] by (auto simp: proper_name_def uuid_pattern_def Let_def)

lemma own_filename: "uuid_pattern s \<Longrightarrow> slash \<notin> set i \<Longrightarrow> own_archive cfg s (backupFilename cfg s i)"
proof -
  assume s: "uuid_pattern s" and i: "slash \<notin> set i"
  have "length (i @ ''.tar.gz'') > 2" by simp
  with i have "proper_name (i @ ''.tar.gz'')" by (auto simp: proper_name_def simp del: length_append)
  with path_Join_file [OF uuid_proper [OF s] this] show ?thesis
    by (auto simp: own_archive_def backupFilename_def backup_directory_def)
qed

lemma safety_no_slash: "slash \<notin> set (safety_id stamp)"
  by (simp add: safety_id_def itoa_no_slash)

lemma own_files:
  assumes "uuid_pattern s" and "slash \<notin> set i"
  shows "own_call cfg s (CreateTemporary (path_Join [ec_backup_root cfg, s]) (i @ ''-*.partial''))"
    and "own_call cfg s (WriteArchive (temporary_name (path_Join [ec_backup_root cfg, s]) i r) es)"
    and "own_call cfg s (RenameFile (temporary_name (path_Join [ec_backup_root cfg, s]) i r) (backupFilename cfg s i))"
    and "own_call cfg s (RemoveFile (temporary_name (path_Join [ec_backup_root cfg, s]) i r))"
    and "own_call cfg s (RemoveFile (backupFilename cfg s i))"
    and "own_call cfg s (OpenFile (backupFilename cfg s i))"
    and "own_call cfg s (OpenCompressed (backupFilename cfg s i))"
    and "own_call cfg s (CopyArchiveToContainer c ''/home/container'' (backupFilename cfg s i))"
  using assms own_filename [OF assms, of cfg]
  by (auto simp: own_call_def own_temporary_def backup_directory_def Let_def)

lemmas own_intros = only_calls_intros own_calls own_resources own_containers

lemma own_operations:
  "only_calls (own_call cfg s) (runVolumeHelper cfg dk s script env)"
  "only_calls (own_call cfg s) (initializeVolumeOwnership cfg dk s)"
  "only_calls (own_call cfg s) (runInstaller cfg dk s spec)"
  "only_calls (own_call cfg s) (validateHostPortAvailability cfg dk s ports)"
  "only_calls (own_call cfg s) (create_runtime cfg dk s input)"
  "only_calls (own_call cfg s) (openServerVolumeArchive cfg dk s p)"
  "only_calls (own_call cfg s) (close_archive dk i)"
  "only_calls (own_call cfg s) (store_file cfg dk s p n a b)"
  "only_calls (own_call cfg s) (removeDatabaseHost cfg dk s)"
  "only_calls (own_call cfg s) (removeTransientServerContainers cfg dk s)"
  unfolding runVolumeHelper_def initializeVolumeOwnership_def runInstaller_def containerLogTail_def
    validateHostPortAvailability_def create_runtime_def openServerVolumeArchive_def store_file_def close_archive_def
    removeDatabaseHost_def databaseHostContainer_def removeTransientServerContainers_def Let_def
  by (intro own_intros)+

lemma own_lifecycle:
  "only_calls (own_call cfg s) (createServerResources cfg dk s input)"
  "only_calls (own_call cfg s) (replaceRuntimeContainer cfg dk stamp s change)"
  "only_calls (own_call cfg s) (removeServerResources cfg dk s)"
  unfolding createServerResources_def replaceRuntimeContainer_def removeServerResources_def Let_def
  by (intro own_intros own_operations)+

lemma only_calls_read: "only_calls P (\<lambda>calls. (f calls, calls))"
  by (simp add: only_calls_def)

text \<open>The temporary file an operation goes on with is one it has created.\<close>

lemma only_calls_created:
  assumes "P c" and "\<And>calls. only_calls P (k (read calls))"
  shows "only_calls P (bind_op (failing text (ask dk c read)) k)"
  unfolding only_calls_def
proof
  fix calls
  from assms(2) [of "calls @ [c]"] obtain new where "snd (k (read (calls @ [c])) (calls @ [c])) = (calls @ [c]) @ new"
    "\<forall>x \<in> set new. P x" unfolding only_calls_def by blast
  with assms(1) show "\<exists>new. snd (bind_op (failing text (ask dk c read)) k calls) = calls @ new \<and> (\<forall>c \<in> set new. P c)"
    by (cases "dk_error dk (calls @ [c])")
      (auto simp: bind_op_def on_error_def ask_def Let_def intro: exI [of _ "c # new"] exI [of _ "[c]"])
qed

lemma own_archiving:
  assumes "uuid_pattern s" and "slash \<notin> set i"
  shows "only_calls (own_call cfg s) (archiveServerVolume cfg dk io s i includes excludes)"
  unfolding archiveServerVolume_def Let_def
  by (intro only_calls_created own_files [OF assms] own_intros own_operations only_calls_read)

lemma own_restoring:
  assumes "uuid_pattern s" and "slash \<notin> set i"
  shows "only_calls (own_call cfg s) (restoreServerVolume cfg dk io stamp s i hash)"
  unfolding restoreServerVolume_def verifyBackupArchive_def replace_or_roll_back_def replaceServerVolumeFromArchive_def Let_def
  by (intro own_files [OF assms] own_files [OF assms(1) safety_no_slash] own_archiving [OF assms(1) safety_no_slash]
      own_intros own_operations)

lemma checked_ids:
  assumes "uuid_pattern s \<Longrightarrow> uuid_pattern b \<Longrightarrow> only_calls P m"
  shows "only_calls P (bind_op (backup_ids s b) (\<lambda>_. m))"
  using assms by (auto simp: backup_ids_def refuse_when_def only_calls_def bind_op_def give_def)

text \<open>
  C20: what the engine's handlers for servers, files and backups do stays with the server of the
  request: every container they create drops all capabilities, cannot gain privileges, carries the
  labels of the server and its installation, mounts the server's own volume and nothing else, and,
  but for the server itself and its installer, is without a network; capabilities are added and root
  is asked for only for the initializer that hands the volume to the server user.  Only the server's
  own volumes and network are created or removed, and only files of its own backup directory are
  written, read, renamed or removed.
\<close>

theorem engine_isolates_servers:
  "only_calls (own_call cfg s) (provision_server cfg dk s wanted) \<and>
   only_calls (own_call cfg s) (installExisting cfg dk s installer) \<and>
   only_calls (own_call cfg s) (reconfigure_server cfg dk stamp s change) \<and>
   only_calls (own_call cfg s) (delete_managed_server cfg dk s) \<and>
   only_calls (own_call cfg s) (power_server cfg dk s action) \<and>
   only_calls (own_call cfg s) (listFiles cfg dk decode s query) \<and>
   only_calls (own_call cfg s) (readFile cfg dk extract utf8 s query) \<and>
   only_calls (own_call cfg s) (writeFile cfg dk utf8 s written) \<and>
   only_calls (own_call cfg s) (uploadFile cfg dk s query len) \<and>
   only_calls (own_call cfg s) (mutatePath cfg dk script s body) \<and>
   only_calls (own_call cfg s) (renameFile cfg dk s renamed) \<and>
   only_calls (own_call cfg s) (downloadFile cfg dk serve s query) \<and>
   only_calls (own_call cfg s) (createBackup cfg dk io s b rules) \<and>
   only_calls (own_call cfg s) (restoreBackup cfg dk io clock s b hash) \<and>
   only_calls (own_call cfg s) (deleteBackup cfg dk missing s b) \<and>
   only_calls (own_call cfg s) (downloadBackup cfg dk missing regular s b)"
proof (intro conjI)
  have request: "only_calls P (fileRequest s query allow)" for P allow
    unfolding fileRequest_def by (intro only_calls_intros)
  note own = request only_calls_read own_intros own_operations own_lifecycle
  show "only_calls (own_call cfg s) (provision_server cfg dk s wanted)"
    "only_calls (own_call cfg s) (installExisting cfg dk s installer)"
    "only_calls (own_call cfg s) (reconfigure_server cfg dk stamp s change)"
    "only_calls (own_call cfg s) (delete_managed_server cfg dk s)"
    unfolding provision_server_def installExisting_def reconfigure_server_def delete_managed_server_def
    by (intro own)+
  show "only_calls (own_call cfg s) (power_server cfg dk s action)"
    unfolding power_server_def setServerRestartPolicy_def power_call_def Let_def by (intro own)
  show "only_calls (own_call cfg s) (listFiles cfg dk decode s query)"
    "only_calls (own_call cfg s) (readFile cfg dk extract utf8 s query)"
    "only_calls (own_call cfg s) (writeFile cfg dk utf8 s written)"
    "only_calls (own_call cfg s) (uploadFile cfg dk s query len)"
    "only_calls (own_call cfg s) (mutatePath cfg dk script s body)"
    "only_calls (own_call cfg s) (renameFile cfg dk s renamed)"
    "only_calls (own_call cfg s) (downloadFile cfg dk serve s query)"
    unfolding listFiles_def readFile_def writeFile_def uploadFile_def mutatePath_def renameFile_def
      downloadFile_def Let_def
    by (intro own)+
  show "only_calls (own_call cfg s) (createBackup cfg dk io s b rules)"
    unfolding createBackup_def by (rule checked_ids, intro own own_archiving) (auto dest: uuid_no_slash)
  show "only_calls (own_call cfg s) (restoreBackup cfg dk io clock s b hash)"
    unfolding restoreBackup_def by (rule checked_ids, intro own own_restoring) (auto dest: uuid_no_slash)
  show "only_calls (own_call cfg s) (deleteBackup cfg dk missing s b)"
    "only_calls (own_call cfg s) (downloadBackup cfg dk missing regular s b)"
    unfolding deleteBackup_def downloadBackup_def
    by (rule checked_ids, intro own own_files, assumption, erule uuid_no_slash)+
qed

section \<open>Nothing is left behind\<close>

definition leaves_only :: "docker \<Rightarrow> ('e, 'a) docker_op \<Rightarrow> ('a \<Rightarrow> resource set) \<Rightarrow> bool" where
  "leaves_only dk m K \<longleftrightarrow> (\<forall>calls. case m calls of
     (Inl e, calls') \<Rightarrow> pending dk calls' \<subseteq> pending dk calls
   | (Inr x, calls') \<Rightarrow> pending dk calls' \<subseteq> pending dk calls \<union> K x)"

definition leaves_nothing :: "docker \<Rightarrow> ('e, 'a) docker_op \<Rightarrow> bool" where
  "leaves_nothing dk m \<longleftrightarrow> (\<forall>calls. pending dk (snd (m calls)) \<subseteq> pending dk calls)"

lemma owned_calls: assumes "owns dk {} m K" shows "leaves_only dk m K"
  unfolding leaves_only_def
proof
  fix calls
  show "case m calls of (Inl e, calls') \<Rightarrow> pending dk calls' \<subseteq> pending dk calls
     | (Inr x, calls') \<Rightarrow> pending dk calls' \<subseteq> pending dk calls \<union> K x"
    by (rule assms [unfolded owns_def triple_def, rule_format]) simp
qed

lemma tidy_calls: assumes "tidy dk m" shows "leaves_nothing dk m"
  unfolding leaves_nothing_def
proof
  fix calls
  show "pending dk (snd (m calls)) \<subseteq> pending dk calls"
    using owned_calls [OF assms, unfolded leaves_only_def, rule_format, of calls]
    by (auto split: prod.splits sum.splits)
qed

lemma tidy_deferred [owns_intros]:
  assumes "tidy dk m" and "\<And>r. tidy dk (c r)" shows "tidy dk (deferred m c)"
proof (rule owns_deferred [OF assms(1)])
  fix r
  show "clears dk {} (c r)"
    using tidy_calls [OF assms(2), of r] unfolding clears_def leaves_nothing_def by blast
qed

lemma tidy_read [owns_intros]: "tidy dk (\<lambda>calls. (f calls, calls))"
  by (rule ownsI) auto

lemma tidy_each [owns_intros]: "(\<And>x. tidy dk (f x)) \<Longrightarrow> tidy dk (each_op f xs)"
  by (induction xs) (auto intro: owns_intros)

lemma tidy_tolerant [owns_intros]: "tidy dk m \<Longrightarrow> tidy dk (tolerant dk text m)"
  unfolding tolerant_def by (intro owns_intros)

lemma tidy_remove_labelled [owns_intros]:
  "\<not> creates look \<Longrightarrow> \<not> creates remove \<Longrightarrow> tidy dk (remove_labelled dk what refusal look matches remove)"
  unfolding remove_labelled_def by (intro owns_intros)

lemma tidy_requests [owns_intros]: "tidy dk (checked_body a b s body)" "tidy dk (valid_or_400 v)"
  "tidy dk (backup_ids s i)" "tidy dk (fileRequest s query allow)"
  unfolding checked_body_def valid_or_400_def backup_ids_def fileRequest_def by (intro owns_intros)+

lemma creates_others [simp]:
  "\<not> creates (ContainerStop i t)" "\<not> creates (ContainerRestart i t)" "\<not> creates (ContainerKill i)"
  "\<not> creates (ContainerUpdate i p)" "\<not> creates (CopyToContainer i p entry)" "\<not> creates (VolumeRemove v)"
  "\<not> creates (NetworkInspect n)" "\<not> creates (NetworkRemove n)" "\<not> creates (MakeDirectory d)"
  "\<not> creates (CreateTemporary d p)" "\<not> creates (WriteArchive f es)" "\<not> creates (RenameFile f g)"
  "\<not> creates (OpenFile f)" "\<not> creates (OpenCompressed f)" "\<not> creates (RemoveFile f)" "\<not> creates (RemoveTree d)"
  by (simp_all add: creates_def)

text \<open>An operation on an archive of the volume ends with the helper behind it removed.\<close>

lemma tidy_archive:
  assumes "\<And>i. tidy dk (m i)"
  shows "tidy dk (bind_op (on_error f (openServerVolumeArchive cfg dk s p)) (\<lambda>i. deferred (m i) (\<lambda>_. close_archive dk i)))"
  by (rule owns_bind [OF owns_on_error [OF owns_archive]], rule owns_deferred [OF assms clears_archive])

lemma tidy_archiving [owns_intros]: "tidy dk (archiveServerVolume cfg dk io s i includes excludes)"
  unfolding archiveServerVolume_def Let_def
  by (rule tidy_archive) (intro owns_intros; simp)

lemma tidy_restoring [owns_intros]: "tidy dk (restoreServerVolume cfg dk io stamp s b hash)"
  unfolding restoreServerVolume_def verifyBackupArchive_def replace_or_roll_back_def
    replaceServerVolumeFromArchive_def Let_def
  by (intro owns_intros; simp)

lemma tidy_removal [owns_intros]: "tidy dk (removeServerResources cfg dk s)"
  unfolding removeServerResources_def removeTransientServerContainers_def removeDatabaseHost_def
    databaseHostContainer_def Let_def
  by (intro owns_intros; simp)

lemma tidy_store [owns_intros]: "tidy dk (store_file cfg dk s p n a b)"
  unfolding store_file_def Let_def by (intro owns_intros; simp)

text \<open>
  C21: a handler of the engine for servers, files and backups that fails has asked Docker to remove
  every container, volume and network whose creation was acknowledged to it; when it succeeds, what
  is left of its own creations is the server's container, volume and network after provisioning, the
  new container after a reconfiguration, and nothing after any other of these operations.
\<close>

theorem nothing_left_behind:
  "leaves_only dk (provision_server cfg dk s wanted) (created_resources cfg s) \<and>
   leaves_only dk (reconfigure_server cfg dk stamp s change) (\<lambda>r. {Container (pr_container_id r)}) \<and>
   leaves_nothing dk (installExisting cfg dk s installer) \<and>
   leaves_nothing dk (delete_managed_server cfg dk s) \<and>
   leaves_nothing dk (power_server cfg dk s action) \<and>
   leaves_nothing dk (listFiles cfg dk decode s query) \<and>
   leaves_nothing dk (readFile cfg dk extract utf8 s query) \<and>
   leaves_nothing dk (writeFile cfg dk utf8 s written) \<and>
   leaves_nothing dk (uploadFile cfg dk s query len) \<and>
   leaves_nothing dk (mutatePath cfg dk script s body) \<and>
   leaves_nothing dk (renameFile cfg dk s renamed) \<and>
   leaves_nothing dk (downloadFile cfg dk serve s query) \<and>
   leaves_nothing dk (createBackup cfg dk io s b rules) \<and>
   leaves_nothing dk (restoreBackup cfg dk io clock s b hash) \<and>
   leaves_nothing dk (deleteBackup cfg dk missing s b) \<and>
   leaves_nothing dk (downloadBackup cfg dk missing regular s b)"
proof (intro conjI)
  have existing: "owns dk {} (bind_op (on_error f (ask dk (ContainerInspect i) (dk_state dk))) (\<lambda>st. give (Inr (r st)))) K"
    for f :: "error \<Rightarrow> reply" and i K and r :: "container_state option \<Rightarrow> provision_result"
    by (rule owns_bind [OF owns_on_error [OF owns_ask]], simp, rule owns_result)
  show "leaves_only dk (provision_server cfg dk s wanted) (created_resources cfg s)"
    unfolding provision_server_def
    by (rule owned_calls, rule owns_bind [OF tidy_requests(1)], rule owns_bind [OF tidy_requests(2)],
        rule owns_bind [OF owns_on_error [OF tidy_lookups(1)]], rule owns_option)
      (rule owns_on_error [OF owns_server], rule existing)
  show "leaves_only dk (reconfigure_server cfg dk stamp s change) (\<lambda>r. {Container (pr_container_id r)})"
    unfolding reconfigure_server_def
    by (rule owned_calls, rule owns_bind [OF tidy_requests(1)], rule owns_bind [OF tidy_requests(2)],
        rule owns_on_error [OF owns_replaced])
  show "leaves_nothing dk (installExisting cfg dk s installer)" "leaves_nothing dk (delete_managed_server cfg dk s)"
    unfolding installExisting_def delete_managed_server_def by (rule tidy_calls, intro owns_intros; simp)+
  show "leaves_nothing dk (power_server cfg dk s action)"
    unfolding power_server_def setServerRestartPolicy_def power_call_def Let_def
    by (rule tidy_calls, intro owns_intros; simp)
  show "leaves_nothing dk (listFiles cfg dk decode s query)" "leaves_nothing dk (readFile cfg dk extract utf8 s query)"
    "leaves_nothing dk (writeFile cfg dk utf8 s written)" "leaves_nothing dk (uploadFile cfg dk s query len)"
    "leaves_nothing dk (mutatePath cfg dk script s body)" "leaves_nothing dk (renameFile cfg dk s renamed)"
    unfolding listFiles_def readFile_def writeFile_def uploadFile_def mutatePath_def renameFile_def Let_def
    by (rule tidy_calls, intro owns_intros; simp)+
  show "leaves_nothing dk (downloadFile cfg dk serve s query)"
    unfolding downloadFile_def by (rule tidy_calls, rule tidy_bind [OF tidy_requests(4)], rule tidy_archive, rule tidy_read)
  show "leaves_nothing dk (createBackup cfg dk io s b rules)" "leaves_nothing dk (restoreBackup cfg dk io clock s b hash)"
    "leaves_nothing dk (deleteBackup cfg dk missing s b)" "leaves_nothing dk (downloadBackup cfg dk missing regular s b)"
    unfolding createBackup_def restoreBackup_def deleteBackup_def downloadBackup_def
    by (rule tidy_calls, intro owns_intros; simp)+
qed

end
