(* ===== verification/Engine_Backup_Properties.thy ===== *)
theory Engine_Backup_Properties
  imports Engine_Restore
begin

text \<open>
  What a backup contains and what a restore leaves: archives name files below the server's directory
  only, and a volume is never cleared without something to put back.
\<close>

section \<open>Archives\<close>

lemma clean_inside:
  assumes "\<not> prefix ''/'' (path_Clean v)" "path_Clean v \<noteq> ''..''" "\<not> prefix ''../'' (path_Clean v)"
  shows "path_Clean v = ''.'' \<or> list_all proper_name (split_char slash (path_Clean v))"
proof -
  have "v = [] \<or> hd v \<noteq> slash"
    using assms(1) by (auto simp: path_Clean_def Let_def split: if_splits)
  from path_Clean_relative [OF this, of "[''home'']"] assms(2,3)
  have "\<exists>names. (\<forall>s \<in> set names. proper_name s) \<and> path_Clean v = (if names = [] then ''.'' else strings_Join names [slash])"
    by (fastforce split: if_split_asm)
  then obtain names where names: "\<forall>s \<in> set names. proper_name s"
    "path_Clean v = (if names = [] then ''.'' else strings_Join names [slash])" by blast
  show ?thesis using split_proper(1) [OF names(1)] names by (cases "names = []") (simp_all add: list_all_iff)
qed

lemma safeArchiveName_inside:
  "safeArchiveName raw = Inr name \<Longrightarrow> name = ''.'' \<or> list_all proper_name (split_char slash name)"
  using clean_inside [of "trim_prefix ''./'' (to_slashes raw)"]
  by (auto simp: safeArchiveName_def Let_def split: if_split_asm)

text \<open>The entry that is written for a header of the volume's archive, if any, and what stops a backup.\<close>

definition entry_of :: "(string \<Rightarrow> bool) \<Rightarrow> error + tar_header \<Rightarrow> tar_header option" where
  "entry_of selected x = (case x of Inl _ \<Rightarrow> None
     | Inr h \<Rightarrow> (case safeArchiveName (th_name h) of Inl _ \<Rightarrow> None
         | Inr name \<Rightarrow> if name = ''.'' \<or> \<not> selected name then None else Some (h\<lparr>th_name := name\<rparr>)))"

definition stops_backup :: "error + tar_header \<Rightarrow> bool" where
  "stops_backup x \<longleftrightarrow> (case x of Inl _ \<Rightarrow> True
     | Inr h \<Rightarrow> (case safeArchiveName (th_name h) of Inl _ \<Rightarrow> True | Inr _ \<Rightarrow> unsafe_link (th_link h)))"

lemma entry_of_simps:
  "safeArchiveName (th_name h) = Inr name \<Longrightarrow> entry_of selected (Inr h) =
    (if name = ''.'' \<or> \<not> selected name then None else Some (h\<lparr>th_name := name\<rparr>))"
  by (simp add: entry_of_def)

text \<open>
  C12: a backup holds exactly the selected files of the volume, in their order, each under a name that
  leads below the server's directory, and no link of it is absolute or leads upwards; it is refused
  only when the archive of the volume cannot be read or has an entry that violates this.
\<close>

theorem archives_stay_inside:
  "(case copied_entries selected headers of
      Inr entries \<Rightarrow> entries = List.map_filter (entry_of selected) headers \<and>
        list_all (\<lambda>e. list_all proper_name (split_char slash (th_name e)) \<and> selected (th_name e) \<and>
          \<not> unsafe_link (th_link e)) entries
    | Inl _ \<Rightarrow> list_ex stops_backup headers)"
proof (induction selected headers rule: copied_entries.induct)
  case (3 selected h hs)
  show ?case
  proof (cases "safeArchiveName (th_name h)")
    case (Inl e)
    then show ?thesis by (simp add: stops_backup_def)
  next
    case (Inr name)
    from safeArchiveName_inside [OF this] have inside: "name = ''.'' \<or> list_all proper_name (split_char slash name)" .
    consider (skipped) "name = ''.'' \<or> \<not> selected name" | (refused) "\<not> (name = ''.'' \<or> \<not> selected name)" "unsafe_link (th_link h)"
      | (copied) "\<not> (name = ''.'' \<or> \<not> selected name)" "\<not> unsafe_link (th_link h)" by blast
    then show ?thesis
    proof cases
      case skipped
      then show ?thesis using 3(1) [OF Inr] Inr
        by (auto simp: entry_of_simps split: sum.splits)
    next
      case refused
      then show ?thesis using Inr by (simp add: stops_backup_def)
    next
      case copied
      then show ?thesis using 3(2) [OF Inr] Inr inside
        by (auto simp: entry_of_simps split: sum.splits)
    qed
  qed
qed (simp_all add: stops_backup_def List.map_filter_simps)

section \<open>Restoring\<close>

text \<open>
  C30: however Docker and the file system answer, a restore ends in one of four ways: it succeeds, and
  the volume was cleared and then filled from the archive with the expected checksum; it fails and
  has not touched the volume; it fails and the volume was cleared and filled from the safety archive;
  or it fails with the error that says that the rollback failed too.  In no case is the volume cleared
  before the archive is verified and the safety archive complete; but when the rollback has failed,
  the safety archive has been removed all the same.
\<close>

theorem restore_never_loses:
  "let plan = \<lparr> rp_filename = backupFilename cfg s b, rp_hash = hash, rp_safety = backupFilename cfg s (safety_id stamp) \<rparr>
   in case restoreServerVolume cfg dk io stamp s b hash [] of (r, calls) \<Rightarrow>
     let disk = disk_after cfg dk io s plan calls in
     (case r of
        Inr _ \<Rightarrow> di_verified disk \<and> di_content disk = Unpacked (backupFilename cfg s b)
      | Inl e \<Rightarrow> di_content disk = Untouched \<or>
          di_content disk = Unpacked (backupFilename cfg s (safety_id stamp)) \<or>
          (di_content disk \<noteq> Lost \<and> (\<exists>e1 e2. e = both_failed e1 e2) \<and> \<not> di_saved disk))"
proof -
  define plan where "plan = \<lparr> rp_filename = backupFilename cfg s b, rp_hash = hash,
    rp_safety = backupFilename cfg s (safety_id stamp) \<rparr>"
  obtain r calls where run: "restoreServerVolume cfg dk io stamp s b hash [] = (r, calls)" by fastforce
  have "disk_after cfg dk io s plan [] = fresh_disk" by (simp add: disk_after_def)
  then have "restore_end plan r (disk_after cfg dk io s plan calls)"
    using tripleD [OF restore_triple [OF plan_def, of dk io], of "[]"] run by (cases r) auto
  then show ?thesis
    unfolding plan_def [symmetric] run Let_def by (cases r) (simp_all add: restore_end_def, simp_all add: plan_def)
qed

end
