(* ===== verification/Maintenance_Handlers.thy ===== *)
theory Maintenance_Handlers
  imports Request_Handlers
begin

text \<open>
  The handlers of \<open>internal/httpapi/backup_handlers.go\<close> and \<open>schedule_handlers.go\<close>, as actions on the
  database and the engine.  The bodies of downloads and the lists that are answered are not modelled.
\<close>

section \<open>Backups\<close>

definition invalid_backup_rule :: "string \<Rightarrow> bool" where
  "invalid_backup_rule raw \<longleftrightarrow>
     (let rule = trim_space (map (\<lambda>c. if c = CHR 0x5C then CHR ''/'' else c) raw) in
      rule = [] \<or> prefix ''/'' rule \<or> sublist ''..'' rule \<or> length rule > 512)"

definition validBackupRules :: "string list \<Rightarrow> bool" where
  "validBackupRules rules \<longleftrightarrow> length rules \<le> 100 \<and> \<not> list_ex invalid_backup_rule rules"

definition valid_retention :: "int option \<Rightarrow> bool" where
  "valid_retention retention \<longleftrightarrow> (case retention of None \<Rightarrow> True | Some n \<Rightarrow> 1 \<le> n \<and> n \<le> 3650)"

record create_backup_request =
  cb_name :: string
  cb_include_paths :: "string list"
  cb_exclude_globs :: "string list"
  cb_retention_days :: "int option"

definition createServerBackup ::
  "worker_env \<Rightarrow> string \<Rightarrow> uuid \<Rightarrow> uuid \<Rightarrow> error + create_backup_request \<Rightarrow> backup action" where
  "createServerBackup env role userID serverID body =
     andThen (refuse_if (\<not> canOperate role) errForbidden) (\<lambda>_.
     andThen (done_with (bad_request body)) (\<lambda>input.
     let name = trim_space (cb_name input) in
     andThen (refuse_if (name = [] \<or> length name > 120 \<or> \<not> validBackupRules (cb_include_paths input) \<or>
         \<not> validBackupRules (cb_exclude_globs input) \<or> \<not> valid_retention (cb_retention_days input))
       (join_errors errBadRequest ''invalid backup name, filters, or retention days'')) (\<lambda>_ w.
     op_call env (\<lambda>now ids. CreateBackup now (ids 0) (ids 1) (ids 2)
       (map ids [3 ..< 3 + length (webhook_destinations (w_db w))]) serverID userID name
       (cb_include_paths input) (cb_exclude_globs input) (cb_retention_days input)) w)))"

text \<open>The row goes back to its previous state when the engine does not delete the archive.\<close>

definition deleteServerBackup :: "worker_env \<Rightarrow> string \<Rightarrow> uuid \<Rightarrow> uuid \<Rightarrow> uuid \<Rightarrow> unit action" where
  "deleteServerBackup env role userID serverID backupID =
     andThen (refuse_if (\<not> canOperate role) errForbidden) (\<lambda>_.
     andThen (op_call env (\<lambda>now ids. BeginBackupDeletion serverID backupID)) (\<lambda>previous.
     andThen (attempt (call_engine env (EDeleteBackup serverID backupID))) (\<lambda>r. case r of
       Inl e \<Rightarrow>
         andThen (attempt (stmt_call env (\<lambda>now ids. CancelBackupDeletion serverID backupID previous))) (\<lambda>_.
         done_with (Inl e))
     | Inr _ \<Rightarrow> stmt_call env (\<lambda>now ids. DeleteBackupRecord now (ids 0) serverID backupID userID))))"

definition restoreServerBackup ::
  "worker_env \<Rightarrow> string \<Rightarrow> uuid \<Rightarrow> uuid \<Rightarrow> uuid \<Rightarrow> uuid action" where
  "restoreServerBackup env role userID serverID backupID =
     andThen (refuse_if (\<not> canOperate role) errForbidden) (\<lambda>_.
     op_call env (\<lambda>now ids. QueueBackupRestore now (ids 0) (ids 1) (ids 2) (ids 3) serverID backupID userID))"

definition lockServerBackup ::
  "worker_env \<Rightarrow> string \<Rightarrow> uuid \<Rightarrow> uuid \<Rightarrow> uuid \<Rightarrow> error + bool \<Rightarrow> unit action" where
  "lockServerBackup env role userID serverID backupID body =
     andThen (refuse_if (\<not> canOperate role) errForbidden) (\<lambda>_.
     andThen (done_with (bad_request body)) (\<lambda>locked.
     stmt_call env (\<lambda>now ids. SetBackupLocked now (ids 0) serverID backupID userID locked)))"

definition retryServerBackupDelivery ::
  "worker_env \<Rightarrow> string \<Rightarrow> uuid \<Rightarrow> uuid \<Rightarrow> uuid \<Rightarrow> uuid \<Rightarrow> unit action" where
  "retryServerBackupDelivery env role userID serverID backupID deliveryID =
     andThen (refuse_if (\<not> canOperate role) errForbidden) (\<lambda>_.
     stmt_call env (\<lambda>now ids. RetryBackupDelivery now (ids 0) (ids 1) serverID backupID deliveryID userID))"

section \<open>Schedules\<close>

text \<open>A task as it is sent; \<open>tr_config\<close> is None when the request has none.\<close>

record task_request =
  tr_task_type :: string
  tr_config :: "json option"
  tr_timeout_seconds :: int

definition blank_or_longer :: "nat \<Rightarrow> string \<Rightarrow> bool" where
  "blank_or_longer n s \<longleftrightarrow> trim_space s = [] \<or> length s > n"

definition valid_task_config :: "string \<Rightarrow> json \<Rightarrow> error option" where
  "valid_task_config kind j =
     (if kind = ''backup'' then
        (if (case backup_config_of j of Inl _ \<Rightarrow> True
             | Inr c \<Rightarrow> trim_space (bc_name c) = [] \<or> \<not> validBackupRules (bc_include_paths c) \<or>
                 \<not> validBackupRules (bc_exclude_globs c) \<or> \<not> valid_retention (bc_retention_days c))
         then Some (Message ''invalid scheduled backup task'') else None)
      else if kind = ''power'' then
        (if (case json_string j ''action'' of Inl _ \<Rightarrow> True
             | Inr action \<Rightarrow> action \<notin> {''start'', ''stop'', ''restart'', ''kill''})
         then Some (Message ''invalid scheduled power task'') else None)
      else if kind = ''command'' then
        (if (case json_string j ''command'' of Inl _ \<Rightarrow> True
             | Inr command \<Rightarrow> blank_or_longer 2048 command \<or> (\<exists>c \<in> set command. forbidden_in_command c))
         then Some (Message ''invalid scheduled command task'') else None)
      else if kind = ''delay'' then
        (if (case json_int j ''seconds'' of Inl _ \<Rightarrow> True | Inr n \<Rightarrow> n < 1 \<or> n > 3600)
         then Some (Message ''invalid scheduled delay task'') else None)
      else if kind = ''notify'' then
        (if (case json_string j ''message'' of Inl _ \<Rightarrow> True | Inr m \<Rightarrow> blank_or_longer 1000 m)
         then Some (Message ''invalid scheduled notification task'') else None)
      else Some (Message ''unknown schedule task type''))"

definition validateScheduleTask :: "task_request \<Rightarrow> error + json" where
  "validateScheduleTask t =
     (case tr_config t of
        None \<Rightarrow> Inl (Message ''invalid schedule task timeout or config'')
      | Some j \<Rightarrow>
          if tr_timeout_seconds t < 0 \<or> tr_timeout_seconds t > 3600
          then Inl (Message ''invalid schedule task timeout or config'')
          else (case valid_task_config (tr_task_type t) j of Some e \<Rightarrow> Inl e | None \<Rightarrow> Inr j))"

definition accepted_task :: "task_request \<Rightarrow> error + task_input" where
  "accepted_task raw =
     (let t = raw\<lparr>tr_task_type := to_lower (trim_space (tr_task_type raw))\<rparr> in
      case validateScheduleTask t of Inl e \<Rightarrow> Inl e
      | Inr j \<Rightarrow> Inr \<lparr> ti_task_type = tr_task_type t, ti_config = j,
          ti_timeout_seconds = (if tr_timeout_seconds t = 0 then 300 else tr_timeout_seconds t) \<rparr>)"

fun accepted_tasks :: "task_request list \<Rightarrow> error + task_input list" where
  "accepted_tasks [] = Inr []"
| "accepted_tasks (t # ts) =
     (case accepted_task t of Inl e \<Rightarrow> Inl e
      | Inr x \<Rightarrow> (case accepted_tasks ts of Inl e \<Rightarrow> Inl e | Inr xs \<Rightarrow> Inr (x # xs)))"

record schedule_request =
  sr_name :: string
  sr_cron_expression :: string
  sr_timezone :: string
  sr_enabled :: bool
  sr_tasks :: "task_request list"

text \<open>The normalised request: the schedule's fields, trimmed, and its tasks.\<close>

definition normalizeScheduleRequest ::
  "cron_env \<Rightarrow> time \<Rightarrow> uuid \<Rightarrow> uuid \<Rightarrow> uuid \<Rightarrow> schedule_request \<Rightarrow> error + schedule_params" where
  "normalizeScheduleRequest cron clock scheduleID serverID userID input =
     (let name = trim_space (sr_name input); expression = trim_space (sr_cron_expression input);
          zone = trim_space (sr_timezone input) in
      if name = [] \<or> length name > 120 \<or> sr_tasks input = [] \<or> length (sr_tasks input) > 20
      then Inl (Message ''invalid schedule name or task count'')
      else case ValidateSchedule cron clock expression zone of Inl e \<Rightarrow> Inl e
      | Inr _ \<Rightarrow> (case accepted_tasks (sr_tasks input) of Inl e \<Rightarrow> Inl e
      | Inr tasks \<Rightarrow> Inr \<lparr> cp_schedule_id = scheduleID, cp_server_id = serverID, cp_name = name,
          cp_cron_expression = expression, cp_timezone = zone, cp_enabled = sr_enabled input,
          cp_created_by = userID, cp_tasks = tasks \<rparr>))"

definition createServerSchedule ::
  "cron_env \<Rightarrow> worker_env \<Rightarrow> string \<Rightarrow> uuid \<Rightarrow> uuid \<Rightarrow> error + schedule_request \<Rightarrow>
   (schedule \<times> schedule_task list) action" where
  "createServerSchedule cron env role userID serverID body =
     andThen (refuse_if (\<not> canOperate role) errForbidden) (\<lambda>_.
     andThen (done_with (bad_request body)) (\<lambda>input w.
     andThen (done_with (bad_request (normalizeScheduleRequest cron (en_clock env (w_step w)) [] serverID userID input))) (\<lambda>params.
     op_call env (\<lambda>now ids. CreateSchedule cron now now (ids 0) (map ids [1 ..< 1 + length (cp_tasks params)]) params)) w))"

definition updateServerSchedule ::
  "cron_env \<Rightarrow> worker_env \<Rightarrow> string \<Rightarrow> uuid \<Rightarrow> uuid \<Rightarrow> uuid \<Rightarrow> error + schedule_request \<Rightarrow>
   (schedule \<times> schedule_task list) action" where
  "updateServerSchedule cron env role userID serverID scheduleID body =
     andThen (refuse_if (\<not> canOperate role) errForbidden) (\<lambda>_.
     andThen (done_with (bad_request body)) (\<lambda>input w.
     andThen (done_with (bad_request (normalizeScheduleRequest cron (en_clock env (w_step w)) scheduleID serverID userID input))) (\<lambda>params.
     op_call env (\<lambda>now ids. UpdateSchedule cron now now (map ids [0 ..< length (cp_tasks params)]) params)) w))"

definition setServerScheduleEnabled ::
  "cron_env \<Rightarrow> worker_env \<Rightarrow> string \<Rightarrow> uuid \<Rightarrow> uuid \<Rightarrow> error + bool \<Rightarrow> unit action" where
  "setServerScheduleEnabled cron env role serverID scheduleID body =
     andThen (refuse_if (\<not> canOperate role) errForbidden) (\<lambda>_.
     andThen (done_with (bad_request body)) (\<lambda>enabled.
     stmt_call env (\<lambda>now ids. SetScheduleEnabled cron now now serverID scheduleID enabled)))"

definition runServerScheduleNow :: "worker_env \<Rightarrow> string \<Rightarrow> uuid \<Rightarrow> uuid \<Rightarrow> unit action" where
  "runServerScheduleNow env role serverID scheduleID =
     andThen (refuse_if (\<not> canOperate role) errForbidden) (\<lambda>_.
     stmt_call env (\<lambda>now ids. RunScheduleNow now (ids 0) (ids 1) serverID scheduleID))"

definition deleteServerSchedule :: "worker_env \<Rightarrow> string \<Rightarrow> uuid \<Rightarrow> uuid \<Rightarrow> unit action" where
  "deleteServerSchedule env role serverID scheduleID =
     andThen (refuse_if (\<not> canOperate role) errForbidden) (\<lambda>_.
     stmt_call env (\<lambda>now ids. DeleteSchedule serverID scheduleID))"

end
