(* ===== verification/Composition_Properties.thy ===== *)
theory Composition_Properties
  imports Maintenance_Handlers Engine_Backups
begin

text \<open>
  What the panel accepts, stores and later sends is what the engine and the worker accept: the two
  processes validate the same requests with code of their own.
\<close>

section \<open>Ports and limits\<close>

lemma valid_ports_none:
  assumes "\<forall>p \<in> set ps. valid_port cfg p = None"
    and "distinct (map (\<lambda>p. (ep_host_port p, ep_protocol p)) ps)"
    and "\<forall>p \<in> set ps. \<forall>ip. (ip, ep_host_port p, ep_protocol p) \<notin> set seen"
  shows "valid_ports cfg seen ps = None"
  using assms
proof (induction ps arbitrary: seen)
  case (Cons a ps)
  have fresh: "(ep_host_port p, ep_protocol p) \<noteq> (ep_host_port a, ep_protocol a)" if "p \<in> set ps" for p
    using Cons.prems(2) imageI [OF that, of "\<lambda>p. (ep_host_port p, ep_protocol p)"] by auto
  have "valid_ports cfg ((ep_host_ip a, ep_host_port a, ep_protocol a) # seen) ps = None"
    by (rule Cons.IH) (use Cons.prems fresh in simp_all)
  with Cons.prems show ?case by (simp add: Let_def)
qed simp

lemma accepted_port_valid:
  "accepted_network_port (ec_parse_ip cfg) (ec_game_port_start cfg) (ec_game_port_end cfg) c = Inr p \<Longrightarrow>
    \<forall>q \<in> set (engine_ports [p]). valid_port cfg q = None"
  by (auto simp: accepted_network_port_def valid_port_def engine_ports_def Let_def split: if_splits)

lemma engine_ports_simps: "engine_ports ps = concat (map (\<lambda>p. engine_ports [p]) ps)"
  by (induction ps) (simp_all add: engine_ports_def)

lemma accepted_ports_valid:
  assumes "validateNetworkPorts (ec_parse_ip cfg) (ec_game_port_start cfg) (ec_game_port_end cfg) input = Inr ports"
  shows "ports \<noteq> [] \<and> length ports \<le> 64 \<and> valid_ports cfg [] (engine_ports ports) = None"
proof -
  from assms have run: "accept_network_ports (accepted_network_port (ec_parse_ip cfg) (ec_game_port_start cfg)
      (ec_game_port_end cfg)) [] input = Inr ports" and input: "input \<noteq> []" "length input \<le> 64"
    by (auto simp: validateNetworkPorts_def one_primary_def dest!: and_then_InrD split: if_splits)
  from accept_network_ports_valid [where Q = "\<lambda>p. \<forall>q \<in> set (engine_ports [p]). valid_port cfg q = None",
      OF accepted_port_valid this(1)]
  have ports: "length ports = length input" "distinct (map host_key ports)"
    "\<forall>p \<in> set ports. \<forall>q \<in> set (engine_ports [p]). valid_port cfg q = None" by auto
  have keys: "map (\<lambda>p. (ep_host_port p, ep_protocol p)) (engine_ports ports) = map host_key ports"
    by (simp add: engine_ports_def host_key_def)
  have "valid_ports cfg [] (engine_ports ports) = None"
    by (rule valid_ports_none) (use ports keys in \<open>auto simp: engine_ports_simps [of ports]\<close>)
  with ports(1) input show ?thesis by auto
qed

lemma outside_wider: "\<not> outside v lo hi \<Longrightarrow> lo' \<le> lo \<Longrightarrow> hi \<le> hi' \<Longrightarrow> \<not> outside v lo' hi'"
  by (cases v) (auto simp: outside_def)

lemma if_Inl_Inr: "((if b then Inl e else x) = Inr r) = (\<not> b \<and> x = Inr r)"
  by simp

lemma requestedResources_limits:
  assumes "requestedResources input = Inr r"
  shows "\<not> outside (rs_cpu_limit_millicores r) 100 128000" "\<not> outside (rs_memory_limit_bytes r) (64 * 1048576) (2 ^ 40)"
    "\<not> (case rs_memory_reservation_bytes r of None \<Rightarrow> False
       | Some n \<Rightarrow> (case rs_memory_limit_bytes r of None \<Rightarrow> True | Some m \<Rightarrow> n > m))"
    "\<not> outside (rs_pids_limit r) 16 1000000" "\<not> outside (rs_io_weight r) 10 1000"
  using assms by (auto simp only: requestedResources_def Let_def if_Inl_Inr sum.inject)

lemma accepted_limits:
  assumes "requestedResources input = Inr r"
  shows "valid_limits (engine_resources_of r) = None \<longleftrightarrow>
    (case rs_memory_reservation_bytes r of None \<Rightarrow> True | Some n \<Rightarrow> 1 \<le> n)"
proof -
  note limits = requestedResources_limits [OF assms]
  have "\<not> outside (rs_cpu_limit_millicores r) 1 128000" "\<not> outside (rs_memory_limit_bytes r) (16 * 1048576) (2 ^ 40)"
    using outside_wider [OF limits(1), of 1 128000] outside_wider [OF limits(2), of "16 * 1048576" "2 ^ 40"] by simp_all
  with limits(3-5) show ?thesis
    by (cases "rs_memory_reservation_bytes r"; cases "rs_memory_limit_bytes r")
      (simp_all add: valid_limits_def engine_resources_of_def)
qed

section \<open>Backups and tasks\<close>

lemma backup_rules: "invalid_backup_rule = unsafe_rule"
  by (simp add: fun_eq_iff invalid_backup_rule_def unsafe_rule_def to_slashes_def Let_def)

lemma backup_filters: "validateBackupFilters i e = None \<longleftrightarrow> validBackupRules i \<and> validBackupRules e"
  by (auto simp: validateBackupFilters_def validBackupRules_def backup_rules)

text \<open>A stored task that the worker can execute: it decodes what the task says, and within its limits.\<close>

definition executable_task :: "task_input \<Rightarrow> bool" where
  "executable_task t \<longleftrightarrow> 1 \<le> ti_timeout_seconds t \<and> ti_timeout_seconds t \<le> 3600 \<and>
     (if ti_task_type t = ''backup'' then
        (case backup_config_of (ti_config t) of Inl _ \<Rightarrow> False
         | Inr c \<Rightarrow> validateBackupFilters (bc_include_paths c) (bc_exclude_globs c) = None \<and>
             valid_retention (bc_retention_days c))
      else if ti_task_type t = ''power'' then
        json_string (ti_config t) ''action'' \<in> Inr ` {''start'', ''stop'', ''restart'', ''kill''}
      else if ti_task_type t = ''command'' then
        (case json_string (ti_config t) ''command'' of Inl _ \<Rightarrow> False
         | Inr c \<Rightarrow> trim_space c \<noteq> [] \<and> length c \<le> 2048 \<and> list_all (\<lambda>x. \<not> forbidden_in_command x) c)
      else if ti_task_type t = ''delay'' then
        (case json_int (ti_config t) ''seconds'' of Inl _ \<Rightarrow> False | Inr n \<Rightarrow> 1 \<le> n \<and> n \<le> 3600)
      else ti_task_type t = ''notify'' \<and>
        (case json_string (ti_config t) ''message'' of Inl _ \<Rightarrow> False | Inr m \<Rightarrow> trim_space m \<noteq> [] \<and> length m \<le> 1000))"

lemma accepted_task_executable:
  assumes "accepted_task raw = Inr t" shows "executable_task t"
proof -
  define kind where "kind = to_lower (trim_space (tr_task_type raw))"
  from assms obtain j where j: "validateScheduleTask (raw\<lparr>tr_task_type := kind\<rparr>) = Inr j"
    "t = \<lparr> ti_task_type = kind, ti_config = j,
       ti_timeout_seconds = (if tr_timeout_seconds raw = 0 then 300 else tr_timeout_seconds raw) \<rparr>"
    by (auto simp: accepted_task_def kind_def Let_def split: sum.splits)
  from j(1) have ok: "valid_task_config kind j = None" "0 \<le> tr_timeout_seconds raw" "tr_timeout_seconds raw \<le> 3600"
    by (auto simp: validateScheduleTask_def split: option.splits if_splits)
  have timeout: "1 \<le> ti_timeout_seconds t \<and> ti_timeout_seconds t \<le> 3600" using ok(2,3) by (simp add: j(2))
  consider "kind = ''backup''" | "kind = ''power''" | "kind = ''command''" | "kind = ''delay''" | "kind = ''notify''"
    using ok(1) by (auto simp: valid_task_config_def split: if_splits)
  then show ?thesis
    using timeout ok(1)
    by cases (auto simp: executable_task_def j(2) valid_task_config_def backup_filters blank_or_longer_def
        list_all_iff not_less split: sum.splits if_splits)
qed

text \<open>
  C23: the panel and the engine agree on what they accept.  Backup rules pass the panel's validation
  exactly when they pass the engine's; every task of an accepted schedule decodes in the worker to an
  action within its limits; changed ports that the panel accepts are valid for the engine, of the same
  port range; and accepted resource limits are valid for it exactly when a memory reservation, if
  there is one, is at least one byte (which the panel does not test).
\<close>

theorem panel_requests_accepted:
  "((validateBackupFilters includes excludes = None) = (validBackupRules includes \<and> validBackupRules excludes)) \<and>
   (case accepted_task raw of Inl _ \<Rightarrow> True | Inr task \<Rightarrow> executable_task task) \<and>
   (case validateNetworkPorts (ec_parse_ip cfg) (ec_game_port_start cfg) (ec_game_port_end cfg) requested of
      Inl _ \<Rightarrow> True
    | Inr ports \<Rightarrow> 1 \<le> length ports \<and> length ports \<le> 64 \<and> valid_ports cfg [] (engine_ports ports) = None) \<and>
   (case requestedResources limits of Inl _ \<Rightarrow> True
    | Inr r \<Rightarrow> (valid_limits (engine_resources_of r) = None) =
        (case rs_memory_reservation_bytes r of None \<Rightarrow> True | Some n \<Rightarrow> 1 \<le> n))"
proof (intro conjI)
  show "(validateBackupFilters includes excludes = None) = (validBackupRules includes \<and> validBackupRules excludes)"
    by (rule backup_filters)
  show "case accepted_task raw of Inl _ \<Rightarrow> True | Inr task \<Rightarrow> executable_task task"
    using accepted_task_executable by (simp split: sum.split)
  show "case validateNetworkPorts (ec_parse_ip cfg) (ec_game_port_start cfg) (ec_game_port_end cfg) requested of
      Inl _ \<Rightarrow> True
    | Inr ports \<Rightarrow> 1 \<le> length ports \<and> length ports \<le> 64 \<and> valid_ports cfg [] (engine_ports ports) = None"
    using accepted_ports_valid by (simp split: sum.split add: Suc_le_eq)
  show "case requestedResources limits of Inl _ \<Rightarrow> True
    | Inr r \<Rightarrow> (valid_limits (engine_resources_of r) = None) =
        (case rs_memory_reservation_bytes r of None \<Rightarrow> True | Some n \<Rightarrow> 1 \<le> n)"
    using accepted_limits by (simp split: sum.split)
qed

end
