(* ===== verification/Template_Normalization.thy ===== *)
theory Template_Normalization
  imports Templates Releases Paths "HOL-Library.AList"
begin

text \<open>
  \<open>internal/templates/normalize.go\<close>: an imported template document becomes the canonical document of
  the panel, or is refused.  The document is taken as decoded; the replacement of advertised ports in
  a startup command and the digests are functions of the regular expression and hash libraries.
\<close>

definition failed :: "string \<Rightarrow> error + 'a" where "failed s = Inl (Message s)"

definition check_that :: "bool \<Rightarrow> string \<Rightarrow> error + unit" where
  "check_that b s = (if b then Inr () else failed s)"

section \<open>Command transports\<close>

definition rest_command_char :: "char \<Rightarrow> bool" where
  "rest_command_char c \<longleftrightarrow> (97 \<le> (of_char c :: nat) \<and> (of_char c :: nat) \<le> 122) \<or> is_digit c \<or> c \<in> {CHR ''_'', CHR ''-''}"

definition rest_command_name :: "string \<Rightarrow> bool" where
  "rest_command_name s \<longleftrightarrow> (case s of [] \<Rightarrow> False
     | c # cs \<Rightarrow> 97 \<le> (of_char c :: nat) \<and> (of_char c :: nat) \<le> 122 \<and> length cs \<le> 31 \<and> list_all rest_command_char cs)"

definition line_break :: "char \<Rightarrow> bool" where "line_break c \<longleftrightarrow> c = CHR 0x0D \<or> c = CHR 0x0A"

definition invalid_header :: "string \<times> string \<Rightarrow> bool" where
  "invalid_header h \<longleftrightarrow> trim_space (fst h) = [] \<or> list_ex (\<lambda>c. line_break c \<or> c = CHR '':'') (fst h) \<or>
     list_ex line_break (snd h) \<or> length (fst h) > 80 \<or> length (snd h) > 4096"

definition normalizeRESTHeaders :: "(string \<times> string) list \<Rightarrow> error + unit" where
  "normalizeRESTHeaders headers =
     check_that (\<not> list_ex invalid_header headers) ''HTTP REST transport contains an invalid header''"

definition validateRESTStatuses :: "int list \<Rightarrow> error + unit" where
  "validateRESTStatuses statuses =
     check_that (list_all (\<lambda>s. 100 \<le> s \<and> s \<le> 599) statuses) ''HTTP REST transport contains an invalid accepted status''"

text \<open>The method and the path, normalised.\<close>

definition normalizeRESTRequest ::
  "string \<Rightarrow> string \<Rightarrow> string \<Rightarrow> (string \<times> string) list \<Rightarrow> int list \<Rightarrow> error + (string \<times> string)" where
  "normalizeRESTRequest method path body headers statuses =
     (let m0 = to_upper (trim_space method); m = (if m0 = [] then ''POST'' else m0);
          p0 = trim_space path; p = (if p0 = [] then ''/'' else p0) in
      if m \<notin> {''GET'', ''POST'', ''PUT'', ''PATCH'', ''DELETE''}
      then failed ''method must be GET, POST, PUT, PATCH, or DELETE''
      else if \<not> prefix ''/'' p \<or> list_ex line_break p \<or> sublist ''://'' p \<or> length p > 2048
      then failed ''path must be a local absolute path''
      else if length body > 65536 \<or> length headers > 24 then failed ''request definition is too large''
      else and_then (validateRESTStatuses statuses) (\<lambda>_. Inr (m, p)))"

fun normalized_names :: "string list \<Rightarrow> string list \<Rightarrow> error + string list" where
  "normalized_names seen [] = Inr []"
| "normalized_names seen (raw # rest) =
     (let name = to_lower (trim_space raw) in
      if \<not> rest_command_name name then failed ''HTTP REST transport contains an invalid command alias''
      else if name \<in> set seen then failed (''HTTP REST command name '' @ [CHR 0x22] @ name @ [CHR 0x22] @ '' is duplicated'')
      else and_then (normalized_names (name # seen) rest) (\<lambda>names. Inr (name # names)))"

definition normalized_route :: "string list \<Rightarrow> rest_command_route \<Rightarrow> error + rest_command_route" where
  "normalized_route seen r =
     (let command = to_lower (trim_space (rr_command r)); usage = trim_space (rr_usage r) in
      and_then (check_that (rest_command_name command \<and> length usage \<le> 256 \<and> 0 \<le> rr_min_args r \<and> rr_min_args r \<le> 32)
        ''HTTP REST transport contains an invalid command route'') (\<lambda>_.
      and_then (normalized_names seen (command # rr_aliases r)) (\<lambda>names.
      and_then (normalizeRESTHeaders (rr_headers r)) (\<lambda>_.
      (case normalizeRESTRequest (rr_method r) (rr_path r) (rr_body_template r) (rr_headers r) (rr_accepted_status r) of
         Inl e \<Rightarrow> Inl (Wrap (''HTTP REST command '' @ [CHR 0x22] @ command @ [CHR 0x22] @ '': '') e [])
       | Inr (m, p) \<Rightarrow> Inr (r\<lparr>rr_command := command, rr_aliases := tl names, rr_usage := usage, rr_method := m,
           rr_path := p\<rparr>))))))"

fun normalized_routes :: "string list \<Rightarrow> rest_command_route list \<Rightarrow> error + rest_command_route list" where
  "normalized_routes seen [] = Inr []"
| "normalized_routes seen (r # rs) =
     and_then (normalized_route seen r) (\<lambda>r'.
     and_then (normalized_routes (rev (rr_command r' # rr_aliases r') @ seen) rs) (\<lambda>rs'. Inr (r' # rs')))"

definition normalized_auth :: "rest_basic_auth option \<Rightarrow> error + rest_basic_auth option" where
  "normalized_auth auth = (case auth of None \<Rightarrow> Inr None
     | Some a \<Rightarrow>
         let user = trim_space (ba_username a); env = to_upper (trim_space (ba_password_environment a)) in
         if user = [] \<or> length user > 256 \<or> list_ex (\<lambda>c. line_break c \<or> c = CHR 0x00 \<or> c = CHR '':'') user \<or>
            \<not> environment_name env
         then failed ''HTTP REST basic authentication is invalid''
         else Inr (Some \<lparr> ba_username = user, ba_password_environment = env \<rparr>))"

definition normalized_rest :: "rest_command_transport \<Rightarrow> error + rest_command_transport" where
  "normalized_rest t =
     (let env = to_upper (trim_space (re_port_environment t));
          timeout = (if re_timeout_seconds t = 0 then 10 else re_timeout_seconds t) in
      and_then (check_that (re_port t \<noteq> 0 \<or> env \<noteq> []) ''HTTP REST transport requires a port or port environment'') (\<lambda>_.
      and_then (check_that (0 \<le> re_port t \<and> re_port t \<le> 65535 \<and> (env = [] \<or> environment_name env))
        ''HTTP REST transport port is invalid'') (\<lambda>_.
      and_then (check_that (1 \<le> timeout \<and> timeout \<le> 60) ''HTTP REST transport timeout must be 1-60 seconds'') (\<lambda>_.
      and_then (normalizeRESTHeaders (re_headers t)) (\<lambda>_.
      and_then (validateRESTStatuses (re_accepted_status t)) (\<lambda>_.
      and_then (normalized_auth (re_basic_auth t)) (\<lambda>auth.
      let t' = t\<lparr>re_port_environment := env, re_timeout_seconds := timeout, re_basic_auth := auth\<rparr> in
      if re_routes t = [] then
        and_then (normalizeRESTRequest (re_method t) (re_path t) (re_body_template t) (re_headers t) (re_accepted_status t))
          (\<lambda>(m, p). Inr (t'\<lparr>re_method := m, re_path := p\<rparr>))
      else if length (re_routes t) > 64 then failed ''HTTP REST transport may declare at most 64 command routes''
      else and_then (normalized_routes [] (re_routes t)) (\<lambda>routes.
        Inr (t'\<lparr>re_method := [], re_path := [], re_body_template := [], re_routes := routes\<rparr>)))))))))"

definition env_or :: "string \<Rightarrow> string \<Rightarrow> string" where
  "env_or fallback raw = (let e = to_upper (trim_space raw) in if e = [] then fallback else e)"

definition normalizeCommandTransport :: "command_transport \<Rightarrow> error + command_transport" where
  "normalizeCommandTransport input =
     (let k0 = to_lower (trim_space (ct_type input)); kind = (if k0 = [] then ''auto'' else k0) in
      if kind \<in> {''auto'', ''stdin'', ''disabled''} then Inr (input\<lparr>ct_type := kind, ct_rest := None\<rparr>)
      else if kind = ''rcon'' then
        (let port = env_or ''RCON_PORT'' (ct_rcon_port_env input);
             password = env_or ''ADMIN_PASSWORD'' (ct_rcon_password_env input) in
         if \<not> environment_name port \<or> \<not> environment_name password
         then failed ''RCON transport environment names are invalid''
         else Inr (input\<lparr>ct_type := kind, ct_rcon_port_env := port, ct_rcon_password_env := password, ct_rest := None\<rparr>))
      else if kind = ''http_rest'' then
        (case ct_rest input of None \<Rightarrow> failed ''HTTP REST transport requires a rest definition''
         | Some t \<Rightarrow> and_then (normalized_rest t) (\<lambda>t'. Inr (input\<lparr>ct_type := kind, ct_rest := Some t'\<rparr>)))
      else failed ''command transport must be auto, stdin, rcon, http_rest, or disabled'')"

section \<open>Defaults\<close>

definition beyond :: "int option \<Rightarrow> int \<Rightarrow> int \<Rightarrow> bool" where
  "beyond v lo hi \<longleftrightarrow> (case v of None \<Rightarrow> False | Some n \<Rightarrow> n < lo \<or> n > hi)"

definition validateBackupDefaults :: "backup_defaults \<Rightarrow> error + unit" where
  "validateBackupDefaults input =
     and_then (check_that (length (bd_include_paths input) \<le> 100 \<and> length (bd_exclude_globs input) \<le> 100)
       ''backup defaults may contain at most 100 include and exclude entries'') (\<lambda>_.
     and_then (check_that (list_all (\<lambda>v. trim_space v \<noteq> [] \<and> CHR 0x00 \<notin> set v \<and> length v \<le> 1024)
         (bd_include_paths input @ bd_exclude_globs input))
       ''backup defaults contain an invalid path or glob'') (\<lambda>_.
     check_that (\<not> beyond (bd_retention_days input) 1 3650) ''backup default retention must be 1-3650 days''))"

definition validateResourceDefaults :: "resource_defaults \<Rightarrow> error + unit" where
  "validateResourceDefaults input =
     and_then (check_that (\<not> beyond (rd_cpu_limit_millicores input) 100 128000)
       ''default CPU limit must be 100-128000 millicores'') (\<lambda>_.
     and_then (check_that (\<not> beyond (rd_memory_limit_mb input) 64 1048576)
       ''default memory limit must be 64-1048576 MB'') (\<lambda>_.
     check_that (\<not> beyond (rd_disk_alert_limit_mb input) 64 16777216)
       ''default disk alert limit must be 64-16777216 MB''))"

section \<open>Ports\<close>

definition normalized_port :: "network_port \<Rightarrow> network_port" where
  "normalized_port p = p\<lparr>np_name := trim_space (np_name p), np_purpose := trim_space (np_purpose p),
     np_protocol := to_lower (trim_space (np_protocol p)), np_environment := to_upper (trim_space (np_environment p))\<rparr>"

definition invalid_port :: "network_port \<Rightarrow> bool" where
  "invalid_port p \<longleftrightarrow> np_name p = [] \<or> np_container_port p < 1 \<or> np_container_port p > 65535 \<or>
     np_protocol p \<notin> {''tcp'', ''udp''} \<or> length (np_purpose p) > 120 \<or> length (np_environment p) > 80 \<or>
     (np_environment p \<noteq> [] \<and> \<not> environment_name (np_environment p))"

text \<open>A primary port is required, and a required port published; neither is internal.\<close>

definition published_port_of :: "network_port \<Rightarrow> error + network_port" where
  "published_port_of p0 =
     (if np_primary p0 \<and> np_internal_only p0
      then failed ''the primary Dockside network port cannot be internal-only''
      else let p = (if np_primary p0 then p0\<lparr>np_required := True, np_published := True\<rparr> else p0) in
        if np_internal_only p \<and> (np_required p \<or> np_published p)
        then failed (''Dockside network port '' @ [CHR 0x22] @ np_name p @ [CHR 0x22] @ '' cannot be internal-only and published or required'')
        else Inr (if np_required p then p\<lparr>np_published := True\<rparr> else p))"

fun explicit_ports :: "(int \<times> string) list \<Rightarrow> network_port list \<Rightarrow> error + network_port list" where
  "explicit_ports seen [] = Inr []"
| "explicit_ports seen (raw # rest) =
     (let p = normalized_port raw; key = (np_container_port p, np_protocol p) in
      if invalid_port p then failed ''Dockside network ports need a name, valid port, and TCP or UDP protocol''
      else if key \<in> set seen then failed (''duplicate Dockside network port '' @ itoa (fst key) @ ''/'' @ snd key)
      else and_then (published_port_of p) (\<lambda>q. and_then (explicit_ports (key # seen) rest) (\<lambda>qs. Inr (q # qs))))"

definition normalizeExplicitNetworkPorts :: "network_port list \<Rightarrow> error + network_port list" where
  "normalizeExplicitNetworkPorts input =
     (if length input > 32 then failed ''a template may declare at most 32 network ports''
      else and_then (explicit_ports [] input) (\<lambda>ports.
        and_then (check_that (length (filter np_primary ports) = 1)
          ''Dockside network ports must declare exactly one primary port'') (\<lambda>_. Inr ports)))"

definition templateReferencesVariable :: "string \<Rightarrow> string \<Rightarrow> bool" where
  "templateReferencesVariable startup environment \<longleftrightarrow>
     list_ex (\<lambda>marker. sublist marker startup)
       [''{{'' @ environment @ ''}}'', ''${'' @ environment @ ''}'', ''$'' @ environment,
        ''{{server.build.env.'' @ environment @ ''}}'']"

definition mentions :: "string list \<Rightarrow> string \<Rightarrow> bool" where
  "mentions fragments s \<longleftrightarrow> list_ex (\<lambda>fragment. sublist fragment s) fragments"

definition inferPortProtocol :: "string \<Rightarrow> string \<Rightarrow> string" where
  "inferPortProtocol environment name =
     (let identity = to_upper (environment @ '' '' @ name) in
      if mentions [''RCON'', ''TELNET'', ''HTTP'', ''HTTPS'', ''WEB'', ''REST'', ''TCP''] identity then ''tcp''
      else if mentions [''QUERY'', ''BEACON'', ''UDP''] identity then ''udp'' else [])"

text \<open>\<open>strings.Title\<close> on ASCII: a letter after a byte that is no letter, digit or underscore.\<close>

fun title_case :: "bool \<Rightarrow> string \<Rightarrow> string" where
  "title_case start [] = []"
| "title_case start (c # cs) = (if start then to_upper_char c else c) #
     title_case (\<not> (upper_or_underscore (to_upper_char c) \<or> is_digit c)) cs"

definition portDisplayName :: "string \<Rightarrow> string \<Rightarrow> string" where
  "portDisplayName environment name =
     (let v = trim_space name in
      if v \<noteq> [] then v
      else title_case True (to_lower (trim_suffix '' PORT'' (map (\<lambda>c. if c = CHR ''_'' then CHR '' '' else c) environment))))"

definition portPurpose :: "string \<Rightarrow> string" where
  "portPurpose environment =
     (if sublist ''RCON'' environment then ''Remote console''
      else if sublist ''QUERY'' environment then ''Server query''
      else if sublist ''TELNET'' environment then ''Telnet administration''
      else ''Additional game traffic'')"

text \<open>The port of a variable, if it is one.\<close>

definition inferred_port :: "string \<Rightarrow> template_variable \<Rightarrow> network_port option" where
  "inferred_port startup v =
     (let environment = to_upper (trim_space (vr_environment v)) in
      if \<not> sublist ''PORT'' environment then None
      else case atoi (trim_space (vr_default_value v)) of
        None \<Rightarrow> None
      | Some n \<Rightarrow>
          if n < 1 \<or> n > 65535 then None
          else if \<not> templateReferencesVariable startup environment \<and> environment \<noteq> ''SERVER_PORT'' \<and> environment \<noteq> ''GAME_PORT''
          then None
          else let primary = (environment \<in> {''SERVER_PORT'', ''GAME_PORT'', ''PORT''});
                   internal = mentions [''RCON'', ''TELNET'', ''ADMIN''] environment in
            Some \<lparr> np_name = portDisplayName environment (vr_name v), np_purpose = portPurpose environment,
              np_container_port = n, np_protocol = inferPortProtocol environment (vr_name v), np_primary = primary,
              np_required = primary, np_published = \<not> internal, np_internal_only = False,
              np_environment = environment \<rparr>)"

definition identity_of :: "network_port \<Rightarrow> string" where
  "identity_of p = (let key = to_upper (np_environment p) in
     if key = [] then np_name p @ '':'' @ itoa (np_container_port p) @ '':'' @ np_protocol p else key)"

definition add_port :: "network_port \<Rightarrow> network_port list \<Rightarrow> network_port list" where
  "add_port p ports = (if identity_of p \<in> identity_of ` set ports then ports else ports @ [p])"

definition game_port :: network_port where
  "game_port = \<lparr> np_name = ''Game'', np_purpose = ''Primary game traffic'', np_container_port = 0, np_protocol = [],
     np_primary = True, np_required = True, np_published = True, np_internal_only = False, np_environment = ''SERVER_PORT'' \<rparr>"

definition port_before :: "network_port \<Rightarrow> network_port \<Rightarrow> bool" where
  "port_before a b = (if np_primary a \<noteq> np_primary b then np_primary a else np_name a < np_name b)"

definition inferNetworkPorts :: "string \<Rightarrow> template_variable list \<Rightarrow> network_port list" where
  "inferNetworkPorts startup variables =
     (let ports = fold add_port (List.map_filter (inferred_port startup) variables) [];
          ports' = (if list_ex np_primary ports then ports else add_port game_port ports) in
      slice_stable port_before ports')"

section \<open>Names and secrets\<close>

definition docksideServerNameDefault :: "string \<Rightarrow> string \<Rightarrow> string \<Rightarrow> string option" where
  "docksideServerNameDefault environment name val =
     (let identifier = to_upper (trim_space environment @ '' '' @ trim_space name); lower = to_lower (trim_space val) in
      if \<not> mentions [''SERVER_NAME'', ''SERVERNAME'', ''SESSION_NAME'', ''SESSIONNAME'', ''SERVER_TITLE''] identifier then None
      else if \<not> sublist ''server'' lower \<or> \<not> mentions [''pterodactyl'', ''pelican''] lower then None
      else Some ''A DOCKSIDE.GG Panel Server'')"

definition looksSecret :: "string \<Rightarrow> string \<Rightarrow> bool" where
  "looksSecret environment name \<longleftrightarrow>
     mentions [''PASSWORD'', ''TOKEN'', ''SECRET'', ''API_KEY'', ''APIKEY'', ''PRIVATE_KEY''] (to_upper (environment @ '' '' @ name))"

definition slug_char :: "char \<Rightarrow> bool" where
  "slug_char c \<longleftrightarrow> (97 \<le> (of_char c :: nat) \<and> (of_char c :: nat) \<le> 122) \<or> is_digit c"

text \<open>Every run of other characters becomes a dash.\<close>

fun dashed :: "bool \<Rightarrow> string \<Rightarrow> string" where
  "dashed within [] = []"
| "dashed within (c # cs) =
     (if slug_char c then c # dashed False cs else if within then dashed True cs else CHR ''-'' # dashed True cs)"

definition trim_dashes :: "string \<Rightarrow> string" where
  "trim_dashes s = rev (dropWhile (\<lambda>c. c = CHR ''-'') (rev (dropWhile (\<lambda>c. c = CHR ''-'') s)))"

definition slug :: "string \<Rightarrow> string" where
  "slug raw =
     (let v = trim_dashes (dashed False (to_lower (trim_space raw)));
          short = (if length v > 110 then trim_dashes (take 110 v) else v) in
      if short = [] then ''template'' else short)"

section \<open>Parts of the document in several formats\<close>

definition json_text :: "json \<Rightarrow> string option" where
  "json_text j = (case j of JStr s \<Rightarrow> Some s | JNull \<Rightarrow> Some [] | _ \<Rightarrow> None)"

definition text_list :: "json \<Rightarrow> string list option" where
  "text_list j = (case j of JArr xs \<Rightarrow> those (map json_text xs) | _ \<Rightarrow> None)"

definition text_map :: "json \<Rightarrow> (string \<times> string) list option" where
  "text_map j = (case j of JObj fs \<Rightarrow> those (map (\<lambda>(k, v). map_option (Pair k) (json_text v)) fs) | _ \<Rightarrow> None)"

definition text_field :: "json \<Rightarrow> string \<Rightarrow> string option" where
  "text_field j k = (case json_field j k of None \<Rightarrow> Some [] | Some v \<Rightarrow> json_text v)"

definition image_entry :: "json \<Rightarrow> (string \<times> string) option" where
  "image_entry j = (case j of
     JNull \<Rightarrow> Some ([], [])
   | JObj fs \<Rightarrow> (case (text_field j ''name'', text_field j ''image'') of (Some n, Some i) \<Rightarrow> Some (n, i) | _ \<Rightarrow> None)
   | _ \<Rightarrow> None)"

definition image_entries :: "json \<Rightarrow> (string \<times> string) list option" where
  "image_entries j = (case j of JArr xs \<Rightarrow> those (map image_entry xs) | _ \<Rightarrow> None)"

definition add_image :: "string \<times> string \<Rightarrow> (string \<times> string) list \<Rightarrow> (string \<times> string) list" where
  "add_image e images = (let (name, img) = e; n = trim_space name in
     if trim_space img = [] then images else AList.update (if n = [] then img else n) img images)"

definition normalizeImages :: "json option \<Rightarrow> error + (string \<times> string) list" where
  "normalizeImages raw = (case raw of
     None \<Rightarrow> Inr []
   | Some j \<Rightarrow> if j = JNull then Inr [] else (case text_map j of
       Some m \<Rightarrow> Inr (fold (\<lambda>(k, v). AList.update k v) m [])
     | None \<Rightarrow> (case text_list j of
         Some vs \<Rightarrow> Inr (fold (\<lambda>v. if trim_space v = [] then id else AList.update (trim_space v) (trim_space v)) vs [])
       | None \<Rightarrow> (case image_entries j of
           Some es \<Rightarrow> Inr (fold add_image es [])
         | None \<Rightarrow> failed ''template Docker images use an unsupported format''))))"

text \<open>\<open>text_of\<close> is the text of a raw message.\<close>

definition normalizeRules :: "(json \<Rightarrow> string) \<Rightarrow> json option \<Rightarrow> string" where
  "normalizeRules text_of raw = (case raw of
     None \<Rightarrow> []
   | Some j \<Rightarrow> if j = JNull then [] else (case j of
       JStr s \<Rightarrow> trim_space s
     | _ \<Rightarrow> (case text_list j of Some vs \<Rightarrow> strings_Join vs ''|'' | None \<Rightarrow> text_of j)))"

definition normalizeStringList :: "json option \<Rightarrow> string list" where
  "normalizeStringList raw = (case raw of None \<Rightarrow> [] | Some j \<Rightarrow> (case text_list j of Some vs \<Rightarrow> vs | None \<Rightarrow> []))"

definition rawString :: "json option \<Rightarrow> string" where
  "rawString raw = (case raw of Some (JStr s) \<Rightarrow> trim_space s | _ \<Rightarrow> [])"

section \<open>The document\<close>

record egg_variable =
  ev_name :: string
  ev_description :: string
  ev_environment :: string
  ev_default_value :: json
  ev_user_viewable :: bool
  ev_user_editable :: bool
  ev_rules :: "json option"
  ev_field_type :: string
  ev_secret :: bool

record egg =
  eg_name :: string
  eg_author :: string
  eg_description :: string
  eg_docker_images :: "json option"
  eg_startup :: string
  eg_startup_commands :: "(string \<times> string) list"
  eg_features :: "json option"
  eg_file_denylist :: "json option"
  eg_network_ports :: "network_port list"
  eg_command_transport :: command_transport
  eg_backup_defaults :: backup_defaults
  eg_resource_defaults :: resource_defaults
  eg_config :: "(string \<times> json) list"
  eg_install_script :: string
  eg_install_container :: string
  eg_install_entrypoint :: string
  eg_variables :: "egg_variable list"

record template_entry =
  en_slug :: string
  en_name :: string
  en_category :: string
  en_source_kind :: string
  en_upstream_url :: string
  en_author :: string
  en_description :: string
  en_source_digest :: string
  en_source_document :: string
  en_canonical :: canonical_template
  en_compatible :: bool
  en_warnings :: "string list"

text \<open>
  \<open>nz_text\<close> is the text of a raw message and of a marshalled value, \<open>nz_advertised\<close> the replacement of
  \<open>advertisedPortArgument\<close>, \<open>nz_document\<close> the bytes that are imported and \<open>nz_digest\<close> their versioned digest.
\<close>

record normalizer =
  nz_text :: "json \<Rightarrow> string"
  nz_advertised :: "string \<Rightarrow> string"
  nz_document :: string
  nz_digest :: string

definition startup_of :: "egg \<Rightarrow> string" where
  "startup_of e =
     (let startup = trim_space (eg_startup e); commands = eg_startup_commands e in
      if startup \<noteq> [] \<or> commands = [] then startup
      else let chosen = (case map_of commands ''Default'' of None \<Rightarrow> [] | Some s \<Rightarrow> trim_space s) in
        if chosen \<noteq> [] then chosen
        else case map_of commands (hd (sort (map fst commands))) of None \<Rightarrow> [] | Some s \<Rightarrow> trim_space s)"

definition default_text :: "normalizer \<Rightarrow> json \<Rightarrow> string" where
  "default_text nz j = (case j of JNull \<Rightarrow> [] | JStr s \<Rightarrow> s | JBool b \<Rightarrow> if b then ''true'' else ''false'' | _ \<Rightarrow> nz_text nz j)"

definition branding_warning :: "string \<Rightarrow> string" where
  "branding_warning env = ''Replaced the upstream server-name placeholder for '' @ trim_space env @ '' with Dockside branding.''"

definition secret_warning :: "string \<Rightarrow> string" where
  "secret_warning env = ''Removed the secret default for '' @ trim_space env @ ''; secret values must be entered per server.''"

definition normalized_variable :: "normalizer \<Rightarrow> egg_variable \<Rightarrow> template_variable option \<times> string list" where
  "normalized_variable nz v =
     (if trim_space (ev_environment v) = [] then (None, [''Ignored a variable without an environment name.''])
      else let text = default_text nz (ev_default_value v);
               branded = docksideServerNameDefault (ev_environment v) (ev_name v) text;
               shown = (case branded of None \<Rightarrow> text | Some t \<Rightarrow> t);
               secret = (ev_secret v \<or> looksSecret (ev_environment v) (ev_name v)) in
        (Some \<lparr> vr_name = trim_space (ev_name v), vr_description = trim_space (ev_description v),
           vr_environment = trim_space (ev_environment v), vr_default_value = (if secret then [] else shown),
           vr_user_viewable = ev_user_viewable v, vr_user_editable = ev_user_editable v,
           vr_rules = normalizeRules (nz_text nz) (ev_rules v), vr_field_type = trim_space (ev_field_type v),
           vr_secret = secret \<rparr>,
         (if branded = None then [] else [branding_warning (ev_environment v)]) @
         (if secret \<and> shown \<noteq> [] then [secret_warning (ev_environment v)] else [])))"

definition normalized_variables :: "normalizer \<Rightarrow> egg_variable list \<Rightarrow> template_variable list" where
  "normalized_variables nz vs = List.map_filter (\<lambda>v. fst (normalized_variable nz v)) vs"

definition Normalize ::
  "normalizer \<Rightarrow> string \<Rightarrow> string \<Rightarrow> string \<Rightarrow> error + egg \<Rightarrow> error + template_entry" where
  "Normalize nz sourceKind category upstreamURL document =
     and_then (case document of Inl e \<Rightarrow> Inl (Wrap ''decode template: '' e []) | Inr e \<Rightarrow> Inr e) (\<lambda>e.
     let name = trim_space (eg_name e) in
     and_then (check_that (name \<noteq> []) ''template has no name'') (\<lambda>_.
     and_then (normalizeImages (eg_docker_images e)) (\<lambda>images.
     and_then (check_that (images \<noteq> []) ''template has no Docker images'') (\<lambda>_.
     and_then (check_that (startup_of e \<noteq> []) ''template has no startup command'') (\<lambda>_.
     let startup = nz_advertised nz (startup_of e) in
     and_then (check_that (list_all (\<lambda>(n, i). trim_space n \<noteq> [] \<and> trim_space i \<noteq> []) images) ''template has an empty Docker image'') (\<lambda>_.
     let variables = normalized_variables nz (eg_variables e) in
     and_then (if eg_network_ports e = [] then Inr (inferNetworkPorts startup variables)
               else normalizeExplicitNetworkPorts (eg_network_ports e)) (\<lambda>ports.
     and_then (normalizeCommandTransport (eg_command_transport e)) (\<lambda>transport.
     and_then (validateBackupDefaults (eg_backup_defaults e)) (\<lambda>_.
     and_then (validateResourceDefaults (eg_resource_defaults e)) (\<lambda>_.
     Inr \<lparr> en_slug = slug (sourceKind @ ''-'' @ category @ ''-'' @ name), en_name = name, en_category = trim_space category,
       en_source_kind = sourceKind, en_upstream_url = upstreamURL, en_author = trim_space (eg_author e),
       en_description = trim_space (eg_description e), en_source_digest = nz_digest nz,
       en_source_document = nz_document nz,
       en_canonical = \<lparr> cn_api_version = ''dockside.gg/templates/v1'', cn_name = name,
         cn_description = trim_space (eg_description e), cn_source_kind = sourceKind, cn_category = trim_space category,
         cn_images = images, cn_default_image = (case map_of images (hd (sort (map fst images))) of None \<Rightarrow> [] | Some i \<Rightarrow> i), cn_startup_command = startup,
         cn_stop_command = rawString (map_of (eg_config e) ''stop''), cn_install_container = trim_space (eg_install_container e),
         cn_install_entrypoint = trim_space (eg_install_entrypoint e), cn_install_script = eg_install_script e,
         cn_variables = variables, cn_network_ports = ports, cn_command_transport = transport,
         cn_backup_defaults = eg_backup_defaults e, cn_resource_defaults = eg_resource_defaults e,
         cn_file_denylist = normalizeStringList (eg_file_denylist e), cn_features = eg_features e \<rparr>,
       en_compatible = True, en_warnings = concat (map (\<lambda>v. snd (normalized_variable nz v)) (eg_variables e)) \<rparr>))))))))))"

end
