(* ===== verification/Template_Properties.thy ===== *)
theory Template_Properties
  imports Template_Normalization Request_Validation Release_Properties
begin

text \<open>
  What an accepted template promises: its ports are requests the panel takes, and normalising what is
  normal changes nothing.
\<close>

section \<open>Normal text\<close>

lemma code_eq: "c = d \<longleftrightarrow> (of_char c :: nat) = of_char d"
  by simp

lemma is_space_code: "is_space c \<longleftrightarrow> (of_char c :: nat) \<in> {9, 10, 11, 12, 13, 32}"
  by (simp add: is_space_def code_eq del: of_char_eq_iff)

lemma to_lower_code: "(of_char (to_lower_char c) :: nat) = (let n = of_char c in if 65 \<le> n \<and> n \<le> 90 then n + 32 else n)"
  by (simp add: to_lower_char_def Let_def)

lemma to_upper_code: "(of_char (to_upper_char c) :: nat) = (let n = of_char c in if 97 \<le> n \<and> n \<le> 122 then n - 32 else n)"
  by (auto simp: to_upper_char_def Let_def intro!: mod_less)

lemma char_cases_keep [simp]:
  "is_space (to_lower_char c) = is_space c" "is_space (to_upper_char c) = is_space c"
  "to_lower_char (to_lower_char c) = to_lower_char c" "to_upper_char (to_upper_char c) = to_upper_char c"
  by (auto simp: is_space_code code_eq to_lower_code to_upper_code Let_def simp del: of_char_eq_iff)

lemma cases_idem [simp]: "to_lower (to_lower s) = to_lower s" "to_upper (to_upper s) = to_upper s"
  by (simp_all add: to_lower_def to_upper_def)

lemma trim_left_map: "(\<And>c. is_space (f c) = is_space c) \<Longrightarrow> trim_left (map f s) = map f (trim_left s)"
  by (induction s) (simp_all add: trim_left_def)

lemma trim_space_cases [simp]:
  "trim_space (to_lower s) = to_lower (trim_space s)" "trim_space (to_upper s) = to_upper (trim_space s)"
  by (simp_all add: trim_space_def to_lower_def to_upper_def trim_left_map rev_map)

lemma trim_left_id: "s = [] \<or> \<not> is_space (hd s) \<Longrightarrow> trim_left s = s"
  by (cases s) (auto simp: trim_left_def)

lemma trim_left_hd: "trim_left s = [] \<or> \<not> is_space (hd (trim_left s))"
  using hd_dropWhile [of is_space s] by (auto simp: trim_left_def)

lemma trim_space_idem [simp]: "trim_space (trim_space s) = trim_space s"
proof -
  define t where "t = trim_left s"
  define u where "u = trim_left (rev t)"
  have u: "u = [] \<or> \<not> is_space (hd u)" by (simp add: u_def trim_left_hd)
  obtain a where a: "rev t = a @ u" by (metis u_def trim_left_def takeWhile_dropWhile_id)
  have "trim_left (rev u) = rev u"
  proof (cases "u = []")
    case False
    from a have "t = rev u @ rev a" by (metis rev_append rev_rev_ident)
    with False trim_left_hd [of s] have "\<not> is_space (hd (rev u))" by (simp add: t_def)
    then show ?thesis by (simp add: trim_left_id)
  qed (simp add: trim_left_def)
  with u show ?thesis by (simp add: trim_space_def trim_left_id flip: t_def u_def)
qed

lemma trim_space_length: "length (trim_space s) \<le> length s"
proof -
  have "length (dropWhile p xs) \<le> length xs" for p :: "char \<Rightarrow> bool" and xs by (rule length_dropWhile_le)
  from this [of is_space "rev (dropWhile is_space s)"] this [of is_space s] show ?thesis
    by (simp add: trim_space_def trim_left_def)
qed

text \<open>The name of an environment variable is upper case and has no white space.\<close>

lemma name_char: "upper_or_underscore c \<or> is_digit c \<Longrightarrow> \<not> is_space c \<and> to_upper_char c = c"
  by (auto simp: upper_or_underscore_def is_digit_def is_space_code to_upper_char_def Let_def)

lemma environment_name_chars: "environment_name s \<Longrightarrow> c \<in> set s \<Longrightarrow> upper_or_underscore c \<or> is_digit c"
  by (auto simp: environment_name_def list_all_iff split: list.splits)

lemma no_spaces_trim: "\<forall>c \<in> set s. \<not> is_space c \<Longrightarrow> trim_space s = s"
proof -
  have keep: "\<forall>c \<in> set xs. \<not> is_space c \<Longrightarrow> trim_left xs = xs" for xs by (cases xs) (auto simp: trim_left_def)
  assume "\<forall>c \<in> set s. \<not> is_space c"
  with keep [of s] keep [of "rev s"] show ?thesis by (simp add: trim_space_def)
qed

lemma environment_name_normal:
  assumes "environment_name s" shows "trim_space s = s" "to_upper s = s"
  using environment_name_chars [OF assms] name_char
  by (auto intro!: no_spaces_trim simp: to_upper_def map_idI)

section \<open>Ports\<close>

definition normal_port :: "network_port \<Rightarrow> bool" where
  "normal_port p \<longleftrightarrow> normalized_port p = p \<and> \<not> invalid_port p \<and> published_port_of p = Inr p"

definition template_key :: "network_port \<Rightarrow> int \<times> string" where
  "template_key p = (np_container_port p, np_protocol p)"

lemma normalized_port_normal: "normalized_port (normalized_port p) = normalized_port p"
  by (simp add: normalized_port_def)

lemma normalized_port_id: "normalized_port p = p \<longleftrightarrow> trim_space (np_name p) = np_name p \<and>
    trim_space (np_purpose p) = np_purpose p \<and> to_lower (trim_space (np_protocol p)) = np_protocol p \<and>
    to_upper (trim_space (np_environment p)) = np_environment p"
  by (cases p) (simp add: normalized_port_def)

lemma published_port_of_cases:
  "published_port_of p = Inr q \<Longrightarrow> \<not> (np_internal_only p \<and> (np_primary p \<or> np_required p \<or> np_published p)) \<and>
     q = p\<lparr>np_required := np_primary p \<or> np_required p,
       np_published := np_primary p \<or> np_required p \<or> np_published p\<rparr>"
  by (cases p) (auto simp: published_port_of_def failed_def Let_def split: if_splits)

lemma published_port_of_id:
  "published_port_of p = Inr p \<longleftrightarrow> \<not> (np_internal_only p \<and> (np_primary p \<or> np_required p \<or> np_published p)) \<and>
     (np_primary p \<longrightarrow> np_required p) \<and> (np_required p \<longrightarrow> np_published p)"
  by (cases p) (auto simp: published_port_of_def failed_def Let_def)

lemma published_port_of_normal:
  assumes "published_port_of p = Inr q" "normalized_port p = p" "\<not> invalid_port p"
  shows "normal_port q \<and> template_key q = template_key p \<and> np_primary q = np_primary p"
  using published_port_of_cases [OF assms(1)] assms(2,3)
  by (auto simp: normal_port_def template_key_def normalized_port_id published_port_of_id invalid_port_def)

lemma explicit_ports_normal:
  "explicit_ports seen input = Inr ports \<Longrightarrow> length ports = length input \<and> (\<forall>p \<in> set ports. normal_port p) \<and>
     distinct (map template_key ports) \<and> template_key ` set ports \<inter> set seen = {}"
proof (induction input arbitrary: seen ports)
  case (Cons raw input)
  define p where "p = normalized_port raw"
  from Cons.prems obtain q qs where q: "\<not> invalid_port p" "template_key p \<notin> set seen" "published_port_of p = Inr q"
    "explicit_ports (template_key p # seen) input = Inr qs" "ports = q # qs"
    by (auto simp: p_def template_key_def failed_def Let_def dest!: and_then_InrD split: if_splits)
  from published_port_of_normal [OF q(3) _ q(1)] have "normal_port q" "template_key q = template_key p"
    by (simp_all add: p_def normalized_port_normal)
  with Cons.IH [OF q(4)] q(2,5) show ?case by auto
qed simp

lemma explicit_ports_id:
  "\<forall>p \<in> set ports. normal_port p \<Longrightarrow> distinct (map template_key ports) \<Longrightarrow> template_key ` set ports \<inter> set seen = {} \<Longrightarrow>
     explicit_ports seen ports = Inr ports"
  by (induction ports arbitrary: seen) (auto simp: normal_port_def template_key_def Let_def)

lemma explicit_network_ports:
  assumes "normalizeExplicitNetworkPorts input = Inr ports"
  shows "length ports \<le> 32" "\<forall>p \<in> set ports. normal_port p" "distinct (map template_key ports)"
    "length (filter np_primary ports) = 1"
proof -
  from assms have "explicit_ports [] input = Inr ports" "length input \<le> 32" "length (filter np_primary ports) = 1"
    by (auto simp: normalizeExplicitNetworkPorts_def check_that_def failed_def dest!: and_then_InrD split: if_splits)
  with explicit_ports_normal [OF this(1)] show "length ports \<le> 32" "\<forall>p \<in> set ports. normal_port p"
    "distinct (map template_key ports)" "length (filter np_primary ports) = 1" by auto
qed

text \<open>The request for a port of a template, and the port the panel makes of it.\<close>

definition request_for :: "network_port \<Rightarrow> create_port_request" where
  "request_for p = \<lparr> cp_container_port = np_container_port p, cp_protocol = np_protocol p, cp_purpose = np_purpose p,
     cp_environment = np_environment p, cp_primary = np_primary p \<rparr>"

definition requested_port :: "network_port \<Rightarrow> port_request" where
  "requested_port p = \<lparr> pq_id = [], pq_bind_address = [], pq_host_port = 0, pq_container_port = np_container_port p,
     pq_protocol = np_protocol p, pq_purpose = np_purpose p, pq_environment = np_environment p,
     pq_is_primary = np_primary p \<rparr>"

lemma normal_environment: "normal_port p \<Longrightarrow> trim_space (np_environment p) = np_environment p \<and>
    to_upper (np_environment p) = np_environment p"
  using environment_name_normal [of "np_environment p"]
  by (cases "np_environment p") (auto simp: normal_port_def invalid_port_def to_upper_def trim_space_def trim_left_def)

lemma accepted_request: "normal_port p \<Longrightarrow> accepted_create_port (request_for p) = Inr (requested_port p)"
  using normal_environment [of p]
  by (auto simp: accepted_create_port_def request_for_def requested_port_def normal_port_def invalid_port_def
      normalized_port_id Let_def)

lemma accepted_requests:
  "\<forall>p \<in> set ports. normal_port p \<Longrightarrow> distinct (map template_key ports) \<Longrightarrow> template_key ` set ports \<inter> set seen = {} \<Longrightarrow>
     accept_create_ports seen (map request_for ports) = Inr (map requested_port ports)"
proof (induction ports arbitrary: seen)
  case (Cons p ports)
  have key: "(pq_container_port (requested_port p), pq_protocol (requested_port p)) = template_key p"
    by (simp add: requested_port_def template_key_def)
  from Cons.prems have "accept_create_ports (template_key p # seen) (map request_for ports) = Inr (map requested_port ports)"
    by (intro Cons.IH) auto
  with Cons.prems accepted_request [of p] show ?case
    by (simp add: Let_def key)
qed simp

lemma normal_flags: "normal_port p \<Longrightarrow>
    \<not> (np_internal_only p \<and> np_published p) \<and> (np_primary p \<longrightarrow> np_published p) \<and> (np_required p \<longrightarrow> np_published p)"
  by (auto simp: normal_port_def published_port_of_id)

lemma published_requests_accepted:
  assumes "normalizeExplicitNetworkPorts input = Inr ports"
  shows "validateCreateServerPorts (map request_for (filter np_published ports)) =
    Inr (map requested_port (filter np_published ports))"
proof -
  note ports = explicit_network_ports [OF assms]
  have published: "accept_create_ports [] (map request_for (filter np_published ports)) =
      Inr (map requested_port (filter np_published ports))"
    by (rule accepted_requests) (use ports in \<open>auto simp: distinct_map intro: inj_on_subset\<close>)
  have primary: "filter pq_is_primary (map requested_port (filter np_published ports)) =
      map requested_port (filter np_primary ports)"
  proof -
    have "filter (\<lambda>p. np_primary p \<and> np_published p) ports = filter np_primary ports"
      by (rule filter_cong) (use ports(2) normal_flags in auto)
    then show ?thesis by (simp add: filter_map o_def requested_port_def conj_commute)
  qed
  obtain p where "p \<in> set ports" "np_primary p"
    using ports(4) by (metis One_nat_def filter_False length_0_conv old.nat.distinct(2) list.size(3))
  with ports(2) normal_flags have "filter np_published ports \<noteq> []" by (auto simp: filter_empty_conv)
  moreover have "length (filter np_published ports) \<le> 32" using ports(1) length_filter_le [of np_published ports] by linarith
  ultimately show ?thesis
    using published primary ports(4)
    by (simp add: validateCreateServerPorts_def one_primary_def Suc_le_eq)
qed

text \<open>An internal port that goes by the environment of a published one.\<close>

definition shadows :: "network_port list \<Rightarrow> bool" where
  "shadows ports \<longleftrightarrow> (\<exists>d \<in> set ports. \<exists>p \<in> set ports. np_internal_only d \<and> np_published p \<and>
     np_environment d \<noteq> [] \<and> np_environment d = np_environment p)"

lemma normal_matches:
  assumes "normal_port d" "normal_port p"
  shows "port_matches d (requested_port p) \<longleftrightarrow>
    (np_environment d \<noteq> [] \<and> np_environment d = np_environment p) \<or> template_key d = template_key p"
proof -
  have protocols: "np_container_port d > 0" "np_protocol d \<noteq> []" "to_lower (np_protocol d) = np_protocol d"
    "to_lower (np_protocol p) = np_protocol p"
    using assms by (auto simp: normal_port_def invalid_port_def normalized_port_id to_lower_def to_lower_char_def Let_def)
  with normal_environment [OF assms(1)] normal_environment [OF assms(2)] show ?thesis
    by (simp add: port_matches_def requested_port_def template_key_def Let_def)
qed

lemma policy_None: "validateTemplatePortPolicy defs allocated = None \<longleftrightarrow>
    (\<forall>d \<in> set defs. (np_internal_only d \<longrightarrow> (\<forall>p \<in> set allocated. \<not> port_matches d p)) \<and>
       (np_required d \<longrightarrow> (\<exists>p \<in> set allocated. port_matches d p)))"
  by (induction defs) (auto simp: Let_def)

lemma published_policy:
  assumes "\<forall>p \<in> set ports. normal_port p" "distinct (map template_key ports)"
  shows "validateTemplatePortPolicy ports (map requested_port (filter np_published ports)) = None \<longleftrightarrow> \<not> shadows ports"
proof -
  have own: "template_key d = template_key p \<longleftrightarrow> d = p" if "d \<in> set ports" "p \<in> set ports" for d p
    using assms(2) that by (auto simp: distinct_map dest: inj_onD)
  have found: "port_matches d (requested_port p) \<longleftrightarrow> (np_environment d \<noteq> [] \<and> np_environment d = np_environment p) \<or> d = p"
    if "d \<in> set ports" "p \<in> set ports" for d p
    using normal_matches [of d p] own [OF that] assms(1) that by auto
  have "np_required d \<Longrightarrow> \<exists>p \<in> set (filter np_published ports). port_matches d (requested_port p)" if "d \<in> set ports" for d
    using found [OF that that] normal_flags [of d] assms(1) that by auto
  moreover have "(\<forall>p \<in> set (filter np_published ports). \<not> port_matches d (requested_port p)) \<longleftrightarrow>
      (\<forall>p \<in> set ports. np_published p \<longrightarrow> \<not> (np_environment d \<noteq> [] \<and> np_environment d = np_environment p))"
    if "d \<in> set ports" "np_internal_only d" for d
    using found [OF that(1)] normal_flags [of d] assms(1) that by auto
  ultimately show ?thesis by (auto simp: policy_None shadows_def)
qed

text \<open>
  C28: an accepted template can be instantiated.  The ports a template declares are refused, or they
  become at most 32 ports with distinct numbers and exactly one primary, on which the normalisation
  does nothing more; the request for all its published ports is accepted as it stands by the panel's
  validation for a new server; and the template's own policy accepts these ports exactly when no
  internal port goes by the environment variable of a published one.
\<close>

theorem template_ports_instantiable:
  "case normalizeExplicitNetworkPorts input of
     Inl _ \<Rightarrow> True
   | Inr ports \<Rightarrow> length ports \<le> 32 \<and> length (filter np_primary ports) = 1 \<and> distinct (map template_key ports) \<and>
       normalizeExplicitNetworkPorts ports = Inr ports \<and>
       validateCreateServerPorts (map request_for (filter np_published ports)) =
         Inr (map requested_port (filter np_published ports)) \<and>
       (validateTemplatePortPolicy ports (map requested_port (filter np_published ports)) = None) = (\<not> shadows ports)"
proof (cases "normalizeExplicitNetworkPorts input")
  case (Inr ports)
  note facts = explicit_network_ports [OF Inr]
  have "explicit_ports [] ports = Inr ports" by (rule explicit_ports_id) (use facts in auto)
  with facts have "normalizeExplicitNetworkPorts ports = Inr ports"
    by (simp add: normalizeExplicitNetworkPorts_def check_that_def)
  with Inr facts published_requests_accepted [OF Inr] published_policy [OF facts(2,3)] show ?thesis by simp
qed simp

section \<open>Command transports\<close>

lemma and_then_Inr_iff: "and_then r f = Inr y \<longleftrightarrow> (\<exists>x. r = Inr x \<and> f x = Inr y)"
  by (cases r) simp_all

lemma check_that_Inr: "check_that b s = Inr u \<longleftrightarrow> b"
  by (simp add: check_that_def failed_def)

lemma failed_not_Inr [simp]: "failed s \<noteq> Inr x"
  by (simp add: failed_def)

lemma pair_case_Inr: "(case x of Inl e \<Rightarrow> Inl (g e) | Inr (m, p) \<Rightarrow> Inr (h m p)) = Inr r \<longleftrightarrow>
    (\<exists>m p. x = Inr (m, p) \<and> h m p = r)"
  by (auto split: sum.splits)

lemmas accepting = and_then_Inr_iff check_that_Inr

lemma literals_normal:
  "to_upper (trim_space ''POST'') = ''POST''" "trim_space ''/'' = ''/''" "to_lower (trim_space ''auto'') = ''auto''"
  "to_upper (trim_space ''RCON_PORT'') = ''RCON_PORT''" "to_upper (trim_space ''ADMIN_PASSWORD'') = ''ADMIN_PASSWORD''"
  by (simp_all add: trim_space_def trim_left_def is_space_def to_upper_def to_upper_char_def to_lower_def to_lower_char_def)

lemma request_normal:
  assumes "normalizeRESTRequest m p b h st = Inr (m', p')"
  shows "normalizeRESTRequest m' p' b h st = Inr (m', p')"
proof -
  define verb where "verb = (let v = to_upper (trim_space m) in if v = [] then ''POST'' else v)"
  define path where "path = (let q = trim_space p in if q = [] then ''/'' else q)"
  have normal: "to_upper (trim_space verb) = verb" "verb \<noteq> []" "trim_space path = path" "path \<noteq> []"
    using literals_normal by (auto simp: verb_def path_def Let_def)
  have run: "normalizeRESTRequest x y b h st =
      (if verb \<notin> {''GET'', ''POST'', ''PUT'', ''PATCH'', ''DELETE''} then failed ''method must be GET, POST, PUT, PATCH, or DELETE''
       else if \<not> prefix ''/'' path \<or> list_ex line_break path \<or> sublist ''://'' path \<or> length path > 2048
       then failed ''path must be a local absolute path''
       else if length b > 65536 \<or> length h > 24 then failed ''request definition is too large''
       else and_then (validateRESTStatuses st) (\<lambda>_. Inr (verb, path)))"
    if "(x, y) = (m, p) \<or> (x, y) = (verb, path)" for x y
    using that normal by (auto simp only: normalizeRESTRequest_def Let_def verb_def [unfolded Let_def] path_def [unfolded Let_def]
        prod.inject simp_thms if_True if_False split del: if_split)
  from assms have result: "(m', p') = (verb, path)"
    unfolding run [OF disjI1 [OF refl]] by (auto simp: and_then_Inr_iff split: if_split_asm)
  have "normalizeRESTRequest m' p' b h st = normalizeRESTRequest m p b h st"
    unfolding run [OF disjI1 [OF refl]] run [OF disjI2 [OF result]] ..
  with assms show ?thesis by simp
qed

lemma names_normal: "normalized_names seen raw = Inr names \<Longrightarrow>
    length names = length raw \<and> normalized_names seen names = Inr names"
proof (induction raw arbitrary: seen names)
  case (Cons a raw)
  from Cons.prems obtain ns where "rest_command_name (to_lower (trim_space a))" "to_lower (trim_space a) \<notin> set seen"
    "normalized_names (to_lower (trim_space a) # seen) raw = Inr ns" "names = to_lower (trim_space a) # ns"
    by (auto simp: accepting Let_def split: if_splits)
  with Cons.IH [OF this(3)] show ?case by (simp add: Let_def)
qed simp

lemma names_hd: "normalized_names seen (a # raw) = Inr names \<Longrightarrow> names = to_lower (trim_space a) # tl names"
  by (auto simp: accepting Let_def split: if_splits)

lemma route_normal:
  assumes "normalized_route seen r = Inr r'"
  shows "normalized_route seen r' = Inr r'"
proof -
  from assms obtain names m p where r:
    "rest_command_name (to_lower (trim_space (rr_command r)))" "length (trim_space (rr_usage r)) \<le> 256"
    "0 \<le> rr_min_args r" "rr_min_args r \<le> 32" "normalizeRESTHeaders (rr_headers r) = Inr ()"
    "normalized_names seen (to_lower (trim_space (rr_command r)) # rr_aliases r) = Inr names"
    "normalizeRESTRequest (rr_method r) (rr_path r) (rr_body_template r) (rr_headers r) (rr_accepted_status r) = Inr (m, p)"
    "r' = r\<lparr>rr_command := to_lower (trim_space (rr_command r)), rr_aliases := tl names,
      rr_usage := trim_space (rr_usage r), rr_method := m, rr_path := p\<rparr>"
    by (auto simp: normalized_route_def accepting pair_case_Inr Let_def simp del: normalized_names.simps)
  from names_hd [OF r(6)] have names: "to_lower (trim_space (rr_command r)) # tl names = names" by simp
  show ?thesis
    using r(1-5) names_normal [OF r(6)] request_normal [OF r(7)]
    by (simp add: normalized_route_def r(8) names check_that_def Let_def del: normalized_names.simps)
qed

lemma routes_normal: "normalized_routes seen rs = Inr rs' \<Longrightarrow>
    length rs' = length rs \<and> normalized_routes seen rs' = Inr rs'"
proof (induction rs arbitrary: seen rs')
  case (Cons r rs)
  from Cons.prems obtain r' rs'' where "normalized_route seen r = Inr r'"
    "normalized_routes (rev (rr_command r' # rr_aliases r') @ seen) rs = Inr rs''" "rs' = r' # rs''"
    by (auto simp: accepting)
  with Cons.IH [OF this(2)] route_normal [OF this(1)] show ?case by simp
qed simp

lemma auth_normal: "normalized_auth a = Inr a' \<Longrightarrow> normalized_auth a' = Inr a'"
  by (auto simp: normalized_auth_def Let_def split: option.splits if_splits)

lemma rest_normal:
  assumes "normalized_rest t = Inr t'"
  shows "normalized_rest t' = Inr t'"
proof -
  define env where "env = to_upper (trim_space (re_port_environment t))"
  define timeout where "timeout = (if re_timeout_seconds t = 0 then 10 else re_timeout_seconds t)"
  from assms obtain auth where t: "re_port t \<noteq> 0 \<or> env \<noteq> []"
    "0 \<le> re_port t" "re_port t \<le> 65535" "env = [] \<or> environment_name env" "1 \<le> timeout" "timeout \<le> 60"
    "normalizeRESTHeaders (re_headers t) = Inr ()" "validateRESTStatuses (re_accepted_status t) = Inr ()"
    "normalized_auth (re_basic_auth t) = Inr auth"
    "(if re_routes t = [] then
        and_then (normalizeRESTRequest (re_method t) (re_path t) (re_body_template t) (re_headers t) (re_accepted_status t))
          (\<lambda>(m, p). Inr (t\<lparr>re_port_environment := env, re_timeout_seconds := timeout, re_basic_auth := auth,
            re_method := m, re_path := p\<rparr>))
      else if length (re_routes t) > 64 then failed ''HTTP REST transport may declare at most 64 command routes''
      else and_then (normalized_routes [] (re_routes t)) (\<lambda>routes.
        Inr (t\<lparr>re_port_environment := env, re_timeout_seconds := timeout, re_basic_auth := auth,
          re_method := [], re_path := [], re_body_template := [], re_routes := routes\<rparr>))) = Inr t'"
    unfolding normalized_rest_def Let_def env_def [symmetric] timeout_def [symmetric] accepting by auto
  have env: "to_upper (trim_space env) = env" by (simp add: env_def)
  have timeout: "timeout \<noteq> 0" using t(5) by simp
  consider (request) m p where "re_routes t = []"
      "normalizeRESTRequest (re_method t) (re_path t) (re_body_template t) (re_headers t) (re_accepted_status t) = Inr (m, p)"
      "t' = t\<lparr>re_port_environment := env, re_timeout_seconds := timeout, re_basic_auth := auth, re_method := m, re_path := p\<rparr>"
    | (routes) routes where "re_routes t \<noteq> []" "length (re_routes t) \<le> 64" "normalized_routes [] (re_routes t) = Inr routes"
      "t' = t\<lparr>re_port_environment := env, re_timeout_seconds := timeout, re_basic_auth := auth,
          re_method := [], re_path := [], re_body_template := [], re_routes := routes\<rparr>"
    using t(10) by (auto simp: and_then_Inr_iff split: if_splits)
  then show ?thesis
  proof cases
    case request
    with t(1-9) env timeout auth_normal [OF t(9)] request_normal [OF request(2)] show ?thesis
      by (simp add: normalized_rest_def check_that_def Let_def)
  next
    case routes
    with t(1-9) env timeout auth_normal [OF t(9)] routes_normal [OF routes(3)] show ?thesis
      by (auto simp: normalized_rest_def check_that_def Let_def)
  qed
qed

lemma env_or_normal: "f \<noteq> [] \<Longrightarrow> env_or f (env_or f e) = (if to_upper (trim_space e) = [] then env_or f f else env_or f e)"
  by (simp add: env_or_def Let_def)

lemma transport_normal:
  assumes "normalizeCommandTransport input = Inr ct"
  shows "normalizeCommandTransport ct = Inr ct"
proof -
  define kind where "kind = (let k = to_lower (trim_space (ct_type input)) in if k = [] then ''auto'' else k)"
  have kind: "kind \<noteq> []" "to_lower (trim_space kind) = kind"
    using literals_normal by (auto simp: kind_def Let_def)
  have defaults: "env_or ''RCON_PORT'' (env_or ''RCON_PORT'' e) = env_or ''RCON_PORT'' e"
    "env_or ''ADMIN_PASSWORD'' (env_or ''ADMIN_PASSWORD'' e) = env_or ''ADMIN_PASSWORD'' e" for e
    using literals_normal by (simp_all add: env_or_def Let_def)
  from assms consider (plain) "kind \<in> {''auto'', ''stdin'', ''disabled''}" "ct = input\<lparr>ct_type := kind, ct_rest := None\<rparr>"
    | (rcon) port password where "kind = ''rcon''" "port = env_or ''RCON_PORT'' (ct_rcon_port_env input)"
      "password = env_or ''ADMIN_PASSWORD'' (ct_rcon_password_env input)" "environment_name port" "environment_name password"
      "ct = input\<lparr>ct_type := kind, ct_rcon_port_env := port, ct_rcon_password_env := password, ct_rest := None\<rparr>"
    | (rest) t t' where "kind = ''http_rest''" "ct_rest input = Some t" "normalized_rest t = Inr t'"
      "ct = input\<lparr>ct_type := kind, ct_rest := Some t'\<rparr>"
    unfolding normalizeCommandTransport_def Let_def kind_def
    by (auto simp: and_then_Inr_iff split: if_split_asm option.splits)
  then show ?thesis
  proof cases
    case plain
    with kind show ?thesis by (auto simp: normalizeCommandTransport_def Let_def)
  next
    case rcon
    with kind defaults show ?thesis by (simp add: normalizeCommandTransport_def Let_def)
  next
    case rest
    with kind rest_normal [OF rest(3)] show ?thesis by (simp add: normalizeCommandTransport_def Let_def)
  qed
qed

section \<open>Secrets\<close>

lemma prefix_without: "prefix f (c # b) \<Longrightarrow> c \<notin> set f \<Longrightarrow> f = []"
  by (cases f) auto

lemma sublist_of_words:
  assumes "sublist f (a @ c # b)" "c \<notin> set f" shows "sublist f a \<or> sublist f b"
proof -
  from assms(1) consider "sublist f a" | "prefix f (c # b)" | "sublist f b"
    | g h where "f = g @ h" "suffix g a" "prefix h (c # b)"
    unfolding sublist_append sublist_Cons_right by blast
  then show ?thesis
  proof cases
    case 4
    with assms(2) prefix_without [of h c b] show ?thesis by auto
  qed (use prefix_without [OF _ assms(2)] in auto)
qed

lemma trim_sublist: "sublist (trim_space s) s"
proof -
  have left: "suffix (trim_left xs) xs" for xs by (simp add: trim_left_def suffix_dropWhile)
  have "prefix (trim_space s) (trim_left s)"
    using left [of "rev (trim_left s)"] by (simp add: trim_space_def suffix_to_prefix)
  then show ?thesis using left [of s] by (meson prefix_imp_sublist suffix_imp_sublist sublist_order.order_trans)
qed

lemma to_upper_append: "to_upper (a @ b) = to_upper a @ to_upper b"
  by (simp add: to_upper_def)

lemma sublist_to_upper: "sublist a b \<Longrightarrow> sublist (to_upper a) (to_upper b)"
  unfolding sublist_def to_upper_append [symmetric] by (metis to_upper_append)

lemma mentions_trim:
  assumes "mentions fragments (to_upper (trim_space a @ '' '' @ trim_space b))" "list_all (\<lambda>f. CHR '' '' \<notin> set f) fragments"
  shows "mentions fragments (to_upper (a @ '' '' @ b))"
proof -
  have space: "to_upper (u @ '' '' @ v) = to_upper u @ CHR '' '' # to_upper v" for u v
    by (simp add: to_upper_def to_upper_char_def)
  from assms obtain f where f: "f \<in> set fragments" "CHR '' '' \<notin> set f"
    "sublist f (to_upper (trim_space a) @ CHR '' '' # to_upper (trim_space b))"
    by (auto simp: mentions_def list_ex_iff list_all_iff space simp del: append_Cons append_Nil)
  from sublist_of_words [OF f(3,2)] have "sublist f (to_upper a) \<or> sublist f (to_upper b)"
    by (meson sublist_order.order_trans sublist_to_upper trim_sublist)
  then have "sublist f (to_upper a @ CHR '' '' # to_upper b)"
    by (auto simp: sublist_append sublist_Cons_right)
  with f(1) show ?thesis by (auto simp: mentions_def list_ex_iff space simp del: append_Cons append_Nil)
qed

text \<open>A variable is named, and without a default when it is secret or its name says so.\<close>

definition keeps_no_secret :: "template_variable \<Rightarrow> bool" where
  "keeps_no_secret v \<longleftrightarrow> vr_environment v \<noteq> [] \<and>
     (vr_secret v \<or> looksSecret (vr_environment v) (vr_name v) \<longrightarrow> vr_secret v \<and> vr_default_value v = [])"

lemma looksSecret_trim: "looksSecret (trim_space e) (trim_space n) \<Longrightarrow> looksSecret e n"
  unfolding looksSecret_def by (erule mentions_trim) simp

lemma normalized_variables_keep_no_secret: "list_all keeps_no_secret (normalized_variables nz vs)"
  using looksSecret_trim
  by (auto simp: normalized_variables_def list_all_iff map_filter_def normalized_variable_def keeps_no_secret_def Let_def
      split: if_splits)

section \<open>Inferred ports and slugs\<close>

text \<open>A primary port is published and required.\<close>

definition open_primary :: "network_port \<Rightarrow> bool" where
  "open_primary p \<longleftrightarrow> (np_primary p \<longrightarrow> np_required p \<and> np_published p)"

lemma primary_names: "e \<in> {''SERVER_PORT'', ''GAME_PORT'', ''PORT''} \<Longrightarrow> \<not> mentions [''RCON'', ''TELNET'', ''ADMIN''] e"
  by (auto simp: mentions_def sublist_Cons_right)

lemma names_upper: "to_upper ''SERVER_PORT'' = ''SERVER_PORT''" "to_upper ''GAME_PORT'' = ''GAME_PORT''"
  by (simp_all add: to_upper_def to_upper_char_def)

lemma inferred_port_open: "inferred_port startup v = Some p \<Longrightarrow>
    open_primary p \<and> np_environment p \<noteq> [] \<and> to_upper (np_environment p) = np_environment p \<and>
    (np_environment p = ''SERVER_PORT'' \<longrightarrow> np_primary p)"
  using primary_names [of "to_upper (trim_space (vr_environment v))"] cases_idem(2) [of "trim_space (vr_environment v)"]
  by (auto simp: inferred_port_def open_primary_def Let_def names_upper split: option.splits if_splits)

lemma fold_add_port: "set (fold add_port ps acc) \<subseteq> set ps \<union> set acc"
proof (induction ps arbitrary: acc)
  case (Cons p ps)
  from Cons.IH [of "add_port p acc"] show ?case by (auto simp: add_port_def split: if_splits)
qed simp

lemma inferred_primary:
  "(\<exists>p \<in> set (inferNetworkPorts startup vs). np_primary p) \<and> (\<forall>p \<in> set (inferNetworkPorts startup vs). open_primary p)"
proof -
  define ports where "ports = fold add_port (List.map_filter (inferred_port startup) vs) []"
  have ports: "open_primary p \<and> np_environment p \<noteq> [] \<and> to_upper (np_environment p) = np_environment p \<and>
      (np_environment p = ''SERVER_PORT'' \<longrightarrow> np_primary p)" if "p \<in> set ports" for p
  proof -
    from that fold_add_port [of "List.map_filter (inferred_port startup) vs" "[]"]
    obtain v where "inferred_port startup v = Some p" by (auto simp: ports_def set_map_filter)
    then show ?thesis by (rule inferred_port_open)
  qed
  have game: "open_primary game_port" "np_primary game_port" "identity_of game_port = ''SERVER_PORT''"
    by (simp_all add: open_primary_def game_port_def identity_of_def names_upper)
  have key: "identity_of p = np_environment p" if "p \<in> set ports" for p
    using ports [OF that] by (simp add: identity_of_def)
  show ?thesis
  proof (cases "list_ex np_primary ports")
    case True
    with ports show ?thesis by (auto simp: inferNetworkPorts_def Let_def list_ex_iff simp flip: ports_def)
  next
    case False
    have "identity_of p \<noteq> ''SERVER_PORT''" if "p \<in> set ports" for p
      using False ports [OF that] key [OF that] that by (auto simp: list_ex_iff)
    then have "''SERVER_PORT'' \<notin> identity_of ` set ports" by force
    with game(3) have "add_port game_port ports = ports @ [game_port]" by (simp add: add_port_def)
    with False ports game show ?thesis by (auto simp: inferNetworkPorts_def Let_def simp flip: ports_def)
  qed
qed

lemma explicit_primary:
  assumes "normalizeExplicitNetworkPorts input = Inr ports"
  shows "(\<exists>p \<in> set ports. np_primary p) \<and> (\<forall>p \<in> set ports. open_primary p)"
proof -
  note facts = explicit_network_ports [OF assms]
  from facts(4) have "filter np_primary ports \<noteq> []" by auto
  with facts(2) show ?thesis by (auto simp: filter_empty_conv open_primary_def normal_port_def published_port_of_id)
qed

definition valid_slug :: "string \<Rightarrow> bool" where
  "valid_slug s \<longleftrightarrow> s \<noteq> [] \<and> length s \<le> 110 \<and> list_all (\<lambda>c. slug_char c \<or> c = CHR ''-'') s"

lemma dashed_chars: "c \<in> set (dashed w s) \<Longrightarrow> slug_char c \<or> c = CHR ''-''"
  by (induction w s rule: dashed.induct) (auto split: if_splits)

lemma trim_dashes_part: "set (trim_dashes s) \<subseteq> set s \<and> length (trim_dashes s) \<le> length s"
proof -
  have part: "set (dropWhile p xs) \<subseteq> set xs \<and> length (dropWhile p xs) \<le> length xs" for p :: "char \<Rightarrow> bool" and xs
    using set_dropWhileD [of _ p xs] length_dropWhile_le [of p xs] by auto
  show ?thesis
    using part [of "\<lambda>c. c = CHR ''-''" s] part [of "\<lambda>c. c = CHR ''-''" "rev (dropWhile (\<lambda>c. c = CHR ''-'') s)"]
    unfolding trim_dashes_def set_rev length_rev by (meson order_trans)
qed

lemma slug_valid: "valid_slug (slug raw)"
proof -
  define v where "v = trim_dashes (dashed False (to_lower (trim_space raw)))"
  define short where "short = (if length v > 110 then trim_dashes (take 110 v) else v)"
  have "set v \<subseteq> set (dashed False (to_lower (trim_space raw)))" using trim_dashes_part by (simp add: v_def)
  then have chars: "slug_char c \<or> c = CHR ''-''" if "c \<in> set v" for c using that dashed_chars by blast
  have "set short \<subseteq> set v \<and> length short \<le> 110"
    using trim_dashes_part [of "take 110 v"] set_take_subset [of 110 v] by (auto simp: short_def)
  with chars have "short \<noteq> [] \<Longrightarrow> valid_slug short" by (auto simp: valid_slug_def list_all_iff)
  moreover have "valid_slug ''template''" by (simp add: valid_slug_def slug_char_def)
  ultimately show ?thesis unfolding slug_def Let_def v_def [symmetric] short_def [symmetric] by simp
qed

section \<open>Accepted documents\<close>

text \<open>
  What an accepted document keeps: an image of its own by default, no blank image, no secret in a
  default, settings that normalisation leaves alone, and a primary port that is published.
\<close>

definition acceptable :: "canonical_template \<Rightarrow> bool" where
  "acceptable c \<longleftrightarrow> cn_default_image c \<in> snd ` set (cn_images c) \<and>
     list_all (\<lambda>(n, i). trim_space n \<noteq> [] \<and> trim_space i \<noteq> []) (cn_images c) \<and>
     list_all keeps_no_secret (cn_variables c) \<and>
     normalizeCommandTransport (cn_command_transport c) = Inr (cn_command_transport c) \<and>
     validateBackupDefaults (cn_backup_defaults c) = Inr () \<and> validateResourceDefaults (cn_resource_defaults c) = Inr () \<and>
     (\<exists>p \<in> set (cn_network_ports c). np_primary p) \<and> (\<forall>p \<in> set (cn_network_ports c). open_primary p)"

lemma first_image:
  assumes "images \<noteq> []"
  shows "(case map_of images (hd (sort (map fst images))) of None \<Rightarrow> [] | Some i \<Rightarrow> i) \<in> snd ` set images"
proof -
  from assms have "hd (sort (map fst images)) \<in> set (sort (map fst images))" by (intro hd_in_set) (metis length_0_conv length_map length_sort)
  then have "map_of images (hd (sort (map fst images))) \<noteq> None" by (simp add: map_of_eq_None_iff)
  then obtain i where "map_of images (hd (sort (map fst images))) = Some i" by blast
  with map_of_SomeD [OF this] show ?thesis by force
qed

text \<open>
  C29: what an accepted template document holds.  Whatever egg is imported, it is refused, or the
  template has a name, a slug of at most 110 letters, digits and dashes, and an acceptable canonical
  document: its default image is one of its images, none of which is blank; no variable that is secret
  or whose name suggests a password, token or key keeps a default; its console transport is a fixed
  point of the normalisation and its backup and resource defaults are valid; it has a primary port, and
  primary ports are required and published.
\<close>

theorem accepted_template:
  "case Normalize nz sourceKind category upstreamURL document of
     Inl _ \<Rightarrow> True
   | Inr t \<Rightarrow> en_name t \<noteq> [] \<and> valid_slug (en_slug t) \<and> acceptable (en_canonical t)"
proof (cases "Normalize nz sourceKind category upstreamURL document")
  case (Inr t)
  then obtain e images ports where
    t: "trim_space (eg_name e) \<noteq> []" "images \<noteq> []" "list_all (\<lambda>(n, i). trim_space n \<noteq> [] \<and> trim_space i \<noteq> []) images"
      "(if eg_network_ports e = [] then Inr (inferNetworkPorts (nz_advertised nz (startup_of e)) (normalized_variables nz (eg_variables e)))
        else normalizeExplicitNetworkPorts (eg_network_ports e)) = Inr ports"
      "normalizeCommandTransport (eg_command_transport e) = Inr (cn_command_transport (en_canonical t))"
      "validateBackupDefaults (eg_backup_defaults e) = Inr ()" "validateResourceDefaults (eg_resource_defaults e) = Inr ()"
    and fields: "en_name t = trim_space (eg_name e)" "en_slug t = slug (sourceKind @ ''-'' @ category @ ''-'' @ trim_space (eg_name e))"
      "cn_images (en_canonical t) = images" "cn_network_ports (en_canonical t) = ports"
      "cn_default_image (en_canonical t) = (case map_of images (hd (sort (map fst images))) of None \<Rightarrow> [] | Some i \<Rightarrow> i)"
      "cn_variables (en_canonical t) = normalized_variables nz (eg_variables e)"
      "cn_backup_defaults (en_canonical t) = eg_backup_defaults e" "cn_resource_defaults (en_canonical t) = eg_resource_defaults e"
    unfolding Normalize_def Let_def accepting by auto
  have "(\<exists>p \<in> set ports. np_primary p) \<and> (\<forall>p \<in> set ports. open_primary p)"
    using t(4) inferred_primary explicit_primary by (auto split: if_splits)
  then have "acceptable (en_canonical t)"
    unfolding acceptable_def fields
    using t(3,6,7) transport_normal [OF t(5)] first_image [OF t(2)] normalized_variables_keep_no_secret by auto
  with Inr t(1) slug_valid show ?thesis by (simp add: fields)
qed simp

end
