(* ===== verification/Spec2Isabelle.thy ===== *)
theory Spec2Isabelle
  imports Panel Server_Properties Recovery_Properties Port_Properties Backup_Properties
    Schedule_Properties Queue_Properties Address_Properties Access_Properties Role_Properties
    Panel_Properties Configuration_Properties Maintenance_Properties Release_Properties Request_Properties
    Engine_Properties Engine_Isolation Engine_Backup_Properties Composition_Properties Template_Properties
begin

text \<open>
  A model of the Dockside game panel, and the theorems that make it correct.

  \<^bold>\<open>The program.\<close>  Two Go processes manage game servers.  The \<^emph>\<open>panel\<close> answers HTTP requests
  (\<open>internal/httpapi\<close>), keeps everything in PostgreSQL (\<open>internal/store\<close>) and runs a worker
  (\<open>internal/worker\<close>).  The \<^emph>\<open>engine\<close> (\<open>internal/engine\<close>) is the only process that talks to Docker; the
  panel reaches it through \<open>internal/engineclient\<close>.  A handler of the panel checks who asks
  (\<open>middleware.go\<close>), validates the request, and runs one transaction of the store, which also writes
  what is to be done as an event of the outbox.  The worker leases the oldest event, calls the engine
  and the store, and settles the event.  A reconciliation compares the database with the containers
  the engine reports (\<open>telemetry.go\<close>) and queues recoveries.  Webhooks are delivered from a second leased
  queue, which a trigger of the database fills.

  \<^bold>\<open>How it is modelled.\<close>  A row is a record, a table a list of rows, the database a record of tables
  (\<open>Schema\<close>).  A statement maps a database to an error or a database and tests the CHECK, key and
  foreign key constraints of the schema (\<open>Statements\<close>); a transaction is a sequence of statements
  (\<open>exec\<close>) whose error leaves the database alone.  Times are microseconds, durations nanoseconds, both
  integers; strings are byte strings; Go errors are values of the type \<open>error\<close>, with sentinels and
  wrapping.  Integers are unbounded except where the code relies on their width: addresses are words.
  An action of the worker (\<open>Worker\<close>) runs in a world of the database and the trace of its calls, under
  an environment that gives the time, answers the engine's calls and can make every call fail.  An
  operation of the engine (\<open>Engine_Calls\<close>) maps the list of Docker calls made so far to a result and the
  longer list; what Docker answers is an arbitrary function of that list, so every theorem holds
  for every sequence of failures.  Parameters stand for what the source does not define: Docker, the file system, tar,
  gzip, hashes, AES-GCM, the cron parser, the time zones, \<open>path.Match\<close>, the resolver, HTTP transports
  and random identifiers (drawn from a list of fresh ones).

  \<^bold>\<open>The shared layer.\<close>  \<open>Prelude\<close>: errors, times, Go strings, JSON, tables, statements, the rules
  \<open>preserves\<close>, \<open>frames\<close> and \<open>sat\<close> for them, and the locale \<open>inductive_invariant\<close>.  \<open>Schema\<close>,
  \<open>Statements\<close>: \<open>internal/db/migrations/0001_initial.sql\<close>.  \<open>Integrity\<close>: the invariant \<open>db_ok\<close> and that
  every statement keeps it.  \<open>Evolution\<close>: the relation \<open>evolves\<close> between a database and its
  successors.  \<open>Queues\<close>: the locales \<open>lease_queue\<close> and \<open>retry_policy\<close> of the two leased queues.
  \<open>Examples\<close>: a small database at which theorems are applied.

  \<^bold>\<open>The store.\<close>  \<open>Servers\<close>, \<open>Provisioning\<close> (\<open>store/servers.go\<close>): life cycle, port allocation, creation.
  \<open>Telemetry\<close> (\<open>telemetry.go\<close>): reconciliation and recovery.  \<open>Backups\<close>, \<open>Schedules\<close>,
  \<open>Template_Updates\<close>, \<open>Webhook_Queue\<close> (files of these names).  \<open>Configuration\<close>,
  \<open>Configuration_Commits\<close> (\<open>configuration.go\<close>): effective values, rendering, candidates, versioned
  commits.  \<open>Accounts\<close> (\<open>store.go\<close>), \<open>Access\<close> (\<open>access.go\<close> and the gates of \<open>middleware.go\<close>).  \<open>Outbox\<close>:
  claiming and settling events (\<open>worker.go\<close>).  Each closes with its contracts: it keeps \<open>db_ok\<close> and
  \<open>evolves\<close>.

  \<^bold>\<open>The panel.\<close>  \<open>Worker\<close>, \<open>Runtime_Handlers\<close> (\<open>worker.go\<close>): every event handler.  The locale
  \<open>store_contract\<close> states what a handler needs of the store, \<open>runtime_contract\<close> extends it; both are
  interpreted for integrity and for evolution.  \<open>Request_Validation\<close>, \<open>Request_Handlers\<close>
  (\<open>server_handlers.go\<close>, \<open>configuration_handlers.go\<close>), \<open>Maintenance_Handlers\<close> (\<open>backup_handlers.go\<close>,
  \<open>schedule_handlers.go\<close>).  \<open>Webhooks\<close> (\<open>webhooks/client.go\<close>), \<open>Releases\<close> (\<open>updates/releases.go\<close>),
  \<open>Templates\<close>, \<open>Template_Normalization\<close> (\<open>templates/model.go\<close>, \<open>normalize.go\<close>).  \<open>Access_Control\<close>,
  \<open>Account_Rules\<close>, \<open>Account_Frame\<close>: the account operations as one step relation with the locales
  \<open>account_rules\<close> and \<open>account_blind\<close>.  \<open>Panel\<close>: every committed operation as one step relation
  \<open>panel_step\<close>, with the invariant \<open>panel_ok\<close> by rule induction.

  \<^bold>\<open>The engine.\<close>  \<open>Paths\<close>: \<open>path.Clean\<close> and walking a path.  \<open>Engine_Calls\<close>: operations, Docker calls,
  \<open>observed\<close> and \<open>triple\<close>.  \<open>Engine_Runtime\<close>, \<open>Engine_Containers\<close> (\<open>provision.go\<close>, \<open>server.go\<close>),
  \<open>Engine_Files\<close> (\<open>files.go\<close>), \<open>Engine_Backups\<close> (\<open>backups.go\<close>).  \<open>Engine_Ownership\<close>: what is created and
  not yet removed.  \<open>Engine_Restore\<close>: what a restore does to a volume.  \<open>Engine_Isolation\<close>: what all
  the handlers have in common.

  \<^bold>\<open>What is proved.\<close>  The numbered claims stand in the theories named \<open>_Properties\<close> and in
  \<open>Engine_Isolation\<close>; each says under which conditions it holds.
  \<^item> Servers: the table of accepted power requests; a stop wins over everything started earlier;
    recoveries are unique and bounded; a server counts as deleted after two observations only; ports
    are free and distinct, and the greedy allocation is complete; maintenance excludes maintenance.
  \<^item> Runs of the panel: every reachable database satisfies its schema; deleted servers stay deleted
    and refuse power, maintenance and configuration changes; configuration changes are never lost.
  \<^item> Schedules and queues: no run beside an active one by coming due, due schedules recorded and moved
    on; an event leased is nobody else's until it is given back or the lease ends, stale workers are
    ignored, and a pass settles the event it claimed unless that was closed meanwhile.
  \<^item> Accounts: roles on servers below the panel role, one owner, invites used once, ended sessions stay
    dead, access is what was requested.
  \<^item> Configuration: rendering equals its specification in every order of a map; a rebuilt container is
    the provisioned one; a change is refused, committed as requested, or the previous container is
    asked for again.
  \<^item> Maintenance: a stopped server is started again; a rollback returns to the previous version; a
    cancelled deletion restores a backup whose status agrees with its archive.
  \<^item> Engine: accepted paths are those that never leave the server's directory; the handlers for servers,
    files and backups stay with their server, in its containers, resources and backup directory, and
    remove what they created when they fail; a restore never clears a volume without something to put
    back, whatever Docker answers.
  \<^item> Templates: an accepted document holds no secret, is normal, and its published ports are ports
    the panel accepts.
  \<^item> Composition: the panel, the worker and the engine agree on what they accept.

  \<^bold>\<open>Bounds.\<close>  Recursive definitions terminate by structure or by a measure, so none has fuel; the retry
  bounds (ten webhook attempts, five recoveries, leases of five minutes) are those of the code.

  \<^bold>\<open>Not modelled.\<close>  The endless loops around the worker's steps, their goroutines and tickers; decoding
  of requests and encoding of responses; projections that only read (\<open>activity.go\<close>, \<open>diagnostics.go\<close>,
  \<open>ListServers\<close>, \<open>Dashboard\<close>); the engine's console, statistics, host metrics and self-update
  (\<open>console.go\<close>, \<open>stats.go\<close>, \<open>update.go\<close>, \<open>update_helper.go\<close>), which stream over connections and replace
  the panel's own containers; server databases, which are SQL and shell text run in side containers
  with a volume of their own (only their removal with the server is modelled); synchronisation, seeds and exports of templates; the Discord client; configuration, logging and start-up.
  White space and letter case are those of ASCII; transactions are taken one after another, in the
  order in which they commit; a commit whose acknowledgement is lost, a failing claim or report of the
  outbox loop, and the goroutine that follows an installer's log are left out.
\<close>

end
